(* ===== verification/Prelude.thy ===== *)
theory Prelude
  imports Main "HOL-Library.Char_ord" "HOL-Library.List_Lexorder"
begin

text \<open>
  Shared vocabulary of the development: Python exceptions as values of a sum type, computations
  that change a state and may raise, the guard chains that every \<^verbatim>\<open>__post_init__\<close> of the hub is
  made of, the part of \<^verbatim>\<open>str\<close> the code uses, \<^verbatim>\<open>StrEnum\<close> classes as a locale, and the generic list
  lemmas that the component theories rely on.

  Strings are character lists over the code points below 256. \<^verbatim>\<open>str.strip\<close> is exact on
  that alphabet; \<^verbatim>\<open>str.upper\<close> and \<^verbatim>\<open>str.isalpha\<close> are exact on ASCII text.
\<close>

section \<open>Collections of facts\<close>

named_theorems result_simps \<open>rewriting of computations that may raise\<close>
named_theorems str_simps \<open>evaluation of the string primitives\<close>
named_theorems enum_values \<open>value tables of the string enumerations\<close>

section \<open>Exceptions as values\<close>

type_synonym ('e, 'a) result = "'e + 'a"

definition ebind :: "('e, 'a) result \<Rightarrow> ('a \<Rightarrow> ('e, 'b) result) \<Rightarrow> ('e, 'b) result" where
  "ebind m f = (case m of Inl e \<Rightarrow> Inl e | Inr x \<Rightarrow> f x)"

lemma ebind_simps [simp, result_simps]:
  "ebind (Inl e) f = Inl e"
  "ebind (Inr x) f = f x"
  by (simp_all add: ebind_def)

lemma ebind_Inr_iff [result_simps]: "ebind m f = Inr y \<longleftrightarrow> (\<exists>x. m = Inr x \<and> f x = Inr y)"
  by (cases m) auto

lemma ebind_Inl_iff [result_simps]:
  "ebind m f = Inl e \<longleftrightarrow> m = Inl e \<or> (\<exists>x. m = Inr x \<and> f x = Inl e)"
  by (cases m) auto

lemma ebind_cong [fundef_cong]:
  "m = m' \<Longrightarrow> (\<And>x. m' = Inr x \<Longrightarrow> f x = g x) \<Longrightarrow> ebind m f = ebind m' g"
  by (cases m') auto

text \<open>A Python \<^verbatim>\<open>for\<close> comprehension whose body may raise: the first failure wins.\<close>

fun emap :: "('a \<Rightarrow> ('e, 'b) result) \<Rightarrow> 'a list \<Rightarrow> ('e, 'b list) result" where
  "emap f [] = Inr []"
| "emap f (x # xs) = ebind (f x) (\<lambda>y. ebind (emap f xs) (\<lambda>ys. Inr (y # ys)))"

lemma emap_Inr: "(\<And>x. x \<in> set xs \<Longrightarrow> f x = Inr (g x)) \<Longrightarrow> emap f xs = Inr (map g xs)"
  by (induction xs) auto

lemma emap_inverse:
  "(\<And>x. x \<in> set xs \<Longrightarrow> f (h x) = Inr x) \<Longrightarrow> emap f (map h xs) = Inr xs"
  by (induction xs) auto

lemma emap_cong [fundef_cong]:
  "xs = ys \<Longrightarrow> (\<And>x. x \<in> set ys \<Longrightarrow> f x = g x) \<Longrightarrow> emap f xs = emap g ys"
  by (induction ys arbitrary: xs) auto

lemma emap_length: "emap f xs = Inr ys \<Longrightarrow> length ys = length xs"
  by (induction xs arbitrary: ys) (auto simp: ebind_Inr_iff)

lemma emap_Inr_nth: "emap f xs = Inr ys \<longleftrightarrow> list_all2 (\<lambda>x y. f x = Inr y) xs ys"
proof (induction xs arbitrary: ys)
  case Nil
  then show ?case by auto
next
  case (Cons x xs)
  then show ?case by (cases ys) (auto simp: ebind_Inr_iff)
qed

section \<open>Guard chains\<close>

text \<open>
  A \<^verbatim>\<open>__post_init__\<close> is a sequence of \<^verbatim>\<open>if bad: raise error\<close> statements. The list holds each
  condition with the error it raises, in source order.
\<close>

type_synonym 'e check = "bool \<times> 'e"

fun run_checks :: "'e check list \<Rightarrow> ('e, unit) result" where
  "run_checks [] = Inr ()"
| "run_checks ((bad, e) # cs) = (if bad then Inl e else run_checks cs)"

definition mk_checked :: "('a \<Rightarrow> 'e check list) \<Rightarrow> 'a \<Rightarrow> ('e, 'a) result" where
  "mk_checked checks x = ebind (run_checks (checks x)) (\<lambda>_. Inr x)"

definition valid_by :: "('a \<Rightarrow> 'e check list) \<Rightarrow> 'a \<Rightarrow> bool" where
  "valid_by checks x \<longleftrightarrow> list_all (\<lambda>c. \<not> fst c) (checks x)"

lemma run_checks_ok: "run_checks cs = Inr u \<longleftrightarrow> list_all (\<lambda>c. \<not> fst c) cs"
  by (induction cs rule: run_checks.induct) auto

lemma run_checks_append:
  "run_checks (cs @ ds) = ebind (run_checks cs) (\<lambda>_. run_checks ds)"
  by (induction cs rule: run_checks.induct) auto

lemma run_checks_map_constant:
  "run_checks (map (\<lambda>x. (P x, e)) xs) = (if list_all (\<lambda>x. \<not> P x) xs then Inr () else Inl e)"
  by (induction xs) auto

lemma mk_checked_Inr_iff [result_simps]: "mk_checked checks x = Inr y \<longleftrightarrow> y = x \<and> valid_by checks x"
  by (auto simp: mk_checked_def valid_by_def ebind_Inr_iff run_checks_ok)

lemma mk_checked_valid [simp]: "valid_by checks x \<Longrightarrow> mk_checked checks x = Inr x"
  by (simp add: mk_checked_Inr_iff)

section \<open>Stateful computations that may raise\<close>

text \<open>
  A method that writes to the database session or calls a remote system takes the state and
  returns it together with its result or the exception it raises. An exception keeps the
  state reached so far; only an explicit rollback restores an earlier one.
\<close>

type_synonym ('s, 'e, 'a) action = "'s \<Rightarrow> ('e, 'a) result \<times> 's"

definition act_return :: "'a \<Rightarrow> ('s, 'e, 'a) action" where
  "act_return x s = (Inr x, s)"

definition act_raise :: "'e \<Rightarrow> ('s, 'e, 'a) action" where
  "act_raise e s = (Inl e, s)"

definition act_lift :: "('e, 'a) result \<Rightarrow> ('s, 'e, 'a) action" where
  "act_lift r s = (r, s)"

definition act_bind :: "('s, 'e, 'a) action \<Rightarrow> ('a \<Rightarrow> ('s, 'e, 'b) action) \<Rightarrow> ('s, 'e, 'b) action" where
  "act_bind m f s = (case m s of (Inl e, s') \<Rightarrow> (Inl e, s') | (Inr x, s') \<Rightarrow> f x s')"

lemma act_simps [simp, result_simps]:
  "act_return x s = (Inr x, s)"
  "act_raise e s = (Inl e, s)"
  "act_lift r s = (r, s)"
  by (simp_all add: act_return_def act_raise_def act_lift_def)

lemma act_bind_Inl: "m s = (Inl e, s') \<Longrightarrow> act_bind m f s = (Inl e, s')"
  by (simp add: act_bind_def)

lemma act_bind_Inr: "m s = (Inr x, s') \<Longrightarrow> act_bind m f s = f x s'"
  by (simp add: act_bind_def)

lemma act_bind_cases:
  assumes "act_bind m f s = (r, t)"
  obtains (raised) e where "m s = (Inl e, t)" "r = Inl e"
    | (returned) x s' where "m s = (Inr x, s')" "f x s' = (r, t)"
  using assms by (auto simp: act_bind_def split: prod.splits sum.splits)

lemma act_bind_success:
  assumes "act_bind m f s = (Inr y, t)"
  obtains x s' where "m s = (Inr x, s')" "f x s' = (Inr y, t)"
  using assms by (auto elim: act_bind_cases)

section \<open>Strings\<close>

definition py_space :: "char \<Rightarrow> bool" where
  "py_space c \<longleftrightarrow> (let n = (of_char c :: nat) in
     (9 \<le> n \<and> n \<le> 13) \<or> (28 \<le> n \<and> n \<le> 32) \<or> n = 133 \<or> n = 160)"

definition py_strip :: "string \<Rightarrow> string" where
  "py_strip s = rev (dropWhile py_space (rev (dropWhile py_space s)))"

text \<open>The test \<^verbatim>\<open>not value.strip()\<close> that \<^verbatim>\<open>_require_text\<close> raises on.\<close>

definition blank :: "string \<Rightarrow> bool" where
  "blank s \<longleftrightarrow> py_strip s = []"

lemma blank_iff: "blank s \<longleftrightarrow> list_all py_space s"
proof -
  have "rev (dropWhile py_space (rev ys)) = [] \<longleftrightarrow> list_all py_space ys" for ys
    by (simp add: dropWhile_eq_Nil_conv list_all_iff)
  moreover have "list_all py_space (dropWhile py_space s) \<longleftrightarrow> list_all py_space s"
    by (induction s) auto
  ultimately show ?thesis
    by (simp add: blank_def py_strip_def)
qed

lemma blank_Nil [simp]: "blank []"
  by (simp add: blank_iff)

lemma blank_Cons: "blank (c # s) \<longleftrightarrow> py_space c \<and> blank s"
  by (simp add: blank_iff)

lemma blank_append: "blank (s @ t) \<longleftrightarrow> blank s \<and> blank t"
  by (simp add: blank_iff)

lemmas blank_eval [str_simps] = blank_Nil blank_Cons py_space_def Let_def

text \<open>An optional text that must not be blank when it is given.\<close>

definition blank_opt :: "string option \<Rightarrow> bool" where
  "blank_opt v \<longleftrightarrow> (case v of None \<Rightarrow> False | Some s \<Rightarrow> blank s)"

lemma blank_opt_simps [simp]: "\<not> blank_opt None" "blank_opt (Some s) = blank s"
  by (simp_all add: blank_opt_def)

definition ascii_lower :: "char \<Rightarrow> bool" where
  "ascii_lower c \<longleftrightarrow> 97 \<le> (of_char c :: nat) \<and> (of_char c :: nat) \<le> 122"

definition ascii_upper :: "char \<Rightarrow> bool" where
  "ascii_upper c \<longleftrightarrow> 65 \<le> (of_char c :: nat) \<and> (of_char c :: nat) \<le> 90"

definition ascii_alpha :: "char \<Rightarrow> bool" where
  "ascii_alpha c \<longleftrightarrow> ascii_lower c \<or> ascii_upper c"

definition upper_char :: "char \<Rightarrow> char" where
  "upper_char c = (if ascii_lower c then char_of ((of_char c :: nat) - 32) else c)"

definition py_upper :: "string \<Rightarrow> string" where
  "py_upper s = map upper_char s"

definition py_isalpha :: "string \<Rightarrow> bool" where
  "py_isalpha s \<longleftrightarrow> s \<noteq> [] \<and> list_all ascii_alpha s"

lemma ascii_upper_upper_char: "ascii_lower c \<Longrightarrow> ascii_upper (upper_char c)"
proof -
  assume lower: "ascii_lower c"
  then have "(of_char c - 32 :: nat) mod 256 = of_char c - 32"
    by (intro mod_less) (auto simp: ascii_lower_def)
  with lower show ?thesis
    by (auto simp: ascii_upper_def ascii_lower_def upper_char_def)
qed

lemma upper_char_idem [simp]: "upper_char (upper_char c) = upper_char c"
proof (cases "ascii_lower c")
  case True
  then have "ascii_upper (upper_char c)" by (rule ascii_upper_upper_char)
  then have "\<not> ascii_lower (upper_char c)" by (simp add: ascii_upper_def ascii_lower_def)
  then show ?thesis by (simp add: upper_char_def)
next
  case False
  then show ?thesis by (simp add: upper_char_def)
qed

lemma py_upper_idem [simp]: "py_upper (py_upper s) = py_upper s"
  by (simp add: py_upper_def comp_def)

lemma ascii_alpha_upper_char [simp]: "ascii_alpha (upper_char c) = ascii_alpha c"
  using ascii_upper_upper_char [of c] by (auto simp: ascii_alpha_def upper_char_def)

lemma py_isalpha_upper [simp]: "py_isalpha (py_upper s) = py_isalpha s"
  by (simp add: py_isalpha_def py_upper_def list_all_iff)

lemma length_py_upper [simp]: "length (py_upper s) = length s"
  by (simp add: py_upper_def)

lemma not_space_alpha: "ascii_alpha c \<Longrightarrow> \<not> py_space c"
  by (auto simp: ascii_alpha_def ascii_lower_def ascii_upper_def py_space_def Let_def)

lemma py_strip_no_space: "list_all (\<lambda>c. \<not> py_space c) s \<Longrightarrow> py_strip s = s"
proof -
  have "dropWhile py_space s = s" if "list_all (\<lambda>c. \<not> py_space c) s" for s
    using that by (cases s) auto
  then show "list_all (\<lambda>c. \<not> py_space c) s \<Longrightarrow> py_strip s = s"
    by (simp add: py_strip_def list_all_rev)
qed

lemma py_strip_alpha: "py_isalpha s \<Longrightarrow> py_strip s = s"
  by (rule py_strip_no_space) (auto simp: py_isalpha_def list_all_iff dest: not_space_alpha)

lemma py_space_upper_char [simp]: "py_space (upper_char c) = py_space c"
proof (cases "ascii_lower c")
  case True
  then have "ascii_alpha c" by (simp add: ascii_alpha_def)
  then show ?thesis using not_space_alpha [of c] not_space_alpha [of "upper_char c"] by simp
qed (simp add: upper_char_def)

lemma py_strip_upper: "py_strip (py_upper s) = py_upper (py_strip s)"
proof -
  have "py_space \<circ> upper_char = py_space" by (simp add: fun_eq_iff)
  then have "dropWhile py_space (map upper_char xs) = map upper_char (dropWhile py_space xs)" for xs
    by (simp add: dropWhile_map)
  then show ?thesis by (simp add: py_strip_def py_upper_def rev_map)
qed

lemma blank_upper [simp]: "blank (py_upper s) = blank s"
  by (simp add: blank_iff py_upper_def list_all_iff)

lemma last_dropWhile: "dropWhile P xs \<noteq> [] \<Longrightarrow> last (dropWhile P xs) = last xs"
  by (induction xs) auto

lemma py_strip_idem [simp]: "py_strip (py_strip s) = py_strip s"
proof -
  define front where "front = dropWhile py_space s"
  define core where "core = dropWhile py_space (rev front)"
  have "dropWhile py_space (rev core) = rev core"
  proof (cases "core = []")
    case False
    then have "front \<noteq> []" "hd (rev core) = hd front"
      using last_dropWhile [of py_space "rev front"] by (auto simp: core_def hd_rev last_rev)
    with False show ?thesis by (simp add: dropWhile_eq_self_iff front_def hd_dropWhile)
  qed simp
  moreover have "dropWhile py_space core = core" by (simp add: core_def)
  ultimately show ?thesis by (simp add: py_strip_def front_def core_def)
qed

definition lower_char :: "char \<Rightarrow> char" where
  "lower_char c = (if ascii_upper c then char_of ((of_char c :: nat) + 32) else c)"

definition py_lower :: "string \<Rightarrow> string" where
  "py_lower s = map lower_char s"

text \<open>\<^verbatim>\<open>part in whole\<close>\<close>

definition substring :: "string \<Rightarrow> string \<Rightarrow> bool" where
  "substring part whole \<longleftrightarrow> list_ex (\<lambda>i. take (length part) (drop i whole) = part) [0..<Suc (length whole)]"

lemma substring_iff: "substring part whole \<longleftrightarrow> (\<exists>before after. whole = before @ part @ after)"
proof
  assume "substring part whole"
  then obtain i where "take (length part) (drop i whole) = part" by (auto simp: substring_def list_ex_iff)
  then have "whole = take i whole @ part @ drop (length part) (drop i whole)"
    by (metis append_take_drop_id)
  then show "\<exists>before after. whole = before @ part @ after" by blast
next
  assume "\<exists>before after. whole = before @ part @ after"
  then obtain before after where whole: "whole = before @ part @ after" by blast
  then have "length before \<in> set [0..<Suc (length whole)]" "take (length part) (drop (length before) whole) = part" by auto
  then show "substring part whole" unfolding substring_def list_ex_iff by blast
qed

text \<open>\<^verbatim>\<open>sep.join(parts)\<close>\<close>

fun str_join :: "string \<Rightarrow> string list \<Rightarrow> string" where
  "str_join sep [] = []"
| "str_join sep [x] = x"
| "str_join sep (x # y # zs) = x @ sep @ str_join sep (y # zs)"

lemma str_join_Cons: "str_join sep (x # xs) = (if xs = [] then x else x @ sep @ str_join sep xs)"
  by (cases xs) auto

section \<open>Lookup by key\<close>

text \<open>Finding the record with a given key in a list whose keys are distinct.\<close>

lemma find_key_unique:
  "distinct (map f xs) \<Longrightarrow> x \<in> set xs \<Longrightarrow> find (\<lambda>y. f y = f x) xs = Some x"
  by (induction xs) (auto simp: rev_image_eqI)

section \<open>String enumerations\<close>

text \<open>
  A \<^verbatim>\<open>StrEnum\<close> class: its members in declaration order and the value of each. Calling the
  class on a string finds the member with that value and raises \<^verbatim>\<open>ValueError\<close> otherwise.
\<close>

definition enum_of_value :: "'a list \<Rightarrow> ('a \<Rightarrow> string) \<Rightarrow> 'e \<Rightarrow> string \<Rightarrow> ('e, 'a) result" where
  "enum_of_value members val err s =
     (case find (\<lambda>x. val x = s) members of None \<Rightarrow> Inl err | Some x \<Rightarrow> Inr x)"

locale str_enum =
  fixes members :: "'a list" and val :: "'a \<Rightarrow> string"
  assumes complete: "x \<in> set members"
    and values_distinct: "distinct (map val members)"
begin

lemma val_inject: "val x = val y \<longleftrightarrow> x = y"
  using values_distinct complete [of x] complete [of y]
  by (auto simp: distinct_map dest: inj_onD)

lemma of_value_value: "enum_of_value members val err (val x) = Inr x"
  using find_key_unique [OF values_distinct complete] by (simp add: enum_of_value_def)

lemma of_value_Inr: "enum_of_value members val err s = Inr x \<longleftrightarrow> s = val x"
proof
  assume "enum_of_value members val err s = Inr x"
  then show "s = val x"
    by (auto simp: enum_of_value_def find_Some_iff split: option.splits)
qed (simp add: of_value_value)

end

section \<open>Lists\<close>

text \<open>The uniqueness test \<^verbatim>\<open>len(set(xs)) != len(xs)\<close>.\<close>

lemma unique_test: "card (set xs) = length xs \<longleftrightarrow> distinct xs"
  by (auto simp: distinct_card dest: card_distinct)

lemma sort_key_id_distinct:
  "distinct (map f xs) \<Longrightarrow> distinct (map f (sort_key f xs))"
  by (simp add: distinct_map)

lemma sort_key_sorted_id: "sorted (map f xs) \<Longrightarrow> sort_key f xs = xs"
  by (induction xs) (auto simp: insort_is_Cons)

lemma map_insort_key: "map f (insort_key f x xs) = insort (f x) (map f xs)"
  by (induction xs) auto

lemma map_sort_key: "map f (sort_key f xs) = sort (map f xs)"
  by (induction xs) (auto simp: map_insort_key)

end
