(* ===== verification/Hub_Errors.thy ===== *)
theory Hub_Errors
  imports Prelude
begin

text \<open>
  The exception classes the modelled code raises, each with its safe message, and the
  \<^verbatim>\<open>error_category\<close> class attribute by which the use cases and the API tell them apart.
  \<^verbatim>\<open>ValueError\<close>, \<^verbatim>\<open>KeyError\<close> and \<^verbatim>\<open>InvalidOperation\<close> are Python's own; \<^verbatim>\<open>StrategyError\<close> stands for
  whatever exception an execution strategy raises.
\<close>

datatype hub_error =
    ExecutionPlanningError string
  | ExecutionStrategyResolutionError string
  | ExecutionUnsupportedStepError string
  | ExecutionModeNotEnabledError string
  | ExecutionApprovalError string
  | ExecutionIdempotencyConflictError string
  | ExecutionStateError string
  | ExecutionPersistenceError string
  | ExecutionNotFoundError string
  | ExecutionConcurrencyConflictError string
  | WorkbenchContractError string
  | ReviewNotFoundError string
  | WriteAuthorizationError string
  | WriteAuthorizationNotFoundError string
  | WriteAuthorizationScopeMismatchError string
  | WriteAuthorizationExpiredError string
  | WriteAuthorizationAlreadyConsumedError string
  | WriteAuthorizationRevokedError string
  | ProductionSafetyGateError string
  | ValueError string
  | KeyError string
  | TypeError string
  | InvalidOperation
  | StopIteration
  | StrategyError string

text \<open>The \<^verbatim>\<open>error_category\<close> of an application error; Python's own exceptions have none.\<close>

fun error_category :: "hub_error \<Rightarrow> string option" where
  "error_category (ExecutionPlanningError _) = Some ''execution_planning_error''"
| "error_category (ExecutionStrategyResolutionError _) = Some ''execution_strategy_resolution_error''"
| "error_category (ExecutionUnsupportedStepError _) = Some ''execution_unsupported_step_error''"
| "error_category (ExecutionModeNotEnabledError _) = Some ''execution_mode_not_enabled''"
| "error_category (ExecutionApprovalError _) = Some ''execution_approval_error''"
| "error_category (ExecutionIdempotencyConflictError _) = Some ''execution_idempotency_conflict''"
| "error_category (ExecutionStateError _) = Some ''execution_state_error''"
| "error_category (ExecutionPersistenceError _) = Some ''execution_persistence_error''"
| "error_category (ExecutionNotFoundError _) = Some ''execution_not_found''"
| "error_category (ExecutionConcurrencyConflictError _) = Some ''execution_concurrency_conflict''"
| "error_category (WorkbenchContractError _) = Some ''workbench_contract_error''"
| "error_category (ReviewNotFoundError _) = Some ''review_not_found''"
| "error_category (WriteAuthorizationError _) = Some ''write_authorization_failure''"
| "error_category (WriteAuthorizationNotFoundError _) = Some ''write_authorization_not_found''"
| "error_category (WriteAuthorizationScopeMismatchError _) = Some ''write_authorization_scope_mismatch''"
| "error_category (WriteAuthorizationExpiredError _) = Some ''write_authorization_expired''"
| "error_category (WriteAuthorizationAlreadyConsumedError _) = Some ''write_authorization_already_consumed''"
| "error_category (WriteAuthorizationRevokedError _) = Some ''write_authorization_revoked''"
| "error_category (ProductionSafetyGateError _) = Some ''production_safety_gate_failure''"
| "error_category _ = None"

end
