(* ===== verification/Py_Decimal.thy ===== *)
theory Py_Decimal
  imports Prelude Complex_Main
begin

text \<open>
  The part of Python's \<^verbatim>\<open>decimal.Decimal\<close> the hub uses: the sign/coefficient/exponent triple,
  \<^verbatim>\<open>str\<close> and the constructor from a string, addition in the default context (28 digits,
  round half even), comparison, \<^verbatim>\<open>normalize\<close>, \<^verbatim>\<open>adjusted\<close> and the exponent of \<^verbatim>\<open>as_tuple\<close>.
  Exponents are unbounded integers: the context's \<^verbatim>\<open>Emin\<close>/\<^verbatim>\<open>Emax\<close> limits of about a million are
  not modelled. The decimal digits of integers are here as well.
\<close>

section \<open>Decimal digits of integers\<close>

definition digit_char :: "nat \<Rightarrow> char" where
  "digit_char n = char_of (48 + n)"

definition is_digit :: "char \<Rightarrow> bool" where
  "is_digit c \<longleftrightarrow> 48 \<le> (of_char c :: nat) \<and> (of_char c :: nat) \<le> 57"

definition digit_val :: "char \<Rightarrow> nat" where
  "digit_val c = of_char c - 48"

fun nat_str :: "nat \<Rightarrow> string" where
  "nat_str n = (if n < 10 then [digit_char n] else nat_str (n div 10) @ [digit_char (n mod 10)])"

declare nat_str.simps [simp del]

definition str_nat :: "string \<Rightarrow> nat" where
  "str_nat s = foldl (\<lambda>a c. 10 * a + digit_val c) 0 s"

definition ndigits :: "nat \<Rightarrow> nat" where
  "ndigits n = length (nat_str n)"

definition int_str :: "int \<Rightarrow> string" where
  "int_str i = (if i < 0 then CHR ''-'' # nat_str (nat (- i)) else nat_str (nat i))"

text \<open>\<^verbatim>\<open>int(s)\<close> for text of an optional sign and ASCII digits; other text is a \<^verbatim>\<open>ValueError\<close>.\<close>

definition str_int :: "string \<Rightarrow> int option" where
  "str_int s = (case s of
       [] \<Rightarrow> None
     | c # t \<Rightarrow>
         if c = CHR ''-'' then (if t \<noteq> [] \<and> list_all is_digit t then Some (- int (str_nat t)) else None)
         else if c = CHR ''+'' then (if t \<noteq> [] \<and> list_all is_digit t then Some (int (str_nat t)) else None)
         else if list_all is_digit s then Some (int (str_nat s)) else None)"

lemma of_char_digit_char: "n < 10 \<Longrightarrow> (of_char (digit_char n) :: nat) = 48 + n"
  by (simp add: digit_char_def)

lemma is_digit_digit_char [simp]: "n < 10 \<Longrightarrow> is_digit (digit_char n)"
  by (simp add: is_digit_def of_char_digit_char)

lemma digit_val_digit_char [simp]: "n < 10 \<Longrightarrow> digit_val (digit_char n) = n"
  by (simp add: digit_val_def of_char_digit_char)

lemma is_digit_nat_str [simp]: "list_all is_digit (nat_str n)"
proof (induction n rule: nat_str.induct)
  case (1 n)
  then show ?case by (subst nat_str.simps) auto
qed

lemma nat_str_nonempty [simp]: "nat_str n \<noteq> []"
  by (subst nat_str.simps) simp

lemma str_nat_Nil [simp]: "str_nat [] = 0"
  by (simp add: str_nat_def)

lemma str_nat_snoc [simp]: "str_nat (s @ [c]) = 10 * str_nat s + digit_val c"
  by (simp add: str_nat_def)

lemma str_nat_append: "str_nat (s @ t) = str_nat s * 10 ^ length t + str_nat t"
  by (induction t rule: rev_induct) (simp_all add: algebra_simps flip: append_assoc)

lemma str_nat_zeros [simp]: "str_nat (replicate k (CHR ''0'')) = 0"
  by (induction k) (simp_all add: replicate_append_same [symmetric] digit_val_def)

lemma str_nat_nat_str [simp]: "str_nat (nat_str n) = n"
proof (induction n rule: nat_str.induct)
  case (1 n)
  show ?case
  proof (cases "n < 10")
    case True
    then have "nat_str n = [] @ [digit_char n]" by (simp add: nat_str.simps)
    with True show ?thesis by (metis add_0 digit_val_digit_char mult_0_right str_nat_Nil str_nat_snoc)
  next
    case False
    then have "nat_str n = nat_str (n div 10) @ [digit_char (n mod 10)]" by (simp add: nat_str.simps)
    with False "1" show ?thesis by simp
  qed
qed

lemma ndigits_pos [simp]: "0 < ndigits n"
  by (simp add: ndigits_def)

lemma ndigits_bounds: "n < 10 ^ ndigits n \<and> (0 < n \<longrightarrow> 10 ^ (ndigits n - 1) \<le> n)"
proof (induction n rule: nat_str.induct)
  case (1 n)
  show ?case
  proof (cases "n < 10")
    case True
    then show ?thesis by (simp add: ndigits_def nat_str.simps)
  next
    case False
    then have nd: "ndigits n = Suc (ndigits (n div 10))"
      by (simp add: ndigits_def nat_str.simps [of n])
    from False "1" have ih: "n div 10 < 10 ^ ndigits (n div 10)"
      "10 ^ (ndigits (n div 10) - 1) \<le> n div 10" by auto
    from ih(1) have "n < 10 ^ ndigits n" by (simp add: nd)
    moreover have "(10::nat) ^ ndigits (n div 10) = 10 * 10 ^ (ndigits (n div 10) - 1)"
      using ndigits_pos [of "n div 10"] by (cases "ndigits (n div 10)") simp_all
    moreover have "10 * 10 ^ (ndigits (n div 10) - 1) \<le> n"
      using ih(2) div_times_less_eq_dividend [of n 10] by linarith
    ultimately show ?thesis by (simp add: nd)
  qed
qed

lemma ndigits_le: "n < 10 ^ k \<Longrightarrow> 0 < k \<Longrightarrow> ndigits n \<le> k"
proof (rule ccontr)
  assume n: "n < 10 ^ k" "0 < k" and "\<not> ndigits n \<le> k"
  then have k: "k \<le> ndigits n - 1" by simp
  show False
  proof (cases "n = 0")
    case True
    with \<open>\<not> ndigits n \<le> k\<close> n show False by (simp add: ndigits_def nat_str.simps)
  next
    case False
    then have "10 ^ (ndigits n - 1) \<le> n" using ndigits_bounds [of n] by simp
    moreover have "(10::nat) ^ k \<le> 10 ^ (ndigits n - 1)" using k by (rule power_increasing) simp
    ultimately show False using n(1) by linarith
  qed
qed

lemma ndigits_eqI: "10 ^ k \<le> n \<Longrightarrow> n < 10 ^ Suc k \<Longrightarrow> ndigits n = Suc k"
proof -
  assume n: "10 ^ k \<le> n" "n < 10 ^ Suc k"
  have "ndigits n \<le> Suc k" using n(2) by (rule ndigits_le) simp
  moreover have "\<not> ndigits n \<le> k"
  proof
    assume "ndigits n \<le> k"
    then have "(10::nat) ^ ndigits n \<le> 10 ^ k" by (rule power_increasing) simp
    with n(1) ndigits_bounds [of n] show False by linarith
  qed
  ultimately show ?thesis by simp
qed

lemma nat_str_head_digit: "nat_str n = c # t \<Longrightarrow> is_digit c"
  using is_digit_nat_str [of n] by simp

lemma not_digit_signs [simp]:
  "\<not> is_digit (CHR ''-'')" "\<not> is_digit (CHR ''+'')" "\<not> is_digit (CHR ''.'')" "\<not> is_digit (CHR ''E'')"
  by (simp_all add: is_digit_def)

lemma str_int_nat_str [simp]: "str_int (nat_str n) = Some (int n)"
proof -
  obtain c t where ct: "nat_str n = c # t" by (cases "nat_str n") auto
  then have "is_digit c" by (rule nat_str_head_digit)
  then have "c \<noteq> CHR ''-''" "c \<noteq> CHR ''+''" by auto
  moreover have "list_all is_digit (c # t)" "str_nat (c # t) = n"
    using is_digit_nat_str [of n] str_nat_nat_str [of n] ct by simp_all
  ultimately show ?thesis by (simp add: str_int_def ct)
qed

lemma str_int_int_str [simp]: "str_int (int_str i) = Some i"
proof (cases "i < 0")
  case True
  then show ?thesis by (simp add: int_str_def str_int_def)
next
  case False
  then show ?thesis by (simp add: int_str_def)
qed

section \<open>Decimal numbers\<close>

text \<open>\<^verbatim>\<open>Dec neg c e\<close> is the finite number with sign \<^verbatim>\<open>neg\<close>, coefficient \<^verbatim>\<open>c\<close> and exponent \<^verbatim>\<open>e\<close>.\<close>

datatype decimal = Dec bool nat int | DecInf bool | DecNaN

definition dec_of_int :: "int \<Rightarrow> decimal" where
  "dec_of_int i = Dec (i < 0) (nat \<bar>i\<bar>) 0"

definition dec_is_finite :: "decimal \<Rightarrow> bool" where
  "dec_is_finite d \<longleftrightarrow> (case d of Dec _ _ _ \<Rightarrow> True | _ \<Rightarrow> False)"

definition signed :: "bool \<Rightarrow> nat \<Rightarrow> int" where
  "signed neg c = (if neg then - int c else int c)"

text \<open>Two finite numbers as integers over their common exponent.\<close>

fun dec_align :: "decimal \<Rightarrow> decimal \<Rightarrow> int \<times> int" where
  "dec_align (Dec n1 c1 e1) (Dec n2 c2 e2) =
     (let e = min e1 e2 in (signed n1 c1 * 10 ^ nat (e1 - e), signed n2 c2 * 10 ^ nat (e2 - e)))"
| "dec_align _ _ = (0, 1)"

text \<open>Comparisons; the code only compares numbers it has checked to be finite.\<close>

definition dec_eq :: "decimal \<Rightarrow> decimal \<Rightarrow> bool" where
  "dec_eq a b \<longleftrightarrow> fst (dec_align a b) = snd (dec_align a b)"

definition dec_less :: "decimal \<Rightarrow> decimal \<Rightarrow> bool" where
  "dec_less a b \<longleftrightarrow> dec_is_finite a \<and> dec_is_finite b \<and> fst (dec_align a b) < snd (dec_align a b)"

definition dec_le :: "decimal \<Rightarrow> decimal \<Rightarrow> bool" where
  "dec_le a b \<longleftrightarrow> dec_is_finite a \<and> dec_is_finite b \<and> fst (dec_align a b) \<le> snd (dec_align a b)"

section \<open>Rounding to the context\<close>

definition dec_prec :: nat where
  "dec_prec = 28"

definition round_half_even :: "nat \<Rightarrow> nat \<Rightarrow> nat" where
  "round_half_even c k = (let q = c div 10 ^ k; r = c mod 10 ^ k in
     if 10 ^ k < 2 * r \<or> (2 * r = 10 ^ k \<and> odd q) then q + 1 else q)"

fun dec_fix :: "decimal \<Rightarrow> decimal" where
  "dec_fix (Dec neg c e) =
     (if ndigits c \<le> dec_prec then Dec neg c e
      else let k = ndigits c - dec_prec; q = round_half_even c k in
        if dec_prec < ndigits q then Dec neg (q div 10) (e + int k + 1) else Dec neg q (e + int k))"
| "dec_fix d = d"

fun dec_add :: "decimal \<Rightarrow> decimal \<Rightarrow> decimal" where
  "dec_add (Dec n1 c1 e1) (Dec n2 c2 e2) =
     (let (a, b) = dec_align (Dec n1 c1 e1) (Dec n2 c2 e2); s = a + b
      in dec_fix (Dec (if s = 0 then n1 \<and> n2 else s < 0) (nat \<bar>s\<bar>) (min e1 e2)))"
| "dec_add (DecInf n1) (DecInf n2) = (if n1 = n2 then DecInf n1 else DecNaN)"
| "dec_add (DecInf n1) (Dec _ _ _) = DecInf n1"
| "dec_add (Dec _ _ _) (DecInf n2) = DecInf n2"
| "dec_add _ _ = DecNaN"

definition dec_sum :: "decimal list \<Rightarrow> decimal" where
  "dec_sum ds = foldl dec_add (Dec False 0 0) ds"

function strip_zeros :: "nat \<Rightarrow> int \<Rightarrow> nat \<times> int" where
  "strip_zeros c e = (if c \<noteq> 0 \<and> c mod 10 = 0 then strip_zeros (c div 10) (e + 1) else (c, e))"
  by pat_completeness auto
termination
  by (relation "measure (\<lambda>(c, e). c)") auto

declare strip_zeros.simps [simp del]

fun dec_normalize :: "decimal \<Rightarrow> decimal" where
  "dec_normalize (Dec neg c e) =
     (case dec_fix (Dec neg c e) of
        Dec n q x \<Rightarrow> if q = 0 then Dec n 0 0 else (let (c', e') = strip_zeros q x in Dec n c' e')
      | d \<Rightarrow> d)"
| "dec_normalize d = d"

text \<open>\<^verbatim>\<open>as_tuple().exponent\<close> and \<^verbatim>\<open>adjusted()\<close> of a finite number.\<close>

fun dec_exponent :: "decimal \<Rightarrow> int" where
  "dec_exponent (Dec _ _ e) = e"
| "dec_exponent _ = 0"

fun dec_adjusted :: "decimal \<Rightarrow> int" where
  "dec_adjusted (Dec _ c e) = e + int (ndigits c) - 1"
| "dec_adjusted _ = 0"

section \<open>Text form\<close>

definition dec_point :: "nat \<Rightarrow> int \<Rightarrow> int" where
  "dec_point len e = (if e \<le> 0 \<and> -6 < e + int len then e + int len else 1)"

definition dec_exp_text :: "int \<Rightarrow> string" where
  "dec_exp_text x = (if x = 0 then []
     else CHR ''E'' # (if x < 0 then CHR ''-'' else CHR ''+'') # nat_str (nat \<bar>x\<bar>))"

fun dec_str :: "decimal \<Rightarrow> string" where
  "dec_str (Dec neg c e) =
     (let d = nat_str c; left = e + int (length d); dot = dec_point (length d) e;
          mantissa =
            (if dot \<le> 0 then ''0.'' @ replicate (nat (- dot)) (CHR ''0'') @ d
             else if int (length d) \<le> dot then d @ replicate (nat dot - length d) (CHR ''0'')
             else take (nat dot) d @ CHR ''.'' # drop (nat dot) d)
      in (if neg then [CHR ''-''] else []) @ mantissa @ dec_exp_text (left - dot))"
| "dec_str (DecInf neg) = (if neg then ''-Infinity'' else ''Infinity'')"
| "dec_str DecNaN = ''NaN''"

text \<open>The unsigned part of the constructor's grammar: digits, an optional fraction, an optional exponent.\<close>

definition dec_unsigned :: "bool \<Rightarrow> string \<Rightarrow> decimal option" where
  "dec_unsigned neg r =
     (let ip = takeWhile is_digit r; r1 = dropWhile is_digit r;
          (fp, r2) = (case r1 of c # t \<Rightarrow> if c = CHR ''.'' then (takeWhile is_digit t, dropWhile is_digit t) else ([], r1)
                      | [] \<Rightarrow> ([], r1))
      in if ip @ fp = [] then None
         else case r2 of
             [] \<Rightarrow> Some (Dec neg (str_nat (ip @ fp)) (- int (length fp)))
           | c # t \<Rightarrow> if c = CHR ''E'' \<or> c = CHR ''e''
               then map_option (\<lambda>x. Dec neg (str_nat (ip @ fp)) (x - int (length fp))) (str_int t)
               else None)"

text \<open>\<^verbatim>\<open>Decimal(s)\<close>; \<^verbatim>\<open>None\<close> stands for \<^verbatim>\<open>InvalidOperation\<close>.\<close>

definition dec_parse :: "string \<Rightarrow> decimal option" where
  "dec_parse s =
     (if s = ''Infinity'' then Some (DecInf False)
      else if s = ''-Infinity'' then Some (DecInf True)
      else if s = ''NaN'' then Some DecNaN
      else case s of
          c # t \<Rightarrow> if c = CHR ''-'' then dec_unsigned True t
                    else if c = CHR ''+'' then dec_unsigned False t else dec_unsigned False s
        | [] \<Rightarrow> None)"

section \<open>Reading back what was printed\<close>

lemma span_digits:
  assumes "list_all is_digit ds" and "rest = [] \<or> \<not> is_digit (hd rest)"
  shows "takeWhile is_digit (ds @ rest) = ds" and "dropWhile is_digit (ds @ rest) = rest"
proof -
  have "takeWhile is_digit rest = []" "dropWhile is_digit rest = rest"
    using assms(2) by (cases rest; simp)+
  with assms(1) show "takeWhile is_digit (ds @ rest) = ds" and "dropWhile is_digit (ds @ rest) = rest"
    by (simp_all add: list_all_iff takeWhile_append dropWhile_append)
qed

lemma all_digits_span [simp]:
  "list_all is_digit ds \<Longrightarrow> takeWhile is_digit ds = ds"
  "list_all is_digit ds \<Longrightarrow> dropWhile is_digit ds = []"
  by (simp_all add: list_all_iff takeWhile_eq_all_conv)

lemma is_digit_zeros [simp]: "list_all is_digit (replicate k (CHR ''0''))"
  by (simp add: list_all_iff is_digit_def)

lemma str_nat_leading_zero [simp]: "str_nat (CHR ''0'' # s) = str_nat s"
  by (simp add: str_nat_def digit_val_def)

lemma dec_exp_text_head: "dec_exp_text x = [] \<or> \<not> is_digit (hd (dec_exp_text x))"
  by (simp add: dec_exp_text_def)

lemma dec_exp_text_cases:
  obtains (none) "x = 0" "dec_exp_text x = []"
    | (some) t where "x \<noteq> 0" "dec_exp_text x = CHR ''E'' # t" "str_int t = Some x"
proof (cases "x = 0")
  case True
  then show ?thesis using none by (simp add: dec_exp_text_def)
next
  case False
  let ?t = "(if x < 0 then CHR ''-'' else CHR ''+'') # nat_str (nat \<bar>x\<bar>)"
  have "str_int ?t = Some x" by (auto simp: str_int_def)
  with False show ?thesis using some [of ?t] by (simp add: dec_exp_text_def)
qed

lemma dec_unsigned_frac:
  assumes "list_all is_digit ip" "list_all is_digit fp" "ip \<noteq> []"
  shows "dec_unsigned neg (ip @ CHR ''.'' # fp @ dec_exp_text x)
    = Some (Dec neg (str_nat (ip @ fp)) (x - int (length fp)))"
proof -
  note s1 = span_digits [OF assms(1), of "CHR ''.'' # fp @ dec_exp_text x", simplified]
  note s2 = span_digits [OF assms(2) dec_exp_text_head [of x]]
  show ?thesis
    by (cases x rule: dec_exp_text_cases) (use assms s1 s2 in \<open>simp_all add: dec_unsigned_def Let_def\<close>)
qed

lemma dec_unsigned_int:
  assumes "list_all is_digit ip" "ip \<noteq> []"
  shows "dec_unsigned neg (ip @ dec_exp_text x) = Some (Dec neg (str_nat ip) x)"
proof -
  note s1 = span_digits [OF assms(1) dec_exp_text_head [of x]]
  show ?thesis
    by (cases x rule: dec_exp_text_cases) (use assms s1 in \<open>simp_all add: dec_unsigned_def Let_def\<close>)
qed

lemma dec_parse_digit:
  "is_digit c \<Longrightarrow> dec_parse (c # t) = dec_unsigned False (c # t)"
  "is_digit c \<Longrightarrow> dec_parse (CHR ''-'' # c # t) = dec_unsigned True (c # t)"
  by (auto simp: dec_parse_def is_digit_def)

text \<open>The mantissa and exponent text of a number read back as its coefficient and exponent.\<close>

lemma dec_unsigned_str:
  obtains c' t where "dec_str (Dec neg c e) = (if neg then [CHR ''-''] else []) @ c' # t"
    and "is_digit c'" and "dec_unsigned neg (c' # t) = Some (Dec neg c e)"
proof -
  let ?d = "nat_str c" let ?len = "length ?d" let ?dot = "dec_point ?len e"
  let ?x = "e + int ?len - ?dot"
  consider (lead) "?dot \<le> 0" | (whole) "0 < ?dot" "int ?len \<le> ?dot" | (mid) "0 < ?dot" "?dot < int ?len"
    by linarith
  then show ?thesis
  proof cases
    case lead
    then have dot: "?dot = e + int ?len" by (auto simp: dec_point_def split: if_splits)
    have "dec_unsigned neg (''0'' @ CHR ''.'' # (replicate (nat (- ?dot)) (CHR ''0'') @ ?d) @ dec_exp_text ?x)
      = Some (Dec neg c e)"
      by (subst dec_unsigned_frac) (use lead dot in \<open>simp_all add: str_nat_append is_digit_def\<close>)
    then show ?thesis
      using that [of "CHR ''0''" "CHR ''.'' # (replicate (nat (- ?dot)) (CHR ''0'') @ ?d) @ dec_exp_text ?x"] lead
      by (simp add: Let_def is_digit_def)
  next
    case whole
    obtain k where k: "?len = Suc k" by (cases ?len) simp_all
    have pad: "nat ?dot - ?len = 0" and x: "?x = e"
      using whole by (auto simp: dec_point_def k split: if_splits)
    obtain c' t where ct: "?d = c' # t" by (cases ?d) auto
    have "dec_unsigned neg (?d @ dec_exp_text ?x) = Some (Dec neg c e)"
      by (subst dec_unsigned_int) (simp_all add: x)
    then show ?thesis
      using that [of c' "t @ dec_exp_text ?x"] whole pad nat_str_head_digit [OF ct]
      by (simp add: Let_def ct)
  next
    case mid
    have dot: "?x - int (?len - nat ?dot) = e" using mid by (simp add: of_nat_diff)
    have all: "list_all is_digit (take (nat ?dot) ?d)" "list_all is_digit (drop (nat ?dot) ?d)"
      using is_digit_nat_str [of c] by (auto simp: list_all_iff dest: in_set_takeD in_set_dropD)
    have ne: "take (nat ?dot) ?d \<noteq> []" using mid by simp
    then obtain c' t where ct: "take (nat ?dot) ?d = c' # t" by (cases "take (nat ?dot) ?d") auto
    with all(1) have "is_digit c'" by simp
    have "dec_unsigned neg (take (nat ?dot) ?d @ CHR ''.'' # drop (nat ?dot) ?d @ dec_exp_text ?x) = Some (Dec neg c e)"
      by (subst dec_unsigned_frac) (use all ne dot in simp_all)
    then show ?thesis
      using that [of c' "t @ CHR ''.'' # drop (nat ?dot) ?d @ dec_exp_text ?x"] mid \<open>is_digit c'\<close>
      by (simp add: Let_def ct)
  qed
qed

lemma dec_parse_str [simp]: "dec_parse (dec_str d) = Some d"
proof (cases d)
  case (Dec neg c e)
  obtain c' t where "dec_str (Dec neg c e) = (if neg then [CHR ''-''] else []) @ c' # t"
    and "is_digit c'" and "dec_unsigned neg (c' # t) = Some (Dec neg c e)"
    by (rule dec_unsigned_str)
  with Dec show ?thesis by (cases neg) (simp_all add: dec_parse_digit)
qed (simp_all add: dec_parse_def)

section \<open>Numeric value\<close>

definition dec_val :: "decimal \<Rightarrow> rat" where
  "dec_val d = (case d of Dec neg c e \<Rightarrow> of_int (signed neg c) * 10 powi e | _ \<Rightarrow> 0)"

lemma dec_val_Dec [simp]: "dec_val (Dec neg c e) = of_int (signed neg c) * 10 powi e"
  by (simp add: dec_val_def)

lemma powi10_pos [simp]: "(0::rat) < 10 powi e"
  by (rule zero_less_power_int) simp

lemma powi_shift: "m \<le> e \<Longrightarrow> (10::rat) powi e = 10 ^ nat (e - m) * 10 powi m"
proof -
  assume "m \<le> e"
  then have "(10::rat) powi e = 10 powi (int (nat (e - m)) + m)" by simp
  also have "\<dots> = 10 ^ nat (e - m) * 10 powi m" by (subst power_int_add) (simp_all only: power_int_of_nat, simp)
  finally show ?thesis .
qed

lemma dec_align_val:
  assumes "dec_align (Dec n1 c1 e1) (Dec n2 c2 e2) = (x, y)"
  shows "dec_val (Dec n1 c1 e1) = of_int x * 10 powi min e1 e2"
    and "dec_val (Dec n2 c2 e2) = of_int y * 10 powi min e1 e2"
  using assms powi_shift [of "min e1 e2" e1] powi_shift [of "min e1 e2" e2]
  by (auto simp: Let_def)

lemma dec_finite_cases: "dec_is_finite d \<longleftrightarrow> (\<exists>neg c e. d = Dec neg c e)"
  by (cases d) (auto simp: dec_is_finite_def)

lemma dec_compare_val:
  assumes "dec_is_finite a" "dec_is_finite b"
  shows "dec_eq a b \<longleftrightarrow> dec_val a = dec_val b"
    and "dec_less a b \<longleftrightarrow> dec_val a < dec_val b"
    and "dec_le a b \<longleftrightarrow> dec_val a \<le> dec_val b"
proof -
  obtain n1 c1 e1 n2 c2 e2 where ab: "a = Dec n1 c1 e1" "b = Dec n2 c2 e2"
    using assms by (auto simp: dec_finite_cases)
  obtain x y where xy: "dec_align a b = (x, y)" by fastforce
  note v = dec_align_val [OF xy [unfolded ab], folded ab]
  show "dec_eq a b \<longleftrightarrow> dec_val a = dec_val b"
    by (simp add: dec_eq_def xy v)
  show "dec_less a b \<longleftrightarrow> dec_val a < dec_val b"
    using assms by (simp add: dec_less_def xy v)
  show "dec_le a b \<longleftrightarrow> dec_val a \<le> dec_val b"
    using assms by (simp add: dec_le_def xy v)
qed

text \<open>Rounding to the context loses nothing from a number on the grid of millionths below \<open>10 ^ 22\<close>.\<close>

definition on_grid :: "nat \<Rightarrow> decimal \<Rightarrow> bool" where
  "on_grid b d \<longleftrightarrow> dec_is_finite d \<and> (\<exists>m::int. dec_val d * 10 ^ 6 = of_int m \<and> \<bar>m\<bar> < int b)"

lemma round_half_even_exact: "10 ^ k dvd c \<Longrightarrow> round_half_even c k = c div 10 ^ k"
  by (simp add: round_half_even_def)

lemma dec_fix_dvd:
  assumes "10 ^ (ndigits c - dec_prec) dvd c"
  shows "dec_val (dec_fix (Dec neg c e)) = dec_val (Dec neg c e)"
proof (cases "ndigits c \<le> dec_prec")
  case False
  let ?k = "ndigits c - dec_prec"
  from assms obtain q where q: "c = 10 ^ ?k * q" ..
  have "c < 10 ^ ndigits c" using ndigits_bounds by blast
  also have "ndigits c = ?k + dec_prec" using False by simp
  finally have "10 ^ ?k * q < 10 ^ ?k * 10 ^ dec_prec" using q by (simp add: power_add)
  then have "q < 10 ^ dec_prec" by (simp only: mult_less_cancel1)
  then have "ndigits q \<le> dec_prec" by (rule ndigits_le) (simp add: dec_prec_def)
  moreover have "round_half_even c ?k = q"
    using round_half_even_exact [OF assms] q by (metis nonzero_mult_div_cancel_left power_not_zero zero_neq_numeral)
  ultimately have "dec_fix (Dec neg c e) = Dec neg q (e + int ?k)"
    using False by (simp add: Let_def)
  moreover have "dec_val (Dec neg q (e + int ?k)) = dec_val (Dec neg (10 ^ ?k * q) e)"
    by (simp add: signed_def power_int_add)
  ultimately show ?thesis using q by simp
qed simp

lemma dec_fix_grid:
  assumes "on_grid (10 ^ 28) d"
  shows "dec_val (dec_fix d) = dec_val d"
proof -
  obtain neg c e m where d: "d = Dec neg c e" and m: "dec_val d * 10 ^ 6 = of_int m" "\<bar>m\<bar> < 10 ^ 28"
    using assms by (auto simp: on_grid_def dec_finite_cases)
  have "10 ^ (ndigits c - dec_prec) dvd c"
  proof (cases "ndigits c \<le> dec_prec")
    case False
    define k where "k = ndigits c - dec_prec"
    have c0: "0 < c" using False by (cases c) (auto simp: ndigits_def nat_str.simps dec_prec_def)
    have "\<bar>dec_val d * 10 ^ 6\<bar> = of_nat c * (10 powi e * 10 ^ 6)"
      by (simp add: d signed_def abs_mult)
    then have cm: "of_nat c * 10 powi (e + 6) = (of_int \<bar>m\<bar> :: rat)"
      using m(1) by (simp add: power_int_add)
    have "(10::rat) powi (int (ndigits c - 1) + (e + 6)) \<le> of_nat c * 10 powi (e + 6)"
      using ndigits_bounds [of c] c0
      by (subst power_int_add) (simp_all only: power_int_of_nat, simp_all flip: of_nat_power)
    also have "\<dots> < 10 powi 28" using m(2) by (simp add: cm flip: of_int_abs)
    finally have "\<not> 28 \<le> int (ndigits c - 1) + (e + 6)"
      using power_int_increasing [of 28 "int (ndigits c - 1) + (e + 6)" "10::rat"] by auto
    then have k: "int k \<le> - (e + 6)" using False by (simp add: k_def dec_prec_def of_nat_diff)
    have "(of_nat c :: rat) = of_nat c * 10 powi (e + 6) * 10 powi (- (e + 6))"
      using powi10_pos [of "e + 6"] by (simp only: power_int_minus) simp
    also have "\<dots> = of_nat (nat \<bar>m\<bar>) * 10 powi int (nat (- (e + 6)))"
      using k by (simp add: cm)
    also have "\<dots> = of_nat (nat \<bar>m\<bar> * 10 ^ nat (- (e + 6)))"
      by (simp only: power_int_of_nat) simp
    finally have "c = nat \<bar>m\<bar> * 10 ^ nat (- (e + 6))"
      by (simp only: of_nat_eq_iff)
    moreover have "(10::nat) ^ k dvd 10 ^ nat (- (e + 6))" using k by (intro le_imp_power_dvd) simp
    ultimately show ?thesis by (simp add: k_def)
  qed simp
  then show ?thesis unfolding d by (rule dec_fix_dvd)
qed

lemma on_grid_mono: "on_grid m d \<Longrightarrow> m \<le> n \<Longrightarrow> on_grid n d"
  unfolding on_grid_def by (meson less_le_trans of_nat_le_iff)

lemma on_grid_val: "on_grid m d \<Longrightarrow> dec_val d' = dec_val d \<Longrightarrow> dec_is_finite d' \<Longrightarrow> on_grid m d'"
  by (simp add: on_grid_def)

lemma dec_fix_finite: "dec_is_finite (dec_fix d) = dec_is_finite d"
  by (cases d) (simp_all add: dec_is_finite_def Let_def)

lemma dec_add_grid:
  assumes a: "on_grid m a" and b: "on_grid n b" and mn: "m + n \<le> 10 ^ 28"
  shows "dec_val (dec_add a b) = dec_val a + dec_val b" and "on_grid (m + n) (dec_add a b)"
proof -
  obtain n1 c1 e1 n2 c2 e2 where ab: "a = Dec n1 c1 e1" "b = Dec n2 c2 e2"
    using a b by (auto simp: on_grid_def dec_finite_cases)
  obtain x y where xy: "dec_align a b = (x, y)" by fastforce
  let ?s = "x + y"
  define d where "d = Dec (if ?s = 0 then n1 \<and> n2 else ?s < 0) (nat \<bar>?s\<bar>) (min e1 e2)"
  have add: "dec_add a b = dec_fix d"
    using xy unfolding ab d_def by (simp only: dec_add.simps Let_def split)
  have "dec_val d = of_int ?s * 10 powi min e1 e2"
    by (simp add: d_def signed_def)
  then have val: "dec_val d = dec_val a + dec_val b"
    using dec_align_val [OF xy [unfolded ab], folded ab] by (simp add: algebra_simps)
  obtain i j where ij: "dec_val a * 10 ^ 6 = of_int i" "\<bar>i\<bar> < int m" "dec_val b * 10 ^ 6 = of_int j" "\<bar>j\<bar> < int n"
    using a b by (auto simp: on_grid_def)
  have "dec_val d * 10 ^ 6 = of_int (i + j)" "\<bar>i + j\<bar> < int (m + n)"
    using ij by (simp_all add: val distrib_right)
  moreover have fin: "dec_is_finite d" by (simp add: d_def dec_is_finite_def)
  ultimately have grid: "on_grid (m + n) d"
    unfolding on_grid_def by blast
  have fixed: "dec_val (dec_fix d) = dec_val d"
    using grid mn by (intro dec_fix_grid) (rule on_grid_mono)
  with val add show "dec_val (dec_add a b) = dec_val a + dec_val b" by simp
  show "on_grid (m + n) (dec_add a b)"
    unfolding add using grid fixed by (rule on_grid_val) (simp add: dec_fix_finite fin)
qed

lemma dec_foldl_grid:
  assumes "list_all (on_grid m) ds" "on_grid n acc" "n + length ds * m \<le> 10 ^ 28"
  shows "dec_val (foldl dec_add acc ds) = dec_val acc + sum_list (map dec_val ds)
    \<and> dec_is_finite (foldl dec_add acc ds)"
  using assms
proof (induction ds arbitrary: acc n)
  case Nil
  then show ?case by (simp add: on_grid_def)
next
  case (Cons d ds)
  then have d: "on_grid m d" and nm: "n + m \<le> 10 ^ 28" and rest: "n + m + length ds * m \<le> 10 ^ 28"
    by (auto simp: algebra_simps)
  note add = dec_add_grid [OF Cons.prems(2) d nm]
  show ?case
    using Cons.IH [OF _ add(2) rest] Cons.prems(1) add(1) by (simp add: algebra_simps)
qed

lemma dec_sum_grid:
  assumes "list_all (on_grid (10 ^ 24)) ds" "length ds \<le> 9999"
  shows "dec_val (dec_sum ds) = sum_list (map dec_val ds)" and "dec_is_finite (dec_sum ds)"
proof -
  have "on_grid 1 (Dec False 0 0)" by (simp add: on_grid_def dec_is_finite_def signed_def)
  moreover have "1 + length ds * 10 ^ 24 \<le> (10::nat) ^ 28"
    using mult_right_mono [OF assms(2), of "10 ^ 24"] by simp
  ultimately show "dec_val (dec_sum ds) = sum_list (map dec_val ds)" "dec_is_finite (dec_sum ds)"
    using dec_foldl_grid [OF assms(1), of 1 "Dec False 0 0"] by (simp_all add: dec_sum_def signed_def)
qed

text \<open>\<open>normalize\<close> keeps the value of a number of at most 28 digits, and its coefficient ends in a non-zero digit.\<close>

lemma strip_zeros_val: "strip_zeros c e = (c', e') \<Longrightarrow> of_nat c' * (10::rat) powi e' = of_nat c * 10 powi e"
proof (induction c e rule: strip_zeros.induct)
  case (1 c e)
  show ?case
  proof (cases "c \<noteq> 0 \<and> c mod 10 = 0")
    case True
    then have c: "c = 10 * (c div 10)" by presburger
    from True "1" have "of_nat c' * (10::rat) powi e' = of_nat (c div 10) * 10 powi (e + 1)"
      by (simp add: strip_zeros.simps [of c e])
    also have "\<dots> = of_nat (10 * (c div 10)) * 10 powi e"
      by (simp add: power_int_add)
    finally show ?thesis using c by simp
  next
    case False
    with "1.prems" show ?thesis by (auto simp: strip_zeros.simps [of c e])
  qed
qed

lemma strip_zeros_last: "strip_zeros c e = (c', e') \<Longrightarrow> c' \<noteq> 0 \<Longrightarrow> c' mod 10 \<noteq> 0"
proof (induction c e rule: strip_zeros.induct)
  case (1 c e)
  then show ?case by (cases "c \<noteq> 0 \<and> c mod 10 = 0") (auto simp: strip_zeros.simps [of c e])
qed

lemma strip_zeros_power: "strip_zeros (10 ^ k) e = (1, e + int k)"
proof (induction k arbitrary: e)
  case 0
  then show ?case by (simp add: strip_zeros.simps)
next
  case (Suc k)
  then show ?case by (simp add: strip_zeros.simps [of "10 * 10 ^ k"])
qed

lemma dec_normalize_val:
  assumes "ndigits c \<le> dec_prec"
  shows "dec_val (dec_normalize (Dec neg c e)) = dec_val (Dec neg c e)"
  using assms strip_zeros_val [of c e] by (auto simp: signed_def split: prod.splits)

text \<open>The arithmetic is unfolded only where a proof asks for it.\<close>

declare dec_fix.simps [simp del] dec_add.simps [simp del] dec_normalize.simps [simp del]
  dec_str.simps [simp del]

lemmas dec_eval = dec_fix.simps dec_add.simps dec_normalize.simps dec_str.simps dec_sum_def dec_prec_def
  dec_is_finite_def ndigits_def nat_str.simps round_half_even_def strip_zeros.simps Let_def
  dec_eq_def dec_le_def dec_less_def signed_def dec_of_int_def

end
