(* ===== verification/Allocations.thy ===== *)
theory Allocations
  imports Hub_Errors Py_Decimal
begin

text \<open>
  Business context allocations: \<^verbatim>\<open>app/application/workbench/allocations.py\<close>. The two frozen
  dataclasses are records; their \<^verbatim>\<open>__post_init__\<close> methods are functions from the raw field values
  to the validated object or the error raised. The type tests on enums and integers hold by
  typing.
\<close>

section \<open>Data\<close>

datatype allocation_type =
    SALES_ORDER_COST | CUSTOMER_RECHARGE | EXISTING_PURCHASE_ORDER | NEW_RFQ_PURCHASE | PROJECT_COST
  | OPERATING_EXPENSE | FIXED_ASSET | SUBSCRIPTION_SERVICE | INTERNAL_COST

fun allocation_type_value :: "allocation_type \<Rightarrow> string" where
  "allocation_type_value SALES_ORDER_COST = ''sales_order_cost''"
| "allocation_type_value CUSTOMER_RECHARGE = ''customer_recharge''"
| "allocation_type_value EXISTING_PURCHASE_ORDER = ''existing_purchase_order''"
| "allocation_type_value NEW_RFQ_PURCHASE = ''new_rfq_purchase''"
| "allocation_type_value PROJECT_COST = ''project_cost''"
| "allocation_type_value OPERATING_EXPENSE = ''operating_expense''"
| "allocation_type_value FIXED_ASSET = ''fixed_asset''"
| "allocation_type_value SUBSCRIPTION_SERVICE = ''subscription_service''"
| "allocation_type_value INTERNAL_COST = ''internal_cost''"

definition allocation_types :: "allocation_type list" where
  "allocation_types = [SALES_ORDER_COST, CUSTOMER_RECHARGE, EXISTING_PURCHASE_ORDER, NEW_RFQ_PURCHASE,
     PROJECT_COST, OPERATING_EXPENSE, FIXED_ASSET, SUBSCRIPTION_SERVICE, INTERNAL_COST]"

interpretation allocation_type_enum: str_enum allocation_types allocation_type_value
proof unfold_locales
  show "x \<in> set allocation_types" for x
    by (cases x) (simp_all add: allocation_types_def)
qed (simp add: allocation_types_def)

datatype completeness = COMPLETE | PARTIAL

record allocation =
  al_allocation_key :: string
  al_allocation_type :: allocation_type
  al_source_line_number :: "string option"
  al_description :: "string option"
  al_amount :: "decimal option"
  al_percentage :: "decimal option"
  al_currency :: "string option"
  al_customer_id :: "int option"
  al_recharge_partner_id :: "int option"
  al_customer_invoice_id :: "int option"
  al_target_company_id :: "int option"
  al_opportunity_id :: "int option"
  al_sales_order_id :: "int option"
  al_sales_order_line_id :: "int option"
  al_proposal_scenario_id :: "int option"
  al_purchase_order_id :: "int option"
  al_project_id :: "int option"
  al_analytic_account_id :: "int option"
  al_subscription_id :: "int option"
  al_internal_note :: "string option"

record allocation_set =
  as_allocations :: "allocation list"
  as_completeness :: completeness
  as_invoice_total :: "decimal option"
  as_currency :: "string option"

section \<open>Field validators\<close>

definition ONE_HUNDRED :: decimal where
  "ONE_HUNDRED = Dec False 100 0"

definition decimal_scale :: "decimal \<Rightarrow> int" where
  "decimal_scale d = (if dec_exponent d < 0 then \<bar>dec_exponent d\<bar> else 0)"

definition decimal_integer_digits :: "decimal \<Rightarrow> int" where
  "decimal_integer_digits d = (if 0 \<le> dec_adjusted d then dec_adjusted d + 1 else 0)"

text \<open>
  The canonical form is the value rounded to the context and stripped of trailing zeros; it is
  returned but the dataclasses keep the raw value.
\<close>

definition optional_positive_decimal ::
    "decimal option \<Rightarrow> string \<Rightarrow> string \<Rightarrow> (hub_error, decimal option) result" where
  "optional_positive_decimal value finite_message positive_message =
     (case value of
        None \<Rightarrow> Inr None
      | Some v \<Rightarrow>
          if \<not> dec_is_finite v then Inl (WorkbenchContractError finite_message)
          else let canonical = dec_normalize v in
            if dec_le canonical (Dec False 0 0) then Inl (WorkbenchContractError positive_message)
            else if 6 < decimal_scale canonical
              then Inl (WorkbenchContractError ''Decimal values support at most 6 fractional digits.'')
            else if 18 < decimal_integer_digits canonical
              then Inl (WorkbenchContractError ''Decimal values support at most 24 total digits.'')
            else Inr (Some canonical))"

definition canonical_currency :: "string option \<Rightarrow> (hub_error, string option) result" where
  "canonical_currency value =
     (case value of
        None \<Rightarrow> Inr None
      | Some v \<Rightarrow> let currency = py_strip v in
          if length currency \<noteq> 3 \<or> \<not> py_isalpha currency
          then Inl (WorkbenchContractError ''currency must be a three-letter code.'')
          else Inr (Some (py_upper currency)))"

definition not_positive :: "int option \<Rightarrow> bool" where
  "not_positive v \<longleftrightarrow> (case v of None \<Rightarrow> True | Some i \<Rightarrow> i \<le> 0)"

definition not_positive_when_given :: "int option \<Rightarrow> bool" where
  "not_positive_when_given v \<longleftrightarrow> (case v of None \<Rightarrow> False | Some i \<Rightarrow> i \<le> 0)"

definition too_long :: "nat \<Rightarrow> string option \<Rightarrow> bool" where
  "too_long n v \<longleftrightarrow> (case v of None \<Rightarrow> False | Some s \<Rightarrow> n < length s)"

definition positive_id_checks :: "allocation \<Rightarrow> hub_error check list" where
  "positive_id_checks a =
     map (\<lambda>(name, v). (not_positive_when_given v, WorkbenchContractError (name @ '' must be a positive ERP id.'')))
       [(''customer_id'', al_customer_id a),
        (''recharge_partner_id'', al_recharge_partner_id a),
        (''customer_invoice_id'', al_customer_invoice_id a),
        (''target_company_id'', al_target_company_id a),
        (''opportunity_id'', al_opportunity_id a),
        (''sales_order_id'', al_sales_order_id a),
        (''sales_order_line_id'', al_sales_order_line_id a),
        (''proposal_scenario_id'', al_proposal_scenario_id a),
        (''purchase_order_id'', al_purchase_order_id a),
        (''project_id'', al_project_id a),
        (''analytic_account_id'', al_analytic_account_id a),
        (''subscription_id'', al_subscription_id a)]"

definition type_specific_checks :: "allocation \<Rightarrow> hub_error check list" where
  "type_specific_checks a =
     [(al_allocation_type a = SALES_ORDER_COST \<and> not_positive (al_sales_order_id a),
       WorkbenchContractError ''sales_order_id is required for SALES_ORDER_COST.''),
      (al_allocation_type a = CUSTOMER_RECHARGE \<and> not_positive (al_recharge_partner_id a),
       WorkbenchContractError ''recharge_partner_id is required for CUSTOMER_RECHARGE.''),
      (al_allocation_type a = EXISTING_PURCHASE_ORDER \<and> not_positive (al_purchase_order_id a),
       WorkbenchContractError ''purchase_order_id is required for EXISTING_PURCHASE_ORDER.''),
      (al_allocation_type a = PROJECT_COST \<and> al_project_id a = None \<and> al_analytic_account_id a = None,
       WorkbenchContractError ''project_id or analytic_account_id is required for PROJECT_COST.'')]"

section \<open>The allocation constructor\<close>

definition allocation_text_checks :: "allocation \<Rightarrow> hub_error check list" where
  "allocation_text_checks a =
     [(blank (al_allocation_key a), WorkbenchContractError ''allocation_key is required.''),
      (blank_opt (al_source_line_number a),
       WorkbenchContractError ''source_line_number must be non-empty when supplied.''),
      (too_long 500 (al_description a), WorkbenchContractError ''description exceeds maximum length.''),
      (too_long 1000 (al_internal_note a), WorkbenchContractError ''internal_note exceeds maximum length.'')]"

definition mk_allocation :: "allocation \<Rightarrow> (hub_error, allocation) result" where
  "mk_allocation a =
     ebind (run_checks (allocation_text_checks a)) (\<lambda>_.
     ebind (optional_positive_decimal (al_amount a)
              ''amount must be a finite Decimal value.'' ''amount must be greater than zero.'') (\<lambda>amount.
     ebind (optional_positive_decimal (al_percentage a)
              ''percentage must be a finite Decimal value.'' ''percentage must be greater than zero.'') (\<lambda>percentage.
     ebind (run_checks
              [(amount = None \<and> percentage = None, WorkbenchContractError ''amount or percentage is required.''),
               (case percentage of None \<Rightarrow> False | Some p \<Rightarrow> dec_less ONE_HUNDRED p,
                WorkbenchContractError ''percentage must be at most 100.'')]) (\<lambda>_.
     ebind (canonical_currency (al_currency a)) (\<lambda>currency.
     ebind (run_checks (positive_id_checks a)) (\<lambda>_.
     ebind (run_checks (type_specific_checks a)) (\<lambda>_.
       Inr (a\<lparr>al_currency := currency\<rparr>))))))))"

section \<open>The allocation set constructor\<close>

definition amounts :: "allocation list \<Rightarrow> decimal list" where
  "amounts as = List.map_filter al_amount as"

definition percentages :: "allocation list \<Rightarrow> decimal list" where
  "percentages as = List.map_filter al_percentage as"

definition allocated_amount_total :: "allocation_set \<Rightarrow> decimal" where
  "allocated_amount_total s = dec_sum (amounts (as_allocations s))"

definition allocated_percentage_total :: "allocation_set \<Rightarrow> decimal" where
  "allocated_percentage_total s = dec_sum (percentages (as_allocations s))"

definition validate_allocation_totals ::
    "allocation list \<Rightarrow> completeness \<Rightarrow> decimal option \<Rightarrow> (hub_error, unit) result" where
  "validate_allocation_totals as completeness invoice_total =
     (let amount_total = dec_sum (amounts as);
          percentage_total = dec_sum (percentages as);
          all_have_amount = list_all (\<lambda>a. al_amount a \<noteq> None) as;
          all_have_percentage = list_all (\<lambda>a. al_percentage a \<noteq> None) as
      in case completeness of
        COMPLETE \<Rightarrow> run_checks
          [(\<not> all_have_amount \<and> \<not> all_have_percentage,
            WorkbenchContractError ''COMPLETE allocations require all lines to carry amount or percentage.''),
           (all_have_amount \<and> invoice_total = None,
            WorkbenchContractError ''invoice_total is required for COMPLETE amount allocations.''),
           (all_have_amount \<and> (case invoice_total of None \<Rightarrow> False | Some t \<Rightarrow> \<not> dec_eq amount_total t),
            WorkbenchContractError ''COMPLETE amount allocations must equal invoice_total.''),
           (all_have_percentage \<and> \<not> dec_eq percentage_total ONE_HUNDRED,
            WorkbenchContractError ''COMPLETE percentage allocations must total 100.'')]
      | PARTIAL \<Rightarrow> run_checks
          [(case invoice_total of None \<Rightarrow> False | Some t \<Rightarrow> dec_less t amount_total,
            WorkbenchContractError ''PARTIAL amount allocations must not exceed invoice_total.''),
           (dec_less ONE_HUNDRED percentage_total,
            WorkbenchContractError ''PARTIAL percentage allocations must not exceed 100.'')])"

fun reject_duplicate_allocation_keys :: "string set \<Rightarrow> allocation list \<Rightarrow> (hub_error, unit) result" where
  "reject_duplicate_allocation_keys seen [] = Inr ()"
| "reject_duplicate_allocation_keys seen (a # as) =
     (if al_allocation_key a \<in> seen then Inl (WorkbenchContractError ''allocation_key values must be unique.'')
      else reject_duplicate_allocation_keys (insert (al_allocation_key a) seen) as)"

definition supplied_currencies :: "allocation list \<Rightarrow> string option \<Rightarrow> string set" where
  "supplied_currencies as set_currency =
     set (List.map_filter al_currency as) \<union> (case set_currency of None \<Rightarrow> {} | Some c \<Rightarrow> {c})"

definition mk_allocation_set :: "allocation_set \<Rightarrow> (hub_error, allocation_set) result" where
  "mk_allocation_set s =
     ebind (run_checks [(as_allocations s = [], WorkbenchContractError ''at least one allocation is required.'')]) (\<lambda>_.
     ebind (canonical_currency (as_currency s)) (\<lambda>currency.
     ebind (optional_positive_decimal (as_invoice_total s)
              ''invoice_total must be a finite Decimal value.'' ''invoice_total must be greater than zero.'')
       (\<lambda>invoice_total.
     ebind (reject_duplicate_allocation_keys {} (as_allocations s)) (\<lambda>_.
     ebind (run_checks [(1 < card (supplied_currencies (as_allocations s) currency),
              WorkbenchContractError ''allocation currencies must be consistent.'')]) (\<lambda>_.
     ebind (validate_allocation_totals (as_allocations s) (as_completeness s) invoice_total) (\<lambda>_.
       Inr (s\<lparr>as_currency := currency\<rparr>)))))))"

section \<open>The constructors accept their own results\<close>

lemma canonical_currency_idem: "canonical_currency v = Inr c \<Longrightarrow> canonical_currency c = Inr c"
  by (auto simp: canonical_currency_def Let_def py_strip_alpha split: option.splits if_splits)

lemma mk_allocation_fields: "mk_allocation a = Inr b \<Longrightarrow> b = a\<lparr>al_currency := al_currency b\<rparr>"
  by (auto simp: mk_allocation_def ebind_Inr_iff)

lemma allocation_checks_currency [simp]:
  "allocation_text_checks (a\<lparr>al_currency := c\<rparr>) = allocation_text_checks a"
  "positive_id_checks (a\<lparr>al_currency := c\<rparr>) = positive_id_checks a"
  "type_specific_checks (a\<lparr>al_currency := c\<rparr>) = type_specific_checks a"
  by (simp_all add: allocation_text_checks_def positive_id_checks_def type_specific_checks_def)

lemma mk_allocation_idem: "mk_allocation a = Inr b \<Longrightarrow> mk_allocation b = Inr b"
proof -
  assume "mk_allocation a = Inr b"
  then obtain c where "canonical_currency (al_currency a) = Inr c" and b: "b = a\<lparr>al_currency := c\<rparr>"
    by (auto simp only: mk_allocation_def ebind_Inr_iff)
  then have cs: "canonical_currency (al_currency a) = Inr c" "canonical_currency c = Inr c"
    by (simp_all add: canonical_currency_idem)
  have "mk_allocation b = mk_allocation a" by (simp add: b mk_allocation_def cs)
  with \<open>mk_allocation a = Inr b\<close> show ?thesis by simp
qed

text \<open>An allocation object: the validator accepts it as it is.\<close>

definition valid_allocation :: "allocation \<Rightarrow> bool" where
  "valid_allocation a \<longleftrightarrow> mk_allocation a = Inr a"

lemma reject_duplicates_ok:
  "reject_duplicate_allocation_keys seen as = Inr () \<longleftrightarrow>
     distinct (map al_allocation_key as) \<and> set (map al_allocation_key as) \<inter> seen = {}"
  by (induction as arbitrary: seen) auto

lemma mk_allocation_set_keys:
  "mk_allocation_set s = Inr t \<Longrightarrow> as_allocations t = as_allocations s \<and> distinct (map al_allocation_key (as_allocations t))"
  by (auto simp: mk_allocation_set_def ebind_Inr_iff reject_duplicates_ok)

section \<open>Totals are exact\<close>

definition short_decimal :: "decimal \<Rightarrow> bool" where
  "short_decimal d \<longleftrightarrow> (case d of Dec _ c _ \<Rightarrow> ndigits c \<le> dec_prec | _ \<Rightarrow> False)"

lemma grid_of_parts:
  assumes "-6 \<le> e" and "e + int (ndigits c) \<le> 18"
  shows "on_grid (10 ^ 24) (Dec neg c e)"
proof -
  let ?m = "signed neg c * 10 ^ nat (e + 6)"
  have "dec_val (Dec neg c e) * 10 ^ 6 = of_int (signed neg c) * 10 powi (e + 6)"
    by (simp add: power_int_add)
  also have "\<dots> = of_int ?m" using assms(1) by (simp add: power_int_def)
  finally have m: "dec_val (Dec neg c e) * 10 ^ 6 = of_int ?m" .
  have "c * 10 ^ nat (e + 6) < 10 ^ ndigits c * 10 ^ nat (e + 6)"
    using ndigits_bounds [of c] by simp
  also have "\<dots> = 10 ^ (ndigits c + nat (e + 6))" by (simp add: power_add)
  also have "\<dots> \<le> (10::nat) ^ 24" using assms by (intro power_increasing) auto
  finally have "\<bar>?m\<bar> < int (10 ^ 24)"
    by (simp add: signed_def abs_mult flip: of_nat_less_iff [where ?'a = int])
  with m show ?thesis unfolding on_grid_def by (intro conjI exI [of _ ?m]) (simp_all add: dec_is_finite_def)
qed

lemma accepted_decimal_grid:
  assumes "optional_positive_decimal (Some v) m1 m2 = Inr r" and "short_decimal v"
  shows "on_grid (10 ^ 24) v" and "0 < dec_val v" and "r = Some (dec_normalize v)"
    and "dec_val (dec_normalize v) = dec_val v" and "dec_is_finite (dec_normalize v)"
proof -
  obtain neg c e where v: "v = Dec neg c e" and c: "ndigits c \<le> dec_prec"
    using assms(2) by (auto simp: short_decimal_def split: decimal.splits)
  show val: "dec_val (dec_normalize v) = dec_val v"
    unfolding v using c by (rule dec_normalize_val)
  have "\<exists>neg' c' e'. dec_normalize v = Dec neg' c' e'"
    using c by (cases "strip_zeros c e") (simp add: v dec_normalize.simps dec_fix.simps)
  then obtain neg' c' e' where n: "dec_normalize v = Dec neg' c' e'" by blast
  then show fin: "dec_is_finite (dec_normalize v)" by (simp add: dec_is_finite_def)
  have acc: "\<not> dec_le (dec_normalize v) (Dec False 0 0)" "decimal_scale (dec_normalize v) \<le> 6"
    "decimal_integer_digits (dec_normalize v) \<le> 18" "r = Some (dec_normalize v)"
    using assms(1) by (auto simp: optional_positive_decimal_def Let_def split: if_splits)
  show "r = Some (dec_normalize v)" by (rule acc(4))
  show "0 < dec_val v"
    using acc(1) dec_compare_val(3) [OF fin, of "Dec False 0 0"] val
    by (simp add: dec_is_finite_def signed_def)
  have "on_grid (10 ^ 24) (dec_normalize v)"
    unfolding n using acc(2,3)
    by (intro grid_of_parts) (auto simp: decimal_scale_def decimal_integer_digits_def n split: if_splits)
  then show "on_grid (10 ^ 24) v"
    by (rule on_grid_val [OF _ val [symmetric]]) (simp add: v dec_is_finite_def)
qed

lemma valid_allocation_decimals:
  assumes "valid_allocation a"
  shows "\<exists>r. optional_positive_decimal (al_amount a)
      ''amount must be a finite Decimal value.'' ''amount must be greater than zero.'' = Inr r"
    and "\<exists>r. optional_positive_decimal (al_percentage a)
      ''percentage must be a finite Decimal value.'' ''percentage must be greater than zero.'' = Inr r"
  using assms by (auto simp: valid_allocation_def mk_allocation_def ebind_Inr_iff)

lemma amounts_grid:
  assumes "list_all valid_allocation as" "list_all short_decimal (amounts as)"
  shows "list_all (on_grid (10 ^ 24)) (amounts as)"
  unfolding list_all_iff
proof
  fix v assume v: "v \<in> set (amounts as)"
  then obtain a where a: "a \<in> set as" "al_amount a = Some v"
    by (auto simp: amounts_def List.map_filter_def)
  then show "on_grid (10 ^ 24) v"
    using assms v valid_allocation_decimals(1) [of a] accepted_decimal_grid(1)
    by (auto simp: list_all_iff)
qed

lemma percentages_grid:
  assumes "list_all valid_allocation as" "list_all short_decimal (percentages as)"
  shows "list_all (on_grid (10 ^ 24)) (percentages as)"
  unfolding list_all_iff
proof
  fix v assume v: "v \<in> set (percentages as)"
  then obtain a where a: "a \<in> set as" "al_percentage a = Some v"
    by (auto simp: percentages_def List.map_filter_def)
  then show "on_grid (10 ^ 24) v"
    using assms v valid_allocation_decimals(2) [of a] accepted_decimal_grid(1)
    by (auto simp: list_all_iff)
qed

lemma length_map_filter: "length (List.map_filter f xs) \<le> length xs"
  by (simp add: List.map_filter_def)

lemma amounts_exact:
  assumes "list_all valid_allocation as" "list_all short_decimal (amounts as)" "length as \<le> 9999"
  shows "dec_val (dec_sum (amounts as)) = sum_list (map dec_val (amounts as))" "dec_is_finite (dec_sum (amounts as))"
  using dec_sum_grid [OF amounts_grid [OF assms(1,2)]] assms(3) length_map_filter [of al_amount as]
  by (simp_all add: amounts_def)

lemma percentages_exact:
  assumes "list_all valid_allocation as" "list_all short_decimal (percentages as)" "length as \<le> 9999"
  shows "dec_val (dec_sum (percentages as)) = sum_list (map dec_val (percentages as))"
    "dec_is_finite (dec_sum (percentages as))"
  using dec_sum_grid [OF percentages_grid [OF assms(1,2)]] assms(3) length_map_filter [of al_percentage as]
  by (simp_all add: percentages_def)


definition sample_allocation :: "string \<Rightarrow> int \<Rightarrow> allocation" where
  "sample_allocation key cents =
     \<lparr>al_allocation_key = key, al_allocation_type = INTERNAL_COST, al_source_line_number = None,
      al_description = None, al_amount = Some (Dec False (nat cents) (-2)), al_percentage = None,
      al_currency = None, al_customer_id = None, al_recharge_partner_id = None,
      al_customer_invoice_id = None, al_target_company_id = None, al_opportunity_id = None,
      al_sales_order_id = None, al_sales_order_line_id = None, al_proposal_scenario_id = None,
      al_purchase_order_id = None, al_project_id = None, al_analytic_account_id = None,
      al_subscription_id = None, al_internal_note = None\<rparr>"

definition sample_set :: allocation_set where
  "sample_set = \<lparr>as_allocations = [sample_allocation ''a'' 6050, sample_allocation ''b'' 3950],
     as_completeness = COMPLETE, as_invoice_total = Some (Dec False 100 0), as_currency = Some ''try''\<rparr>"

lemmas allocation_eval = dec_eval mk_allocation_def mk_allocation_set_def allocation_text_checks_def
  positive_id_checks_def type_specific_checks_def optional_positive_decimal_def canonical_currency_def
  decimal_scale_def decimal_integer_digits_def not_positive_def not_positive_when_given_def too_long_def
  validate_allocation_totals_def amounts_def percentages_def List.map_filter_def supplied_currencies_def
  blank_eval ONE_HUNDRED_def



end
