(* ===== verification/Write_Authorization.thy ===== *)
theory Write_Authorization
  imports Hub_Errors
begin

text \<open>
  Narrow, short-lived write authorizations:
  \<^verbatim>\<open>app/application/workbench/write_authorization.py\<close> and
  \<^verbatim>\<open>app/persistence/write_authorization_repository.py\<close>. The table is the list of its rows in
  insertion order; a timestamp is an integer number of microseconds. The clock, the review table
  and the generated identifier are arguments. Claiming reads the row in one state of the table
  and updates it in a possibly later one, so that a concurrent session is visible; failures of
  the database connection itself are not modelled.
\<close>

section \<open>Data\<close>

datatype operation_type =
    EXECUTE_VENDOR_BILL | CREATE_PERMANENT_SUPPLIER | ONE_OFF_VENDOR_SUPPLIER | ONE_OFF_VENDOR_ARCHIVE
  | CREATE_NEW_PRODUCT | MAP_EXISTING_PRODUCT

datatype authorization_status = WA_PENDING | WA_CONSUMED | WA_REVOKED | WA_EXPIRED

record write_authorization =
  wa_authorization_id :: string
  wa_company_id :: int
  wa_review_id :: string
  wa_operation_type :: operation_type
  wa_target_version :: int
  wa_status :: authorization_status
  wa_authorized_by :: string
  wa_created_at :: int
  wa_expires_at :: int
  wa_justification :: "string option"
  wa_consumed_at :: "int option"
  wa_consumed_by_trace_id :: "string option"
  wa_consumed_by_execution_id :: "string option"
  wa_revoked_at :: "int option"
  wa_revoked_by :: "string option"
  wa_use_count :: int
  wa_last_used_at :: "int option"
  wa_last_used_trace_id :: "string option"

type_synonym auth_table = "write_authorization list"

text \<open>\<^verbatim>\<open>WorkbenchReviewItem.version\<close> by review and company.\<close>

type_synonym review_versions = "string \<Rightarrow> int \<Rightarrow> int option"

section \<open>The record contract\<close>

definition authorization_checks :: "write_authorization \<Rightarrow> hub_error check list" where
  "authorization_checks w =
     [(blank (wa_authorization_id w) \<or> blank (wa_review_id w) \<or> blank (wa_authorized_by w),
       WriteAuthorizationScopeMismatchError ''Authorization identity and actor are required.''),
      (36 < length (wa_authorization_id w),
       WriteAuthorizationScopeMismatchError ''Authorization identity exceeds its storage contract.''),
      (wa_company_id w \<le> 0 \<or> wa_target_version w \<le> 0,
       WriteAuthorizationScopeMismatchError ''Authorization company/version must be positive integers.''),
      (wa_expires_at w \<le> wa_created_at w \<or> wa_use_count w < 0,
       WriteAuthorizationScopeMismatchError ''Authorization lifecycle is invalid.'')]"

definition is_expired :: "int \<Rightarrow> write_authorization \<Rightarrow> bool" where
  "is_expired now w \<longleftrightarrow> wa_expires_at w \<le> now"

definition ensure_scope ::
    "int \<Rightarrow> write_authorization \<Rightarrow> int \<Rightarrow> string \<Rightarrow> operation_type \<Rightarrow> int \<Rightarrow> string \<Rightarrow> string \<Rightarrow> (hub_error, unit) result" where
  "ensure_scope now w company_id review_id operation_type target_version consumer_id scope_error_message = run_checks
     [((wa_company_id w, wa_review_id w, wa_operation_type w, wa_target_version w)
         \<noteq> (company_id, review_id, operation_type, target_version),
       WriteAuthorizationScopeMismatchError scope_error_message),
      (wa_status w \<noteq> WA_CONSUMED \<or> wa_consumed_by_execution_id w \<noteq> Some consumer_id,
       WriteAuthorizationAlreadyConsumedError ''Authorization must be bound to this write attempt.''),
      (is_expired now w, WriteAuthorizationExpiredError ''Write authorization has expired.'')]"

definition ensure_execution_scope ::
    "int \<Rightarrow> write_authorization \<Rightarrow> int \<Rightarrow> string \<Rightarrow> int \<Rightarrow> string \<Rightarrow> (hub_error, unit) result" where
  "ensure_execution_scope now w company_id review_id decision_version execution_id =
     ensure_scope now w company_id review_id EXECUTE_VENDOR_BILL decision_version execution_id
       ''Authorization does not match the exact Vendor Bill execution scope.''"

section \<open>The repository\<close>

definition record_from_model :: "int \<Rightarrow> write_authorization \<Rightarrow> (hub_error, write_authorization) result" where
  "record_from_model now m =
     mk_checked authorization_checks
       (if wa_status m = WA_PENDING \<and> wa_expires_at m \<le> now then m\<lparr>wa_status := WA_EXPIRED\<rparr> else m)"

definition auth_row :: "auth_table \<Rightarrow> string \<Rightarrow> int \<Rightarrow> write_authorization option" where
  "auth_row t authorization_id company_id =
     find (\<lambda>w. wa_authorization_id w = authorization_id \<and> wa_company_id w = company_id) t"

text \<open>The columns of a new row; the defaults of the table fill the rest.\<close>

definition new_row ::
    "int \<Rightarrow> string \<Rightarrow> int \<Rightarrow> string \<Rightarrow> operation_type \<Rightarrow> int \<Rightarrow> string \<Rightarrow> int \<Rightarrow> string option \<Rightarrow> write_authorization" where
  "new_row now authorization_id company_id review_id operation_type target_version authorized_by expires_at justification =
     \<lparr>wa_authorization_id = authorization_id, wa_company_id = company_id, wa_review_id = review_id,
      wa_operation_type = operation_type, wa_target_version = target_version, wa_status = WA_PENDING,
      wa_authorized_by = authorized_by, wa_created_at = now, wa_expires_at = expires_at,
      wa_justification = justification, wa_consumed_at = None, wa_consumed_by_trace_id = None,
      wa_consumed_by_execution_id = None, wa_revoked_at = None, wa_revoked_by = None, wa_use_count = 0,
      wa_last_used_at = None, wa_last_used_trace_id = None\<rparr>"

text \<open>The unique and check constraints of the table that an insert can violate.\<close>

definition insert_violates :: "auth_table \<Rightarrow> write_authorization \<Rightarrow> bool" where
  "insert_violates t w \<longleftrightarrow> wa_authorization_id w \<in> set (map wa_authorization_id t)
     \<or> wa_company_id w \<le> 0 \<or> wa_target_version w \<le> 0"

definition auth_create ::
    "int \<Rightarrow> string \<Rightarrow> int \<Rightarrow> string \<Rightarrow> operation_type \<Rightarrow> int \<Rightarrow> string \<Rightarrow> int \<Rightarrow> string option \<Rightarrow>
     (auth_table, hub_error, write_authorization) action" where
  "auth_create now authorization_id company_id review_id operation_type target_version authorized_by expires_at justification t =
     (let m = new_row now authorization_id company_id review_id operation_type target_version authorized_by
                expires_at justification
      in if insert_violates t m then (Inl (WriteAuthorizationError ''Failed to persist write authorization.''), t)
         else (record_from_model now m, t @ [m]))"

definition auth_get_by_id :: "int \<Rightarrow> auth_table \<Rightarrow> string \<Rightarrow> int \<Rightarrow> (hub_error, write_authorization option) result" where
  "auth_get_by_id now t authorization_id company_id =
     (case auth_row t authorization_id company_id of
        None \<Rightarrow> Inr None | Some m \<Rightarrow> ebind (record_from_model now m) (\<lambda>r. Inr (Some r)))"

text \<open>Newest first; rows created at the same time keep their order.\<close>

definition auth_list_for_review ::
    "int \<Rightarrow> auth_table \<Rightarrow> string \<Rightarrow> int \<Rightarrow> (hub_error, write_authorization list) result" where
  "auth_list_for_review now t review_id company_id =
     emap (record_from_model now)
       (sort_key (\<lambda>m. - wa_created_at m)
         (filter (\<lambda>m. wa_review_id m = review_id \<and> wa_company_id m = company_id) t))"

definition update_row :: "(write_authorization \<Rightarrow> bool) \<Rightarrow> (write_authorization \<Rightarrow> write_authorization) \<Rightarrow> auth_table \<Rightarrow> auth_table" where
  "update_row sel f t = map (\<lambda>w. if sel w then f w else w) t"

definition auth_revoke ::
    "int \<Rightarrow> string \<Rightarrow> int \<Rightarrow> string \<Rightarrow> string \<Rightarrow> (auth_table, hub_error, write_authorization) action" where
  "auth_revoke now authorization_id company_id revoked_by review_id t =
     (case find (\<lambda>w. wa_authorization_id w = authorization_id \<and> wa_company_id w = company_id
                   \<and> wa_review_id w = review_id) t of
        None \<Rightarrow> (Inl (WriteAuthorizationNotFoundError ''Write authorization was not found.''), t)
      | Some m \<Rightarrow>
          if wa_status m = WA_REVOKED then (record_from_model now m, t)
          else if wa_expires_at m \<le> now
            then (Inl (WriteAuthorizationExpiredError ''Expired authorization cannot be revoked.''), t)
          else let m' = m\<lparr>wa_status := WA_REVOKED, wa_revoked_at := Some now, wa_revoked_by := Some revoked_by\<rparr>
               in (record_from_model now m', update_row (\<lambda>w. wa_authorization_id w = wa_authorization_id m) (\<lambda>_. m') t))"

record claim_request =
  cr_company_id :: int
  cr_review_id :: string
  cr_operation_type :: operation_type
  cr_target_version :: int
  cr_authorization_id :: string
  cr_execution_id :: string
  cr_trace_id :: "string option"

definition ensure_target_still_valid :: "review_versions \<Rightarrow> claim_request \<Rightarrow> (hub_error, unit) result" where
  "ensure_target_still_valid versions c = run_checks
     [(versions (cr_review_id c) (cr_company_id c) \<noteq> Some (cr_target_version c),
       WriteAuthorizationScopeMismatchError ''Authorization targets a stale review version.'')]"

text \<open>The conditions under which the row read for a claim may be consumed, in source order.\<close>

definition claim_checks :: "int \<Rightarrow> review_versions \<Rightarrow> claim_request \<Rightarrow> write_authorization \<Rightarrow> (hub_error, unit) result" where
  "claim_checks now versions c m =
     ebind (run_checks [((wa_review_id m, wa_operation_type m, wa_target_version m)
          \<noteq> (cr_review_id c, cr_operation_type c, cr_target_version c),
        WriteAuthorizationScopeMismatchError ''Write authorization scope does not match request.'')]) (\<lambda>_.
     ebind (ensure_target_still_valid versions c) (\<lambda>_.
     run_checks
       [(wa_status m = WA_REVOKED, WriteAuthorizationRevokedError ''Write authorization has been revoked.''),
        (wa_expires_at m \<le> now, WriteAuthorizationExpiredError ''Write authorization has expired.''),
        (wa_status m = WA_CONSUMED \<and> wa_consumed_by_execution_id m \<noteq> Some (cr_execution_id c),
         WriteAuthorizationAlreadyConsumedError ''Authorization belongs to a different execution.''),
        (wa_status m \<noteq> WA_PENDING \<and> wa_status m \<noteq> WA_CONSUMED,
         WriteAuthorizationError ''Write authorization has an invalid lifecycle state.'')]))"

text \<open>Python's \<^verbatim>\<open>a or b\<close> on optional values; an empty string counts as absent.\<close>

definition or_else :: "'a option \<Rightarrow> 'a option \<Rightarrow> 'a option" where
  "or_else a b = (case a of None \<Rightarrow> b | Some x \<Rightarrow> Some x)"

definition or_else_text :: "string option \<Rightarrow> string option \<Rightarrow> string option" where
  "or_else_text a b = (case a of None \<Rightarrow> b | Some s \<Rightarrow> if s = [] then b else Some s)"

definition consumed_row :: "int \<Rightarrow> claim_request \<Rightarrow> write_authorization \<Rightarrow> write_authorization \<Rightarrow> write_authorization" where
  "consumed_row now c m w =
     w\<lparr>wa_status := WA_CONSUMED,
       wa_consumed_at := or_else (wa_consumed_at m) (Some now),
       wa_consumed_by_execution_id := Some (cr_execution_id c),
       wa_consumed_by_trace_id := or_else_text (wa_consumed_by_trace_id m) (cr_trace_id c),
       wa_use_count := wa_use_count m + 1,
       wa_last_used_at := Some now,
       wa_last_used_trace_id := cr_trace_id c\<rparr>"

text \<open>The row lock is on the table as read; the conditional update runs on the table as written.\<close>

definition claim_and_consume_at ::
    "auth_table \<Rightarrow> int \<Rightarrow> review_versions \<Rightarrow> claim_request \<Rightarrow> (auth_table, hub_error, write_authorization) action" where
  "claim_and_consume_at read_t now versions c t =
     (if cr_authorization_id c = [] \<or> cr_execution_id c = []
        then (Inl (WriteAuthorizationScopeMismatchError ''Explicit authorization and execution identities are required.''), t)
      else if cr_operation_type c = ONE_OFF_VENDOR_ARCHIVE
        then (Inl (WriteAuthorizationScopeMismatchError
               ''ONE_OFF_VENDOR_ARCHIVE is retired; one-off supplier partners are no longer archived.''), t)
      else case auth_row read_t (cr_authorization_id c) (cr_company_id c) of
        None \<Rightarrow> (Inl (WriteAuthorizationNotFoundError ''Specified write authorization was not found.''), t)
      | Some m \<Rightarrow>
          (case claim_checks now versions c m of
             Inl e \<Rightarrow> (Inl e, t)
           | Inr _ \<Rightarrow>
               let sel = (\<lambda>w. wa_authorization_id w = wa_authorization_id m \<and> wa_status w = wa_status m
                              \<and> wa_use_count w = wa_use_count m)
               in (case filter sel t of
                     [w] \<Rightarrow> (record_from_model now (consumed_row now c m w), update_row sel (consumed_row now c m) t)
                   | _ \<Rightarrow> (Inl (WriteAuthorizationAlreadyConsumedError
                            ''Authorization was changed by a concurrent request.''), t))))"

definition claim_and_consume ::
    "int \<Rightarrow> review_versions \<Rightarrow> claim_request \<Rightarrow> (auth_table, hub_error, write_authorization) action" where
  "claim_and_consume now versions c t = claim_and_consume_at t now versions c t"

section \<open>What a successful claim guarantees\<close>

lemma claim_checks_ok:
  "claim_checks now versions c m = Inr u \<longleftrightarrow>
     wa_review_id m = cr_review_id c \<and> wa_operation_type m = cr_operation_type c
     \<and> wa_target_version m = cr_target_version c
     \<and> versions (cr_review_id c) (cr_company_id c) = Some (cr_target_version c)
     \<and> now < wa_expires_at m
     \<and> (wa_status m = WA_PENDING \<or> wa_status m = WA_CONSUMED \<and> wa_consumed_by_execution_id m = Some (cr_execution_id c))"
  by (cases "wa_status m")
     (auto simp: claim_checks_def ensure_target_still_valid_def ebind_Inr_iff run_checks_ok)

lemma auth_row_Some:
  "auth_row t a k = Some m \<Longrightarrow> m \<in> set t \<and> wa_authorization_id m = a \<and> wa_company_id m = k"
  by (auto simp: auth_row_def find_Some_iff in_set_conv_nth)

definition claim_selects :: "write_authorization \<Rightarrow> write_authorization \<Rightarrow> bool" where
  "claim_selects m w \<longleftrightarrow> wa_authorization_id w = wa_authorization_id m \<and> wa_status w = wa_status m
     \<and> wa_use_count w = wa_use_count m"

lemma claim_cases:
  assumes "claim_and_consume_at rt now versions c t = (r, t')"
  obtains (refused) e where "r = Inl e" "t' = t"
    | (consumed) m w where "auth_row rt (cr_authorization_id c) (cr_company_id c) = Some m"
        "claim_checks now versions c m = Inr ()" "filter (claim_selects m) t = [w]"
        "r = record_from_model now (consumed_row now c m w)"
        "t' = update_row (claim_selects m) (consumed_row now c m) t"
        "cr_authorization_id c \<noteq> []" "cr_execution_id c \<noteq> []" "cr_operation_type c \<noteq> ONE_OFF_VENDOR_ARCHIVE"
proof -
  have sel: "(\<lambda>w. wa_authorization_id w = wa_authorization_id m \<and> wa_status w = wa_status m
     \<and> wa_use_count w = wa_use_count m) = claim_selects m" for m
    by (simp add: claim_selects_def fun_eq_iff)
  note claim_def = claim_and_consume_at_def [of rt now versions c t, unfolded sel Let_def]
  show thesis
  proof (cases "cr_authorization_id c = [] \<or> cr_execution_id c = [] \<or> cr_operation_type c = ONE_OFF_VENDOR_ARCHIVE")
    case True
    then have "\<exists>e. r = Inl e" "t' = t" using assms by (auto simp: claim_def split: if_splits)
    then show ?thesis using refused by blast
  next
    case False
    show ?thesis
    proof (cases "auth_row rt (cr_authorization_id c) (cr_company_id c)")
      case None
      with False assms show ?thesis by (intro refused) (auto simp: claim_def)
    next
      case (Some m)
      show ?thesis
      proof (cases "claim_checks now versions c m")
        case (Inl e)
        with False Some assms show ?thesis by (intro refused) (auto simp: claim_def)
      next
        case (Inr u)
        show ?thesis
        proof (cases "\<exists>w. filter (claim_selects m) t = [w]")
          case True
          then obtain w where "filter (claim_selects m) t = [w]" ..
          with False Some Inr assms show ?thesis by (intro consumed) (auto simp: claim_def)
        next
          case none: False
          with False Some Inr assms show ?thesis
            by (intro refused) (auto simp: claim_def split: list.splits)
        qed
      qed
    qed
  qed
qed

lemma record_from_model_consumed:
  "record_from_model now (consumed_row now' c m w) = Inr r \<Longrightarrow> r = consumed_row now' c m w"
  by (auto simp: record_from_model_def mk_checked_Inr_iff consumed_row_def split: if_splits)

section \<open>Histories\<close>

text \<open>
  The states of the table, newest first, under any interleaving of issue, revoke and claim; a claim
  may have read the row in any earlier state. The log holds the claims that returned a record.
\<close>

inductive auth_history :: "auth_table list \<Rightarrow> (claim_request \<times> write_authorization) list \<Rightarrow> bool" where
  start: "auth_history [[]] []"
| issue: "auth_history (t # ts) log \<Longrightarrow> auth_create now a k r op v by ex j t = (res, t') \<Longrightarrow>
    auth_history (t' # t # ts) log"
| revoke: "auth_history (t # ts) log \<Longrightarrow> auth_revoke now a k by r t = (res, t') \<Longrightarrow>
    auth_history (t' # t # ts) log"
| claim: "auth_history (t # ts) log \<Longrightarrow> rt \<in> set (t # ts) \<Longrightarrow>
    claim_and_consume_at rt now versions c t = (Inr w, t') \<Longrightarrow> auth_history (t' # t # ts) ((c, w) # log)"
| claim_refused: "auth_history (t # ts) log \<Longrightarrow> rt \<in> set (t # ts) \<Longrightarrow>
    claim_and_consume_at rt now versions c t = (Inl e, t') \<Longrightarrow> auth_history (t' # t # ts) log"

definition row_ok :: "write_authorization \<Rightarrow> bool" where
  "row_ok w \<longleftrightarrow> 0 \<le> wa_use_count w \<and> (wa_use_count w = 0 \<longleftrightarrow> wa_consumed_by_execution_id w = None)
     \<and> (wa_status w = WA_PENDING \<longrightarrow> wa_use_count w = 0) \<and> (wa_status w = WA_CONSUMED \<longrightarrow> 0 < wa_use_count w)"

definition same_scope :: "write_authorization \<Rightarrow> write_authorization \<Rightarrow> bool" where
  "same_scope m w \<longleftrightarrow> wa_authorization_id w = wa_authorization_id m \<and> wa_company_id w = wa_company_id m
     \<and> wa_review_id w = wa_review_id m \<and> wa_operation_type w = wa_operation_type m
     \<and> wa_target_version w = wa_target_version m \<and> wa_expires_at w = wa_expires_at m"

text \<open>What a row may become: its scope is fixed, its binding is never changed once made.\<close>

definition row_evolves :: "write_authorization \<Rightarrow> write_authorization \<Rightarrow> bool" where
  "row_evolves m w \<longleftrightarrow> same_scope m w \<and> wa_use_count m \<le> wa_use_count w
     \<and> (wa_consumed_by_execution_id m \<noteq> None \<longrightarrow> wa_consumed_by_execution_id w = wa_consumed_by_execution_id m)"

definition table_evolves :: "auth_table \<Rightarrow> auth_table \<Rightarrow> bool" where
  "table_evolves s t \<longleftrightarrow> (\<forall>m \<in> set s. \<exists>w \<in> set t. row_evolves m w)"

definition table_ok :: "auth_table \<Rightarrow> bool" where
  "table_ok t \<longleftrightarrow> distinct (map wa_authorization_id t) \<and> (\<forall>w \<in> set t. row_ok w)"

lemma table_ok_unique:
  "table_ok t \<Longrightarrow> x \<in> set t \<Longrightarrow> y \<in> set t \<Longrightarrow> wa_authorization_id x = wa_authorization_id y \<Longrightarrow> x = y"
  by (auto simp: table_ok_def distinct_map dest: inj_onD)

lemma row_evolves_refl [simp]: "row_evolves m m"
  by (simp add: row_evolves_def same_scope_def)

lemma row_evolves_trans: "row_evolves a b \<Longrightarrow> row_evolves b c \<Longrightarrow> row_evolves a c"
  by (auto simp: row_evolves_def same_scope_def)

lemma table_evolves_refl [simp]: "table_evolves t t"
  unfolding table_evolves_def by (meson row_evolves_refl)

lemma table_evolves_trans: "table_evolves a b \<Longrightarrow> table_evolves b c \<Longrightarrow> table_evolves a c"
  unfolding table_evolves_def by (meson row_evolves_trans)

lemma update_row_evolves:
  assumes "table_ok t" and "\<And>w. w \<in> set t \<Longrightarrow> sel w \<Longrightarrow> row_evolves w (f w) \<and> row_ok (f w)"
  shows "table_ok (update_row sel f t) \<and> table_evolves t (update_row sel f t)"
proof -
  have "map wa_authorization_id (update_row sel f t) = map wa_authorization_id t"
    using assms(2) by (auto simp: update_row_def row_evolves_def same_scope_def)
  moreover have "row_ok w" if "w \<in> set (update_row sel f t)" for w
    using that assms by (auto simp: update_row_def table_ok_def split: if_splits)
  moreover have "table_evolves t (update_row sel f t)"
    unfolding table_evolves_def
  proof
    fix m assume m: "m \<in> set t"
    have "(if sel m then f m else m) \<in> set (update_row sel f t)"
      using m by (simp add: update_row_def)
    moreover have "row_evolves m (if sel m then f m else m)" using assms(2) m by simp
    ultimately show "\<exists>w \<in> set (update_row sel f t). row_evolves m w" by blast
  qed
  ultimately show ?thesis using assms(1) by (simp add: table_ok_def)
qed

lemma auth_create_evolves:
  "table_ok t \<Longrightarrow> auth_create now a k r op v by ex j t = (res, t') \<Longrightarrow> table_ok t' \<and> table_evolves t t'"
  by (auto simp: auth_create_def insert_violates_def new_row_def table_ok_def row_ok_def table_evolves_def
      Let_def split: if_splits intro: row_evolves_refl)

lemma auth_revoke_evolves:
  assumes "table_ok t" "auth_revoke now a k by r t = (res, t')"
  shows "table_ok t' \<and> table_evolves t t'"
proof (cases "t' = t")
  case True
  with assms(1) show ?thesis by simp
next
  case False
  with assms(2) obtain m where m: "m \<in> set t"
    and t': "t' = update_row (\<lambda>w. wa_authorization_id w = wa_authorization_id m)
      (\<lambda>_. m\<lparr>wa_status := WA_REVOKED, wa_revoked_at := Some now, wa_revoked_by := Some by\<rparr>) t"
    by (auto simp: auth_revoke_def Let_def find_Some_iff in_set_conv_nth split: option.splits if_splits)
  have "w = m" if "w \<in> set t" "wa_authorization_id w = wa_authorization_id m" for w
    using that m table_ok_unique [OF assms(1)] by blast
  moreover have "row_ok m" using m assms(1) by (simp add: table_ok_def)
  ultimately show ?thesis
    unfolding t' using assms(1)
    by (intro update_row_evolves) (auto simp: row_evolves_def same_scope_def row_ok_def)
qed

text \<open>The claim that a logged entry records: its row is bound to the claiming execution, in its scope.\<close>

definition entry_of :: "claim_request \<Rightarrow> write_authorization \<Rightarrow> bool" where
  "entry_of c w \<longleftrightarrow> wa_authorization_id w = cr_authorization_id c \<and> wa_company_id w = cr_company_id c
     \<and> wa_review_id w = cr_review_id c \<and> wa_operation_type w = cr_operation_type c
     \<and> wa_target_version w = cr_target_version c \<and> wa_consumed_by_execution_id w = Some (cr_execution_id c)"

definition entry_bound :: "auth_table \<Rightarrow> claim_request \<Rightarrow> bool" where
  "entry_bound t c \<longleftrightarrow> (\<exists>w \<in> set t. entry_of c w)"

lemma entry_of_evolves: "entry_of c m \<Longrightarrow> row_evolves m w \<Longrightarrow> entry_of c w"
  by (auto simp: entry_of_def row_evolves_def same_scope_def)

lemma entry_bound_evolves: "entry_bound s c \<Longrightarrow> table_evolves s t \<Longrightarrow> entry_bound t c"
  unfolding entry_bound_def table_evolves_def by (blast intro: entry_of_evolves)

lemma claim_evolves:
  assumes ok: "table_ok t" and read: "table_ok rt" "table_evolves rt t"
    and claim: "claim_and_consume_at rt now versions c t = (r, t')"
  shows "table_ok t' \<and> table_evolves t t' \<and> (\<forall>w. r = Inr w \<longrightarrow> entry_bound t' c)"
  using claim
proof (cases rule: claim_cases)
  case refused
  with ok show ?thesis by simp
next
  case (consumed m w)
  then have m: "m \<in> set rt" "wa_authorization_id m = cr_authorization_id c" "wa_company_id m = cr_company_id c"
    using auth_row_Some by blast+
  obtain x where x: "x \<in> set t" "row_evolves m x" using m(1) read(2) by (auto simp: table_evolves_def)
  have only: "y = x" if "y \<in> set t" "claim_selects m y" for y
    using that x by (intro table_ok_unique [OF ok]) (auto simp: claim_selects_def row_evolves_def same_scope_def)
  have w: "w \<in> set t" "claim_selects m w"
    using consumed(3) by (auto simp: filter_eq_Cons_iff)
  then have wx: "w = x" "claim_selects m x" using only [of w] by auto
  have unbound: "wa_consumed_by_execution_id x \<noteq> None \<Longrightarrow> wa_consumed_by_execution_id x = Some (cr_execution_id c)"
    using consumed(2) m(1) read(1) ok x wx(2)
    by (auto simp: claim_checks_ok claim_selects_def row_evolves_def table_ok_def row_ok_def)
  have "row_ok x" "row_ok m" using x ok m read by (auto simp: table_ok_def)
  then have new: "row_evolves x (consumed_row now c m x)" "row_ok (consumed_row now c m x)"
    using wx(2) unbound by (auto simp: row_evolves_def same_scope_def consumed_row_def row_ok_def claim_selects_def)
  have t': "table_ok t' \<and> table_evolves t t'"
    unfolding consumed(5) using ok new only by (intro update_row_evolves) auto
  have "consumed_row now c m x \<in> set t'"
    using x wx(2) by (force simp: consumed(5) update_row_def)
  moreover have "entry_of c (consumed_row now c m x)"
    using consumed(2) m x by (auto simp: entry_of_def claim_checks_ok consumed_row_def row_evolves_def same_scope_def)
  ultimately have "entry_bound t' c" by (auto simp: entry_bound_def)
  with t' show ?thesis by simp
qed

lemma history_ok:
  "auth_history ts log \<Longrightarrow> \<exists>t tl. ts = t # tl \<and> (\<forall>s \<in> set ts. table_ok s \<and> table_evolves s t)
     \<and> (\<forall>(c, w) \<in> set log. entry_bound t c)"
proof (induction rule: auth_history.induct)
  case start
  then show ?case by (simp add: table_ok_def)
next
  case (issue t ts log now a k r op v "by" ex j res t')
  then show ?case
    using auth_create_evolves by (fastforce intro: entry_bound_evolves table_evolves_trans)
next
  case (revoke t ts log now a k "by" r res t')
  then show ?case
    using auth_revoke_evolves by (fastforce intro: entry_bound_evolves table_evolves_trans)
next
  case (claim t ts log rt now versions c w t')
  then have "table_ok t' \<and> table_evolves t t' \<and> entry_bound t' c"
    using claim_evolves [of t rt now versions c "Inr w" t'] by auto
  then show ?case
    using claim.IH by (fastforce intro: entry_bound_evolves table_evolves_trans)
next
  case (claim_refused t ts log rt now versions c e t')
  then have "table_ok t' \<and> table_evolves t t'"
    using claim_evolves [of t rt now versions c "Inl e" t'] by auto
  then show ?case
    using claim_refused.IH by (fastforce intro: entry_bound_evolves table_evolves_trans)
qed

text \<open>
  C2. In every interleaving of issuing, revoking and claiming, including claims that act on a stale
  read of the row, an authorization admits exactly one execution: two successful claims of the same
  authorization name the same execution, company, review, operation and version.
\<close>

theorem authorization_single_execution:
  assumes "auth_history ts log" "(c1, w1) \<in> set log" "(c2, w2) \<in> set log"
    and "cr_authorization_id c1 = cr_authorization_id c2"
  shows "cr_execution_id c1 = cr_execution_id c2 \<and> cr_company_id c1 = cr_company_id c2
    \<and> cr_review_id c1 = cr_review_id c2 \<and> cr_operation_type c1 = cr_operation_type c2
    \<and> cr_target_version c1 = cr_target_version c2"
proof -
  obtain t where t: "table_ok t" "entry_bound t c1" "entry_bound t c2"
    using history_ok [OF assms(1)] assms(2,3) by (metis (mono_tags, lifting) case_prodD list.set_intros(1))
  obtain x y where "x \<in> set t" "y \<in> set t" and x: "entry_of c1 x" and y: "entry_of c2 y"
    using t(2,3) by (auto simp: entry_bound_def)
  with t(1) assms(4) have "x = y"
    by (intro table_ok_unique) (auto simp: entry_of_def)
  with x y show ?thesis by (auto simp: entry_of_def)
qed

definition sample_claim :: "string \<Rightarrow> claim_request" where
  "sample_claim trace = \<lparr>cr_company_id = 1, cr_review_id = ''r1'', cr_operation_type = EXECUTE_VENDOR_BILL,
     cr_target_version = 2, cr_authorization_id = ''auth-1'', cr_execution_id = ''exec-1'', cr_trace_id = Some trace\<rparr>"

definition sample_row :: write_authorization where
  "sample_row = new_row 100 ''auth-1'' 1 ''r1'' EXECUTE_VENDOR_BILL 2 ''operator'' 1000 None"

lemmas sample_claim_evals = claim_and_consume_at_def sample_claim_def sample_row_def new_row_def auth_row_def
  claim_checks_def ensure_target_still_valid_def record_from_model_def mk_checked_def authorization_checks_def
  consumed_row_def update_row_def or_else_def or_else_text_def str_simps

lemma sample_claims_run:
  "\<exists>ts w1 w2. auth_history ts [(sample_claim ''t2'', w2), (sample_claim ''t1'', w1)]"
proof -
  let ?v = "\<lambda>_ _. Some 2"
  let ?w1 = "consumed_row 200 (sample_claim ''t1'') sample_row sample_row"
  let ?w2 = "consumed_row 300 (sample_claim ''t2'') ?w1 ?w1"
  have h1: "auth_history [[sample_row], []] []"
    by (rule auth_history.issue [OF auth_history.start, of 100 "''auth-1''" 1 "''r1''" EXECUTE_VENDOR_BILL 2
          "''operator''" 1000 None "record_from_model 100 sample_row"])
       (simp add: auth_create_def insert_violates_def new_row_def sample_row_def Let_def)
  have c1: "claim_and_consume_at [sample_row] 200 ?v (sample_claim ''t1'') [sample_row] = (Inr ?w1, [?w1])"
    by (simp add: sample_claim_evals)
  have h2: "auth_history [[?w1], [sample_row], []] [(sample_claim ''t1'', ?w1)]"
    by (rule auth_history.claim [OF h1 _ c1]) simp
  have c2: "claim_and_consume_at [?w1] 300 ?v (sample_claim ''t2'') [?w1] = (Inr ?w2, [?w2])"
    by (simp add: sample_claim_evals)
  have "auth_history [[?w2], [?w1], [sample_row], []] [(sample_claim ''t2'', ?w2), (sample_claim ''t1'', ?w1)]"
    by (rule auth_history.claim [OF h2 _ c2]) simp
  then show ?thesis by blast
qed

theorem authorization_single_execution_witness:
  "cr_execution_id (sample_claim ''t1'') = cr_execution_id (sample_claim ''t2'')"
proof -
  obtain ts w1 w2 where h: "auth_history ts [(sample_claim ''t2'', w2), (sample_claim ''t1'', w1)]"
    using sample_claims_run by blast
  show ?thesis
    using authorization_single_execution [OF h, of "sample_claim ''t1''" w1 "sample_claim ''t2''" w2]
    by (simp add: sample_claim_def)
qed

text \<open>
  A successful claim returns an authorization that passes the defence-in-depth check of the
  executing code: exact company, review, operation and version, bound to the claiming execution and
  not expired; and the review was at the target version when it was claimed.
\<close>

theorem claim_gives_scope:
  assumes "claim_and_consume_at rt now versions c t = (Inr w, t')"
    and "table_ok t" "table_ok rt" "table_evolves rt t"
  shows "ensure_scope now w (cr_company_id c) (cr_review_id c) (cr_operation_type c) (cr_target_version c)
      (cr_execution_id c) msg = Inr ()
    \<and> w \<in> set t' \<and> versions (cr_review_id c) (cr_company_id c) = Some (cr_target_version c)"
  using assms(1)
proof (cases rule: claim_cases)
  case (consumed m x)
  have m: "m \<in> set rt" "wa_authorization_id m = cr_authorization_id c" "wa_company_id m = cr_company_id c"
    using auth_row_Some [OF consumed(1)] by blast+
  obtain y where y: "y \<in> set t" "row_evolves m y" using m(1) assms(4) by (auto simp: table_evolves_def)
  have x: "x \<in> set t" "claim_selects m x"
    using consumed(3) by (auto simp: filter_eq_Cons_iff)
  have "x = y"
    using x y by (intro table_ok_unique [OF assms(2)]) (auto simp: claim_selects_def row_evolves_def same_scope_def)
  with y have scope: "same_scope m x" by (simp add: row_evolves_def)
  have w: "w = consumed_row now c m x" using record_from_model_consumed consumed(4) by metis
  have "w \<in> set t'" using x by (force simp: w consumed(5) update_row_def)
  with scope m consumed(2) show ?thesis
    by (auto simp: w claim_checks_ok ensure_scope_def run_checks_ok consumed_row_def same_scope_def is_expired_def)
qed simp

theorem claim_gives_scope_witness:
  "ensure_scope 200 (consumed_row 200 (sample_claim ''t1'') sample_row sample_row) 1 ''r1'' EXECUTE_VENDOR_BILL 2
     ''exec-1'' ''scope'' = Inr ()"
proof -
  have run: "claim_and_consume_at [sample_row] 200 (\<lambda>_ _. Some 2) (sample_claim ''t1'') [sample_row]
      = (Inr (consumed_row 200 (sample_claim ''t1'') sample_row sample_row),
         [consumed_row 200 (sample_claim ''t1'') sample_row sample_row])"
    by (simp add: sample_claim_evals)
  have ok: "table_ok [sample_row]" by (simp add: table_ok_def row_ok_def sample_row_def new_row_def)
  from claim_gives_scope [OF run ok ok] show ?thesis by (simp add: sample_claim_def)
qed

end
