(* ===== verification/Exec_Contracts.thy ===== *)
theory Exec_Contracts
  imports Allocations Write_Authorization
begin

text \<open>
  The contracts of the execution engine: \<^verbatim>\<open>app/application/execution/contracts.py\<close>, the workflow
  identifiers of \<^verbatim>\<open>app/application/workflow.py\<close> and the customer invoice billing instruction of
  \<^verbatim>\<open>app/billing/dto.py\<close>. Every frozen dataclass is a record; its \<^verbatim>\<open>__post_init__\<close> is the list of its
  guards in source order (\<^verbatim>\<open>mk_checked\<close> of the prelude raises the first that fails). The
  \<^verbatim>\<open>isinstance\<close> guards hold by typing. Constructors carry the prefix of their enumeration.
\<close>

section \<open>Enumerations\<close>

datatype workflow_type =
    WF_VENDOR_BILL | WF_RFQ | WF_EXPENSE | WF_ASSET | WF_SUBSCRIPTION | WF_CUSTOMER_QUOTATION
   | WF_MANUAL_REVIEW

fun workflow_value :: "workflow_type \<Rightarrow> string" where
  "workflow_value WF_VENDOR_BILL = ''vendor_bill''"
| "workflow_value WF_RFQ = ''rfq''"
| "workflow_value WF_EXPENSE = ''expense''"
| "workflow_value WF_ASSET = ''asset''"
| "workflow_value WF_SUBSCRIPTION = ''subscription''"
| "workflow_value WF_CUSTOMER_QUOTATION = ''customer_quotation''"
| "workflow_value WF_MANUAL_REVIEW = ''manual_review''"

definition workflow_members :: "workflow_type list" where
  "workflow_members = [WF_VENDOR_BILL, WF_RFQ, WF_EXPENSE, WF_ASSET, WF_SUBSCRIPTION, WF_CUSTOMER_QUOTATION,
     WF_MANUAL_REVIEW]"

interpretation workflow_enum: str_enum workflow_members workflow_value
proof unfold_locales
  show "x \<in> set workflow_members" for x
    by (cases x) (simp_all add: workflow_members_def)
qed (simp add: workflow_members_def)

datatype execution_status =
    XS_PENDING | XS_PLANNED | XS_DRY_RUN_COMPLETED | XS_READY_TO_EXECUTE | XS_EXECUTED
   | XS_PARTIALLY_EXECUTED | XS_FAILED | XS_CANCELLED

fun execution_status_value :: "execution_status \<Rightarrow> string" where
  "execution_status_value XS_PENDING = ''pending''"
| "execution_status_value XS_PLANNED = ''planned''"
| "execution_status_value XS_DRY_RUN_COMPLETED = ''dry_run_completed''"
| "execution_status_value XS_READY_TO_EXECUTE = ''ready_to_execute''"
| "execution_status_value XS_EXECUTED = ''executed''"
| "execution_status_value XS_PARTIALLY_EXECUTED = ''partially_executed''"
| "execution_status_value XS_FAILED = ''failed''"
| "execution_status_value XS_CANCELLED = ''cancelled''"

definition execution_status_members :: "execution_status list" where
  "execution_status_members = [XS_PENDING, XS_PLANNED, XS_DRY_RUN_COMPLETED, XS_READY_TO_EXECUTE, XS_EXECUTED,
     XS_PARTIALLY_EXECUTED, XS_FAILED, XS_CANCELLED]"

interpretation execution_status_enum: str_enum execution_status_members execution_status_value
proof unfold_locales
  show "x \<in> set execution_status_members" for x
    by (cases x) (simp_all add: execution_status_members_def)
qed (simp add: execution_status_members_def)

datatype execution_mode =
    DRY_RUN | EXECUTE

fun mode_value :: "execution_mode \<Rightarrow> string" where
  "mode_value DRY_RUN = ''dry_run''"
| "mode_value EXECUTE = ''execute''"

definition mode_members :: "execution_mode list" where
  "mode_members = [DRY_RUN, EXECUTE]"

interpretation mode_enum: str_enum mode_members mode_value
proof unfold_locales
  show "x \<in> set mode_members" for x
    by (cases x) (simp_all add: mode_members_def)
qed (simp add: mode_members_def)

datatype step_type =
    ST_VENDOR_BILL | ST_SALES_ORDER_COST_LINK | ST_CUSTOMER_RECHARGE | ST_EXISTING_PURCHASE_ORDER
   | ST_NEW_RFQ_PURCHASE | ST_PROJECT_COST | ST_OPERATING_EXPENSE | ST_FIXED_ASSET
   | ST_SUBSCRIPTION_SERVICE | ST_INTERNAL_COST | ST_CREATE_CUSTOMER_QUOTATION

fun step_type_value :: "step_type \<Rightarrow> string" where
  "step_type_value ST_VENDOR_BILL = ''vendor_bill''"
| "step_type_value ST_SALES_ORDER_COST_LINK = ''sales_order_cost_link''"
| "step_type_value ST_CUSTOMER_RECHARGE = ''customer_recharge''"
| "step_type_value ST_EXISTING_PURCHASE_ORDER = ''existing_purchase_order''"
| "step_type_value ST_NEW_RFQ_PURCHASE = ''new_rfq_purchase''"
| "step_type_value ST_PROJECT_COST = ''project_cost''"
| "step_type_value ST_OPERATING_EXPENSE = ''operating_expense''"
| "step_type_value ST_FIXED_ASSET = ''fixed_asset''"
| "step_type_value ST_SUBSCRIPTION_SERVICE = ''subscription_service''"
| "step_type_value ST_INTERNAL_COST = ''internal_cost''"
| "step_type_value ST_CREATE_CUSTOMER_QUOTATION = ''create_customer_quotation''"

definition step_type_members :: "step_type list" where
  "step_type_members = [ST_VENDOR_BILL, ST_SALES_ORDER_COST_LINK, ST_CUSTOMER_RECHARGE,
     ST_EXISTING_PURCHASE_ORDER, ST_NEW_RFQ_PURCHASE, ST_PROJECT_COST,
     ST_OPERATING_EXPENSE, ST_FIXED_ASSET, ST_SUBSCRIPTION_SERVICE, ST_INTERNAL_COST,
     ST_CREATE_CUSTOMER_QUOTATION]"

interpretation step_type_enum: str_enum step_type_members step_type_value
proof unfold_locales
  show "x \<in> set step_type_members" for x
    by (cases x) (simp_all add: step_type_members_def)
qed (simp add: step_type_members_def)

datatype step_status =
    SS_DRY_RUN_OK | SS_READY | SS_EXECUTED | SS_SKIPPED | SS_FAILED | SS_UNSUPPORTED

fun step_status_value :: "step_status \<Rightarrow> string" where
  "step_status_value SS_DRY_RUN_OK = ''dry_run_ok''"
| "step_status_value SS_READY = ''ready''"
| "step_status_value SS_EXECUTED = ''executed''"
| "step_status_value SS_SKIPPED = ''skipped''"
| "step_status_value SS_FAILED = ''failed''"
| "step_status_value SS_UNSUPPORTED = ''unsupported''"

definition step_status_members :: "step_status list" where
  "step_status_members = [SS_DRY_RUN_OK, SS_READY, SS_EXECUTED, SS_SKIPPED, SS_FAILED, SS_UNSUPPORTED]"

interpretation step_status_enum: str_enum step_status_members step_status_value
proof unfold_locales
  show "x \<in> set step_status_members" for x
    by (cases x) (simp_all add: step_status_members_def)
qed (simp add: step_status_members_def)

datatype artifact_type =
    AT_VENDOR_BILL | AT_RFQ | AT_PURCHASE_ORDER | AT_EXPENSE | AT_FIXED_ASSET | AT_SUBSCRIPTION
   | AT_CUSTOMER_INVOICE | AT_CUSTOMER_QUOTATION

fun artifact_type_value :: "artifact_type \<Rightarrow> string" where
  "artifact_type_value AT_VENDOR_BILL = ''vendor_bill''"
| "artifact_type_value AT_RFQ = ''rfq''"
| "artifact_type_value AT_PURCHASE_ORDER = ''purchase_order''"
| "artifact_type_value AT_EXPENSE = ''expense''"
| "artifact_type_value AT_FIXED_ASSET = ''asset''"
| "artifact_type_value AT_SUBSCRIPTION = ''subscription''"
| "artifact_type_value AT_CUSTOMER_INVOICE = ''customer_invoice''"
| "artifact_type_value AT_CUSTOMER_QUOTATION = ''customer_quotation''"

definition artifact_type_members :: "artifact_type list" where
  "artifact_type_members = [AT_VENDOR_BILL, AT_RFQ, AT_PURCHASE_ORDER, AT_EXPENSE, AT_FIXED_ASSET, AT_SUBSCRIPTION,
     AT_CUSTOMER_INVOICE, AT_CUSTOMER_QUOTATION]"

interpretation artifact_type_enum: str_enum artifact_type_members artifact_type_value
proof unfold_locales
  show "x \<in> set artifact_type_members" for x
    by (cases x) (simp_all add: artifact_type_members_def)
qed (simp add: artifact_type_members_def)

datatype failure_policy =
    FAIL_FAST | COLLECT_ALL

fun failure_policy_value :: "failure_policy \<Rightarrow> string" where
  "failure_policy_value FAIL_FAST = ''fail_fast''"
| "failure_policy_value COLLECT_ALL = ''collect_all''"

definition failure_policy_members :: "failure_policy list" where
  "failure_policy_members = [FAIL_FAST, COLLECT_ALL]"

interpretation failure_policy_enum: str_enum failure_policy_members failure_policy_value
proof unfold_locales
  show "x \<in> set failure_policy_members" for x
    by (cases x) (simp_all add: failure_policy_members_def)
qed (simp add: failure_policy_members_def)

datatype review_decision_type =
    SELECT_WORKFLOW | DISMISS

fun decision_type_value :: "review_decision_type \<Rightarrow> string" where
  "decision_type_value SELECT_WORKFLOW = ''select_workflow''"
| "decision_type_value DISMISS = ''dismiss''"

definition decision_type_members :: "review_decision_type list" where
  "decision_type_members = [SELECT_WORKFLOW, DISMISS]"

interpretation decision_type_enum: str_enum decision_type_members decision_type_value
proof unfold_locales
  show "x \<in> set decision_type_members" for x
    by (cases x) (simp_all add: decision_type_members_def)
qed (simp add: decision_type_members_def)

section \<open>Billing instructions\<close>

record billing_line =
  bl_allocation_key :: string
  bl_product_id :: int
  bl_description :: string
  bl_quantity :: decimal
  bl_unit_price :: decimal
  bl_sales_tax_ids :: "int list"

definition positive_decimal :: "decimal \<Rightarrow> bool" where
  "positive_decimal d \<longleftrightarrow> dec_is_finite d \<and> \<not> dec_le d (Dec False 0 0)"

definition billing_line_checks :: "billing_line \<Rightarrow> hub_error check list" where
  "billing_line_checks l =
     [(blank (bl_allocation_key l), ValueError ''allocation_key is required.''),
      (bl_product_id l \<le> 0, ValueError ''product_id must be a positive ERP id.''),
      (blank (bl_description l), ValueError ''description is required.''),
      (\<not> positive_decimal (bl_quantity l), ValueError ''quantity must be a positive Decimal value.''),
      (\<not> positive_decimal (bl_unit_price l), ValueError ''unit_price must be a positive Decimal value.''),
      (bl_sales_tax_ids l = [], ValueError ''sales_tax_ids are required.''),
      (\<not> distinct (bl_sales_tax_ids l), ValueError ''sales_tax_ids must be unique per billing line.'')]
     @ map (\<lambda>i. (i \<le> 0, ValueError ''sales_tax_ids must contain positive ERP ids.'')) (bl_sales_tax_ids l)"

record billing_instruction =
  bi_billing_key :: string
  bi_customer_id :: int
  bi_currency :: string
  bi_lines :: "billing_line list"

definition billing_instruction_checks :: "billing_instruction \<Rightarrow> hub_error check list" where
  "billing_instruction_checks b =
     [(blank (bi_billing_key b), ValueError ''billing_key is required.''),
      (bi_customer_id b \<le> 0, ValueError ''customer_id must be a positive ERP id.''),
      (blank (bi_currency b), ValueError ''currency is required.''),
      (length (py_upper (py_strip (bi_currency b))) \<noteq> 3 \<or> \<not> py_isalpha (py_upper (py_strip (bi_currency b))),
       ValueError ''currency must be a stable ISO-4217 code.''),
      (bi_lines b = [], ValueError ''Customer Invoice billing instruction requires at least one line.''),
      (\<not> distinct (map bl_allocation_key (bi_lines b)),
       ValueError ''billing instruction allocation keys must be unique.'')]"

definition mk_billing_instruction :: "billing_instruction \<Rightarrow> (hub_error, billing_instruction) result" where
  "mk_billing_instruction b =
     ebind (run_checks (billing_instruction_checks b)) (\<lambda>_.
       Inr (b\<lparr>bi_currency := py_upper (py_strip (bi_currency b))\<rparr>))"

text \<open>What a constructed instruction is: valid lines, and constructing it again returns it.\<close>

definition valid_billing_instruction :: "billing_instruction \<Rightarrow> bool" where
  "valid_billing_instruction b \<longleftrightarrow> list_all (valid_by billing_line_checks) (bi_lines b) \<and> mk_billing_instruction b = Inr b"

lemma mk_billing_instruction_canonical:
  assumes "mk_billing_instruction b = Inr b'"
  shows "mk_billing_instruction b' = Inr b' \<and> bi_lines b' = bi_lines b"
proof -
  let ?c = "py_upper (py_strip (bi_currency b))"
  from assms have b': "b' = b\<lparr>bi_currency := ?c\<rparr>" and ok: "list_all (\<lambda>c. \<not> fst c) (billing_instruction_checks b)"
    by (auto simp: mk_billing_instruction_def ebind_Inr_iff run_checks_ok)
  then have alpha: "py_isalpha ?c" "length ?c = 3" by (auto simp: billing_instruction_checks_def)
  then have strip: "py_strip ?c = ?c" by (intro py_strip_alpha)
  with alpha(2) have "\<not> blank ?c" unfolding blank_def by (metis list.size(3) zero_neq_numeral)
  with ok alpha strip have "run_checks (billing_instruction_checks b') = Inr ()"
    by (simp add: run_checks_ok b' billing_instruction_checks_def)
  with strip show ?thesis by (simp add: mk_billing_instruction_def b')
qed

section \<open>Requests, steps and plans\<close>

record execution_request =
  rq_execution_id :: string
  rq_review_id :: string
  rq_company_id :: int
  rq_decision_version :: int
  rq_decision_id :: "string option"
  rq_idempotency_key :: "string option"
  rq_mode :: execution_mode
  rq_selected_workflow :: "workflow_type option"
  rq_business_context_allocations :: "allocation_set option"
  rq_accepted_billing_instructions :: "billing_instruction list"
  rq_selected_quotation_scenario_ids :: "string list"

definition execution_request_checks :: "execution_request \<Rightarrow> hub_error check list" where
  "execution_request_checks r =
     [(blank (rq_execution_id r), ExecutionPlanningError ''execution_id is required.''),
      (blank (rq_review_id r), ExecutionPlanningError ''review_id is required.''),
      (rq_company_id r \<le> 0, ExecutionPlanningError ''company_id must be positive.''),
      (rq_decision_version r \<le> 0, ExecutionPlanningError ''decision_version must be positive.''),
      (blank_opt (rq_decision_id r), ExecutionPlanningError ''decision_id must be non-empty when supplied.''),
      (blank_opt (rq_idempotency_key r), ExecutionPlanningError ''idempotency_key must be non-empty when supplied.''),
      (\<not> distinct (map bi_billing_key (rq_accepted_billing_instructions r)),
       ExecutionPlanningError ''accepted_billing_instructions billing_key values must be unique.'')]
     @ map (\<lambda>s. (blank s, ExecutionPlanningError ''selected_quotation_scenario_ids values must be non-empty.''))
         (rq_selected_quotation_scenario_ids r)
     @ [(\<not> distinct (rq_selected_quotation_scenario_ids r),
         ExecutionPlanningError ''selected_quotation_scenario_ids values must be unique.'')]"

record execution_step =
  st_step_key :: string
  st_step_type :: step_type
  st_allocation_keys :: "string list"
  st_sequence :: int
  st_dry_run_supported :: bool
  st_execute_supported :: bool
  st_writer_required :: bool
  st_allocations :: "allocation list"
  st_billing_instruction :: "billing_instruction option"
  st_quotation_scenario_id :: "string option"

definition execution_step_checks :: "execution_step \<Rightarrow> hub_error check list" where
  "execution_step_checks s =
     [(blank (st_step_key s), ExecutionPlanningError ''step_key is required.''),
      (blank_opt (st_quotation_scenario_id s),
       ExecutionPlanningError ''customer_quotation_scenario_id must be non-empty when supplied.''),
      ((st_step_type s = ST_CREATE_CUSTOMER_QUOTATION) \<noteq> (st_quotation_scenario_id s \<noteq> None),
       ExecutionPlanningError
         ''customer_quotation_scenario_id is required for and exclusive to CREATE_CUSTOMER_QUOTATION steps.''),
      (st_sequence s < 1, ExecutionPlanningError ''step sequence must be positive.''),
      (\<not> distinct (st_allocation_keys s), ExecutionPlanningError ''allocation_keys must be unique per execution step.'')]
     @ map (\<lambda>k. (blank k, ExecutionPlanningError ''allocation_key is required.'')) (st_allocation_keys s)
     @ [(st_allocations s \<noteq> [] \<and> sort (map al_allocation_key (st_allocations s)) \<noteq> st_allocation_keys s,
         ExecutionPlanningError ''allocation context must match execution step allocation keys.''),
        (case st_billing_instruction s of None \<Rightarrow> False
         | Some b \<Rightarrow> sort (map bl_allocation_key (bi_lines b)) \<noteq> st_allocation_keys s,
         ExecutionPlanningError ''billing instruction must match execution step allocation keys.'')]"

record execution_plan =
  pl_execution_id :: string
  pl_review_id :: string
  pl_company_id :: int
  pl_decision_version :: int
  pl_mode :: execution_mode
  pl_steps :: "execution_step list"
  pl_decision_id :: "string option"
  pl_warnings :: "string list"
  pl_idempotency_key :: "string option"

definition execution_plan_checks :: "execution_plan \<Rightarrow> hub_error check list" where
  "execution_plan_checks p =
     [(blank (pl_execution_id p), ExecutionPlanningError ''execution_id is required.''),
      (blank (pl_review_id p), ExecutionPlanningError ''review_id is required.''),
      (pl_company_id p \<le> 0, ExecutionPlanningError ''company_id must be positive.''),
      (pl_decision_version p \<le> 0, ExecutionPlanningError ''decision_version must be positive.''),
      (blank_opt (pl_decision_id p), ExecutionPlanningError ''decision_id must be non-empty when supplied.''),
      (pl_steps p = [], ExecutionPlanningError ''execution plan requires at least one step.''),
      (\<not> distinct (map st_step_key (pl_steps p)),
       ExecutionPlanningError ''execution plan step_key values must be unique.''),
      (blank_opt (pl_idempotency_key p), ExecutionPlanningError ''idempotency_key must be non-empty when supplied.'')]"

text \<open>A plan whose parts all went through their constructors.\<close>

definition valid_step :: "execution_step \<Rightarrow> bool" where
  "valid_step s \<longleftrightarrow> valid_by execution_step_checks s \<and> list_all valid_allocation (st_allocations s)
     \<and> pred_option valid_billing_instruction (st_billing_instruction s)"

definition valid_plan :: "execution_plan \<Rightarrow> bool" where
  "valid_plan p \<longleftrightarrow> valid_by execution_plan_checks p \<and> list_all valid_step (pl_steps p)"

lemma valid_plan_keys:
  "valid_plan p \<Longrightarrow> distinct (map st_step_key (pl_steps p)) \<and> pl_steps p \<noteq> []"
  by (simp add: valid_plan_def valid_by_def execution_plan_checks_def)

section \<open>Step execution\<close>

record execution_approval =
  ap_approved_by :: string
  ap_authorization :: "write_authorization option"

definition execution_approval_checks :: "execution_approval \<Rightarrow> hub_error check list" where
  "execution_approval_checks a = [(blank (ap_approved_by a), ExecutionPlanningError ''approved_by is required.'')]"

record step_request =
  sq_execution_id :: string
  sq_review_id :: string
  sq_company_id :: int
  sq_decision_version :: int
  sq_mode :: execution_mode
  sq_step :: execution_step
  sq_approval :: "execution_approval option"
  sq_decision_id :: "string option"

definition step_request_checks :: "step_request \<Rightarrow> hub_error check list" where
  "step_request_checks r =
     [(blank (sq_execution_id r), ExecutionPlanningError ''execution_id is required.''),
      (blank (sq_review_id r), ExecutionPlanningError ''review_id is required.''),
      (sq_company_id r \<le> 0, ExecutionPlanningError ''company_id must be positive.''),
      (sq_decision_version r \<le> 0, ExecutionPlanningError ''decision_version must be positive.''),
      (blank_opt (sq_decision_id r), ExecutionPlanningError ''decision_id must be non-empty when supplied.'')]"

record artifact =
  ar_artifact_type :: artifact_type
  ar_artifact_id :: string
  ar_external_identity :: string
  ar_created :: bool

definition artifact_checks :: "artifact \<Rightarrow> hub_error check list" where
  "artifact_checks a =
     [(blank (ar_artifact_id a), ExecutionPlanningError ''artifact_id is required.''),
      (blank (ar_external_identity a), ExecutionPlanningError ''external_identity is required.'')]"

record step_result =
  sr_step_key :: string
  sr_step_type :: step_type
  sr_status :: step_status
  sr_dry_run :: bool
  sr_message :: "string option"
  sr_warnings :: "string list"
  sr_produced_artifacts :: "artifact list"
  sr_error_code :: "string option"

definition step_result_checks :: "step_result \<Rightarrow> hub_error check list" where
  "step_result_checks r =
     [(blank (sr_step_key r), ExecutionPlanningError ''step_key is required.''),
      (blank_opt (sr_message r), ExecutionPlanningError ''message must be non-empty when supplied.''),
      (blank_opt (sr_error_code r), ExecutionPlanningError ''error_code must be non-empty when supplied.'')]"

definition valid_result :: "step_result \<Rightarrow> bool" where
  "valid_result r \<longleftrightarrow> valid_by step_result_checks r \<and> list_all (valid_by artifact_checks) (sr_produced_artifacts r)"

record execution_result =
  xr_execution_id :: string
  xr_status :: execution_status
  xr_step_results :: "step_result list"
  xr_warnings :: "string list"

definition execution_result_checks :: "execution_result \<Rightarrow> hub_error check list" where
  "execution_result_checks r = [(blank (xr_execution_id r), ExecutionPlanningError ''execution_id is required.'')]"

definition succeeded_count :: "execution_result \<Rightarrow> nat" where
  "succeeded_count r =
     length (filter (\<lambda>x. sr_status x = SS_DRY_RUN_OK \<or> sr_status x = SS_READY \<or> sr_status x = SS_EXECUTED)
       (xr_step_results r))"

definition failed_count :: "execution_result \<Rightarrow> nat" where
  "failed_count r = length (filter (\<lambda>x. sr_status x = SS_FAILED) (xr_step_results r))"

definition skipped_count :: "execution_result \<Rightarrow> nat" where
  "skipped_count r = length (filter (\<lambda>x. sr_status x = SS_SKIPPED) (xr_step_results r))"

section \<open>Accepted decisions\<close>

record accepted_decision =
  ad_review_id :: string
  ad_company_id :: int
  ad_decision_version :: int
  ad_decision_id :: "string option"
  ad_selected_workflow :: "workflow_type option"
  ad_business_context_allocations :: "allocation_set option"
  ad_selected_quotation_scenario_ids :: "string list"
  ad_decision_type :: review_decision_type

fun scenario_id_checks :: "string list \<Rightarrow> string list \<Rightarrow> hub_error check list" where
  "scenario_id_checks seen [] = []"
| "scenario_id_checks seen (s # ss) =
     [(blank s, ExecutionPlanningError ''selected_quotation_scenario_ids must be non-empty identifiers.''),
      (s \<in> set seen, ExecutionPlanningError ''selected_quotation_scenario_ids must be unique.'')]
     @ scenario_id_checks (s # seen) ss"

definition is_customer_quotation :: "accepted_decision \<Rightarrow> bool" where
  "is_customer_quotation d \<longleftrightarrow>
     ad_decision_type d = SELECT_WORKFLOW \<and> ad_selected_workflow d = Some WF_CUSTOMER_QUOTATION"

definition accepted_decision_checks :: "accepted_decision \<Rightarrow> hub_error check list" where
  "accepted_decision_checks d =
     [(blank (ad_review_id d), ExecutionPlanningError ''review_id is required.''),
      (ad_company_id d \<le> 0, ExecutionPlanningError ''company_id must be positive.''),
      (ad_decision_version d \<le> 0, ExecutionPlanningError ''decision_version must be positive.''),
      (blank_opt (ad_decision_id d), ExecutionPlanningError ''decision_id must be non-empty when supplied.'')]
     @ scenario_id_checks [] (ad_selected_quotation_scenario_ids d)
     @ [(ad_selected_quotation_scenario_ids d \<noteq> [] \<and> \<not> is_customer_quotation d,
         ExecutionPlanningError ''selected_quotation_scenario_ids is only valid for a CUSTOMER_QUOTATION workflow decision.''),
        (is_customer_quotation d \<and> ad_selected_quotation_scenario_ids d = [],
         ExecutionPlanningError ''CUSTOMER_QUOTATION workflow decision requires selected_quotation_scenario_ids.'')]"

lemma scenario_id_checks_ok:
  "list_all (\<lambda>c. \<not> fst c) (scenario_id_checks seen ss) \<longleftrightarrow>
     list_all (\<lambda>s. \<not> blank s) ss \<and> distinct ss \<and> set ss \<inter> set seen = {}"
  by (induction seen ss rule: scenario_id_checks.induct) auto

lemma accepted_decision_scenarios:
  "valid_by accepted_decision_checks d \<Longrightarrow>
     list_all (\<lambda>s. \<not> blank s) (ad_selected_quotation_scenario_ids d)
     \<and> distinct (ad_selected_quotation_scenario_ids d)
     \<and> (ad_selected_quotation_scenario_ids d \<noteq> [] \<longleftrightarrow> is_customer_quotation d)"
  by (auto simp: valid_by_def accepted_decision_checks_def scenario_id_checks_ok)

section \<open>A sample plan\<close>

definition sample_step :: "string \<Rightarrow> int \<Rightarrow> execution_step" where
  "sample_step key n =
     \<lparr>st_step_key = key, st_step_type = ST_VENDOR_BILL, st_allocation_keys = [], st_sequence = n,
      st_dry_run_supported = True, st_execute_supported = True, st_writer_required = True, st_allocations = [],
      st_billing_instruction = None, st_quotation_scenario_id = None\<rparr>"

definition sample_plan :: execution_plan where
  "sample_plan =
     \<lparr>pl_execution_id = ''x1'', pl_review_id = ''r1'', pl_company_id = 1, pl_decision_version = 2, pl_mode = EXECUTE,
      pl_steps = [sample_step ''bill'' 1, sample_step ''bill-2'' 2], pl_decision_id = None, pl_warnings = [],
      pl_idempotency_key = Some ''execution:k''\<rparr>"

lemma sample_plan_valid: "valid_plan sample_plan"
  by (simp add: valid_plan_def valid_step_def valid_by_def execution_plan_checks_def execution_step_checks_def
      sample_plan_def sample_step_def blank_eval)

end
