(* ===== verification/Json_Data.thy ===== *)
theory Json_Data
  imports Hub_Errors Py_Decimal
begin

text \<open>
  JSON documents as the JSON columns hold them, and the Python expressions the readers apply to
  them: \<^verbatim>\<open>data["k"]\<close>, \<^verbatim>\<open>data.get("k")\<close>, \<^verbatim>\<open>str(x)\<close>, \<^verbatim>\<open>int(x)\<close>, \<^verbatim>\<open>bool(x)\<close> and iteration.
  A JSON column returns the document that was written. Numbers in these documents are integers:
  the writers store decimals as text. \<^verbatim>\<open>str\<close> of a list or object, which no reader of a
  document of the writers reaches, is not modelled and raises \<^verbatim>\<open>TypeError\<close> here.
\<close>

datatype json =
    JNull
  | JBool bool
  | JInt int
  | JStr string
  | JList "json list"
  | JObj "(string \<times> json) list"

definition json_get :: "json \<Rightarrow> string \<Rightarrow> json option" where
  "json_get j k = (case j of JObj kvs \<Rightarrow> map_of kvs k | _ \<Rightarrow> None)"

text \<open>\<^verbatim>\<open>data[k]\<close> raises \<^verbatim>\<open>KeyError\<close>; \<^verbatim>\<open>data.get(k)\<close> gives \<^verbatim>\<open>None\<close> (as \<^verbatim>\<open>null\<close>).\<close>

definition json_item :: "json \<Rightarrow> string \<Rightarrow> (hub_error, json) result" where
  "json_item j k = (case j of
       JObj kvs \<Rightarrow> (case map_of kvs k of None \<Rightarrow> Inl (KeyError k) | Some v \<Rightarrow> Inr v)
     | _ \<Rightarrow> Inl (TypeError ''string indices are not supported''))"

definition json_get_or_null :: "json \<Rightarrow> string \<Rightarrow> json" where
  "json_get_or_null j k = (case json_get j k of None \<Rightarrow> JNull | Some v \<Rightarrow> v)"

fun py_str :: "json \<Rightarrow> (hub_error, string) result" where
  "py_str (JStr s) = Inr s"
| "py_str (JInt i) = Inr (int_str i)"
| "py_str (JBool b) = Inr (if b then ''True'' else ''False'')"
| "py_str JNull = Inr ''None''"
| "py_str _ = Inl (TypeError ''str() of a container is not modelled'')"

fun py_int :: "json \<Rightarrow> (hub_error, int) result" where
  "py_int (JInt i) = Inr i"
| "py_int (JBool b) = Inr (if b then 1 else 0)"
| "py_int (JStr s) = (case str_int (py_strip s) of None \<Rightarrow> Inl (ValueError ''invalid literal for int()'') | Some i \<Rightarrow> Inr i)"
| "py_int _ = Inl (TypeError ''int() argument must be a string or a number'')"

fun py_bool :: "json \<Rightarrow> bool" where
  "py_bool JNull = False"
| "py_bool (JBool b) = b"
| "py_bool (JInt i) = (i \<noteq> 0)"
| "py_bool (JStr s) = (s \<noteq> [])"
| "py_bool (JList xs) = (xs \<noteq> [])"
| "py_bool (JObj kvs) = (kvs \<noteq> [])"

fun py_iter :: "json \<Rightarrow> (hub_error, json list) result" where
  "py_iter (JList xs) = Inr xs"
| "py_iter _ = Inl (TypeError ''object is not iterable'')"

definition item_str :: "json \<Rightarrow> string \<Rightarrow> (hub_error, string) result" where
  "item_str j k = ebind (json_item j k) py_str"

definition item_int :: "json \<Rightarrow> string \<Rightarrow> (hub_error, int) result" where
  "item_int j k = ebind (json_item j k) py_int"

definition item_bool :: "json \<Rightarrow> string \<Rightarrow> (hub_error, bool) result" where
  "item_bool j k = ebind (json_item j k) (\<lambda>v. Inr (py_bool v))"

definition item_list :: "json \<Rightarrow> string \<Rightarrow> (hub_error, json list) result" where
  "item_list j k = ebind (json_item j k) py_iter"

text \<open>\<^verbatim>\<open>data.get(k, ())\<close>\<close>

definition get_list :: "json \<Rightarrow> string \<Rightarrow> (hub_error, json list) result" where
  "get_list j k = (case json_get j k of None \<Rightarrow> Inr [] | Some v \<Rightarrow> py_iter v)"

text \<open>\<^verbatim>\<open>_optional_string\<close>, \<^verbatim>\<open>_optional_int\<close>, \<^verbatim>\<open>_optional_decimal\<close> of \<^verbatim>\<open>execution_runtime_repository.py\<close>.\<close>

definition optional_string :: "json \<Rightarrow> (hub_error, string option) result" where
  "optional_string v = (if v = JNull then Inr None else ebind (py_str v) (\<lambda>s. Inr (Some s)))"

definition optional_int :: "json \<Rightarrow> (hub_error, int option) result" where
  "optional_int v = (if v = JNull then Inr None else ebind (py_int v) (\<lambda>i. Inr (Some i)))"

definition py_decimal :: "json \<Rightarrow> (hub_error, decimal) result" where
  "py_decimal v = ebind (py_str v) (\<lambda>s.
     case dec_parse s of None \<Rightarrow> Inl InvalidOperation | Some d \<Rightarrow> Inr d)"

definition optional_decimal :: "json \<Rightarrow> (hub_error, decimal option) result" where
  "optional_decimal v = (if v = JNull then Inr None else ebind (py_decimal v) (\<lambda>d. Inr (Some d)))"

section \<open>Writing optional values\<close>

definition j_opt :: "('a \<Rightarrow> json) \<Rightarrow> 'a option \<Rightarrow> json" where
  "j_opt f v = (case v of None \<Rightarrow> JNull | Some x \<Rightarrow> f x)"

definition j_str :: "string option \<Rightarrow> json" where
  "j_str = j_opt JStr"

definition j_int :: "int option \<Rightarrow> json" where
  "j_int = j_opt JInt"

definition j_dec :: "decimal option \<Rightarrow> json" where
  "j_dec = j_opt (\<lambda>d. JStr (dec_str d))"

text \<open>A payload built as \<^verbatim>\<open>{k: v for k, v in optional.items() if v is not None}\<close>.\<close>

definition non_null :: "(string \<times> json) list \<Rightarrow> (string \<times> json) list" where
  "non_null kvs = filter (\<lambda>kv. snd kv \<noteq> JNull) kvs"

lemma optional_reads [simp]:
  "optional_string (j_str v) = Inr v"
  "optional_int (j_int i) = Inr i"
  "optional_decimal (j_dec d) = Inr d"
  by (simp_all add: optional_string_def optional_int_def optional_decimal_def py_decimal_def
      j_str_def j_int_def j_dec_def j_opt_def split: option.splits)

lemma json_get_Obj [simp]: "json_get (JObj kvs) k = map_of kvs k"
  by (simp add: json_get_def)

lemma get_non_null:
  "distinct (map fst kvs) \<Longrightarrow>
   (case map_of (non_null kvs) k of None \<Rightarrow> JNull | Some v \<Rightarrow> v) = (case map_of kvs k of None \<Rightarrow> JNull | Some v \<Rightarrow> v)"
proof (induction kvs)
  case (Cons kv kvs)
  have "map_of (non_null kvs) (fst kv) = None"
    using Cons.prems by (auto simp: map_of_eq_None_iff non_null_def)
  with Cons show ?case by (cases kv) (auto simp: non_null_def)
qed (simp add: non_null_def)

lemma get_or_null_append:
  "map_of xs k = None \<Longrightarrow> json_get_or_null (JObj (xs @ ys)) k = (case map_of ys k of None \<Rightarrow> JNull | Some v \<Rightarrow> v)"
  by (simp add: json_get_or_null_def map_add_def split: option.splits)

lemmas item_simps = item_str_def item_int_def item_bool_def item_list_def json_item_def

text \<open>Strings written one by one read back one by one.\<close>

lemma emap_py_str [simp]: "emap py_str (map JStr ss) = Inr ss"
  by (rule emap_inverse) simp

lemma emap_py_int [simp]: "emap py_int (map JInt is) = Inr is"
  by (rule emap_inverse) simp

end
