(* ===== verification/Exec_Runtime.thy ===== *)
theory Exec_Runtime
  imports Exec_Contracts Json_Data
begin

text \<open>
  The runtime contracts: \<^verbatim>\<open>app/application/execution/runtime.py\<close>. Execution and step states, the
  table of legal execution transitions, events, checkpoints, snapshots, histories and retry
  policies. The data of an event is a JSON object.
\<close>

section \<open>Enumerations\<close>

datatype execution_state =
    X_NEW | X_PLANNED | X_RUNNING | X_WAITING_RETRY | X_COMPLETED | X_FAILED | X_CANCELLED

fun execution_state_value :: "execution_state \<Rightarrow> string" where
  "execution_state_value X_NEW = ''new''"
| "execution_state_value X_PLANNED = ''planned''"
| "execution_state_value X_RUNNING = ''running''"
| "execution_state_value X_WAITING_RETRY = ''waiting_retry''"
| "execution_state_value X_COMPLETED = ''completed''"
| "execution_state_value X_FAILED = ''failed''"
| "execution_state_value X_CANCELLED = ''cancelled''"

definition execution_state_members :: "execution_state list" where
  "execution_state_members = [X_NEW, X_PLANNED, X_RUNNING, X_WAITING_RETRY, X_COMPLETED, X_FAILED, X_CANCELLED]"

interpretation execution_state_enum: str_enum execution_state_members execution_state_value
proof unfold_locales
  show "x \<in> set execution_state_members" for x
    by (cases x) (simp_all add: execution_state_members_def)
qed (simp add: execution_state_members_def)

datatype runtime_step_state =
    RS_PENDING | RS_RUNNING | RS_WAITING_RETRY | RS_COMPLETED | RS_FAILED | RS_CANCELLED

fun step_state_value :: "runtime_step_state \<Rightarrow> string" where
  "step_state_value RS_PENDING = ''pending''"
| "step_state_value RS_RUNNING = ''running''"
| "step_state_value RS_WAITING_RETRY = ''waiting_retry''"
| "step_state_value RS_COMPLETED = ''completed''"
| "step_state_value RS_FAILED = ''failed''"
| "step_state_value RS_CANCELLED = ''cancelled''"

definition step_state_members :: "runtime_step_state list" where
  "step_state_members = [RS_PENDING, RS_RUNNING, RS_WAITING_RETRY, RS_COMPLETED, RS_FAILED, RS_CANCELLED]"

interpretation step_state_enum: str_enum step_state_members step_state_value
proof unfold_locales
  show "x \<in> set step_state_members" for x
    by (cases x) (simp_all add: step_state_members_def)
qed (simp add: step_state_members_def)

datatype event_type =
    EV_EXECUTION_CREATED | EV_PLANNING_COMPLETED | EV_EXECUTION_STARTED | EV_STEP_STARTED
   | EV_STEP_COMPLETED | EV_STEP_FAILED | EV_RETRY_SCHEDULED | EV_EXECUTION_COMPLETED
   | EV_EXECUTION_FAILED | EV_EXECUTION_CANCELLED

fun event_type_value :: "event_type \<Rightarrow> string" where
  "event_type_value EV_EXECUTION_CREATED = ''execution_created''"
| "event_type_value EV_PLANNING_COMPLETED = ''planning_completed''"
| "event_type_value EV_EXECUTION_STARTED = ''execution_started''"
| "event_type_value EV_STEP_STARTED = ''step_started''"
| "event_type_value EV_STEP_COMPLETED = ''step_completed''"
| "event_type_value EV_STEP_FAILED = ''step_failed''"
| "event_type_value EV_RETRY_SCHEDULED = ''retry_scheduled''"
| "event_type_value EV_EXECUTION_COMPLETED = ''execution_completed''"
| "event_type_value EV_EXECUTION_FAILED = ''execution_failed''"
| "event_type_value EV_EXECUTION_CANCELLED = ''execution_cancelled''"

definition event_type_members :: "event_type list" where
  "event_type_members = [EV_EXECUTION_CREATED, EV_PLANNING_COMPLETED, EV_EXECUTION_STARTED, EV_STEP_STARTED,
     EV_STEP_COMPLETED, EV_STEP_FAILED, EV_RETRY_SCHEDULED, EV_EXECUTION_COMPLETED,
     EV_EXECUTION_FAILED, EV_EXECUTION_CANCELLED]"

interpretation event_type_enum: str_enum event_type_members event_type_value
proof unfold_locales
  show "x \<in> set event_type_members" for x
    by (cases x) (simp_all add: event_type_members_def)
qed (simp add: event_type_members_def)

datatype retry_policy_type =
    RP_NEVER | RP_IMMEDIATE | RP_LATER | RP_EXPONENTIAL_BACKOFF

fun retry_policy_type_value :: "retry_policy_type \<Rightarrow> string" where
  "retry_policy_type_value RP_NEVER = ''never''"
| "retry_policy_type_value RP_IMMEDIATE = ''immediate''"
| "retry_policy_type_value RP_LATER = ''later''"
| "retry_policy_type_value RP_EXPONENTIAL_BACKOFF = ''exponential_backoff''"

definition retry_policy_type_members :: "retry_policy_type list" where
  "retry_policy_type_members = [RP_NEVER, RP_IMMEDIATE, RP_LATER, RP_EXPONENTIAL_BACKOFF]"

interpretation retry_policy_type_enum: str_enum retry_policy_type_members retry_policy_type_value
proof unfold_locales
  show "x \<in> set retry_policy_type_members" for x
    by (cases x) (simp_all add: retry_policy_type_members_def)
qed (simp add: retry_policy_type_members_def)

section \<open>Execution states\<close>

definition TERMINAL_EXECUTION_STATES :: "execution_state list" where
  "TERMINAL_EXECUTION_STATES = [X_COMPLETED, X_FAILED, X_CANCELLED]"

abbreviation terminal :: "execution_state \<Rightarrow> bool" where
  "terminal s \<equiv> s \<in> set TERMINAL_EXECUTION_STATES"

fun LEGAL_EXECUTION_TRANSITIONS :: "execution_state \<Rightarrow> execution_state list" where
  "LEGAL_EXECUTION_TRANSITIONS X_NEW = [X_PLANNED, X_CANCELLED]"
| "LEGAL_EXECUTION_TRANSITIONS X_PLANNED = [X_RUNNING, X_CANCELLED]"
| "LEGAL_EXECUTION_TRANSITIONS X_RUNNING = [X_WAITING_RETRY, X_COMPLETED, X_FAILED, X_CANCELLED]"
| "LEGAL_EXECUTION_TRANSITIONS X_WAITING_RETRY = [X_RUNNING, X_FAILED, X_CANCELLED]"
| "LEGAL_EXECUTION_TRANSITIONS X_COMPLETED = []"
| "LEGAL_EXECUTION_TRANSITIONS X_FAILED = []"
| "LEGAL_EXECUTION_TRANSITIONS X_CANCELLED = []"

definition assert_legal_transition :: "execution_state \<Rightarrow> execution_state \<Rightarrow> (hub_error, unit) result" where
  "assert_legal_transition current target = run_checks
     [(target \<notin> set (LEGAL_EXECUTION_TRANSITIONS current),
       ExecutionStateError (''Illegal execution state transition: '' @ execution_state_value current
         @ '' -> '' @ execution_state_value target @ ''.''))]"

lemma terminal_simps [simp]:
  "terminal X_COMPLETED" "terminal X_FAILED" "terminal X_CANCELLED"
  "\<not> terminal X_NEW" "\<not> terminal X_PLANNED" "\<not> terminal X_RUNNING" "\<not> terminal X_WAITING_RETRY"
  by (simp_all add: TERMINAL_EXECUTION_STATES_def)

lemma terminal_iff_no_transition: "terminal s \<longleftrightarrow> LEGAL_EXECUTION_TRANSITIONS s = []"
  by (cases s) simp_all

lemma assert_legal_ok: "assert_legal_transition s t = Inr u \<longleftrightarrow> t \<in> set (LEGAL_EXECUTION_TRANSITIONS s)"
  by (simp add: assert_legal_transition_def run_checks_ok)

inductive legal_path :: "execution_state \<Rightarrow> execution_state \<Rightarrow> bool" where
  stay: "legal_path s s"
| go: "legal_path s t \<Longrightarrow> assert_legal_transition t u = Inr () \<Longrightarrow> legal_path s u"

lemma legal_path_from_terminal: "legal_path s t \<Longrightarrow> terminal s \<Longrightarrow> t = s"
  by (induction rule: legal_path.induct) (auto simp: assert_legal_ok terminal_iff_no_transition)

lemma legal_path_trans: "legal_path s t \<Longrightarrow> legal_path t u \<Longrightarrow> legal_path s u"
  by (rotate_tac, induction rule: legal_path.induct) (auto intro: legal_path.intros)

section \<open>Retry policies\<close>

record retry_policy =
  rp_policy_type :: retry_policy_type
  rp_max_attempts :: int
  rp_delay_seconds :: int
  rp_backoff_multiplier :: int

definition retry_policy_checks :: "retry_policy \<Rightarrow> hub_error check list" where
  "retry_policy_checks p =
     [(rp_max_attempts p < 1, ExecutionPlanningError ''max_attempts must be positive.''),
      (rp_delay_seconds p < 0, ExecutionPlanningError ''delay_seconds must be zero or positive.''),
      (rp_backoff_multiplier p < 1, ExecutionPlanningError ''backoff_multiplier must be positive.'')]"

definition retry_never :: "(hub_error, retry_policy) result" where
  "retry_never = mk_checked retry_policy_checks
     \<lparr>rp_policy_type = RP_NEVER, rp_max_attempts = 1, rp_delay_seconds = 0, rp_backoff_multiplier = 2\<rparr>"

definition retry_immediate :: "int \<Rightarrow> (hub_error, retry_policy) result" where
  "retry_immediate max_attempts = mk_checked retry_policy_checks
     \<lparr>rp_policy_type = RP_IMMEDIATE, rp_max_attempts = max_attempts, rp_delay_seconds = 0, rp_backoff_multiplier = 2\<rparr>"

definition retry_later :: "int \<Rightarrow> int \<Rightarrow> (hub_error, retry_policy) result" where
  "retry_later max_attempts delay_seconds = mk_checked retry_policy_checks
     \<lparr>rp_policy_type = RP_LATER, rp_max_attempts = max_attempts, rp_delay_seconds = delay_seconds,
      rp_backoff_multiplier = 2\<rparr>"

definition retry_exponential_backoff :: "int \<Rightarrow> int \<Rightarrow> int \<Rightarrow> (hub_error, retry_policy) result" where
  "retry_exponential_backoff max_attempts delay_seconds backoff_multiplier = mk_checked retry_policy_checks
     \<lparr>rp_policy_type = RP_EXPONENTIAL_BACKOFF, rp_max_attempts = max_attempts, rp_delay_seconds = delay_seconds,
      rp_backoff_multiplier = backoff_multiplier\<rparr>"

section \<open>Failures, checkpoints and events\<close>

record execution_failure =
  fl_step_key :: "string option"
  fl_error_code :: string
  fl_safe_message :: string

definition failure_checks :: "execution_failure \<Rightarrow> hub_error check list" where
  "failure_checks f =
     [(blank_opt (fl_step_key f), ExecutionPlanningError ''step_key must be non-empty when supplied.''),
      (blank (fl_error_code f), ExecutionPlanningError ''error_code is required.''),
      (blank (fl_safe_message f), ExecutionPlanningError ''safe_message is required.'')]"

record checkpoint =
  cp_execution_id :: string
  cp_completed_step_keys :: "string list"
  cp_failed_step_key :: "string option"
  cp_current_step_key :: "string option"
  cp_retry_count :: int
  cp_last_event_id :: "string option"

definition checkpoint_checks :: "checkpoint \<Rightarrow> hub_error check list" where
  "checkpoint_checks c =
     [(blank (cp_execution_id c), ExecutionPlanningError ''execution_id is required.''),
      (\<not> distinct (cp_completed_step_keys c), ExecutionPlanningError ''completed_step_keys must be unique.'')]
     @ map (\<lambda>k. (blank k, ExecutionPlanningError ''completed step_key is required.'')) (cp_completed_step_keys c)
     @ [(blank_opt (cp_failed_step_key c), ExecutionPlanningError ''failed_step_key must be non-empty when supplied.''),
        (blank_opt (cp_current_step_key c), ExecutionPlanningError ''current_step_key must be non-empty when supplied.''),
        (cp_retry_count c < 0, ExecutionPlanningError ''retry_count must be zero or positive.''),
        (blank_opt (cp_last_event_id c), ExecutionPlanningError ''last_event_id must be non-empty when supplied.'')]"

record cursor =
  cu_execution_id :: string
  cu_next_step_key :: "string option"
  cu_last_event_id :: "string option"

definition cursor_checks :: "cursor \<Rightarrow> hub_error check list" where
  "cursor_checks c =
     [(blank (cu_execution_id c), ExecutionPlanningError ''execution_id is required.''),
      (blank_opt (cu_next_step_key c), ExecutionPlanningError ''next_step_key must be non-empty when supplied.''),
      (blank_opt (cu_last_event_id c), ExecutionPlanningError ''last_event_id must be non-empty when supplied.'')]"

type_synonym event_data = "(string \<times> json) list"

record event_draft =
  ed_event_id :: string
  ed_execution_id :: string
  ed_event_type :: event_type
  ed_state :: execution_state
  ed_step_key :: "string option"
  ed_step_type :: "step_type option"
  ed_data :: event_data

definition event_draft_checks :: "event_draft \<Rightarrow> hub_error check list" where
  "event_draft_checks e =
     [(blank (ed_event_id e), ExecutionPlanningError ''event_id is required.''),
      (blank (ed_execution_id e), ExecutionPlanningError ''execution_id is required.''),
      (blank_opt (ed_step_key e), ExecutionPlanningError ''step_key must be non-empty when supplied.'')]"

record event =
  ev_event_id :: string
  ev_execution_id :: string
  ev_event_type :: event_type
  ev_sequence :: int
  ev_state :: execution_state
  ev_step_key :: "string option"
  ev_step_type :: "step_type option"
  ev_data :: event_data

definition event_checks :: "event \<Rightarrow> hub_error check list" where
  "event_checks e =
     [(blank (ev_event_id e), ExecutionPlanningError ''event_id is required.''),
      (blank (ev_execution_id e), ExecutionPlanningError ''execution_id is required.''),
      (ev_sequence e < 1, ExecutionPlanningError ''event sequence must be positive.''),
      (blank_opt (ev_step_key e), ExecutionPlanningError ''step_key must be non-empty when supplied.'')]"

section \<open>Runtime steps, snapshots and histories\<close>

record runtime_step =
  rs_step_key :: string
  rs_step_type :: step_type
  rs_sequence :: int
  rs_state :: runtime_step_state
  rs_allocation_keys :: "string list"
  rs_retry_count :: int
  rs_last_result :: "step_result option"

definition runtime_step_checks :: "runtime_step \<Rightarrow> hub_error check list" where
  "runtime_step_checks s =
     [(blank (rs_step_key s), ExecutionPlanningError ''step_key is required.''),
      (rs_sequence s < 1, ExecutionPlanningError ''step sequence must be positive.''),
      (\<not> distinct (rs_allocation_keys s), ExecutionPlanningError ''allocation_keys must be unique.''),
      (rs_retry_count s < 0, ExecutionPlanningError ''retry_count must be zero or positive.'')]"

record snapshot =
  sn_execution_id :: string
  sn_review_id :: string
  sn_company_id :: int
  sn_decision_version :: int
  sn_mode :: execution_mode
  sn_state :: execution_state
  sn_idempotency_key :: string
  sn_plan :: execution_plan
  sn_steps :: "runtime_step list"
  sn_checkpoint :: checkpoint
  sn_retry_policy :: retry_policy
  sn_runtime_version :: int
  sn_failure :: "execution_failure option"

definition snapshot_checks :: "snapshot \<Rightarrow> hub_error check list" where
  "snapshot_checks s =
     [(blank (sn_execution_id s), ExecutionPlanningError ''execution_id is required.''),
      (blank (sn_review_id s), ExecutionPlanningError ''review_id is required.''),
      (sn_company_id s \<le> 0, ExecutionPlanningError ''company_id must be positive.''),
      (sn_decision_version s \<le> 0, ExecutionPlanningError ''decision_version must be positive.''),
      (blank (sn_idempotency_key s), ExecutionPlanningError ''idempotency_key is required.''),
      (sn_steps s = [], ExecutionPlanningError ''runtime snapshot requires steps.''),
      (sn_runtime_version s < 1, ExecutionPlanningError ''runtime_version must be positive.'')]"

definition snapshot_cursor :: "snapshot \<Rightarrow> (hub_error, cursor) result" where
  "snapshot_cursor s = mk_checked cursor_checks
     \<lparr>cu_execution_id = sn_execution_id s, cu_next_step_key = cp_current_step_key (sn_checkpoint s),
      cu_last_event_id = cp_last_event_id (sn_checkpoint s)\<rparr>"

record exec_history =
  hi_execution_id :: string
  hi_events :: "event list"

definition history_checks :: "exec_history \<Rightarrow> hub_error check list" where
  "history_checks h = [(blank (hi_execution_id h), ExecutionPlanningError ''execution_id is required.'')]"

record runtime =
  rt_snapshot :: snapshot
  rt_history :: exec_history

definition runtime_checks :: "runtime \<Rightarrow> hub_error check list" where
  "runtime_checks r =
     [(sn_execution_id (rt_snapshot r) \<noteq> hi_execution_id (rt_history r),
       ExecutionPlanningError ''runtime snapshot and history execution_id must match.'')]"

end
