(* ===== verification/Json_Text.thy ===== *)
theory Json_Text
  imports Json_Data
begin

text \<open>
  \<^verbatim>\<open>json.dumps(value, sort_keys=True, separators=(",", ":"))\<close> with the default \<^verbatim>\<open>ensure_ascii\<close>, the
  canonical text that identities are hashed from. Object keys are sorted first; the text of a
  document then determines the document.
\<close>

section \<open>Definitions\<close>

definition hex_lower :: "nat \<Rightarrow> char" where
  "hex_lower n = char_of (if n < 10 then 48 + n else 87 + n)"

definition hex_value :: "char \<Rightarrow> nat" where
  "hex_value c = (if (of_char c :: nat) < 58 then of_char c - 48 else of_char c - 87)"

definition json_escape :: "char \<Rightarrow> string" where
  "json_escape c = (let n = of_char c :: nat in
     if c = CHR 0x22 then [CHR 0x5C, CHR 0x22]
     else if c = CHR 0x5C then [CHR 0x5C, CHR 0x5C]
     else if c = CHR 0x08 then [CHR 0x5C, CHR ''b'']
     else if c = CHR 0x09 then [CHR 0x5C, CHR ''t'']
     else if c = CHR 0x0A then [CHR 0x5C, CHR ''n'']
     else if c = CHR 0x0C then [CHR 0x5C, CHR ''f'']
     else if c = CHR 0x0D then [CHR 0x5C, CHR ''r'']
     else if 32 \<le> n \<and> n \<le> 126 then [c]
     else [CHR 0x5C, CHR ''u'', CHR ''0'', CHR ''0'', hex_lower (n div 16), hex_lower (n mod 16)])"

definition json_string :: "string \<Rightarrow> string" where
  "json_string s = CHR 0x22 # concat (map json_escape s) @ [CHR 0x22]"

fun json_sort_keys :: "json \<Rightarrow> json" where
  "json_sort_keys (JList xs) = JList (map json_sort_keys xs)"
| "json_sort_keys (JObj kvs) = JObj (sort_key fst (map (\<lambda>(k, v). (k, json_sort_keys v)) kvs))"
| "json_sort_keys j = j"

fun json_text :: "json \<Rightarrow> string" where
  "json_text JNull = ''null''"
| "json_text (JBool b) = (if b then ''true'' else ''false'')"
| "json_text (JInt i) = int_str i"
| "json_text (JStr s) = json_string s"
| "json_text (JList xs) = ''['' @ str_join '','' (map json_text xs) @ '']''"
| "json_text (JObj kvs) = ''{'' @ str_join '','' (map (\<lambda>(k, v). json_string k @ '':'' @ json_text v) kvs) @ ''}''"

definition json_dumps :: "json \<Rightarrow> string" where
  "json_dumps j = json_text (json_sort_keys j)"

section \<open>Strings\<close>

text \<open>Reading one escaped character back.\<close>

definition json_unescape :: "string \<Rightarrow> char \<times> string" where
  "json_unescape s = (case s of
     [] \<Rightarrow> (CHR 0x00, [])
   | c # r \<Rightarrow>
      if c \<noteq> CHR 0x5C then (c, r)
      else case r of
        [] \<Rightarrow> (CHR 0x00, [])
      | d # r' \<Rightarrow>
          if d = CHR ''b'' then (CHR 0x08, r') else if d = CHR ''t'' then (CHR 0x09, r')
          else if d = CHR ''n'' then (CHR 0x0A, r') else if d = CHR ''f'' then (CHR 0x0C, r')
          else if d = CHR ''r'' then (CHR 0x0D, r')
          else if d = CHR ''u'' then (char_of (16 * hex_value (r' ! 2) + hex_value (r' ! 3)), drop 4 r')
          else (d, r'))"

lemma hex_value_lower: "n < 16 \<Longrightarrow> hex_value (hex_lower n) = n"
  by (simp add: hex_value_def hex_lower_def)

lemma of_char_nat_less: "(of_char (c :: char) :: nat) < 256"
  by (simp add: of_char_def)

lemma unescape_escape: "json_unescape (json_escape c @ r) = (c, r)"
proof -
  have c: "c = char_of (of_char c :: nat)" by simp
  have "(of_char c :: nat) div 16 < 16" "(of_char c :: nat) mod 16 < 16"
    using of_char_nat_less [of c] by (simp_all add: less_mult_imp_div_less)
  then show ?thesis
    using c by (auto simp: json_escape_def json_unescape_def Let_def hex_value_lower)
qed

lemma escape_not_quote: "\<exists>d ds. json_escape c = d # ds \<and> d \<noteq> CHR 0x22"
  by (auto simp: json_escape_def Let_def)

lemma escapes_inject:
  "concat (map json_escape a) @ CHR 0x22 # s = concat (map json_escape b) @ CHR 0x22 # t \<Longrightarrow> a = b \<and> s = t"
proof (induction a arbitrary: b)
  case Nil
  then show ?case
  proof (cases b)
    case (Cons c cs)
    with Nil escape_not_quote [of c] show ?thesis by auto
  qed simp
next
  case (Cons c cs)
  show ?case
  proof (cases b)
    case Nil
    with Cons.prems escape_not_quote [of c] show ?thesis by auto
  next
    case b: (Cons d ds)
    let ?r = "concat (map json_escape cs) @ CHR 0x22 # s" and ?r' = "concat (map json_escape ds) @ CHR 0x22 # t"
    have "json_unescape (json_escape c @ ?r) = json_unescape (json_escape d @ ?r')"
      using Cons.prems b by simp
    then have "c = d" "?r = ?r'" by (simp_all only: unescape_escape prod.inject)
    with Cons.IH [of ds] b show ?thesis by simp
  qed
qed

lemma json_string_inject: "json_string a @ s = json_string b @ t \<Longrightarrow> a = b \<and> s = t"
  using escapes_inject [of a s b t] by (simp add: json_string_def)

section \<open>Documents\<close>

text \<open>What may follow a document inside a list or an object, or at the end of the text.\<close>

definition delimited :: "string \<Rightarrow> bool" where
  "delimited s \<longleftrightarrow> s = [] \<or> hd s \<in> {CHR '','', CHR '']'', CHR ''}''}"

lemma not_digits:
  "\<not> is_digit (CHR '','')" "\<not> is_digit (CHR '']'')" "\<not> is_digit (CHR ''}'')" "\<not> is_digit (CHR ''-'')"
  "\<not> is_digit (CHR ''n'')" "\<not> is_digit (CHR ''t'')" "\<not> is_digit (CHR ''f'')" "\<not> is_digit (CHR 0x22)"
  "\<not> is_digit (CHR ''['')" "\<not> is_digit (CHR ''{'')"
  by (simp_all add: is_digit_def)

lemma takeWhile_digits:
  assumes "list_all is_digit ds" "delimited s"
  shows "takeWhile is_digit (ds @ s) = ds"
proof -
  have "takeWhile is_digit s = []"
    using assms(2) not_digits by (cases s) (auto simp: delimited_def)
  with assms(1) show ?thesis by (simp add: list_all_iff)
qed

lemma digits_inject:
  assumes "ds @ s = es @ t" "list_all is_digit ds" "list_all is_digit es" "delimited s" "delimited t"
  shows "ds = es \<and> s = t"
proof -
  have "ds = es" using assms takeWhile_digits by metis
  with assms(1) show ?thesis by simp
qed

lemma nat_str_inject: "nat_str m = nat_str n \<longleftrightarrow> m = n"
  by (metis str_nat_nat_str)

lemma nat_str_hd: "is_digit (hd (nat_str n))"
  using is_digit_nat_str [of n] nat_str_nonempty [of n] by (cases "nat_str n") auto

lemma int_str_inject:
  assumes "int_str i @ s = int_str j @ t" "delimited s" "delimited t"
  shows "i = j \<and> s = t"
proof -
  have dash: "CHR ''-'' # u \<noteq> nat_str n @ v" for u n v
    using nat_str_hd [of n] nat_str_nonempty [of n] not_digits(4) by (cases "nat_str n") auto
  note digits = digits_inject [OF _ is_digit_nat_str is_digit_nat_str assms(2,3)]
  consider "i < 0 \<and> j < 0" | "0 \<le> i \<and> 0 \<le> j" | "i < 0 \<longleftrightarrow> \<not> j < 0" by linarith
  then show ?thesis
  proof cases
    case 1
    with assms(1) have "nat_str (nat (- i)) @ s = nat_str (nat (- j)) @ t" by (simp add: int_str_def)
    from digits [OF this] 1 show ?thesis by (simp add: nat_str_inject eq_nat_nat_iff)
  next
    case 2
    with assms(1) have "nat_str (nat i) @ s = nat_str (nat j) @ t" by (simp add: int_str_def)
    from digits [OF this] 2 show ?thesis by (simp add: nat_str_inject eq_nat_nat_iff)
  next
    case 3
    with assms(1) dash dash [symmetric] show ?thesis by (simp add: int_str_def split: if_splits)
  qed
qed

lemma int_str_hd: "\<exists>c r. int_str i = c # r \<and> (c = CHR ''-'' \<or> is_digit c)"
proof (cases "i < 0")
  case False
  with nat_str_hd [of "nat i"] nat_str_nonempty [of "nat i"] show ?thesis
    by (cases "nat_str (nat i)") (auto simp: int_str_def)
qed (simp add: int_str_def)

text \<open>The first character tells the kind of a document.\<close>

fun json_kind :: "json \<Rightarrow> nat" where
  "json_kind JNull = 0"
| "json_kind (JBool b) = (if b then 1 else 2)"
| "json_kind (JInt i) = 3"
| "json_kind (JStr s) = 4"
| "json_kind (JList xs) = 5"
| "json_kind (JObj kvs) = 6"

definition char_kind :: "char \<Rightarrow> nat" where
  "char_kind c = (if c = CHR ''n'' then 0 else if c = CHR ''t'' then 1 else if c = CHR ''f'' then 2
     else if c = CHR 0x22 then 4 else if c = CHR ''['' then 5 else if c = CHR ''{'' then 6 else 3)"

lemma char_kind_number: "c = CHR ''-'' \<or> is_digit c \<Longrightarrow> char_kind c = 3"
  using not_digits by (auto simp: char_kind_def)

lemma json_text_kind: "\<exists>c r. json_text j = c # r \<and> char_kind c = json_kind j"
proof (cases j)
  case (JInt i)
  with int_str_hd [of i] char_kind_number show ?thesis by fastforce
qed (simp_all add: char_kind_def json_string_def)

lemma json_text_not_close: "\<exists>c r. json_text j = c # r \<and> c \<noteq> CHR '']'' \<and> c \<noteq> CHR ''}''"
proof -
  obtain c r where "json_text j = c # r" using json_text_kind by blast
  moreover have "c \<noteq> CHR '']'' \<and> c \<noteq> CHR ''}''"
  proof (cases j)
    case (JInt i)
    with int_str_hd [of i] calculation not_digits show ?thesis by auto
  qed (use calculation in \<open>auto simp: json_string_def split: if_splits\<close>)
  ultimately show ?thesis by blast
qed

lemma same_kind: "json_text x @ s = json_text y @ t \<Longrightarrow> json_kind y = json_kind x"
  using json_text_kind [of x] json_text_kind [of y] by auto

text \<open>Comma separated items are determined by their text when each item is.\<close>

lemma str_join_inject:
  assumes item: "\<And>x y s t. x \<in> set xs \<Longrightarrow> f x @ s = f y @ t \<Longrightarrow> delimited s \<Longrightarrow> delimited t \<Longrightarrow> x = y \<and> s = t"
    and open_text: "\<And>x. f x \<noteq> [] \<and> hd (f x) \<noteq> z"
    and z: "z = CHR '']'' \<or> z = CHR ''}''"
    and eq: "str_join '','' (map f xs) @ z # s = str_join '','' (map f ys) @ z # t"
  shows "xs = ys \<and> s = t"
  using item eq
proof (induction xs arbitrary: ys)
  case Nil
  show ?case
  proof (cases ys)
    case (Cons y ys')
    with Nil.prems(2) open_text [of y] show ?thesis
      by (cases "f y") (auto simp: str_join_Cons split: if_splits)
  qed (use Nil in simp)
next
  case (Cons x xs)
  have comma: "CHR '','' \<noteq> z" using z by auto
  show ?case
  proof (cases ys)
    case Nil
    with Cons.prems(2) open_text [of x] show ?thesis
      by (cases "f x") (auto simp: str_join_Cons split: if_splits)
  next
    case ys: (Cons y ys')
    let ?s = "if xs = [] then z # s else CHR '','' # str_join '','' (map f xs) @ z # s"
    let ?t = "if ys' = [] then z # t else CHR '','' # str_join '','' (map f ys') @ z # t"
    have eq: "f x @ ?s = f y @ ?t"
      using Cons.prems(2) ys by (cases "xs = []"; cases "ys' = []") (simp_all add: str_join_Cons)
    have "delimited ?s" "delimited ?t" using z by (auto simp: delimited_def)
    with Cons.prems(1) [OF _ eq] have xy: "x = y" "?s = ?t" by simp_all
    show ?thesis
    proof (cases "xs = [] \<or> ys' = []")
      case True
      with xy comma ys show ?thesis by (auto split: if_splits)
    next
      case False
      with xy have rest: "str_join '','' (map f xs) @ z # s = str_join '','' (map f ys') @ z # t" by simp
      have "xs = ys' \<and> s = t" by (rule Cons.IH [OF Cons.prems(1) rest]) (auto intro: list.set_intros)
      with xy ys show ?thesis by simp
    qed
  qed
qed

lemma json_text_inject:
  "json_text x @ s = json_text y @ t \<Longrightarrow> delimited s \<Longrightarrow> delimited t \<Longrightarrow> x = y \<and> s = t"
proof (induction x arbitrary: y s t rule: json_text.induct)
  fix y s t
  assume eq: "json_text JNull @ s = json_text y @ t"
  from same_kind [OF eq] have "json_kind y = 0" by simp
  with eq show "JNull = y \<and> s = t" by (cases y) (auto split: if_splits)
next
  fix b y s t
  assume eq: "json_text (JBool b) @ s = json_text y @ t"
  then have "json_kind y = json_kind (JBool b)" by (rule same_kind)
  with eq show "JBool b = y \<and> s = t" by (cases y) (auto split: if_splits)
next
  fix i y s t
  assume eq: "json_text (JInt i) @ s = json_text y @ t" and d: "delimited s" "delimited t"
  from same_kind [OF eq] have "json_kind y = 3" by simp
  then obtain j where y: "y = JInt j" by (cases y) (auto split: if_splits)
  with int_str_inject [OF _ d, of i j] eq show "JInt i = y \<and> s = t" by simp
next
  fix a y s t
  assume eq: "json_text (JStr a) @ s = json_text y @ t"
  from same_kind [OF eq] have "json_kind y = 4" by simp
  then obtain b where y: "y = JStr b" by (cases y) (auto split: if_splits)
  with json_string_inject [of a s b t] eq show "JStr a = y \<and> s = t" by simp
next
  fix xs y s t
  assume ih: "\<And>x y s t. x \<in> set xs \<Longrightarrow> json_text x @ s = json_text y @ t \<Longrightarrow> delimited s \<Longrightarrow> delimited t \<Longrightarrow> x = y \<and> s = t"
    and eq: "json_text (JList xs) @ s = json_text y @ t"
  from same_kind [OF eq] have "json_kind y = 5" by simp
  then obtain ys where y: "y = JList ys" by (cases y) (auto split: if_splits)
  have "json_text z \<noteq> [] \<and> hd (json_text z) \<noteq> CHR '']''" for z
    using json_text_not_close [of z] by auto
  with ih eq y show "JList xs = y \<and> s = t"
    using str_join_inject [of xs json_text "CHR '']''" s ys t] by simp
next
  fix kvs y s t
  let ?f = "\<lambda>(k, v). json_string k @ '':'' @ json_text v"
  assume ih: "\<And>kv k v y s t. kv \<in> set kvs \<Longrightarrow> (k, v) = kv \<Longrightarrow> json_text v @ s = json_text y @ t \<Longrightarrow>
      delimited s \<Longrightarrow> delimited t \<Longrightarrow> v = y \<and> s = t"
    and eq: "json_text (JObj kvs) @ s = json_text y @ t"
  from same_kind [OF eq] have "json_kind y = 6" by simp
  then obtain ys where y: "y = JObj ys" by (cases y) (auto split: if_splits)
  have item: "x = z \<and> u = w" if "x \<in> set kvs" "?f x @ u = ?f z @ w" "delimited u" "delimited w" for x z u w
  proof -
    obtain k v k' v' where xz: "x = (k, v)" "z = (k', v')" by (cases x, cases z)
    with that(2) have "json_string k @ '':'' @ json_text v @ u = json_string k' @ '':'' @ json_text v' @ w" by simp
    then have "k = k'" "json_text v @ u = json_text v' @ w" using json_string_inject by blast+
    with ih [of "(k, v)" k v u v' w] that xz show ?thesis by auto
  qed
  have "?f z \<noteq> [] \<and> hd (?f z) \<noteq> CHR ''}''" for z
    by (cases z) (simp add: json_string_def)
  with item eq y show "JObj kvs = y \<and> s = t"
    using str_join_inject [of kvs ?f "CHR ''}''" s ys t] by simp
qed

text \<open>The canonical text determines the document up to the order of object keys.\<close>

lemma json_dumps_inject: "json_dumps x = json_dumps y \<longleftrightarrow> json_sort_keys x = json_sort_keys y"
  using json_text_inject [of "json_sort_keys x" "[]" "json_sort_keys y" "[]"]
  by (auto simp: json_dumps_def delimited_def)

end
