(* ===== verification/Exec_Planner.thy ===== *)
theory Exec_Planner
  imports Exec_Runtime Sha256 Json_Text "HOL-Library.Multiset"
begin

text \<open>
  The execution planner: \<^verbatim>\<open>app/application/execution/planner.py\<close>. A request becomes an ordered list
  of steps: one for each allocation type in a fixed order, the customer recharge steps grouped by
  the accepted billing instructions, or one step per quotation scenario. The plan carries an
  idempotency key, the digest of the canonical JSON text of its identity.
\<close>

section \<open>Tables\<close>

definition STEP_TYPE_ORDER :: "step_type list" where
  "STEP_TYPE_ORDER = [ST_EXISTING_PURCHASE_ORDER, ST_NEW_RFQ_PURCHASE, ST_VENDOR_BILL, ST_SALES_ORDER_COST_LINK,
     ST_CUSTOMER_RECHARGE, ST_PROJECT_COST, ST_OPERATING_EXPENSE, ST_FIXED_ASSET, ST_SUBSCRIPTION_SERVICE,
     ST_INTERNAL_COST]"

fun ALLOCATION_STEP_TYPES :: "allocation_type \<Rightarrow> step_type" where
  "ALLOCATION_STEP_TYPES SALES_ORDER_COST = ST_SALES_ORDER_COST_LINK"
| "ALLOCATION_STEP_TYPES CUSTOMER_RECHARGE = ST_CUSTOMER_RECHARGE"
| "ALLOCATION_STEP_TYPES EXISTING_PURCHASE_ORDER = ST_EXISTING_PURCHASE_ORDER"
| "ALLOCATION_STEP_TYPES NEW_RFQ_PURCHASE = ST_NEW_RFQ_PURCHASE"
| "ALLOCATION_STEP_TYPES PROJECT_COST = ST_PROJECT_COST"
| "ALLOCATION_STEP_TYPES OPERATING_EXPENSE = ST_OPERATING_EXPENSE"
| "ALLOCATION_STEP_TYPES FIXED_ASSET = ST_FIXED_ASSET"
| "ALLOCATION_STEP_TYPES SUBSCRIPTION_SERVICE = ST_SUBSCRIPTION_SERVICE"
| "ALLOCATION_STEP_TYPES INTERNAL_COST = ST_INTERNAL_COST"

section \<open>Step keys and capabilities\<close>

definition step_key :: "execution_request \<Rightarrow> step_type \<Rightarrow> string list \<Rightarrow> string" where
  "step_key r st allocation_keys =
     rq_review_id r @ '':'' @ int_str (rq_decision_version r) @ '':'' @ step_type_value st @ '':''
     @ (if allocation_keys \<noteq> [] then str_join ''+'' allocation_keys else ''workflow'')"

definition customer_invoice_creation_step_key :: "execution_request \<Rightarrow> string \<Rightarrow> string" where
  "customer_invoice_creation_step_key r billing_key =
     rq_review_id r @ '':'' @ int_str (rq_decision_version r) @ '':customer_invoice_create:'' @ billing_key"

definition execute_supported :: "step_type \<Rightarrow> allocation list \<Rightarrow> bool" where
  "execute_supported st allocations \<longleftrightarrow>
     (if st = ST_VENDOR_BILL then True else if st = ST_CUSTOMER_RECHARGE then allocations \<noteq> [] else False)"

definition writer_required :: "step_type \<Rightarrow> allocation list \<Rightarrow> bool" where
  "writer_required st allocations \<longleftrightarrow>
     (if st = ST_VENDOR_BILL then True
      else if st = ST_CUSTOMER_RECHARGE
        then allocations \<noteq> [] \<and> list_all (\<lambda>a. al_customer_invoice_id a = None) allocations
      else False)"

definition plan_warnings :: "execution_request \<Rightarrow> string list" where
  "plan_warnings r =
     (if rq_mode r = EXECUTE then [''Execution mode requested. Only execute-capable plan steps may run.''] else [])"

section \<open>Grouping allocations\<close>

text \<open>The two dictionaries of \<^verbatim>\<open>_planned_steps\<close>: keys and allocations by step type.\<close>

type_synonym grouping = "(step_type \<Rightarrow> string set option) \<times> (step_type \<Rightarrow> allocation list)"

definition request_allocations :: "execution_request \<Rightarrow> allocation list" where
  "request_allocations r =
     (case rq_business_context_allocations r of None \<Rightarrow> [] | Some s \<Rightarrow> as_allocations s)"

definition key_set :: "string set option \<Rightarrow> string set" where
  "key_set v = (case v of None \<Rightarrow> {} | Some s \<Rightarrow> s)"

definition group_allocation :: "allocation \<Rightarrow> grouping \<Rightarrow> grouping" where
  "group_allocation a g =
     (let st = ALLOCATION_STEP_TYPES (al_allocation_type a) in
      if st = ST_CUSTOMER_RECHARGE then g
      else ((fst g)(st := Some (insert (al_allocation_key a) (key_set (fst g st)))),
            (snd g)(st := snd g st @ [a])))"

definition group_vendor_bill :: "execution_request \<Rightarrow> grouping \<Rightarrow> grouping" where
  "group_vendor_bill r g =
     (if rq_selected_workflow r = Some WF_VENDOR_BILL
      then ((fst g)(ST_VENDOR_BILL :=
              Some (key_set (fst g ST_VENDOR_BILL) \<union> set (map al_allocation_key (request_allocations r)))),
            (snd g)(ST_VENDOR_BILL := snd g ST_VENDOR_BILL @ request_allocations r))
      else g)"

definition request_grouping :: "execution_request \<Rightarrow> grouping" where
  "request_grouping r =
     group_vendor_bill r (fold group_allocation (request_allocations r) (\<lambda>_. None, \<lambda>_. []))"

section \<open>Customer recharge steps\<close>

definition recharge_allocations :: "execution_request \<Rightarrow> allocation list" where
  "recharge_allocations r =
     sort_key al_allocation_key (filter (\<lambda>a. al_allocation_type a = CUSTOMER_RECHARGE) (request_allocations r))"

definition existing_allocations :: "execution_request \<Rightarrow> allocation list" where
  "existing_allocations r = filter (\<lambda>a. al_customer_invoice_id a \<noteq> None) (recharge_allocations r)"

definition creation_allocations :: "execution_request \<Rightarrow> allocation list" where
  "creation_allocations r = filter (\<lambda>a. al_customer_invoice_id a = None) (recharge_allocations r)"

definition recharge_step ::
    "execution_request \<Rightarrow> allocation list \<Rightarrow> int \<Rightarrow> bool \<Rightarrow> bool \<Rightarrow> execution_step" where
  "recharge_step r allocations seq exec_supported writer =
     \<lparr>st_step_key = step_key r ST_CUSTOMER_RECHARGE (map al_allocation_key allocations),
      st_step_type = ST_CUSTOMER_RECHARGE, st_allocation_keys = map al_allocation_key allocations,
      st_sequence = seq, st_dry_run_supported = True, st_execute_supported = exec_supported,
      st_writer_required = writer, st_allocations = allocations, st_billing_instruction = None,
      st_quotation_scenario_id = None\<rparr>"

text \<open>Without billing instructions every creation allocation has a step of its own.\<close>

fun single_creation_steps ::
    "execution_request \<Rightarrow> int \<Rightarrow> allocation list \<Rightarrow> (hub_error, execution_step list) result" where
  "single_creation_steps r seq [] = Inr []"
| "single_creation_steps r seq (a # as) =
     ebind (mk_checked execution_step_checks (recharge_step r [a] seq False True)) (\<lambda>s.
     ebind (single_creation_steps r (seq + 1) as) (\<lambda>ss. Inr (s # ss)))"

definition allocation_by_key :: "allocation list \<Rightarrow> string \<Rightarrow> allocation option" where
  "allocation_by_key allocations = map_of (rev (map (\<lambda>a. (al_allocation_key a, a)) allocations))"

definition billing_step ::
    "execution_request \<Rightarrow> int \<Rightarrow> allocation list \<Rightarrow> billing_instruction \<Rightarrow> execution_step" where
  "billing_step r seq allocations i =
     \<lparr>st_step_key = customer_invoice_creation_step_key r (bi_billing_key i),
      st_step_type = ST_CUSTOMER_RECHARGE, st_allocation_keys = sort (map bl_allocation_key (bi_lines i)),
      st_sequence = seq, st_dry_run_supported = True, st_execute_supported = True,
      st_writer_required = True, st_allocations = sort_key al_allocation_key allocations,
      st_billing_instruction = Some i, st_quotation_scenario_id = None\<rparr>"

fun billing_instruction_steps ::
    "execution_request \<Rightarrow> (string \<Rightarrow> allocation option) \<Rightarrow> int \<Rightarrow> billing_instruction list \<Rightarrow>
     (hub_error, execution_step list) result" where
  "billing_instruction_steps r by_key seq [] = Inr []"
| "billing_instruction_steps r by_key seq (i # is) =
     (let line_keys = map bl_allocation_key (bi_lines i);
          allocations = map (\<lambda>k. the (by_key k)) line_keys in
      ebind (run_checks (map (\<lambda>k. (by_key k = None,
          ExecutionPlanningError ''Billing instruction references an unknown creation allocation.'')) line_keys)) (\<lambda>_.
      ebind (run_checks (map (\<lambda>a. (al_recharge_partner_id a \<noteq> Some (bi_customer_id i),
          ExecutionPlanningError ''Billing instruction customer must match recharge_partner_id.'')) allocations)) (\<lambda>_.
      ebind (mk_checked execution_step_checks (billing_step r seq allocations i)) (\<lambda>s.
      ebind (billing_instruction_steps r by_key (seq + 1) is) (\<lambda>ss. Inr (s # ss))))))"

definition customer_invoice_creation_steps_from_billing ::
    "execution_request \<Rightarrow> allocation list \<Rightarrow> int \<Rightarrow> billing_instruction list \<Rightarrow> (hub_error, execution_step list) result" where
  "customer_invoice_creation_steps_from_billing r creation first_sequence instructions =
     (let by_key = allocation_by_key creation;
          covered_keys = concat (map (\<lambda>i. map bl_allocation_key (bi_lines i)) (sort_key bi_billing_key instructions)) in
      ebind (billing_instruction_steps r by_key first_sequence (sort_key bi_billing_key instructions)) (\<lambda>steps.
      ebind (run_checks
        [(\<not> distinct covered_keys,
          ExecutionPlanningError ''Billing instructions must not duplicate allocation coverage.''),
         (set covered_keys \<noteq> set (map al_allocation_key creation),
          ExecutionPlanningError ''Billing instructions must cover every creation allocation exactly.'')]) (\<lambda>_.
      Inr steps)))"

text \<open>The steps for the recharge allocations that have no customer invoice yet.\<close>

definition recharge_creation_steps ::
    "execution_request \<Rightarrow> int \<Rightarrow> allocation list \<Rightarrow> (hub_error, execution_step list) result" where
  "recharge_creation_steps r seq creation =
     (if creation = [] then Inr []
      else if rq_accepted_billing_instructions r \<noteq> []
        then customer_invoice_creation_steps_from_billing r creation seq (rq_accepted_billing_instructions r)
      else single_creation_steps r seq creation)"

definition customer_recharge_steps :: "execution_request \<Rightarrow> int \<Rightarrow> (hub_error, execution_step list) result" where
  "customer_recharge_steps r first_sequence =
     ebind (if existing_allocations r = [] then Inr []
            else ebind (mk_checked execution_step_checks
                   (recharge_step r (existing_allocations r) first_sequence True False)) (\<lambda>s. Inr [s])) (\<lambda>steps.
     ebind (recharge_creation_steps r (first_sequence + int (length steps)) (creation_allocations r)) (\<lambda>more.
     Inr (steps @ more)))"

section \<open>Plans\<close>

definition grouped_step :: "execution_request \<Rightarrow> grouping \<Rightarrow> step_type \<Rightarrow> string set \<Rightarrow> int \<Rightarrow> execution_step" where
  "grouped_step r g st keys seq =
     (let allocation_keys = sorted_list_of_set keys; allocations = sort_key al_allocation_key (snd g st) in
      \<lparr>st_step_key = step_key r st allocation_keys, st_step_type = st, st_allocation_keys = allocation_keys,
       st_sequence = seq, st_dry_run_supported = True,
       st_execute_supported = execute_supported st allocations,
       st_writer_required = writer_required st allocations, st_allocations = allocations,
       st_billing_instruction = None, st_quotation_scenario_id = None\<rparr>)"

fun planned_loop ::
    "execution_request \<Rightarrow> grouping \<Rightarrow> step_type list \<Rightarrow> execution_step list \<Rightarrow> (hub_error, execution_step list) result" where
  "planned_loop r g [] steps = Inr steps"
| "planned_loop r g (st # sts) steps =
     (if st = ST_CUSTOMER_RECHARGE
      then ebind (customer_recharge_steps r (int (length steps) + 1)) (\<lambda>more. planned_loop r g sts (steps @ more))
      else case fst g st of
        None \<Rightarrow> planned_loop r g sts steps
      | Some keys \<Rightarrow>
          ebind (mk_checked execution_step_checks (grouped_step r g st keys (int (length steps) + 1)))
            (\<lambda>s. planned_loop r g sts (steps @ [s])))"

definition quotation_step :: "execution_request \<Rightarrow> int \<Rightarrow> string \<Rightarrow> execution_step" where
  "quotation_step r index scenario_id =
     \<lparr>st_step_key = rq_review_id r @ '':'' @ int_str (rq_decision_version r) @ '':''
        @ step_type_value ST_CREATE_CUSTOMER_QUOTATION @ '':'' @ scenario_id,
      st_step_type = ST_CREATE_CUSTOMER_QUOTATION, st_allocation_keys = [], st_sequence = index,
      st_dry_run_supported = True, st_execute_supported = True, st_writer_required = True, st_allocations = [],
      st_billing_instruction = None, st_quotation_scenario_id = Some scenario_id\<rparr>"

definition customer_quotation_steps :: "execution_request \<Rightarrow> (hub_error, execution_step list) result" where
  "customer_quotation_steps r =
     ebind (run_checks
       [(rq_selected_quotation_scenario_ids r = [],
         ExecutionPlanningError ''Customer quotation execution requires at least one selected scenario id.''),
        (rq_business_context_allocations r \<noteq> None,
         ExecutionPlanningError ''Customer quotation decisions must not carry business context allocations.'')]) (\<lambda>_.
     emap (\<lambda>(index, scenario_id). mk_checked execution_step_checks (quotation_step r (int index) scenario_id))
       (enumerate 1 (rq_selected_quotation_scenario_ids r)))"

definition planned_steps :: "execution_request \<Rightarrow> (hub_error, execution_step list) result" where
  "planned_steps r =
     (if rq_selected_workflow r = Some WF_CUSTOMER_QUOTATION then customer_quotation_steps r
      else ebind (planned_loop r (request_grouping r) STEP_TYPE_ORDER []) (\<lambda>steps.
        if steps = []
        then Inl (ExecutionPlanningError ''Accepted decision has no executable workflow or allocation steps.'')
        else Inr steps))"

definition step_identity :: "execution_step \<Rightarrow> json" where
  "step_identity s = JObj
     ([(''step_type'', JStr (step_type_value (st_step_type s))),
       (''allocation_keys'', JList (map JStr (st_allocation_keys s)))]
      @ (case st_quotation_scenario_id s of None \<Rightarrow> []
         | Some scenario \<Rightarrow> [(''customer_quotation_scenario_id'', JStr scenario)]))"

definition plan_identity :: "execution_plan \<Rightarrow> json" where
  "plan_identity p = JObj
     [(''company_id'', JInt (pl_company_id p)),
      (''review_id'', JStr (pl_review_id p)),
      (''decision_version'', JInt (pl_decision_version p)),
      (''decision_id'', j_str (pl_decision_id p)),
      (''mode'', JStr (mode_value (pl_mode p))),
      (''steps'', JList (map step_identity (pl_steps p)))]"

definition execution_idempotency_key :: "execution_plan \<Rightarrow> string" where
  "execution_idempotency_key p = ''execution:'' @ sha256_hexdigest (json_dumps (plan_identity p))"

definition planner_plan :: "execution_request \<Rightarrow> (hub_error, execution_plan) result" where
  "planner_plan r =
     ebind (planned_steps r) (\<lambda>steps.
     ebind (mk_checked execution_plan_checks
       \<lparr>pl_execution_id = rq_execution_id r, pl_review_id = rq_review_id r, pl_company_id = rq_company_id r,
        pl_decision_version = rq_decision_version r, pl_mode = rq_mode r, pl_steps = steps,
        pl_decision_id = rq_decision_id r, pl_warnings = plan_warnings r, pl_idempotency_key = None\<rparr>)
       (\<lambda>plan_without_key. mk_checked execution_plan_checks
          (plan_without_key\<lparr>pl_idempotency_key := Some (execution_idempotency_key plan_without_key)\<rparr>)))"

section \<open>Well-formed requests\<close>

definition valid_allocation_set :: "allocation_set \<Rightarrow> bool" where
  "valid_allocation_set s \<longleftrightarrow> mk_allocation_set s = Inr s \<and> list_all valid_allocation (as_allocations s)"

definition valid_request :: "execution_request \<Rightarrow> bool" where
  "valid_request r \<longleftrightarrow> valid_by execution_request_checks r
     \<and> pred_option valid_allocation_set (rq_business_context_allocations r)
     \<and> list_all valid_billing_instruction (rq_accepted_billing_instructions r)"

lemma request_allocations_valid:
  assumes "valid_request r"
  shows "distinct (map al_allocation_key (request_allocations r))"
    and "list_all valid_allocation (request_allocations r)"
proof -
  have "list_all valid_allocation (request_allocations r) \<and> distinct (map al_allocation_key (request_allocations r))"
  proof (cases "rq_business_context_allocations r")
    case (Some s)
    with assms have "mk_allocation_set s = Inr s" "list_all valid_allocation (as_allocations s)"
      by (simp_all add: valid_request_def valid_allocation_set_def)
    with mk_allocation_set_keys [of s s] Some show ?thesis by (simp add: request_allocations_def)
  qed (simp add: request_allocations_def)
  then show "distinct (map al_allocation_key (request_allocations r))"
    and "list_all valid_allocation (request_allocations r)" by simp_all
qed

lemma valid_allocation_key: "valid_allocation a \<Longrightarrow> \<not> blank (al_allocation_key a)"
  by (auto simp: valid_allocation_def mk_allocation_def ebind_Inr_iff run_checks_ok allocation_text_checks_def)

section \<open>What the grouping holds\<close>

definition typed_allocations :: "execution_request \<Rightarrow> step_type \<Rightarrow> allocation list" where
  "typed_allocations r st =
     filter (\<lambda>a. ALLOCATION_STEP_TYPES (al_allocation_type a) = st) (request_allocations r)"

lemma fold_group_allocation:
  "snd (fold group_allocation as g) st =
     snd g st @ (if st = ST_CUSTOMER_RECHARGE then []
                 else filter (\<lambda>a. ALLOCATION_STEP_TYPES (al_allocation_type a) = st) as)"
  "fst (fold group_allocation as g) st =
     (let xs = filter (\<lambda>a. ALLOCATION_STEP_TYPES (al_allocation_type a) = st) as in
      if st = ST_CUSTOMER_RECHARGE \<or> xs = [] then fst g st
      else Some (key_set (fst g st) \<union> set (map al_allocation_key xs)))"
  by (induction as arbitrary: g) (auto simp: group_allocation_def Let_def key_set_def split: option.splits)

lemma allocation_step_not_bill [simp]: "ALLOCATION_STEP_TYPES t \<noteq> ST_VENDOR_BILL"
  by (cases t) simp_all

definition step_allocations :: "execution_request \<Rightarrow> step_type \<Rightarrow> allocation list" where
  "step_allocations r st =
     (if st = ST_VENDOR_BILL
      then if rq_selected_workflow r = Some WF_VENDOR_BILL then request_allocations r else []
      else typed_allocations r st)"

lemma grouping_without_bill:
  assumes "st \<noteq> ST_CUSTOMER_RECHARGE"
  shows "snd (fold group_allocation (request_allocations r) (\<lambda>_. None, \<lambda>_. [])) st = typed_allocations r st"
    and "fst (fold group_allocation (request_allocations r) (\<lambda>_. None, \<lambda>_. [])) st =
      (if typed_allocations r st = [] then None else Some (set (map al_allocation_key (typed_allocations r st))))"
  using assms unfolding fold_group_allocation typed_allocations_def [symmetric] Let_def
  by (simp_all add: key_set_def)

lemma typed_vendor_bill [simp]: "typed_allocations r ST_VENDOR_BILL = []"
  by (simp add: typed_allocations_def)

lemma request_grouping_at:
  assumes "st \<noteq> ST_CUSTOMER_RECHARGE"
  shows "snd (request_grouping r) st = step_allocations r st"
    and "fst (request_grouping r) st =
      (if step_allocations r st = [] \<and> \<not> (st = ST_VENDOR_BILL \<and> rq_selected_workflow r = Some WF_VENDOR_BILL)
       then None else Some (set (map al_allocation_key (step_allocations r st))))"
proof -
  note g = grouping_without_bill [OF assms, of r] grouping_without_bill [of ST_VENDOR_BILL r]
  show "snd (request_grouping r) st = step_allocations r st"
    by (simp add: request_grouping_def group_vendor_bill_def step_allocations_def g)
  show "fst (request_grouping r) st =
      (if step_allocations r st = [] \<and> \<not> (st = ST_VENDOR_BILL \<and> rq_selected_workflow r = Some WF_VENDOR_BILL)
       then None else Some (set (map al_allocation_key (step_allocations r st))))"
    by (cases "st = ST_VENDOR_BILL"; cases "rq_selected_workflow r = Some WF_VENDOR_BILL")
       (simp_all add: request_grouping_def group_vendor_bill_def step_allocations_def g key_set_def)
qed

lemma grouped_step_fields:
  assumes "st \<noteq> ST_CUSTOMER_RECHARGE" "distinct (map al_allocation_key (request_allocations r))"
    and "fst (request_grouping r) st = Some keys"
  shows "st_step_type (grouped_step r (request_grouping r) st keys n) = st"
    and "st_sequence (grouped_step r (request_grouping r) st keys n) = n"
    and "st_allocation_keys (grouped_step r (request_grouping r) st keys n)
      = sort (map al_allocation_key (step_allocations r st))"
    and "st_allocations (grouped_step r (request_grouping r) st keys n)
      = sort_key al_allocation_key (step_allocations r st)"
proof -
  have "distinct (map al_allocation_key (step_allocations r st))"
    using assms(2) by (auto simp: step_allocations_def typed_allocations_def distinct_map_filter)
  moreover have "keys = set (map al_allocation_key (step_allocations r st))"
    using assms(1,3) by (auto simp: request_grouping_at split: if_splits)
  ultimately show "st_allocation_keys (grouped_step r (request_grouping r) st keys n)
      = sort (map al_allocation_key (step_allocations r st))"
    using sorted_list_of_set_sort_remdups [of "map al_allocation_key (step_allocations r st)"]
    by (simp add: grouped_step_def Let_def distinct_remdups_id)
qed (use assms in \<open>simp_all add: grouped_step_def Let_def request_grouping_at\<close>)

section \<open>Sequence numbers\<close>

fun sequenced :: "int \<Rightarrow> execution_step list \<Rightarrow> bool" where
  "sequenced n [] \<longleftrightarrow> True"
| "sequenced n (s # ss) \<longleftrightarrow> st_sequence s = n \<and> sequenced (n + 1) ss"

lemma sequenced_append: "sequenced n (xs @ ys) \<longleftrightarrow> sequenced n xs \<and> sequenced (n + int (length xs)) ys"
  by (induction xs arbitrary: n) (auto simp: algebra_simps)

lemma sequenced_upto: "sequenced n ss \<Longrightarrow> map st_sequence ss = [n..n + int (length ss) - 1]"
proof (induction ss arbitrary: n)
  case (Cons s ss)
  then have "map st_sequence ss = [n + 1..n + int (length ss)]" by fastforce
  with Cons.prems show ?case by (simp add: upto_rec1)
qed simp

section \<open>Recharge steps\<close>

text \<open>Steps of one kind that carry exactly the given keys, numbered from \<^verbatim>\<open>n\<close>.\<close>

definition recharge_chunk :: "int \<Rightarrow> string list \<Rightarrow> execution_step list \<Rightarrow> bool" where
  "recharge_chunk n keys ss \<longleftrightarrow> sequenced n ss \<and> list_all (\<lambda>s. st_step_type s = ST_CUSTOMER_RECHARGE) ss
     \<and> list_all valid_step ss
     \<and> mset (concat (map st_allocation_keys ss)) = mset keys"

lemma recharge_chunk_append:
  "recharge_chunk n ks xs \<Longrightarrow> recharge_chunk (n + int (length xs)) ls ys \<Longrightarrow> recharge_chunk n (ks @ ls) (xs @ ys)"
  by (simp add: recharge_chunk_def sequenced_append)

lemma recharge_chunk_mset: "mset ks = mset ls \<Longrightarrow> recharge_chunk n ks ss \<longleftrightarrow> recharge_chunk n ls ss"
  by (simp add: recharge_chunk_def)

lemma recharge_step_valid:
  "valid_by execution_step_checks (recharge_step r as n e w) \<Longrightarrow> list_all valid_allocation as \<Longrightarrow>
     valid_step (recharge_step r as n e w)"
  by (simp add: valid_step_def recharge_step_def)

lemma recharge_step_fields [simp]:
  "st_sequence (recharge_step r as n e w) = n" "st_step_type (recharge_step r as n e w) = ST_CUSTOMER_RECHARGE"
  "st_allocation_keys (recharge_step r as n e w) = map al_allocation_key as"
  by (simp_all add: recharge_step_def)

lemma single_creation_chunk:
  "single_creation_steps r n as = Inr ss \<Longrightarrow> list_all valid_allocation as \<Longrightarrow>
     recharge_chunk n (map al_allocation_key as) ss"
  by (induction as arbitrary: n ss)
     (auto simp: ebind_Inr_iff mk_checked_Inr_iff recharge_chunk_def recharge_step_valid)

lemma allocation_by_key_valid:
  "list_all valid_allocation cr \<Longrightarrow> allocation_by_key cr k = Some a \<Longrightarrow> valid_allocation a"
  unfolding allocation_by_key_def by (drule map_of_SomeD) (auto simp: list_all_iff)

lemma billing_step_fields [simp]:
  "st_sequence (billing_step r n as i) = n" "st_step_type (billing_step r n as i) = ST_CUSTOMER_RECHARGE"
  "st_allocation_keys (billing_step r n as i) = sort (map bl_allocation_key (bi_lines i))"
  by (simp_all add: billing_step_def)

lemma billing_step_valid:
  "valid_by execution_step_checks (billing_step r n as i) \<Longrightarrow> list_all valid_allocation as \<Longrightarrow>
     valid_billing_instruction i \<Longrightarrow> valid_step (billing_step r n as i)"
  by (simp add: valid_step_def billing_step_def list_all_iff)

lemma billing_instruction_chunk:
  "billing_instruction_steps r (allocation_by_key cr) n is = Inr ss \<Longrightarrow> list_all valid_allocation cr \<Longrightarrow>
     list_all valid_billing_instruction is \<Longrightarrow>
     recharge_chunk n (concat (map (\<lambda>i. map bl_allocation_key (bi_lines i)) is)) ss"
proof (induction "is" arbitrary: n ss)
  case (Cons i "is")
  let ?as = "map (\<lambda>k. the (allocation_by_key cr k)) (map bl_allocation_key (bi_lines i))"
  from Cons.prems(1) obtain ss' where known: "list_all (\<lambda>k. allocation_by_key cr k \<noteq> None) (map bl_allocation_key (bi_lines i))"
    and step: "valid_by execution_step_checks (billing_step r n ?as i)"
    and ss: "ss = billing_step r n ?as i # ss'" "billing_instruction_steps r (allocation_by_key cr) (n + 1) is = Inr ss'"
    unfolding billing_instruction_steps.simps Let_def ebind_Inr_iff mk_checked_Inr_iff run_checks_ok
    by (auto simp: list_all_iff)
  have "list_all valid_allocation ?as"
    using known allocation_by_key_valid [OF Cons.prems(2)] by (fastforce simp: list_all_iff)
  with billing_step_valid [OF step] Cons.prems(3) have "valid_step (billing_step r n ?as i)" by simp
  with Cons.IH [OF ss(2)] Cons.prems(2,3) show ?case by (simp add: ss(1) recharge_chunk_def)
qed (simp add: recharge_chunk_def)

lemma creation_from_billing_Inr:
  "customer_invoice_creation_steps_from_billing r cr n is = Inr ss \<longleftrightarrow>
     billing_instruction_steps r (allocation_by_key cr) n (sort_key bi_billing_key is) = Inr ss
     \<and> distinct (concat (map (\<lambda>i. map bl_allocation_key (bi_lines i)) (sort_key bi_billing_key is)))
     \<and> set (concat (map (\<lambda>i. map bl_allocation_key (bi_lines i)) (sort_key bi_billing_key is)))
        = set (map al_allocation_key cr)"
  unfolding customer_invoice_creation_steps_from_billing_def Let_def ebind_Inr_iff run_checks_ok by auto

lemma recharge_creation_chunk:
  assumes "recharge_creation_steps r n cr = Inr ss" "distinct (map al_allocation_key cr)"
    and "list_all valid_allocation cr" "list_all valid_billing_instruction (rq_accepted_billing_instructions r)"
  shows "recharge_chunk n (map al_allocation_key cr) ss"
proof -
  let ?cov = "concat (map (\<lambda>i. map bl_allocation_key (bi_lines i))
    (sort_key bi_billing_key (rq_accepted_billing_instructions r)))"
  consider (none) "cr = []" | (single) "single_creation_steps r n cr = Inr ss"
    | (billed) "customer_invoice_creation_steps_from_billing r cr n (rq_accepted_billing_instructions r) = Inr ss"
    using assms(1) by (auto simp: recharge_creation_steps_def split: if_splits)
  then show ?thesis
  proof cases
    case none
    with assms(1) show ?thesis by (simp add: recharge_creation_steps_def recharge_chunk_def)
  next
    case billed
    then have steps: "billing_instruction_steps r (allocation_by_key cr) n
          (sort_key bi_billing_key (rq_accepted_billing_instructions r)) = Inr ss"
      and cov: "distinct ?cov" "set ?cov = set (map al_allocation_key cr)"
      unfolding creation_from_billing_Inr by blast+
    have "mset ?cov = mset (map al_allocation_key cr)"
      using cov assms(2) by (simp only: set_eq_iff_mset_eq_distinct)
    moreover have "recharge_chunk n ?cov ss"
      using assms(3,4) by (intro billing_instruction_chunk [OF steps]) (simp_all add: list_all_iff)
    ultimately show ?thesis using recharge_chunk_mset by blast
  qed (use assms(3) in \<open>simp add: single_creation_chunk\<close>)
qed

lemma mset_filter_split: "mset (filter P xs) + mset (filter (\<lambda>x. \<not> P x) xs) = mset xs"
  by (induction xs) simp_all

lemma customer_recharge_parts:
  assumes "customer_recharge_steps r n = Inr ss"
  obtains xs more where "ss = xs @ more"
    "recharge_creation_steps r (n + int (length xs)) (creation_allocations r) = Inr more"
    "xs = [] \<and> existing_allocations r = []
     \<or> xs = [recharge_step r (existing_allocations r) n True False] \<and> existing_allocations r \<noteq> []
       \<and> valid_by execution_step_checks (recharge_step r (existing_allocations r) n True False)"
proof -
  obtain xs more where "(if existing_allocations r = [] then Inr [] else
      ebind (mk_checked execution_step_checks (recharge_step r (existing_allocations r) n True False)) (\<lambda>s. Inr [s])) = Inr xs"
    "recharge_creation_steps r (n + int (length xs)) (creation_allocations r) = Inr more" "ss = xs @ more"
    using assms unfolding customer_recharge_steps_def by (auto simp only: ebind_Inr_iff Inr_inject)
  with that show thesis by (auto simp: ebind_Inr_iff mk_checked_Inr_iff split: if_splits)
qed

lemma recharge_partition:
  assumes "valid_request r"
  shows "mset (map al_allocation_key (existing_allocations r @ creation_allocations r))
      = mset (map al_allocation_key (recharge_allocations r))"
    and "distinct (map al_allocation_key (existing_allocations r))" "distinct (map al_allocation_key (creation_allocations r))"
    and "list_all valid_allocation (existing_allocations r)" "list_all valid_allocation (creation_allocations r)"
proof -
  have "mset (existing_allocations r @ creation_allocations r) = mset (recharge_allocations r)"
    using mset_filter_split [of "\<lambda>a. al_customer_invoice_id a \<noteq> None"]
    by (simp add: existing_allocations_def creation_allocations_def del: not_None_eq)
  then show "mset (map al_allocation_key (existing_allocations r @ creation_allocations r))
      = mset (map al_allocation_key (recharge_allocations r))" by (metis mset_map)
qed (use request_allocations_valid [OF assms] in
      \<open>auto simp: existing_allocations_def creation_allocations_def recharge_allocations_def distinct_map
         distinct_map_filter inj_on_def list_all_iff\<close>)

lemma customer_recharge_chunk:
  assumes "customer_recharge_steps r n = Inr ss" "valid_request r"
  shows "recharge_chunk n (map al_allocation_key (recharge_allocations r)) ss"
  using assms(1)
proof (rule customer_recharge_parts)
  fix xs more
  assume ss: "ss = xs @ more"
    and more: "recharge_creation_steps r (n + int (length xs)) (creation_allocations r) = Inr more"
    and xs: "xs = [] \<and> existing_allocations r = []
      \<or> xs = [recharge_step r (existing_allocations r) n True False] \<and> existing_allocations r \<noteq> []
        \<and> valid_by execution_step_checks (recharge_step r (existing_allocations r) n True False)"
  note part = recharge_partition [OF assms(2)]
  have "recharge_chunk n (map al_allocation_key (existing_allocations r)) xs"
    using xs part(4) by (auto simp: recharge_chunk_def recharge_step_valid)
  moreover have "recharge_chunk (n + int (length xs)) (map al_allocation_key (creation_allocations r)) more"
    using assms(2) by (intro recharge_creation_chunk [OF more part(3,5)]) (simp add: valid_request_def)
  ultimately have "recharge_chunk n (map al_allocation_key (existing_allocations r @ creation_allocations r)) ss"
    unfolding ss map_append by (rule recharge_chunk_append)
  then show ?thesis using part(1) recharge_chunk_mset by blast
qed

section \<open>The chunks of a plan\<close>

text \<open>The steps that one entry of the step order contributes, numbered from \<^verbatim>\<open>n\<close>.\<close>

definition plan_chunk :: "execution_request \<Rightarrow> step_type \<Rightarrow> int \<Rightarrow> execution_step list \<Rightarrow> bool" where
  "plan_chunk r st n ss \<longleftrightarrow>
     (if st = ST_CUSTOMER_RECHARGE then customer_recharge_steps r n = Inr ss
      else case fst (request_grouping r) st of
        None \<Rightarrow> ss = []
      | Some keys \<Rightarrow> ss = [grouped_step r (request_grouping r) st keys n] \<and> list_all (valid_by execution_step_checks) ss)"

fun plan_chunks :: "execution_request \<Rightarrow> int \<Rightarrow> step_type list \<Rightarrow> execution_step list list \<Rightarrow> bool" where
  "plan_chunks r n [] cs \<longleftrightarrow> cs = []"
| "plan_chunks r n (st # sts) cs \<longleftrightarrow>
     (case cs of [] \<Rightarrow> False | c # cs' \<Rightarrow> plan_chunk r st n c \<and> plan_chunks r (n + int (length c)) sts cs')"

lemma planned_loop_chunks:
  "planned_loop r (request_grouping r) sts steps = Inr out \<longleftrightarrow>
     (\<exists>cs. plan_chunks r (int (length steps) + 1) sts cs \<and> out = steps @ concat cs)"
proof (induction sts arbitrary: steps)
  case Nil
  then show ?case by auto
next
  case (Cons st sts)
  have tail: "plan_chunks r n (st # sts) cs \<longleftrightarrow>
      (\<exists>c cs'. cs = c # cs' \<and> plan_chunk r st n c \<and> plan_chunks r (n + int (length c)) sts cs')" for n cs
    by (cases cs) auto
  have step: "planned_loop r (request_grouping r) (st # sts) steps = Inr out \<longleftrightarrow>
      (\<exists>c. plan_chunk r st (int (length steps) + 1) c \<and> planned_loop r (request_grouping r) sts (steps @ c) = Inr out)"
    by (auto simp: plan_chunk_def ebind_Inr_iff mk_checked_Inr_iff split: option.splits)
  show ?case
    unfolding step tail Cons.IH by (fastforce simp: algebra_simps)
qed

lemma plan_chunk_facts:
  assumes "plan_chunk r st n c" "valid_request r"
  shows "sequenced n c" "list_all (\<lambda>s. st_step_type s = st) c" "list_all valid_step c"
    and "st \<noteq> ST_CUSTOMER_RECHARGE \<Longrightarrow> length c \<le> 1"
    and "mset (concat (map st_allocation_keys c)) = mset (map al_allocation_key
      (if st = ST_CUSTOMER_RECHARGE then recharge_allocations r else step_allocations r st))"
proof -
  have "sequenced n c \<and> list_all (\<lambda>s. st_step_type s = st) c \<and> list_all valid_step c
    \<and> (st \<noteq> ST_CUSTOMER_RECHARGE \<longrightarrow> length c \<le> 1)
    \<and> mset (concat (map st_allocation_keys c)) = mset (map al_allocation_key
      (if st = ST_CUSTOMER_RECHARGE then recharge_allocations r else step_allocations r st))"
  proof (cases "st = ST_CUSTOMER_RECHARGE")
    case True
    with assms customer_recharge_chunk [of r n c] show ?thesis
      by (simp add: plan_chunk_def recharge_chunk_def)
  next
    case False
    show ?thesis
    proof (cases "fst (request_grouping r) st")
      case None
      with False assms(1) show ?thesis
        by (auto simp: plan_chunk_def request_grouping_at split: if_splits)
    next
      case (Some keys)
      let ?s = "grouped_step r (request_grouping r) st keys n"
      from Some False assms(1) have "c = [?s]" "valid_by execution_step_checks ?s"
        by (auto simp: plan_chunk_def)
      moreover have "valid_step ?s"
        using \<open>valid_by execution_step_checks ?s\<close> request_allocations_valid(2) [OF assms(2)] False
        by (auto simp: valid_step_def grouped_step_def Let_def request_grouping_at step_allocations_def
            typed_allocations_def list_all_iff)
      ultimately show ?thesis
        using False grouped_step_fields [OF False request_allocations_valid(1) [OF assms(2)] Some] by simp
    qed
  qed
  then show "sequenced n c" "list_all (\<lambda>s. st_step_type s = st) c" "list_all valid_step c"
    and "st \<noteq> ST_CUSTOMER_RECHARGE \<Longrightarrow> length c \<le> 1"
    and "mset (concat (map st_allocation_keys c)) = mset (map al_allocation_key
      (if st = ST_CUSTOMER_RECHARGE then recharge_allocations r else step_allocations r st))" by blast+
qed

lemma plan_chunks_sequenced:
  "plan_chunks r n sts cs \<Longrightarrow> valid_request r \<Longrightarrow>
     sequenced n (concat cs) \<and> list_all valid_step (concat cs)
     \<and> list_all (\<lambda>s. st_step_type s \<in> set sts) (concat cs)"
proof (induction sts arbitrary: n cs)
  case (Cons st sts)
  then obtain c cs' where cs: "cs = c # cs'" "plan_chunk r st n c" "plan_chunks r (n + int (length c)) sts cs'"
    by (auto split: list.splits)
  have "list_all (\<lambda>s. st_step_type s \<in> set (st # sts)) (concat cs)"
    using plan_chunk_facts(2) [OF cs(2) Cons.prems(2)] Cons.IH [OF cs(3) Cons.prems(2)]
    by (auto simp: cs(1) list_all_iff)
  with Cons.IH [OF cs(3) Cons.prems(2)] plan_chunk_facts [OF cs(2) Cons.prems(2)] show ?case
    by (simp add: cs(1) sequenced_append)
qed simp

definition typed_steps :: "step_type \<Rightarrow> execution_step list \<Rightarrow> execution_step list" where
  "typed_steps st ss = filter (\<lambda>s. st_step_type s = st) ss"

lemma typed_steps_append [simp]: "typed_steps st (xs @ ys) = typed_steps st xs @ typed_steps st ys"
  by (simp add: typed_steps_def)

lemma typed_steps_absent: "list_all (\<lambda>s. st_step_type s \<in> A) ss \<Longrightarrow> st \<notin> A \<Longrightarrow> typed_steps st ss = []"
  by (auto simp: typed_steps_def list_all_iff filter_empty_conv)

lemma typed_steps_all: "list_all (\<lambda>s. st_step_type s = st) ss \<Longrightarrow> typed_steps st ss = ss"
  by (auto simp: typed_steps_def list_all_iff filter_id_conv)

text \<open>The steps of one type in a plan are the chunk of that type.\<close>

lemma plan_chunks_typed:
  assumes "plan_chunks r n sts cs" "valid_request r" "distinct sts" "st \<in> set sts"
  shows "\<exists>m. plan_chunk r st m (typed_steps st (concat cs))"
  using assms
proof (induction sts arbitrary: n cs)
  case (Cons x sts)
  then obtain c cs' where cs: "cs = c # cs'" "plan_chunk r x n c" "plan_chunks r (n + int (length c)) sts cs'"
    by (auto split: list.splits)
  note c_type = plan_chunk_facts(2) [OF cs(2) Cons.prems(2)]
  show ?case
  proof (cases "st = x")
    case True
    have "typed_steps st (concat cs') = []"
      using plan_chunks_sequenced [OF cs(3) Cons.prems(2)] Cons.prems(3) True
      by (intro typed_steps_absent [of "set sts"]) auto
    with True cs(2) typed_steps_all [OF c_type] show ?thesis by (auto simp: cs(1))
  next
    case False
    have "typed_steps st c = []"
      using False c_type by (intro typed_steps_absent [of "{x}"]) (auto simp: list_all_iff)
    with Cons.IH [OF cs(3) Cons.prems(2)] Cons.prems(3,4) False show ?thesis by (simp add: cs(1))
  qed
qed simp

section \<open>Plans\<close>

lemma planner_plan_Inr:
  assumes "planner_plan r = Inr p"
  obtains steps where "planned_steps r = Inr steps" "pl_steps p = steps" "valid_by execution_plan_checks p"
    "pl_execution_id p = rq_execution_id r" "pl_review_id p = rq_review_id r" "pl_company_id p = rq_company_id r"
    "pl_decision_version p = rq_decision_version r" "pl_mode p = rq_mode r" "pl_decision_id p = rq_decision_id r"
    "pl_idempotency_key p = Some (execution_idempotency_key (p\<lparr>pl_idempotency_key := None\<rparr>))"
  using assms by (auto simp: planner_plan_def ebind_Inr_iff mk_checked_Inr_iff)

lemma planned_steps_chunks:
  assumes "planned_steps r = Inr steps" "rq_selected_workflow r \<noteq> Some WF_CUSTOMER_QUOTATION"
  obtains cs where "plan_chunks r 1 STEP_TYPE_ORDER cs" "steps = concat cs" "steps \<noteq> []"
  using assms by (auto simp: planned_steps_def ebind_Inr_iff planned_loop_chunks split: if_splits)

lemma sequenced_map_enumerate:
  "(\<And>i x. st_sequence (f i x) = int i) \<Longrightarrow> sequenced (int n) (map (\<lambda>(i, x). f i x) (enumerate n xs))"
proof (induction xs arbitrary: n)
  case (Cons x xs)
  from Cons.IH [of "Suc n"] Cons.prems show ?case by (simp add: algebra_simps)
qed simp

lemma quotation_steps_Inr:
  assumes "customer_quotation_steps r = Inr steps"
  shows "steps = map (\<lambda>(i, x). quotation_step r (int i) x) (enumerate 1 (rq_selected_quotation_scenario_ids r))"
    and "list_all (valid_by execution_step_checks) steps" "sequenced 1 steps"
proof -
  let ?e = "enumerate 1 (rq_selected_quotation_scenario_ids r)"
  from assms have all: "list_all2 (\<lambda>(i, x) s. s = quotation_step r (int i) x \<and> valid_by execution_step_checks s) ?e steps"
    by (auto simp: customer_quotation_steps_def ebind_Inr_iff emap_Inr_nth mk_checked_Inr_iff case_prod_unfold
        elim!: list_all2_mono split: if_splits)
  then show eq: "steps = map (\<lambda>(i, x). quotation_step r (int i) x) ?e"
    by (auto simp: list_all2_conv_all_nth case_prod_unfold intro!: nth_equalityI)
  show "list_all (valid_by execution_step_checks) steps"
    using all by (auto simp: list_all2_conv_all_nth list_all_length case_prod_unfold)
  show "sequenced 1 steps"
    using sequenced_map_enumerate [of "\<lambda>i. quotation_step r (int i)" 1] by (simp add: eq quotation_step_def)
qed

lemma planned_steps_valid:
  assumes "valid_request r" "planned_steps r = Inr steps"
  shows "sequenced 1 steps \<and> list_all valid_step steps"
proof (cases "rq_selected_workflow r = Some WF_CUSTOMER_QUOTATION")
  case True
  with assms(2) have q: "customer_quotation_steps r = Inr steps" by (simp add: planned_steps_def)
  have "valid_step s" if "s \<in> set steps" for s
    using that quotation_steps_Inr(1,2) [OF q] by (auto simp: valid_step_def quotation_step_def list_all_iff)
  with quotation_steps_Inr(3) [OF q] show ?thesis by (simp add: list_all_iff)
next
  case False
  from planned_steps_chunks [OF assms(2) False] obtain cs where "plan_chunks r 1 STEP_TYPE_ORDER cs" "steps = concat cs"
    by blast
  with plan_chunks_sequenced assms(1) show ?thesis by blast
qed

text \<open>
  Whatever plan the planner returns for a request is valid as a whole: every step passed its
  constructor and carries constructed allocations and billing instructions, step keys are unique,
  the steps are numbered from one without gaps, and the plan is the request's.
\<close>

theorem planner_plan_valid:
  assumes "valid_request r" "planner_plan r = Inr p"
  shows "valid_plan p \<and> map st_sequence (pl_steps p) = [1..int (length (pl_steps p))]
    \<and> pl_review_id p = rq_review_id r \<and> pl_company_id p = rq_company_id r
    \<and> pl_decision_version p = rq_decision_version r \<and> pl_mode p = rq_mode r"
  using assms(2)
proof (rule planner_plan_Inr)
  fix steps
  assume steps: "planned_steps r = Inr steps" "pl_steps p = steps" and "valid_by execution_plan_checks p"
    "pl_review_id p = rq_review_id r" "pl_company_id p = rq_company_id r"
    "pl_decision_version p = rq_decision_version r" "pl_mode p = rq_mode r"
  moreover from planned_steps_valid [OF assms(1) steps(1)] have "sequenced 1 (pl_steps p)" "list_all valid_step (pl_steps p)"
    by (simp_all add: steps(2))
  ultimately show ?thesis using sequenced_upto [of 1 "pl_steps p"] by (simp add: valid_plan_def)
qed

section \<open>Order and coverage\<close>

definition step_rank :: "step_type \<Rightarrow> nat" where
  "step_rank st = length (takeWhile (\<lambda>x. x \<noteq> st) STEP_TYPE_ORDER)"

lemma chunks_sorted:
  assumes "plan_chunks r n sts cs" "valid_request r" "sorted (map step_rank sts)"
  shows "sorted (map (\<lambda>s. step_rank (st_step_type s)) (concat cs))"
  using assms
proof (induction sts arbitrary: n cs)
  case (Cons st sts)
  then obtain c cs' where cs: "cs = c # cs'" "plan_chunk r st n c" "plan_chunks r (n + int (length c)) sts cs'"
    by (auto split: list.splits)
  have c: "map (\<lambda>s. step_rank (st_step_type s)) c = replicate (length c) (step_rank st)"
    using plan_chunk_facts(2) [OF cs(2) Cons.prems(2)] by (induction c) simp_all
  have "step_rank st \<le> step_rank (st_step_type s)" if "s \<in> set (concat cs')" for s
    using that plan_chunks_sequenced [OF cs(3) Cons.prems(2)] Cons.prems(3) by (auto simp: list_all_iff)
  with Cons.IH [OF cs(3) Cons.prems(2)] Cons.prems(3) c show ?case
    by (auto simp: cs(1) sorted_append)
qed simp

lemma distinct_step_type_order: "distinct STEP_TYPE_ORDER" "sorted (map step_rank STEP_TYPE_ORDER)"
  by (simp_all add: STEP_TYPE_ORDER_def step_rank_def)

lemma allocation_step_in_order: "ALLOCATION_STEP_TYPES t \<in> set STEP_TYPE_ORDER"
  by (cases t) (simp_all add: STEP_TYPE_ORDER_def)

lemma recharge_type_iff: "t = CUSTOMER_RECHARGE \<longleftrightarrow> ALLOCATION_STEP_TYPES t = ST_CUSTOMER_RECHARGE"
  by (cases t) simp_all

lemma recharge_is_typed:
  "mset (map al_allocation_key (recharge_allocations r)) = mset (map al_allocation_key (typed_allocations r ST_CUSTOMER_RECHARGE))"
  unfolding recharge_allocations_def typed_allocations_def recharge_type_iff by simp

text \<open>
  C23. The plan of an allocation or vendor bill decision runs its steps in the fixed business order
  (purchase orders before the vendor bill, the bill before links and recharges), with at most one
  step per type other than customer recharge; and it loses or duplicates no allocation: the steps
  of each type carry together exactly the keys of the allocations of that type.
\<close>

theorem planner_covers_allocations:
  assumes "valid_request r" "planner_plan r = Inr p" "rq_selected_workflow r \<noteq> Some WF_CUSTOMER_QUOTATION"
  shows "sorted (map (\<lambda>s. step_rank (st_step_type s)) (pl_steps p))
    \<and> (st \<noteq> ST_CUSTOMER_RECHARGE \<longrightarrow> length (typed_steps st (pl_steps p)) \<le> 1)
    \<and> mset (concat (map st_allocation_keys (typed_steps (ALLOCATION_STEP_TYPES t) (pl_steps p))))
      = mset (map al_allocation_key
          (filter (\<lambda>a. ALLOCATION_STEP_TYPES (al_allocation_type a) = ALLOCATION_STEP_TYPES t) (request_allocations r)))"
  using assms(2)
proof (rule planner_plan_Inr)
  fix steps
  assume steps: "planned_steps r = Inr steps" "pl_steps p = steps"
  from planned_steps_chunks [OF steps(1) assms(3)] obtain cs
    where cs: "plan_chunks r 1 STEP_TYPE_ORDER cs" "pl_steps p = concat cs" using steps(2) by blast
  note typed = plan_chunks_typed [OF cs(1) assms(1) distinct_step_type_order(1), folded cs(2)]
  have "sorted (map (\<lambda>s. step_rank (st_step_type s)) (pl_steps p))"
    unfolding cs(2) by (rule chunks_sorted [OF cs(1) assms(1) distinct_step_type_order(2)])
  moreover have "length (typed_steps st (pl_steps p)) \<le> 1" if "st \<noteq> ST_CUSTOMER_RECHARGE"
  proof (cases "st \<in> set STEP_TYPE_ORDER")
    case True
    from typed [OF this] plan_chunk_facts(4) [OF _ assms(1) that] show ?thesis by blast
  next
    case False
    with plan_chunks_sequenced [OF cs(1) assms(1)] have "typed_steps st (pl_steps p) = []"
      unfolding cs(2) by (intro typed_steps_absent [of "set STEP_TYPE_ORDER"]) auto
    then show ?thesis by simp
  qed
  moreover have "mset (concat (map st_allocation_keys (typed_steps (ALLOCATION_STEP_TYPES t) (pl_steps p))))
      = mset (map al_allocation_key (typed_allocations r (ALLOCATION_STEP_TYPES t)))"
  proof -
    obtain m where "plan_chunk r (ALLOCATION_STEP_TYPES t) m (typed_steps (ALLOCATION_STEP_TYPES t) (pl_steps p))"
      using typed [OF allocation_step_in_order] by blast
    from plan_chunk_facts(5) [OF this assms(1)] show ?thesis
      using recharge_is_typed [of r] by (simp add: step_allocations_def del: mset_map split: if_splits)
  qed
  ultimately show ?thesis by (simp add: typed_allocations_def)
qed

section \<open>Step keys are unique\<close>

lemma split_at_char: "a @ z # b = c @ z # d \<Longrightarrow> z \<notin> set a \<Longrightarrow> z \<notin> set c \<Longrightarrow> a = c \<and> b = d"
proof (induction a arbitrary: c)
  case Nil
  then show ?case by (cases c) auto
next
  case (Cons x a)
  then show ?case by (cases c) auto
qed

lemma step_type_value_no_colon: "CHR '':'' \<notin> set (step_type_value st)"
  by (cases st) simp_all

definition plus_free :: "string list \<Rightarrow> bool" where
  "plus_free ks \<longleftrightarrow> (\<forall>k \<in> set ks. CHR ''+'' \<notin> set k)"

lemma str_join_plus_inject:
  "str_join ''+'' xs = str_join ''+'' ys \<Longrightarrow> xs \<noteq> [] \<Longrightarrow> ys \<noteq> [] \<Longrightarrow> plus_free xs \<Longrightarrow> plus_free ys \<Longrightarrow> xs = ys"
proof (induction xs arbitrary: ys)
  case (Cons x xs)
  then obtain y ys' where ys: "ys = y # ys'" by (cases ys) auto
  have x: "CHR ''+'' \<notin> set x" and y: "CHR ''+'' \<notin> set y" using Cons.prems ys by (auto simp: plus_free_def)
  consider "xs = [] \<and> ys' = []" | "xs = [] \<and> ys' \<noteq> []" | "xs \<noteq> [] \<and> ys' = []" | "xs \<noteq> [] \<and> ys' \<noteq> []" by blast
  then show ?case
  proof cases
    case 4
    with Cons.prems(1) ys x y have "x = y \<and> str_join ''+'' xs = str_join ''+'' ys'"
      by (intro split_at_char) (simp_all add: str_join_Cons)
    with Cons.IH [of ys'] Cons.prems(4,5) 4 ys show ?thesis by (auto simp: plus_free_def)
  next
    case 2
    with Cons.prems(1) ys x have False by (auto simp: str_join_Cons)
    then show ?thesis ..
  next
    case 3
    with Cons.prems(1) ys y have False by (auto simp: str_join_Cons)
    then show ?thesis ..
  qed (use Cons.prems ys in simp)
qed simp

lemma step_key_inject:
  assumes "step_key r st ks = step_key r st' ks'"
  shows "st = st' \<and> (ks \<noteq> [] \<longrightarrow> ks' \<noteq> [] \<longrightarrow> plus_free ks \<longrightarrow> plus_free ks' \<longrightarrow> ks = ks')"
proof -
  let ?part = "\<lambda>ks. if ks \<noteq> [] then str_join ''+'' ks else ''workflow''"
  have "step_type_value st @ CHR '':'' # ?part ks = step_type_value st' @ CHR '':'' # ?part ks'"
    using assms by (simp add: step_key_def)
  from split_at_char [OF this step_type_value_no_colon step_type_value_no_colon]
  have eq: "step_type_value st = step_type_value st'" "?part ks = ?part ks'" by blast+
  from eq(1) have "st = st'" by (simp add: step_type_enum.val_inject)
  with eq(2) str_join_plus_inject show ?thesis by auto
qed

lemma distinct_by_group:
  "(\<And>y. distinct (map g (filter (\<lambda>x. f x = y) xs))) \<Longrightarrow> distinct (map (\<lambda>x. (f x, g x)) xs)"
proof (induction xs)
  case (Cons x xs)
  have "distinct (map g (filter (\<lambda>z. f z = y) xs))" for y
    using Cons.prems [of y] by (simp split: if_splits)
  moreover have "g x \<notin> g ` {z \<in> set xs. f z = f x}" using Cons.prems [of "f x"] by simp
  ultimately show ?case using Cons.IH by auto
qed simp

lemma distinct_concat_nonempty: "distinct (concat xss) \<Longrightarrow> [] \<notin> set xss \<Longrightarrow> distinct xss"
proof (induction xss)
  case (Cons xs xss)
  have "xs \<notin> set xss"
  proof
    assume "xs \<in> set xss"
    then have "set xs \<subseteq> set (concat xss)" by auto
    with Cons.prems show False by (cases xs) auto
  qed
  with Cons show ?case by simp
qed simp

section \<open>The planner succeeds\<close>

lemma step_key_not_blank: "\<not> blank (step_key r st ks)"
  by (simp add: step_key_def blank_append blank_Cons py_space_def)

lemma recharge_step_passes:
  assumes "1 \<le> n" "distinct (map al_allocation_key as)" "sorted (map al_allocation_key as)"
    and "list_all valid_allocation as"
  shows "valid_by execution_step_checks (recharge_step r as n e w)"
  using assms valid_allocation_key
  by (auto simp: valid_by_def execution_step_checks_def recharge_step_def step_key_not_blank list_all_iff
      sort_key_sorted_id)

lemma grouped_step_passes:
  assumes "1 \<le> n" "valid_request r" "st \<noteq> ST_CUSTOMER_RECHARGE" "st \<noteq> ST_CREATE_CUSTOMER_QUOTATION"
    and "fst (request_grouping r) st = Some keys"
  shows "valid_by execution_step_checks (grouped_step r (request_grouping r) st keys n)" (is "valid_by _ ?s")
proof -
  note valid = request_allocations_valid [OF assms(2)]
  note fields = grouped_step_fields [OF assms(3) valid(1) assms(5), of n]
  have d: "distinct (map al_allocation_key (step_allocations r st))"
    using valid(1) by (auto simp: step_allocations_def typed_allocations_def distinct_map_filter)
  have "\<not> blank (al_allocation_key a)" if "a \<in> set (step_allocations r st)" for a
    using that valid(2) valid_allocation_key
    by (auto simp: step_allocations_def typed_allocations_def list_all_iff split: if_splits)
  moreover have "st_step_key ?s = step_key r st (st_allocation_keys ?s)" "st_billing_instruction ?s = None"
    "st_quotation_scenario_id ?s = None"
    by (simp_all add: grouped_step_def Let_def)
  ultimately show ?thesis
    using assms(1,4) d sort_key_sorted_id [of "\<lambda>x. x" "sort (map al_allocation_key (step_allocations r st))"]
    by (auto simp: valid_by_def execution_step_checks_def fields step_key_not_blank map_sort_key list_all_iff)
qed

lemma single_creation_succeeds:
  "1 \<le> n \<Longrightarrow> list_all valid_allocation as \<Longrightarrow> \<exists>ss. single_creation_steps r n as = Inr ss"
proof (induction as arbitrary: n)
  case (Cons a as)
  then have "valid_by execution_step_checks (recharge_step r [a] n False True)"
    by (intro recharge_step_passes) simp_all
  moreover obtain ss where "single_creation_steps r (n + 1) as = Inr ss" using Cons by fastforce
  ultimately show ?case by simp
qed simp

lemma recharge_succeeds:
  assumes "valid_request r" "1 \<le> n" "rq_accepted_billing_instructions r = []"
  shows "\<exists>ss. customer_recharge_steps r n = Inr ss"
proof -
  note part = recharge_partition [OF assms(1)]
  have "sorted (map al_allocation_key (existing_allocations r))"
    by (simp add: existing_allocations_def recharge_allocations_def sorted_filter del: not_None_eq)
  then have step: "valid_by execution_step_checks (recharge_step r (existing_allocations r) n True False)"
    using assms(2) part(2,4) by (intro recharge_step_passes)
  have "\<exists>more. recharge_creation_steps r m (creation_allocations r) = Inr more" if "1 \<le> m" for m
    using single_creation_succeeds [OF that part(5)] assms(3) by (auto simp: recharge_creation_steps_def)
  from this [of n] this [of "n + 1"] assms(2) step show ?thesis
    by (auto simp: customer_recharge_steps_def)
qed

lemma plan_chunk_exists:
  assumes "valid_request r" "1 \<le> n" "rq_accepted_billing_instructions r = []" "st \<noteq> ST_CREATE_CUSTOMER_QUOTATION"
  shows "\<exists>c. plan_chunk r st n c"
  using recharge_succeeds [OF assms(1-3)] grouped_step_passes [OF assms(2,1) _ assms(4)]
  by (cases "st = ST_CUSTOMER_RECHARGE"; cases "fst (request_grouping r) st") (auto simp: plan_chunk_def)

lemma plan_chunks_exist:
  "valid_request r \<Longrightarrow> 1 \<le> n \<Longrightarrow> rq_accepted_billing_instructions r = [] \<Longrightarrow>
     ST_CREATE_CUSTOMER_QUOTATION \<notin> set sts \<Longrightarrow> \<exists>cs. plan_chunks r n sts cs"
proof (induction sts arbitrary: n)
  case (Cons st sts)
  then obtain c where "plan_chunk r st n c" using plan_chunk_exists by force
  moreover obtain cs where "plan_chunks r (n + int (length c)) sts cs" using Cons by force
  ultimately have "plan_chunks r n (st # sts) (c # cs)" by simp
  then show ?case by blast
qed (auto intro: exI [of _ "[]"])

lemma plan_chunk_keys:
  assumes "plan_chunk r st n c" "valid_request r" "rq_accepted_billing_instructions r = []"
  shows "list_all (\<lambda>s. st_step_key s = step_key r (st_step_type s) (st_allocation_keys s)
    \<and> (st = ST_CUSTOMER_RECHARGE \<longrightarrow> st_allocation_keys s \<noteq> [])) c"
proof (cases "st = ST_CUSTOMER_RECHARGE")
  case True
  have single: "list_all (\<lambda>s. st_step_key s = step_key r (st_step_type s) (st_allocation_keys s) \<and> st_allocation_keys s \<noteq> []) ss"
    if "single_creation_steps r m as = Inr ss" for m as ss
    using that by (induction as arbitrary: m ss) (auto simp: ebind_Inr_iff mk_checked_Inr_iff recharge_step_def)
  have "list_all (\<lambda>s. st_step_key s = step_key r (st_step_type s) (st_allocation_keys s) \<and> st_allocation_keys s \<noteq> []) ss"
    if "recharge_creation_steps r m as = Inr ss" for m as ss
    using that single assms(3) by (auto simp: recharge_creation_steps_def split: if_splits)
  with True assms(1) show ?thesis
    by (auto simp: plan_chunk_def recharge_step_def elim!: customer_recharge_parts)
next
  case False
  with assms(1) show ?thesis
    by (auto simp: plan_chunk_def grouped_step_def Let_def split: option.splits)
qed

lemma plan_chunks_keys:
  "plan_chunks r n sts cs \<Longrightarrow> valid_request r \<Longrightarrow> rq_accepted_billing_instructions r = [] \<Longrightarrow>
     list_all (\<lambda>s. st_step_key s = step_key r (st_step_type s) (st_allocation_keys s)
       \<and> (st_step_type s = ST_CUSTOMER_RECHARGE \<longrightarrow> st_allocation_keys s \<noteq> [])) (concat cs)"
proof (induction sts arbitrary: n cs)
  case (Cons st sts)
  then obtain c cs' where cs: "cs = c # cs'" "plan_chunk r st n c" "plan_chunks r (n + int (length c)) sts cs'"
    by (auto split: list.splits)
  with Cons.IH [OF cs(3) Cons.prems(2,3)] plan_chunk_keys [OF cs(2) Cons.prems(2,3)]
    plan_chunk_facts(2) [OF cs(2) Cons.prems(2)] show ?case
    by (auto simp: list_all_iff)
qed simp

lemma typed_keys_distinct:
  assumes chunks: "plan_chunks r n STEP_TYPE_ORDER cs" and "valid_request r" "rq_accepted_billing_instructions r = []"
  shows "distinct (map st_allocation_keys (typed_steps st (concat cs)))"
proof -
  note valid = assms(2)
  consider (recharge) "st = ST_CUSTOMER_RECHARGE" | (other) "st \<in> set STEP_TYPE_ORDER" "st \<noteq> ST_CUSTOMER_RECHARGE"
    | (none) "st \<notin> set STEP_TYPE_ORDER" by blast
  then show ?thesis
  proof cases
    case recharge
    then have "st \<in> set STEP_TYPE_ORDER" by (simp add: STEP_TYPE_ORDER_def)
    then obtain m where m: "plan_chunk r st m (typed_steps st (concat cs))"
      using plan_chunks_typed [OF chunks valid distinct_step_type_order(1)] by blast
    have "mset (concat (map st_allocation_keys (typed_steps st (concat cs)))) = mset (map al_allocation_key (recharge_allocations r))"
      using plan_chunk_facts(5) [OF m valid] recharge by simp
    moreover have "distinct (map al_allocation_key (recharge_allocations r))"
      using request_allocations_valid(1) [OF valid]
      by (simp add: recharge_allocations_def distinct_map distinct_map_filter inj_on_def)
    ultimately have "distinct (concat (map st_allocation_keys (typed_steps st (concat cs))))"
      using mset_eq_imp_distinct_iff by blast
    moreover have "[] \<notin> set (map st_allocation_keys (typed_steps st (concat cs)))"
      using plan_chunk_keys [OF m valid assms(3)] recharge by (auto simp: list_all_iff)
    ultimately show ?thesis by (rule distinct_concat_nonempty)
  next
    case other
    then obtain m where m: "plan_chunk r st m (typed_steps st (concat cs))"
      using plan_chunks_typed [OF chunks valid distinct_step_type_order(1)] by blast
    from plan_chunk_facts(4) [OF this valid other(2)] show ?thesis
      by (cases "typed_steps st (concat cs)") auto
  next
    case none
    with plan_chunks_sequenced [OF chunks valid] have "typed_steps st (concat cs) = []"
      by (intro typed_steps_absent [of "set STEP_TYPE_ORDER"]) auto
    then show ?thesis by simp
  qed
qed

lemma same_step_key:
  assumes chunks: "plan_chunks r n STEP_TYPE_ORDER cs" and valid: "valid_request r"
    and no_bills: "rq_accepted_billing_instructions r = []"
    and plus: "plus_free (map al_allocation_key (request_allocations r))"
    and st: "s \<in> set (concat cs)" "t \<in> set (concat cs)" "st_step_key s = st_step_key t"
  shows "st_step_type s = st_step_type t \<and> st_allocation_keys s = st_allocation_keys t"
proof -
  note keys = plan_chunks_keys [OF chunks valid no_bills]
  from st keys have eq: "step_key r (st_step_type s) (st_allocation_keys s) = step_key r (st_step_type t) (st_allocation_keys t)"
    by (auto simp: list_all_iff)
  from step_key_inject [OF eq] have same: "st_step_type s = st_step_type t" by blast
  then have mem: "s \<in> set (typed_steps (st_step_type s) (concat cs))" "t \<in> set (typed_steps (st_step_type s) (concat cs))"
    using st by (simp_all add: typed_steps_def)
  have "st_step_type s \<in> set STEP_TYPE_ORDER"
    using plan_chunks_sequenced [OF chunks valid] st(1) by (auto simp: list_all_iff)
  then obtain m where m: "plan_chunk r (st_step_type s) m (typed_steps (st_step_type s) (concat cs))"
    using plan_chunks_typed [OF chunks valid distinct_step_type_order(1)] by blast
  show ?thesis
  proof (cases "st_step_type s = ST_CUSTOMER_RECHARGE")
    case True
    have "set (concat (map st_allocation_keys (typed_steps (st_step_type s) (concat cs)))) \<subseteq> set (map al_allocation_key (request_allocations r))"
      using plan_chunk_facts(5) [OF m valid, THEN mset_eq_setD] True by (auto simp: recharge_allocations_def)
    with mem plus have "plus_free (st_allocation_keys s)" "plus_free (st_allocation_keys t)"
      by (auto simp: plus_free_def)
    moreover have "st_allocation_keys s \<noteq> []" "st_allocation_keys t \<noteq> []"
      using keys st True same by (auto simp: list_all_iff)
    ultimately show ?thesis using step_key_inject [OF eq] by simp
  next
    case False
    from plan_chunk_facts(4) [OF m valid this] mem show ?thesis
      by (cases "typed_steps (st_step_type s) (concat cs)") auto
  qed
qed

lemma plan_step_keys_distinct:
  assumes "plan_chunks r n STEP_TYPE_ORDER cs" "valid_request r" "rq_accepted_billing_instructions r = []"
    and "plus_free (map al_allocation_key (request_allocations r))"
  shows "distinct (map st_step_key (concat cs))"
proof -
  let ?id = "\<lambda>s. (st_step_type s, st_allocation_keys s)"
  have "distinct (map ?id (concat cs))"
    using typed_keys_distinct [OF assms(1-3)] by (intro distinct_by_group) (simp add: typed_steps_def)
  then have ids: "distinct (concat cs)" "inj_on ?id (set (concat cs))" by (simp_all only: distinct_map)
  have "inj_on st_step_key (set (concat cs))"
  proof (rule inj_onI)
    fix s t assume st: "s \<in> set (concat cs)" "t \<in> set (concat cs)" "st_step_key s = st_step_key t"
    from same_step_key [OF assms st] have "?id s = ?id t" by (simp only: prod.inject)
    from inj_onD [OF ids(2) this st(1,2)] show "s = t" .
  qed
  with ids(1) show ?thesis by (simp only: distinct_map)
qed

lemma planner_accepts:
  assumes "valid_request r" "rq_selected_workflow r \<noteq> Some WF_CUSTOMER_QUOTATION"
    and "request_allocations r \<noteq> [] \<or> rq_selected_workflow r = Some WF_VENDOR_BILL"
    and "rq_accepted_billing_instructions r = []"
    and "plus_free (map al_allocation_key (request_allocations r))"
  shows "\<exists>p. planner_plan r = Inr p"
proof -
  have "ST_CREATE_CUSTOMER_QUOTATION \<notin> set STEP_TYPE_ORDER" by (simp add: STEP_TYPE_ORDER_def)
  then obtain cs where cs: "plan_chunks r 1 STEP_TYPE_ORDER cs"
    using plan_chunks_exist [OF assms(1) _ assms(4), of 1 STEP_TYPE_ORDER] by auto
  note typed = plan_chunks_typed [OF cs assms(1) distinct_step_type_order(1)]
  have nonempty: "concat cs \<noteq> []"
  proof
    assume empty: "concat cs = []"
    obtain m where m: "plan_chunk r ST_VENDOR_BILL m []"
      using typed [of ST_VENDOR_BILL] empty by (auto simp: STEP_TYPE_ORDER_def typed_steps_def)
    then have "rq_selected_workflow r \<noteq> Some WF_VENDOR_BILL"
      by (auto simp: plan_chunk_def request_grouping_at split: option.splits)
    then obtain a where a: "a \<in> set (request_allocations r)" using assms(3) by (cases "request_allocations r") auto
    obtain k where k: "plan_chunk r (ALLOCATION_STEP_TYPES (al_allocation_type a)) k []"
      using typed [OF allocation_step_in_order] empty by (auto simp: typed_steps_def)
    have "typed_allocations r (ALLOCATION_STEP_TYPES (al_allocation_type a)) = []"
      using plan_chunk_facts(5) [OF k assms(1)] recharge_is_typed [of r]
      by (auto simp: step_allocations_def split: if_splits)
    with a show False by (auto simp: typed_allocations_def filter_empty_conv)
  qed
  have "planned_loop r (request_grouping r) STEP_TYPE_ORDER [] = Inr (concat cs)"
    using cs by (auto simp: planned_loop_chunks)
  with nonempty assms(2) have steps: "planned_steps r = Inr (concat cs)" by (simp add: planned_steps_def)
  have "valid_by execution_request_checks r" using assms(1) by (simp add: valid_request_def)
  then have "valid_by execution_plan_checks
       \<lparr>pl_execution_id = rq_execution_id r, pl_review_id = rq_review_id r, pl_company_id = rq_company_id r,
        pl_decision_version = rq_decision_version r, pl_mode = rq_mode r, pl_steps = concat cs,
        pl_decision_id = rq_decision_id r, pl_warnings = plan_warnings r, pl_idempotency_key = key\<rparr>"
    if "\<not> blank_opt key" for key
    using that nonempty plan_step_keys_distinct [OF cs assms(1,4,5)]
    by (auto simp: valid_by_def execution_request_checks_def execution_plan_checks_def)
  moreover have "\<not> blank (execution_idempotency_key p)" for p
    by (simp add: execution_idempotency_key_def blank_append blank_Cons py_space_def)
  ultimately show ?thesis by (simp add: planner_plan_def steps)
qed

text \<open>
  The planner accepts every valid allocation or vendor bill request that names at least one
  allocation or the vendor bill workflow and carries no billing instructions, provided no
  allocation key contains the plus sign that step keys join them with.
\<close>

theorem planner_succeeds:
  assumes "valid_request r" "rq_selected_workflow r \<noteq> Some WF_CUSTOMER_QUOTATION"
    and "request_allocations r \<noteq> [] \<or> rq_selected_workflow r = Some WF_VENDOR_BILL"
    and "rq_accepted_billing_instructions r = []"
    and "plus_free (map al_allocation_key (request_allocations r))"
  shows "\<exists>p. planner_plan r = Inr p"
  using assms by (rule planner_accepts)

section \<open>Idempotency keys\<close>

text \<open>What the idempotency key is a digest of.\<close>

definition same_identity :: "execution_plan \<Rightarrow> execution_plan \<Rightarrow> bool" where
  "same_identity p q \<longleftrightarrow> pl_company_id p = pl_company_id q \<and> pl_review_id p = pl_review_id q
     \<and> pl_decision_version p = pl_decision_version q \<and> pl_decision_id p = pl_decision_id q \<and> pl_mode p = pl_mode q
     \<and> map (\<lambda>s. (st_step_type s, st_allocation_keys s, st_quotation_scenario_id s)) (pl_steps p)
       = map (\<lambda>s. (st_step_type s, st_allocation_keys s, st_quotation_scenario_id s)) (pl_steps q)"

lemma sorted_step_identity:
  "json_sort_keys (step_identity s) = JObj
     ((''allocation_keys'', JList (map JStr (st_allocation_keys s)))
      # (case st_quotation_scenario_id s of None \<Rightarrow> []
         | Some scenario \<Rightarrow> [(''customer_quotation_scenario_id'', JStr scenario)])
      @ [(''step_type'', JStr (step_type_value (st_step_type s)))])"
  by (simp add: step_identity_def less_char_def comp_def split: option.splits)

lemma sorted_plan_identity:
  "json_sort_keys (plan_identity p) = JObj
     [(''company_id'', JInt (pl_company_id p)),
      (''decision_id'', j_str (pl_decision_id p)),
      (''decision_version'', JInt (pl_decision_version p)),
      (''mode'', JStr (mode_value (pl_mode p))),
      (''review_id'', JStr (pl_review_id p)),
      (''steps'', JList (map (\<lambda>s. json_sort_keys (step_identity s)) (pl_steps p)))]"
proof -
  have "json_sort_keys (j_str v) = j_str v" for v by (simp add: j_str_def j_opt_def split: option.splits)
  then show ?thesis by (simp add: plan_identity_def less_char_def comp_def)
qed

lemma map_eq_by: "(\<And>x y. f x = f y \<longleftrightarrow> g x = g y) \<Longrightarrow> map f xs = map f ys \<longleftrightarrow> map g xs = map g ys"
proof (induction xs arbitrary: ys)
  case (Cons x xs)
  then show ?case by (cases ys) auto
qed simp

lemma j_str_inject: "j_str a = j_str b \<longleftrightarrow> a = b"
  by (auto simp: j_str_def j_opt_def split: option.splits)

lemma plan_text_inject: "json_dumps (plan_identity p) = json_dumps (plan_identity q) \<longleftrightarrow> same_identity p q"
proof -
  have "map JStr ks = map JStr ls \<longleftrightarrow> ks = ls" for ks ls
    by (rule inj_eq) (auto simp: inj_def)
  then have "json_sort_keys (step_identity s) = json_sort_keys (step_identity t) \<longleftrightarrow>
      (st_step_type s, st_allocation_keys s, st_quotation_scenario_id s)
      = (st_step_type t, st_allocation_keys t, st_quotation_scenario_id t)" for s t
    by (auto simp: sorted_step_identity step_type_enum.val_inject split: option.splits)
  from map_eq_by [of "\<lambda>s. json_sort_keys (step_identity s)", OF this] show ?thesis
    unfolding json_dumps_inject sorted_plan_identity same_identity_def
    by (auto simp: j_str_inject mode_enum.val_inject)
qed

text \<open>
  The idempotency key determines the company, review, decision version, decision, mode and the
  type, allocation keys and scenario of every step, in order; two plans that differ there share a
  key only if their canonical texts are a collision of SHA-256.
\<close>

theorem idempotency_key_identifies:
  "execution_idempotency_key p = execution_idempotency_key q \<longleftrightarrow>
     same_identity p q
     \<or> (json_dumps (plan_identity p) \<noteq> json_dumps (plan_identity q)
        \<and> sha256_hexdigest (json_dumps (plan_identity p)) = sha256_hexdigest (json_dumps (plan_identity q)))"
  unfolding execution_idempotency_key_def using plan_text_inject [of p q] by auto

section \<open>Billing instructions\<close>

lemma billing_steps_exact:
  assumes "billing_instruction_steps r (allocation_by_key cr) n is = Inr ss"
  shows "map st_billing_instruction ss = map Some is"
    and "\<forall>s \<in> set ss. \<forall>i. st_billing_instruction s = Some i \<longrightarrow>
      (\<forall>a \<in> set (st_allocations s). a \<in> set cr \<and> al_recharge_partner_id a = Some (bi_customer_id i))"
proof -
  have found: "a \<in> set cr" if "allocation_by_key cr k = Some a" for k a
    using that unfolding allocation_by_key_def by (auto dest: map_of_SomeD)
  have "map st_billing_instruction ss = map Some is \<and> (\<forall>s \<in> set ss. \<forall>i. st_billing_instruction s = Some i \<longrightarrow>
      (\<forall>a \<in> set (st_allocations s). a \<in> set cr \<and> al_recharge_partner_id a = Some (bi_customer_id i)))"
    using assms
  proof (induction "is" arbitrary: n ss)
    case (Cons i "is")
    let ?as = "map (\<lambda>k. the (allocation_by_key cr k)) (map bl_allocation_key (bi_lines i))"
    from Cons.prems obtain ss' where known: "list_all (\<lambda>k. allocation_by_key cr k \<noteq> None) (map bl_allocation_key (bi_lines i))"
      and owner: "list_all (\<lambda>a. al_recharge_partner_id a = Some (bi_customer_id i)) ?as"
      and ss: "ss = billing_step r n ?as i # ss'" "billing_instruction_steps r (allocation_by_key cr) (n + 1) is = Inr ss'"
      unfolding billing_instruction_steps.simps Let_def ebind_Inr_iff mk_checked_Inr_iff run_checks_ok
      by (auto simp: list_all_iff)
    have "a \<in> set cr \<and> al_recharge_partner_id a = Some (bi_customer_id i)" if "a \<in> set ?as" for a
      using that known owner found by (fastforce simp: list_all_iff)
    with Cons.IH [OF ss(2)] show ?case by (auto simp: ss(1) billing_step_def)
  qed simp
  then show "map st_billing_instruction ss = map Some is"
    and "\<forall>s \<in> set ss. \<forall>i. st_billing_instruction s = Some i \<longrightarrow>
      (\<forall>a \<in> set (st_allocations s). a \<in> set cr \<and> al_recharge_partner_id a = Some (bi_customer_id i))"
    by blast+
qed

definition billed_steps :: "execution_step list \<Rightarrow> execution_step list" where
  "billed_steps ss = filter (\<lambda>s. st_billing_instruction s \<noteq> None) ss"

lemma recharge_billed:
  assumes "customer_recharge_steps r n = Inr ss" "creation_allocations r \<noteq> []" "rq_accepted_billing_instructions r \<noteq> []"
  obtains m where "customer_invoice_creation_steps_from_billing r (creation_allocations r) m (rq_accepted_billing_instructions r)
    = Inr (billed_steps ss)"
proof -
  from assms(1) obtain xs more where ss: "ss = xs @ more"
    and part: "recharge_creation_steps r (n + int (length xs)) (creation_allocations r) = Inr more"
    and "xs = [] \<or> xs = [recharge_step r (existing_allocations r) n True False]"
    by (rule customer_recharge_parts) blast
  then have xs: "list_all (\<lambda>s. st_billing_instruction s = None) xs" by (auto simp: recharge_step_def)
  from part assms(2,3) have more: "customer_invoice_creation_steps_from_billing r (creation_allocations r)
      (n + int (length xs)) (rq_accepted_billing_instructions r) = Inr more"
    by (simp add: recharge_creation_steps_def)
  have "map st_billing_instruction more = map Some (sort_key bi_billing_key (rq_accepted_billing_instructions r))"
    using more billing_steps_exact(1) unfolding creation_from_billing_Inr by blast
  then have "\<forall>v \<in> set (map st_billing_instruction more). v \<noteq> None" by auto
  with xs have "billed_steps ss = more"
    by (auto simp: billed_steps_def ss list_all_iff filter_empty_conv filter_id_conv)
  with more that show thesis by simp
qed

lemma plan_chunk_unbilled: "plan_chunk r st n c \<Longrightarrow> st \<noteq> ST_CUSTOMER_RECHARGE \<Longrightarrow> billed_steps c = []"
  by (auto simp: plan_chunk_def billed_steps_def grouped_step_def Let_def split: option.splits)

lemma plan_chunks_billed:
  "plan_chunks r n sts cs \<Longrightarrow> ST_CUSTOMER_RECHARGE \<in> set sts \<Longrightarrow> distinct sts \<Longrightarrow>
     \<exists>m c. plan_chunk r ST_CUSTOMER_RECHARGE m c \<and> billed_steps (concat cs) = billed_steps c"
proof (induction sts arbitrary: n cs)
  case (Cons st sts)
  then obtain c cs' where cs: "cs = c # cs'" "plan_chunk r st n c" "plan_chunks r (n + int (length c)) sts cs'"
    by (auto split: list.splits)
  have split: "billed_steps (concat cs) = billed_steps c @ billed_steps (concat cs')"
    by (simp add: cs(1) billed_steps_def)
  have none: "plan_chunks r k ts ds \<Longrightarrow> ST_CUSTOMER_RECHARGE \<notin> set ts \<Longrightarrow> billed_steps (concat ds) = []" for k ts ds
  proof (induction ts arbitrary: k ds)
    case (Cons t ts)
    then show ?case
      using plan_chunk_unbilled by (auto simp: billed_steps_def split: list.splits)
  qed (simp add: billed_steps_def)
  show ?case
  proof (cases "st = ST_CUSTOMER_RECHARGE")
    case True
    with Cons.prems(3) none [OF cs(3)] have "billed_steps (concat cs) = billed_steps c" by (simp add: split)
    with True cs(2) show ?thesis by blast
  next
    case False
    with Cons.prems plan_chunk_unbilled [OF cs(2)] Cons.IH [OF cs(3)] show ?thesis by (simp add: split)
  qed
qed simp


section \<open>Sample requests\<close>

definition sample_recharge :: "string \<Rightarrow> int option \<Rightarrow> allocation" where
  "sample_recharge key invoice = (sample_allocation key 1000)
     \<lparr>al_allocation_type := CUSTOMER_RECHARGE, al_recharge_partner_id := Some 7, al_customer_invoice_id := invoice\<rparr>"

definition sample_request :: "allocation list \<Rightarrow> billing_instruction list \<Rightarrow> execution_request" where
  "sample_request as instructions =
     \<lparr>rq_execution_id = ''x1'', rq_review_id = ''r1'', rq_company_id = 1, rq_decision_version = 2,
      rq_decision_id = Some ''d1'', rq_idempotency_key = None, rq_mode = EXECUTE,
      rq_selected_workflow = Some WF_VENDOR_BILL,
      rq_business_context_allocations = Some \<lparr>as_allocations = as, as_completeness = PARTIAL,
        as_invoice_total = None, as_currency = None\<rparr>,
      rq_accepted_billing_instructions = instructions, rq_selected_quotation_scenario_ids = []\<rparr>"

definition sample_instruction :: "string \<Rightarrow> billing_instruction" where
  "sample_instruction key =
     \<lparr>bi_billing_key = ''b1'', bi_customer_id = 7, bi_currency = ''TRY'',
      bi_lines = [\<lparr>bl_allocation_key = key, bl_product_id = 3, bl_description = ''fee'',
        bl_quantity = Dec False 1 0, bl_unit_price = Dec False 10 0, bl_sales_tax_ids = [5]\<rparr>]\<rparr>"

lemmas request_eval = valid_request_def valid_by_def execution_request_checks_def valid_allocation_set_def
  valid_allocation_def sample_request_def sample_recharge_def sample_allocation_def sample_instruction_def
  valid_billing_instruction_def billing_line_checks_def positive_decimal_def dec_le_def
  mk_billing_instruction_def billing_instruction_checks_def allocation_eval

lemmas ascii_eval = py_strip_def py_isalpha_def py_upper_def upper_char_def ascii_alpha_def ascii_lower_def
  ascii_upper_def

lemma sample_requests_valid:
  "valid_request (sample_request [sample_recharge ''a'' (Some 4), sample_recharge ''c'' None] [])"
  "valid_request (sample_request [sample_recharge ''c'' None] [sample_instruction ''c''])"
  by (simp_all add: request_eval ascii_eval)

definition sample_plain :: execution_request where
  "sample_plain = sample_request [sample_recharge ''a'' (Some 4), sample_recharge ''c'' None] []"

definition sample_billed :: execution_request where
  "sample_billed = sample_request [sample_recharge ''c'' None] [sample_instruction ''c'']"

lemma sample_plain_facts:
  "valid_request sample_plain" "rq_selected_workflow sample_plain = Some WF_VENDOR_BILL"
  "rq_accepted_billing_instructions sample_plain = []"
  "plus_free (map al_allocation_key (request_allocations sample_plain))"
  using sample_requests_valid(1)
  by (simp_all add: sample_plain_def sample_request_def request_allocations_def plus_free_def sample_recharge_def
      sample_allocation_def)

lemma sample_plain_plan: "\<exists>p. planner_plan sample_plain = Inr p"
  using sample_plain_facts by (intro planner_accepts) simp_all

theorem planner_plan_valid_witness: "\<exists>p. planner_plan sample_plain = Inr p \<and> valid_plan p"
  using planner_plan_valid [OF sample_plain_facts(1)] sample_plain_plan by blast

theorem planner_covers_allocations_witness:
  "\<exists>p. planner_plan sample_plain = Inr p
     \<and> mset (concat (map st_allocation_keys (typed_steps ST_CUSTOMER_RECHARGE (pl_steps p)))) = {#''a'', ''c''#}"
proof -
  obtain p where p: "planner_plan sample_plain = Inr p" using sample_plain_plan by blast
  have "rq_selected_workflow sample_plain \<noteq> Some WF_CUSTOMER_QUOTATION" by (simp add: sample_plain_facts(2))
  from planner_covers_allocations [OF sample_plain_facts(1) p this, of ST_VENDOR_BILL CUSTOMER_RECHARGE] p show ?thesis
    by (simp add: request_allocations_def sample_plain_def sample_request_def sample_recharge_def sample_allocation_def)
qed

theorem planner_succeeds_witness: "\<exists>p. planner_plan sample_plain = Inr p"
  using planner_succeeds [OF sample_plain_facts(1) _ _ sample_plain_facts(3,4)] sample_plain_facts(2) by simp

lemmas planner_eval = planner_plan_def planned_steps_def STEP_TYPE_ORDER_def request_grouping_def group_vendor_bill_def
  group_allocation_def request_allocations_def key_set_def customer_recharge_steps_def existing_allocations_def
  creation_allocations_def recharge_allocations_def recharge_creation_steps_def recharge_step_def
  customer_invoice_creation_steps_from_billing_def allocation_by_key_def billing_step_def grouped_step_def step_key_def
  customer_invoice_creation_step_key_def execute_supported_def writer_required_def plan_warnings_def
  mk_checked_def execution_step_checks_def execution_plan_checks_def str_join_Cons int_str_def nat_str.simps digit_char_def
  sample_request_def sample_recharge_def sample_allocation_def sample_instruction_def less_char_def

lemma sample_billed_plan: "\<exists>p. planner_plan sample_billed = Inr p"
  by (simp add: sample_billed_def planner_eval blank_append blank_eval execution_idempotency_key_def)


text \<open>
  Step keys join allocation keys with a plus sign, so two recharge allocations \<^verbatim>\<open>a\<close> and \<^verbatim>\<open>b\<close> that
  have invoices and a third called \<^verbatim>\<open>a+b\<close> that has none give two steps the same key: the valid
  request is refused.
\<close>

theorem joined_step_keys_collide:
  "valid_request (sample_request [sample_recharge ''a'' (Some 4), sample_recharge ''b'' (Some 4), sample_recharge ''a+b'' None] [])
   \<and> planner_plan (sample_request [sample_recharge ''a'' (Some 4), sample_recharge ''b'' (Some 4), sample_recharge ''a+b'' None] [])
     = Inl (ExecutionPlanningError ''execution plan step_key values must be unique.'')"
proof
  show "valid_request (sample_request [sample_recharge ''a'' (Some 4), sample_recharge ''b'' (Some 4), sample_recharge ''a+b'' None] [])"
    by (simp add: request_eval ascii_eval)
  show "planner_plan (sample_request [sample_recharge ''a'' (Some 4), sample_recharge ''b'' (Some 4), sample_recharge ''a+b'' None] [])
     = Inl (ExecutionPlanningError ''execution plan step_key values must be unique.'')"
    by (simp add: planner_eval blank_append blank_eval)
qed

end
