(* ===== verification/Exec_Strategy.thy ===== *)
theory Exec_Strategy
  imports Exec_Contracts Write_Authorization
begin

text \<open>
  Strategies, their resolver and the code around them:
  \<^verbatim>\<open>app/application/execution/strategy.py\<close>, \<^verbatim>\<open>coordinator.py\<close>, \<^verbatim>\<open>preflight.py\<close> and \<^verbatim>\<open>state.py\<close>. What
  strategies and write gates do to the outside world is a parameter: the type variable is the
  state of that world, and executing a strategy or asking a gate is an action on it.
\<close>

section \<open>Strategies\<close>

record 'w strategy =
  sg_name :: string
  sg_supported_step_types :: "step_type list"
  sg_supports_mode :: "execution_mode \<Rightarrow> bool"
  sg_supports_step :: "(execution_step \<Rightarrow> execution_mode \<Rightarrow> bool) option"
  sg_execute :: "step_request \<Rightarrow> ('w, hub_error, step_result) action"

type_synonym 'w resolver = "(step_type \<times> 'w strategy) list"

fun register_types :: "'w strategy \<Rightarrow> step_type list \<Rightarrow> 'w resolver \<Rightarrow> (hub_error, 'w resolver) result" where
  "register_types s [] by_type = Inr by_type"
| "register_types s (t # ts) by_type =
     (if map_of by_type t \<noteq> None
      then Inl (ExecutionStrategyResolutionError ''Duplicate execution strategy registration.'')
      else register_types s ts ((t, s) # by_type))"

fun register_strategies :: "'w strategy list \<Rightarrow> 'w resolver \<Rightarrow> (hub_error, 'w resolver) result" where
  "register_strategies [] by_type = Inr by_type"
| "register_strategies (s # ss) by_type =
     ebind (register_types s (sg_supported_step_types s) by_type) (register_strategies ss)"

definition strategy_resolver :: "'w strategy list \<Rightarrow> (hub_error, 'w resolver) result" where
  "strategy_resolver strategies = register_strategies strategies []"

definition resolve :: "'w resolver \<Rightarrow> step_type \<Rightarrow> (hub_error, 'w strategy) result" where
  "resolve by_type t = (case map_of by_type t of
     None \<Rightarrow> Inl (ExecutionUnsupportedStepError ''Execution step strategy is not supported.'')
   | Some s \<Rightarrow> Inr s)"

definition supports_step :: "'w strategy \<Rightarrow> execution_step \<Rightarrow> execution_mode \<Rightarrow> bool" where
  "supports_step s step mode = (case sg_supports_step s of
     Some f \<Rightarrow> f step mode | None \<Rightarrow> sg_supports_mode s mode)"

fun ensure_steps_support_mode :: "'w resolver \<Rightarrow> execution_mode \<Rightarrow> execution_step list \<Rightarrow> (hub_error, unit) result" where
  "ensure_steps_support_mode by_type mode [] = Inr ()"
| "ensure_steps_support_mode by_type mode (step # steps) =
     ebind (resolve by_type (st_step_type step)) (\<lambda>s.
     if \<not> supports_step s step mode
     then Inl (ExecutionUnsupportedStepError ''Execution plan contains a step unsupported for this mode.'')
     else ensure_steps_support_mode by_type mode steps)"

definition ensure_plan_supports_mode :: "'w resolver \<Rightarrow> execution_plan \<Rightarrow> execution_mode \<Rightarrow> (hub_error, unit) result" where
  "ensure_plan_supports_mode by_type plan mode = ensure_steps_support_mode by_type mode (pl_steps plan)"

section \<open>The no-write strategy\<close>

definition foundation_execute :: "step_request \<Rightarrow> ('w, hub_error, step_result) action" where
  "foundation_execute r = act_lift (mk_checked step_result_checks
     (if sq_mode r = DRY_RUN
      then \<lparr>sr_step_key = st_step_key (sq_step r), sr_step_type = st_step_type (sq_step r), sr_status = SS_DRY_RUN_OK,
        sr_dry_run = True, sr_message = Some ''Dry run completed. No ERP write was performed.'', sr_warnings = [],
        sr_produced_artifacts = [], sr_error_code = None\<rparr>
      else \<lparr>sr_step_key = st_step_key (sq_step r), sr_step_type = st_step_type (sq_step r), sr_status = SS_UNSUPPORTED,
        sr_dry_run = False, sr_message = Some ''Execution strategy is not enabled in this foundation PR.'',
        sr_warnings = [], sr_produced_artifacts = [], sr_error_code = Some ''EXECUTION_NOT_ENABLED''\<rparr>))"

definition foundation_strategy :: "step_type list \<Rightarrow> 'w strategy" where
  "foundation_strategy supported_step_types =
     \<lparr>sg_name = ''foundation_no_write'', sg_supported_step_types = supported_step_types,
      sg_supports_mode = (\<lambda>mode. mode = DRY_RUN),
      sg_supports_step = Some (\<lambda>step mode. mode = DRY_RUN), sg_execute = foundation_execute\<rparr>"

definition foundation_no_write_strategy_resolver :: "(hub_error, 'w resolver) result" where
  "foundation_no_write_strategy_resolver = strategy_resolver [foundation_strategy step_type_members]"

section \<open>The sequential coordinator\<close>

definition failure_policy_of :: "execution_mode \<Rightarrow> failure_policy" where
  "failure_policy_of mode = (if mode = DRY_RUN then COLLECT_ALL else FAIL_FAST)"

definition is_failure :: "step_result \<Rightarrow> bool" where
  "is_failure r \<longleftrightarrow> sr_status r \<in> {SS_FAILED, SS_UNSUPPORTED}"

definition aggregate_status :: "execution_mode \<Rightarrow> step_result list \<Rightarrow> execution_status" where
  "aggregate_status mode results =
     (if list_ex (\<lambda>r. sr_status r = SS_FAILED) results then XS_FAILED
      else if list_ex (\<lambda>r. sr_status r = SS_UNSUPPORTED) results then XS_FAILED
      else if mode = DRY_RUN then XS_DRY_RUN_COMPLETED
      else if list_all (\<lambda>r. sr_status r = SS_EXECUTED) results then XS_EXECUTED
      else XS_READY_TO_EXECUTE)"

definition plan_step_request :: "execution_plan \<Rightarrow> execution_step \<Rightarrow> (hub_error, step_request) result" where
  "plan_step_request p step = mk_checked step_request_checks
     \<lparr>sq_execution_id = pl_execution_id p, sq_review_id = pl_review_id p, sq_company_id = pl_company_id p,
      sq_decision_version = pl_decision_version p, sq_mode = pl_mode p, sq_step = step, sq_approval = None,
      sq_decision_id = pl_decision_id p\<rparr>"

fun execute_plan_steps ::
    "'w resolver \<Rightarrow> execution_plan \<Rightarrow> execution_step list \<Rightarrow> step_result list \<Rightarrow> ('w, hub_error, step_result list) action" where
  "execute_plan_steps by_type p [] results = act_return results"
| "execute_plan_steps by_type p (step # steps) results =
     act_bind (act_lift (resolve by_type (st_step_type step))) (\<lambda>s.
     act_bind (act_lift (plan_step_request p step)) (\<lambda>request.
     act_bind (sg_execute s request) (\<lambda>result.
     if failure_policy_of (pl_mode p) = FAIL_FAST \<and> is_failure result then act_return (results @ [result])
     else execute_plan_steps by_type p steps (results @ [result]))))"

definition coordinator_execute :: "'w resolver \<Rightarrow> execution_plan \<Rightarrow> ('w, hub_error, execution_result) action" where
  "coordinator_execute by_type p =
     act_bind (execute_plan_steps by_type p (pl_steps p) []) (\<lambda>results.
     act_lift (mk_checked execution_result_checks
       \<lparr>xr_execution_id = pl_execution_id p, xr_status = aggregate_status (pl_mode p) results,
        xr_step_results = results, xr_warnings = pl_warnings p\<rparr>))"

section \<open>Preflight\<close>

text \<open>A gate is an object: its identity is what \<^verbatim>\<open>id(gate)\<close> tells apart.\<close>

record 'w write_gate =
  wg_id :: nat
  wg_ensure_real_write_allowed :: "string \<Rightarrow> ('w, hub_error, unit) action"

record 'w preflight_policy =
  pf_production_execution_enabled :: bool
  pf_real_write_gate :: "'w write_gate option"
  pf_real_write_gates :: "(step_type \<times> 'w write_gate) list option"
  pf_writer_step_types :: "step_type list"
  pf_staging_execution_step_types :: "step_type list"
  pf_production_operations_enabled :: bool

definition gate_for :: "'w preflight_policy \<Rightarrow> step_type \<Rightarrow> 'w write_gate option" where
  "gate_for pf t = (case pf_real_write_gates pf of Some gates \<Rightarrow> map_of gates t | None \<Rightarrow> pf_real_write_gate pf)"

fun call_gates :: "'w preflight_policy \<Rightarrow> string \<Rightarrow> nat set \<Rightarrow> execution_step list \<Rightarrow> ('w, hub_error, unit) action" where
  "call_gates pf approved_by called [] = act_return ()"
| "call_gates pf approved_by called (step # steps) =
     (if \<not> st_writer_required step \<and> st_step_type step \<notin> set (pf_writer_step_types pf)
      then call_gates pf approved_by called steps
      else case gate_for pf (st_step_type step) of
        None \<Rightarrow> call_gates pf approved_by called steps
      | Some gate \<Rightarrow>
          if wg_id gate \<in> called then call_gates pf approved_by called steps
          else act_bind (wg_ensure_real_write_allowed gate approved_by) (\<lambda>_.
               call_gates pf approved_by (insert (wg_id gate) called) steps))"

definition authorization_allows ::
    "int \<Rightarrow> 'w preflight_policy \<Rightarrow> execution_plan \<Rightarrow> write_authorization option \<Rightarrow> (hub_error, unit) result" where
  "authorization_allows now pf p authorization = (case authorization of None \<Rightarrow> Inr () | Some w \<Rightarrow>
     ebind (run_checks
       [(\<not> pf_production_operations_enabled pf,
         ExecutionModeNotEnabledError ''Production operations must be explicitly enabled.''),
        (length (pl_steps p) \<noteq> 1 \<or> st_step_type (hd (pl_steps p)) \<noteq> ST_VENDOR_BILL,
         ExecutionModeNotEnabledError ''Runtime authorization is limited to one direct Vendor Bill step.'')]) (\<lambda>_.
     ensure_execution_scope now w (pl_company_id p) (pl_review_id p) (pl_decision_version p) (pl_execution_id p)))"

definition preflight_guards :: "'w preflight_policy \<Rightarrow> execution_plan \<Rightarrow> write_authorization option \<Rightarrow> hub_error check list" where
  "preflight_guards pf p authorization =
     [(\<not> pf_production_execution_enabled pf \<and> authorization = None,
       ExecutionModeNotEnabledError ''Production execution must be explicitly enabled.'')]
     @ (if pf_staging_execution_step_types pf \<noteq> []
        then map (\<lambda>step. (st_step_type step \<notin> set (pf_staging_execution_step_types pf),
            ExecutionModeNotEnabledError ''Staging execution is limited to sanctioned Vendor Bill steps.'')) (pl_steps p)
        else [])
     @ map (\<lambda>step. (\<not> st_execute_supported step,
         ExecutionUnsupportedStepError ''Execution plan contains a step that is not execute-capable.'')) (pl_steps p)"

definition ensure_execute_allowed ::
    "int \<Rightarrow> 'w preflight_policy \<Rightarrow> execution_plan \<Rightarrow> execution_approval option \<Rightarrow> ('w, hub_error, unit) action" where
  "ensure_execute_allowed now pf p approval =
     (if pl_mode p \<noteq> EXECUTE then act_return ()
      else case approval of
        None \<Rightarrow> act_raise (ExecutionApprovalError ''Explicit execution approval is required for EXECUTE mode.'')
      | Some a \<Rightarrow>
          act_bind (act_lift (authorization_allows now pf p (ap_authorization a))) (\<lambda>_.
          act_bind (act_lift (run_checks (preflight_guards pf p (ap_authorization a)))) (\<lambda>_.
          call_gates pf (ap_approved_by a) {} (pl_steps p))))"

section \<open>The in-memory state repository\<close>

record memory_state =
  ms_plans_by_execution_id :: "string \<rightharpoonup> execution_plan"
  ms_execution_id_by_idempotency_key :: "string \<rightharpoonup> string"
  ms_step_results :: "string \<rightharpoonup> step_result list"
  ms_completed_results :: "string \<rightharpoonup> execution_result"
  ms_failed_results :: "string \<rightharpoonup> execution_result"

definition memory_init :: memory_state where
  "memory_init = \<lparr>ms_plans_by_execution_id = Map.empty, ms_execution_id_by_idempotency_key = Map.empty,
     ms_step_results = Map.empty, ms_completed_results = Map.empty, ms_failed_results = Map.empty\<rparr>"

definition memory_get_by_execution_id :: "memory_state \<Rightarrow> string \<Rightarrow> execution_plan option" where
  "memory_get_by_execution_id s i = ms_plans_by_execution_id s i"

definition memory_get_by_idempotency_key :: "memory_state \<Rightarrow> string \<Rightarrow> execution_plan option" where
  "memory_get_by_idempotency_key s key = (case ms_execution_id_by_idempotency_key s key of
     None \<Rightarrow> None | Some i \<Rightarrow> ms_plans_by_execution_id s i)"

text \<open>
  Equality of plans is that of the dataclasses: field by field, where decimals are equal when their
  values are.
\<close>

definition allocation_eq :: "allocation \<Rightarrow> allocation \<Rightarrow> bool" where
  "allocation_eq a b \<longleftrightarrow> rel_option dec_eq (al_amount a) (al_amount b)
     \<and> rel_option dec_eq (al_percentage a) (al_percentage b)
     \<and> a\<lparr>al_amount := None, al_percentage := None\<rparr> = b\<lparr>al_amount := None, al_percentage := None\<rparr>"

definition billing_line_eq :: "billing_line \<Rightarrow> billing_line \<Rightarrow> bool" where
  "billing_line_eq a b \<longleftrightarrow> dec_eq (bl_quantity a) (bl_quantity b) \<and> dec_eq (bl_unit_price a) (bl_unit_price b)
     \<and> a\<lparr>bl_quantity := Dec False 0 0, bl_unit_price := Dec False 0 0\<rparr>
       = b\<lparr>bl_quantity := Dec False 0 0, bl_unit_price := Dec False 0 0\<rparr>"

definition billing_instruction_eq :: "billing_instruction \<Rightarrow> billing_instruction \<Rightarrow> bool" where
  "billing_instruction_eq a b \<longleftrightarrow> list_all2 billing_line_eq (bi_lines a) (bi_lines b)
     \<and> a\<lparr>bi_lines := []\<rparr> = b\<lparr>bi_lines := []\<rparr>"

definition step_eq :: "execution_step \<Rightarrow> execution_step \<Rightarrow> bool" where
  "step_eq a b \<longleftrightarrow> list_all2 allocation_eq (st_allocations a) (st_allocations b)
     \<and> rel_option billing_instruction_eq (st_billing_instruction a) (st_billing_instruction b)
     \<and> a\<lparr>st_allocations := [], st_billing_instruction := None\<rparr>
       = b\<lparr>st_allocations := [], st_billing_instruction := None\<rparr>"

definition plan_eq :: "execution_plan \<Rightarrow> execution_plan \<Rightarrow> bool" where
  "plan_eq p q \<longleftrightarrow> list_all2 step_eq (pl_steps p) (pl_steps q) \<and> p\<lparr>pl_steps := []\<rparr> = q\<lparr>pl_steps := []\<rparr>"

definition create_planned_execution :: "execution_plan \<Rightarrow> (memory_state, hub_error, execution_plan) action" where
  "create_planned_execution p s = (case pl_idempotency_key p of
     None \<Rightarrow> (Inl (ExecutionStateError ''Execution plan idempotency key is required.''), s)
   | Some key \<Rightarrow> (case ms_execution_id_by_idempotency_key s key of
       Some i \<Rightarrow> (case ms_plans_by_execution_id s i of
           None \<Rightarrow> (Inl (KeyError i), s)
         | Some existing \<Rightarrow>
             if \<not> plan_eq existing p
             then (Inl (ExecutionIdempotencyConflictError ''Execution idempotency key conflicts with existing plan.''), s)
             else (Inr existing, s))
     | None \<Rightarrow>
         if pl_execution_id p \<in> dom (ms_plans_by_execution_id s)
         then (Inl (ExecutionStateError ''Execution id already exists.''), s)
         else (Inr p, s\<lparr>ms_plans_by_execution_id := (ms_plans_by_execution_id s)(pl_execution_id p \<mapsto> p),
                        ms_execution_id_by_idempotency_key := (ms_execution_id_by_idempotency_key s)(key \<mapsto> pl_execution_id p),
                        ms_step_results := (ms_step_results s)(pl_execution_id p \<mapsto> [])\<rparr>)))"

definition require_active_execution :: "memory_state \<Rightarrow> string \<Rightarrow> (hub_error, unit) result" where
  "require_active_execution s i = run_checks
     [(i \<notin> dom (ms_plans_by_execution_id s), ExecutionStateError ''Execution plan was not found.'')]"

definition record_step_result :: "string \<Rightarrow> step_result \<Rightarrow> (memory_state, hub_error, step_result) action" where
  "record_step_result i r s = (case require_active_execution s i of
     Inl e \<Rightarrow> (Inl e, s)
   | Inr _ \<Rightarrow> (case ms_step_results s i of
       None \<Rightarrow> (Inl (KeyError i), s)
     | Some rs \<Rightarrow> (Inr r, s\<lparr>ms_step_results := (ms_step_results s)(i \<mapsto> rs @ [r])\<rparr>)))"

definition mark_completed :: "string \<Rightarrow> execution_result \<Rightarrow> (memory_state, hub_error, execution_result) action" where
  "mark_completed i r s = (case ebind (require_active_execution s i) (\<lambda>_. run_checks
       [(i \<in> dom (ms_failed_results s), ExecutionStateError ''Failed execution cannot be marked completed.'')]) of
     Inl e \<Rightarrow> (Inl e, s)
   | Inr _ \<Rightarrow> (Inr r, s\<lparr>ms_completed_results := (ms_completed_results s)(i \<mapsto> r)\<rparr>))"

definition mark_failed :: "string \<Rightarrow> execution_result \<Rightarrow> (memory_state, hub_error, execution_result) action" where
  "mark_failed i r s = (case ebind (require_active_execution s i) (\<lambda>_. run_checks
       [(i \<in> dom (ms_completed_results s), ExecutionStateError ''Completed execution cannot be marked failed.'')]) of
     Inl e \<Rightarrow> (Inl e, s)
   | Inr _ \<Rightarrow> (Inr r, s\<lparr>ms_failed_results := (ms_failed_results s)(i \<mapsto> r)\<rparr>))"

section \<open>The resolver\<close>

lemma register_types_Inr:
  "register_types s ts r = Inr r' \<longleftrightarrow> distinct ts \<and> set ts \<inter> fst ` set r = {} \<and> r' = rev (map (\<lambda>t. (t, s)) ts) @ r"
  by (induction ts arbitrary: r) (auto simp: map_of_eq_None_iff)

lemma register_strategies_Inr:
  "register_strategies ss r = Inr r' \<longleftrightarrow>
     distinct (concat (map sg_supported_step_types ss))
     \<and> set (concat (map sg_supported_step_types ss)) \<inter> fst ` set r = {}
     \<and> r' = rev (concat (map (\<lambda>s. map (\<lambda>t. (t, s)) (sg_supported_step_types s)) ss)) @ r"
proof (induction ss arbitrary: r)
  case (Cons s ss)
  have "fst ` set (rev (map (\<lambda>t. (t, s)) (sg_supported_step_types s)) @ r) = set (sg_supported_step_types s) \<union> fst ` set r"
    by (force simp: image_image)
  then show ?case by (auto simp: ebind_Inr_iff register_types_Inr Cons.IH)
qed auto

lemma resolver_entries:
  assumes "strategy_resolver ss = Inr r"
  shows "distinct (map fst r)" "set r = {(t, s). s \<in> set ss \<and> t \<in> set (sg_supported_step_types s)}"
proof -
  have r: "r = rev (concat (map (\<lambda>s. map (\<lambda>t. (t, s)) (sg_supported_step_types s)) ss))"
    and d: "distinct (concat (map sg_supported_step_types ss))"
    using assms by (simp_all add: strategy_resolver_def register_strategies_Inr)
  have "map fst r = rev (concat (map sg_supported_step_types ss))"
    unfolding r by (simp add: rev_map [symmetric] map_concat comp_def)
  with d show "distinct (map fst r)" by simp
  show "set r = {(t, s). s \<in> set ss \<and> t \<in> set (sg_supported_step_types s)}"
    unfolding r by auto
qed

text \<open>
  The resolver can be built exactly when no step type is registered twice, and then it
  resolves a step type to a strategy exactly when that strategy was registered for it: the answer
  is unique and does not depend on the order of registration.
\<close>

theorem resolver_unique:
  "(\<exists>r. strategy_resolver ss = Inr r) = distinct (concat (map sg_supported_step_types ss))
   \<and> (\<forall>r t s. strategy_resolver ss = Inr r \<longrightarrow>
        (resolve r t = Inr s \<longleftrightarrow> s \<in> set ss \<and> t \<in> set (sg_supported_step_types s)))"
proof (intro conjI allI impI)
  show "(\<exists>r. strategy_resolver ss = Inr r) = distinct (concat (map sg_supported_step_types ss))"
    by (simp add: strategy_resolver_def register_strategies_Inr)
  fix r t s assume r: "strategy_resolver ss = Inr r"
  show "resolve r t = Inr s \<longleftrightarrow> s \<in> set ss \<and> t \<in> set (sg_supported_step_types s)"
  proof -
    have "resolve r t = Inr s \<longleftrightarrow> map_of r t = Some s" by (auto simp: resolve_def split: option.splits)
    then show ?thesis using resolver_entries [OF r] map_of_eq_Some_iff [of r t s] by simp
  qed
qed

text \<open>The strategy for every step type.\<close>

lemma foundation_resolver:
  "\<exists>r. foundation_no_write_strategy_resolver = Inr r \<and> (\<forall>t. resolve r t = Inr (foundation_strategy step_type_members :: 'w strategy))"
proof -
  have d: "distinct (concat (map sg_supported_step_types [foundation_strategy step_type_members :: 'w strategy]))"
    by (simp add: foundation_strategy_def step_type_members_def)
  then obtain r where r: "strategy_resolver [foundation_strategy step_type_members :: 'w strategy] = Inr r"
    unfolding strategy_resolver_def register_strategies_Inr by simp
  have "map_of r t = Some (foundation_strategy step_type_members :: 'w strategy)" for t
    using resolver_entries [OF r] step_type_enum.complete [of t]
    by (simp add: map_of_eq_Some_iff foundation_strategy_def)
  then have "resolve r t = Inr (foundation_strategy step_type_members :: 'w strategy)" for t by (simp add: resolve_def)
  with r show ?thesis unfolding foundation_no_write_strategy_resolver_def by blast
qed

theorem resolver_unique_witness:
  "\<exists>r. strategy_resolver [foundation_strategy [ST_VENDOR_BILL] :: unit strategy] = Inr r
     \<and> resolve r ST_VENDOR_BILL = Inr (foundation_strategy [ST_VENDOR_BILL])"
  using resolver_unique [of "[foundation_strategy [ST_VENDOR_BILL] :: unit strategy]"]
  by (auto simp: foundation_strategy_def)

section \<open>Sequential execution\<close>

text \<open>The steps a run executed, each by its strategy, with the results in order.\<close>

inductive executed :: "'w resolver \<Rightarrow> execution_plan \<Rightarrow> execution_step list \<Rightarrow> 'w \<Rightarrow> step_result list \<Rightarrow> 'w \<Rightarrow> bool"
  for r p where
  none: "executed r p [] w [] w"
| step: "resolve r (st_step_type step) = Inr s \<Longrightarrow> plan_step_request p step = Inr q \<Longrightarrow> sg_execute s q w = (Inr x, w1) \<Longrightarrow>
    executed r p steps w1 xs w2 \<Longrightarrow> executed r p (step # steps) w (x # xs) w2"

lemma executed_length: "executed r p steps w xs w' \<Longrightarrow> length xs = length steps"
  by (induction rule: executed.induct) simp_all

lemma execute_plan_steps_executed:
  assumes "execute_plan_steps r p steps results w = (Inr ys, w')"
  shows "\<exists>n xs. n \<le> length steps \<and> ys = results @ xs \<and> executed r p (take n steps) w xs w'
    \<and> (pl_mode p = DRY_RUN \<longrightarrow> n = length steps)
    \<and> (pl_mode p \<noteq> DRY_RUN \<longrightarrow> list_all (\<lambda>x. \<not> is_failure x) (butlast xs)
         \<and> (n < length steps \<longrightarrow> xs \<noteq> [] \<and> is_failure (last xs)))"
  using assms
proof (induction steps arbitrary: results w)
  case Nil
  then have "ys = results @ []" "w' = w" by simp_all
  with executed.none show ?case by fastforce
next
  case (Cons step steps)
  then obtain s q x w1 where sqx: "resolve r (st_step_type step) = Inr s" "plan_step_request p step = Inr q"
      "sg_execute s q w = (Inr x, w1)"
    and go: "(if failure_policy_of (pl_mode p) = FAIL_FAST \<and> is_failure x then act_return (results @ [x])
      else execute_plan_steps r p steps (results @ [x])) w1 = (Inr ys, w')"
    by (auto elim!: act_bind_success)
  show ?case
  proof (cases "failure_policy_of (pl_mode p) = FAIL_FAST \<and> is_failure x")
    case True
    with go have "ys = results @ [x]" "w' = w1" by simp_all
    moreover have "executed r p [step] w [x] w1" using sqx executed.none by (rule executed.step)
    ultimately show ?thesis using True
      by (intro exI [of _ 1] exI [of _ "[x]"]) (auto simp: failure_policy_of_def)
  next
    case False
    with go have "execute_plan_steps r p steps (results @ [x]) w1 = (Inr ys, w')" by auto
    from Cons.IH [OF this] obtain n xs where n: "n \<le> length steps" "ys = (results @ [x]) @ xs"
        "executed r p (take n steps) w1 xs w'" and dry: "pl_mode p = DRY_RUN \<longrightarrow> n = length steps"
      and fast: "pl_mode p \<noteq> DRY_RUN \<longrightarrow> list_all (\<lambda>x. \<not> is_failure x) (butlast xs)
         \<and> (n < length steps \<longrightarrow> xs \<noteq> [] \<and> is_failure (last xs))" by blast
    have "executed r p (take (Suc n) (step # steps)) w (x # xs) w'"
      using sqx n(3) by (auto intro: executed.step)
    moreover have "pl_mode p \<noteq> DRY_RUN \<longrightarrow> \<not> is_failure x" using False by (auto simp: failure_policy_of_def)
    ultimately show ?thesis using n dry fast
      by (intro exI [of _ "Suc n"] exI [of _ "x # xs"]) auto
  qed
qed

lemma aggregate_status_failed: "aggregate_status mode xs = XS_FAILED \<longleftrightarrow> list_ex is_failure xs"
  by (auto simp: aggregate_status_def is_failure_def list_ex_iff)

text \<open>
  The sequential coordinator executes the steps in plan order, each by the strategy of its
  type, and reports every result: all steps in a dry run, and otherwise all steps up to the first
  that fails. The overall status is FAILED exactly when some result is a failure.
\<close>

theorem coordinator_executes_in_order:
  assumes "coordinator_execute r p w = (Inr x, w')"
  shows "\<exists>n \<le> length (pl_steps p). executed r p (take n (pl_steps p)) w (xr_step_results x) w'
    \<and> (pl_mode p = DRY_RUN \<longrightarrow> n = length (pl_steps p))
    \<and> (pl_mode p = EXECUTE \<longrightarrow> list_all (\<lambda>y. \<not> is_failure y) (butlast (xr_step_results x))
         \<and> (n < length (pl_steps p) \<longrightarrow> xr_step_results x \<noteq> [] \<and> is_failure (last (xr_step_results x))))
    \<and> (xr_status x = XS_FAILED \<longleftrightarrow> list_ex is_failure (xr_step_results x))"
proof -
  from assms obtain ys where run: "execute_plan_steps r p (pl_steps p) [] w = (Inr ys, w')"
    and x: "xr_step_results x = ys" "xr_status x = aggregate_status (pl_mode p) ys"
    by (auto simp: coordinator_execute_def mk_checked_Inr_iff elim!: act_bind_success)
  show ?thesis using execute_plan_steps_executed [OF run] unfolding x aggregate_status_failed by auto
qed

section \<open>Preflight\<close>

text \<open>The gates of the steps that write, and the first occurrence of each.\<close>

definition writer_gates :: "'w preflight_policy \<Rightarrow> execution_step list \<Rightarrow> 'w write_gate list" where
  "writer_gates pf steps = List.map_filter (\<lambda>step.
     if st_writer_required step \<or> st_step_type step \<in> set (pf_writer_step_types pf)
     then gate_for pf (st_step_type step) else None) steps"

fun first_by_id :: "'w write_gate list \<Rightarrow> 'w write_gate list" where
  "first_by_id [] = []"
| "first_by_id (g # gs) = g # filter (\<lambda>h. wg_id h \<noteq> wg_id g) (first_by_id gs)"

fun ask_all :: "string \<Rightarrow> 'w write_gate list \<Rightarrow> ('w, hub_error, unit) action" where
  "ask_all approved_by [] = act_return ()"
| "ask_all approved_by (g # gs) = act_bind (wg_ensure_real_write_allowed g approved_by) (\<lambda>_. ask_all approved_by gs)"

lemma call_gates_eq:
  "call_gates pf approved_by C steps = ask_all approved_by (filter (\<lambda>h. wg_id h \<notin> C) (first_by_id (writer_gates pf steps)))"
proof (induction steps arbitrary: C)
  case (Cons step steps)
  have f: "filter (\<lambda>h. wg_id h \<notin> C) (filter (\<lambda>h. wg_id h \<noteq> i) gs) = filter (\<lambda>h. wg_id h \<notin> insert i C) gs" for i and gs :: "'a write_gate list"
    by (auto simp: filter_filter intro: filter_cong)
  have g: "i \<in> C \<Longrightarrow> insert i C = C" for i by auto
  show ?case
    by (auto simp: Cons.IH writer_gates_def map_filter_simps f g simp del: filter_filter split: option.split)
qed (simp add: writer_gates_def map_filter_simps)

lemma first_by_id_distinct: "distinct (map wg_id (first_by_id gs))"
  by (induction gs) (auto simp: distinct_map_filter)

text \<open>
  C38. In EXECUTE mode an approved plan passes preflight exactly when production execution is
  enabled or a scoped authorization for a plan of one vendor bill step is presented, the staging
  restriction and the execute capability hold of every step, and every gate of a writing step
  allows the approver, each distinct gate being asked once, in plan order.
\<close>

theorem preflight_exact:
  assumes "pl_mode p = EXECUTE"
  shows "ensure_execute_allowed now pf p (Some a) w = (Inr (), w') \<longleftrightarrow>
    (case ap_authorization a of
       None \<Rightarrow> pf_production_execution_enabled pf
     | Some auth \<Rightarrow> pf_production_operations_enabled pf \<and> map st_step_type (pl_steps p) = [ST_VENDOR_BILL]
         \<and> ensure_execution_scope now auth (pl_company_id p) (pl_review_id p) (pl_decision_version p) (pl_execution_id p) = Inr ())
    \<and> (pf_staging_execution_step_types pf = []
       \<or> list_all (\<lambda>s. st_step_type s \<in> set (pf_staging_execution_step_types pf)) (pl_steps p))
    \<and> list_all st_execute_supported (pl_steps p)
    \<and> ask_all (ap_approved_by a) (first_by_id (writer_gates pf (pl_steps p))) w = (Inr (), w')"
proof -
  have one: "(length xs = 1 \<and> st_step_type (hd xs) = t) \<longleftrightarrow> map st_step_type xs = [t]" for xs :: "execution_step list" and t
    by (cases xs) auto
  have bind: "act_bind (act_lift m) f w = (Inr (), w') \<longleftrightarrow> (\<exists>x. m = Inr x \<and> f x w = (Inr (), w'))"
    for m :: "(hub_error, unit) result" and f
    by (cases m) (simp_all add: act_bind_def)
  have auth: "authorization_allows now pf p (ap_authorization a) = Inr () \<longleftrightarrow> (case ap_authorization a of None \<Rightarrow> True
     | Some auth \<Rightarrow> pf_production_operations_enabled pf \<and> map st_step_type (pl_steps p) = [ST_VENDOR_BILL]
         \<and> ensure_execution_scope now auth (pl_company_id p) (pl_review_id p) (pl_decision_version p) (pl_execution_id p) = Inr ())"
    unfolding authorization_allows_def one [symmetric] ebind_Inr_iff run_checks_ok
    by (auto split: option.split)
  have guards: "run_checks (preflight_guards pf p (ap_authorization a)) = Inr () \<longleftrightarrow>
      (pf_production_execution_enabled pf \<or> ap_authorization a \<noteq> None)
      \<and> (pf_staging_execution_step_types pf = []
         \<or> list_all (\<lambda>s. st_step_type s \<in> set (pf_staging_execution_step_types pf)) (pl_steps p))
      \<and> list_all st_execute_supported (pl_steps p)"
    unfolding run_checks_ok preflight_guards_def by (auto simp: list.pred_map comp_def)
  show ?thesis
    unfolding ensure_execute_allowed_def option.case
    using assms by (simp add: bind auth guards call_gates_eq split: option.split)
qed

section \<open>The in-memory repository\<close>

inductive memory_trace :: "memory_state \<Rightarrow> bool" where
  init: "memory_trace memory_init"
| create: "memory_trace s \<Longrightarrow> memory_trace (snd (create_planned_execution p s))"
| recorded: "memory_trace s \<Longrightarrow> memory_trace (snd (record_step_result i r s))"
| completed: "memory_trace s \<Longrightarrow> memory_trace (snd (mark_completed i x s))"
| failed: "memory_trace s \<Longrightarrow> memory_trace (snd (mark_failed i x s))"

definition memory_inv :: "memory_state \<Rightarrow> bool" where
  "memory_inv s \<longleftrightarrow> dom (ms_step_results s) = dom (ms_plans_by_execution_id s)
     \<and> dom (ms_completed_results s) \<union> dom (ms_failed_results s) \<subseteq> dom (ms_plans_by_execution_id s)
     \<and> dom (ms_completed_results s) \<inter> dom (ms_failed_results s) = {}
     \<and> (\<forall>key i. ms_execution_id_by_idempotency_key s key = Some i \<longrightarrow>
          (\<exists>p. ms_plans_by_execution_id s i = Some p \<and> pl_idempotency_key p = Some key \<and> pl_execution_id p = i))
     \<and> (\<forall>i p. ms_plans_by_execution_id s i = Some p \<longrightarrow>
          (\<exists>key. pl_idempotency_key p = Some key \<and> ms_execution_id_by_idempotency_key s key = Some i))"

lemma create_memory_inv:
  assumes "memory_inv s"
  shows "memory_inv (snd (create_planned_execution p s))"
proof (cases "snd (create_planned_execution p s) = s")
  case False
  then obtain key where key: "pl_idempotency_key p = Some key" "ms_execution_id_by_idempotency_key s key = None"
      "pl_execution_id p \<notin> dom (ms_plans_by_execution_id s)"
    and s': "snd (create_planned_execution p s) =
      s\<lparr>ms_plans_by_execution_id := (ms_plans_by_execution_id s)(pl_execution_id p \<mapsto> p),
        ms_execution_id_by_idempotency_key := (ms_execution_id_by_idempotency_key s)(key \<mapsto> pl_execution_id p),
        ms_step_results := (ms_step_results s)(pl_execution_id p \<mapsto> [])\<rparr>"
    by (auto simp: create_planned_execution_def split: option.splits if_splits)
  let ?s = "snd (create_planned_execution p s)"
  have by_key: "\<exists>q. ms_plans_by_execution_id s i = Some q \<and> pl_idempotency_key q = Some k \<and> pl_execution_id q = i"
    if "ms_execution_id_by_idempotency_key s k = Some i" for k i
    using that assms by (simp add: memory_inv_def)
  have by_id: "\<exists>k. pl_idempotency_key q = Some k \<and> ms_execution_id_by_idempotency_key s k = Some i"
    if "ms_plans_by_execution_id s i = Some q" for i q
    using that assms by (simp add: memory_inv_def)
  have "\<exists>q. ms_plans_by_execution_id ?s i = Some q \<and> pl_idempotency_key q = Some k \<and> pl_execution_id q = i"
    if "ms_execution_id_by_idempotency_key ?s k = Some i" for k i
    using that key(1,3) by_key [of k i] unfolding s' by (cases "k = key") auto
  moreover have "\<exists>k. pl_idempotency_key q = Some k \<and> ms_execution_id_by_idempotency_key ?s k = Some i"
    if "ms_plans_by_execution_id ?s i = Some q" for i q
    using that key(1,2) by_id [of i q] unfolding s' by (cases "i = pl_execution_id p") fastforce+
  moreover have "dom (ms_step_results ?s) = dom (ms_plans_by_execution_id ?s)"
    "dom (ms_completed_results ?s) \<union> dom (ms_failed_results ?s) \<subseteq> dom (ms_plans_by_execution_id ?s)"
    "dom (ms_completed_results ?s) \<inter> dom (ms_failed_results ?s) = {}"
    using assms by (auto simp: memory_inv_def s')
  ultimately show ?thesis unfolding memory_inv_def by blast
qed (use assms in simp)

lemma mark_memory_inv:
  assumes "memory_inv s"
  shows "memory_inv (snd (record_step_result i r s))" "memory_inv (snd (mark_completed i x s))"
    "memory_inv (snd (mark_failed i x s))"
  using assms
  by (auto simp: record_step_result_def mark_completed_def mark_failed_def require_active_execution_def memory_inv_def
      split: option.split sum.split)

lemma memory_trace_inv: "memory_trace s \<Longrightarrow> memory_inv s"
  by (induction rule: memory_trace.induct)
     (simp_all add: create_memory_inv mark_memory_inv, simp add: memory_inv_def memory_init_def)

lemma dec_eq_refl: "dec_is_finite x \<Longrightarrow> dec_eq x x"
  by (cases x) (simp_all add: dec_eq_def dec_is_finite_def Let_def)

lemma plan_eq_refl:
  assumes "valid_plan p"
  shows "plan_eq p p"
proof -
  have "optional_positive_decimal v m1 m2 = Inr r \<Longrightarrow> pred_option dec_is_finite v" for v m1 m2 r
    by (cases v) (auto simp: optional_positive_decimal_def split: if_splits)
  then have a: "allocation_eq x x" if "valid_allocation x" for x
    using valid_allocation_decimals [OF that] dec_eq_refl
    by (auto simp: allocation_eq_def option.rel_reflp option.rel_sel option.pred_set)
  have "billing_line_eq x x" if "valid_by billing_line_checks x" for x
    using that dec_eq_refl by (auto simp: billing_line_eq_def valid_by_def billing_line_checks_def positive_decimal_def)
  then have b: "billing_instruction_eq x x" if "valid_billing_instruction x" for x
    using that by (auto simp: billing_instruction_eq_def valid_billing_instruction_def list_all_iff list.rel_refl_strong)
  have "step_eq x x" if "valid_step x" for x
    using that a b by (auto simp: step_eq_def valid_step_def list_all_iff option.pred_set
        intro!: list.rel_refl_strong option.rel_refl_strong)
  then show ?thesis using assms by (auto simp: plan_eq_def valid_plan_def list_all_iff intro!: list.rel_refl_strong)
qed

text \<open>
  In every state the in-memory repository can reach, an execution is never both completed and
  failed, results are kept for registered plans only, creating a registered (constructed)
  plan again returns it and changes nothing, and looking a plan up by its idempotency key finds it.
\<close>

theorem memory_repository_consistent:
  assumes "memory_trace s"
  shows "dom (ms_completed_results s) \<inter> dom (ms_failed_results s) = {}
    \<and> dom (ms_completed_results s) \<union> dom (ms_failed_results s) \<subseteq> dom (ms_step_results s)
    \<and> (memory_get_by_execution_id s i = Some p \<and> valid_plan p \<longrightarrow> create_planned_execution p s = (Inr p, s)
         \<and> (\<exists>key. pl_idempotency_key p = Some key \<and> memory_get_by_idempotency_key s key = Some p))"
proof -
  note inv = memory_trace_inv [OF assms]
  have "create_planned_execution p s = (Inr p, s)
      \<and> (\<exists>key. pl_idempotency_key p = Some key \<and> memory_get_by_idempotency_key s key = Some p)"
    if "memory_get_by_execution_id s i = Some p" "valid_plan p"
  proof -
    from that(1) have p: "ms_plans_by_execution_id s i = Some p" by (simp add: memory_get_by_execution_id_def)
    with inv obtain key where key: "pl_idempotency_key p = Some key" "ms_execution_id_by_idempotency_key s key = Some i"
      unfolding memory_inv_def by blast
    with p show ?thesis
      by (simp add: create_planned_execution_def memory_get_by_idempotency_key_def plan_eq_refl [OF that(2)])
  qed
  then show ?thesis using inv by (auto simp: memory_inv_def)
qed

theorem memory_repository_consistent_witness:
  "create_planned_execution sample_plan (snd (create_planned_execution sample_plan memory_init))
     = (Inr sample_plan, snd (create_planned_execution sample_plan memory_init))"
proof -
  let ?s = "snd (create_planned_execution sample_plan memory_init)"
  have "memory_trace ?s" by (intro memory_trace.intros)
  moreover have "memory_get_by_execution_id ?s ''x1'' = Some sample_plan"
    by (simp add: create_planned_execution_def memory_init_def memory_get_by_execution_id_def sample_plan_def)
  ultimately show ?thesis
    using memory_repository_consistent [of ?s "''x1''" sample_plan] sample_plan_valid by blast
qed

section \<open>Nothing is written without an enabled strategy\<close>

definition foundation_result :: "execution_mode \<Rightarrow> execution_step \<Rightarrow> step_result" where
  "foundation_result mode step =
     \<lparr>sr_step_key = st_step_key step, sr_step_type = st_step_type step,
      sr_status = (if mode = DRY_RUN then SS_DRY_RUN_OK else SS_UNSUPPORTED), sr_dry_run = (mode = DRY_RUN),
      sr_message = Some (if mode = DRY_RUN then ''Dry run completed. No ERP write was performed.''
        else ''Execution strategy is not enabled in this foundation PR.''),
      sr_warnings = [], sr_produced_artifacts = [],
      sr_error_code = (if mode = DRY_RUN then None else Some ''EXECUTION_NOT_ENABLED'')\<rparr>"

lemma valid_plan_step_key: "valid_plan p \<Longrightarrow> step \<in> set (pl_steps p) \<Longrightarrow> \<not> blank (st_step_key step)"
  by (auto simp: valid_plan_def valid_step_def list_all_iff valid_by_def execution_step_checks_def)

lemma foundation_execute_eq:
  assumes "\<not> blank (st_step_key (sq_step q))"
  shows "foundation_execute q w = (Inr (foundation_result (sq_mode q) (sq_step q)), w)"
proof -
  have "\<not> blank ''Dry run completed. No ERP write was performed.''"
    "\<not> blank ''Execution strategy is not enabled in this foundation PR.''" "\<not> blank ''EXECUTION_NOT_ENABLED''"
    by (simp_all add: blank_eval)
  with assms show ?thesis
    by (auto simp: foundation_execute_def foundation_result_def mk_checked_Inr_iff valid_by_def step_result_checks_def)
qed

lemma valid_plan_request:
  assumes "valid_plan p"
  shows "\<exists>q. plan_step_request p step = Inr q \<and> sq_step q = step \<and> sq_mode q = pl_mode p"
  using assms by (auto simp: plan_step_request_def mk_checked_Inr_iff valid_plan_def valid_by_def execution_plan_checks_def
      step_request_checks_def)

lemma foundation_steps:
  assumes "\<And>t. resolve r t = Inr (foundation_strategy step_type_members)" "valid_plan p" "set steps \<subseteq> set (pl_steps p)"
  shows "execute_plan_steps r p steps results w = (Inr (results @ (if pl_mode p = DRY_RUN
    then map (foundation_result DRY_RUN) steps else map (foundation_result EXECUTE) (take 1 steps))), w)"
  using assms(3)
proof (induction steps arbitrary: results)
  case (Cons step steps)
  obtain q where q: "plan_step_request p step = Inr q" "sq_step q = step" "sq_mode q = pl_mode p"
    using valid_plan_request [OF assms(2)] by blast
  have key: "\<not> blank (st_step_key step)" using valid_plan_step_key [OF assms(2)] Cons.prems by simp
  have x: "sg_execute (foundation_strategy step_type_members) q w = (Inr (foundation_result (pl_mode p) step), w)"
    using foundation_execute_eq [of q w] q key by (simp add: foundation_strategy_def)
  show ?case
    using Cons q(1) assms(1) x
    by (cases "pl_mode p") (simp_all add: act_bind_def failure_policy_of_def is_failure_def foundation_result_def)
qed simp

text \<open>
  With the no-write strategy registered for every step type, which always succeeds, the
  coordinator returns for every valid plan and leaves the world as it was: a dry run reports every
  step as fine, and execute mode reports the first step as unsupported and the execution as failed.
\<close>

theorem foundation_never_writes:
  assumes "valid_plan p"
  shows "\<exists>r x. foundation_no_write_strategy_resolver = Inr r \<and> coordinator_execute r p w = (Inr x, w)
    \<and> xr_status x = (if pl_mode p = DRY_RUN then XS_DRY_RUN_COMPLETED else XS_FAILED)
    \<and> map sr_step_key (xr_step_results x)
      = map st_step_key (if pl_mode p = DRY_RUN then pl_steps p else take 1 (pl_steps p))"
proof -
  obtain r :: "'a resolver" where r: "foundation_no_write_strategy_resolver = Inr r"
      "\<And>t. resolve r t = Inr (foundation_strategy step_type_members)"
    using foundation_resolver by metis
  note steps = foundation_steps [OF r(2) assms order.refl, of "[]" w]
  have i: "\<not> blank (pl_execution_id p)" using assms by (simp add: valid_plan_def valid_by_def execution_plan_checks_def)
  obtain s ss where s: "pl_steps p = s # ss" using valid_plan_keys [OF assms] by (cases "pl_steps p") auto
  let ?ys = "if pl_mode p = DRY_RUN then map (foundation_result DRY_RUN) (pl_steps p)
    else map (foundation_result EXECUTE) (take 1 (pl_steps p))"
  have status: "aggregate_status (pl_mode p) ?ys = (if pl_mode p = DRY_RUN then XS_DRY_RUN_COMPLETED else XS_FAILED)"
    by (auto simp: aggregate_status_def foundation_result_def list_ex_iff s)
  show ?thesis
    using r(1) steps i status
    by (auto simp: coordinator_execute_def act_bind_def mk_checked_Inr_iff valid_by_def execution_result_checks_def
        foundation_result_def comp_def)
qed

theorem foundation_never_writes_witness:
  "\<exists>r x. foundation_no_write_strategy_resolver = Inr r \<and> coordinator_execute r sample_plan (7 :: nat) = (Inr x, 7)
     \<and> xr_status x = XS_FAILED"
  using foundation_never_writes [OF sample_plan_valid, of "7 :: nat"] by (auto simp: sample_plan_def)

theorem coordinator_executes_in_order_witness:
  "\<exists>r x. coordinator_execute r sample_plan (7 :: nat) = (Inr x, 7)
     \<and> executed r sample_plan [sample_step ''bill'' 1] 7 (xr_step_results x) 7"
proof -
  obtain r :: "nat resolver" where r: "\<And>t. resolve r t = Inr (foundation_strategy step_type_members)"
    using foundation_resolver by metis
  have steps: "execute_plan_steps r sample_plan (pl_steps sample_plan) [] 7
      = (Inr [foundation_result EXECUTE (sample_step ''bill'' 1)], 7)"
    using foundation_steps [OF r sample_plan_valid order.refl, of "[]" 7] by (simp add: sample_plan_def)
  have "\<exists>x. coordinator_execute r sample_plan 7 = (Inr x, 7) \<and> length (xr_step_results x) = 1"
    using steps by (auto simp: coordinator_execute_def act_bind_def mk_checked_Inr_iff valid_by_def
        execution_result_checks_def sample_plan_def blank_eval)
  then obtain x where x: "coordinator_execute r sample_plan 7 = (Inr x, 7)" "length (xr_step_results x) = 1" by blast
  have p: "pl_steps sample_plan = [sample_step ''bill'' 1, sample_step ''bill-2'' 2]" by (simp add: sample_plan_def)
  from coordinator_executes_in_order [OF x(1)] obtain n where n: "n \<le> length (pl_steps sample_plan)"
    "executed r sample_plan (take n (pl_steps sample_plan)) 7 (xr_step_results x) 7" by blast
  from executed_length [OF n(2)] n(1) x(2) have "n = 1" by simp
  with n(2) x(1) show ?thesis by (auto simp: p)
qed

definition sample_gate :: "nat \<Rightarrow> nat write_gate" where
  "sample_gate i = \<lparr>wg_id = i, wg_ensure_real_write_allowed = (\<lambda>_ n. (Inr (), n + 1))\<rparr>"

definition sample_preflight :: "nat preflight_policy" where
  "sample_preflight = \<lparr>pf_production_execution_enabled = True, pf_real_write_gate = Some (sample_gate 1),
     pf_real_write_gates = None, pf_writer_step_types = [ST_VENDOR_BILL], pf_staging_execution_step_types = [],
     pf_production_operations_enabled = False\<rparr>"

theorem preflight_exact_witness:
  "ensure_execute_allowed 0 sample_preflight sample_plan (Some \<lparr>ap_approved_by = ''ann'', ap_authorization = None\<rparr>) 0
     = (Inr (), 1)"
  using preflight_exact [of sample_plan 0 sample_preflight "\<lparr>ap_approved_by = ''ann'', ap_authorization = None\<rparr>" 0 1]
  by (simp add: sample_plan_def sample_step_def sample_preflight_def sample_gate_def writer_gates_def map_filter_simps
      gate_for_def act_bind_def)

end
