(* ===== verification/Exec_Json.thy ===== *)
theory Exec_Json
  imports Exec_Runtime Sha256 Json_Text
begin

text \<open>
  The JSON documents of the execution tables: the \<^verbatim>\<open>_..._to_data\<close> and \<^verbatim>\<open>_..._from_data\<close> functions of
  \<^verbatim>\<open>app/persistence/execution_runtime_repository.py\<close>, and the plan signature. Readers go through the
  constructors of the data they build, in the order in which the source evaluates their arguments.
  Every reader inverts its writer on objects that their constructors accept.
\<close>

section \<open>Reading helpers\<close>

text \<open>\<^verbatim>\<open>str(data[k]) if data.get(k) is not None else None\<close>\<close>

definition get_str :: "json \<Rightarrow> string \<Rightarrow> (hub_error, string option) result" where
  "get_str j k = optional_string (json_get_or_null j k)"

definition get_int :: "json \<Rightarrow> string \<Rightarrow> (hub_error, int option) result" where
  "get_int j k = optional_int (json_get_or_null j k)"

definition get_dec :: "json \<Rightarrow> string \<Rightarrow> (hub_error, decimal option) result" where
  "get_dec j k = optional_decimal (json_get_or_null j k)"

definition get_strs :: "json \<Rightarrow> string \<Rightarrow> (hub_error, string list) result" where
  "get_strs j k = ebind (get_list j k) (emap py_str)"

definition item_dec :: "json \<Rightarrow> string \<Rightarrow> (hub_error, decimal) result" where
  "item_dec j k = ebind (json_item j k) py_decimal"

definition item_enum :: "'a list \<Rightarrow> ('a \<Rightarrow> string) \<Rightarrow> json \<Rightarrow> string \<Rightarrow> (hub_error, 'a) result" where
  "item_enum members val j k = ebind (item_str j k) (enum_of_value members val (ValueError ''not a valid enum value''))"

lemmas reader_defs = get_str_def get_int_def get_dec_def get_strs_def item_dec_def item_enum_def item_simps
  json_get_or_null_def get_list_def py_decimal_def

section \<open>Allocations\<close>

definition allocation_optionals :: "allocation \<Rightarrow> (string \<times> json) list" where
  "allocation_optionals a =
      [(''source_line_number'', j_str (al_source_line_number a)),
       (''description'', j_str (al_description a)),
       (''amount'', j_dec (al_amount a)),
       (''percentage'', j_dec (al_percentage a)),
       (''currency'', j_str (al_currency a)),
       (''customer_id'', j_int (al_customer_id a)),
       (''recharge_partner_id'', j_int (al_recharge_partner_id a)),
       (''customer_invoice_id'', j_int (al_customer_invoice_id a)),
       (''target_company_id'', j_int (al_target_company_id a)),
       (''opportunity_id'', j_int (al_opportunity_id a)),
       (''sales_order_id'', j_int (al_sales_order_id a)),
       (''sales_order_line_id'', j_int (al_sales_order_line_id a)),
       (''proposal_scenario_id'', j_int (al_proposal_scenario_id a)),
       (''purchase_order_id'', j_int (al_purchase_order_id a)),
       (''project_id'', j_int (al_project_id a)),
       (''analytic_account_id'', j_int (al_analytic_account_id a)),
       (''subscription_id'', j_int (al_subscription_id a)),
       (''internal_note'', j_str (al_internal_note a))]"

definition allocation_to_data :: "allocation \<Rightarrow> json" where
  "allocation_to_data a = JObj
     ([(''allocation_key'', JStr (al_allocation_key a)),
       (''allocation_type'', JStr (allocation_type_value (al_allocation_type a)))]
      @ non_null (allocation_optionals a))"

definition allocation_from_data :: "json \<Rightarrow> (hub_error, allocation) result" where
  "allocation_from_data j =
     ebind (item_str j ''allocation_key'') (\<lambda>key.
     ebind (item_enum allocation_types allocation_type_value j ''allocation_type'') (\<lambda>ty.
     ebind (get_str j ''source_line_number'') (\<lambda>line.
     ebind (get_str j ''description'') (\<lambda>desc.
     ebind (get_dec j ''amount'') (\<lambda>amount.
     ebind (get_dec j ''percentage'') (\<lambda>percentage.
     ebind (get_str j ''currency'') (\<lambda>currency.
     ebind (get_int j ''customer_id'') (\<lambda>customer.
     ebind (get_int j ''recharge_partner_id'') (\<lambda>recharge.
     ebind (get_int j ''customer_invoice_id'') (\<lambda>invoice.
     ebind (get_int j ''target_company_id'') (\<lambda>company.
     ebind (get_int j ''opportunity_id'') (\<lambda>opportunity.
     ebind (get_int j ''sales_order_id'') (\<lambda>order.
     ebind (get_int j ''sales_order_line_id'') (\<lambda>order_line.
     ebind (get_int j ''proposal_scenario_id'') (\<lambda>scenario.
     ebind (get_int j ''purchase_order_id'') (\<lambda>purchase.
     ebind (get_int j ''project_id'') (\<lambda>project.
     ebind (get_int j ''analytic_account_id'') (\<lambda>analytic.
     ebind (get_int j ''subscription_id'') (\<lambda>subscription.
     ebind (get_str j ''internal_note'') (\<lambda>note.
     mk_allocation
       \<lparr>al_allocation_key = key, al_allocation_type = ty, al_source_line_number = line, al_description = desc,
        al_amount = amount, al_percentage = percentage, al_currency = currency, al_customer_id = customer,
        al_recharge_partner_id = recharge, al_customer_invoice_id = invoice, al_target_company_id = company,
        al_opportunity_id = opportunity, al_sales_order_id = order, al_sales_order_line_id = order_line,
        al_proposal_scenario_id = scenario, al_purchase_order_id = purchase, al_project_id = project,
        al_analytic_account_id = analytic, al_subscription_id = subscription, al_internal_note = note\<rparr>))))))))))))))))))))"

lemma allocation_data_get:
  assumes "k \<noteq> ''allocation_key''" "k \<noteq> ''allocation_type''"
  shows "json_get_or_null (allocation_to_data a) k = (case map_of (allocation_optionals a) k of None \<Rightarrow> JNull | Some v \<Rightarrow> v)"
proof -
  have "distinct (map fst (allocation_optionals a))" by (simp add: allocation_optionals_def)
  then show ?thesis
    unfolding allocation_to_data_def using assms by (subst get_or_null_append) (simp_all add: get_non_null)
qed

lemma allocation_roundtrip:
  assumes "valid_allocation a"
  shows "allocation_from_data (allocation_to_data a) = Inr a"
proof -
  have "json_item (allocation_to_data a) ''allocation_key'' = Inr (JStr (al_allocation_key a))"
    "json_item (allocation_to_data a) ''allocation_type'' = Inr (JStr (allocation_type_value (al_allocation_type a)))"
    by (simp_all add: allocation_to_data_def json_item_def)
  then have "allocation_from_data (allocation_to_data a) = mk_allocation a"
    by (cases a) (simp add: allocation_from_data_def get_str_def get_int_def get_dec_def item_str_def item_enum_def
        allocation_data_get allocation_optionals_def allocation_type_enum.of_value_value)
  with assms show ?thesis by (simp add: valid_allocation_def)
qed

section \<open>Billing instructions\<close>

definition billing_line_to_data :: "billing_line \<Rightarrow> json" where
  "billing_line_to_data l = JObj
     [(''allocation_key'', JStr (bl_allocation_key l)),
      (''product_id'', JInt (bl_product_id l)),
      (''description'', JStr (bl_description l)),
      (''quantity'', JStr (dec_str (bl_quantity l))),
      (''unit_price'', JStr (dec_str (bl_unit_price l))),
      (''sales_tax_ids'', JList (map JInt (bl_sales_tax_ids l)))]"

definition billing_instruction_to_data :: "billing_instruction option \<Rightarrow> json" where
  "billing_instruction_to_data v = (case v of None \<Rightarrow> JNull | Some b \<Rightarrow> JObj
     [(''billing_key'', JStr (bi_billing_key b)),
      (''customer_id'', JInt (bi_customer_id b)),
      (''currency'', JStr (bi_currency b)),
      (''lines'', JList (map billing_line_to_data (bi_lines b)))])"

definition billing_line_from_data :: "json \<Rightarrow> (hub_error, billing_line) result" where
  "billing_line_from_data j =
     ebind (item_str j ''allocation_key'') (\<lambda>key.
     ebind (item_int j ''product_id'') (\<lambda>product.
     ebind (item_str j ''description'') (\<lambda>desc.
     ebind (item_dec j ''quantity'') (\<lambda>quantity.
     ebind (item_dec j ''unit_price'') (\<lambda>price.
     ebind (item_list j ''sales_tax_ids'') (\<lambda>taxes.
     ebind (emap py_int taxes) (\<lambda>tax_ids.
     mk_checked billing_line_checks
       \<lparr>bl_allocation_key = key, bl_product_id = product, bl_description = desc, bl_quantity = quantity,
        bl_unit_price = price, bl_sales_tax_ids = tax_ids\<rparr>)))))))"

definition billing_instruction_from_data :: "json \<Rightarrow> (hub_error, billing_instruction option) result" where
  "billing_instruction_from_data j = (case j of
     JNull \<Rightarrow> Inr None
   | JObj _ \<Rightarrow>
       ebind (item_str j ''billing_key'') (\<lambda>key.
       ebind (item_int j ''customer_id'') (\<lambda>customer.
       ebind (item_str j ''currency'') (\<lambda>currency.
       ebind (item_list j ''lines'') (\<lambda>line_data.
       ebind (emap billing_line_from_data line_data) (\<lambda>lines.
       ebind (mk_billing_instruction
         \<lparr>bi_billing_key = key, bi_customer_id = customer, bi_currency = currency, bi_lines = lines\<rparr>)
         (\<lambda>b. Inr (Some b)))))))
   | _ \<Rightarrow> Inl (ExecutionPersistenceError ''Execution runtime persistence operation failed.''))"

lemma billing_line_roundtrip:
  "valid_by billing_line_checks l \<Longrightarrow> billing_line_from_data (billing_line_to_data l) = Inr l"
  by (cases l) (simp add: billing_line_from_data_def billing_line_to_data_def reader_defs)

lemma billing_instruction_roundtrip:
  assumes "pred_option valid_billing_instruction v"
  shows "billing_instruction_from_data (billing_instruction_to_data v) = Inr v"
proof (cases v)
  case (Some b)
  with assms have lines: "emap billing_line_from_data (map billing_line_to_data (bi_lines b)) = Inr (bi_lines b)"
    and b: "mk_billing_instruction b = Inr b"
    by (auto simp: valid_billing_instruction_def list_all_iff intro!: emap_inverse billing_line_roundtrip)
  then show ?thesis
    by (cases b) (simp add: Some billing_instruction_from_data_def billing_instruction_to_data_def reader_defs)
qed (simp add: billing_instruction_from_data_def billing_instruction_to_data_def)

section \<open>Plans\<close>

definition step_to_data :: "execution_step \<Rightarrow> json" where
  "step_to_data s = JObj
     [(''step_key'', JStr (st_step_key s)),
      (''step_type'', JStr (step_type_value (st_step_type s))),
      (''allocation_keys'', JList (map JStr (st_allocation_keys s))),
      (''sequence'', JInt (st_sequence s)),
      (''dry_run_supported'', JBool (st_dry_run_supported s)),
      (''execute_supported'', JBool (st_execute_supported s)),
      (''writer_required'', JBool (st_writer_required s)),
      (''allocations'', JList (map allocation_to_data (st_allocations s))),
      (''customer_invoice_billing_instruction'', billing_instruction_to_data (st_billing_instruction s)),
      (''customer_quotation_scenario_id'', j_str (st_quotation_scenario_id s))]"

definition plan_to_data :: "execution_plan \<Rightarrow> json" where
  "plan_to_data p = JObj
     [(''execution_id'', JStr (pl_execution_id p)),
      (''review_id'', JStr (pl_review_id p)),
      (''company_id'', JInt (pl_company_id p)),
      (''decision_version'', JInt (pl_decision_version p)),
      (''decision_id'', j_str (pl_decision_id p)),
      (''mode'', JStr (mode_value (pl_mode p))),
      (''idempotency_key'', j_str (pl_idempotency_key p)),
      (''warnings'', JList (map JStr (pl_warnings p))),
      (''steps'', JList (map step_to_data (pl_steps p)))]"

definition step_from_data :: "json \<Rightarrow> (hub_error, execution_step) result" where
  "step_from_data j =
     ebind (item_str j ''step_key'') (\<lambda>key.
     ebind (item_enum step_type_members step_type_value j ''step_type'') (\<lambda>ty.
     ebind (item_list j ''allocation_keys'') (\<lambda>key_data.
     ebind (emap py_str key_data) (\<lambda>keys.
     ebind (item_int j ''sequence'') (\<lambda>seq.
     ebind (item_bool j ''dry_run_supported'') (\<lambda>dry.
     ebind (item_bool j ''execute_supported'') (\<lambda>exec.
     ebind (get_list j ''allocations'') (\<lambda>allocation_data.
     ebind (emap allocation_from_data allocation_data) (\<lambda>allocations.
     ebind (billing_instruction_from_data (json_get_or_null j ''customer_invoice_billing_instruction'')) (\<lambda>billing.
     ebind (get_str j ''customer_quotation_scenario_id'') (\<lambda>scenario.
     mk_checked execution_step_checks
       \<lparr>st_step_key = key, st_step_type = ty, st_allocation_keys = keys, st_sequence = seq,
        st_dry_run_supported = dry, st_execute_supported = exec,
        st_writer_required = py_bool (json_get_or_null j ''writer_required''), st_allocations = allocations,
        st_billing_instruction = billing, st_quotation_scenario_id = scenario\<rparr>)))))))))))"

definition plan_from_data :: "json \<Rightarrow> (hub_error, execution_plan) result" where
  "plan_from_data j =
     ebind (item_str j ''execution_id'') (\<lambda>execution_id.
     ebind (item_str j ''review_id'') (\<lambda>review_id.
     ebind (item_int j ''company_id'') (\<lambda>company_id.
     ebind (item_int j ''decision_version'') (\<lambda>decision_version.
     ebind (item_enum mode_members mode_value j ''mode'') (\<lambda>mode.
     ebind (get_str j ''decision_id'') (\<lambda>decision_id.
     ebind (item_list j ''steps'') (\<lambda>step_data.
     ebind (emap step_from_data step_data) (\<lambda>steps.
     ebind (get_strs j ''warnings'') (\<lambda>warnings.
     ebind (get_str j ''idempotency_key'') (\<lambda>idempotency_key.
     mk_checked execution_plan_checks
       \<lparr>pl_execution_id = execution_id, pl_review_id = review_id, pl_company_id = company_id,
        pl_decision_version = decision_version, pl_mode = mode, pl_steps = steps, pl_decision_id = decision_id,
        pl_warnings = warnings, pl_idempotency_key = idempotency_key\<rparr>))))))))))"

lemma step_roundtrip:
  assumes "valid_step s"
  shows "step_from_data (step_to_data s) = Inr s"
proof -
  have "emap allocation_from_data (map allocation_to_data (st_allocations s)) = Inr (st_allocations s)"
    using assms by (auto simp: valid_step_def list_all_iff intro!: emap_inverse allocation_roundtrip)
  moreover have "billing_instruction_from_data (billing_instruction_to_data (st_billing_instruction s))
      = Inr (st_billing_instruction s)"
    using assms by (intro billing_instruction_roundtrip) (simp add: valid_step_def)
  ultimately show ?thesis
    using assms
    by (cases s) (simp add: step_from_data_def step_to_data_def reader_defs step_type_enum.of_value_value valid_step_def)
qed

lemma plan_roundtrip:
  assumes "valid_plan p"
  shows "plan_from_data (plan_to_data p) = Inr p"
proof -
  have "emap step_from_data (map step_to_data (pl_steps p)) = Inr (pl_steps p)"
    using assms by (auto simp: valid_plan_def list_all_iff intro!: emap_inverse step_roundtrip)
  with assms show ?thesis
    by (cases p) (simp add: plan_from_data_def plan_to_data_def reader_defs mode_enum.of_value_value valid_plan_def)
qed

section \<open>Checkpoints, policies and failures\<close>

definition checkpoint_to_data :: "checkpoint \<Rightarrow> json" where
  "checkpoint_to_data c = JObj
     [(''execution_id'', JStr (cp_execution_id c)),
      (''completed_step_keys'', JList (map JStr (cp_completed_step_keys c))),
      (''failed_step_key'', j_str (cp_failed_step_key c)),
      (''current_step_key'', j_str (cp_current_step_key c)),
      (''retry_count'', JInt (cp_retry_count c)),
      (''last_event_id'', j_str (cp_last_event_id c))]"

definition checkpoint_from_data :: "json \<Rightarrow> (hub_error, checkpoint) result" where
  "checkpoint_from_data j =
     ebind (item_str j ''execution_id'') (\<lambda>execution_id.
     ebind (get_strs j ''completed_step_keys'') (\<lambda>completed.
     ebind (get_str j ''failed_step_key'') (\<lambda>failed.
     ebind (get_str j ''current_step_key'') (\<lambda>current.
     ebind (case json_get j ''retry_count'' of None \<Rightarrow> Inr 0 | Some v \<Rightarrow> py_int v) (\<lambda>retry_count.
     ebind (get_str j ''last_event_id'') (\<lambda>last_event.
     mk_checked checkpoint_checks
       \<lparr>cp_execution_id = execution_id, cp_completed_step_keys = completed, cp_failed_step_key = failed,
        cp_current_step_key = current, cp_retry_count = retry_count, cp_last_event_id = last_event\<rparr>))))))"

definition retry_policy_to_data :: "retry_policy \<Rightarrow> json" where
  "retry_policy_to_data p = JObj
     [(''policy_type'', JStr (retry_policy_type_value (rp_policy_type p))),
      (''max_attempts'', JInt (rp_max_attempts p)),
      (''delay_seconds'', JInt (rp_delay_seconds p)),
      (''backoff_multiplier'', JInt (rp_backoff_multiplier p))]"

definition retry_policy_from_data :: "json \<Rightarrow> (hub_error, retry_policy) result" where
  "retry_policy_from_data j =
     ebind (item_enum retry_policy_type_members retry_policy_type_value j ''policy_type'') (\<lambda>ty.
     ebind (item_int j ''max_attempts'') (\<lambda>attempts.
     ebind (item_int j ''delay_seconds'') (\<lambda>delay.
     ebind (item_int j ''backoff_multiplier'') (\<lambda>multiplier.
     mk_checked retry_policy_checks
       \<lparr>rp_policy_type = ty, rp_max_attempts = attempts, rp_delay_seconds = delay,
        rp_backoff_multiplier = multiplier\<rparr>))))"

definition failure_to_data :: "execution_failure option \<Rightarrow> json" where
  "failure_to_data v = (case v of None \<Rightarrow> JNull | Some f \<Rightarrow> JObj
     [(''step_key'', j_str (fl_step_key f)),
      (''error_code'', JStr (fl_error_code f)),
      (''safe_message'', JStr (fl_safe_message f))])"

definition failure_from_data :: "json \<Rightarrow> (hub_error, execution_failure option) result" where
  "failure_from_data j =
     (if j = JNull then Inr None
      else ebind (get_str j ''step_key'') (\<lambda>key.
        ebind (item_str j ''error_code'') (\<lambda>code.
        ebind (item_str j ''safe_message'') (\<lambda>msg.
        ebind (mk_checked failure_checks \<lparr>fl_step_key = key, fl_error_code = code, fl_safe_message = msg\<rparr>)
          (\<lambda>f. Inr (Some f))))))"

lemma checkpoint_roundtrip:
  "valid_by checkpoint_checks c \<Longrightarrow> checkpoint_from_data (checkpoint_to_data c) = Inr c"
  by (cases c) (simp add: checkpoint_from_data_def checkpoint_to_data_def reader_defs)

lemma retry_policy_roundtrip:
  "valid_by retry_policy_checks p \<Longrightarrow> retry_policy_from_data (retry_policy_to_data p) = Inr p"
  by (cases p) (simp add: retry_policy_from_data_def retry_policy_to_data_def reader_defs
      retry_policy_type_enum.of_value_value)

lemma failure_roundtrip:
  "pred_option (valid_by failure_checks) f \<Longrightarrow> failure_from_data (failure_to_data f) = Inr f"
proof (cases f)
  case (Some x)
  then show "pred_option (valid_by failure_checks) f \<Longrightarrow> ?thesis"
    by (cases x) (simp add: failure_from_data_def failure_to_data_def reader_defs)
qed (simp add: failure_from_data_def failure_to_data_def)

section \<open>Step results\<close>

definition artifact_to_data :: "artifact \<Rightarrow> json" where
  "artifact_to_data a = JObj
     [(''artifact_type'', JStr (artifact_type_value (ar_artifact_type a))),
      (''artifact_id'', JStr (ar_artifact_id a)),
      (''external_identity'', JStr (ar_external_identity a)),
      (''created'', JBool (ar_created a))]"

definition artifact_from_data :: "json \<Rightarrow> (hub_error, artifact) result" where
  "artifact_from_data j =
     ebind (item_enum artifact_type_members artifact_type_value j ''artifact_type'') (\<lambda>ty.
     ebind (item_str j ''artifact_id'') (\<lambda>ident.
     ebind (item_str j ''external_identity'') (\<lambda>external.
     ebind (item_bool j ''created'') (\<lambda>created.
     mk_checked artifact_checks
       \<lparr>ar_artifact_type = ty, ar_artifact_id = ident, ar_external_identity = external, ar_created = created\<rparr>))))"

text \<open>Results written before artifacts existed carry bare reference ids.\<close>

definition legacy_artifact :: "json \<Rightarrow> (hub_error, artifact) result" where
  "legacy_artifact v = ebind (py_str v) (\<lambda>ref.
     mk_checked artifact_checks
       \<lparr>ar_artifact_type = AT_VENDOR_BILL, ar_artifact_id = ref, ar_external_identity = ref, ar_created = False\<rparr>)"

definition artifacts_from_step_result_data :: "json \<Rightarrow> (hub_error, artifact list) result" where
  "artifacts_from_step_result_data j = (case json_get j ''produced_artifacts'' of
     Some v \<Rightarrow> if py_bool v then ebind (py_iter v) (emap artifact_from_data) else Inr []
   | None \<Rightarrow>
       ebind (py_str (json_get_or_null j ''step_type'')) (\<lambda>ty.
       if ty = step_type_value ST_VENDOR_BILL
       then ebind (get_list j ''produced_reference_ids'') (emap legacy_artifact)
       else Inr []))"

definition step_result_to_data :: "step_result option \<Rightarrow> json" where
  "step_result_to_data v = (case v of None \<Rightarrow> JNull | Some r \<Rightarrow> JObj
     [(''step_key'', JStr (sr_step_key r)),
      (''step_type'', JStr (step_type_value (sr_step_type r))),
      (''status'', JStr (step_status_value (sr_status r))),
      (''dry_run'', JBool (sr_dry_run r)),
      (''message'', j_str (sr_message r)),
      (''warnings'', JList (map JStr (sr_warnings r))),
      (''produced_artifacts'', JList (map artifact_to_data (sr_produced_artifacts r))),
      (''error_code'', j_str (sr_error_code r))])"

definition step_result_from_data :: "json \<Rightarrow> (hub_error, step_result option) result" where
  "step_result_from_data j =
     (if j = JNull then Inr None
      else ebind (item_str j ''step_key'') (\<lambda>key.
        ebind (item_enum step_type_members step_type_value j ''step_type'') (\<lambda>ty.
        ebind (item_enum step_status_members step_status_value j ''status'') (\<lambda>status.
        ebind (item_bool j ''dry_run'') (\<lambda>dry.
        ebind (get_str j ''message'') (\<lambda>msg.
        ebind (get_strs j ''warnings'') (\<lambda>warnings.
        ebind (artifacts_from_step_result_data j) (\<lambda>artifacts.
        ebind (get_str j ''error_code'') (\<lambda>code.
        ebind (mk_checked step_result_checks
          \<lparr>sr_step_key = key, sr_step_type = ty, sr_status = status, sr_dry_run = dry, sr_message = msg,
           sr_warnings = warnings, sr_produced_artifacts = artifacts, sr_error_code = code\<rparr>)
          (\<lambda>r. Inr (Some r)))))))))))"

lemma artifact_roundtrip: "valid_by artifact_checks a \<Longrightarrow> artifact_from_data (artifact_to_data a) = Inr a"
  by (cases a) (simp add: artifact_from_data_def artifact_to_data_def reader_defs artifact_type_enum.of_value_value)

lemma step_result_roundtrip:
  assumes "pred_option valid_result v"
  shows "step_result_from_data (step_result_to_data v) = Inr v"
proof (cases v)
  case (Some r)
  with assms have r: "valid_by step_result_checks r"
    and arts: "emap artifact_from_data (map artifact_to_data (sr_produced_artifacts r)) = Inr (sr_produced_artifacts r)"
    by (auto simp: valid_result_def list_all_iff intro!: emap_inverse artifact_roundtrip)
  have "artifacts_from_step_result_data (step_result_to_data v) = Inr (sr_produced_artifacts r)"
    using arts by (simp add: Some artifacts_from_step_result_data_def step_result_to_data_def)
  with r show ?thesis
    by (cases r) (simp add: Some step_result_from_data_def step_result_to_data_def reader_defs
        step_type_enum.of_value_value step_status_enum.of_value_value)
qed (simp add: step_result_from_data_def step_result_to_data_def)

section \<open>The plan signature\<close>

definition plan_signature_step :: "execution_step \<Rightarrow> json" where
  "plan_signature_step s = JObj
     ([(''step_key'', JStr (st_step_key s)),
       (''step_type'', JStr (step_type_value (st_step_type s))),
       (''allocation_keys'', JList (map JStr (st_allocation_keys s))),
       (''sequence'', JInt (st_sequence s)),
       (''execute_supported'', JBool (st_execute_supported s)),
       (''writer_required'', JBool (st_writer_required s)),
       (''allocations'', JList (map allocation_to_data (st_allocations s))),
       (''customer_invoice_billing_instruction'', billing_instruction_to_data (st_billing_instruction s))]
      @ (case st_quotation_scenario_id s of None \<Rightarrow> []
         | Some scenario \<Rightarrow> [(''customer_quotation_scenario_id'', JStr scenario)]))"

definition plan_signature :: "execution_plan \<Rightarrow> string" where
  "plan_signature p = sha256_hexdigest (json_dumps (JObj
     [(''review_id'', JStr (pl_review_id p)),
      (''company_id'', JInt (pl_company_id p)),
      (''decision_version'', JInt (pl_decision_version p)),
      (''decision_id'', j_str (pl_decision_id p)),
      (''mode'', JStr (mode_value (pl_mode p))),
      (''steps'', JList (map plan_signature_step (pl_steps p)))]))"

definition plan_idempotency_key :: "execution_plan \<Rightarrow> (hub_error, string) result" where
  "plan_idempotency_key p = (case pl_idempotency_key p of
     None \<Rightarrow> Inl (ExecutionStateError ''Execution plan idempotency_key is required for persistence.'')
   | Some k \<Rightarrow> Inr k)"

end
