(* ===== verification/Exec_Repository.thy ===== *)
theory Exec_Repository
  imports Exec_Json
begin

text \<open>
  The durable execution store: \<^verbatim>\<open>SqlAlchemyExecutionRuntimeRepository\<close> of
  \<^verbatim>\<open>app/persistence/execution_runtime_repository.py\<close> over the tables of
  \<^verbatim>\<open>app/models/workflow_execution.py\<close>. A table is the list of its rows in insertion order. A nested
  transaction that fails leaves the tables as they were. Every writing operation takes the tables
  its reads see and the tables its writes act on, so that a concurrent session is visible; the
  operation of a single session uses the same tables for both. The generated event identifiers
  are arguments. Timestamps, column lengths and failures of the connection are not modelled.
\<close>

section \<open>Tables\<close>

record execution_row =
  we_execution_id :: string
  we_review_id :: string
  we_decision_version :: int
  we_company_id :: int
  we_state :: string
  we_mode :: string
  we_idempotency_key :: string
  we_plan_signature :: string
  we_plan :: json
  we_checkpoint :: json
  we_retry_policy :: json
  we_failure :: json
  we_current_step_key :: "string option"
  we_runtime_version :: int
  we_next_event_sequence :: int

record step_row =
  ws_execution_id :: string
  ws_step_key :: string
  ws_step_type :: string
  ws_sequence :: int
  ws_state :: string
  ws_allocation_keys :: "string list"
  ws_retry_count :: int
  ws_last_result :: json

record event_row =
  wv_event_id :: string
  wv_execution_id :: string
  wv_sequence :: int
  wv_event_type :: string
  wv_state :: string
  wv_step_key :: "string option"
  wv_step_type :: "string option"
  wv_data :: event_data

record execution_db =
  db_executions :: "execution_row list"
  db_steps :: "step_row list"
  db_events :: "event_row list"

text \<open>The unique and check constraints; a flush that would break one raises \<^verbatim>\<open>IntegrityError\<close>.\<close>

definition db_constraints :: "execution_db \<Rightarrow> bool" where
  "db_constraints db \<longleftrightarrow>
     distinct (map we_execution_id (db_executions db))
     \<and> distinct (map (\<lambda>e. (we_company_id e, we_idempotency_key e)) (db_executions db))
     \<and> list_all (\<lambda>e. 0 < we_company_id e \<and> 0 < we_decision_version e) (db_executions db)
     \<and> distinct (map (\<lambda>s. (ws_execution_id s, ws_step_key s)) (db_steps db))
     \<and> distinct (map (\<lambda>s. (ws_execution_id s, ws_sequence s)) (db_steps db))
     \<and> list_all (\<lambda>s. 0 < ws_sequence s \<and> 0 \<le> ws_retry_count s) (db_steps db)
     \<and> distinct (map wv_event_id (db_events db))
     \<and> distinct (map (\<lambda>e. (wv_execution_id e, wv_sequence e)) (db_events db))
     \<and> list_all (\<lambda>e. 0 < wv_sequence e) (db_events db)"

section \<open>Rows and objects\<close>

definition step_model_from_runtime_step :: "string \<Rightarrow> runtime_step \<Rightarrow> step_row" where
  "step_model_from_runtime_step execution_id s =
     \<lparr>ws_execution_id = execution_id, ws_step_key = rs_step_key s, ws_step_type = step_type_value (rs_step_type s),
      ws_sequence = rs_sequence s, ws_state = step_state_value (rs_state s), ws_allocation_keys = rs_allocation_keys s,
      ws_retry_count = rs_retry_count s, ws_last_result = step_result_to_data (rs_last_result s)\<rparr>"

definition runtime_step_from_model :: "step_row \<Rightarrow> (hub_error, runtime_step) result" where
  "runtime_step_from_model r =
     ebind (enum_of_value step_type_members step_type_value (ValueError ''not a valid enum value'') (ws_step_type r)) (\<lambda>ty.
     ebind (enum_of_value step_state_members step_state_value (ValueError ''not a valid enum value'') (ws_state r)) (\<lambda>state.
     ebind (step_result_from_data (ws_last_result r)) (\<lambda>last_result.
     mk_checked runtime_step_checks
       \<lparr>rs_step_key = ws_step_key r, rs_step_type = ty, rs_sequence = ws_sequence r, rs_state = state,
        rs_allocation_keys = ws_allocation_keys r, rs_retry_count = ws_retry_count r, rs_last_result = last_result\<rparr>)))"

definition execution_model_from_snapshot :: "snapshot \<Rightarrow> execution_row" where
  "execution_model_from_snapshot s =
     \<lparr>we_execution_id = sn_execution_id s, we_review_id = sn_review_id s, we_decision_version = sn_decision_version s,
      we_company_id = sn_company_id s, we_state = execution_state_value (sn_state s), we_mode = mode_value (sn_mode s),
      we_idempotency_key = sn_idempotency_key s, we_plan_signature = plan_signature (sn_plan s),
      we_plan = plan_to_data (sn_plan s), we_checkpoint = checkpoint_to_data (sn_checkpoint s),
      we_retry_policy = retry_policy_to_data (sn_retry_policy s), we_failure = failure_to_data (sn_failure s),
      we_current_step_key = cp_current_step_key (sn_checkpoint s), we_runtime_version = sn_runtime_version s,
      we_next_event_sequence = 1\<rparr>"

definition snapshot_from_model :: "execution_row \<times> step_row list \<Rightarrow> (hub_error, snapshot) result" where
  "snapshot_from_model rec = (case rec of (e, steps) \<Rightarrow>
     ebind (plan_from_data (we_plan e)) (\<lambda>plan.
     ebind (enum_of_value mode_members mode_value (ValueError ''not a valid enum value'') (we_mode e)) (\<lambda>mode.
     ebind (enum_of_value execution_state_members execution_state_value (ValueError ''not a valid enum value'')
              (we_state e)) (\<lambda>state.
     ebind (emap runtime_step_from_model (sort_key ws_sequence steps)) (\<lambda>runtime_steps.
     ebind (checkpoint_from_data (we_checkpoint e)) (\<lambda>checkpoint.
     ebind (retry_policy_from_data (we_retry_policy e)) (\<lambda>retry_policy.
     ebind (failure_from_data (we_failure e)) (\<lambda>failure.
     mk_checked snapshot_checks
       \<lparr>sn_execution_id = we_execution_id e, sn_review_id = we_review_id e, sn_company_id = we_company_id e,
        sn_decision_version = we_decision_version e, sn_mode = mode, sn_state = state,
        sn_idempotency_key = we_idempotency_key e, sn_plan = plan, sn_steps = runtime_steps,
        sn_checkpoint = checkpoint, sn_retry_policy = retry_policy, sn_runtime_version = we_runtime_version e,
        sn_failure = failure\<rparr>))))))))"

definition event_model_from_event :: "event \<Rightarrow> event_row" where
  "event_model_from_event e =
     \<lparr>wv_event_id = ev_event_id e, wv_execution_id = ev_execution_id e, wv_sequence = ev_sequence e,
      wv_event_type = event_type_value (ev_event_type e), wv_state = execution_state_value (ev_state e),
      wv_step_key = ev_step_key e, wv_step_type = map_option step_type_value (ev_step_type e), wv_data = ev_data e\<rparr>"

definition event_from_model :: "event_row \<Rightarrow> (hub_error, event) result" where
  "event_from_model r =
     ebind (enum_of_value event_type_members event_type_value (ValueError ''not a valid enum value'') (wv_event_type r)) (\<lambda>ty.
     ebind (enum_of_value execution_state_members execution_state_value (ValueError ''not a valid enum value'')
              (wv_state r)) (\<lambda>state.
     ebind (case wv_step_type r of None \<Rightarrow> Inr None
            | Some v \<Rightarrow> ebind (enum_of_value step_type_members step_type_value (ValueError ''not a valid enum value'') v)
                (\<lambda>t. Inr (Some t))) (\<lambda>step_type.
     mk_checked event_checks
       \<lparr>ev_event_id = wv_event_id r, ev_execution_id = wv_execution_id r, ev_event_type = ty,
        ev_sequence = wv_sequence r, ev_state = state, ev_step_key = wv_step_key r, ev_step_type = step_type,
        ev_data = wv_data r\<rparr>)))"

section \<open>Reads\<close>

definition execution_record :: "execution_db \<Rightarrow> string \<Rightarrow> (execution_row \<times> step_row list) option" where
  "execution_record db execution_id =
     map_option (\<lambda>e. (e, filter (\<lambda>s. ws_execution_id s = execution_id) (db_steps db)))
       (find (\<lambda>e. we_execution_id e = execution_id) (db_executions db))"

definition read_optional ::
    "(execution_row \<times> step_row list) option \<Rightarrow> (hub_error, snapshot option) result" where
  "read_optional rec = (case rec of None \<Rightarrow> Inr None | Some r \<Rightarrow> ebind (snapshot_from_model r) (\<lambda>s. Inr (Some s)))"

definition get_snapshot :: "execution_db \<Rightarrow> string \<Rightarrow> (hub_error, snapshot option) result" where
  "get_snapshot db execution_id = read_optional (execution_record db execution_id)"

text \<open>The steps relationship of a row that was found some other way.\<close>

definition with_steps :: "execution_db \<Rightarrow> execution_row \<Rightarrow> execution_row \<times> step_row list" where
  "with_steps db e = (e, filter (\<lambda>s. ws_execution_id s = we_execution_id e) (db_steps db))"

definition get_by_idempotency_key :: "execution_db \<Rightarrow> int \<Rightarrow> string \<Rightarrow> (hub_error, snapshot option) result" where
  "get_by_idempotency_key db company_id idempotency_key = read_optional (map_option (with_steps db)
     (find (\<lambda>e. we_company_id e = company_id \<and> we_idempotency_key e = idempotency_key) (db_executions db)))"

text \<open>The highest decision version first, then the youngest row.\<close>

definition find_latest_snapshot_for_review ::
    "execution_db \<Rightarrow> string \<Rightarrow> int \<Rightarrow> (hub_error, snapshot option) result" where
  "find_latest_snapshot_for_review db review_id company_id =
     (let rows = filter (\<lambda>e. we_company_id e = company_id \<and> we_review_id e = review_id
                    \<and> we_mode e = mode_value EXECUTE) (db_executions db)
      in case sort_key (\<lambda>e. - we_decision_version e) (rev rows) of
           [] \<Rightarrow> Inr None | e # _ \<Rightarrow> read_optional (Some (with_steps db e)))"

definition db_history :: "execution_db \<Rightarrow> string \<Rightarrow> (hub_error, exec_history) result" where
  "db_history db execution_id =
     ebind (emap event_from_model
              (sort_key wv_sequence (filter (\<lambda>e. wv_execution_id e = execution_id) (db_events db)))) (\<lambda>events.
     mk_checked history_checks \<lparr>hi_execution_id = execution_id, hi_events = events\<rparr>)"

definition get_checkpoint :: "execution_db \<Rightarrow> string \<Rightarrow> (hub_error, checkpoint option) result" where
  "get_checkpoint db execution_id = (case execution_record db execution_id of
     None \<Rightarrow> Inr None
   | Some (e, _) \<Rightarrow> ebind (checkpoint_from_data (we_checkpoint e)) (\<lambda>c. Inr (Some c)))"

section \<open>Events\<close>

definition assign_event_sequences :: "string \<Rightarrow> int \<Rightarrow> event_draft list \<Rightarrow> (hub_error, event list) result" where
  "assign_event_sequences execution_id first_sequence drafts =
     emap (\<lambda>(index, d). mk_checked event_checks
       \<lparr>ev_event_id = ed_event_id d, ev_execution_id = execution_id, ev_event_type = ed_event_type d,
        ev_sequence = first_sequence + int index, ev_state = ed_state d, ev_step_key = ed_step_key d,
        ev_step_type = ed_step_type d, ev_data = ed_data d\<rparr>) (enumerate 0 drafts)"

definition event_draft_of :: "string \<Rightarrow> string \<Rightarrow> event_type \<Rightarrow> execution_state \<Rightarrow> (hub_error, event_draft) result" where
  "event_draft_of event_id execution_id ty state = mk_checked event_draft_checks
     \<lparr>ed_event_id = event_id, ed_execution_id = execution_id, ed_event_type = ty, ed_state = state,
      ed_step_key = None, ed_step_type = None, ed_data = []\<rparr>"

definition checkpoint_with_last_event_id :: "checkpoint \<Rightarrow> string \<Rightarrow> (hub_error, checkpoint) result" where
  "checkpoint_with_last_event_id c last_event_id = mk_checked checkpoint_checks (c\<lparr>cp_last_event_id := Some last_event_id\<rparr>)"

section \<open>Creating an execution\<close>

definition initial_runtime_step :: "execution_step \<Rightarrow> runtime_step" where
  "initial_runtime_step s =
     \<lparr>rs_step_key = st_step_key s, rs_step_type = st_step_type s, rs_sequence = st_sequence s, rs_state = RS_PENDING,
      rs_allocation_keys = st_allocation_keys s, rs_retry_count = 0, rs_last_result = None\<rparr>"

definition snapshot_from_plan :: "execution_plan \<Rightarrow> retry_policy \<Rightarrow> (hub_error, snapshot) result" where
  "snapshot_from_plan p retry =
     ebind (plan_idempotency_key p) (\<lambda>key.
     ebind (emap (\<lambda>s. mk_checked runtime_step_checks (initial_runtime_step s)) (pl_steps p)) (\<lambda>steps.
     ebind (mk_checked checkpoint_checks
       \<lparr>cp_execution_id = pl_execution_id p, cp_completed_step_keys = [], cp_failed_step_key = None,
        cp_current_step_key = Some (rs_step_key (hd steps)), cp_retry_count = 0, cp_last_event_id = None\<rparr>) (\<lambda>checkpoint.
     mk_checked snapshot_checks
       \<lparr>sn_execution_id = pl_execution_id p, sn_review_id = pl_review_id p, sn_company_id = pl_company_id p,
        sn_decision_version = pl_decision_version p, sn_mode = pl_mode p, sn_state = X_PLANNED,
        sn_idempotency_key = key, sn_plan = p, sn_steps = steps, sn_checkpoint = checkpoint, sn_retry_policy = retry,
        sn_runtime_version = 1, sn_failure = None\<rparr>)))"

text \<open>The tables with the rows of a new execution; the two identifiers are those of its events.\<close>

definition insert_execution :: "string \<Rightarrow> string \<Rightarrow> snapshot \<Rightarrow> execution_db \<Rightarrow> (hub_error, execution_db) result" where
  "insert_execution id1 id2 sn db =
     ebind (event_draft_of id1 (sn_execution_id sn) EV_EXECUTION_CREATED X_NEW) (\<lambda>created.
     ebind (event_draft_of id2 (sn_execution_id sn) EV_PLANNING_COMPLETED X_PLANNED) (\<lambda>planned.
     ebind (assign_event_sequences (sn_execution_id sn) (we_next_event_sequence (execution_model_from_snapshot sn))
              [created, planned]) (\<lambda>events.
     ebind (checkpoint_with_last_event_id (sn_checkpoint sn) (ev_event_id (last events))) (\<lambda>checkpoint.
     let row = execution_model_from_snapshot sn in
     Inr \<lparr>db_executions = db_executions db @
            [row\<lparr>we_next_event_sequence := we_next_event_sequence row + int (length events),
                 we_checkpoint := checkpoint_to_data checkpoint\<rparr>],
          db_steps = db_steps db @ map (step_model_from_runtime_step (sn_execution_id sn)) (sn_steps sn),
          db_events = db_events db @ map event_model_from_event events\<rparr>))))"

definition idempotent_existing :: "execution_db \<Rightarrow> execution_plan \<Rightarrow> string \<Rightarrow> (hub_error, snapshot) result" where
  "idempotent_existing db p key = (case get_by_idempotency_key db (pl_company_id p) key of
     Inl e \<Rightarrow> Inl e
   | Inr (Some existing) \<Rightarrow>
       if plan_signature (sn_plan existing) = plan_signature p then Inr existing
       else Inl (ExecutionIdempotencyConflictError ''Execution idempotency key conflicts with an execution.'')
   | Inr None \<Rightarrow> Inl (ExecutionIdempotencyConflictError ''Execution idempotency key conflicts with an execution.''))"

definition snapshot_or :: "snapshot \<Rightarrow> (hub_error, snapshot option) result \<Rightarrow> (hub_error, snapshot) result" where
  "snapshot_or s r = ebind r (\<lambda>v. Inr (case v of None \<Rightarrow> s | Some s' \<Rightarrow> s'))"

definition create_from_plan_at ::
    "execution_db \<Rightarrow> string \<Rightarrow> string \<Rightarrow> execution_plan \<Rightarrow> retry_policy \<Rightarrow> (execution_db, hub_error, snapshot) action" where
  "create_from_plan_at read_db id1 id2 p retry db =
     (case plan_idempotency_key p of
        Inl e \<Rightarrow> (Inl e, db)
      | Inr key \<Rightarrow>
          (case get_by_idempotency_key read_db (pl_company_id p) key of
             Inl e \<Rightarrow> (Inl e, db)
           | Inr (Some existing) \<Rightarrow>
               if plan_signature (sn_plan existing) \<noteq> plan_signature p
               then (Inl (ExecutionIdempotencyConflictError ''Execution idempotency key conflicts with a plan.''), db)
               else (Inr existing, db)
           | Inr None \<Rightarrow>
               (case ebind (snapshot_from_plan p retry) (\<lambda>sn. ebind (insert_execution id1 id2 sn db) (\<lambda>db'. Inr (sn, db'))) of
                  Inl e \<Rightarrow> (Inl e, db)
                | Inr (sn, db') \<Rightarrow>
                    if db_constraints db' then (snapshot_or sn (get_snapshot db' (pl_execution_id p)), db')
                    else (idempotent_existing db p key, db))))"

definition create_from_plan ::
    "string \<Rightarrow> string \<Rightarrow> execution_plan \<Rightarrow> retry_policy \<Rightarrow> (execution_db, hub_error, snapshot) action" where
  "create_from_plan id1 id2 p retry db = create_from_plan_at db id1 id2 p retry db"

section \<open>Persisting a transition\<close>

definition update_execution_row :: "snapshot \<Rightarrow> checkpoint \<Rightarrow> int \<Rightarrow> int \<Rightarrow> execution_row \<Rightarrow> execution_row" where
  "update_execution_row sn checkpoint expected next_sequence e =
     e\<lparr>we_state := execution_state_value (sn_state sn),
       we_mode := mode_value (sn_mode sn),
       we_checkpoint := checkpoint_to_data checkpoint,
       we_retry_policy := retry_policy_to_data (sn_retry_policy sn),
       we_failure := failure_to_data (sn_failure sn),
       we_current_step_key := cp_current_step_key checkpoint,
       we_runtime_version := expected + 1,
       we_next_event_sequence := next_sequence\<rparr>"

definition update_step_row :: "string \<Rightarrow> runtime_step \<Rightarrow> step_row list \<Rightarrow> step_row list" where
  "update_step_row execution_id s rows = map (\<lambda>r.
     if ws_execution_id r = execution_id \<and> ws_step_key r = rs_step_key s
     then r\<lparr>ws_state := step_state_value (rs_state s), ws_retry_count := rs_retry_count s,
            ws_last_result := step_result_to_data (rs_last_result s)\<rparr>
     else r) rows"

definition persist_transition_at ::
    "execution_db \<Rightarrow> snapshot \<Rightarrow> event_draft list \<Rightarrow> int \<Rightarrow> (execution_db, hub_error, snapshot) action" where
  "persist_transition_at read_db sn drafts expected db =
     (if drafts = [] then (Inl (ExecutionStateError ''Execution transition requires at least one event.''), db)
      else case execution_record read_db (sn_execution_id sn) of
        None \<Rightarrow> (Inl (ExecutionStateError ''Execution runtime was not found.''), db)
      | Some (e, steps) \<Rightarrow>
          if we_runtime_version e \<noteq> expected
          then (Inl (ExecutionConcurrencyConflictError ''Execution runtime snapshot is stale.''), db)
          else case ebind (assign_event_sequences (sn_execution_id sn) (we_next_event_sequence e) drafts) (\<lambda>events.
                    ebind (checkpoint_with_last_event_id (sn_checkpoint sn) (ev_event_id (last events))) (\<lambda>checkpoint.
                    Inr (events, checkpoint))) of
            Inl err \<Rightarrow> (Inl err, db)
          | Inr (events, checkpoint) \<Rightarrow>
              let sel = (\<lambda>x. we_execution_id x = sn_execution_id sn \<and> we_runtime_version x = expected);
                  next_sequence = we_next_event_sequence e + int (length events) in
              if length (filter sel (db_executions db)) \<noteq> 1
              then (Inl (ExecutionConcurrencyConflictError ''Execution runtime snapshot is stale.''), db)
              else (case find (\<lambda>s. rs_step_key s \<notin> set (map ws_step_key steps)) (sn_steps sn) of
                  Some s \<Rightarrow> (Inl (KeyError (rs_step_key s)), db)
                | None \<Rightarrow>
                    let db' = \<lparr>db_executions = map (\<lambda>x. if sel x then update_execution_row sn checkpoint expected next_sequence x else x)
                                 (db_executions db),
                               db_steps = fold (update_step_row (sn_execution_id sn)) (sn_steps sn) (db_steps db),
                               db_events = db_events db @ map event_model_from_event events\<rparr> in
                    if db_constraints db' then (snapshot_or sn (get_snapshot db' (sn_execution_id sn)), db')
                    else (Inl (ExecutionPersistenceError ''Execution runtime persistence operation failed.''), db)))"

definition persist_transition ::
    "snapshot \<Rightarrow> event_draft list \<Rightarrow> int \<Rightarrow> (execution_db, hub_error, snapshot) action" where
  "persist_transition sn drafts expected db = persist_transition_at db sn drafts expected db"

section \<open>Round trips\<close>

definition valid_runtime_step :: "runtime_step \<Rightarrow> bool" where
  "valid_runtime_step s \<longleftrightarrow> valid_by runtime_step_checks s \<and> pred_option valid_result (rs_last_result s)"

definition valid_snapshot :: "snapshot \<Rightarrow> bool" where
  "valid_snapshot s \<longleftrightarrow> valid_by snapshot_checks s \<and> valid_plan (sn_plan s)
     \<and> list_all valid_runtime_step (sn_steps s) \<and> valid_by checkpoint_checks (sn_checkpoint s)
     \<and> valid_by retry_policy_checks (sn_retry_policy s) \<and> pred_option (valid_by failure_checks) (sn_failure s)"

text \<open>The steps are in sequence order, with distinct keys and numbers.\<close>

definition ordered_steps :: "runtime_step list \<Rightarrow> bool" where
  "ordered_steps ss \<longleftrightarrow> distinct (map rs_step_key ss) \<and> distinct (map rs_sequence ss) \<and> sorted (map rs_sequence ss)"

lemma runtime_step_roundtrip:
  "valid_runtime_step s \<Longrightarrow> runtime_step_from_model (step_model_from_runtime_step i s) = Inr s"
  by (cases s) (simp add: runtime_step_from_model_def step_model_from_runtime_step_def step_result_roundtrip
      step_type_enum.of_value_value step_state_enum.of_value_value valid_runtime_step_def)

lemma snapshot_roundtrip:
  assumes "valid_snapshot s" "ordered_steps (sn_steps s)"
  shows "snapshot_from_model ((execution_model_from_snapshot s)\<lparr>we_next_event_sequence := n\<rparr>,
    map (step_model_from_runtime_step (sn_execution_id s)) (sn_steps s)) = Inr s"
proof -
  have "sort_key ws_sequence (map (step_model_from_runtime_step (sn_execution_id s)) (sn_steps s))
      = map (step_model_from_runtime_step (sn_execution_id s)) (sn_steps s)"
    using assms(2) by (intro sort_key_sorted_id) (simp add: ordered_steps_def comp_def step_model_from_runtime_step_def)
  moreover have "emap runtime_step_from_model (map (step_model_from_runtime_step (sn_execution_id s)) (sn_steps s))
      = Inr (sn_steps s)"
    using assms(1) by (auto simp: valid_snapshot_def list_all_iff intro!: emap_inverse runtime_step_roundtrip)
  ultimately show ?thesis
    using assms(1)
    by (cases s) (simp add: snapshot_from_model_def execution_model_from_snapshot_def valid_snapshot_def plan_roundtrip
        checkpoint_roundtrip retry_policy_roundtrip failure_roundtrip mode_enum.of_value_value
        execution_state_enum.of_value_value)
qed

lemma event_roundtrip: "valid_by event_checks e \<Longrightarrow> event_from_model (event_model_from_event e) = Inr e"
  by (cases e, cases "ev_step_type e")
     (simp_all add: event_from_model_def event_model_from_event_def event_type_enum.of_value_value
       execution_state_enum.of_value_value step_type_enum.of_value_value)

end
