(* ===== verification/Exec_Coordinator.thy ===== *)
theory Exec_Coordinator
  imports Exec_Strategy Exec_Repository
begin

text \<open>
  The runtime service and the coordinator that drives durable executions:
  \<^verbatim>\<open>app/application/execution/runtime_service.py\<close>. The coordinator object holds the repository port,
  of which it calls \<^verbatim>\<open>get_snapshot\<close> and \<^verbatim>\<open>persist_transition\<close>, and the strategy resolver; its
  methods act on the store behind the port, the supply of identifiers that \<^verbatim>\<open>uuid4\<close> returns one
  after the other, and the outside world of the strategies.
\<close>

section \<open>Environment\<close>

record ('s, 'w) env =
  en_store :: 's
  en_uuid :: nat
  en_world :: 'w

record ('s, 'w) coordinator =
  co_get_snapshot :: "'s \<Rightarrow> string \<Rightarrow> (hub_error, snapshot option) result"
  co_persist_transition :: "snapshot \<Rightarrow> event_draft list \<Rightarrow> int \<Rightarrow> ('s, hub_error, snapshot) action"
  co_strategy_resolver :: "'w resolver"
  co_uuid4 :: "nat \<Rightarrow> string"

definition on_store :: "('s, hub_error, 'a) action \<Rightarrow> (('s, 'w) env, hub_error, 'a) action" where
  "on_store m e = (case m (en_store e) of (r, s) \<Rightarrow> (r, e\<lparr>en_store := s\<rparr>))"

definition on_world :: "('w, hub_error, 'a) action \<Rightarrow> (('s, 'w) env, hub_error, 'a) action" where
  "on_world m e = (case m (en_world e) of (r, w) \<Rightarrow> (r, e\<lparr>en_world := w\<rparr>))"

section \<open>Events\<close>

definition event_data_of :: "step_result option \<Rightarrow> event_data" where
  "event_data_of result = (case result of None \<Rightarrow> []
   | Some r \<Rightarrow> [(''status'', JStr (step_status_value (sr_status r))), (''dry_run'', JBool (sr_dry_run r)),
        (''error_code'', j_opt JStr (sr_error_code r)), (''message'', j_opt JStr (sr_message r))])"

definition event_identifier :: "('s, 'w) coordinator \<Rightarrow> nat \<Rightarrow> string" where
  "event_identifier co n = ''execution-event:'' @ co_uuid4 co n"

definition runtime_event ::
    "('s, 'w) coordinator \<Rightarrow> string \<Rightarrow> event_type \<Rightarrow> execution_state \<Rightarrow> runtime_step option \<Rightarrow> step_result option \<Rightarrow>
     (('s, 'w) env, hub_error, event_draft) action" where
  "runtime_event co execution_id ty state step result e =
     (mk_checked event_draft_checks
        \<lparr>ed_event_id = event_identifier co (en_uuid e), ed_execution_id = execution_id, ed_event_type = ty,
         ed_state = state, ed_step_key = map_option rs_step_key step, ed_step_type = map_option rs_step_type step,
         ed_data = event_data_of result\<rparr>,
      e\<lparr>en_uuid := Suc (en_uuid e)\<rparr>)"

section \<open>Questions about a snapshot\<close>

definition pending_steps :: "snapshot \<Rightarrow> runtime_step list" where
  "pending_steps sn = filter (\<lambda>s. rs_step_key s \<notin> set (cp_completed_step_keys (sn_checkpoint sn)) \<and> rs_state s \<noteq> RS_COMPLETED)
     (sort_key rs_sequence (sn_steps sn))"

definition all_steps_completed :: "snapshot \<Rightarrow> bool" where
  "all_steps_completed sn = list_all (\<lambda>s. rs_state s = RS_COMPLETED) (sn_steps sn)"

definition should_retry :: "retry_policy \<Rightarrow> int \<Rightarrow> bool" where
  "should_retry p retry_count \<longleftrightarrow> rp_policy_type p \<noteq> RP_NEVER \<and> retry_count < rp_max_attempts p"

text \<open>Python's \<^verbatim>\<open>or\<close> on an optional text: absent and empty both give the default.\<close>

definition text_or :: "string option \<Rightarrow> string \<Rightarrow> string" where
  "text_or v d = (case v of None \<Rightarrow> d | Some s \<Rightarrow> if s = [] then d else s)"

definition failure_from_result :: "step_result \<Rightarrow> (hub_error, execution_failure) result" where
  "failure_from_result r = mk_checked failure_checks
     \<lparr>fl_step_key = Some (sr_step_key r), fl_error_code = text_or (sr_error_code r) (step_status_value (sr_status r)),
      fl_safe_message = text_or (sr_message r) ''Execution step failed safely.''\<rparr>"

definition next_step_key :: "snapshot \<Rightarrow> string list \<Rightarrow> string option" where
  "next_step_key sn completed_step_keys = map_option rs_step_key
     (find (\<lambda>s. rs_step_key s \<notin> set completed_step_keys) (sort_key rs_sequence (sn_steps sn)))"

definition execution_status_of :: "snapshot \<Rightarrow> execution_status" where
  "execution_status_of sn =
     (if sn_state sn = X_COMPLETED \<and> sn_mode sn = DRY_RUN then XS_DRY_RUN_COMPLETED
      else if sn_state sn = X_COMPLETED then XS_EXECUTED
      else if sn_state sn = X_FAILED then XS_FAILED
      else if sn_state sn = X_CANCELLED then XS_CANCELLED
      else XS_PLANNED)"

definition last_results :: "snapshot \<Rightarrow> step_result list" where
  "last_results sn = List.map_filter rs_last_result (sn_steps sn)"

definition result_from_snapshot :: "snapshot \<Rightarrow> step_result list \<Rightarrow> (hub_error, execution_result) result" where
  "result_from_snapshot sn step_results = mk_checked execution_result_checks
     \<lparr>xr_execution_id = sn_execution_id sn, xr_status = execution_status_of sn,
      xr_step_results = (if step_results = [] then last_results sn else step_results),
      xr_warnings = pl_warnings (sn_plan sn)\<rparr>"

section \<open>New snapshots\<close>

text \<open>The outer option is the \<^verbatim>\<open>_MISSING\<close> default of \<^verbatim>\<open>current_step_key\<close>.\<close>

definition replace_snapshot :: "snapshot \<Rightarrow> execution_state \<Rightarrow> string option option \<Rightarrow> (hub_error, snapshot) result" where
  "replace_snapshot sn state current_step_key =
     ebind (case current_step_key of None \<Rightarrow> Inr (sn_checkpoint sn)
            | Some c \<Rightarrow> mk_checked checkpoint_checks ((sn_checkpoint sn)\<lparr>cp_current_step_key := c\<rparr>)) (\<lambda>checkpoint.
     mk_checked snapshot_checks (sn\<lparr>sn_state := state, sn_checkpoint := checkpoint\<rparr>))"

text \<open>The keyword arguments of \<^verbatim>\<open>_replace_step\<close>.\<close>

record step_change =
  sc_step_key :: string
  sc_state :: runtime_step_state
  sc_result :: "step_result option"
  sc_retry_count :: "int option"
  sc_completed_step_keys :: "string list option"
  sc_current_step_key :: "string option"
  sc_state_override :: "execution_state option"
  sc_failed_step_key :: "string option"
  sc_failure :: "execution_failure option"

definition changed_step :: "step_change \<Rightarrow> runtime_step \<Rightarrow> runtime_step" where
  "changed_step c s = s\<lparr>rs_state := sc_state c,
     rs_retry_count := (case sc_retry_count c of Some n \<Rightarrow> n | None \<Rightarrow> rs_retry_count s),
     rs_last_result := (case sc_result c of Some r \<Rightarrow> Some r | None \<Rightarrow> rs_last_result s)\<rparr>"

definition replace_step :: "snapshot \<Rightarrow> step_change \<Rightarrow> (hub_error, snapshot) result" where
  "replace_step sn c =
     ebind (emap (\<lambda>s. if rs_step_key s = sc_step_key c then mk_checked runtime_step_checks (changed_step c s) else Inr s)
       (sn_steps sn)) (\<lambda>steps.
     ebind (mk_checked checkpoint_checks
       \<lparr>cp_execution_id = sn_execution_id sn,
        cp_completed_step_keys = (case sc_completed_step_keys c of
            Some (k # ks) \<Rightarrow> k # ks | _ \<Rightarrow> cp_completed_step_keys (sn_checkpoint sn)),
        cp_failed_step_key = sc_failed_step_key c, cp_current_step_key = sc_current_step_key c,
        cp_retry_count = (case sc_retry_count c of Some n \<Rightarrow> n | None \<Rightarrow> cp_retry_count (sn_checkpoint sn)),
        cp_last_event_id = cp_last_event_id (sn_checkpoint sn)\<rparr>) (\<lambda>checkpoint.
     let target = (case sc_state_override c of Some t \<Rightarrow> t | None \<Rightarrow> sn_state sn) in
     ebind (if target \<noteq> sn_state sn then assert_legal_transition (sn_state sn) target else Inr ()) (\<lambda>_.
     mk_checked snapshot_checks (sn\<lparr>sn_state := target, sn_steps := steps, sn_checkpoint := checkpoint,
       sn_failure := (case sc_failure c of Some f \<Rightarrow> Some f | None \<Rightarrow> sn_failure sn)\<rparr>))))"

section \<open>The coordinator\<close>

definition co_start :: "('s, 'w) coordinator \<Rightarrow> snapshot \<Rightarrow> (('s, 'w) env, hub_error, snapshot) action" where
  "co_start co sn =
     (if sn_state sn = X_RUNNING then act_return sn
      else
        act_bind (act_lift (assert_legal_transition (sn_state sn) X_RUNNING)) (\<lambda>_.
        act_bind (act_lift (replace_snapshot sn X_RUNNING None)) (\<lambda>next_snapshot.
        act_bind (runtime_event co (sn_execution_id next_snapshot) EV_EXECUTION_STARTED X_RUNNING None None) (\<lambda>event.
        on_store (co_persist_transition co next_snapshot [event] (sn_runtime_version sn))))))"

definition mark_step_running ::
    "('s, 'w) coordinator \<Rightarrow> snapshot \<Rightarrow> runtime_step \<Rightarrow> (('s, 'w) env, hub_error, snapshot) action" where
  "mark_step_running co sn step =
     act_bind (act_lift (replace_step sn
       \<lparr>sc_step_key = rs_step_key step, sc_state = RS_RUNNING, sc_result = None, sc_retry_count = None,
        sc_completed_step_keys = None, sc_current_step_key = Some (rs_step_key step), sc_state_override = None,
        sc_failed_step_key = None, sc_failure = None\<rparr>)) (\<lambda>next_snapshot.
     act_bind (runtime_event co (sn_execution_id next_snapshot) EV_STEP_STARTED X_RUNNING (Some step) None) (\<lambda>event.
     on_store (co_persist_transition co next_snapshot [event] (sn_runtime_version sn))))"

definition snapshot_step_request ::
    "snapshot \<Rightarrow> execution_step \<Rightarrow> execution_approval option \<Rightarrow> (hub_error, step_request) result" where
  "snapshot_step_request sn plan_step approval = mk_checked step_request_checks
     \<lparr>sq_execution_id = sn_execution_id sn, sq_review_id = sn_review_id sn, sq_company_id = sn_company_id sn,
      sq_decision_version = sn_decision_version sn, sq_mode = sn_mode sn, sq_step = plan_step, sq_approval = approval,
      sq_decision_id = pl_decision_id (sn_plan sn)\<rparr>"

definition execute_step ::
    "('s, 'w) coordinator \<Rightarrow> execution_approval option \<Rightarrow> snapshot \<Rightarrow> runtime_step \<Rightarrow>
     (('s, 'w) env, hub_error, step_result) action" where
  "execute_step co approval sn step =
     (case find (\<lambda>p. st_step_key p = rs_step_key step) (pl_steps (sn_plan sn)) of
        None \<Rightarrow> act_raise StopIteration
      | Some plan_step \<Rightarrow>
          act_bind (act_lift (resolve (co_strategy_resolver co) (st_step_type plan_step))) (\<lambda>strategy.
          act_bind (act_lift (snapshot_step_request sn plan_step approval)) (\<lambda>request.
          on_world (sg_execute strategy request))))"

definition mark_step_completed ::
    "('s, 'w) coordinator \<Rightarrow> snapshot \<Rightarrow> runtime_step \<Rightarrow> step_result \<Rightarrow> (('s, 'w) env, hub_error, snapshot) action" where
  "mark_step_completed co sn step result =
     (let completed = cp_completed_step_keys (sn_checkpoint sn) @ [rs_step_key step] in
      act_bind (act_lift (replace_step sn
        \<lparr>sc_step_key = rs_step_key step, sc_state = RS_COMPLETED, sc_result = Some result, sc_retry_count = None,
         sc_completed_step_keys = Some completed, sc_current_step_key = next_step_key sn completed,
         sc_state_override = None, sc_failed_step_key = None, sc_failure = None\<rparr>)) (\<lambda>next_snapshot.
      act_bind (runtime_event co (sn_execution_id next_snapshot) EV_STEP_COMPLETED X_RUNNING (Some step) (Some result)) (\<lambda>event.
      on_store (co_persist_transition co next_snapshot [event] (sn_runtime_version sn)))))"

text \<open>The two branches of \<^verbatim>\<open>_handle_failure\<close>, which differ in the states and the second event.\<close>

definition record_failure ::
    "('s, 'w) coordinator \<Rightarrow> snapshot \<Rightarrow> runtime_step \<Rightarrow> step_result \<Rightarrow> runtime_step_state \<Rightarrow> execution_state \<Rightarrow> event_type \<Rightarrow>
     (('s, 'w) env, hub_error, snapshot) action" where
  "record_failure co sn step result step_state state ty =
     act_bind (act_lift (ebind (failure_from_result result) (\<lambda>failure. replace_step sn
       \<lparr>sc_step_key = rs_step_key step, sc_state = step_state, sc_result = Some result,
        sc_retry_count = Some (rs_retry_count step + 1), sc_completed_step_keys = None,
        sc_current_step_key = Some (rs_step_key step), sc_state_override = Some state,
        sc_failed_step_key = Some (rs_step_key step), sc_failure = Some failure\<rparr>))) (\<lambda>next_snapshot.
     act_bind (runtime_event co (sn_execution_id next_snapshot) EV_STEP_FAILED X_RUNNING (Some step) (Some result)) (\<lambda>failed.
     act_bind (runtime_event co (sn_execution_id next_snapshot) ty state (Some step) (Some result)) (\<lambda>event.
     on_store (co_persist_transition co next_snapshot [failed, event] (sn_runtime_version sn)))))"

definition handle_failure ::
    "('s, 'w) coordinator \<Rightarrow> snapshot \<Rightarrow> runtime_step \<Rightarrow> step_result \<Rightarrow> (('s, 'w) env, hub_error, snapshot) action" where
  "handle_failure co sn step result =
     (if should_retry (sn_retry_policy sn) (rs_retry_count step + 1)
      then record_failure co sn step result RS_WAITING_RETRY X_WAITING_RETRY EV_RETRY_SCHEDULED
      else record_failure co sn step result RS_FAILED X_FAILED EV_EXECUTION_FAILED)"

definition co_complete :: "('s, 'w) coordinator \<Rightarrow> snapshot \<Rightarrow> (('s, 'w) env, hub_error, snapshot) action" where
  "co_complete co sn =
     act_bind (act_lift (assert_legal_transition (sn_state sn) X_COMPLETED)) (\<lambda>_.
     act_bind (act_lift (replace_snapshot sn X_COMPLETED (Some None))) (\<lambda>next_snapshot.
     act_bind (runtime_event co (sn_execution_id next_snapshot) EV_EXECUTION_COMPLETED X_COMPLETED None None) (\<lambda>event.
     on_store (co_persist_transition co next_snapshot [event] (sn_runtime_version sn)))))"

text \<open>The loop over the steps that were pending when it began.\<close>

fun run_steps ::
    "('s, 'w) coordinator \<Rightarrow> execution_approval option \<Rightarrow> runtime_step list \<Rightarrow> snapshot \<Rightarrow> step_result list \<Rightarrow>
     (('s, 'w) env, hub_error, snapshot \<times> step_result list) action" where
  "run_steps co approval [] sn results = act_return (sn, results)"
| "run_steps co approval (step # steps) sn results =
     act_bind (mark_step_running co sn step) (\<lambda>sn1.
     act_bind (execute_step co approval sn1 step) (\<lambda>result.
     if is_failure result
     then act_bind (handle_failure co sn1 step result) (\<lambda>sn2.
          if sn_state sn2 \<in> {X_WAITING_RETRY, X_FAILED} then act_return (sn2, results @ [result])
          else run_steps co approval steps sn2 (results @ [result]))
     else act_bind (mark_step_completed co sn1 step result) (\<lambda>sn2.
          run_steps co approval steps sn2 (results @ [result]))))"

definition co_execute ::
    "('s, 'w) coordinator \<Rightarrow> execution_approval option \<Rightarrow> snapshot \<Rightarrow> (('s, 'w) env, hub_error, execution_result) action" where
  "co_execute co approval sn =
     (if sn_state sn \<in> {X_COMPLETED, X_FAILED, X_CANCELLED} then act_lift (result_from_snapshot sn [])
      else
        act_bind (co_start co sn) (\<lambda>sn1.
        act_bind (run_steps co approval (pending_steps sn1) sn1 (last_results sn1)) (\<lambda>(sn2, results).
        act_bind (if sn_state sn2 = X_RUNNING \<and> all_steps_completed sn2 then co_complete co sn2 else act_return sn2) (\<lambda>sn3.
        act_lift (result_from_snapshot sn3 results)))))"

definition co_resume ::
    "('s, 'w) coordinator \<Rightarrow> execution_approval option \<Rightarrow> string \<Rightarrow> (('s, 'w) env, hub_error, execution_result) action" where
  "co_resume co approval execution_id e =
     (case co_get_snapshot co (en_store e) execution_id of
        Inl err \<Rightarrow> (Inl err, e)
      | Inr None \<Rightarrow> (Inl (ExecutionNotFoundError ''Execution runtime was not found.''), e)
      | Inr (Some sn) \<Rightarrow> co_execute co approval sn e)"

section \<open>The runtime service\<close>

definition static_retry_policy :: "retry_policy option \<Rightarrow> (hub_error, retry_policy) result" where
  "static_retry_policy policy = (case policy of Some p \<Rightarrow> Inr p | None \<Rightarrow> retry_never)"

text \<open>Creating draws two identifiers, one per event.\<close>

definition create_or_load ::
    "('s, 'w) coordinator \<Rightarrow> (string \<Rightarrow> string \<Rightarrow> execution_plan \<Rightarrow> retry_policy \<Rightarrow> ('s, hub_error, snapshot) action) \<Rightarrow>
     ('s \<Rightarrow> string \<Rightarrow> (hub_error, exec_history) result) \<Rightarrow> execution_plan \<Rightarrow> retry_policy \<Rightarrow>
     (('s, 'w) env, hub_error, runtime) action" where
  "create_or_load co create history plan retry_policy =
     act_bind (\<lambda>e. on_store (create (event_identifier co (en_uuid e)) (event_identifier co (Suc (en_uuid e))) plan retry_policy)
                 (e\<lparr>en_uuid := en_uuid e + 2\<rparr>)) (\<lambda>sn e.
     act_lift (ebind (history (en_store e) (sn_execution_id sn)) (\<lambda>h.
       mk_checked runtime_checks \<lparr>rt_snapshot = sn, rt_history = h\<rparr>)) e)"

text \<open>The coordinator of the production wiring: the repository on the session's tables.\<close>

definition db_coordinator :: "'w resolver \<Rightarrow> (nat \<Rightarrow> string) \<Rightarrow> (execution_db, 'w) coordinator" where
  "db_coordinator resolver uuid4 = \<lparr>co_get_snapshot = get_snapshot, co_persist_transition = persist_transition,
     co_strategy_resolver = resolver, co_uuid4 = uuid4\<rparr>"

end
