(* ===== verification/Exec_Store.thy ===== *)
theory Exec_Store
  imports Exec_Repository "HOL-Library.Sublist"
begin

text \<open>
  What the execution repository promises. \<^verbatim>\<open>stored db sn evs\<close> relates the tables to the abstract
  content of one execution: its snapshot and its event log. Creating and persisting refine the
  abstract operations, do not touch other executions, and keep every execution's log gapless and
  append-only under any interleaving of sessions that act on stale reads.
\<close>

section \<open>The abstraction\<close>

definition row_of :: "snapshot \<Rightarrow> int \<Rightarrow> execution_row" where
  "row_of sn n = (execution_model_from_snapshot sn)\<lparr>we_next_event_sequence := n\<rparr>"

definition log_ok :: "string \<Rightarrow> event list \<Rightarrow> bool" where
  "log_ok i evs \<longleftrightarrow> list_all (\<lambda>e. valid_by event_checks e \<and> ev_execution_id e = i) evs
     \<and> map ev_sequence evs = [1..int (length evs)]"

definition stored :: "execution_db \<Rightarrow> snapshot \<Rightarrow> event list \<Rightarrow> bool" where
  "stored db sn evs \<longleftrightarrow> valid_snapshot sn \<and> ordered_steps (sn_steps sn)
     \<and> filter (\<lambda>e. we_execution_id e = sn_execution_id sn) (db_executions db) = [row_of sn (int (length evs) + 1)]
     \<and> filter (\<lambda>s. ws_execution_id s = sn_execution_id sn) (db_steps db)
        = map (step_model_from_runtime_step (sn_execution_id sn)) (sn_steps sn)
     \<and> filter (\<lambda>e. wv_execution_id e = sn_execution_id sn) (db_events db) = map event_model_from_event evs
     \<and> log_ok (sn_execution_id sn) evs \<and> evs \<noteq> []
     \<and> cp_last_event_id (sn_checkpoint sn) = Some (ev_event_id (last evs))"

lemma find_filter: "find P xs = (case filter P xs of [] \<Rightarrow> None | x # _ \<Rightarrow> Some x)"
  by (induction xs) auto

lemma stored_record:
  "stored db sn evs \<Longrightarrow> execution_record db (sn_execution_id sn)
     = Some (row_of sn (int (length evs) + 1), map (step_model_from_runtime_step (sn_execution_id sn)) (sn_steps sn))"
  by (simp add: stored_def execution_record_def find_filter)

lemma stored_get:
  assumes "stored db sn evs"
  shows "get_snapshot db (sn_execution_id sn) = Inr (Some sn)"
proof -
  have "valid_snapshot sn" "ordered_steps (sn_steps sn)" using assms by (simp_all add: stored_def)
  with snapshot_roundtrip [of sn "int (length evs) + 1"] show ?thesis
    by (simp add: get_snapshot_def stored_record [OF assms] read_optional_def row_of_def)
qed

lemma stored_history:
  assumes "stored db sn evs"
  shows "db_history db (sn_execution_id sn) = Inr \<lparr>hi_execution_id = sn_execution_id sn, hi_events = evs\<rparr>"
proof -
  have log: "log_ok (sn_execution_id sn) evs" and rows: "filter (\<lambda>e. wv_execution_id e = sn_execution_id sn) (db_events db)
      = map event_model_from_event evs" and "\<not> blank (sn_execution_id sn)"
    using assms by (auto simp: stored_def valid_snapshot_def valid_by_def snapshot_checks_def)
  have "map wv_sequence (map event_model_from_event evs) = map ev_sequence evs"
    by (simp add: comp_def event_model_from_event_def)
  with log have "sorted (map wv_sequence (map event_model_from_event evs))" by (simp only: log_ok_def sorted_upto)
  then have "sort_key wv_sequence (map event_model_from_event evs) = map event_model_from_event evs"
    by (rule sort_key_sorted_id)
  moreover have "emap event_from_model (map event_model_from_event evs) = Inr evs"
    using log by (intro emap_inverse event_roundtrip) (auto simp: log_ok_def list_all_iff)
  ultimately show ?thesis
    using \<open>\<not> blank (sn_execution_id sn)\<close> by (simp add: db_history_def rows valid_by_def history_checks_def)
qed

lemma stored_unique:
  assumes "stored db sn evs" "stored db sn' evs'" "sn_execution_id sn' = sn_execution_id sn"
  shows "sn' = sn \<and> evs' = evs"
proof -
  have "Inr (Some sn') = (Inr (Some sn) :: (hub_error, snapshot option) result)"
    using stored_get [OF assms(1)] stored_get [OF assms(2)] unfolding assms(3) by (rule trans [OF sym, rotated])
  moreover have "Inr \<lparr>hi_execution_id = sn_execution_id sn, hi_events = evs'\<rparr>
      = (Inr \<lparr>hi_execution_id = sn_execution_id sn, hi_events = evs\<rparr> :: (hub_error, exec_history) result)"
    using stored_history [OF assms(1)] stored_history [OF assms(2)] unfolding assms(3) by (rule trans [OF sym, rotated])
  ultimately show ?thesis by simp
qed

section \<open>Numbering events\<close>

definition new_events :: "string \<Rightarrow> int \<Rightarrow> event_draft list \<Rightarrow> event list" where
  "new_events i first_sequence drafts = map (\<lambda>(index, d).
     \<lparr>ev_event_id = ed_event_id d, ev_execution_id = i, ev_event_type = ed_event_type d,
      ev_sequence = first_sequence + int index, ev_state = ed_state d, ev_step_key = ed_step_key d,
      ev_step_type = ed_step_type d, ev_data = ed_data d\<rparr>) (enumerate 0 drafts)"

lemma length_new_events [simp]: "length (new_events i n ds) = length ds"
  by (simp add: new_events_def)

lemma new_events_empty [simp]: "new_events i n ds = [] \<longleftrightarrow> ds = []"
  using length_new_events by (metis length_0_conv)

lemma new_events_ids: "map ev_event_id (new_events i n ds) = map ed_event_id ds"
  by (rule nth_equalityI) (simp_all add: new_events_def nth_enumerate_eq)

lemma new_events_last: "ds \<noteq> [] \<Longrightarrow> ev_event_id (last (new_events i n ds)) = ed_event_id (last ds)"
  using new_events_ids [of i n ds] by (metis last_map new_events_empty)

lemma new_events_sequences: "map ev_sequence (new_events i n ds) = [n..n + int (length ds) - 1]"
proof (rule nth_equalityI)
  show "length (map ev_sequence (new_events i n ds)) = length [n..n + int (length ds) - 1]" by simp
  show "map ev_sequence (new_events i n ds) ! k = [n..n + int (length ds) - 1] ! k"
    if "k < length (map ev_sequence (new_events i n ds))" for k
    using that by (simp add: new_events_def nth_enumerate_eq nth_upto)
qed

lemma emap_map: "emap f (map g xs) = emap (\<lambda>x. f (g x)) xs"
  by (induction xs) simp_all

lemma assign_event_sequences_Inr:
  "assign_event_sequences i n ds = Inr evs \<longleftrightarrow> evs = new_events i n ds \<and> list_all (valid_by event_checks) evs"
proof -
  have "assign_event_sequences i n ds = emap (mk_checked event_checks) (new_events i n ds)"
    by (simp add: assign_event_sequences_def new_events_def emap_map case_prod_unfold)
  moreover have "list_all2 (\<lambda>x y. y = x \<and> valid_by event_checks x) xs ys \<longleftrightarrow> ys = xs \<and> list_all (valid_by event_checks) ys"
    for xs ys
  proof (induction xs arbitrary: ys)
    case (Cons x xs)
    then show ?case by (cases ys) auto
  qed auto
  ultimately show ?thesis by (simp add: emap_Inr_nth mk_checked_Inr_iff)
qed

section \<open>The transition that a persist performs\<close>

definition merge_step :: "runtime_step \<Rightarrow> runtime_step \<Rightarrow> runtime_step" where
  "merge_step s' s = (if rs_step_key s = rs_step_key s'
     then s\<lparr>rs_state := rs_state s', rs_retry_count := rs_retry_count s', rs_last_result := rs_last_result s'\<rparr> else s)"

text \<open>What the store takes from the snapshot it is given; everything else stays as stored.\<close>

definition merge_snapshot :: "snapshot \<Rightarrow> snapshot \<Rightarrow> string \<Rightarrow> snapshot" where
  "merge_snapshot sn sn' last_event = sn
     \<lparr>sn_mode := sn_mode sn', sn_state := sn_state sn',
      sn_checkpoint := (sn_checkpoint sn')\<lparr>cp_last_event_id := Some last_event\<rparr>,
      sn_retry_policy := sn_retry_policy sn', sn_failure := sn_failure sn',
      sn_runtime_version := sn_runtime_version sn + 1,
      sn_steps := map (fold merge_step (sn_steps sn')) (sn_steps sn)\<rparr>"

lemma merge_step_fields [simp]:
  "rs_step_key (merge_step s' s) = rs_step_key s" "rs_sequence (merge_step s' s) = rs_sequence s"
  by (simp_all add: merge_step_def)

lemma fold_merge_fields [simp]:
  "rs_step_key (fold merge_step ss s) = rs_step_key s" "rs_sequence (fold merge_step ss s) = rs_sequence s"
  by (induction ss arbitrary: s) simp_all

lemma merge_step_valid:
  "valid_runtime_step s \<Longrightarrow> valid_runtime_step s' \<Longrightarrow> valid_runtime_step (merge_step s' s)"
  by (auto simp: merge_step_def valid_runtime_step_def valid_by_def runtime_step_checks_def)

lemma fold_merge_valid:
  "valid_runtime_step s \<Longrightarrow> list_all valid_runtime_step ss \<Longrightarrow> valid_runtime_step (fold merge_step ss s)"
  by (induction ss arbitrary: s) (simp_all add: merge_step_valid)

lemma merge_snapshot_fields [simp]:
  "sn_execution_id (merge_snapshot sn sn' l) = sn_execution_id sn"
  "sn_plan (merge_snapshot sn sn' l) = sn_plan sn"
  "sn_runtime_version (merge_snapshot sn sn' l) = sn_runtime_version sn + 1"
  "sn_state (merge_snapshot sn sn' l) = sn_state sn'"
  "sn_idempotency_key (merge_snapshot sn sn' l) = sn_idempotency_key sn"
  "sn_company_id (merge_snapshot sn sn' l) = sn_company_id sn"
  "sn_checkpoint (merge_snapshot sn sn' l) = (sn_checkpoint sn')\<lparr>cp_last_event_id := Some l\<rparr>"
  "sn_steps (merge_snapshot sn sn' l) = map (fold merge_step (sn_steps sn')) (sn_steps sn)"
  by (simp_all add: merge_snapshot_def)

lemma merge_snapshot_valid:
  assumes "valid_snapshot sn" "valid_snapshot sn'" "\<not> blank l"
  shows "valid_snapshot (merge_snapshot sn sn' l)"
proof -
  have "valid_by snapshot_checks (merge_snapshot sn sn' l)"
    using assms(1) by (auto simp: valid_snapshot_def valid_by_def snapshot_checks_def merge_snapshot_def)
  moreover have "list_all valid_runtime_step (sn_steps (merge_snapshot sn sn' l))"
    using assms(1,2) fold_merge_valid by (auto simp: valid_snapshot_def list_all_iff)
  moreover have "valid_by checkpoint_checks (sn_checkpoint (merge_snapshot sn sn' l))"
    using assms(2,3) by (auto simp: valid_snapshot_def valid_by_def checkpoint_checks_def)
  ultimately show ?thesis using assms(1,2) by (simp add: valid_snapshot_def merge_snapshot_def)
qed

lemma merge_snapshot_ordered: "ordered_steps (sn_steps sn) \<Longrightarrow> ordered_steps (sn_steps (merge_snapshot sn sn' l))"
  by (simp add: ordered_steps_def comp_def)

section \<open>The tables after a persist\<close>

definition persisted_db :: "execution_db \<Rightarrow> snapshot \<Rightarrow> snapshot \<Rightarrow> event list \<Rightarrow> event list \<Rightarrow> execution_db" where
  "persisted_db db sn sn' evs new =
     \<lparr>db_executions = map (\<lambda>x. if we_execution_id x = sn_execution_id sn \<and> we_runtime_version x = sn_runtime_version sn
        then update_execution_row sn' ((sn_checkpoint sn')\<lparr>cp_last_event_id := Some (ev_event_id (last new))\<rparr>)
          (sn_runtime_version sn) (int (length evs) + 1 + int (length new)) x else x) (db_executions db),
      db_steps = fold (update_step_row (sn_execution_id sn)) (sn_steps sn') (db_steps db),
      db_events = db_events db @ map event_model_from_event new\<rparr>"

lemma update_step_row_other:
  "i \<noteq> j \<Longrightarrow> filter (\<lambda>r. ws_execution_id r = i) (fold (update_step_row j) ss rows) = filter (\<lambda>r. ws_execution_id r = i) rows"
proof (induction ss arbitrary: rows)
  case (Cons s ss)
  have "filter (\<lambda>r. ws_execution_id r = i) (update_step_row j s rows) = filter (\<lambda>r. ws_execution_id r = i) rows"
    using Cons.prems by (induction rows) (auto simp: update_step_row_def)
  with Cons show ?case by simp
qed simp

lemma update_step_row_own:
  "filter (\<lambda>r. ws_execution_id r = i) rows = map (step_model_from_runtime_step i) steps \<Longrightarrow>
   filter (\<lambda>r. ws_execution_id r = i) (fold (update_step_row i) ss rows)
     = map (step_model_from_runtime_step i) (map (fold merge_step ss) steps)"
proof (induction ss arbitrary: rows steps)
  case (Cons s ss)
  have "filter (\<lambda>r. ws_execution_id r = i) (update_step_row i s rows)
      = update_step_row i s (filter (\<lambda>r. ws_execution_id r = i) rows)"
    by (induction rows) (auto simp: update_step_row_def)
  also have "\<dots> = map (step_model_from_runtime_step i) (map (merge_step s) steps)"
    unfolding Cons.prems by (simp add: update_step_row_def step_model_from_runtime_step_def merge_step_def)
  finally have "filter (\<lambda>r. ws_execution_id r = i) (update_step_row i s rows)
      = map (step_model_from_runtime_step i) (map (merge_step s) steps)" .
  from Cons.IH [OF this] show ?case by (simp add: comp_def)
qed simp

lemma update_step_rows_keys:
  "map ws_execution_id (fold (update_step_row i) ss rows) = map ws_execution_id rows"
  "map ws_step_key (fold (update_step_row i) ss rows) = map ws_step_key rows"
  "map ws_sequence (fold (update_step_row i) ss rows) = map ws_sequence rows"
proof -
  have "map ws_execution_id (update_step_row i s rows) = map ws_execution_id rows
    \<and> map ws_step_key (update_step_row i s rows) = map ws_step_key rows
    \<and> map ws_sequence (update_step_row i s rows) = map ws_sequence rows" for s rows
    by (auto simp: update_step_row_def)
  then show "map ws_execution_id (fold (update_step_row i) ss rows) = map ws_execution_id rows"
    "map ws_step_key (fold (update_step_row i) ss rows) = map ws_step_key rows"
    "map ws_sequence (fold (update_step_row i) ss rows) = map ws_sequence rows"
    by (induction ss arbitrary: rows) simp_all
qed

lemma update_step_rows_retry:
  "list_all (\<lambda>r. 0 \<le> ws_retry_count r) rows \<Longrightarrow> list_all valid_runtime_step ss \<Longrightarrow>
   list_all (\<lambda>r. 0 \<le> ws_retry_count r) (fold (update_step_row i) ss rows)"
proof (induction ss arbitrary: rows)
  case (Cons s ss)
  then have "0 \<le> rs_retry_count s" by (simp add: valid_runtime_step_def valid_by_def runtime_step_checks_def)
  with Cons.prems have "list_all (\<lambda>r. 0 \<le> ws_retry_count r) (update_step_row i s rows)"
    by (auto simp: update_step_row_def list_all_iff)
  with Cons show ?case by simp
qed simp

lemma persisted_execution_rows:
  assumes "stored db sn evs"
  shows "filter (\<lambda>e. we_execution_id e = sn_execution_id sn) (db_executions (persisted_db db sn sn' evs new))
    = [row_of (merge_snapshot sn sn' (ev_event_id (last new))) (int (length (evs @ new)) + 1)]"
proof -
  let ?i = "sn_execution_id sn"
  let ?u = "\<lambda>x. if we_execution_id x = ?i \<and> we_runtime_version x = sn_runtime_version sn
      then update_execution_row sn' ((sn_checkpoint sn')\<lparr>cp_last_event_id := Some (ev_event_id (last new))\<rparr>)
          (sn_runtime_version sn) (int (length evs) + 1 + int (length new)) x else x"
  have "filter (\<lambda>e. we_execution_id e = ?i) (map ?u rows) = map ?u (filter (\<lambda>e. we_execution_id e = ?i) rows)" for rows
    by (induction rows) (auto simp: update_execution_row_def)
  then show ?thesis
    using assms
    by (simp add: persisted_db_def stored_def row_of_def execution_model_from_snapshot_def update_execution_row_def
        merge_snapshot_def)
qed

lemma stored_persisted:
  assumes "stored db sn evs" "valid_snapshot sn'" "new = new_events (sn_execution_id sn) (int (length evs) + 1) drafts"
    and "drafts \<noteq> []" "list_all (valid_by event_checks) new" "\<not> blank (ev_event_id (last new))"
  shows "stored (persisted_db db sn sn' evs new) (merge_snapshot sn sn' (ev_event_id (last new))) (evs @ new)"
proof -
  let ?i = "sn_execution_id sn"
  have st: "valid_snapshot sn" "ordered_steps (sn_steps sn)" "log_ok ?i evs"
    "filter (\<lambda>s. ws_execution_id s = ?i) (db_steps db) = map (step_model_from_runtime_step ?i) (sn_steps sn)"
    "filter (\<lambda>e. wv_execution_id e = ?i) (db_events db) = map event_model_from_event evs"
    using assms(1) by (auto simp: stored_def)
  have own: "list_all (\<lambda>e. ev_execution_id e = ?i) new"
    by (auto simp: assms(3) new_events_def list_all_iff)
  have events: "filter (\<lambda>e. wv_execution_id e = ?i) (map event_model_from_event new) = map event_model_from_event new"
    using own by (auto simp: filter_id_conv list_all_iff event_model_from_event_def)
  have "map ev_sequence new = [int (length evs) + 1..int (length evs) + int (length drafts)]"
    by (simp add: assms(3) new_events_sequences)
  moreover have "[1..int (length (evs @ new))] = [1..int (length evs)] @ [int (length evs) + 1..int (length evs) + int (length drafts)]"
    using upto_split1 [of 1 "int (length evs) + 1" "int (length evs) + int (length drafts)"] assms(4)
    by (cases drafts) (simp_all add: assms(3) ac_simps)
  ultimately have "map ev_sequence (evs @ new) = [1..int (length (evs @ new))]"
    using st(3) by (simp add: log_ok_def)
  with own assms(5) st(3) have log: "log_ok ?i (evs @ new)" by (auto simp: log_ok_def list_all_iff)
  have "new \<noteq> []" using assms(3,4) by simp
  then show ?thesis
    unfolding stored_def merge_snapshot_fields(1,7,8)
    using merge_snapshot_valid [OF st(1) assms(2,6)] merge_snapshot_ordered [OF st(2), of sn' "ev_event_id (last new)"]
      persisted_execution_rows [OF assms(1), of sn' new] update_step_row_own [OF st(4), of "sn_steps sn'"] log events st(5)
    by (simp add: persisted_db_def)
qed

text \<open>Other executions keep their content.\<close>

lemma filter_map_frame: "(\<And>x. P (f x) \<longleftrightarrow> P x) \<Longrightarrow> (\<And>x. P x \<Longrightarrow> f x = x) \<Longrightarrow> filter P (map f xs) = filter P xs"
  by (induction xs) auto

lemma stored_frame:
  assumes "stored db other oevs" "sn_execution_id other \<noteq> sn_execution_id sn" "list_all (\<lambda>e. ev_execution_id e = sn_execution_id sn) new"
  shows "stored (persisted_db db sn sn' evs new) other oevs"
proof -
  let ?j = "sn_execution_id other"
  have "filter (\<lambda>e. we_execution_id e = ?j) (db_executions (persisted_db db sn sn' evs new))
      = filter (\<lambda>e. we_execution_id e = ?j) (db_executions db)"
    using assms(2) unfolding persisted_db_def execution_db.simps
    by (intro filter_map_frame) (auto simp: update_execution_row_def)
  moreover have "filter (\<lambda>e. wv_execution_id e = ?j) (db_events (persisted_db db sn sn' evs new))
      = filter (\<lambda>e. wv_execution_id e = ?j) (db_events db)"
    using assms(2,3) by (auto simp: persisted_db_def filter_empty_conv list_all_iff event_model_from_event_def)
  moreover have "filter (\<lambda>s. ws_execution_id s = ?j) (db_steps (persisted_db db sn sn' evs new))
      = filter (\<lambda>s. ws_execution_id s = ?j) (db_steps db)"
    using assms(2) by (simp add: persisted_db_def update_step_row_other)
  ultimately show ?thesis using assms(1) by (simp add: stored_def)
qed

section \<open>What a persist can do\<close>

definition appended :: "snapshot \<Rightarrow> event list \<Rightarrow> event_draft list \<Rightarrow> event list" where
  "appended sn evs drafts = new_events (sn_execution_id sn) (int (length evs) + 1) drafts"

lemma appended_valid:
  assumes "log_ok i evs" "list_all (valid_by event_draft_checks) drafts" "\<not> blank i"
  shows "list_all (valid_by event_checks) (new_events i (int (length evs) + 1) drafts)"
proof -
  have "\<not> blank (ed_event_id d) \<and> \<not> blank_opt (ed_step_key d)" if "d \<in> set drafts" for d
    using that assms(2) by (auto simp: list_all_iff valid_by_def event_draft_checks_def)
  moreover have "d \<in> set drafts" if "(k, d) \<in> set (enumerate 0 drafts)" for k d
    using that by (auto simp: in_set_enumerate_eq)
  ultimately show ?thesis
    using assms(3) by (fastforce simp: list_all_iff new_events_def valid_by_def event_checks_def)
qed

lemma draft_id_not_blank: "list_all (valid_by event_draft_checks) drafts \<Longrightarrow> drafts \<noteq> [] \<Longrightarrow> \<not> blank (ed_event_id (last drafts))"
  using last_in_set by (fastforce simp: list_all_iff valid_by_def event_draft_checks_def)

lemma stored_not_blank: "stored db sn evs \<Longrightarrow> \<not> blank (sn_execution_id sn)"
  by (simp add: stored_def valid_snapshot_def valid_by_def snapshot_checks_def)

lemma stored_selected:
  assumes "stored db sn evs"
  shows "length (filter (\<lambda>x. we_execution_id x = sn_execution_id sn \<and> we_runtime_version x = v) (db_executions db)) = 1
    \<longleftrightarrow> v = sn_runtime_version sn"
proof -
  have rows: "filter (\<lambda>x. we_execution_id x = sn_execution_id sn) (db_executions db) = [row_of sn (int (length evs) + 1)]"
    using assms by (simp add: stored_def)
  have "filter (\<lambda>x. we_execution_id x = sn_execution_id sn \<and> we_runtime_version x = v) (db_executions db)
      = filter (\<lambda>x. we_runtime_version x = v) (filter (\<lambda>x. we_execution_id x = sn_execution_id sn) (db_executions db))"
    by (simp only: filter_filter)
  then show ?thesis unfolding rows by (simp add: row_of_def execution_model_from_snapshot_def)
qed

text \<open>A persist whose read and write see the same content, when the given snapshot names known steps only.\<close>

lemma persist_at_eval:
  assumes read: "stored rdb sn evs" and st: "stored db sn evs" and i: "sn_execution_id sn' = sn_execution_id sn"
    and valid: "valid_snapshot sn'" "list_all (valid_by event_draft_checks) drafts" "drafts \<noteq> []"
  shows "persist_transition_at rdb sn' drafts (sn_runtime_version sn) db =
    (let db' = persisted_db db sn sn' evs (appended sn evs drafts) in
     case find (\<lambda>s. rs_step_key s \<notin> set (map rs_step_key (sn_steps sn))) (sn_steps sn') of
       Some s \<Rightarrow> (Inl (KeyError (rs_step_key s)), db)
     | None \<Rightarrow> if db_constraints db' then (Inr (merge_snapshot sn sn' (ed_event_id (last drafts))), db')
         else (Inl (ExecutionPersistenceError ''Execution runtime persistence operation failed.''), db))"
proof -
  let ?new = "appended sn evs drafts"
  have log: "log_ok (sn_execution_id sn) evs" using st by (simp add: stored_def)
  have new: "list_all (valid_by event_checks) ?new"
    unfolding appended_def by (rule appended_valid [OF log valid(2) stored_not_blank [OF st]])
  have assign: "assign_event_sequences (sn_execution_id sn) (int (length evs) + 1) drafts = Inr ?new"
    using new by (simp add: assign_event_sequences_Inr appended_def)
  have last: "ev_event_id (last ?new) = ed_event_id (last drafts)"
    unfolding appended_def by (rule new_events_last [OF valid(3)])
  have notblank: "\<not> blank (ev_event_id (last ?new))" using draft_id_not_blank valid(2,3) last by simp
  then have cp: "checkpoint_with_last_event_id (sn_checkpoint sn') (ev_event_id (last ?new))
      = Inr ((sn_checkpoint sn')\<lparr>cp_last_event_id := Some (ev_event_id (last ?new))\<rparr>)"
    using valid(1) by (auto simp: checkpoint_with_last_event_id_def mk_checked_Inr_iff valid_snapshot_def valid_by_def checkpoint_checks_def)
  note new_st = stored_persisted [OF st valid(1) appended_def [of sn evs drafts] valid(3) new notblank]
  have reread: "get_snapshot (persisted_db db sn sn' evs ?new) (sn_execution_id sn)
      = Inr (Some (merge_snapshot sn sn' (ed_event_id (last drafts))))"
    using stored_get [OF new_st] last by simp
  have row: "we_runtime_version (row_of sn n) = sn_runtime_version sn" "we_next_event_sequence (row_of sn n) = n" for n
    by (simp_all add: row_of_def execution_model_from_snapshot_def)
  have keys: "map ws_step_key (map (step_model_from_runtime_step (sn_execution_id sn)) (sn_steps sn)) = map rs_step_key (sn_steps sn)"
    by (simp add: step_model_from_runtime_step_def)
  have len: "int (length ?new) = int (length drafts)" by (simp add: appended_def)
  show ?thesis
    unfolding persist_transition_at_def i stored_record [OF read] option.case prod.case row assign cp ebind_simps sum.case keys
    using valid(3) stored_selected [OF st, of "sn_runtime_version sn"] reread
    by (simp add: Let_def persisted_db_def [symmetric] snapshot_or_def split: option.split)
qed

section \<open>The constraints hold after a persist\<close>

definition fresh_ids :: "execution_db \<Rightarrow> event_draft list \<Rightarrow> bool" where
  "fresh_ids db drafts \<longleftrightarrow> distinct (map ed_event_id drafts)
     \<and> set (map ed_event_id drafts) \<inter> set (map wv_event_id (db_events db)) = {}"

lemma map_pair: "map (\<lambda>x. (f x, g x)) xs = zip (map f xs) (map g xs)"
  by (induction xs) simp_all

lemma persisted_steps_ok:
  assumes "db_constraints db" "valid_snapshot sn'"
  shows "distinct (map (\<lambda>s. (ws_execution_id s, ws_step_key s)) (fold (update_step_row i) (sn_steps sn') (db_steps db)))"
    and "distinct (map (\<lambda>s. (ws_execution_id s, ws_sequence s)) (fold (update_step_row i) (sn_steps sn') (db_steps db)))"
    and "list_all (\<lambda>s. 0 < ws_sequence s \<and> 0 \<le> ws_retry_count s) (fold (update_step_row i) (sn_steps sn') (db_steps db))"
proof -
  let ?rows = "fold (update_step_row i) (sn_steps sn') (db_steps db)"
  note keys = update_step_rows_keys [of i "sn_steps sn'" "db_steps db"]
  show "distinct (map (\<lambda>s. (ws_execution_id s, ws_step_key s)) ?rows)"
    and "distinct (map (\<lambda>s. (ws_execution_id s, ws_sequence s)) ?rows)"
    using assms(1) by (simp_all add: map_pair keys db_constraints_def)
  have "list_all (\<lambda>r. 0 \<le> ws_retry_count r) (db_steps db)" "list_all valid_runtime_step (sn_steps sn')"
    using assms by (auto simp: db_constraints_def valid_snapshot_def list_all_iff)
  then have "list_all (\<lambda>r. 0 \<le> ws_retry_count r) ?rows" by (rule update_step_rows_retry)
  moreover have "list_all (\<lambda>q. 0 < q) (map ws_sequence ?rows)"
    using assms(1) unfolding keys(3) by (auto simp: db_constraints_def list_all_iff)
  ultimately show "list_all (\<lambda>s. 0 < ws_sequence s \<and> 0 \<le> ws_retry_count s) ?rows"
    by (auto simp: list_all_iff)
qed

lemma persisted_events_ok:
  assumes "db_constraints db" "stored db sn evs" "fresh_ids db drafts"
  defines "rows \<equiv> db_events db @ map event_model_from_event (appended sn evs drafts)"
  shows "distinct (map wv_event_id rows)" "distinct (map (\<lambda>e. (wv_execution_id e, wv_sequence e)) rows)"
    and "list_all (\<lambda>e. 0 < wv_sequence e) rows"
proof -
  let ?i = "sn_execution_id sn" and ?new = "map event_model_from_event (appended sn evs drafts)"
  have old: "distinct (map wv_event_id (db_events db))" "distinct (map (\<lambda>e. (wv_execution_id e, wv_sequence e)) (db_events db))"
    "list_all (\<lambda>e. 0 < wv_sequence e) (db_events db)" using assms(1) by (simp_all add: db_constraints_def)
  have "map wv_event_id ?new = map ed_event_id drafts"
    using new_events_ids by (simp add: appended_def event_model_from_event_def comp_def)
  with old(1) assms(3) show "distinct (map wv_event_id rows)" by (auto simp: rows_def fresh_ids_def)
  have seq: "map wv_sequence ?new = [int (length evs) + 1..int (length evs) + int (length drafts)]"
    using new_events_sequences [of ?i "int (length evs) + 1" drafts]
    by (simp add: appended_def event_model_from_event_def comp_def)
  have ids: "\<forall>e \<in> set ?new. wv_execution_id e = ?i"
    by (auto simp: appended_def new_events_def event_model_from_event_def)
  have own: "wv_sequence e \<le> int (length evs)" if "e \<in> set (db_events db)" "wv_execution_id e = ?i" for e
  proof -
    have "e \<in> set (filter (\<lambda>e. wv_execution_id e = ?i) (db_events db))" using that by simp
    moreover have "filter (\<lambda>e. wv_execution_id e = ?i) (db_events db) = map event_model_from_event evs"
      using assms(2) by (simp add: stored_def)
    ultimately have "e \<in> set (map event_model_from_event evs)" by (simp only:)
    then have "wv_sequence e \<in> set (map ev_sequence evs)" by (auto simp: event_model_from_event_def)
    moreover have "map ev_sequence evs = [1..int (length evs)]" using assms(2) by (simp add: stored_def log_ok_def)
    ultimately have "wv_sequence e \<in> {1..int (length evs)}" by (simp only: set_upto)
    then show ?thesis by simp
  qed
  have new: "int (length evs) < wv_sequence e" if "e \<in> set ?new" for e
  proof -
    have "wv_sequence e \<in> set (map wv_sequence ?new)" using that by (simp only: set_map imageI)
    then show ?thesis unfolding seq by simp
  qed
  have "distinct (map wv_sequence ?new)" unfolding seq by simp
  then have "distinct (map (\<lambda>e. (wv_execution_id e, wv_sequence e)) ?new)"
    by (simp only: map_pair distinct_zipI2)
  moreover have "(wv_execution_id a, wv_sequence a) \<noteq> (wv_execution_id b, wv_sequence b)"
    if "a \<in> set (db_events db)" "b \<in> set ?new" for a b
    using own [of a] new [of b] ids that by fastforce
  ultimately show "distinct (map (\<lambda>e. (wv_execution_id e, wv_sequence e)) rows)"
    using old(2) unfolding rows_def map_append distinct_append by (auto simp del: map_map)
  show "list_all (\<lambda>e. 0 < wv_sequence e) rows"
    using old(3) new by (fastforce simp: rows_def list_all_iff)
qed

lemma persisted_constraints:
  assumes "db_constraints db" "stored db sn evs" "valid_snapshot sn'" "fresh_ids db drafts"
  shows "db_constraints (persisted_db db sn sn' evs (appended sn evs drafts))"
proof -
  let ?db = "persisted_db db sn sn' evs (appended sn evs drafts)"
  have "map we_execution_id (db_executions ?db) = map we_execution_id (db_executions db)"
    "map (\<lambda>e. (we_company_id e, we_idempotency_key e)) (db_executions ?db)
      = map (\<lambda>e. (we_company_id e, we_idempotency_key e)) (db_executions db)"
    by (auto simp: persisted_db_def update_execution_row_def)
  moreover have "list_all (\<lambda>e. 0 < we_company_id e \<and> 0 < we_decision_version e) (db_executions ?db)"
    using assms(1) by (auto simp: db_constraints_def persisted_db_def update_execution_row_def list_all_iff)
  moreover have "db_steps ?db = fold (update_step_row (sn_execution_id sn)) (sn_steps sn') (db_steps db)"
    "db_events ?db = db_events db @ map event_model_from_event (appended sn evs drafts)"
    by (simp_all add: persisted_db_def)
  ultimately show ?thesis
    using persisted_steps_ok [OF assms(1,3), of "sn_execution_id sn"] persisted_events_ok [OF assms(1,2,4)] assms(1)
    unfolding db_constraints_def by (simp only: simp_thms)
qed

section \<open>Creating an execution\<close>

text \<open>A plan as the planner returns it: valid, with its steps numbered in order.\<close>

definition planned :: "execution_plan \<Rightarrow> bool" where
  "planned p \<longleftrightarrow> valid_plan p \<and> map st_sequence (pl_steps p) = [1..int (length (pl_steps p))]"

definition created_events :: "string \<Rightarrow> string \<Rightarrow> string \<Rightarrow> event list" where
  "created_events i id1 id2 =
     [\<lparr>ev_event_id = id1, ev_execution_id = i, ev_event_type = EV_EXECUTION_CREATED, ev_sequence = 1,
       ev_state = X_NEW, ev_step_key = None, ev_step_type = None, ev_data = []\<rparr>,
      \<lparr>ev_event_id = id2, ev_execution_id = i, ev_event_type = EV_PLANNING_COMPLETED, ev_sequence = 2,
       ev_state = X_PLANNED, ev_step_key = None, ev_step_type = None, ev_data = []\<rparr>]"

definition initial_snapshot :: "execution_plan \<Rightarrow> retry_policy \<Rightarrow> string \<Rightarrow> string option \<Rightarrow> snapshot" where
  "initial_snapshot p retry key last_event =
     \<lparr>sn_execution_id = pl_execution_id p, sn_review_id = pl_review_id p, sn_company_id = pl_company_id p,
      sn_decision_version = pl_decision_version p, sn_mode = pl_mode p, sn_state = X_PLANNED,
      sn_idempotency_key = key, sn_plan = p, sn_steps = map initial_runtime_step (pl_steps p),
      sn_checkpoint = \<lparr>cp_execution_id = pl_execution_id p, cp_completed_step_keys = [], cp_failed_step_key = None,
        cp_current_step_key = Some (st_step_key (hd (pl_steps p))), cp_retry_count = 0, cp_last_event_id = last_event\<rparr>,
      sn_retry_policy = retry, sn_runtime_version = 1, sn_failure = None\<rparr>"

lemma planned_steps_facts:
  assumes "planned p" "s \<in> set (pl_steps p)"
  shows "\<not> blank (st_step_key s)" "1 \<le> st_sequence s" "distinct (st_allocation_keys s)"
  using assms by (auto simp: planned_def valid_plan_def valid_step_def list_all_iff valid_by_def execution_step_checks_def)

lemma planned_nonempty: "planned p \<Longrightarrow> pl_steps p \<noteq> []"
  using valid_plan_keys by (simp add: planned_def)

lemma initial_step_valid: "planned p \<Longrightarrow> s \<in> set (pl_steps p) \<Longrightarrow> valid_runtime_step (initial_runtime_step s)"
  using planned_steps_facts [of p s]
  by (auto simp: valid_runtime_step_def valid_by_def runtime_step_checks_def initial_runtime_step_def)

lemma initial_snapshot_valid:
  assumes "planned p" "valid_by retry_policy_checks retry" "pl_idempotency_key p = Some key" "\<not> blank_opt l"
  shows "valid_snapshot (initial_snapshot p retry key l)"
    and "ordered_steps (sn_steps (initial_snapshot p retry key l))"
proof -
  have plan: "valid_by execution_plan_checks p" using assms(1) by (simp add: planned_def valid_plan_def)
  have first: "\<not> blank (st_step_key (hd (pl_steps p)))"
    using planned_steps_facts(1) [OF assms(1)] planned_nonempty [OF assms(1)] by simp
  have "list_all valid_runtime_step (map initial_runtime_step (pl_steps p))"
    using initial_step_valid [OF assms(1)] by (simp add: list_all_iff)
  with assms plan first show "valid_snapshot (initial_snapshot p retry key l)"
    by (auto simp: valid_snapshot_def initial_snapshot_def planned_def valid_by_def snapshot_checks_def
        checkpoint_checks_def execution_plan_checks_def)
  have "map rs_sequence (map initial_runtime_step (pl_steps p)) = [1..int (length (pl_steps p))]"
    "map rs_step_key (map initial_runtime_step (pl_steps p)) = map st_step_key (pl_steps p)"
    using assms(1) by (simp_all add: planned_def initial_runtime_step_def comp_def)
  with assms(1) valid_plan_keys show "ordered_steps (sn_steps (initial_snapshot p retry key l))"
    unfolding ordered_steps_def initial_snapshot_def snapshot.simps by (metis distinct_upto planned_def sorted_upto)
qed

lemma snapshot_from_plan_eq:
  assumes "planned p" "valid_by retry_policy_checks retry" "pl_idempotency_key p = Some key"
  shows "snapshot_from_plan p retry = Inr (initial_snapshot p retry key None)"
proof -
  have steps: "emap (\<lambda>s. mk_checked runtime_step_checks (initial_runtime_step s)) (pl_steps p)
      = Inr (map initial_runtime_step (pl_steps p))"
    using initial_step_valid [OF assms(1)] by (intro emap_Inr) (simp add: valid_runtime_step_def mk_checked_Inr_iff)
  have hd: "rs_step_key (hd (map initial_runtime_step (pl_steps p))) = st_step_key (hd (pl_steps p))"
    using planned_nonempty [OF assms(1)] by (simp add: hd_map initial_runtime_step_def)
  from initial_snapshot_valid(1) [OF assms, of None]
  have "valid_by checkpoint_checks (sn_checkpoint (initial_snapshot p retry key None))"
    "valid_by snapshot_checks (initial_snapshot p retry key None)" by (simp_all add: valid_snapshot_def)
  then show ?thesis
    by (simp add: snapshot_from_plan_def plan_idempotency_key_def assms(3) steps hd initial_snapshot_def mk_checked_Inr_iff)
qed

definition created_db :: "execution_db \<Rightarrow> snapshot \<Rightarrow> string \<Rightarrow> string \<Rightarrow> execution_db" where
  "created_db db sn id1 id2 =
     \<lparr>db_executions = db_executions db @ [row_of sn 3],
      db_steps = db_steps db @ map (step_model_from_runtime_step (sn_execution_id sn)) (sn_steps sn),
      db_events = db_events db @ map event_model_from_event (created_events (sn_execution_id sn) id1 id2)\<rparr>"

lemma insert_execution_Inr:
  assumes "insert_execution id1 id2 (initial_snapshot p retry key None) db = Inr db'"
  shows "\<not> blank id1 \<and> \<not> blank id2 \<and> db' = created_db db (initial_snapshot p retry key (Some id2)) id1 id2"
  using assms
  by (auto simp: insert_execution_def ebind_Inr_iff event_draft_of_def mk_checked_Inr_iff valid_by_def event_draft_checks_def
      assign_event_sequences_Inr new_events_def checkpoint_with_last_event_id_def Let_def created_db_def row_of_def
      created_events_def execution_model_from_snapshot_def initial_snapshot_def)

lemma created_log_ok: "\<not> blank i \<Longrightarrow> \<not> blank id1 \<Longrightarrow> \<not> blank id2 \<Longrightarrow> log_ok i (created_events i id1 id2)"
  by (simp add: log_ok_def created_events_def valid_by_def event_checks_def upto_rec1)

text \<open>The tables hold nothing of an execution that has no row of its own.\<close>

definition owned :: "execution_db \<Rightarrow> bool" where
  "owned db \<longleftrightarrow> set (map ws_execution_id (db_steps db)) \<subseteq> set (map we_execution_id (db_executions db))
     \<and> set (map wv_execution_id (db_events db)) \<subseteq> set (map we_execution_id (db_executions db))"

lemma stored_created:
  assumes "planned p" "valid_by retry_policy_checks retry" "pl_idempotency_key p = Some key"
    and "\<not> blank id1" "\<not> blank id2" "owned db" "pl_execution_id p \<notin> set (map we_execution_id (db_executions db))"
  shows "stored (created_db db (initial_snapshot p retry key (Some id2)) id1 id2)
    (initial_snapshot p retry key (Some id2)) (created_events (pl_execution_id p) id1 id2)"
proof -
  let ?sn = "initial_snapshot p retry key (Some id2)" and ?i = "pl_execution_id p"
  have i: "sn_execution_id ?sn = ?i" by (simp add: initial_snapshot_def)
  have "\<not> blank ?i" using assms(1) by (simp add: planned_def valid_plan_def valid_by_def execution_plan_checks_def)
  then have log: "log_ok ?i (created_events ?i id1 id2)" using assms(4,5) by (rule created_log_ok)
  have none: "filter (\<lambda>e. we_execution_id e = ?i) (db_executions db) = []"
    "filter (\<lambda>s. ws_execution_id s = ?i) (db_steps db) = []" "filter (\<lambda>e. wv_execution_id e = ?i) (db_events db) = []"
    using assms(6,7) unfolding owned_def filter_empty_conv set_map by (metis imageI subsetD)+
  have row: "we_execution_id (row_of ?sn 3) = ?i" by (simp add: row_of_def execution_model_from_snapshot_def i)
  show ?thesis
    using initial_snapshot_valid [OF assms(1-3), of "Some id2"] assms(5) log none row
    unfolding stored_def i created_db_def execution_db.simps filter_append
    by (simp add: step_model_from_runtime_step_def event_model_from_event_def created_events_def)
       (simp add: initial_snapshot_def)
qed

lemma stored_created_frame:
  assumes "stored db other evs" "sn_execution_id other \<noteq> sn_execution_id sn"
  shows "stored (created_db db sn id1 id2) other evs"
proof -
  have "we_execution_id (row_of sn 3) = sn_execution_id sn"
    by (simp add: row_of_def execution_model_from_snapshot_def)
  with assms show ?thesis
    unfolding stored_def created_db_def execution_db.simps filter_append
    by (auto simp: step_model_from_runtime_step_def event_model_from_event_def created_events_def filter_empty_conv)
qed

lemma create_at_cases:
  assumes "create_from_plan_at rdb id1 id2 p retry db = (r, db')" "planned p" "valid_by retry_policy_checks retry"
  obtains (unchanged) "db' = db"
    | (created) key where "pl_idempotency_key p = Some key" "\<not> blank id1" "\<not> blank id2"
        "db' = created_db db (initial_snapshot p retry key (Some id2)) id1 id2" "db_constraints db'"
proof (cases "db' = db")
  case False
  then obtain key sn where key: "pl_idempotency_key p = Some key" and con: "db_constraints db'"
    and sn: "snapshot_from_plan p retry = Inr sn" "insert_execution id1 id2 sn db = Inr db'"
    using assms(1)
    by (auto simp: create_from_plan_at_def plan_idempotency_key_def ebind_Inr_iff ebind_Inl_iff
        split: option.splits sum.splits if_splits)
  have "sn = initial_snapshot p retry key None" using sn(1) snapshot_from_plan_eq [OF assms(2,3) key] by simp
  with insert_execution_Inr sn(2) key con show thesis by (metis created)
qed (rule unchanged)

section \<open>Interleaved sessions\<close>

text \<open>
  The states of the tables, newest first, when sessions create executions and persist transitions
  in any order, each acting on a read of any earlier state. The log holds the execution and the
  expected version of each persist that returned a snapshot.
\<close>

inductive store_trace :: "execution_db list \<Rightarrow> (string \<times> int) list \<Rightarrow> bool" where
  start: "store_trace [\<lparr>db_executions = [], db_steps = [], db_events = []\<rparr>] []"
| create: "store_trace (db # dbs) won \<Longrightarrow> rdb \<in> set (db # dbs) \<Longrightarrow> planned p \<Longrightarrow> valid_by retry_policy_checks retry \<Longrightarrow>
    create_from_plan_at rdb id1 id2 p retry db = (r, db') \<Longrightarrow> store_trace (db' # db # dbs) won"
| persist: "store_trace (db # dbs) won \<Longrightarrow> rdb \<in> set (db # dbs) \<Longrightarrow> valid_snapshot sn \<Longrightarrow>
    list_all (valid_by event_draft_checks) drafts \<Longrightarrow> persist_transition_at rdb sn drafts v db = (Inr sn', db') \<Longrightarrow>
    store_trace (db' # db # dbs) ((sn_execution_id sn, v) # won)"
| persist_refused: "store_trace (db # dbs) won \<Longrightarrow> rdb \<in> set (db # dbs) \<Longrightarrow> valid_snapshot sn \<Longrightarrow>
    list_all (valid_by event_draft_checks) drafts \<Longrightarrow> persist_transition_at rdb sn drafts v db = (Inl e, db') \<Longrightarrow>
    store_trace (db' # db # dbs) won"

definition db_inv :: "execution_db \<Rightarrow> bool" where
  "db_inv db \<longleftrightarrow> db_constraints db \<and> owned db
     \<and> (\<forall>i \<in> set (map we_execution_id (db_executions db)). \<exists>sn evs. stored db sn evs \<and> sn_execution_id sn = i)"

text \<open>How the content of one execution may change: its log only grows, with its version.\<close>

definition later :: "snapshot \<Rightarrow> event list \<Rightarrow> snapshot \<Rightarrow> event list \<Rightarrow> bool" where
  "later sn evs sn' evs' \<longleftrightarrow> sn_execution_id sn' = sn_execution_id sn \<and> prefix evs evs'
     \<and> sn_plan sn' = sn_plan sn \<and> sn_runtime_version sn \<le> sn_runtime_version sn'
     \<and> (sn_runtime_version sn' = sn_runtime_version sn \<longrightarrow> sn' = sn \<and> evs' = evs)"

lemma later_refl [simp]: "later sn evs sn evs"
  by (simp add: later_def)

lemma later_trans: "later a as b bs \<Longrightarrow> later b bs c cs \<Longrightarrow> later a as c cs"
  by (auto simp: later_def intro: prefix_order.trans)

definition evolves :: "execution_db \<Rightarrow> execution_db \<Rightarrow> bool" where
  "evolves db db' \<longleftrightarrow> (\<forall>sn evs. stored db sn evs \<longrightarrow> (\<exists>sn' evs'. stored db' sn' evs' \<and> later sn evs sn' evs'))"

lemma evolves_refl [simp]: "evolves db db"
  unfolding evolves_def using later_refl by blast

lemma evolves_trans: "evolves a b \<Longrightarrow> evolves b c \<Longrightarrow> evolves a c"
  unfolding evolves_def using later_trans by blast

lemma stored_row:
  assumes "stored db sn evs"
  shows "sn_execution_id sn \<in> set (map we_execution_id (db_executions db))"
proof -
  have "filter (\<lambda>e. we_execution_id e = sn_execution_id sn) (db_executions db) \<noteq> []"
    using assms by (simp add: stored_def)
  then obtain e where "e \<in> set (db_executions db)" "we_execution_id e = sn_execution_id sn"
    unfolding filter_empty_conv by blast
  then show ?thesis by force
qed

lemma create_preserves:
  assumes "create_from_plan_at rdb id1 id2 p retry db = (r, db')" "planned p" "valid_by retry_policy_checks retry" "db_inv db"
  shows "db_inv db' \<and> evolves db db'"
  using assms(1-3)
proof (cases rule: create_at_cases)
  case unchanged
  with assms(4) show ?thesis by simp
next
  case (created key)
  let ?sn = "initial_snapshot p retry key (Some id2)"
  have i: "sn_execution_id ?sn = pl_execution_id p" by (simp add: initial_snapshot_def)
  have row: "we_execution_id (row_of ?sn 3) = pl_execution_id p"
    by (simp add: row_of_def execution_model_from_snapshot_def i)
  have ids: "map we_execution_id (db_executions db') = map we_execution_id (db_executions db) @ [pl_execution_id p]"
    by (simp add: created(4) created_db_def row)
  with created(5) have fresh: "pl_execution_id p \<notin> set (map we_execution_id (db_executions db))"
    by (simp add: db_constraints_def)
  have own: "owned db" using assms(4) by (simp add: db_inv_def)
  have new: "stored db' ?sn (created_events (pl_execution_id p) id1 id2)"
    unfolding created(4) by (rule stored_created [OF assms(2,3) created(1-3) own fresh])
  have frame: "stored db' other evs" if "stored db other evs" for other evs
    unfolding created(4) using stored_created_frame [OF that] stored_row [OF that] fresh i by metis
  have "owned db'"
    using own unfolding owned_def ids
    by (auto simp: created(4) created_db_def i step_model_from_runtime_step_def event_model_from_event_def created_events_def)
  moreover have "\<exists>sn evs. stored db' sn evs \<and> sn_execution_id sn = j" if "j \<in> set (map we_execution_id (db_executions db'))" for j
  proof (cases "j = pl_execution_id p")
    case False
    with that ids have "j \<in> set (map we_execution_id (db_executions db))" by simp
    with assms(4) frame show ?thesis unfolding db_inv_def by blast
  qed (use new i in blast)
  ultimately have "db_inv db'" using created(5) unfolding db_inv_def by blast
  moreover have "evolves db db'"
    unfolding evolves_def using frame later_refl by blast
  ultimately show ?thesis ..
qed

text \<open>A persist is refused, and changes nothing, unless both its read and its write see the expected version.\<close>

lemma persist_refuses_stale:
  assumes "persist_transition_at rdb sn' drafts v db = (r, db')" "stored rdb sn0 evs0" "stored db sn evs"
    and "sn_execution_id sn0 = sn_execution_id sn'" "sn_execution_id sn = sn_execution_id sn'"
    and "sn_runtime_version sn0 \<noteq> v \<or> sn_runtime_version sn \<noteq> v"
  shows "(\<exists>e. r = Inl e) \<and> db' = db"
proof -
  have rec: "execution_record rdb (sn_execution_id sn') = Some (row_of sn0 (int (length evs0) + 1),
      map (step_model_from_runtime_step (sn_execution_id sn0)) (sn_steps sn0))"
    using stored_record [OF assms(2)] assms(4) by simp
  have "length (filter (\<lambda>x. we_execution_id x = sn_execution_id sn' \<and> we_runtime_version x = v) (db_executions db)) \<noteq> 1"
    if "sn_runtime_version sn \<noteq> v" using that stored_selected [OF assms(3), of v] assms(5) by auto
  then show ?thesis
    using assms(1,6) rec
    by (auto simp: persist_transition_at_def Let_def row_of_def execution_model_from_snapshot_def
        split: if_splits sum.splits option.splits)
qed

lemma persisted_preserves:
  assumes st: "stored db sn evs" and valid: "valid_snapshot sn'" "list_all (valid_by event_draft_checks) drafts" "drafts \<noteq> []"
    and inv: "db_inv db" and con: "db_constraints (persisted_db db sn sn' evs (appended sn evs drafts))"
  defines "db' \<equiv> persisted_db db sn sn' evs (appended sn evs drafts)"
    and "m \<equiv> merge_snapshot sn sn' (ed_event_id (last drafts))"
  shows "db_inv db'" "evolves db db'" "stored db' m (evs @ appended sn evs drafts)" "later sn evs m (evs @ appended sn evs drafts)"
proof -
  let ?new = "appended sn evs drafts"
  have new: "list_all (valid_by event_checks) ?new"
    unfolding appended_def using st stored_not_blank [OF st] by (intro appended_valid valid(2)) (auto simp: stored_def)
  have last: "ev_event_id (last ?new) = ed_event_id (last drafts)" unfolding appended_def by (rule new_events_last [OF valid(3)])
  show st': "stored db' m (evs @ ?new)"
    using stored_persisted [OF st valid(1) appended_def valid(3) new] last draft_id_not_blank [OF valid(2,3)]
    unfolding db'_def m_def by simp
  show lat: "later sn evs m (evs @ ?new)" by (simp add: later_def m_def)
  have own: "list_all (\<lambda>e. ev_execution_id e = sn_execution_id sn) ?new"
    by (auto simp: appended_def new_events_def list_all_iff)
  have frame: "stored db' other oevs" if "stored db other oevs" "sn_execution_id other \<noteq> sn_execution_id sn" for other oevs
    unfolding db'_def by (rule stored_frame [OF that own])
  show evo: "evolves db db'"
    unfolding evolves_def
  proof (intro allI impI)
    fix other oevs assume o: "stored db other oevs"
    show "\<exists>sn' evs'. stored db' sn' evs' \<and> later other oevs sn' evs'"
    proof (cases "sn_execution_id other = sn_execution_id sn")
      case True
      from stored_unique [OF st o this] st' lat show ?thesis by blast
    next
      case False
      from frame [OF o this] later_refl show ?thesis by blast
    qed
  qed
  have ids: "map we_execution_id (db_executions db') = map we_execution_id (db_executions db)"
    by (auto simp: db'_def persisted_db_def update_execution_row_def)
  have steps: "map ws_execution_id (db_steps db') = map ws_execution_id (db_steps db)"
    by (simp add: db'_def persisted_db_def update_step_rows_keys(1))
  have events: "set (map wv_execution_id (db_events db')) \<subseteq> insert (sn_execution_id sn) (set (map wv_execution_id (db_events db)))"
    using own by (auto simp: db'_def persisted_db_def event_model_from_event_def list_all_iff)
  have "owned db" using inv by (simp add: db_inv_def)
  with stored_row [OF st] have "insert (sn_execution_id sn) (set (map wv_execution_id (db_events db)))
      \<subseteq> set (map we_execution_id (db_executions db))" unfolding owned_def by blast
  with \<open>owned db\<close> events have "owned db'" unfolding owned_def ids steps by (blast intro: subset_trans)
  moreover have "\<exists>sn evs. stored db' sn evs \<and> sn_execution_id sn = j" if j: "j \<in> set (map we_execution_id (db_executions db'))" for j
  proof -
    obtain s0 e0 where "stored db s0 e0" "sn_execution_id s0 = j" using j inv unfolding ids db_inv_def by blast
    with evo show ?thesis unfolding evolves_def later_def by blast
  qed
  ultimately show "db_inv db'" using con unfolding db_inv_def db'_def by blast
qed

lemma record_stored:
  assumes "db_inv db" "execution_record db i \<noteq> None"
  obtains sn evs where "stored db sn evs" "sn_execution_id sn = i"
proof -
  from assms(2) obtain e where "e \<in> set (db_executions db)" "we_execution_id e = i"
    by (auto simp: execution_record_def find_Some_iff in_set_conv_nth)
  then have "i \<in> set (map we_execution_id (db_executions db))" by force
  with assms(1) that show thesis unfolding db_inv_def by blast
qed

definition persist_effect :: "execution_db \<Rightarrow> string \<Rightarrow> event_draft list \<Rightarrow> int \<Rightarrow> snapshot \<Rightarrow> execution_db \<Rightarrow> bool" where
  "persist_effect db i drafts v s db' \<longleftrightarrow> (\<exists>sn evs. stored db sn evs \<and> sn_execution_id sn = i \<and> sn_runtime_version sn = v
     \<and> stored db' s (evs @ appended sn evs drafts) \<and> later sn evs s (evs @ appended sn evs drafts) \<and> sn_runtime_version s = v + 1)"

lemma persist_preserves:
  assumes run: "persist_transition_at rdb sn' drafts v db = (r, db')" and valid: "valid_snapshot sn'"
    "list_all (valid_by event_draft_checks) drafts" and inv: "db_inv db" "db_inv rdb" and evo: "evolves rdb db"
  shows "db_inv db' \<and> evolves db db' \<and> ((\<exists>e. r = Inl e) \<and> db' = db
    \<or> (\<exists>s. r = Inr s \<and> persist_effect db (sn_execution_id sn') drafts v s db'))"
proof (cases "drafts = [] \<or> execution_record rdb (sn_execution_id sn') = None")
  case True
  then have "(\<exists>e. r = Inl e) \<and> db' = db" using run by (auto simp: persist_transition_at_def split: if_splits)
  with inv show ?thesis by simp
next
  case False
  then obtain sn0 evs0 where read: "stored rdb sn0 evs0" "sn_execution_id sn0 = sn_execution_id sn'"
    using record_stored [OF inv(2)] by blast
  with evo obtain sn evs where st: "stored db sn evs" "later sn0 evs0 sn evs" unfolding evolves_def by blast
  then have i: "sn_execution_id sn = sn_execution_id sn'" using read(2) by (simp add: later_def)
  let ?db = "persisted_db db sn sn' evs (appended sn evs drafts)"
  show ?thesis
  proof (cases "sn_runtime_version sn0 = v \<and> sn_runtime_version sn = v")
    case stale: False
    with persist_refuses_stale [OF run read(1) st(1) read(2) i] inv show ?thesis by auto
  next
    case fresh: True
    with st(2) have same: "sn0 = sn" "evs0 = evs" by (auto simp: later_def)
    have drafts: "drafts \<noteq> []" using False by blast
    note eval = persist_at_eval [OF read(1) [unfolded same] st(1) i [symmetric] valid drafts]
    consider (refused) "(\<exists>e. r = Inl e) \<and> db' = db"
      | (accepted) "r = Inr (merge_snapshot sn sn' (ed_event_id (last drafts)))" "db' = ?db" "db_constraints ?db"
      using eval run fresh by (auto simp: Let_def split: if_splits option.splits)
    then show ?thesis
    proof cases
      case refused
      with inv show ?thesis by auto
    next
      case accepted
      note keep = persisted_preserves [OF st(1) valid drafts inv(1) accepted(3)]
      have "persist_effect db (sn_execution_id sn') drafts v (merge_snapshot sn sn' (ed_event_id (last drafts))) ?db"
        unfolding persist_effect_def using keep(3,4) st(1) i fresh by auto
      with keep(1,2) accepted show ?thesis by blast
    qed
  qed
qed

section \<open>Histories\<close>

definition past :: "execution_db \<Rightarrow> string \<Rightarrow> int \<Rightarrow> bool" where
  "past db i v \<longleftrightarrow> (\<exists>sn evs. stored db sn evs \<and> sn_execution_id sn = i \<and> v < sn_runtime_version sn)"

lemma past_evolves:
  assumes "past db i v" "evolves db db'"
  shows "past db' i v"
proof -
  obtain sn evs where "stored db sn evs" "sn_execution_id sn = i" "v < sn_runtime_version sn"
    using assms(1) by (auto simp: past_def)
  moreover from this assms(2) obtain sn' evs' where "stored db' sn' evs'" "later sn evs sn' evs'"
    unfolding evolves_def by blast
  ultimately show ?thesis by (force simp: past_def later_def)
qed

definition trace_ok :: "execution_db list \<Rightarrow> (string \<times> int) list \<Rightarrow> bool" where
  "trace_ok dbs won \<longleftrightarrow> dbs \<noteq> [] \<and> (\<forall>d \<in> set dbs. db_inv d \<and> evolves d (hd dbs)) \<and> distinct won
     \<and> (\<forall>(i, v) \<in> set won. past (hd dbs) i v)"

lemma trace_ok_Cons:
  assumes "trace_ok (db # dbs) won" "db_inv db'" "evolves db db'" "distinct won'"
    and "\<And>i v. (i, v) \<in> set won' \<Longrightarrow> (i, v) \<in> set won \<or> past db' i v"
  shows "trace_ok (db' # db # dbs) won'"
proof -
  have "past db' i v" if "(i, v) \<in> set won" for i v
    using that assms(1,3) past_evolves by (fastforce simp: trace_ok_def)
  with assms show ?thesis by (auto simp: trace_ok_def intro: evolves_trans)
qed

lemma store_trace_ok: "store_trace dbs won \<Longrightarrow> trace_ok dbs won"
proof (induction rule: store_trace.induct)
  case start
  show ?case by (simp add: trace_ok_def db_inv_def db_constraints_def owned_def)
next
  case (create db dbs won rdb p retry id1 id2 r db')
  then have "db_inv db" "distinct won" by (auto simp: trace_ok_def)
  with create_preserves [OF create(5,3,4)] create.IH show ?case by (intro trace_ok_Cons) auto
next
  case (persist db dbs won rdb sn drafts v sn' db')
  then have inv: "db_inv db" "db_inv rdb" "evolves rdb db" and "distinct won" by (auto simp: trace_ok_def)
  note keep = persist_preserves [OF persist(5,3,4) inv]
  then obtain sn0 evs0 where st: "stored db sn0 evs0" "sn_execution_id sn0 = sn_execution_id sn" "sn_runtime_version sn0 = v"
    and st': "stored db' sn' (evs0 @ appended sn0 evs0 drafts)" "sn_execution_id sn' = sn_execution_id sn" "sn_runtime_version sn' = v + 1"
    by (auto simp: persist_effect_def later_def)
  have "\<not> past db (sn_execution_id sn) v"
    using stored_unique [OF st(1)] st(2,3) by (force simp: past_def)
  with persist.IH have "(sn_execution_id sn, v) \<notin> set won" by (auto simp: trace_ok_def)
  moreover have "past db' (sn_execution_id sn) v" using st' by (force simp: past_def)
  ultimately show ?case
    using keep persist.IH \<open>distinct won\<close> by (intro trace_ok_Cons) auto
next
  case (persist_refused db dbs won rdb sn drafts v e db')
  then have inv: "db_inv db" "db_inv rdb" "evolves rdb db" and "distinct won" by (auto simp: trace_ok_def)
  with persist_preserves [OF persist_refused(5,3,4) inv] persist_refused.IH show ?case
    by (intro trace_ok_Cons) auto
qed

text \<open>
  C9. However sessions interleave, and however stale their reads are, at most one persist succeeds
  for each version of an execution: no update is lost or applied on top of another.
\<close>

theorem one_winner_per_version:
  assumes "store_trace dbs won"
  shows "distinct won"
  using store_trace_ok [OF assms] by (simp add: trace_ok_def)

text \<open>
  C32. In every interleaving the event history of an execution is append-only and gapless: what an
  earlier state of the tables reads as the history is a prefix of what the latest reads, whose
  events are numbered from one without gaps, the last being the one the checkpoint names.
\<close>

theorem history_append_only:
  assumes "store_trace (db # dbs) won" "d \<in> set (db # dbs)" "get_snapshot d i = Inr (Some sn)"
  shows "\<exists>evs sn' evs'. db_history d i = Inr \<lparr>hi_execution_id = i, hi_events = evs\<rparr>
    \<and> db_history db i = Inr \<lparr>hi_execution_id = i, hi_events = evs'\<rparr> \<and> get_snapshot db i = Inr (Some sn')
    \<and> prefix evs evs' \<and> map ev_sequence evs' = [1..int (length evs')]
    \<and> cp_last_event_id (sn_checkpoint sn') = Some (ev_event_id (last evs')) \<and> sn_plan sn' = sn_plan sn"
proof -
  have inv: "db_inv d" "evolves d db" using store_trace_ok [OF assms(1)] assms(2) by (auto simp: trace_ok_def)
  have "execution_record d i \<noteq> None"
    using assms(3) by (cases "execution_record d i") (simp_all add: get_snapshot_def read_optional_def)
  then obtain sn0 evs where st: "stored d sn0 evs" "sn_execution_id sn0 = i" using record_stored [OF inv(1)] by blast
  then have "sn0 = sn" using stored_get assms(3) by fastforce
  obtain sn' evs' where st': "stored db sn' evs'" "later sn0 evs sn' evs'" using inv(2) st(1) unfolding evolves_def by blast
  then have "sn_execution_id sn' = i" "prefix evs evs'" "sn_plan sn' = sn_plan sn"
    using st(2) \<open>sn0 = sn\<close> by (auto simp: later_def)
  with stored_history [OF st(1)] stored_history [OF st'(1)] stored_get [OF st'(1)] st st'(1) show ?thesis
    by (auto simp: stored_def log_ok_def)
qed

section \<open>Creation succeeds once and is idempotent\<close>

lemma distinct_append_pairs:
  assumes "distinct (map (\<lambda>x. (f x, g x)) xs)" "distinct (map g ys)" "\<forall>y \<in> set ys. f y = i" "i \<notin> set (map f xs)"
  shows "distinct (map (\<lambda>x. (f x, g x)) (xs @ ys))"
proof -
  have "distinct (map (\<lambda>x. (f x, g x)) ys)" using assms(2) by (simp add: map_pair distinct_zipI2)
  moreover have "(f a, g a) \<noteq> (f b, g b)" if "a \<in> set xs" "b \<in> set ys" for a b
    using that assms(3,4) by auto
  ultimately show ?thesis using assms(1) by (auto simp del: map_map)
qed

lemma created_constraints:
  assumes "db_constraints db" "owned db" "planned p" "pl_idempotency_key p = Some key"
    and "pl_execution_id p \<notin> set (map we_execution_id (db_executions db))"
    and "(pl_company_id p, key) \<notin> set (map (\<lambda>e. (we_company_id e, we_idempotency_key e)) (db_executions db))"
    and "id1 \<noteq> id2" "{id1, id2} \<inter> set (map wv_event_id (db_events db)) = {}"
  shows "db_constraints (created_db db (initial_snapshot p retry key (Some id2)) id1 id2)"
proof -
  let ?i = "pl_execution_id p" and ?sn = "initial_snapshot p retry key (Some id2)"
  let ?steps = "map (step_model_from_runtime_step ?i) (sn_steps ?sn)"
  let ?events = "map event_model_from_event (created_events ?i id1 id2)"
  have "valid_by execution_plan_checks p" using assms(3) by (simp add: planned_def valid_plan_def)
  then have pos: "0 < pl_company_id p" "0 < pl_decision_version p" by (auto simp: valid_by_def execution_plan_checks_def)
  have old: "?i \<notin> set (map ws_execution_id (db_steps db))" "?i \<notin> set (map wv_execution_id (db_events db))"
    using assms(2,5) unfolding owned_def by blast+
  have keys: "map ws_step_key ?steps = map st_step_key (pl_steps p)" "map ws_sequence ?steps = [1..int (length (pl_steps p))]"
    using assms(3) by (simp_all add: initial_snapshot_def initial_runtime_step_def step_model_from_runtime_step_def comp_def planned_def)
  have own: "\<forall>s \<in> set ?steps. ws_execution_id s = ?i" "\<forall>e \<in> set ?events. wv_execution_id e = ?i"
    by (auto simp: step_model_from_runtime_step_def event_model_from_event_def created_events_def)
  have "distinct (map st_step_key (pl_steps p))" using assms(3) valid_plan_keys by (simp add: planned_def)
  then have steps: "distinct (map (\<lambda>s. (ws_execution_id s, ws_step_key s)) (db_steps db @ ?steps))"
    "distinct (map (\<lambda>s. (ws_execution_id s, ws_sequence s)) (db_steps db @ ?steps))"
    using assms(1) own old keys by (auto simp only: db_constraints_def distinct_upto intro!: distinct_append_pairs)
  have "distinct (map wv_sequence ?events)" by (simp add: created_events_def event_model_from_event_def)
  then have events: "distinct (map (\<lambda>e. (wv_execution_id e, wv_sequence e)) (db_events db @ ?events))"
    using assms(1) own(2) old(2) by (intro distinct_append_pairs) (auto simp only: db_constraints_def)
  have "0 < st_sequence s" if "s \<in> set (pl_steps p)" for s
    using planned_steps_facts(2) [OF assms(3) that] by simp
  then have "list_all (\<lambda>s. 0 < ws_sequence s \<and> 0 \<le> ws_retry_count s) ?steps"
    by (auto simp: list_all_iff initial_snapshot_def step_model_from_runtime_step_def initial_runtime_step_def)
  then have positive: "list_all (\<lambda>s. 0 < ws_sequence s \<and> 0 \<le> ws_retry_count s) (db_steps db @ ?steps)"
    using assms(1) by (simp add: db_constraints_def)
  have ids: "distinct (map wv_event_id (db_events db @ ?events))" "list_all (\<lambda>e. 0 < wv_sequence e) (db_events db @ ?events)"
    using assms(1,7,8) by (auto simp: db_constraints_def created_events_def event_model_from_event_def)
  have row: "we_execution_id (row_of ?sn 3) = ?i" "we_company_id (row_of ?sn 3) = pl_company_id p"
    "we_idempotency_key (row_of ?sn 3) = key" "we_decision_version (row_of ?sn 3) = pl_decision_version p"
    by (simp_all add: row_of_def execution_model_from_snapshot_def initial_snapshot_def)
  have "distinct (map we_execution_id (db_executions db @ [row_of ?sn 3]))"
    "distinct (map (\<lambda>e. (we_company_id e, we_idempotency_key e)) (db_executions db @ [row_of ?sn 3]))"
    "list_all (\<lambda>e. 0 < we_company_id e \<and> 0 < we_decision_version e) (db_executions db @ [row_of ?sn 3])"
    using assms(1,5,6) pos by (auto simp: db_constraints_def row)
  moreover have "sn_execution_id ?sn = ?i" by (simp add: initial_snapshot_def)
  ultimately show ?thesis
    using steps events positive ids
    unfolding db_constraints_def created_db_def execution_db.simps by (simp only: simp_thms)
qed

lemma insert_execution_eq:
  assumes "planned p" "valid_by retry_policy_checks retry" "pl_idempotency_key p = Some key" "\<not> blank id1" "\<not> blank id2"
  shows "insert_execution id1 id2 (initial_snapshot p retry key None) db
    = Inr (created_db db (initial_snapshot p retry key (Some id2)) id1 id2)"
proof -
  have i: "\<not> blank (pl_execution_id p)" using assms(1) by (simp add: planned_def valid_plan_def valid_by_def execution_plan_checks_def)
  have cp: "valid_by checkpoint_checks (sn_checkpoint (initial_snapshot p retry key (Some id2)))"
    using initial_snapshot_valid(1) [OF assms(1-3), of "Some id2"] assms(5) by (simp add: valid_snapshot_def)
  have "assign_event_sequences (pl_execution_id p) 1
      [\<lparr>ed_event_id = id1, ed_execution_id = pl_execution_id p, ed_event_type = EV_EXECUTION_CREATED, ed_state = X_NEW,
        ed_step_key = None, ed_step_type = None, ed_data = []\<rparr>,
       \<lparr>ed_event_id = id2, ed_execution_id = pl_execution_id p, ed_event_type = EV_PLANNING_COMPLETED, ed_state = X_PLANNED,
        ed_step_key = None, ed_step_type = None, ed_data = []\<rparr>] = Inr (created_events (pl_execution_id p) id1 id2)"
    using created_log_ok [OF i assms(4,5)]
    by (simp add: assign_event_sequences_Inr new_events_def created_events_def log_ok_def)
  moreover have "event_draft_of x (pl_execution_id p) ty st = Inr \<lparr>ed_event_id = x, ed_execution_id = pl_execution_id p,
      ed_event_type = ty, ed_state = st, ed_step_key = None, ed_step_type = None, ed_data = []\<rparr>" if "\<not> blank x" for x ty st
    using i that by (simp add: event_draft_of_def mk_checked_Inr_iff valid_by_def event_draft_checks_def)
  ultimately show ?thesis
    using assms(4,5) cp
    by (simp add: insert_execution_def initial_snapshot_def execution_model_from_snapshot_def
        checkpoint_with_last_event_id_def Let_def created_db_def row_of_def created_events_def)
qed

lemma stored_by_key:
  assumes "db_inv db" "stored db sn evs"
  shows "get_by_idempotency_key db (sn_company_id sn) (sn_idempotency_key sn) = Inr (Some sn)"
proof -
  let ?row = "row_of sn (int (length evs) + 1)"
  have rows: "filter (\<lambda>e. we_execution_id e = sn_execution_id sn) (db_executions db) = [?row]"
    using assms(2) by (simp add: stored_def)
  then have "?row \<in> set (db_executions db)" by (metis filter_is_subset list.set_intros(1) subsetD)
  moreover have "(we_company_id ?row, we_idempotency_key ?row) = (sn_company_id sn, sn_idempotency_key sn)"
    by (simp add: row_of_def execution_model_from_snapshot_def)
  ultimately have "find (\<lambda>e. (we_company_id e, we_idempotency_key e) = (sn_company_id sn, sn_idempotency_key sn)) (db_executions db) = Some ?row"
    using find_key_unique [of "\<lambda>e. (we_company_id e, we_idempotency_key e)" "db_executions db" ?row] assms(1)
    by (simp add: db_inv_def db_constraints_def)
  then have found: "find (\<lambda>e. we_company_id e = sn_company_id sn \<and> we_idempotency_key e = sn_idempotency_key sn) (db_executions db) = Some ?row"
    by simp
  have "we_execution_id ?row = sn_execution_id sn" by (simp add: row_of_def execution_model_from_snapshot_def)
  then have "Some (with_steps db ?row) = execution_record db (sn_execution_id sn)"
    using assms(2) unfolding stored_record [OF assms(2)] by (simp add: with_steps_def stored_def)
  with found stored_get [OF assms(2)] show ?thesis
    by (simp add: get_by_idempotency_key_def get_snapshot_def)
qed

lemma create_fresh:
  assumes "db_inv db" "planned p" "valid_by retry_policy_checks retry" "pl_idempotency_key p = Some key"
    and "pl_execution_id p \<notin> set (map we_execution_id (db_executions db))"
    and "(pl_company_id p, key) \<notin> set (map (\<lambda>e. (we_company_id e, we_idempotency_key e)) (db_executions db))"
    and "id1 \<noteq> id2" "{id1, id2} \<inter> set (map wv_event_id (db_events db)) = {}" "\<not> blank id1" "\<not> blank id2"
  defines "sn \<equiv> initial_snapshot p retry key (Some id2)"
  shows "create_from_plan id1 id2 p retry db = (Inr sn, created_db db sn id1 id2)"
    and "stored (created_db db sn id1 id2) sn (created_events (pl_execution_id p) id1 id2)"
    and "db_inv (created_db db sn id1 id2)"
proof -
  have inv: "db_constraints db" "owned db" using assms(1) by (simp_all add: db_inv_def)
  have con: "db_constraints (created_db db sn id1 id2)"
    unfolding sn_def by (rule created_constraints [OF inv assms(2,4-8)])
  show st: "stored (created_db db sn id1 id2) sn (created_events (pl_execution_id p) id1 id2)"
    unfolding sn_def by (rule stored_created [OF assms(2-4,9,10) inv(2) assms(5)])
  have "find (\<lambda>e. we_company_id e = pl_company_id p \<and> we_idempotency_key e = key) (db_executions db) = None"
    using assms(6) unfolding find_None_iff set_map by force
  then have unknown: "get_by_idempotency_key db (pl_company_id p) key = Inr None"
    by (simp add: get_by_idempotency_key_def read_optional_def)
  have "sn_execution_id sn = pl_execution_id p" by (simp add: sn_def initial_snapshot_def)
  then show run: "create_from_plan id1 id2 p retry db = (Inr sn, created_db db sn id1 id2)"
    using con stored_get [OF st] unknown insert_execution_eq [OF assms(2-4,9,10), of db]
    by (simp add: create_from_plan_def create_from_plan_at_def plan_idempotency_key_def assms(4)
        snapshot_from_plan_eq [OF assms(2-4)] snapshot_or_def sn_def [symmetric])
  show "db_inv (created_db db sn id1 id2)"
    using create_preserves [OF run [unfolded create_from_plan_def] assms(2,3,1)] by blast
qed

text \<open>
  C33. For a plan of the planner whose execution and idempotency key the tables do not know yet,
  and new event identifiers, creating stores the initial snapshot with its two events; creating
  it again returns the stored snapshot and changes nothing; and a plan with another signature under
  the same key is refused as a conflict.
\<close>

theorem create_is_idempotent:
  assumes "db_inv db" "planned p" "valid_by retry_policy_checks retry" "pl_idempotency_key p = Some key"
    and "pl_execution_id p \<notin> set (map we_execution_id (db_executions db))"
    and "(pl_company_id p, key) \<notin> set (map (\<lambda>e. (we_company_id e, we_idempotency_key e)) (db_executions db))"
    and "id1 \<noteq> id2" "{id1, id2} \<inter> set (map wv_event_id (db_events db)) = {}" "\<not> blank id1" "\<not> blank id2"
  shows "\<exists>sn db'. create_from_plan id1 id2 p retry db = (Inr sn, db') \<and> stored db' sn (created_events (pl_execution_id p) id1 id2)
    \<and> sn_state sn = X_PLANNED \<and> sn_plan sn = p \<and> db_inv db'
    \<and> create_from_plan a1 a2 p retry db' = (Inr sn, db')
    \<and> (pl_company_id q = pl_company_id p \<longrightarrow> pl_idempotency_key q = Some key \<longrightarrow> plan_signature q \<noteq> plan_signature p \<longrightarrow>
       create_from_plan a1 a2 q retry db' =
         (Inl (ExecutionIdempotencyConflictError ''Execution idempotency key conflicts with a plan.''), db'))"
proof -
  let ?sn = "initial_snapshot p retry key (Some id2)"
  let ?db = "created_db db ?sn id1 id2"
  note fresh = create_fresh [OF assms]
  have fields: "sn_company_id ?sn = pl_company_id p" "sn_idempotency_key ?sn = key" "sn_plan ?sn = p" "sn_state ?sn = X_PLANNED"
    by (simp_all add: initial_snapshot_def)
  have known: "get_by_idempotency_key ?db (pl_company_id p) key = Inr (Some ?sn)"
    using stored_by_key [OF fresh(3,2)] by (simp only: fields)
  have again: "create_from_plan a1 a2 p retry ?db = (Inr ?sn, ?db)"
    using known by (simp add: create_from_plan_def create_from_plan_at_def plan_idempotency_key_def assms(4) fields)
  have "create_from_plan a1 a2 q retry ?db =
      (Inl (ExecutionIdempotencyConflictError ''Execution idempotency key conflicts with a plan.''), ?db)"
    if "pl_company_id q = pl_company_id p" "pl_idempotency_key q = Some key" "plan_signature q \<noteq> plan_signature p"
    using known that by (simp add: create_from_plan_def create_from_plan_at_def plan_idempotency_key_def fields)
  with fresh again fields show ?thesis by blast
qed

section \<open>A sample execution\<close>

definition sample_policy :: "int \<Rightarrow> retry_policy" where
  "sample_policy attempts =
     \<lparr>rp_policy_type = RP_IMMEDIATE, rp_max_attempts = attempts, rp_delay_seconds = 0, rp_backoff_multiplier = 2\<rparr>"

definition empty_db :: execution_db where
  "empty_db = \<lparr>db_executions = [], db_steps = [], db_events = []\<rparr>"

definition sample_snapshot :: snapshot where
  "sample_snapshot = initial_snapshot sample_plan (sample_policy 2) ''execution:k'' (Some ''e2'')"

definition sample_db :: execution_db where
  "sample_db = created_db empty_db sample_snapshot ''e1'' ''e2''"

lemma sample_planned: "planned sample_plan"
  by (simp add: planned_def valid_plan_def valid_step_def valid_by_def execution_plan_checks_def execution_step_checks_def
      sample_plan_def sample_step_def blank_eval upto_rec1)

lemma sample_policy_valid: "1 \<le> n \<Longrightarrow> valid_by retry_policy_checks (sample_policy n)"
  by (simp add: valid_by_def retry_policy_checks_def sample_policy_def)

lemma empty_db_inv: "db_inv empty_db"
  by (simp add: db_inv_def db_constraints_def owned_def empty_db_def)

lemma sample_ids: "\<not> blank ''e1''" "\<not> blank ''e2''" "\<not> blank ''e3''"
  by (simp_all add: blank_eval)

lemma sample_created:
  "create_from_plan ''e1'' ''e2'' sample_plan (sample_policy 2) empty_db = (Inr sample_snapshot, sample_db)"
  "stored sample_db sample_snapshot (created_events ''x1'' ''e1'' ''e2'')" "db_inv sample_db"
proof -
  have key: "pl_idempotency_key sample_plan = Some ''execution:k''" and i: "pl_execution_id sample_plan = ''x1''"
    by (simp_all add: sample_plan_def)
  note fresh = create_fresh [OF empty_db_inv sample_planned sample_policy_valid [of 2] key _ _ _ _ sample_ids(1,2), folded sample_snapshot_def]
  show "create_from_plan ''e1'' ''e2'' sample_plan (sample_policy 2) empty_db = (Inr sample_snapshot, sample_db)"
    unfolding sample_db_def by (rule fresh(1)) (simp_all add: empty_db_def)
  show "stored sample_db sample_snapshot (created_events ''x1'' ''e1'' ''e2'')"
    unfolding sample_db_def i [symmetric] by (rule fresh(2)) (simp_all add: empty_db_def)
  show "db_inv sample_db" unfolding sample_db_def by (rule fresh(3)) (simp_all add: empty_db_def)
qed

theorem create_is_idempotent_witness:
  "\<exists>sn db'. create_from_plan ''e1'' ''e2'' sample_plan (sample_policy 2) empty_db = (Inr sn, db')
     \<and> create_from_plan ''e3'' ''e4'' sample_plan (sample_policy 2) db' = (Inr sn, db')"
proof -
  have "pl_idempotency_key sample_plan = Some ''execution:k''" by (simp add: sample_plan_def)
  from create_is_idempotent [OF empty_db_inv sample_planned sample_policy_valid [of 2] this _ _ _ _ sample_ids(1,2),
      of "''e3''" "''e4''" sample_plan] show ?thesis
    by (simp add: empty_db_def) blast
qed

definition sample_draft :: event_draft where
  "sample_draft = \<lparr>ed_event_id = ''e3'', ed_execution_id = ''x1'', ed_event_type = EV_EXECUTION_STARTED, ed_state = X_RUNNING,
     ed_step_key = None, ed_step_type = None, ed_data = []\<rparr>"

definition sample_running :: snapshot where
  "sample_running = merge_snapshot sample_snapshot (sample_snapshot\<lparr>sn_state := X_RUNNING\<rparr>) ''e3''"

lemma sample_persisted:
  "\<exists>db'. persist_transition_at sample_db (sample_snapshot\<lparr>sn_state := X_RUNNING\<rparr>) [sample_draft] 1 sample_db = (Inr sample_running, db')"
proof -
  let ?sn = "sample_snapshot\<lparr>sn_state := X_RUNNING\<rparr>"
  have valid: "valid_snapshot ?sn"
    using sample_created(2) by (auto simp: stored_def valid_snapshot_def valid_by_def snapshot_checks_def)
  have drafts: "list_all (valid_by event_draft_checks) [sample_draft]"
    by (simp add: sample_draft_def valid_by_def event_draft_checks_def blank_eval)
  have "map wv_event_id (db_events sample_db) = [''e1'', ''e2'']"
    by (simp add: sample_db_def created_db_def empty_db_def created_events_def event_model_from_event_def)
  then have "fresh_ids sample_db [sample_draft]" by (simp add: fresh_ids_def sample_draft_def)
  with sample_created(2,3) valid
  have con: "db_constraints (persisted_db sample_db sample_snapshot ?sn (created_events ''x1'' ''e1'' ''e2'')
      (appended sample_snapshot (created_events ''x1'' ''e1'' ''e2'') [sample_draft]))"
    by (intro persisted_constraints) (simp_all add: db_inv_def)
  have "sn_runtime_version sample_snapshot = 1" by (simp add: sample_snapshot_def initial_snapshot_def)
  then show ?thesis
    using persist_at_eval [OF sample_created(2,2) _ valid drafts] con
    by (simp add: find_None_iff [THEN iffD2] sample_running_def sample_draft_def)
qed

lemma sample_trace: "\<exists>db. store_trace [db, sample_db, empty_db] [(''x1'', 1)]"
proof -
  obtain db where p: "persist_transition_at sample_db (sample_snapshot\<lparr>sn_state := X_RUNNING\<rparr>) [sample_draft] 1 sample_db
      = (Inr sample_running, db)" using sample_persisted by blast
  have "store_trace [sample_db, empty_db] []"
    using store_trace.create [OF store_trace.start _ sample_planned sample_policy_valid [of 2]] sample_created(1)
    by (simp add: create_from_plan_def empty_db_def)
  then have "store_trace [db, sample_db, empty_db] [(sn_execution_id (sample_snapshot\<lparr>sn_state := X_RUNNING\<rparr>), 1)]"
    using sample_created(2) p
    by (intro store_trace.persist [OF _ _ _ _ p])
       (auto simp: stored_def valid_snapshot_def valid_by_def snapshot_checks_def sample_draft_def event_draft_checks_def blank_eval)
  then show ?thesis by (auto simp: sample_snapshot_def initial_snapshot_def sample_plan_def)
qed

theorem one_winner_per_version_witness: "\<exists>dbs. store_trace dbs [(''x1'', 1)] \<and> distinct [(''x1'', 1 :: int)]"
  using sample_trace one_winner_per_version by blast

theorem history_append_only_witness:
  "\<exists>db evs evs'. db_history sample_db ''x1'' = Inr \<lparr>hi_execution_id = ''x1'', hi_events = evs\<rparr>
     \<and> db_history db ''x1'' = Inr \<lparr>hi_execution_id = ''x1'', hi_events = evs'\<rparr> \<and> prefix evs evs'"
proof -
  obtain db where tr: "store_trace [db, sample_db, empty_db] [(''x1'', 1)]" using sample_trace by blast
  have "get_snapshot sample_db ''x1'' = Inr (Some sample_snapshot)"
    using stored_get [OF sample_created(2)] by (simp add: sample_snapshot_def initial_snapshot_def sample_plan_def)
  from history_append_only [OF tr _ this] show ?thesis by auto
qed

section \<open>What is written is what is read\<close>

text \<open>
  C20. Reading back what was written loses nothing: the rows of a valid snapshot whose steps are in order, with
  every nested plan, step, allocation, billing instruction, checkpoint, retry policy, failure and result as JSON
  data, are read as that snapshot, whatever the event counter of its row; and the rows of valid events as those events.
\<close>

theorem stored_rows_roundtrip:
  assumes "valid_snapshot s" "ordered_steps (sn_steps s)" "list_all (valid_by event_checks) evs"
  shows "snapshot_from_model ((execution_model_from_snapshot s)\<lparr>we_next_event_sequence := n\<rparr>,
      map (step_model_from_runtime_step (sn_execution_id s)) (sn_steps s)) = Inr s
    \<and> emap event_from_model (map event_model_from_event evs) = Inr evs"
proof
  show "snapshot_from_model ((execution_model_from_snapshot s)\<lparr>we_next_event_sequence := n\<rparr>,
      map (step_model_from_runtime_step (sn_execution_id s)) (sn_steps s)) = Inr s"
    using assms(1,2) by (rule snapshot_roundtrip)
  show "emap event_from_model (map event_model_from_event evs) = Inr evs"
    using assms(3) by (intro emap_inverse event_roundtrip) (simp add: list_all_iff)
qed

theorem stored_rows_roundtrip_witness:
  "snapshot_from_model ((execution_model_from_snapshot sample_snapshot)\<lparr>we_next_event_sequence := 3\<rparr>,
      map (step_model_from_runtime_step ''x1'') (sn_steps sample_snapshot)) = Inr sample_snapshot
   \<and> emap event_from_model (map event_model_from_event (created_events ''x1'' ''e1'' ''e2'')) = Inr (created_events ''x1'' ''e1'' ''e2'')"
proof -
  have "sn_execution_id sample_snapshot = ''x1''" by (simp add: sample_snapshot_def initial_snapshot_def sample_plan_def)
  with stored_rows_roundtrip [of sample_snapshot "created_events ''x1'' ''e1'' ''e2''" 3] sample_created(2)
  show ?thesis by (auto simp: stored_def log_ok_def list_all_iff)
qed

end
