(* ===== verification/Exec_Machine.thy ===== *)
theory Exec_Machine
  imports Exec_Runtime "HOL-Library.Sublist"
begin

text \<open>
  The abstract machine of an execution: what the event log of one execution may contain, given the
  retry policy and the step keys in plan order, and what runtime state a log amounts to. A log is
  accepted when every event is legal where it stands; the state after it is computed from the log
  alone. \<^verbatim>\<open>Exec_Coordinator\<close> models the code that drives executions and \<^verbatim>\<open>Exec_Refinement\<close> shows
  that every log it leaves in the store is accepted and that the stored snapshot is the state of
  its log; the lemmas here say what acceptance means.
\<close>

section \<open>The machine\<close>

record machine =
  m_state :: execution_state
  m_step :: "string \<Rightarrow> runtime_step_state"
  m_retries :: "string \<Rightarrow> int"
  m_done :: "string list"

definition machine_start :: machine where
  "machine_start = \<lparr>m_state = X_NEW, m_step = (\<lambda>_. RS_PENDING), m_retries = (\<lambda>_. 0), m_done = []\<rparr>"

text \<open>The step whose turn it is: the first one in plan order that is not completed.\<close>

definition next_key :: "string list \<Rightarrow> string list \<Rightarrow> string option" where
  "next_key keys completed = find (\<lambda>k. k \<notin> set completed) keys"

definition may_retry :: "retry_policy \<Rightarrow> int \<Rightarrow> bool" where
  "may_retry p n \<longleftrightarrow> rp_policy_type p \<noteq> RP_NEVER \<and> n < rp_max_attempts p"

text \<open>The guard and the effect of one event.\<close>

fun machine_effect :: "retry_policy \<Rightarrow> string list \<Rightarrow> machine \<Rightarrow> event_type \<Rightarrow> string option \<Rightarrow> machine option" where
  "machine_effect p keys m EV_EXECUTION_CREATED None = (if m_state m = X_NEW then Some m else None)"
| "machine_effect p keys m EV_PLANNING_COMPLETED None =
     (if m_state m = X_NEW then Some (m\<lparr>m_state := X_PLANNED\<rparr>) else None)"
| "machine_effect p keys m EV_EXECUTION_STARTED None =
     (if m_state m \<in> {X_PLANNED, X_WAITING_RETRY} then Some (m\<lparr>m_state := X_RUNNING\<rparr>) else None)"
| "machine_effect p keys m EV_STEP_STARTED (Some k) =
     (if m_state m = X_RUNNING \<and> next_key keys (m_done m) = Some k \<and> m_step m k \<noteq> RS_FAILED
      then Some (m\<lparr>m_step := (m_step m)(k := RS_RUNNING)\<rparr>) else None)"
| "machine_effect p keys m EV_STEP_COMPLETED (Some k) =
     (if m_state m = X_RUNNING \<and> next_key keys (m_done m) = Some k \<and> m_step m k = RS_RUNNING
      then Some (m\<lparr>m_step := (m_step m)(k := RS_COMPLETED), m_done := m_done m @ [k]\<rparr>) else None)"
| "machine_effect p keys m EV_STEP_FAILED (Some k) =
     (if m_state m = X_RUNNING \<and> next_key keys (m_done m) = Some k \<and> m_step m k = RS_RUNNING
      then Some (m\<lparr>m_step := (m_step m)(k := RS_FAILED), m_retries := (m_retries m)(k := m_retries m k + 1)\<rparr>) else None)"
| "machine_effect p keys m EV_RETRY_SCHEDULED (Some k) =
     (if m_state m = X_RUNNING \<and> next_key keys (m_done m) = Some k \<and> m_step m k = RS_FAILED
         \<and> may_retry p (m_retries m k)
      then Some (m\<lparr>m_state := X_WAITING_RETRY, m_step := (m_step m)(k := RS_WAITING_RETRY)\<rparr>) else None)"
| "machine_effect p keys m EV_EXECUTION_FAILED (Some k) =
     (if m_state m = X_RUNNING \<and> next_key keys (m_done m) = Some k \<and> m_step m k = RS_FAILED
         \<and> \<not> may_retry p (m_retries m k)
      then Some (m\<lparr>m_state := X_FAILED\<rparr>) else None)"
| "machine_effect p keys m EV_EXECUTION_COMPLETED None =
     (if m_state m = X_RUNNING \<and> next_key keys (m_done m) = None
      then Some (m\<lparr>m_state := X_COMPLETED\<rparr>) else None)"
| "machine_effect p keys m _ _ = None"

fun_cases machine_effect_SomeE: "machine_effect p keys m ty k = Some m'"

text \<open>An event carries the state it leads to.\<close>

type_synonym log_entry = "event_type \<times> execution_state \<times> string option"

definition entry_of_event :: "event \<Rightarrow> log_entry" where
  "entry_of_event e = (ev_event_type e, ev_state e, ev_step_key e)"

fun machine_step :: "retry_policy \<Rightarrow> string list \<Rightarrow> machine \<Rightarrow> log_entry \<Rightarrow> machine option" where
  "machine_step p keys m (ty, state, k) = (case machine_effect p keys m ty k of
     Some m' \<Rightarrow> if m_state m' = state then Some m' else None | None \<Rightarrow> None)"

fun machine_run :: "retry_policy \<Rightarrow> string list \<Rightarrow> machine \<Rightarrow> log_entry list \<Rightarrow> machine option" where
  "machine_run p keys m [] = Some m"
| "machine_run p keys m (e # es) = (case machine_step p keys m e of
     Some m' \<Rightarrow> machine_run p keys m' es | None \<Rightarrow> None)"

definition replay :: "retry_policy \<Rightarrow> string list \<Rightarrow> event list \<Rightarrow> machine option" where
  "replay p keys evs = machine_run p keys machine_start (map entry_of_event evs)"

lemma machine_run_append:
  "machine_run p keys m (es @ fs) = (case machine_run p keys m es of
     Some m' \<Rightarrow> machine_run p keys m' fs | None \<Rightarrow> None)"
  by (induction es arbitrary: m) (simp_all split: option.split)

lemma replay_append:
  "replay p keys (evs @ new) = (case replay p keys evs of
     Some m \<Rightarrow> machine_run p keys m (map entry_of_event new) | None \<Rightarrow> None)"
  by (simp add: replay_def machine_run_append)

section \<open>Invariants of accepted logs\<close>

text \<open>Steps complete in plan order, a completed step keeps its state, and a step fails at most as often as the policy allows.\<close>

definition machine_ok :: "retry_policy \<Rightarrow> string list \<Rightarrow> machine \<Rightarrow> bool" where
  "machine_ok p keys m \<longleftrightarrow> prefix (m_done m) keys
     \<and> (\<forall>k. m_step m k = RS_COMPLETED \<longleftrightarrow> k \<in> set (m_done m))
     \<and> (\<forall>k. 0 \<le> m_retries m k \<and> m_retries m k \<le> rp_max_attempts p)
     \<and> (\<forall>k. m_step m k \<noteq> RS_FAILED \<longrightarrow> m_retries m k = 0 \<or> may_retry p (m_retries m k))"

lemma find_append: "find P (xs @ ys) = (case find P xs of None \<Rightarrow> find P ys | Some x \<Rightarrow> Some x)"
  by (induction xs) simp_all

lemma next_key_split:
  assumes "prefix ds keys" "distinct keys"
  shows "next_key keys ds = (case drop (length ds) keys of [] \<Rightarrow> None | k # _ \<Rightarrow> Some k)"
proof -
  obtain rest where keys: "keys = ds @ rest" using assms(1) by (auto simp: prefix_def)
  moreover have "find (\<lambda>k. k \<notin> set ds) ds = None" by (simp add: find_None_iff)
  ultimately show ?thesis
    using assms(2) by (cases rest) (simp_all add: next_key_def find_append)
qed

lemma next_key_Some_prefix:
  assumes "prefix ds keys" "distinct keys" "next_key keys ds = Some k"
  shows "prefix (ds @ [k]) keys" "k \<notin> set ds"
proof -
  obtain rest where keys: "keys = ds @ rest" using assms(1) by (auto simp: prefix_def)
  with assms show "prefix (ds @ [k]) keys" "k \<notin> set ds"
    by (cases rest; simp add: next_key_split)+
qed

lemma next_key_None_done:
  assumes "prefix ds keys" "distinct keys"
  shows "next_key keys ds = None \<longleftrightarrow> ds = keys"
  using assms by (auto simp: next_key_split prefix_def split: list.split)

lemma machine_start_ok: "1 \<le> rp_max_attempts p \<Longrightarrow> machine_ok p keys machine_start"
  by (simp add: machine_ok_def machine_start_def)

lemma retries_below:
  assumes "machine_ok p keys m" "1 \<le> rp_max_attempts p" "m_step m k = RS_RUNNING"
  shows "m_retries m k + 1 \<le> rp_max_attempts p"
proof -
  from assms(1) have "m_step m k \<noteq> RS_FAILED \<longrightarrow> m_retries m k = 0 \<or> may_retry p (m_retries m k)"
    by (simp add: machine_ok_def)
  with assms(2,3) show ?thesis by (auto simp: may_retry_def)
qed

lemma machine_effect_ok:
  assumes "machine_effect p keys m ty k = Some m'" "machine_ok p keys m" "distinct keys" "1 \<le> rp_max_attempts p"
  shows "machine_ok p keys m'"
  using assms(1)
  by (rule machine_effect_SomeE)
     (use assms(2-) next_key_Some_prefix [of "m_done m" keys] retries_below [OF assms(2,4)] in
       \<open>auto simp: machine_ok_def may_retry_def split: if_splits\<close>)

lemma machine_step_effect:
  "machine_step p keys m e = Some m' \<longleftrightarrow>
     machine_effect p keys m (fst e) (snd (snd e)) = Some m' \<and> m_state m' = fst (snd e)"
  by (cases e) (auto split: option.splits)

lemma machine_run_ok:
  assumes "machine_run p keys m es = Some m'" "machine_ok p keys m" "distinct keys" "1 \<le> rp_max_attempts p"
  shows "machine_ok p keys m'"
  using assms(1,2)
  by (induction es arbitrary: m) (use machine_effect_ok [OF _ _ assms(3,4)] in
    \<open>auto simp: machine_step_effect split: option.splits\<close>)

lemma replay_ok:
  assumes "replay p keys evs = Some m" "distinct keys" "1 \<le> rp_max_attempts p"
  shows "machine_ok p keys m"
  using machine_run_ok [OF _ machine_start_ok [OF assms(3)] assms(2,3)] assms(1) by (simp add: replay_def)

section \<open>What acceptance means\<close>

text \<open>Every event leads to the state it carries by a legal transition, or keeps the state.\<close>

lemma machine_effect_legal:
  "machine_effect p keys m ty k = Some m' \<Longrightarrow>
   m_state m' = m_state m \<or> assert_legal_transition (m_state m) (m_state m') = Inr ()"
  by (erule machine_effect_SomeE) (auto simp: assert_legal_ok split: if_splits)

text \<open>No event is accepted in a terminal state.\<close>

lemma machine_effect_terminal: "terminal (m_state m) \<Longrightarrow> machine_effect p keys m ty k = None"
  by (cases "machine_effect p keys m ty k") (auto elim!: machine_effect_SomeE split: if_splits)

text \<open>No event names a step that is completed.\<close>

lemma machine_effect_not_done:
  assumes "machine_effect p keys m ty (Some k) = Some m'" "machine_ok p keys m" "distinct keys"
  shows "k \<notin> set (m_done m)"
  using assms(1) next_key_Some_prefix(2) [OF _ assms(3), of "m_done m"] assms(2)
  by (cases ty) (auto simp: machine_ok_def split: if_splits)

lemma machine_effect_done: "machine_effect p keys m ty k = Some m' \<Longrightarrow> prefix (m_done m) (m_done m')"
  by (erule machine_effect_SomeE) (auto split: if_splits)

lemma machine_run_done: "machine_run p keys m es = Some m' \<Longrightarrow> prefix (m_done m) (m_done m')"
  by (induction es arbitrary: m)
     (auto simp: machine_step_effect split: option.splits dest!: machine_effect_done intro: prefix_order.trans)

lemma machine_run_not_done:
  assumes "machine_run p keys m es = Some m'" "machine_ok p keys m" "distinct keys" "1 \<le> rp_max_attempts p"
    and "k \<in> set (m_done m)"
  shows "list_all (\<lambda>e. snd (snd e) \<noteq> Some k) es"
  using assms(1,2,5)
proof (induction es arbitrary: m)
  case (Cons e es)
  then obtain m1 where m1: "machine_step p keys m e = Some m1" "machine_run p keys m1 es = Some m'"
    by (auto split: option.splits)
  note eff = m1(1) [unfolded machine_step_effect, THEN conjunct1]
  have "snd (snd e) \<noteq> Some k"
    using machine_effect_not_done [OF _ Cons.prems(2) assms(3)] eff Cons.prems(3) by metis
  moreover have "k \<in> set (m_done m1)"
    using machine_effect_done [OF eff] Cons.prems(3) by (auto simp: prefix_def)
  moreover have "machine_ok p keys m1" by (rule machine_effect_ok [OF eff Cons.prems(2) assms(3,4)])
  ultimately show ?case using Cons.IH [OF m1(2)] by simp
qed simp

text \<open>The events that complete steps, in order, are the completed steps.\<close>

lemma machine_effect_completions:
  "machine_effect p keys m ty k = Some m' \<Longrightarrow>
   map Some (m_done m') = map Some (m_done m) @ (if ty = EV_STEP_COMPLETED then [k] else [])"
  by (erule machine_effect_SomeE) (auto split: if_splits)

lemma machine_run_completions:
  "machine_run p keys m es = Some m' \<Longrightarrow>
   map Some (m_done m') = map Some (m_done m) @ map (\<lambda>e. snd (snd e)) (filter (\<lambda>e. fst e = EV_STEP_COMPLETED) es)"
proof (induction es arbitrary: m)
  case (Cons e es)
  then obtain m1 where m1: "machine_step p keys m e = Some m1" "machine_run p keys m1 es = Some m'"
    by (auto split: option.splits)
  with Cons.IH [OF m1(2)] machine_effect_completions [of p keys m "fst e" "snd (snd e)" m1] show ?case
    by (auto simp: machine_step_effect)
qed simp

text \<open>After a step has completed no later event names it.\<close>

lemma machine_run_final:
  assumes "machine_run p keys m es = Some m'" "machine_ok p keys m" "distinct keys" "1 \<le> rp_max_attempts p"
    and "i < j" "j < length es" "fst (es ! i) = EV_STEP_COMPLETED"
  shows "snd (snd (es ! j)) \<noteq> snd (snd (es ! i))"
proof -
  have es: "es = take (Suc i) es @ drop (Suc i) es" by simp
  obtain m1 where m1: "machine_run p keys m (take (Suc i) es) = Some m1" "machine_run p keys m1 (drop (Suc i) es) = Some m'"
    using assms(1) machine_run_append [of p keys m "take (Suc i) es" "drop (Suc i) es"] by (auto split: option.splits)
  have "es ! i \<in> set (take (Suc i) es)" using assms(5,6) by (simp add: take_Suc_conv_app_nth)
  with assms(7) have "snd (snd (es ! i)) \<in> set (map (\<lambda>e. snd (snd e)) (filter (\<lambda>e. fst e = EV_STEP_COMPLETED) (take (Suc i) es)))"
    by auto
  with machine_run_completions [OF m1(1)] have "snd (snd (es ! i)) \<in> set (map Some (m_done m1))" by simp
  then obtain k where k: "snd (snd (es ! i)) = Some k" "k \<in> set (m_done m1)" by auto
  from machine_run_not_done [OF m1(2) machine_run_ok [OF m1(1) assms(2-4)] assms(3,4) k(2)]
  have "list_all (\<lambda>e. snd (snd e) \<noteq> Some k) (drop (Suc i) es)" .
  moreover have "es ! j \<in> set (drop (Suc i) es)"
    using assms(5,6) by (auto simp: in_set_conv_nth intro!: exI [of _ "j - Suc i"])
  ultimately show ?thesis using k(1) by (auto simp: list_all_iff)
qed

text \<open>The failures that a log counts for a step.\<close>

definition failures :: "log_entry list \<Rightarrow> string \<Rightarrow> int" where
  "failures es k = int (length (filter (\<lambda>e. fst e = EV_STEP_FAILED \<and> snd (snd e) = Some k) es))"

lemma machine_effect_retries:
  "machine_effect p keys m ty j = Some m' \<Longrightarrow>
   m_retries m' k = m_retries m k + (if ty = EV_STEP_FAILED \<and> j = Some k then 1 else 0)"
  by (erule machine_effect_SomeE) (auto split: if_splits)

lemma machine_run_retries:
  "machine_run p keys m es = Some m' \<Longrightarrow> m_retries m' k = m_retries m k + failures es k"
proof (induction es arbitrary: m)
  case (Cons e es)
  then obtain m1 where m1: "machine_step p keys m e = Some m1" "machine_run p keys m1 es = Some m'"
    by (auto split: option.splits)
  then show ?case
    using Cons.IH [OF m1(2)] machine_effect_retries [of p keys m "fst e" "snd (snd e)" m1 k]
    by (auto simp: machine_step_effect failures_def)
qed (simp add: failures_def)

text \<open>A step that must not be retried fails at most once.\<close>

lemma machine_run_never:
  assumes "machine_run p keys m es = Some m'" "machine_ok p keys m" "distinct keys" "1 \<le> rp_max_attempts p"
    and "rp_policy_type p = RP_NEVER" "m_retries m k \<le> 1"
  shows "m_retries m' k \<le> 1"
  using assms(1,2,6)
proof (induction es arbitrary: m)
  case (Cons e es)
  then obtain m1 where m1: "machine_step p keys m e = Some m1" "machine_run p keys m1 es = Some m'"
    by (auto split: option.splits)
  note eff = m1(1) [unfolded machine_step_effect, THEN conjunct1]
  have "m_retries m k = 0" if "m_step m k = RS_RUNNING"
    using Cons.prems(2) assms(5) that by (auto simp: machine_ok_def may_retry_def)
  moreover have "m_step m k = RS_RUNNING" if "fst e = EV_STEP_FAILED" "snd (snd e) = Some k"
    using eff that by (simp split: if_splits)
  ultimately have "m_retries m1 k \<le> 1"
    using machine_effect_retries [OF eff, of k] Cons.prems(3) by (auto split: if_splits)
  with Cons.IH [OF m1(2) machine_effect_ok [OF eff Cons.prems(2) assms(3,4)]] show ?case .
qed simp

text \<open>The states that a log goes through.\<close>

lemma machine_run_legal:
  assumes "machine_run p keys m es = Some m'" "Suc i < length es"
  shows "fst (snd (es ! i)) = fst (snd (es ! Suc i))
    \<or> assert_legal_transition (fst (snd (es ! i))) (fst (snd (es ! Suc i))) = Inr ()"
  using assms
proof (induction es arbitrary: m i)
  case (Cons e es)
  then obtain m1 where m1: "machine_step p keys m e = Some m1" "machine_run p keys m1 es = Some m'"
    by (auto split: option.splits)
  show ?case
  proof (cases i)
    case 0
    from Cons.prems(2) obtain e' es' where es: "es = e' # es'" by (cases es) auto
    with m1(2) obtain m2 where m2: "machine_step p keys m1 e' = Some m2" by (auto split: option.splits)
    with m1(1) machine_effect_legal [of p keys m1 "fst e'" "snd (snd e')" m2] 0 es show ?thesis
      by (auto simp: machine_step_effect)
  next
    case (Suc j)
    with Cons.IH [OF m1(2), of j] Cons.prems(2) show ?thesis by simp
  qed
qed simp

lemma machine_run_state:
  "machine_run p keys m es = Some m' \<Longrightarrow> es \<noteq> [] \<Longrightarrow> m_state m' = fst (snd (last es))"
proof (induction es arbitrary: m)
  case (Cons e es)
  then obtain m1 where m1: "machine_step p keys m e = Some m1" "machine_run p keys m1 es = Some m'"
    by (auto split: option.splits)
  then show ?case using Cons.IH [OF m1(2)] by (cases "es = []") (auto simp: machine_step_effect)
qed simp

text \<open>No event leads back to NEW, and none cancels.\<close>

lemma machine_run_live:
  "machine_run p keys m es = Some m' \<Longrightarrow> m_state m \<notin> {X_NEW, X_CANCELLED} \<Longrightarrow> m_state m' \<notin> {X_NEW, X_CANCELLED}"
proof (induction es arbitrary: m)
  case (Cons e es)
  then obtain m1 where m1: "machine_step p keys m e = Some m1" "machine_run p keys m1 es = Some m'"
    by (auto split: option.splits)
  from m1(1) Cons.prems(2) have "m_state m1 \<notin> {X_NEW, X_CANCELLED}"
    unfolding machine_step_effect by (auto elim!: machine_effect_SomeE split: if_splits)
  with Cons.IH [OF m1(2)] show ?case .
qed simp

end
