(* ===== verification/Exec_Refinement.thy ===== *)
theory Exec_Refinement
  imports Exec_Coordinator Exec_Store Exec_Machine
begin

text \<open>
  The coordinator against the store. The locale \<^verbatim>\<open>snapshot_store\<close> is the contract of the repository
  port; it is interpreted on the repository of \<^verbatim>\<open>Exec_Repository\<close>. Inside it the methods of the
  coordinator are shown to drive the machine of \<^verbatim>\<open>Exec_Machine\<close>: whatever the strategies do, the
  events they append are accepted and the stored snapshot is the state of its log.
\<close>

section \<open>The contract of the repository port\<close>

locale snapshot_store =
  fixes persist :: "snapshot \<Rightarrow> event_draft list \<Rightarrow> int \<Rightarrow> ('s, hub_error, snapshot) action"
    and fetch :: "'s \<Rightarrow> string \<Rightarrow> (hub_error, snapshot option) result"
    and holds :: "'s \<Rightarrow> snapshot \<Rightarrow> event list \<Rightarrow> bool"
    and invar :: "'s \<Rightarrow> bool"
    and used :: "'s \<Rightarrow> string set"
  assumes holds_valid: "invar s \<Longrightarrow> holds s sn evs \<Longrightarrow> valid_snapshot sn \<and> ordered_steps (sn_steps sn) \<and> evs \<noteq> []"
    and fetch_held: "invar s \<Longrightarrow> holds s sn evs \<Longrightarrow> fetch s (sn_execution_id sn) = Inr (Some sn)"
    and fetch_found: "invar s \<Longrightarrow> fetch s i = Inr (Some sn) \<Longrightarrow> sn_execution_id sn = i \<and> (\<exists>evs. holds s sn evs)"
    and persist_fresh: "invar s \<Longrightarrow> holds s sn evs \<Longrightarrow> sn_execution_id sn' = sn_execution_id sn \<Longrightarrow> valid_snapshot sn' \<Longrightarrow>
      map rs_step_key (sn_steps sn') = map rs_step_key (sn_steps sn) \<Longrightarrow>
      list_all (valid_by event_draft_checks) drafts \<Longrightarrow> drafts \<noteq> [] \<Longrightarrow> distinct (map ed_event_id drafts) \<Longrightarrow>
      set (map ed_event_id drafts) \<inter> used s = {} \<Longrightarrow>
      \<exists>s'. persist sn' drafts (sn_runtime_version sn) s = (Inr (merge_snapshot sn sn' (ed_event_id (last drafts))), s')
        \<and> invar s' \<and> holds s' (merge_snapshot sn sn' (ed_event_id (last drafts))) (evs @ appended sn evs drafts)
        \<and> used s' = used s \<union> set (map ed_event_id drafts)
        \<and> (\<forall>other oevs. sn_execution_id other \<noteq> sn_execution_id sn \<longrightarrow> holds s' other oevs \<longrightarrow> holds s other oevs)"
    and persist_stale: "invar s \<Longrightarrow> holds s sn evs \<Longrightarrow> sn_execution_id sn' = sn_execution_id sn \<Longrightarrow> drafts \<noteq> [] \<Longrightarrow>
      v \<noteq> sn_runtime_version sn \<Longrightarrow> \<exists>m. persist sn' drafts v s = (Inl (ExecutionConcurrencyConflictError m), s)"
    and holds_unique: "invar s \<Longrightarrow> holds s sn evs \<Longrightarrow> holds s sn' evs' \<Longrightarrow> sn_execution_id sn' = sn_execution_id sn \<Longrightarrow>
      sn' = sn \<and> evs' = evs"

lemma db_frame_back:
  assumes inv: "db_inv db" and st: "stored db sn evs"
    and other: "stored (persisted_db db sn sn' evs (appended sn evs drafts)) other oevs" "sn_execution_id other \<noteq> sn_execution_id sn"
  shows "stored db other oevs"
proof -
  let ?db = "persisted_db db sn sn' evs (appended sn evs drafts)"
  have "map we_execution_id (db_executions ?db) = map we_execution_id (db_executions db)"
    by (auto simp: persisted_db_def update_execution_row_def)
  with stored_row [OF other(1)] have "sn_execution_id other \<in> set (map we_execution_id (db_executions db))" by simp
  then obtain sn0 evs0 where 0: "stored db sn0 evs0" "sn_execution_id sn0 = sn_execution_id other"
    using inv unfolding db_inv_def by blast
  have own: "list_all (\<lambda>e. ev_execution_id e = sn_execution_id sn) (appended sn evs drafts)"
    by (auto simp: appended_def new_events_def list_all_iff)
  have "stored ?db sn0 evs0" using stored_frame [OF 0(1) _ own] 0(2) other(2) by simp
  from stored_unique [OF this other(1)] 0 show ?thesis by simp
qed

interpretation db: snapshot_store persist_transition get_snapshot stored db_inv "\<lambda>db. set (map wv_event_id (db_events db))"
proof (unfold_locales, goal_cases)
  case (1 s sn evs)
  then show ?case by (simp add: stored_def)
next
  case (2 s sn evs)
  then show ?case by (simp add: stored_get)
next
  case (3 s i sn)
  then have "execution_record s i \<noteq> None" by (auto simp: get_snapshot_def read_optional_def split: option.splits)
  with 3 record_stored obtain sn0 evs where "stored s sn0 evs" "sn_execution_id sn0 = i" by metis
  with 3 stored_get [of s sn0 evs] show ?case by auto
next
  case (4 s sn evs sn' drafts)
  let ?db = "persisted_db s sn sn' evs (appended sn evs drafts)"
  have fresh: "fresh_ids s drafts" using 4(8,9) by (simp add: fresh_ids_def)
  have con: "db_constraints ?db"
    using 4 fresh by (intro persisted_constraints) (simp_all add: db_inv_def)
  note keep = persisted_preserves [OF 4(2,4,6,7,1) con]
  have "find (\<lambda>x. rs_step_key x \<notin> set (map rs_step_key (sn_steps sn))) (sn_steps sn') = None"
    using 4(5) by (metis (mono_tags, lifting) find_None_iff image_eqI list.set_map)
  with persist_at_eval [OF 4(2,2,3,4,6,7)] con
  have run: "persist_transition sn' drafts (sn_runtime_version sn) s
      = (Inr (merge_snapshot sn sn' (ed_event_id (last drafts))), ?db)"
    by (simp add: persist_transition_def Let_def)
  have "map wv_event_id (map event_model_from_event (appended sn evs drafts)) = map ed_event_id drafts"
    using new_events_ids by (simp add: appended_def event_model_from_event_def comp_def)
  then have "set (map wv_event_id (db_events ?db)) = set (map wv_event_id (db_events s)) \<union> set (map ed_event_id drafts)"
    by (simp add: persisted_db_def flip: set_map)
  with run keep(1,3) db_frame_back [OF 4(1,2)] show ?case by blast
next
  case (5 s sn evs sn' drafts v)
  with stored_record [OF 5(2)] show ?case
    by (auto simp: persist_transition_def persist_transition_at_def row_of_def execution_model_from_snapshot_def)
next
  case (6 s sn evs sn' evs')
  then show ?case using stored_unique by blast
qed

section \<open>The snapshots the coordinator persists\<close>

text \<open>A persisted snapshot comes back with the last event and the next version.\<close>

definition bumped :: "snapshot \<Rightarrow> string \<Rightarrow> snapshot" where
  "bumped sn l = sn\<lparr>sn_checkpoint := (sn_checkpoint sn)\<lparr>cp_last_event_id := Some l\<rparr>, sn_runtime_version := sn_runtime_version sn + 1\<rparr>"

lemma bumped_fields [simp]:
  "sn_execution_id (bumped sn l) = sn_execution_id sn" "sn_idempotency_key (bumped sn l) = sn_idempotency_key sn" "sn_review_id (bumped sn l) = sn_review_id sn"
  "sn_company_id (bumped sn l) = sn_company_id sn" "sn_decision_version (bumped sn l) = sn_decision_version sn"
  "sn_mode (bumped sn l) = sn_mode sn" "sn_state (bumped sn l) = sn_state sn" "sn_plan (bumped sn l) = sn_plan sn"
  "sn_steps (bumped sn l) = sn_steps sn" "sn_retry_policy (bumped sn l) = sn_retry_policy sn"
  "cp_completed_step_keys (sn_checkpoint (bumped sn l)) = cp_completed_step_keys (sn_checkpoint sn)"
  "sn_runtime_version (bumped sn l) = sn_runtime_version sn + 1"
  by (simp_all add: bumped_def)

definition keeps_identity :: "(runtime_step \<Rightarrow> runtime_step) \<Rightarrow> bool" where
  "keeps_identity f \<longleftrightarrow> (\<forall>s. rs_step_key (f s) = rs_step_key s \<and> rs_step_type (f s) = rs_step_type s
     \<and> rs_sequence (f s) = rs_sequence s \<and> rs_allocation_keys (f s) = rs_allocation_keys s)"

text \<open>The changes the coordinator makes to a snapshot.\<close>

definition updated :: "snapshot \<Rightarrow> snapshot \<Rightarrow> bool" where
  "updated sn sn' \<longleftrightarrow> (\<exists>state f cp fl. keeps_identity f
     \<and> sn' = sn\<lparr>sn_state := state, sn_steps := map f (sn_steps sn), sn_checkpoint := cp, sn_failure := fl\<rparr>)"

lemma fold_merge_other: "rs_step_key s \<notin> set (map rs_step_key ts) \<Longrightarrow> fold merge_step ts s = s"
  by (induction ts arbitrary: s) (auto simp: merge_step_def)

lemma fold_merge_own:
  assumes "distinct (map rs_step_key ss)" "s \<in> set ss" "keeps_identity f"
  shows "fold merge_step (map f ss) s = f s"
proof -
  obtain as bs where ss: "ss = as @ s # bs" using assms(2) by (auto simp: in_set_conv_decomp)
  have keys: "map rs_step_key (map f xs) = map rs_step_key xs" for xs using assms(3) by (simp add: keeps_identity_def)
  have "fold merge_step (map f as) s = s" "fold merge_step (map f bs) (f s) = f s"
    using assms(1,3) keys [of as] keys [of bs] unfolding ss
    by (intro fold_merge_other; simp add: keeps_identity_def; fail)+
  moreover have "merge_step (f s) s = f s" using assms(3) by (simp add: merge_step_def keeps_identity_def)
  ultimately show ?thesis by (simp add: ss)
qed

lemma merge_updated:
  assumes "updated sn sn'" "ordered_steps (sn_steps sn)"
  shows "merge_snapshot sn sn' l = bumped sn' l"
proof -
  obtain state f cp fl where f: "keeps_identity f"
    and sn': "sn' = sn\<lparr>sn_state := state, sn_steps := map f (sn_steps sn), sn_checkpoint := cp, sn_failure := fl\<rparr>"
    using assms(1) by (auto simp: updated_def)
  have "map (fold merge_step (map f (sn_steps sn))) (sn_steps sn) = map f (sn_steps sn)"
    using assms(2) f fold_merge_own by (auto simp: ordered_steps_def)
  then show ?thesis by (simp add: merge_snapshot_def bumped_def sn')
qed

lemma updated_keys: "updated sn sn' \<Longrightarrow> map rs_step_key (sn_steps sn') = map rs_step_key (sn_steps sn)"
  by (auto simp: updated_def keeps_identity_def)

lemma updated_fields:
  assumes "updated sn sn'"
  shows "sn_execution_id sn' = sn_execution_id sn" "sn_review_id sn' = sn_review_id sn" "sn_company_id sn' = sn_company_id sn"
    "sn_decision_version sn' = sn_decision_version sn" "sn_mode sn' = sn_mode sn" "sn_plan sn' = sn_plan sn"
    "sn_retry_policy sn' = sn_retry_policy sn" "sn_runtime_version sn' = sn_runtime_version sn"
    "sn_idempotency_key sn' = sn_idempotency_key sn"
  using assms by (auto simp: updated_def)

definition changed_checkpoint :: "snapshot \<Rightarrow> step_change \<Rightarrow> checkpoint" where
  "changed_checkpoint sn c =
     \<lparr>cp_execution_id = sn_execution_id sn,
      cp_completed_step_keys = (case sc_completed_step_keys c of
          Some (k # ks) \<Rightarrow> k # ks | _ \<Rightarrow> cp_completed_step_keys (sn_checkpoint sn)),
      cp_failed_step_key = sc_failed_step_key c, cp_current_step_key = sc_current_step_key c,
      cp_retry_count = (case sc_retry_count c of Some n \<Rightarrow> n | None \<Rightarrow> cp_retry_count (sn_checkpoint sn)),
      cp_last_event_id = cp_last_event_id (sn_checkpoint sn)\<rparr>"

definition changed_snapshot :: "snapshot \<Rightarrow> step_change \<Rightarrow> snapshot" where
  "changed_snapshot sn c = sn
     \<lparr>sn_state := (case sc_state_override c of Some t \<Rightarrow> t | None \<Rightarrow> sn_state sn),
      sn_steps := map (\<lambda>s. if rs_step_key s = sc_step_key c then changed_step c s else s) (sn_steps sn),
      sn_checkpoint := changed_checkpoint sn c,
      sn_failure := (case sc_failure c of Some f \<Rightarrow> Some f | None \<Rightarrow> sn_failure sn)\<rparr>"

lemma changed_updated: "updated sn (changed_snapshot sn c)"
  unfolding updated_def changed_snapshot_def
  by (intro exI [of _ "\<lambda>s. if rs_step_key s = sc_step_key c then changed_step c s else s"] exI conjI)
     (auto simp: keeps_identity_def changed_step_def)

lemma replace_step_eq:
  assumes "valid_snapshot sn" "valid_by checkpoint_checks (changed_checkpoint sn c)"
    and "pred_option (\<lambda>n. 0 \<le> n) (sc_retry_count c)" "pred_option valid_result (sc_result c)"
    and "pred_option (valid_by failure_checks) (sc_failure c)"
    and "pred_option (\<lambda>t. t = sn_state sn \<or> t \<in> set (LEGAL_EXECUTION_TRANSITIONS (sn_state sn))) (sc_state_override c)"
  shows "replace_step sn c = Inr (changed_snapshot sn c)" "valid_snapshot (changed_snapshot sn c)"
proof -
  have old: "list_all valid_runtime_step (sn_steps sn)" using assms(1) by (simp add: valid_snapshot_def)
  have step: "valid_runtime_step (changed_step c s)" if "s \<in> set (sn_steps sn)" for s
    using that old assms(3,4)
    by (auto simp: list_all_iff valid_runtime_step_def valid_by_def runtime_step_checks_def changed_step_def
        split: option.splits)
  have steps: "emap (\<lambda>s. if rs_step_key s = sc_step_key c then mk_checked runtime_step_checks (changed_step c s) else Inr s)
      (sn_steps sn) = Inr (map (\<lambda>s. if rs_step_key s = sc_step_key c then changed_step c s else s) (sn_steps sn))"
    using step by (intro emap_Inr) (auto simp: mk_checked_Inr_iff valid_runtime_step_def)
  have ok: "valid_by snapshot_checks (changed_snapshot sn c)"
    using assms(1) by (auto simp: valid_snapshot_def valid_by_def snapshot_checks_def changed_snapshot_def)
  then show "valid_snapshot (changed_snapshot sn c)"
    using assms old step
    by (auto simp: valid_snapshot_def changed_snapshot_def list_all_iff split: option.splits)
  have legal: "(if t \<noteq> sn_state sn then assert_legal_transition (sn_state sn) t else Inr ()) = Inr ()"
    if "t = (case sc_state_override c of Some t \<Rightarrow> t | None \<Rightarrow> sn_state sn)" for t
    using that assms(6) by (auto simp: assert_legal_ok split: option.splits)
  show "replace_step sn c = Inr (changed_snapshot sn c)"
    unfolding replace_step_def steps ebind_simps changed_checkpoint_def [symmetric] mk_checked_valid [OF assms(2)]
      Let_def legal [OF refl]
    using ok by (simp add: changed_snapshot_def)
qed

lemma replace_snapshot_eq:
  assumes "valid_snapshot sn"
  shows "replace_snapshot sn state None = Inr (sn\<lparr>sn_state := state\<rparr>)"
    "replace_snapshot sn state (Some None)
      = Inr (sn\<lparr>sn_state := state, sn_checkpoint := (sn_checkpoint sn)\<lparr>cp_current_step_key := None\<rparr>\<rparr>)"
    "valid_snapshot (sn\<lparr>sn_state := state\<rparr>)"
    "valid_snapshot (sn\<lparr>sn_state := state, sn_checkpoint := (sn_checkpoint sn)\<lparr>cp_current_step_key := None\<rparr>\<rparr>)"
  using assms by (auto simp: replace_snapshot_def valid_snapshot_def ebind_Inr_iff mk_checked_Inr_iff valid_by_def
      snapshot_checks_def checkpoint_checks_def)

lemma updatedI:
  "keeps_identity f \<Longrightarrow> updated sn (sn\<lparr>sn_state := state, sn_steps := map f (sn_steps sn), sn_checkpoint := cp, sn_failure := fl\<rparr>)"
  by (auto simp: updated_def)

lemma state_updated:
  "updated sn (sn\<lparr>sn_state := state\<rparr>)" (is ?a)
  "updated sn (sn\<lparr>sn_state := state, sn_checkpoint := cp\<rparr>)" (is ?b)
proof -
  have "keeps_identity (\<lambda>s. s)" by (simp add: keeps_identity_def)
  note u = updatedI [OF this, where sn = sn and state = state and fl = "sn_failure sn"]
  from u [where cp = "sn_checkpoint sn"] u [where cp = cp] show ?a ?b by (cases sn, simp)+
qed

section \<open>The simulation relation\<close>

definition step_keys :: "snapshot \<Rightarrow> string list" where
  "step_keys sn = map rs_step_key (sn_steps sn)"

definition completed_keys :: "snapshot \<Rightarrow> string list" where
  "completed_keys sn = cp_completed_step_keys (sn_checkpoint sn)"

text \<open>A step is left failed only in a failed execution.\<close>

definition mirrors :: "machine \<Rightarrow> snapshot \<Rightarrow> bool" where
  "mirrors m sn \<longleftrightarrow> m_state m = sn_state sn \<and> m_done m = completed_keys sn
     \<and> (sn_state sn \<noteq> X_FAILED \<longrightarrow> (\<forall>k. m_step m k \<noteq> RS_FAILED))
     \<and> (\<forall>s \<in> set (sn_steps sn). m_step m (rs_step_key s) = rs_state s \<and> m_retries m (rs_step_key s) = rs_retry_count s)"

definition replays :: "snapshot \<Rightarrow> event list \<Rightarrow> machine \<Rightarrow> bool" where
  "replays sn evs m \<longleftrightarrow> replay (sn_retry_policy sn) (step_keys sn) evs = Some m \<and> mirrors m sn"

text \<open>An execution whose stored log is accepted, with the stored snapshot as the state of the log.\<close>

definition tracked :: "snapshot \<Rightarrow> event list \<Rightarrow> bool" where
  "tracked sn evs \<longleftrightarrow> planned (sn_plan sn) \<and> step_keys sn = map st_step_key (pl_steps (sn_plan sn))
     \<and> sn_state sn \<notin> {X_NEW, X_CANCELLED} \<and> (\<exists>m. replays sn evs m)"

lemma step_keys_simps [simp]: "step_keys (bumped sn l) = step_keys sn" "completed_keys (bumped sn l) = completed_keys sn"
  by (simp_all add: step_keys_def completed_keys_def)

lemma mirrors_bumped [simp]: "mirrors m (bumped sn l) = mirrors m sn"
  by (simp add: mirrors_def)

lemma tracked_machine_ok:
  assumes "replays sn evs m" "valid_snapshot sn" "ordered_steps (sn_steps sn)"
  shows "machine_ok (sn_retry_policy sn) (step_keys sn) m"
  using assms by (intro replay_ok [of _ _ evs])
     (auto simp: replays_def valid_snapshot_def ordered_steps_def step_keys_def valid_by_def retry_policy_checks_def)

lemma tracked_step:
  assumes "tracked sn evs" "replays sn evs m" "updated sn sn'"
    and "machine_run (sn_retry_policy sn) (step_keys sn) m (map entry_of_event new) = Some m'" "mirrors m' sn'"
  shows "tracked (bumped sn' l) (evs @ new)" "replays (bumped sn' l) (evs @ new) m'"
proof -
  have keys: "step_keys sn' = step_keys sn" using updated_keys [OF assms(3)] by (simp add: step_keys_def)
  show "replays (bumped sn' l) (evs @ new) m'"
    using assms(2,4,5) by (simp add: replays_def replay_append keys updated_fields [OF assms(3)])
  moreover have "sn_state sn' \<notin> {X_NEW, X_CANCELLED}"
    using machine_run_live [OF assms(4)] assms(1,2,5) by (auto simp: tracked_def replays_def mirrors_def)
  ultimately show "tracked (bumped sn' l) (evs @ new)"
    using assms(1) keys by (auto simp: tracked_def updated_fields [OF assms(3)])
qed

text \<open>The events that a persist appends, as the machine sees them.\<close>

lemma appended_entries:
  "map entry_of_event (appended sn evs drafts) = map (\<lambda>d. (ed_event_type d, ed_state d, ed_step_key d)) drafts"
  by (rule nth_equalityI) (simp_all add: appended_def new_events_def nth_enumerate_eq entry_of_event_def)

section \<open>The pending steps\<close>

lemma pending_drop:
  assumes "replays sn evs m" "valid_snapshot sn" "ordered_steps (sn_steps sn)"
  shows "pending_steps sn = drop (length (completed_keys sn)) (sn_steps sn)"
    and "map rs_step_key (take (length (completed_keys sn)) (sn_steps sn)) = completed_keys sn"
proof -
  let ?n = "length (completed_keys sn)"
  have ok: "prefix (completed_keys sn) (step_keys sn)" "\<And>s. s \<in> set (sn_steps sn) \<Longrightarrow>
      rs_state s = RS_COMPLETED \<longleftrightarrow> rs_step_key s \<in> set (completed_keys sn)"
  proof -
    note m = tracked_machine_ok [OF assms]
    with assms(1) show "prefix (completed_keys sn) (step_keys sn)"
      by (simp add: machine_ok_def replays_def mirrors_def)
    show "rs_state s = RS_COMPLETED \<longleftrightarrow> rs_step_key s \<in> set (completed_keys sn)" if "s \<in> set (sn_steps sn)" for s
    proof -
      have "rs_state s = m_step m (rs_step_key s)" using assms(1) that by (simp add: replays_def mirrors_def)
      with m assms(1) show ?thesis by (simp add: machine_ok_def replays_def mirrors_def)
    qed
  qed
  then obtain rest where rest: "step_keys sn = completed_keys sn @ rest" by (auto simp: prefix_def)
  then have "take ?n (step_keys sn) = completed_keys sn" "drop ?n (step_keys sn) = rest" by simp_all
  then have take: "map rs_step_key (take ?n (sn_steps sn)) = completed_keys sn"
    and drop: "map rs_step_key (drop ?n (sn_steps sn)) = rest"
    by (simp_all add: step_keys_def take_map drop_map)
  show "map rs_step_key (take ?n (sn_steps sn)) = completed_keys sn" by (rule take)
  have "distinct (step_keys sn)" using assms(3) by (simp add: ordered_steps_def step_keys_def)
  then have d: "set (completed_keys sn) \<inter> set rest = {}" unfolding rest by simp
  let ?P = "\<lambda>s. rs_step_key s \<notin> set (completed_keys sn)"
  have "rs_step_key s \<in> set (completed_keys sn)" if "s \<in> set (take ?n (sn_steps sn))" for s
    using imageI [OF that, of rs_step_key] by (metis set_map take)
  then have "filter ?P (take ?n (sn_steps sn)) = []" unfolding filter_empty_conv by blast
  moreover have "rs_step_key s \<in> set rest" if "s \<in> set (drop ?n (sn_steps sn))" for s
    using imageI [OF that, of rs_step_key] by (metis set_map drop)
  then have "filter ?P (drop ?n (sn_steps sn)) = drop ?n (sn_steps sn)" unfolding filter_id_conv using d by blast
  moreover have "filter ?P (sn_steps sn) = filter ?P (take ?n (sn_steps sn)) @ filter ?P (drop ?n (sn_steps sn))"
    by (metis append_take_drop_id filter_append)
  moreover have "pending_steps sn = filter ?P (sn_steps sn)"
  proof -
    have "sort_key rs_sequence (sn_steps sn) = sn_steps sn"
      using assms(3) by (intro sort_key_sorted_id) (simp add: ordered_steps_def)
    then show ?thesis using ok(2) by (auto simp: pending_steps_def completed_keys_def intro: filter_cong)
  qed
  ultimately show "pending_steps sn = drop ?n (sn_steps sn)" by simp
qed

end
