(* ===== verification/Exec_Runs.thy ===== *)
theory Exec_Runs
  imports Exec_Refinement
begin

text \<open>
  What the methods of the coordinator do on any store that keeps the contract of the repository
  port: each appends events that the machine accepts and returns the snapshot that the store now
  holds, the steps are executed in order, and an exception can only come from a strategy.
\<close>

section \<open>The fixed part of a snapshot\<close>

definition same_execution :: "snapshot \<Rightarrow> snapshot \<Rightarrow> bool" where
  "same_execution sn sn' \<longleftrightarrow> sn_execution_id sn' = sn_execution_id sn \<and> sn_idempotency_key sn' = sn_idempotency_key sn
     \<and> sn_review_id sn' = sn_review_id sn
     \<and> sn_company_id sn' = sn_company_id sn \<and> sn_decision_version sn' = sn_decision_version sn \<and> sn_mode sn' = sn_mode sn
     \<and> sn_plan sn' = sn_plan sn \<and> sn_retry_policy sn' = sn_retry_policy sn \<and> step_keys sn' = step_keys sn"

lemma same_execution_refl [simp]: "same_execution sn sn"
  by (simp add: same_execution_def)

lemma same_execution_trans: "same_execution a b \<Longrightarrow> same_execution b c \<Longrightarrow> same_execution a c"
  by (simp add: same_execution_def)

lemma updated_same: "updated sn sn' \<Longrightarrow> same_execution sn (bumped sn' l)"
  using updated_keys [of sn sn'] by (simp add: same_execution_def updated_fields) (simp add: step_keys_def)

text \<open>What executing a step does to the outside world.\<close>

definition step_action ::
    "('s, 'w) coordinator \<Rightarrow> execution_approval option \<Rightarrow> snapshot \<Rightarrow> runtime_step \<Rightarrow> ('w, hub_error, step_result) action" where
  "step_action co approval sn step =
     (case find (\<lambda>p. st_step_key p = rs_step_key step) (pl_steps (sn_plan sn)) of
        None \<Rightarrow> act_raise StopIteration
      | Some plan_step \<Rightarrow>
          act_bind (act_lift (resolve (co_strategy_resolver co) (st_step_type plan_step))) (\<lambda>strategy.
          act_bind (act_lift (snapshot_step_request sn plan_step approval)) (sg_execute strategy)))"

lemma execute_step_world: "execute_step co approval sn step e = on_world (step_action co approval sn step) e"
  by (auto simp: execute_step_def step_action_def on_world_def act_bind_def split: option.split prod.split sum.split)

lemma step_action_same:
  assumes "same_execution sn sn'"
  shows "step_action co approval sn' step = step_action co approval sn step"
proof -
  have "snapshot_step_request sn' p approval = snapshot_step_request sn p approval" for p
    using assms by (simp add: same_execution_def snapshot_step_request_def)
  then show ?thesis using assms by (simp add: same_execution_def step_action_def split: option.split)
qed

text \<open>The results of strategies are constructed objects.\<close>

definition results_valid :: "'w resolver \<Rightarrow> bool" where
  "results_valid r \<longleftrightarrow> (\<forall>t s q w x w'. resolve r t = Inr s \<longrightarrow> sg_execute s q w = (Inr x, w') \<longrightarrow> valid_result x)"

lemma results_validD: "results_valid r \<Longrightarrow> resolve r t = Inr s \<Longrightarrow> sg_execute s q w = (Inr x, w') \<Longrightarrow> valid_result x"
  unfolding results_valid_def by blast

lemma step_action_valid:
  "results_valid (co_strategy_resolver co) \<Longrightarrow> step_action co approval sn step w = (Inr x, w') \<Longrightarrow> valid_result x"
  by (auto simp: step_action_def split: option.splits elim!: act_bind_success dest: results_validD)

section \<open>The arguments of \<^verbatim>\<open>_replace_step\<close>\<close>

definition running_change :: "runtime_step \<Rightarrow> step_change" where
  "running_change step =
     \<lparr>sc_step_key = rs_step_key step, sc_state = RS_RUNNING, sc_result = None, sc_retry_count = None,
      sc_completed_step_keys = None, sc_current_step_key = Some (rs_step_key step), sc_state_override = None,
      sc_failed_step_key = None, sc_failure = None\<rparr>"

definition completed_change :: "snapshot \<Rightarrow> runtime_step \<Rightarrow> step_result \<Rightarrow> step_change" where
  "completed_change sn step result =
     (let completed = cp_completed_step_keys (sn_checkpoint sn) @ [rs_step_key step] in
      \<lparr>sc_step_key = rs_step_key step, sc_state = RS_COMPLETED, sc_result = Some result, sc_retry_count = None,
       sc_completed_step_keys = Some completed, sc_current_step_key = next_step_key sn completed,
       sc_state_override = None, sc_failed_step_key = None, sc_failure = None\<rparr>)"

definition failed_change ::
    "runtime_step \<Rightarrow> step_result \<Rightarrow> runtime_step_state \<Rightarrow> execution_state \<Rightarrow> execution_failure \<Rightarrow> step_change" where
  "failed_change step result step_state state failure =
     \<lparr>sc_step_key = rs_step_key step, sc_state = step_state, sc_result = Some result,
      sc_retry_count = Some (rs_retry_count step + 1), sc_completed_step_keys = None,
      sc_current_step_key = Some (rs_step_key step), sc_state_override = Some state,
      sc_failed_step_key = Some (rs_step_key step), sc_failure = Some failure\<rparr>"

lemma replace_running:
  assumes "valid_snapshot sn" "\<not> blank (rs_step_key step)"
  shows "replace_step sn (running_change step) = Inr (changed_snapshot sn (running_change step))"
    "valid_snapshot (changed_snapshot sn (running_change step))"
proof -
  have cp: "valid_by checkpoint_checks (changed_checkpoint sn (running_change step))"
    using assms by (auto simp: changed_checkpoint_def running_change_def valid_snapshot_def valid_by_def
        checkpoint_checks_def snapshot_checks_def)
  show "replace_step sn (running_change step) = Inr (changed_snapshot sn (running_change step))"
    "valid_snapshot (changed_snapshot sn (running_change step))"
    using replace_step_eq [OF assms(1) cp] by (simp_all add: running_change_def)
qed

lemma failure_from_result_Inr:
  assumes "valid_result r"
  shows "\<exists>f. failure_from_result r = Inr f \<and> valid_by failure_checks f"
proof -
  have "\<not> blank (step_status_value st)" for st by (cases st) (simp_all add: blank_eval)
  moreover have "\<not> blank ''Execution step failed safely.''" by (simp add: blank_eval)
  ultimately show ?thesis
    using assms by (auto simp: failure_from_result_def mk_checked_Inr_iff valid_by_def failure_checks_def text_or_def
        valid_result_def step_result_checks_def split: option.splits)
qed

section \<open>The machine follows\<close>

lemma mirrors_changed:
  assumes "mirrors m sn" "sn_state sn \<noteq> X_FAILED" "sc_state c = RS_FAILED \<longrightarrow> sn_state (changed_snapshot sn c) = X_FAILED"
  shows "mirrors (m\<lparr>m_state := sn_state (changed_snapshot sn c), m_step := (m_step m)(sc_step_key c := sc_state c),
     m_retries := (m_retries m)(sc_step_key c := (case sc_retry_count c of Some n \<Rightarrow> n | None \<Rightarrow> m_retries m (sc_step_key c))),
     m_done := completed_keys (changed_snapshot sn c)\<rparr>) (changed_snapshot sn c)"
  using assms by (auto simp: mirrors_def changed_snapshot_def changed_step_def split: option.splits)

lemma machine_run_start:
  assumes "mirrors m sn" "sn_state sn \<in> {X_PLANNED, X_WAITING_RETRY}"
  shows "\<exists>m'. machine_run p keys m [(EV_EXECUTION_STARTED, X_RUNNING, None)] = Some m' \<and> mirrors m' (sn\<lparr>sn_state := X_RUNNING\<rparr>)"
  using assms by (intro exI [of _ "m\<lparr>m_state := X_RUNNING\<rparr>"]) (auto simp: mirrors_def completed_keys_def)

lemma machine_run_complete:
  assumes "mirrors m sn" "sn_state sn = X_RUNNING" "next_key keys (completed_keys sn) = None"
  shows "\<exists>m'. machine_run p keys m [(EV_EXECUTION_COMPLETED, X_COMPLETED, None)] = Some m'
    \<and> mirrors m' (sn\<lparr>sn_state := X_COMPLETED, sn_checkpoint := (sn_checkpoint sn)\<lparr>cp_current_step_key := c\<rparr>\<rparr>)"
  using assms by (intro exI [of _ "m\<lparr>m_state := X_COMPLETED\<rparr>"]) (auto simp: mirrors_def completed_keys_def)

lemma machine_run_running:
  assumes "mirrors m sn" "sn_state sn = X_RUNNING" "step \<in> set (sn_steps sn)"
    and "next_key keys (completed_keys sn) = Some (rs_step_key step)"
  shows "\<exists>m'. machine_run p keys m [(EV_STEP_STARTED, X_RUNNING, Some (rs_step_key step))] = Some m'
    \<and> mirrors m' (changed_snapshot sn (running_change step))"
proof -
  let ?m = "m\<lparr>m_step := (m_step m)(rs_step_key step := RS_RUNNING)\<rparr>"
  have "completed_keys (changed_snapshot sn (running_change step)) = completed_keys sn"
    "sn_state (changed_snapshot sn (running_change step)) = sn_state sn"
    by (simp_all add: completed_keys_def changed_snapshot_def changed_checkpoint_def running_change_def)
  with mirrors_changed [OF assms(1), of "running_change step"] assms(1,2)
  have "mirrors ?m (changed_snapshot sn (running_change step))"
    by (simp add: running_change_def mirrors_def)
  with assms show ?thesis by (intro exI [of _ ?m]) (auto simp: mirrors_def)
qed

lemma machine_run_completed:
  assumes "mirrors m sn" "sn_state sn = X_RUNNING" "m_step m (rs_step_key step) = RS_RUNNING"
    and "next_key keys (completed_keys sn) = Some (rs_step_key step)"
  shows "\<exists>m'. machine_run p keys m [(EV_STEP_COMPLETED, X_RUNNING, Some (rs_step_key step))] = Some m'
    \<and> mirrors m' (changed_snapshot sn (completed_change sn step result))"
proof -
  let ?sn = "changed_snapshot sn (completed_change sn step result)"
  let ?m = "m\<lparr>m_step := (m_step m)(rs_step_key step := RS_COMPLETED), m_done := m_done m @ [rs_step_key step]\<rparr>"
  have "completed_keys ?sn = completed_keys sn @ [rs_step_key step]" "sn_state ?sn = sn_state sn"
    by (simp_all add: completed_keys_def changed_snapshot_def changed_checkpoint_def completed_change_def Let_def split: list.split)
  with mirrors_changed [OF assms(1), of "completed_change sn step result"] assms(1,2)
  have "mirrors ?m ?sn" by (simp add: completed_change_def Let_def mirrors_def)
  with assms show ?thesis by (intro exI [of _ ?m]) (auto simp: mirrors_def)
qed

lemma machine_run_failed:
  assumes "mirrors m sn" "sn_state sn = X_RUNNING" "m_step m (rs_step_key step) = RS_RUNNING"
    and "next_key keys (completed_keys sn) = Some (rs_step_key step)" "m_retries m (rs_step_key step) = rs_retry_count step"
    and "(ty, state, step_state) = (if may_retry p (rs_retry_count step + 1)
      then (EV_RETRY_SCHEDULED, X_WAITING_RETRY, RS_WAITING_RETRY) else (EV_EXECUTION_FAILED, X_FAILED, RS_FAILED))"
  shows "\<exists>m'. machine_run p keys m [(EV_STEP_FAILED, X_RUNNING, Some (rs_step_key step)), (ty, state, Some (rs_step_key step))] = Some m'
    \<and> mirrors m' (changed_snapshot sn (failed_change step result step_state state failure))"
proof -
  let ?k = "rs_step_key step" and ?sn = "changed_snapshot sn (failed_change step result step_state state failure)"
  let ?m = "m\<lparr>m_state := state, m_step := (m_step m)(?k := step_state), m_retries := (m_retries m)(?k := rs_retry_count step + 1)\<rparr>"
  have "completed_keys ?sn = completed_keys sn" "sn_state ?sn = state"
    by (simp_all add: completed_keys_def changed_snapshot_def changed_checkpoint_def failed_change_def)
  with mirrors_changed [OF assms(1), of "failed_change step result step_state state failure"] assms(1,2)
  have "mirrors ?m ?sn" using assms(6) by (auto simp: failed_change_def mirrors_def split: if_splits)
  moreover have "machine_run p keys m [(EV_STEP_FAILED, X_RUNNING, Some ?k), (ty, state, Some ?k)] = Some ?m"
    using assms by (auto simp: mirrors_def split: if_splits)
  ultimately show ?thesis by blast
qed

section \<open>Executing steps in order\<close>

text \<open>The steps that a run executed, with their results, as seen from the outside world.\<close>

inductive performed ::
    "('s, 'w) coordinator \<Rightarrow> execution_approval option \<Rightarrow> snapshot \<Rightarrow> runtime_step list \<Rightarrow> 'w \<Rightarrow> step_result list \<Rightarrow> 'w \<Rightarrow> bool"
  for co approval sn where
  none: "performed co approval sn [] w [] w"
| step: "step_action co approval sn step w = (Inr x, w1) \<Longrightarrow> performed co approval sn steps w1 xs w2 \<Longrightarrow>
    performed co approval sn (step # steps) w (x # xs) w2"

lemma performed_length: "performed co approval sn steps w xs w' \<Longrightarrow> length xs = length steps"
  by (induction rule: performed.induct) simp_all

lemma performed_same:
  assumes "same_execution sn sn'" "performed co approval sn' steps w xs w'"
  shows "performed co approval sn steps w xs w'"
  using assms(2) by (induction rule: performed.induct)
    (simp_all add: performed.intros step_action_same [OF assms(1)])

definition total_retries :: "snapshot \<Rightarrow> int" where
  "total_retries sn = sum_list (map rs_retry_count (sn_steps sn))"

text \<open>How the loop over the pending steps can end: all of them succeeded, and the execution is running or then completed, or the last one executed failed.\<close>

definition loop_outcome :: "execution_state \<Rightarrow> snapshot \<Rightarrow> runtime_step list \<Rightarrow> snapshot \<Rightarrow> nat \<Rightarrow> step_result list \<Rightarrow> bool" where
  "loop_outcome finished sn steps sn' n xs \<longleftrightarrow>
     n = length steps \<and> list_all (\<lambda>x. \<not> is_failure x) xs \<and> sn_state sn' = finished
       \<and> completed_keys sn' = step_keys sn' \<and> total_retries sn' = total_retries sn
     \<or> xs \<noteq> [] \<and> list_all (\<lambda>x. \<not> is_failure x) (butlast xs) \<and> is_failure (last xs)
       \<and> sn_state sn' = (if may_retry (sn_retry_policy sn) (rs_retry_count (steps ! (n - 1)) + 1) then X_WAITING_RETRY else X_FAILED)
       \<and> completed_keys sn' = completed_keys sn @ map rs_step_key (take (n - 1) steps)
       \<and> total_retries sn' = total_retries sn + 1"

lemma total_retries_changed:
  assumes "distinct (map rs_step_key (sn_steps sn))" "step \<in> set (sn_steps sn)" "sc_step_key c = rs_step_key step"
  shows "total_retries (changed_snapshot sn c) = total_retries sn
    + (case sc_retry_count c of None \<Rightarrow> 0 | Some n \<Rightarrow> n - rs_retry_count step)"
proof -
  obtain as bs where ss: "sn_steps sn = as @ step # bs" using assms(2) by (auto simp: in_set_conv_decomp)
  let ?f = "\<lambda>s. if rs_step_key s = sc_step_key c then changed_step c s else s"
  have "map ?f as = as" "map ?f bs = bs" using assms(1,3) unfolding ss by (auto simp: image_iff intro!: map_idI)
  then show ?thesis
    using assms(3) by (simp add: total_retries_def changed_snapshot_def ss changed_step_def split: option.split)
qed

lemma changed_drop:
  assumes "distinct (map rs_step_key (sn_steps sn))" "drop n (sn_steps sn) = step # rest" "sc_step_key c = rs_step_key step"
  shows "drop (Suc n) (sn_steps (changed_snapshot sn c)) = rest"
proof -
  have "drop (Suc n) (sn_steps sn) = rest" using assms(2) by (metis drop_Suc list.sel(3) tl_drop)
  moreover have "distinct (map rs_step_key (drop n (sn_steps sn)))" using assms(1) by (simp add: drop_map [symmetric])
  then have "rs_step_key s \<noteq> sc_step_key c" if "s \<in> set rest" for s using that assms(2,3) by (auto simp: image_iff)
  ultimately show ?thesis by (auto simp: changed_snapshot_def drop_map intro!: map_idI)
qed

lemma completed_all:
  assumes "replays sn evs m" and v: "valid_snapshot sn" "ordered_steps (sn_steps sn)"
  shows "all_steps_completed sn \<longleftrightarrow> completed_keys sn = step_keys sn"
proof -
  have ok: "prefix (completed_keys sn) (step_keys sn)" "\<forall>k. m_step m k = RS_COMPLETED \<longleftrightarrow> k \<in> set (completed_keys sn)"
    using tracked_machine_ok [OF assms(1) v] assms(1) by (simp_all add: machine_ok_def replays_def mirrors_def)
  have "rs_state s = m_step m (rs_step_key s)" if "s \<in> set (sn_steps sn)" for s
    using assms(1) that by (simp add: replays_def mirrors_def)
  with ok(2) have "all_steps_completed sn \<longleftrightarrow> set (step_keys sn) \<subseteq> set (completed_keys sn)"
    by (auto simp: all_steps_completed_def list_all_iff step_keys_def)
  also have "\<dots> \<longleftrightarrow> completed_keys sn = step_keys sn"
  proof
    assume sub: "set (step_keys sn) \<subseteq> set (completed_keys sn)"
    obtain rest where rest: "step_keys sn = completed_keys sn @ rest" using ok(1) by (auto simp: prefix_def)
    moreover have "distinct (step_keys sn)" using v(2) by (simp add: ordered_steps_def step_keys_def)
    ultimately have "rest = []" using sub by (cases rest) auto
    with rest show "completed_keys sn = step_keys sn" by simp
  qed simp
  finally show ?thesis .
qed

section \<open>Coordinators on a store\<close>

locale coordinated = snapshot_store persist fetch holds invar used
  for persist :: "snapshot \<Rightarrow> event_draft list \<Rightarrow> int \<Rightarrow> ('s, hub_error, snapshot) action"
    and fetch :: "'s \<Rightarrow> string \<Rightarrow> (hub_error, snapshot option) result"
    and holds :: "'s \<Rightarrow> snapshot \<Rightarrow> event list \<Rightarrow> bool"
    and invar :: "'s \<Rightarrow> bool"
    and used :: "'s \<Rightarrow> string set" +
  fixes co :: "('s, 'w) coordinator"
  assumes co_persist: "co_persist_transition co = persist"
    and co_fetch: "co_get_snapshot co = fetch"
begin

text \<open>The identifiers still to come are new: \<^verbatim>\<open>uuid4\<close> does not repeat itself.\<close>

definition supplied :: "('s, 'w) env \<Rightarrow> bool" where
  "supplied e \<longleftrightarrow> inj (co_uuid4 co) \<and> (\<forall>n \<ge> en_uuid e. event_identifier co n \<notin> used (en_store e))"

definition ready :: "('s, 'w) env \<Rightarrow> snapshot \<Rightarrow> event list \<Rightarrow> bool" where
  "ready e sn evs \<longleftrightarrow> invar (en_store e) \<and> holds (en_store e) sn evs \<and> supplied e"

definition framed :: "string \<Rightarrow> ('s, 'w) env \<Rightarrow> ('s, 'w) env \<Rightarrow> bool" where
  "framed i e e' \<longleftrightarrow> (\<forall>other evs. sn_execution_id other \<noteq> i \<longrightarrow> holds (en_store e') other evs \<longrightarrow> holds (en_store e) other evs)"

lemma framed_refl [simp]: "framed i e e"
  by (simp add: framed_def)

lemma framed_trans: "framed i a b \<Longrightarrow> framed i b c \<Longrightarrow> framed i a c"
  by (simp add: framed_def)

lemma identifier_inj: "supplied e \<Longrightarrow> event_identifier co m = event_identifier co n \<longleftrightarrow> m = n"
  by (simp add: supplied_def event_identifier_def inj_eq)

lemma identifier_not_blank: "\<not> blank (event_identifier co n)"
  by (simp add: event_identifier_def blank_eval)

lemma ready_valid: "ready e sn evs \<Longrightarrow> valid_snapshot sn \<and> ordered_steps (sn_steps sn)"
  using holds_valid by (auto simp: ready_def)

lemma persist_drafts:
  assumes rd: "ready e sn evs" and up: "updated sn ns" "valid_snapshot ns"
    and drafts: "drafts \<noteq> []" "list_all (valid_by event_draft_checks) drafts"
      "map ed_event_id drafts = map (event_identifier co) [en_uuid e..<en_uuid e + length drafts]"
  shows "\<exists>e'. on_store (co_persist_transition co ns drafts (sn_runtime_version sn)) (e\<lparr>en_uuid := en_uuid e + length drafts\<rparr>)
      = (Inr (bumped ns (ed_event_id (last drafts))), e')
    \<and> ready e' (bumped ns (ed_event_id (last drafts))) (evs @ appended sn evs drafts)
    \<and> framed (sn_execution_id sn) e e' \<and> en_world e' = en_world e"
proof -
  have st: "invar (en_store e)" "holds (en_store e) sn evs" "supplied e" using rd by (simp_all add: ready_def)
  have ids: "set (map ed_event_id drafts) = event_identifier co ` {en_uuid e..<en_uuid e + length drafts}"
    unfolding drafts(3) by simp
  have "distinct (map ed_event_id drafts)"
    unfolding drafts(3) using identifier_inj [OF st(3)] by (simp add: distinct_map inj_on_def)
  moreover have "set (map ed_event_id drafts) \<inter> used (en_store e) = {}"
    unfolding ids using st(3) by (auto simp: supplied_def)
  ultimately obtain s' where s': "persist ns drafts (sn_runtime_version sn) (en_store e)
        = (Inr (merge_snapshot sn ns (ed_event_id (last drafts))), s')"
      "invar s'" "holds s' (merge_snapshot sn ns (ed_event_id (last drafts))) (evs @ appended sn evs drafts)"
      "used s' = used (en_store e) \<union> set (map ed_event_id drafts)"
      "\<forall>other oevs. sn_execution_id other \<noteq> sn_execution_id sn \<longrightarrow> holds s' other oevs \<longrightarrow> holds (en_store e) other oevs"
    using persist_fresh [OF st(1,2) updated_fields(1) [OF up(1)] up(2) updated_keys [OF up(1)] drafts(2,1)] by blast
  have m: "merge_snapshot sn ns l = bumped ns l" for l
    using merge_updated [OF up(1)] ready_valid [OF rd] by blast
  let ?e = "e\<lparr>en_uuid := en_uuid e + length drafts, en_store := s'\<rparr>"
  have "event_identifier co n \<notin> used s'" if "en_uuid e + length drafts \<le> n" for n
    unfolding s'(4) ids using that st(3) identifier_inj [OF st(3)] by (auto simp: supplied_def)
  with st(3) have "supplied ?e" by (simp add: supplied_def)
  with s' show ?thesis
    by (intro exI [of _ ?e]) (simp add: on_store_def co_persist m ready_def framed_def)
qed

lemma runtime_event_Inr:
  assumes "\<not> blank i" "pred_option (\<lambda>s. \<not> blank (rs_step_key s)) step"
  shows "runtime_event co i ty state step result e =
    (Inr \<lparr>ed_event_id = event_identifier co (en_uuid e), ed_execution_id = i, ed_event_type = ty,
         ed_state = state, ed_step_key = map_option rs_step_key step, ed_step_type = map_option rs_step_type step,
         ed_data = event_data_of result\<rparr>, e\<lparr>en_uuid := Suc (en_uuid e)\<rparr>)"
  using assms identifier_not_blank
  by (auto simp: runtime_event_def mk_checked_Inr_iff valid_by_def event_draft_checks_def blank_opt_def split: option.splits)

text \<open>The outcome of a successful transition.\<close>

definition advanced ::
    "('s, 'w) env \<Rightarrow> snapshot \<Rightarrow> event list \<Rightarrow> snapshot \<Rightarrow> log_entry list \<Rightarrow> (hub_error, snapshot) result \<times> ('s, 'w) env \<Rightarrow> bool" where
  "advanced e sn evs ns entries out \<longleftrightarrow> (\<exists>l new e'. out = (Inr (bumped ns l), e') \<and> ready e' (bumped ns l) (evs @ new)
     \<and> map entry_of_event new = entries \<and> framed (sn_execution_id sn) e e' \<and> en_world e' = en_world e)"

lemma transition_one:
  assumes rd: "ready e sn evs" and ns: "nx = Inr ns" "updated sn ns" "valid_snapshot ns"
    and key: "pred_option (\<lambda>s. \<not> blank (rs_step_key s)) step"
  shows "advanced e sn evs ns [(ty, state, map_option rs_step_key step)]
    (act_bind (act_lift nx) (\<lambda>ns. act_bind (runtime_event co (sn_execution_id ns) ty state step result) (\<lambda>ev.
       on_store (co_persist_transition co ns [ev] (sn_runtime_version sn)))) e)"
proof -
  have i: "\<not> blank (sn_execution_id ns)" using ns(3) by (simp add: valid_snapshot_def valid_by_def snapshot_checks_def)
  obtain d where d: "runtime_event co (sn_execution_id ns) ty state step result e = (Inr d, e\<lparr>en_uuid := Suc (en_uuid e)\<rparr>)"
      "ed_event_id d = event_identifier co (en_uuid e)" "(ed_event_type d, ed_state d, ed_step_key d) = (ty, state, map_option rs_step_key step)"
    using runtime_event_Inr [OF i key] by auto
  then have "valid_by event_draft_checks d" by (auto simp: runtime_event_def mk_checked_Inr_iff)
  with persist_drafts [OF rd ns(2,3), of "[d]"] d(2) obtain e' where
    "on_store (co_persist_transition co ns [d] (sn_runtime_version sn)) (e\<lparr>en_uuid := Suc (en_uuid e)\<rparr>)
      = (Inr (bumped ns (ed_event_id d)), e')"
    "ready e' (bumped ns (ed_event_id d)) (evs @ appended sn evs [d])" "framed (sn_execution_id sn) e e'" "en_world e' = en_world e"
    by auto
  then show ?thesis
    unfolding advanced_def ns(1) using d(1,3) appended_entries [of sn evs "[d]"]
    by (intro exI [of _ "ed_event_id d"] exI [of _ "appended sn evs [d]"] exI [of _ e']) (simp add: act_bind_def)
qed

lemma transition_two:
  assumes rd: "ready e sn evs" and ns: "nx = Inr ns" "updated sn ns" "valid_snapshot ns"
    and key: "pred_option (\<lambda>s. \<not> blank (rs_step_key s)) step"
  shows "advanced e sn evs ns [(ty, state, map_option rs_step_key step), (ty', state', map_option rs_step_key step)]
    (act_bind (act_lift nx) (\<lambda>ns. act_bind (runtime_event co (sn_execution_id ns) ty state step result) (\<lambda>ev.
       act_bind (runtime_event co (sn_execution_id ns) ty' state' step result) (\<lambda>ev'.
       on_store (co_persist_transition co ns [ev, ev'] (sn_runtime_version sn))))) e)"
proof -
  have i: "\<not> blank (sn_execution_id ns)" using ns(3) by (simp add: valid_snapshot_def valid_by_def snapshot_checks_def)
  let ?e = "e\<lparr>en_uuid := Suc (en_uuid e)\<rparr>" and ?e2 = "e\<lparr>en_uuid := Suc (Suc (en_uuid e))\<rparr>"
  obtain d where d: "runtime_event co (sn_execution_id ns) ty state step result e = (Inr d, ?e)"
      "ed_event_id d = event_identifier co (en_uuid e)" "(ed_event_type d, ed_state d, ed_step_key d) = (ty, state, map_option rs_step_key step)"
    using runtime_event_Inr [OF i key] by auto
  obtain d' where d': "runtime_event co (sn_execution_id ns) ty' state' step result ?e = (Inr d', ?e2)"
      "ed_event_id d' = event_identifier co (Suc (en_uuid e))" "(ed_event_type d', ed_state d', ed_step_key d') = (ty', state', map_option rs_step_key step)"
    using runtime_event_Inr [OF i key, of ty' state' result ?e] by auto
  have "valid_by event_draft_checks d" "valid_by event_draft_checks d'"
    using d(1) d'(1) by (auto simp: runtime_event_def mk_checked_Inr_iff)
  with persist_drafts [OF rd ns(2,3), of "[d, d']"] d(2) d'(2) obtain e' where
    "on_store (co_persist_transition co ns [d, d'] (sn_runtime_version sn)) ?e2 = (Inr (bumped ns (ed_event_id d')), e')"
    "ready e' (bumped ns (ed_event_id d')) (evs @ appended sn evs [d, d'])" "framed (sn_execution_id sn) e e'" "en_world e' = en_world e"
    by (auto simp: upt_rec)
  then show ?thesis
    unfolding advanced_def ns(1) using d(1,3) d'(1,3) appended_entries [of sn evs "[d, d']"]
    by (intro exI [of _ "ed_event_id d'"] exI [of _ "appended sn evs [d, d']"] exI [of _ e']) (simp add: act_bind_def)
qed

lemma start_advances:
  assumes "ready e sn evs" "sn_state sn \<in> {X_PLANNED, X_WAITING_RETRY}"
  shows "advanced e sn evs (sn\<lparr>sn_state := X_RUNNING\<rparr>) [(EV_EXECUTION_STARTED, X_RUNNING, None)] (co_start co sn e)"
proof -
  have v: "valid_snapshot sn" using ready_valid [OF assms(1)] by blast
  have "assert_legal_transition (sn_state sn) X_RUNNING = Inr ()" "sn_state sn \<noteq> X_RUNNING"
    using assms(2) by (auto simp: assert_legal_ok)
  with transition_one [where step = None and ty = EV_EXECUTION_STARTED and state = X_RUNNING and result = None,
      OF assms(1) replace_snapshot_eq(1) [OF v] state_updated(1) replace_snapshot_eq(3) [OF v]]
  show ?thesis by (simp add: co_start_def act_bind_def)
qed

lemma complete_advances:
  assumes "ready e sn evs" "sn_state sn = X_RUNNING"
  shows "advanced e sn evs (sn\<lparr>sn_state := X_COMPLETED, sn_checkpoint := (sn_checkpoint sn)\<lparr>cp_current_step_key := None\<rparr>\<rparr>)
    [(EV_EXECUTION_COMPLETED, X_COMPLETED, None)] (co_complete co sn e)"
proof -
  have v: "valid_snapshot sn" using ready_valid [OF assms(1)] by blast
  have "assert_legal_transition (sn_state sn) X_COMPLETED = Inr ()" using assms(2) by (simp add: assert_legal_ok)
  with transition_one [where step = None and ty = EV_EXECUTION_COMPLETED and state = X_COMPLETED and result = None,
      OF assms(1) replace_snapshot_eq(2) [OF v] state_updated(2) replace_snapshot_eq(4) [OF v]]
  show ?thesis by (simp add: co_complete_def act_bind_def)
qed

lemma running_advances:
  assumes "ready e sn evs" "\<not> blank (rs_step_key step)"
  shows "advanced e sn evs (changed_snapshot sn (running_change step)) [(EV_STEP_STARTED, X_RUNNING, Some (rs_step_key step))]
    (mark_step_running co sn step e)"
proof -
  have v: "valid_snapshot sn" using ready_valid [OF assms(1)] by blast
  note r = replace_running [OF v assms(2)]
  show ?thesis
    using transition_one [where step = "Some step" and ty = EV_STEP_STARTED and state = X_RUNNING and result = None,
        OF assms(1) r(1) changed_updated r(2)] assms(2)
    by (simp add: mark_step_running_def running_change_def)
qed

lemma find_in_set: "find P xs = Some x \<Longrightarrow> x \<in> set xs \<and> P x"
  by (auto simp: find_Some_iff)

lemma completed_advances:
  assumes "ready e sn evs" "\<not> blank (rs_step_key step)" "rs_step_key step \<notin> set (completed_keys sn)" "valid_result result"
  shows "advanced e sn evs (changed_snapshot sn (completed_change sn step result))
    [(EV_STEP_COMPLETED, X_RUNNING, Some (rs_step_key step))] (mark_step_completed co sn step result e)"
proof -
  have v: "valid_snapshot sn" using ready_valid [OF assms(1)] by blast
  let ?c = "completed_change sn step result"
  have keys: "cp_completed_step_keys (changed_checkpoint sn ?c) = completed_keys sn @ [rs_step_key step]"
    by (simp add: changed_checkpoint_def completed_change_def Let_def completed_keys_def split: list.split)
  have "\<not> blank_opt (next_step_key sn ks)" for ks
  proof -
    have "\<not> blank (rs_step_key s)" if "s \<in> set (sort_key rs_sequence (sn_steps sn))" for s
      using v that by (auto simp: valid_snapshot_def list_all_iff valid_runtime_step_def valid_by_def runtime_step_checks_def)
    then show ?thesis
      by (auto simp: next_step_key_def blank_opt_def split: option.splits dest!: find_in_set)
  qed
  then have cp: "valid_by checkpoint_checks (changed_checkpoint sn ?c)"
    using v assms(2,3) unfolding valid_by_def checkpoint_checks_def keys
    by (auto simp: changed_checkpoint_def completed_change_def Let_def valid_snapshot_def valid_by_def completed_keys_def
        checkpoint_checks_def snapshot_checks_def)
  have r: "replace_step sn ?c = Inr (changed_snapshot sn ?c)" "valid_snapshot (changed_snapshot sn ?c)"
    using replace_step_eq [OF v cp] assms(4) by (simp_all add: completed_change_def Let_def)
  show ?thesis
    using transition_one [where step = "Some step" and ty = EV_STEP_COMPLETED and state = X_RUNNING and result = "Some result",
        OF assms(1) r(1) changed_updated r(2)] assms(2)
    by (simp add: mark_step_completed_def completed_change_def Let_def)
qed

lemma failure_advances:
  assumes "ready e sn evs" "\<not> blank (rs_step_key step)" "0 \<le> rs_retry_count step" "valid_result result"
    and "sn_state sn = X_RUNNING" "state \<in> {X_WAITING_RETRY, X_FAILED}"
  shows "\<exists>failure. advanced e sn evs (changed_snapshot sn (failed_change step result step_state state failure))
    [(EV_STEP_FAILED, X_RUNNING, Some (rs_step_key step)), (ty, state, Some (rs_step_key step))]
    (record_failure co sn step result step_state state ty e)"
proof -
  have v: "valid_snapshot sn" using ready_valid [OF assms(1)] by blast
  obtain failure where f: "failure_from_result result = Inr failure" "valid_by failure_checks failure"
    using failure_from_result_Inr [OF assms(4)] by blast
  let ?c = "failed_change step result step_state state failure"
  have cp: "valid_by checkpoint_checks (changed_checkpoint sn ?c)"
    using v assms(2,3) by (auto simp: changed_checkpoint_def failed_change_def valid_snapshot_def valid_by_def
        checkpoint_checks_def snapshot_checks_def)
  have r: "replace_step sn ?c = Inr (changed_snapshot sn ?c)" "valid_snapshot (changed_snapshot sn ?c)"
    using replace_step_eq [OF v cp] assms(3-6) f(2) by (auto simp: failed_change_def)
  show ?thesis
    using transition_two [where step = "Some step" and ty = EV_STEP_FAILED and state = X_RUNNING and result = "Some result"
        and ty' = ty and state' = state, OF assms(1) r(1) changed_updated r(2)] assms(2) f(1)
    by (intro exI [of _ failure]) (simp add: record_failure_def failed_change_def)
qed

definition moved ::
    "('s, 'w) env \<Rightarrow> snapshot \<Rightarrow> event list \<Rightarrow> ('s, 'w) env \<Rightarrow> snapshot \<Rightarrow> event list \<Rightarrow> bool" where
  "moved e sn evs e' sn' evs' \<longleftrightarrow> ready e' sn' evs' \<and> tracked sn' evs' \<and> prefix evs evs' \<and> same_execution sn sn'
     \<and> framed (sn_execution_id sn) e e' \<and> sn_runtime_version sn \<le> sn_runtime_version sn'
     \<and> (sn_runtime_version sn' = sn_runtime_version sn \<longrightarrow> sn' = sn)"

lemma moved_refl: "ready e sn evs \<Longrightarrow> tracked sn evs \<Longrightarrow> moved e sn evs e sn evs"
  by (simp add: moved_def)

lemma moved_trans: "moved e sn evs e1 sn1 evs1 \<Longrightarrow> moved e1 sn1 evs1 e2 sn2 evs2 \<Longrightarrow> moved e sn evs e2 sn2 evs2"
  by (auto simp: moved_def same_execution_def intro: prefix_order.trans framed_trans)

lemma moved_world: "moved e sn evs e' sn' evs' \<Longrightarrow> moved e sn evs (e'\<lparr>en_world := w\<rparr>) sn' evs'"
  by (simp add: moved_def ready_def supplied_def framed_def)

lemma advanced_moved:
  assumes "advanced e sn evs ns entries out" "tracked sn evs" "replays sn evs m" "updated sn ns"
    and "\<exists>m'. machine_run (sn_retry_policy sn) (step_keys sn) m entries = Some m' \<and> mirrors m' ns"
  obtains sn' evs' e' m' l where "out = (Inr sn', e')" "moved e sn evs e' sn' evs'" "replays sn' evs' m'"
    "sn' = bumped ns l" "machine_run (sn_retry_policy sn) (step_keys sn) m entries = Some m'" "en_world e' = en_world e"
proof -
  obtain l new e' where out: "out = (Inr (bumped ns l), e')" "ready e' (bumped ns l) (evs @ new)"
      "map entry_of_event new = entries" "framed (sn_execution_id sn) e e'" "en_world e' = en_world e"
    using assms(1) by (auto simp: advanced_def)
  obtain m' where m': "machine_run (sn_retry_policy sn) (step_keys sn) m entries = Some m'" "mirrors m' ns"
    using assms(5) by blast
  note t = tracked_step [OF assms(2,3,4) m'(1) [folded out(3)] m'(2), of l]
  have "moved e sn evs e' (bumped ns l) (evs @ new)"
    using out t(1) updated_same [OF assms(4)] updated_fields(8) [OF assms(4)] by (simp add: moved_def)
  with out t(2) m' that show thesis by blast
qed

text \<open>The step that is next, in terms of the machine.\<close>

lemma next_step_facts:
  assumes "ready e sn evs" "replays sn evs m" "drop (length (completed_keys sn)) (sn_steps sn) = step # rest"
  shows "step \<in> set (sn_steps sn)" "\<not> blank (rs_step_key step)" "0 \<le> rs_retry_count step"
    "next_key (step_keys sn) (completed_keys sn) = Some (rs_step_key step)" "rs_step_key step \<notin> set (completed_keys sn)"
    "distinct (map rs_step_key (sn_steps sn))"
proof -
  have v: "valid_snapshot sn" "ordered_steps (sn_steps sn)" using ready_valid [OF assms(1)] by blast+
  show step: "step \<in> set (sn_steps sn)" using assms(3) by (metis in_set_dropD list.set_intros(1))
  then show "\<not> blank (rs_step_key step)" "0 \<le> rs_retry_count step"
    using v(1) by (auto simp: valid_snapshot_def list_all_iff valid_runtime_step_def valid_by_def runtime_step_checks_def)
  show d: "distinct (map rs_step_key (sn_steps sn))" using v(2) by (simp add: ordered_steps_def)
  have pre: "prefix (completed_keys sn) (step_keys sn)"
    using tracked_machine_ok [OF assms(2) v] assms(2) by (simp add: machine_ok_def replays_def mirrors_def)
  have "drop (length (completed_keys sn)) (step_keys sn) = rs_step_key step # map rs_step_key rest"
    by (simp add: step_keys_def drop_map assms(3))
  then show nk: "next_key (step_keys sn) (completed_keys sn) = Some (rs_step_key step)"
    using next_key_split [OF pre] d by (simp add: step_keys_def)
  show "rs_step_key step \<notin> set (completed_keys sn)"
    using next_key_Some_prefix(2) [OF pre _ nk] d by (simp add: step_keys_def)
qed

text \<open>While a step runs.\<close>

definition in_step :: "snapshot \<Rightarrow> machine \<Rightarrow> runtime_step \<Rightarrow> runtime_step list \<Rightarrow> bool" where
  "in_step sn m step rest \<longleftrightarrow> sn_state sn = X_RUNNING \<and> m_step m (rs_step_key step) = RS_RUNNING
     \<and> m_retries m (rs_step_key step) = rs_retry_count step
     \<and> (\<exists>current. drop (length (completed_keys sn)) (sn_steps sn) = current # rest
          \<and> rs_step_key current = rs_step_key step \<and> rs_retry_count current = rs_retry_count step)"

lemma step_started:
  assumes "ready e sn evs" "tracked sn evs" "replays sn evs m" "sn_state sn = X_RUNNING"
    and "drop (length (completed_keys sn)) (sn_steps sn) = step # rest"
  obtains sn1 evs1 e1 m1 where "mark_step_running co sn step e = (Inr sn1, e1)" "moved e sn evs e1 sn1 evs1"
    "replays sn1 evs1 m1" "in_step sn1 m1 step rest" "completed_keys sn1 = completed_keys sn"
    "total_retries sn1 = total_retries sn" "en_world e1 = en_world e"
proof -
  note f = next_step_facts [OF assms(1,3,5)]
  have mir: "mirrors m sn" using assms(3) by (simp add: replays_def)
  let ?ns = "changed_snapshot sn (running_change step)"
  obtain sn1 evs1 e1 m1 l where out: "mark_step_running co sn step e = (Inr sn1, e1)" "moved e sn evs e1 sn1 evs1"
      "replays sn1 evs1 m1" "sn1 = bumped ?ns l" "en_world e1 = en_world e"
      "machine_run (sn_retry_policy sn) (step_keys sn) m [(EV_STEP_STARTED, X_RUNNING, Some (rs_step_key step))] = Some m1"
    by (rule advanced_moved [OF running_advances [OF assms(1) f(2)] assms(2,3) changed_updated
          machine_run_running [OF mir assms(4) f(1,4)]])
  have dn: "completed_keys sn1 = completed_keys sn" "sn_state sn1 = X_RUNNING"
    using assms(4) by (simp_all add: out(4) completed_keys_def changed_snapshot_def changed_checkpoint_def running_change_def)
  have "drop (length (completed_keys sn)) (sn_steps sn1) = changed_step (running_change step) step # rest"
  proof -
    have "drop (Suc (length (completed_keys sn))) (sn_steps ?ns) = rest"
      by (rule changed_drop [OF f(6) assms(5)]) (simp add: running_change_def)
    moreover have "drop (length (completed_keys sn)) (sn_steps ?ns) = map (\<lambda>s. if rs_step_key s = rs_step_key step
        then changed_step (running_change step) s else s) (step # rest)"
      unfolding assms(5) [symmetric] by (simp add: changed_snapshot_def drop_map running_change_def)
    ultimately show ?thesis unfolding out(4) by (simp add: drop_Suc flip: tl_drop)
  qed
  moreover have "m_step m1 (rs_step_key step) = RS_RUNNING" "m_retries m1 (rs_step_key step) = rs_retry_count step"
    using out(6) mir f(1) by (auto simp: mirrors_def split: option.splits if_splits)
  ultimately have "in_step sn1 m1 step rest"
    using dn by (auto simp: in_step_def changed_step_def running_change_def)
  moreover have "total_retries sn1 = total_retries sn"
    using total_retries_changed [OF f(6,1), of "running_change step"] by (simp add: out(4) total_retries_def running_change_def)
  ultimately show thesis using that out(1,2,3,5) dn(1) by blast
qed

lemma in_step_facts:
  assumes "ready e sn evs" "replays sn evs m" "in_step sn m step rest"
  obtains current where "drop (length (completed_keys sn)) (sn_steps sn) = current # rest" "current \<in> set (sn_steps sn)"
    "rs_step_key current = rs_step_key step" "rs_retry_count current = rs_retry_count step"
    "\<not> blank (rs_step_key step)" "0 \<le> rs_retry_count step" "rs_step_key step \<notin> set (completed_keys sn)"
    "next_key (step_keys sn) (completed_keys sn) = Some (rs_step_key step)" "distinct (map rs_step_key (sn_steps sn))"
proof -
  obtain current where c: "drop (length (completed_keys sn)) (sn_steps sn) = current # rest"
    "rs_step_key current = rs_step_key step" "rs_retry_count current = rs_retry_count step"
    using assms(3) by (auto simp: in_step_def)
  from that [OF c(1) _ c(2,3)] next_step_facts [OF assms(1,2) c(1)] c(2,3) show thesis by simp
qed

lemma step_succeeded:
  assumes "ready e sn evs" "tracked sn evs" "replays sn evs m" "in_step sn m step rest" "valid_result x"
  obtains sn1 evs1 e1 where "mark_step_completed co sn step x e = (Inr sn1, e1)" "moved e sn evs e1 sn1 evs1"
    "sn_state sn1 = X_RUNNING" "completed_keys sn1 = completed_keys sn @ [rs_step_key step]"
    "drop (length (completed_keys sn1)) (sn_steps sn1) = rest"
    "total_retries sn1 = total_retries sn" "en_world e1 = en_world e"
proof -
  obtain current where f: "drop (length (completed_keys sn)) (sn_steps sn) = current # rest" "current \<in> set (sn_steps sn)"
    "rs_step_key current = rs_step_key step" "rs_retry_count current = rs_retry_count step"
    "\<not> blank (rs_step_key step)" "0 \<le> rs_retry_count step" "rs_step_key step \<notin> set (completed_keys sn)"
    "next_key (step_keys sn) (completed_keys sn) = Some (rs_step_key step)" "distinct (map rs_step_key (sn_steps sn))"
    by (rule in_step_facts [OF assms(1,3,4)])
  have mir: "mirrors m sn" using assms(3) by (simp add: replays_def)
  have run: "sn_state sn = X_RUNNING" "m_step m (rs_step_key step) = RS_RUNNING" using assms(4) by (simp_all add: in_step_def)
  let ?c = "completed_change sn step x"
  obtain sn1 evs1 e1 m1 l where out: "mark_step_completed co sn step x e = (Inr sn1, e1)" "moved e sn evs e1 sn1 evs1"
      "sn1 = bumped (changed_snapshot sn ?c) l" "en_world e1 = en_world e"
    by (rule advanced_moved [OF completed_advances [OF assms(1) f(5,7) assms(5)] assms(2,3) changed_updated
          machine_run_completed [OF mir run f(8)]])
  have c: "sc_step_key ?c = rs_step_key current" "sc_retry_count ?c = None"
    using f(3) by (simp_all add: completed_change_def Let_def)
  have dn: "completed_keys sn1 = completed_keys sn @ [rs_step_key step]" "sn_state sn1 = X_RUNNING"
    using run(1) by (simp_all add: out(3) completed_keys_def changed_snapshot_def changed_checkpoint_def completed_change_def
        Let_def split: list.split)
  moreover have "drop (length (completed_keys sn1)) (sn_steps sn1) = rest"
    unfolding dn(1) using changed_drop [OF f(9,1) c(1)] by (simp add: out(3))
  moreover have "total_retries sn1 = total_retries sn"
    using total_retries_changed [OF f(9,2) c(1)] c(2) by (simp add: out(3) total_retries_def)
  ultimately show thesis using that out by blast
qed

lemma step_failed:
  assumes "ready e sn evs" "tracked sn evs" "replays sn evs m" "in_step sn m step rest" "valid_result x"
  obtains sn1 evs1 e1 where "handle_failure co sn step x e = (Inr sn1, e1)" "moved e sn evs e1 sn1 evs1"
    "sn_state sn1 = (if may_retry (sn_retry_policy sn) (rs_retry_count step + 1) then X_WAITING_RETRY else X_FAILED)"
    "completed_keys sn1 = completed_keys sn" "total_retries sn1 = total_retries sn + 1" "en_world e1 = en_world e"
proof -
  obtain current where f: "drop (length (completed_keys sn)) (sn_steps sn) = current # rest" "current \<in> set (sn_steps sn)"
    "rs_step_key current = rs_step_key step" "rs_retry_count current = rs_retry_count step"
    "\<not> blank (rs_step_key step)" "0 \<le> rs_retry_count step" "rs_step_key step \<notin> set (completed_keys sn)"
    "next_key (step_keys sn) (completed_keys sn) = Some (rs_step_key step)" "distinct (map rs_step_key (sn_steps sn))"
    by (rule in_step_facts [OF assms(1,3,4)])
  have mir: "mirrors m sn" using assms(3) by (simp add: replays_def)
  have run: "sn_state sn = X_RUNNING" "m_step m (rs_step_key step) = RS_RUNNING" "m_retries m (rs_step_key step) = rs_retry_count step"
    using assms(4) by (simp_all add: in_step_def)
  obtain ty state step_state where t: "(ty, state, step_state) = (if may_retry (sn_retry_policy sn) (rs_retry_count step + 1)
      then (EV_RETRY_SCHEDULED, X_WAITING_RETRY, RS_WAITING_RETRY) else (EV_EXECUTION_FAILED, X_FAILED, RS_FAILED))"
    by (metis prod_cases3)
  have h: "handle_failure co sn step x = record_failure co sn step x step_state state ty"
    using t by (auto simp: handle_failure_def should_retry_def may_retry_def split: if_splits)
  have "state \<in> {X_WAITING_RETRY, X_FAILED}" using t by (auto split: if_splits)
  from failure_advances [OF assms(1) f(5,6) assms(5) run(1) this, of step_state ty] obtain failure
    where adv: "advanced e sn evs (changed_snapshot sn (failed_change step x step_state state failure))
      [(EV_STEP_FAILED, X_RUNNING, Some (rs_step_key step)), (ty, state, Some (rs_step_key step))]
      (handle_failure co sn step x e)" unfolding h by blast
  let ?c = "failed_change step x step_state state failure"
  obtain sn1 evs1 e1 m1 l where out: "handle_failure co sn step x e = (Inr sn1, e1)" "moved e sn evs e1 sn1 evs1"
      "sn1 = bumped (changed_snapshot sn ?c) l" "en_world e1 = en_world e"
    by (rule advanced_moved [OF adv assms(2,3) changed_updated machine_run_failed [OF mir run(1,2) f(8) run(3) t]])
  have c: "sc_step_key ?c = rs_step_key current" "sc_retry_count ?c = Some (rs_retry_count current + 1)"
    using f(3,4) by (simp_all add: failed_change_def)
  have "completed_keys sn1 = completed_keys sn" "sn_state sn1 = state"
    by (simp_all add: out(3) completed_keys_def changed_snapshot_def changed_checkpoint_def failed_change_def)
  moreover have "state = (if may_retry (sn_retry_policy sn) (rs_retry_count step + 1) then X_WAITING_RETRY else X_FAILED)"
    using t by (auto split: if_splits)
  moreover have "total_retries sn1 = total_retries sn + 1"
    using total_retries_changed [OF f(9,2) c(1)] c(2) by (simp add: out(3) total_retries_def)
  ultimately show thesis using that out by blast
qed

text \<open>What the loop did when it returned, and when a strategy raised.\<close>

definition loop_result ::
    "execution_approval option \<Rightarrow> snapshot \<Rightarrow> runtime_step list \<Rightarrow> step_result list \<Rightarrow> 'w \<Rightarrow> snapshot \<Rightarrow> 'w \<Rightarrow>
     (hub_error, snapshot \<times> step_result list) result \<Rightarrow> bool" where
  "loop_result approval sn steps results w sn' w' r \<longleftrightarrow> (\<exists>n xs v. n \<le> length steps
     \<and> performed co approval sn (take n steps) w xs v
     \<and> (case r of
          Inr (sn2, results') \<Rightarrow> sn2 = sn' \<and> results' = results @ xs \<and> v = w' \<and> loop_outcome X_RUNNING sn steps sn' n xs
        | Inl err \<Rightarrow> n < length steps \<and> step_action co approval sn (steps ! n) v = (Inl err, w')
            \<and> list_all (\<lambda>x. \<not> is_failure x) xs \<and> sn_state sn' = X_RUNNING
            \<and> completed_keys sn' = completed_keys sn @ map rs_step_key (take n steps)))"

lemma loop_result_Cons:
  assumes act: "step_action co approval sn step w = (Inr x, w1)" and same: "same_execution sn sn1" and ok: "\<not> is_failure x"
    and keys: "completed_keys sn1 = completed_keys sn @ [rs_step_key step]" "total_retries sn1 = total_retries sn"
    and rest: "loop_result approval sn1 rest (results @ [x]) w1 sn' w' r"
  shows "loop_result approval sn (step # rest) results w sn' w' r"
proof -
  obtain n xs v where n: "n \<le> length rest" "performed co approval sn1 (take n rest) w1 xs v"
    and out: "case r of Inr (sn2, results') \<Rightarrow> sn2 = sn' \<and> results' = (results @ [x]) @ xs \<and> v = w' \<and> loop_outcome X_RUNNING sn1 rest sn' n xs
        | Inl err \<Rightarrow> n < length rest \<and> step_action co approval sn1 (rest ! n) v = (Inl err, w') \<and> list_all (\<lambda>x. \<not> is_failure x) xs
            \<and> sn_state sn' = X_RUNNING \<and> completed_keys sn' = completed_keys sn1 @ map rs_step_key (take n rest)"
    using rest unfolding loop_result_def by blast
  have len: "length xs = n" using performed_length [OF n(2)] n(1) by simp
  have "loop_outcome X_RUNNING sn (step # rest) sn' (Suc n) (x # xs)" if "loop_outcome X_RUNNING sn1 rest sn' n xs"
    using that ok keys same len unfolding loop_outcome_def same_execution_def by (cases n) auto
  moreover have "performed co approval sn (take (Suc n) (step # rest)) w (x # xs) v"
    using act performed_same [OF same n(2)] by (auto intro: performed.step)
  ultimately show ?thesis
    unfolding loop_result_def using n(1) out ok keys(1)
    by (intro exI [of _ "Suc n"] exI [of _ "x # xs"] exI [of _ v])
       (auto simp: step_action_same [OF same] split: sum.splits)
qed

lemma run_steps_spec:
  assumes "ready e sn evs" "tracked sn evs" "sn_state sn = X_RUNNING" "results_valid (co_strategy_resolver co)"
    and "steps = drop (length (completed_keys sn)) (sn_steps sn)" "run_steps co approval steps sn results e = (r, e')"
  shows "\<exists>sn' evs'. moved e sn evs e' sn' evs' \<and> loop_result approval sn steps results (en_world e) sn' (en_world e') r"
  using assms
proof (induction steps arbitrary: sn evs e results)
  case Nil
  obtain m where m: "replays sn evs m" using Nil.prems(2) by (auto simp: tracked_def)
  have "take (length (completed_keys sn)) (sn_steps sn) = sn_steps sn" using Nil.prems(5) by simp
  with pending_drop(2) [OF m] ready_valid [OF Nil.prems(1)] have "completed_keys sn = step_keys sn"
    by (simp add: step_keys_def)
  moreover have "r = Inr (sn, results)" "e' = e" using Nil.prems(6) by simp_all
  ultimately have "loop_result approval sn [] results (en_world e) sn (en_world e') r"
    unfolding loop_result_def using Nil.prems(3)
    by (intro exI [of _ 0] exI [of _ "[]"] exI [of _ "en_world e"]) (simp add: performed.none loop_outcome_def)
  with moved_refl [OF Nil.prems(1,2)] \<open>e' = e\<close> show ?case by blast
next
  case (Cons step rest)
  obtain m where m: "replays sn evs m" using Cons.prems(2) by (auto simp: tracked_def)
  obtain sn1 evs1 e1 m1 where run: "mark_step_running co sn step e = (Inr sn1, e1)" "moved e sn evs e1 sn1 evs1"
      "replays sn1 evs1 m1" "in_step sn1 m1 step rest" "completed_keys sn1 = completed_keys sn"
      "total_retries sn1 = total_retries sn" "en_world e1 = en_world e"
    by (rule step_started [OF Cons.prems(1,2) m Cons.prems(3) Cons.prems(5) [symmetric]])
  have same: "same_execution sn sn1" using run(2) by (simp add: moved_def)
  obtain y w1 where act: "step_action co approval sn step (en_world e) = (y, w1)" by fastforce
  let ?e1 = "e1\<lparr>en_world := w1\<rparr>"
  have ex: "execute_step co approval sn1 step e1 = (y, ?e1)"
    using act run(7) by (simp add: execute_step_world on_world_def step_action_same [OF same])
  have mv: "moved e sn evs ?e1 sn1 evs1" using run(2) by (rule moved_world)
  then have rd1: "ready ?e1 sn1 evs1" "tracked sn1 evs1" by (simp_all add: moved_def)
  show ?case
  proof (cases y)
    case (Inl err)
    then have "r = Inl err" "e' = ?e1" using Cons.prems(6) run(1) ex by (simp_all add: act_bind_def)
    then have "loop_result approval sn (step # rest) results (en_world e) sn1 (en_world e') r"
      unfolding loop_result_def using act Inl run(4,5)
      by (intro exI [of _ 0] exI [of _ "[]"] exI [of _ "en_world e"]) (simp add: performed.none in_step_def)
    with mv \<open>e' = ?e1\<close> show ?thesis by blast
  next
    case (Inr x)
    have vx: "valid_result x" using step_action_valid [OF Cons.prems(4)] act Inr by blast
    show ?thesis
    proof (cases "is_failure x")
      case True
      obtain sn2 evs2 e2 where f: "handle_failure co sn1 step x ?e1 = (Inr sn2, e2)" "moved ?e1 sn1 evs1 e2 sn2 evs2"
          "sn_state sn2 = (if may_retry (sn_retry_policy sn1) (rs_retry_count step + 1) then X_WAITING_RETRY else X_FAILED)"
          "completed_keys sn2 = completed_keys sn1" "total_retries sn2 = total_retries sn1 + 1" "en_world e2 = en_world ?e1"
        by (rule step_failed [OF rd1 run(3,4) vx])
      have "sn_state sn2 \<in> {X_WAITING_RETRY, X_FAILED}" using f(3) by simp
      then have r: "r = Inr (sn2, results @ [x])" "e' = e2"
        using Cons.prems(6) run(1) ex f(1) True Inr by (simp_all add: act_bind_def)
      have "performed co approval sn (take 1 (step # rest)) (en_world e) [x] w1"
        using act Inr by (auto intro: performed.intros)
      moreover have "loop_outcome X_RUNNING sn (step # rest) sn2 1 [x]"
        using f(3,4,5) run(5,6) True same by (auto simp: loop_outcome_def same_execution_def)
      ultimately have "loop_result approval sn (step # rest) results (en_world e) sn2 (en_world e') r"
        unfolding loop_result_def using r f(6) by (intro exI [of _ 1] exI [of _ "[x]"] exI [of _ w1]) simp
      with moved_trans [OF mv f(2)] r show ?thesis by blast
    next
      case False
      obtain sn2 evs2 e2 where c: "mark_step_completed co sn1 step x ?e1 = (Inr sn2, e2)" "moved ?e1 sn1 evs1 e2 sn2 evs2"
          "sn_state sn2 = X_RUNNING" "completed_keys sn2 = completed_keys sn1 @ [rs_step_key step]"
          "drop (length (completed_keys sn2)) (sn_steps sn2) = rest" "total_retries sn2 = total_retries sn1" "en_world e2 = en_world ?e1"
        by (rule step_succeeded [OF rd1 run(3,4) vx])
      have go: "run_steps co approval rest sn2 (results @ [x]) e2 = (r, e')"
        using Cons.prems(6) run(1) ex c(1) False Inr by (simp add: act_bind_def)
      have mv2: "moved e sn evs e2 sn2 evs2" by (rule moved_trans [OF mv c(2)])
      then have rd2: "ready e2 sn2 evs2" "tracked sn2 evs2" and same2: "same_execution sn sn2" by (simp_all add: moved_def)
      obtain sn3 evs3 where ih: "moved e2 sn2 evs2 e' sn3 evs3"
          "loop_result approval sn2 rest (results @ [x]) (en_world e2) sn3 (en_world e') r"
        using Cons.IH [OF rd2 c(3) Cons.prems(4) c(5) [symmetric] go] by blast
      have "loop_result approval sn (step # rest) results (en_world e) sn3 (en_world e') r"
        using loop_result_Cons [OF act [unfolded Inr] same2 False] ih(2) c(4,6,7) run(5,6) by simp
      with moved_trans [OF mv2 ih(1)] show ?thesis by blast
    qed
  qed
qed

definition run_result ::
    "execution_approval option \<Rightarrow> snapshot \<Rightarrow> 'w \<Rightarrow> snapshot \<Rightarrow> 'w \<Rightarrow> (hub_error, execution_result) result \<Rightarrow> bool" where
  "run_result approval sn w sn' w' r \<longleftrightarrow> (\<exists>n xs v. n \<le> length (pending_steps sn)
     \<and> performed co approval sn (take n (pending_steps sn)) w xs v
     \<and> (case r of
          Inr x \<Rightarrow> v = w' \<and> xr_execution_id x = sn_execution_id sn \<and> xr_status x = execution_status_of sn'
            \<and> xr_step_results x = (if last_results sn @ xs = [] then last_results sn' else last_results sn @ xs)
            \<and> loop_outcome X_COMPLETED sn (pending_steps sn) sn' n xs
        | Inl err \<Rightarrow> n < length (pending_steps sn) \<and> step_action co approval sn (pending_steps sn ! n) v = (Inl err, w')
            \<and> list_all (\<lambda>x. \<not> is_failure x) xs \<and> sn_state sn' = X_RUNNING
            \<and> completed_keys sn' = completed_keys sn @ map rs_step_key (take n (pending_steps sn))))"

lemma finish_spec:
  assumes "ready e sn evs" "tracked sn evs" "loop_outcome X_RUNNING sn0 steps sn n xs"
  obtains sn' evs' e' where
    "(if sn_state sn = X_RUNNING \<and> all_steps_completed sn then co_complete co sn else act_return sn) e = (Inr sn', e')"
    "moved e sn evs e' sn' evs'" "en_world e' = en_world e" "loop_outcome X_COMPLETED sn0 steps sn' n xs"
proof -
  obtain m where m: "replays sn evs m" using assms(2) by (auto simp: tracked_def)
  have mir: "mirrors m sn" using m by (simp add: replays_def)
  show thesis
  proof (cases "sn_state sn = X_RUNNING")
    case True
    then have all: "completed_keys sn = step_keys sn" using assms(3) by (auto simp: loop_outcome_def split: if_splits)
    have "next_key (step_keys sn) (completed_keys sn) = None" by (simp add: all next_key_def find_None_iff)
    note adv = complete_advances [OF assms(1) True]
    obtain sn' evs' e' l where out: "co_complete co sn e = (Inr sn', e')" "moved e sn evs e' sn' evs'"
        "sn' = bumped (sn\<lparr>sn_state := X_COMPLETED, sn_checkpoint := (sn_checkpoint sn)\<lparr>cp_current_step_key := None\<rparr>\<rparr>) l"
        "en_world e' = en_world e"
      by (rule advanced_moved [OF adv assms(2) m state_updated(2)
            machine_run_complete [OF mir True \<open>next_key _ _ = None\<close>]])
    have "loop_outcome X_COMPLETED sn0 steps sn' n xs"
      using assms(3) True by (auto simp: loop_outcome_def out(3) completed_keys_def step_keys_def total_retries_def split: if_splits)
    with that out True completed_all [OF m] ready_valid [OF assms(1)] all show thesis by simp
  next
    case False
    then have "loop_outcome X_COMPLETED sn0 steps sn n xs" using assms(3) by (auto simp: loop_outcome_def)
    with that moved_refl [OF assms(1,2)] False show thesis by simp
  qed
qed

lemma start_spec:
  assumes "ready e sn evs" "tracked sn evs" "sn_state sn \<in> {X_PLANNED, X_RUNNING, X_WAITING_RETRY}"
  obtains sn' evs' e' where "co_start co sn e = (Inr sn', e')" "moved e sn evs e' sn' evs'" "sn_state sn' = X_RUNNING"
    "sn_steps sn' = sn_steps sn" "completed_keys sn' = completed_keys sn" "en_world e' = en_world e"
proof (cases "sn_state sn = X_RUNNING")
  case True
  with that moved_refl [OF assms(1,2)] show thesis by (simp add: co_start_def)
next
  case False
  then have st: "sn_state sn \<in> {X_PLANNED, X_WAITING_RETRY}" using assms(3) by blast
  obtain m where m: "replays sn evs m" using assms(2) by (auto simp: tracked_def)
  have mir: "mirrors m sn" using m by (simp add: replays_def)
  obtain sn' evs' e' l where "co_start co sn e = (Inr sn', e')" "moved e sn evs e' sn' evs'"
      "sn' = bumped (sn\<lparr>sn_state := X_RUNNING\<rparr>) l" "en_world e' = en_world e"
    by (rule advanced_moved [OF start_advances [OF assms(1) st] assms(2) m state_updated(1) machine_run_start [OF mir st]])
  with that show thesis by (simp add: completed_keys_def)
qed

theorem execute_spec:
  assumes "ready e sn evs" "tracked sn evs" "sn_state sn \<in> {X_PLANNED, X_RUNNING, X_WAITING_RETRY}"
    and "results_valid (co_strategy_resolver co)" "co_execute co approval sn e = (r, e')"
  shows "\<exists>sn' evs'. moved e sn evs e' sn' evs' \<and> run_result approval sn (en_world e) sn' (en_world e') r"
proof -
  obtain sn1 evs1 e1 where s: "co_start co sn e = (Inr sn1, e1)" "moved e sn evs e1 sn1 evs1" "sn_state sn1 = X_RUNNING"
    "sn_steps sn1 = sn_steps sn" "completed_keys sn1 = completed_keys sn" "en_world e1 = en_world e"
    by (rule start_spec [OF assms(1-3)])
  have rd1: "ready e1 sn1 evs1" "tracked sn1 evs1" and same: "same_execution sn sn1" using s(2) by (simp_all add: moved_def)
  obtain m1 where m1: "replays sn1 evs1 m1" using rd1(2) by (auto simp: tracked_def)
  obtain m where m: "replays sn evs m" using assms(2) by (auto simp: tracked_def)
  have pend: "pending_steps sn1 = drop (length (completed_keys sn1)) (sn_steps sn1)" "pending_steps sn1 = pending_steps sn"
    using pending_drop(1) [OF m1] pending_drop(1) [OF m] ready_valid [OF rd1(1)] ready_valid [OF assms(1)] s(4,5) by simp_all
  have lst: "last_results sn1 = last_results sn" by (simp add: last_results_def s(4))
  obtain q e2 where q: "run_steps co approval (pending_steps sn1) sn1 (last_results sn1) e1 = (q, e2)" by fastforce
  obtain sn2 evs2 where l: "moved e1 sn1 evs1 e2 sn2 evs2"
      "loop_result approval sn1 (pending_steps sn) (last_results sn) (en_world e1) sn2 (en_world e2) q"
    using run_steps_spec [OF rd1 s(3) assms(4) pend(1) q] unfolding pend(2) lst by blast
  have mv: "moved e sn evs e2 sn2 evs2" by (rule moved_trans [OF s(2) l(1)])
  have nt: "sn_state sn \<notin> {X_COMPLETED, X_FAILED, X_CANCELLED}" using assms(3) by auto
  obtain n xs v where n0: "n \<le> length (pending_steps sn)" "performed co approval sn1 (take n (pending_steps sn)) (en_world e) xs v"
    and out: "case q of Inr (sn2', results') \<Rightarrow> sn2' = sn2 \<and> results' = last_results sn @ xs \<and> v = en_world e2
          \<and> loop_outcome X_RUNNING sn1 (pending_steps sn) sn2 n xs
        | Inl err \<Rightarrow> n < length (pending_steps sn) \<and> step_action co approval sn (pending_steps sn ! n) v = (Inl err, en_world e2)
            \<and> list_all (\<lambda>x. \<not> is_failure x) xs \<and> sn_state sn2 = X_RUNNING
            \<and> completed_keys sn2 = completed_keys sn @ map rs_step_key (take n (pending_steps sn))"
    using l(2) unfolding loop_result_def s(6,5) step_action_same [OF same] by blast
  note n = n0(1) performed_same [OF same n0(2)]
  show ?thesis
  proof (cases q)
    case (Inl err)
    with assms(5) s(1) q nt have r: "r = Inl err" "e' = e2" by (auto simp: co_execute_def act_bind_def)
    have "run_result approval sn (en_world e) sn2 (en_world e') r"
      unfolding run_result_def r using n out Inl by (intro exI [of _ n] exI [of _ xs] exI [of _ v]) simp
    with mv r show ?thesis by blast
  next
    case (Inr p)
    with out have p: "p = (sn2, last_results sn @ xs)" "v = en_world e2" by (cases p; simp)+
    have lo: "loop_outcome X_RUNNING sn1 (pending_steps sn) sn2 n xs" using out Inr by (cases p) simp
    have rd2: "ready e2 sn2 evs2" "tracked sn2 evs2" using mv by (simp_all add: moved_def)
    obtain sn3 evs3 e3 where f: "(if sn_state sn2 = X_RUNNING \<and> all_steps_completed sn2 then co_complete co sn2 else act_return sn2) e2
        = (Inr sn3, e3)" "moved e2 sn2 evs2 e3 sn3 evs3" "en_world e3 = en_world e2"
        "loop_outcome X_COMPLETED sn1 (pending_steps sn) sn3 n xs"
      by (rule finish_spec [OF rd2 lo])
    have mv3: "moved e sn evs e3 sn3 evs3" by (rule moved_trans [OF mv f(2)])
    then have ids: "sn_execution_id sn3 = sn_execution_id sn" "\<not> blank (sn_execution_id sn3)"
      using ready_valid [of e3 sn3 evs3] by (auto simp: moved_def same_execution_def valid_snapshot_def valid_by_def snapshot_checks_def)
    have "co_execute co approval sn e = (result_from_snapshot sn3 (last_results sn @ xs), e3)"
      using nt s(1) q Inr p(1) f(1) by (simp add: co_execute_def act_bind_def)
    with assms(5) have r: "r = result_from_snapshot sn3 (last_results sn @ xs)" "e' = e3" by simp_all
    have "loop_outcome X_COMPLETED sn (pending_steps sn) sn3 n xs"
      using f(4) same s(4,5) by (auto simp: loop_outcome_def same_execution_def total_retries_def)
    then have "run_result approval sn (en_world e) sn3 (en_world e') r"
      unfolding run_result_def r using n p(2) f(3) ids
      by (intro exI [of _ n] exI [of _ xs] exI [of _ v])
         (auto simp: result_from_snapshot_def mk_checked_def execution_result_checks_def)
    with mv3 r show ?thesis by blast
  qed
qed

end

end
