(* ===== verification/Exec_Service.thy ===== *)
theory Exec_Service
  imports Exec_Runs
begin

text \<open>
  Durable executions from creation to their end. The contract of \<^verbatim>\<open>Exec_Runs\<close> is interpreted on the
  coordinator of the repository, and the properties are stated of the tables: whatever sessions do
  one after the other, the stored snapshots are the states of their logs, steps are not repeated,
  failures are bounded, stale sessions do nothing, and resuming ends.
\<close>

section \<open>Stale sessions and repeated resumption\<close>

text \<open>Resuming an execution again and again, whatever each attempt returns.\<close>

fun resumes :: "('s, 'w) coordinator \<Rightarrow> execution_approval option \<Rightarrow> string \<Rightarrow> nat \<Rightarrow> ('s, 'w) env \<Rightarrow> ('s, 'w) env" where
  "resumes co approval i 0 e = e"
| "resumes co approval i (Suc n) e = resumes co approval i n (snd (co_resume co approval i e))"

text \<open>Strategies for every step type, which return on the requests of valid steps.\<close>

definition never_raises :: "'w resolver \<Rightarrow> bool" where
  "never_raises r \<longleftrightarrow> (\<forall>t. \<exists>s. resolve r t = Inr s
     \<and> (\<forall>q w. valid_by step_request_checks q \<longrightarrow> valid_step (sq_step q) \<longrightarrow> (\<exists>x w'. sg_execute s q w = (Inr x, w'))))"

lemma step_action_returns:
  assumes "never_raises (co_strategy_resolver co)" "valid_snapshot sn" "tracked sn evs" "step \<in> set (sn_steps sn)"
  shows "\<exists>x w'. step_action co approval sn step w = (Inr x, w')"
proof -
  have "rs_step_key step \<in> set (map st_step_key (pl_steps (sn_plan sn)))"
    using assms(3,4) by (metis image_eqI list.set_map step_keys_def tracked_def)
  then obtain p where p: "find (\<lambda>p. st_step_key p = rs_step_key step) (pl_steps (sn_plan sn)) = Some p"
    by (cases "find (\<lambda>p. st_step_key p = rs_step_key step) (pl_steps (sn_plan sn))") (auto simp: find_None_iff)
  obtain s where s: "resolve (co_strategy_resolver co) (st_step_type p) = Inr s"
      "\<And>q w. valid_by step_request_checks q \<Longrightarrow> valid_step (sq_step q) \<Longrightarrow> \<exists>x w'. sg_execute s q w = (Inr x, w')"
    using assms(1) unfolding never_raises_def by blast
  have plan: "valid_plan (sn_plan sn)" using assms(2) by (simp add: valid_snapshot_def)
  have "p \<in> set (pl_steps (sn_plan sn))" using p by (auto simp: find_Some_iff)
  with plan have "valid_step p" by (simp add: valid_plan_def list_all_iff)
  moreover have "\<exists>q. snapshot_step_request sn p approval = Inr q \<and> valid_by step_request_checks q \<and> sq_step q = p"
    using plan assms(2) by (auto simp: snapshot_step_request_def mk_checked_Inr_iff valid_snapshot_def valid_plan_def valid_by_def
        snapshot_checks_def step_request_checks_def execution_plan_checks_def)
  ultimately obtain q x w' where "snapshot_step_request sn p approval = Inr q" "sg_execute s q w = (Inr x, w')"
    using s(2) by blast
  with p s(1) show ?thesis by (simp add: step_action_def act_bind_def)
qed

context coordinated
begin

lemma conflict_one:
  assumes "invar (en_store e)" "holds (en_store e) sn evs" "sn_execution_id ns = sn_execution_id sn" "v \<noteq> sn_runtime_version sn"
    and "nx = Inr ns" "valid_snapshot ns" "pred_option (\<lambda>s. \<not> blank (rs_step_key s)) step"
  shows "\<exists>m. act_bind (act_lift nx) (\<lambda>ns. act_bind (runtime_event co (sn_execution_id ns) ty state step result) (\<lambda>ev.
       on_store (co_persist_transition co ns [ev] v))) e
    = (Inl (ExecutionConcurrencyConflictError m), e\<lparr>en_uuid := Suc (en_uuid e)\<rparr>)"
proof -
  have i: "\<not> blank (sn_execution_id ns)" using assms(6) by (simp add: valid_snapshot_def valid_by_def snapshot_checks_def)
  note ev = runtime_event_Inr [OF i assms(7), of ty state result e]
  then obtain d where d: "runtime_event co (sn_execution_id ns) ty state step result e = (Inr d, e\<lparr>en_uuid := Suc (en_uuid e)\<rparr>)"
    by blast
  obtain m where "persist ns [d] v (en_store e) = (Inl (ExecutionConcurrencyConflictError m), en_store e)"
    using persist_stale [OF assms(1-3) _ assms(4), of "[d]"] by blast
  with d show ?thesis unfolding assms(5) by (simp add: act_bind_def on_store_def co_persist)
qed

lemma execute_stale:
  assumes "invar (en_store e)" "holds (en_store e) sn evs"
    and old: "valid_snapshot old" "ordered_steps (sn_steps old)" "tracked old oevs" "\<not> terminal (sn_state old)"
      "sn_execution_id old = sn_execution_id sn" "sn_runtime_version old \<noteq> sn_runtime_version sn"
  shows "\<exists>m. co_execute co approval old e = (Inl (ExecutionConcurrencyConflictError m), e\<lparr>en_uuid := Suc (en_uuid e)\<rparr>)"
proof -
  note conflict = conflict_one [OF assms(1,2) _ old(6)]
  obtain m where m: "replays old oevs m" using old(3) by (auto simp: tracked_def)
  have nt: "sn_state old \<notin> {X_COMPLETED, X_FAILED, X_CANCELLED}" using old(4) by auto
  show ?thesis
  proof (cases "sn_state old = X_RUNNING")
    case False
    then have "assert_legal_transition (sn_state old) X_RUNNING = Inr ()"
      using old(3,4) by (cases "sn_state old") (auto simp: assert_legal_ok tracked_def)
    with conflict [where step = None and ty = EV_EXECUTION_STARTED and state = X_RUNNING and result = None,
        OF _ replace_snapshot_eq(1,3) [OF old(1)]] old(5) False
    have "\<exists>m. co_start co old e = (Inl (ExecutionConcurrencyConflictError m), e\<lparr>en_uuid := Suc (en_uuid e)\<rparr>)"
      by (simp add: co_start_def act_bind_def)
    with nt show ?thesis by (auto simp: co_execute_def act_bind_def)
  next
    case True
    have pend: "pending_steps old = drop (length (completed_keys old)) (sn_steps old)"
      by (rule pending_drop(1) [OF m old(1,2)])
    show ?thesis
    proof (cases "pending_steps old")
      case Nil
      then have "take (length (completed_keys old)) (sn_steps old) = sn_steps old" using pend by simp
      with pending_drop(2) [OF m old(1,2)] have "completed_keys old = step_keys old" by (simp add: step_keys_def)
      then have "all_steps_completed old" using completed_all [OF m old(1,2)] by simp
      moreover have "assert_legal_transition X_RUNNING X_COMPLETED = Inr ()" by (simp add: assert_legal_ok)
      moreover have "\<exists>m. co_complete co old e = (Inl (ExecutionConcurrencyConflictError m), e\<lparr>en_uuid := Suc (en_uuid e)\<rparr>)"
        using conflict [where step = None and ty = EV_EXECUTION_COMPLETED and state = X_COMPLETED and result = None,
            OF _ replace_snapshot_eq(2,4) [OF old(1)]] old(5) True \<open>assert_legal_transition X_RUNNING X_COMPLETED = Inr ()\<close>
        by (simp add: co_complete_def act_bind_def)
      ultimately show ?thesis using nt True Nil by (auto simp: co_execute_def co_start_def act_bind_def)
    next
      case (Cons step rest)
      then have "step \<in> set (sn_steps old)" using pend by (metis in_set_dropD list.set_intros(1))
      then have key: "\<not> blank (rs_step_key step)"
        using old(1) by (auto simp: valid_snapshot_def list_all_iff valid_runtime_step_def valid_by_def runtime_step_checks_def)
      note r = replace_running [OF old(1) key]
      have "\<exists>m. mark_step_running co old step e = (Inl (ExecutionConcurrencyConflictError m), e\<lparr>en_uuid := Suc (en_uuid e)\<rparr>)"
        using conflict [where step = "Some step", OF _ r, of EV_STEP_STARTED X_RUNNING None] old(5) key
        by (simp add: mark_step_running_def running_change_def changed_snapshot_def)
      with nt True Cons show ?thesis by (auto simp: co_execute_def co_start_def act_bind_def)
    qed
  qed
qed

lemma resume_found:
  assumes "ready e sn evs"
  shows "co_resume co approval (sn_execution_id sn) e = co_execute co approval sn e"
  using assms fetch_held [of "en_store e" sn evs] by (simp add: co_resume_def co_fetch ready_def)

lemma resumes_terminal:
  assumes "ready e sn evs" "terminal (sn_state sn)"
  shows "resumes co approval (sn_execution_id sn) n e = e"
proof -
  have "snd (co_resume co approval (sn_execution_id sn) e) = e"
    using assms(2) by (auto simp: resume_found [OF assms(1)] co_execute_def TERMINAL_EXECUTION_STATES_def)
  then show ?thesis by (induction n) simp_all
qed

lemma tracked_live:
  assumes "tracked sn evs" "\<not> terminal (sn_state sn)"
  shows "sn_state sn \<in> {X_PLANNED, X_RUNNING, X_WAITING_RETRY}"
  using assms by (cases "sn_state sn") (auto simp: tracked_def)

lemma resume_progress:
  assumes "ready e sn evs" "tracked sn evs" "\<not> terminal (sn_state sn)"
    and "results_valid (co_strategy_resolver co)" "never_raises (co_strategy_resolver co)"
  obtains sn' evs' where "moved e sn evs (snd (co_resume co approval (sn_execution_id sn) e)) sn' evs'"
    "terminal (sn_state sn') \<or> total_retries sn' = total_retries sn + 1"
proof -
  obtain r e' where run: "co_execute co approval sn e = (r, e')" by fastforce
  obtain sn' evs' where mv: "moved e sn evs e' sn' evs'" and res: "run_result approval sn (en_world e) sn' (en_world e') r"
    using execute_spec [OF assms(1,2) tracked_live [OF assms(2,3)] assms(4) run] by blast
  obtain x where x: "r = Inr x"
  proof (cases r)
    case (Inl err)
    with res obtain n v where n: "n < length (pending_steps sn)"
      "step_action co approval sn (pending_steps sn ! n) v = (Inl err, en_world e')" by (auto simp: run_result_def)
    from n(1) have "pending_steps sn ! n \<in> set (pending_steps sn)" by (rule nth_mem)
    then have "pending_steps sn ! n \<in> set (sn_steps sn)" unfolding pending_steps_def by simp
    with step_action_returns [OF assms(5) _ assms(2), of "pending_steps sn ! n" approval v] ready_valid [OF assms(1)] n(2)
    show thesis by auto
  qed blast
  then obtain n xs where "loop_outcome X_COMPLETED sn (pending_steps sn) sn' n xs"
    using res by (auto simp: run_result_def)
  then have "terminal (sn_state sn') \<or> total_retries sn' = total_retries sn + 1" by (auto simp: loop_outcome_def)
  with that mv run show thesis by (simp add: resume_found [OF assms(1)])
qed

lemma retries_bound:
  assumes "ready e sn evs" "tracked sn evs"
  shows "total_retries sn \<le> int (length (sn_steps sn)) * rp_max_attempts (sn_retry_policy sn)"
proof -
  obtain m where m: "replays sn evs m" using assms(2) by (auto simp: tracked_def)
  have ok: "m_retries m k \<le> rp_max_attempts (sn_retry_policy sn)" for k
    using tracked_machine_ok [OF m] ready_valid [OF assms(1)] by (simp add: machine_ok_def)
  have "rs_retry_count s \<le> rp_max_attempts (sn_retry_policy sn)" if "s \<in> set (sn_steps sn)" for s
    using m that ok [of "rs_step_key s"] by (simp add: replays_def mirrors_def)
  then have "sum_list (map rs_retry_count (sn_steps sn)) \<le> sum_list (map (\<lambda>_. rp_max_attempts (sn_retry_policy sn)) (sn_steps sn))"
    by (intro sum_list_mono) auto
  then show ?thesis by (simp add: total_retries_def sum_list_triv)
qed

lemma resumes_end:
  assumes "ready e sn evs" "tracked sn evs" "results_valid (co_strategy_resolver co)" "never_raises (co_strategy_resolver co)"
    and "int (length (sn_steps sn)) * rp_max_attempts (sn_retry_policy sn) < total_retries sn + int n"
  shows "\<exists>sn' evs'. ready (resumes co approval (sn_execution_id sn) n e) sn' evs' \<and> same_execution sn sn' \<and> terminal (sn_state sn')"
  using assms(1,2,5)
proof (induction n arbitrary: e sn evs)
  case 0
  with retries_bound [of e sn evs] show ?case by simp
next
  case (Suc n)
  show ?case
  proof (cases "terminal (sn_state sn)")
    case True
    from resumes_terminal [OF Suc.prems(1) True, of approval "Suc n"] have "resumes co approval (sn_execution_id sn) (Suc n) e = e" .
    with Suc.prems(1) True same_execution_refl show ?thesis by metis
  next
    case False
    let ?e = "snd (co_resume co approval (sn_execution_id sn) e)"
    obtain sn1 evs1 where mv: "moved e sn evs ?e sn1 evs1" and prog: "terminal (sn_state sn1) \<or> total_retries sn1 = total_retries sn + 1"
      by (rule resume_progress [OF Suc.prems(1,2) False assms(3,4)])
    then have rd: "ready ?e sn1 evs1" "tracked sn1 evs1" and same: "same_execution sn sn1" by (simp_all add: moved_def)
    then have i: "sn_execution_id sn1 = sn_execution_id sn" by (simp add: same_execution_def)
    show ?thesis
    proof (cases "terminal (sn_state sn1)")
      case True
      from resumes_terminal [OF rd(1) True, of approval n] i have "resumes co approval (sn_execution_id sn) (Suc n) e = ?e" by simp
      with rd(1) same True show ?thesis by metis
    next
      case False
      have "length (sn_steps sn1) = length (sn_steps sn)" "sn_retry_policy sn1 = sn_retry_policy sn"
        using same by (auto simp: same_execution_def step_keys_def dest: map_eq_imp_length_eq)
      with False prog Suc.prems(3) have "int (length (sn_steps sn1)) * rp_max_attempts (sn_retry_policy sn1) < total_retries sn1 + int n"
        by simp
      from Suc.IH [OF rd this] i same show ?thesis by (auto intro: same_execution_trans)
    qed
  qed
qed

end

section \<open>The coordinator of the repository\<close>

interpretation run: coordinated persist_transition get_snapshot stored db_inv
    "\<lambda>db. set (map wv_event_id (db_events db))" "db_coordinator resolver uuid4" for resolver uuid4
  by unfold_locales (simp_all add: db_coordinator_def)

definition db_supplied :: "(nat \<Rightarrow> string) \<Rightarrow> (execution_db, 'w) env \<Rightarrow> bool" where
  "db_supplied uuid4 e \<longleftrightarrow> inj uuid4
     \<and> (\<forall>n \<ge> en_uuid e. ''execution-event:'' @ uuid4 n \<notin> set (map wv_event_id (db_events (en_store e))))"

lemma supplied_iff: "run.supplied resolver uuid4 e \<longleftrightarrow> db_supplied uuid4 e"
  unfolding run.supplied_def unfolding db_supplied_def event_identifier_def db_coordinator_def by simp

text \<open>
  Everything that sessions do one after the other: create executions, resume executions with any
  strategies and approvals, succeed or fail, while the outside world changes. A transaction that is
  rolled back leaves the tables as they were but has drawn identifiers.
\<close>

inductive driven :: "(nat \<Rightarrow> string) \<Rightarrow> (execution_db, 'w) env \<Rightarrow> bool" for uuid4 where
  start: "driven uuid4 \<lparr>en_store = \<lparr>db_executions = [], db_steps = [], db_events = []\<rparr>, en_uuid = 0, en_world = w\<rparr>"
| create: "driven uuid4 e \<Longrightarrow> planned p \<Longrightarrow> valid_by retry_policy_checks retry \<Longrightarrow>
    driven uuid4 (snd (create_or_load (db_coordinator r uuid4) create_from_plan db_history p retry e))"
| resume: "driven uuid4 e \<Longrightarrow> results_valid r \<Longrightarrow> driven uuid4 (snd (co_resume (db_coordinator r uuid4) approval i e))"
| outside: "driven uuid4 e \<Longrightarrow> driven uuid4 (e\<lparr>en_world := w\<rparr>)"
| drawn: "driven uuid4 e \<Longrightarrow> en_uuid e \<le> n \<Longrightarrow> driven uuid4 (e\<lparr>en_uuid := n\<rparr>)"

definition driven_inv :: "(nat \<Rightarrow> string) \<Rightarrow> (execution_db, 'w) env \<Rightarrow> bool" where
  "driven_inv uuid4 e \<longleftrightarrow> db_inv (en_store e) \<and> db_supplied uuid4 e
     \<and> (\<forall>sn evs. stored (en_store e) sn evs \<longrightarrow> tracked sn evs)"

lemma initial_tracked:
  assumes "planned p" "valid_by retry_policy_checks retry"
  shows "tracked (initial_snapshot p retry key l) (created_events i id1 id2)"
proof -
  let ?sn = "initial_snapshot p retry key l"
  have "replay retry (step_keys ?sn) (created_events i id1 id2) = Some (machine_start\<lparr>m_state := X_PLANNED\<rparr>)"
    by (simp add: replay_def created_events_def entry_of_event_def machine_start_def)
  moreover have "mirrors (machine_start\<lparr>m_state := X_PLANNED\<rparr>) ?sn"
    by (auto simp: mirrors_def machine_start_def initial_snapshot_def completed_keys_def initial_runtime_step_def)
  ultimately show ?thesis
    using assms(1) by (auto simp: tracked_def replays_def initial_snapshot_def step_keys_def initial_runtime_step_def)
qed

lemma create_tracks:
  assumes "create_from_plan id1 id2 p retry db = (r, db')" "planned p" "valid_by retry_policy_checks retry" "db_inv db"
    and "\<forall>sn evs. stored db sn evs \<longrightarrow> tracked sn evs" "stored db' sn evs"
  shows "tracked sn evs"
  using assms(1) [unfolded create_from_plan_def] assms(2,3)
proof (cases rule: create_at_cases)
  case unchanged
  with assms(5,6) show ?thesis by blast
next
  case (created key)
  let ?sn = "initial_snapshot p retry key (Some id2)"
  have inv': "db_inv db'" using create_preserves [OF assms(1) [unfolded create_from_plan_def] assms(2-4)] by blast
  have i: "sn_execution_id ?sn = pl_execution_id p" by (simp add: initial_snapshot_def)
  have "map we_execution_id (db_executions db') = map we_execution_id (db_executions db) @ [pl_execution_id p]"
    by (simp add: created(4) created_db_def row_of_def execution_model_from_snapshot_def i)
  with created(5) have fresh: "pl_execution_id p \<notin> set (map we_execution_id (db_executions db))"
    and ids: "set (map we_execution_id (db_executions db')) = insert (pl_execution_id p) (set (map we_execution_id (db_executions db)))"
    by (simp_all add: db_constraints_def)
  show ?thesis
  proof (cases "sn_execution_id sn = pl_execution_id p")
    case True
    have "stored db' ?sn (created_events (pl_execution_id p) id1 id2)"
      unfolding created(4) using assms(4) by (intro stored_created [OF assms(2,3) created(1-3) _ fresh]) (simp add: db_inv_def)
    from stored_unique [OF this assms(6)] True i initial_tracked [OF assms(2,3)] show ?thesis by simp
  next
    case False
    with stored_row [OF assms(6)] ids obtain sn0 evs0 where 0: "stored db sn0 evs0" "sn_execution_id sn0 = sn_execution_id sn"
      using assms(4) unfolding db_inv_def by blast
    have "stored db' sn0 evs0" unfolding created(4) using stored_created_frame [OF 0(1)] 0(2) False i by simp
    from stored_unique [OF this assms(6)] 0 assms(5) show ?thesis by auto
  qed
qed

lemma create_supplies:
  assumes "create_from_plan (''execution-event:'' @ uuid4 n) (''execution-event:'' @ uuid4 (Suc n)) p retry db = (r, db')"
    and "planned p" "valid_by retry_policy_checks retry" "inj uuid4"
    and "\<forall>k \<ge> n. ''execution-event:'' @ uuid4 k \<notin> set (map wv_event_id (db_events db))"
  shows "\<forall>k \<ge> n + 2. ''execution-event:'' @ uuid4 k \<notin> set (map wv_event_id (db_events db'))"
  using assms(1) [unfolded create_from_plan_def] assms(2,3)
proof (cases rule: create_at_cases)
  case unchanged
  with assms(5) show ?thesis by auto
next
  case (created key)
  then have "set (map wv_event_id (db_events db')) =
      set (map wv_event_id (db_events db)) \<union> {''execution-event:'' @ uuid4 n, ''execution-event:'' @ uuid4 (Suc n)}"
    by (simp add: created_db_def created_events_def event_model_from_event_def)
  with assms(4,5) show ?thesis by (auto simp: inj_eq)
qed

lemma ready_iff: "run.ready resolver uuid4 e sn evs \<longleftrightarrow> db_inv (en_store e) \<and> stored (en_store e) sn evs \<and> db_supplied uuid4 e"
  unfolding run.ready_def supplied_iff ..

lemma create_driven:
  assumes "driven_inv uuid4 e" "planned p" "valid_by retry_policy_checks retry"
  shows "driven_inv uuid4 (snd (create_or_load (db_coordinator r uuid4) create_from_plan db_history p retry e))"
proof -
  let ?id = "\<lambda>n. ''execution-event:'' @ uuid4 n"
  obtain q db' where run: "create_from_plan (?id (en_uuid e)) (?id (Suc (en_uuid e))) p retry (en_store e) = (q, db')" by fastforce
  have inv: "db_inv (en_store e)" "inj uuid4" "\<forall>n \<ge> en_uuid e. ?id n \<notin> set (map wv_event_id (db_events (en_store e)))"
      "\<forall>sn evs. stored (en_store e) sn evs \<longrightarrow> tracked sn evs"
    using assms(1) by (simp_all add: driven_inv_def db_supplied_def)
  have "snd (create_or_load (db_coordinator r uuid4) create_from_plan db_history p retry e)
      = e\<lparr>en_uuid := en_uuid e + 2, en_store := db'\<rparr>"
    using run by (cases q) (simp_all add: create_or_load_def act_bind_def on_store_def event_identifier_def db_coordinator_def)
  moreover have "db_inv db'" using create_preserves [OF run [unfolded create_from_plan_def] assms(2,3) inv(1)] by blast
  moreover have "\<forall>sn evs. stored db' sn evs \<longrightarrow> tracked sn evs" using create_tracks [OF run assms(2,3) inv(1,4)] by blast
  moreover note create_supplies [OF run assms(2,3) inv(2,3)]
  ultimately show ?thesis using inv(2) by (simp add: driven_inv_def db_supplied_def)
qed

lemma resume_driven:
  assumes "driven_inv uuid4 e" "results_valid r"
  shows "driven_inv uuid4 (snd (co_resume (db_coordinator r uuid4) approval i e))"
proof (cases "get_snapshot (en_store e) i")
  case (Inr found)
  let ?co = "db_coordinator r uuid4"
  have inv: "db_inv (en_store e)" "db_supplied uuid4 e" "\<And>sn evs. stored (en_store e) sn evs \<Longrightarrow> tracked sn evs"
    using assms(1) by (auto simp: driven_inv_def)
  have g: "co_get_snapshot ?co = get_snapshot" by (simp add: db_coordinator_def)
  show ?thesis
  proof (cases found)
    case None
    with Inr assms(1) show ?thesis by (simp add: co_resume_def g)
  next
    case (Some sn)
    with db.fetch_found [OF inv(1)] Inr obtain evs where st: "stored (en_store e) sn evs" by blast
    obtain q e' where run: "co_execute ?co approval sn e = (q, e')" by fastforce
    have res: "snd (co_resume ?co approval i e) = e'" using Inr Some run by (simp add: co_resume_def g)
    show ?thesis
    proof (cases "terminal (sn_state sn)")
      case True
      then have "e' = e" using run by (auto simp: co_execute_def TERMINAL_EXECUTION_STATES_def)
      with assms(1) res show ?thesis by simp
    next
      case False
      have rd: "run.ready r uuid4 e sn evs" unfolding ready_iff using inv(1,2) st by blast
      have rv: "results_valid (co_strategy_resolver ?co)" using assms(2) by (simp add: db_coordinator_def)
      from run.execute_spec [OF rd inv(3) [OF st] run.tracked_live [OF inv(3) [OF st] False] rv run] obtain sn' evs'
        where mv: "run.moved r uuid4 e sn evs e' sn' evs'" by blast
      then have rd': "db_inv (en_store e')" "stored (en_store e') sn' evs'" "db_supplied uuid4 e'" "tracked sn' evs'"
          "sn_execution_id sn' = sn_execution_id sn" and fr: "run.framed (sn_execution_id sn) e e'"
        unfolding run.moved_def ready_iff same_execution_def by blast+
      have "tracked other oevs" if "stored (en_store e') other oevs" for other oevs
      proof (cases "sn_execution_id other = sn_execution_id sn")
        case True
        with stored_unique [OF rd'(2) that] rd'(4,5) show ?thesis by simp
      next
        case False
        with fr that inv(3) show ?thesis unfolding run.framed_def by blast
      qed
      with rd' res show ?thesis by (simp add: driven_inv_def)
    qed
  qed
next
  case (Inl err)
  have "co_get_snapshot (db_coordinator r uuid4) = get_snapshot" by (simp add: db_coordinator_def)
  with Inl assms(1) show ?thesis by (simp add: co_resume_def)
qed

lemma driven_invariant:
  assumes "driven uuid4 e" "inj uuid4"
  shows "driven_inv uuid4 e"
  using assms(1)
proof (induction rule: driven.induct)
  case (start w)
  have "\<not> stored \<lparr>db_executions = [], db_steps = [], db_events = []\<rparr> sn evs" for sn evs by (simp add: stored_def)
  with assms(2) empty_db_inv show ?case by (simp add: driven_inv_def db_supplied_def empty_db_def)
next
  case (outside e w)
  then show ?case by (simp add: driven_inv_def db_supplied_def)
next
  case (drawn e n)
  then show ?case by (auto simp: driven_inv_def db_supplied_def)
qed (simp_all add: create_driven resume_driven)

section \<open>What the tables say of an execution\<close>

lemma driven_found:
  assumes "driven uuid4 e" "inj uuid4" "get_snapshot (en_store e) i = Inr (Some sn)"
  obtains evs m where "sn_execution_id sn = i" "stored (en_store e) sn evs" "tracked sn evs" "run.ready r uuid4 e sn evs"
    "db_history (en_store e) i = Inr \<lparr>hi_execution_id = i, hi_events = evs\<rparr>" "replays sn evs m"
    "step_keys sn = map st_step_key (pl_steps (sn_plan sn))" "machine_ok (sn_retry_policy sn) (step_keys sn) m"
    "distinct (step_keys sn)" "1 \<le> rp_max_attempts (sn_retry_policy sn)"
proof -
  have inv: "db_inv (en_store e)" "db_supplied uuid4 e" "\<And>sn evs. stored (en_store e) sn evs \<Longrightarrow> tracked sn evs"
    using driven_invariant [OF assms(1,2)] by (auto simp: driven_inv_def)
  obtain evs where st: "stored (en_store e) sn evs" and i: "sn_execution_id sn = i" using db.fetch_found [OF inv(1) assms(3)] by blast
  have v: "valid_snapshot sn" "ordered_steps (sn_steps sn)" using st by (simp_all add: stored_def)
  have tr: "tracked sn evs" by (rule inv(3) [OF st])
  then obtain m where m: "replays sn evs m" by (auto simp: tracked_def)
  have "run.ready r uuid4 e sn evs" unfolding ready_iff using inv(1,2) st by blast
  moreover have "distinct (step_keys sn)" "1 \<le> rp_max_attempts (sn_retry_policy sn)"
    using v by (auto simp: ordered_steps_def step_keys_def valid_snapshot_def valid_by_def retry_policy_checks_def)
  moreover have "step_keys sn = map st_step_key (pl_steps (sn_plan sn))" using tr by (simp add: tracked_def)
  ultimately show thesis
    using that i st tr m stored_history [OF st] tracked_machine_ok [OF m v] by blast
qed

text \<open>
  C1. Refinement: whatever sessions did to the tables, one after the other, the stored snapshot of an
  execution is the state that the abstract machine computes from the stored history alone. The
  machine accepts the history, and it ends in the snapshot's state, with its completed steps, and
  with every step in its recorded state and with its recorded number of failed attempts.
\<close>

theorem coordinator_refines_machine:
  assumes "driven uuid4 e" "inj uuid4" "get_snapshot (en_store e) i = Inr (Some sn)"
  shows "\<exists>evs m. db_history (en_store e) i = Inr \<lparr>hi_execution_id = i, hi_events = evs\<rparr>
    \<and> replay (sn_retry_policy sn) (map st_step_key (pl_steps (sn_plan sn))) evs = Some m
    \<and> m_state m = sn_state sn \<and> m_done m = cp_completed_step_keys (sn_checkpoint sn)
    \<and> map rs_step_key (sn_steps sn) = map st_step_key (pl_steps (sn_plan sn))
    \<and> (\<forall>s \<in> set (sn_steps sn). m_step m (rs_step_key s) = rs_state s \<and> m_retries m (rs_step_key s) = rs_retry_count s)"
proof -
  obtain evs m where "db_history (en_store e) i = Inr \<lparr>hi_execution_id = i, hi_events = evs\<rparr>" "replays sn evs m"
      "step_keys sn = map st_step_key (pl_steps (sn_plan sn))"
    by (rule driven_found [OF assms])
  then show ?thesis
    by (intro exI [of _ evs] exI [of _ m]) (simp add: replays_def mirrors_def completed_keys_def flip: step_keys_def)
qed

text \<open>
  C12. The events that complete steps are, in order, those of the completed steps of the stored
  snapshot; the completed steps are an initial part of the plan, and after a step has completed no
  later event of the history names it: a completed step is never started, executed or failed again.
\<close>

theorem completed_steps_are_final:
  assumes "driven uuid4 e" "inj uuid4" "get_snapshot (en_store e) i = Inr (Some sn)"
  shows "\<exists>evs. db_history (en_store e) i = Inr \<lparr>hi_execution_id = i, hi_events = evs\<rparr>
    \<and> map ev_step_key (filter (\<lambda>ev. ev_event_type ev = EV_STEP_COMPLETED) evs) = map Some (cp_completed_step_keys (sn_checkpoint sn))
    \<and> prefix (cp_completed_step_keys (sn_checkpoint sn)) (map st_step_key (pl_steps (sn_plan sn)))
    \<and> (\<forall>j k. j < k \<longrightarrow> k < length evs \<longrightarrow> ev_event_type (evs ! j) = EV_STEP_COMPLETED \<longrightarrow>
         ev_step_key (evs ! k) \<noteq> ev_step_key (evs ! j))"
proof -
  obtain evs m where ex: "db_history (en_store e) i = Inr \<lparr>hi_execution_id = i, hi_events = evs\<rparr>" "replays sn evs m"
      "step_keys sn = map st_step_key (pl_steps (sn_plan sn))" "machine_ok (sn_retry_policy sn) (step_keys sn) m"
      "distinct (step_keys sn)" "1 \<le> rp_max_attempts (sn_retry_policy sn)"
    by (rule driven_found [OF assms])
  have run: "machine_run (sn_retry_policy sn) (step_keys sn) machine_start (map entry_of_event evs) = Some m"
    using ex(2) by (simp add: replays_def replay_def)
  have final: "ev_step_key (evs ! k) \<noteq> ev_step_key (evs ! j)"
    if "j < k" "k < length evs" "ev_event_type (evs ! j) = EV_STEP_COMPLETED" for j k
    using machine_run_final [OF run machine_start_ok [OF ex(6)] ex(5,6) that(1)] that
    by (auto simp: entry_of_event_def)
  have "map ev_step_key (filter (\<lambda>ev. ev_event_type ev = EV_STEP_COMPLETED) evs) = map Some (m_done m)"
    using machine_run_completions [OF run] by (simp add: machine_start_def filter_map comp_def entry_of_event_def)
  moreover have "m_done m = cp_completed_step_keys (sn_checkpoint sn)"
    using ex(2) by (simp add: replays_def mirrors_def completed_keys_def)
  ultimately show ?thesis using ex(1,3,4) final by (intro exI [of _ evs]) (simp add: machine_ok_def)
qed

text \<open>
  C37. No step fails more often than the retry policy of its execution allows: in the whole stored
  history the failure events of a step are at most \<^verbatim>\<open>max_attempts\<close>, a failure that is to be retried
  is strictly below it, and under the policy NEVER a step fails at most once.
\<close>

theorem failures_bounded:
  assumes "driven uuid4 e" "inj uuid4" "get_snapshot (en_store e) i = Inr (Some sn)"
  shows "\<exists>evs. db_history (en_store e) i = Inr \<lparr>hi_execution_id = i, hi_events = evs\<rparr>
    \<and> (\<forall>k. failures (map entry_of_event evs) k \<le> rp_max_attempts (sn_retry_policy sn)
       \<and> (sn_state sn = X_WAITING_RETRY \<longrightarrow> failures (map entry_of_event evs) k < rp_max_attempts (sn_retry_policy sn))
       \<and> (rp_policy_type (sn_retry_policy sn) = RP_NEVER \<longrightarrow> failures (map entry_of_event evs) k \<le> 1))"
proof -
  obtain evs m where ex: "db_history (en_store e) i = Inr \<lparr>hi_execution_id = i, hi_events = evs\<rparr>" "replays sn evs m"
      "machine_ok (sn_retry_policy sn) (step_keys sn) m" "1 \<le> rp_max_attempts (sn_retry_policy sn)" "distinct (step_keys sn)"
    by (rule driven_found [OF assms])
  have run: "machine_run (sn_retry_policy sn) (step_keys sn) machine_start (map entry_of_event evs) = Some m"
    using ex(2) by (simp add: replays_def replay_def)
  have f: "failures (map entry_of_event evs) k = m_retries m k" for k
    using machine_run_retries [OF run, of k] by (simp add: machine_start_def)
  have "m_retries m k < rp_max_attempts (sn_retry_policy sn)" if "sn_state sn = X_WAITING_RETRY" for k
  proof -
    have "m_step m k \<noteq> RS_FAILED" using ex(2) that by (simp add: replays_def mirrors_def)
    then have "m_retries m k = 0 \<or> may_retry (sn_retry_policy sn) (m_retries m k)" using ex(3) by (simp add: machine_ok_def)
    with ex(4) show ?thesis by (auto simp: may_retry_def)
  qed
  moreover have "m_retries m k \<le> 1" if "rp_policy_type (sn_retry_policy sn) = RP_NEVER" for k
    using machine_run_never [OF run machine_start_ok [OF ex(4)] ex(5,4) that] by (simp add: machine_start_def)
  ultimately show ?thesis using ex(1,3) by (intro exI [of _ evs]) (simp add: f machine_ok_def)
qed

text \<open>
  The states that the stored history of an execution goes through follow the table of legal
  transitions: consecutive events carry the same state or a legal transition, and the last event
  carries the state of the stored snapshot.
\<close>

theorem history_transitions_legal:
  assumes "driven uuid4 e" "inj uuid4" "get_snapshot (en_store e) i = Inr (Some sn)"
  shows "\<exists>evs. db_history (en_store e) i = Inr \<lparr>hi_execution_id = i, hi_events = evs\<rparr> \<and> evs \<noteq> []
    \<and> ev_state (last evs) = sn_state sn
    \<and> (\<forall>j. Suc j < length evs \<longrightarrow> ev_state (evs ! j) = ev_state (evs ! Suc j)
         \<or> assert_legal_transition (ev_state (evs ! j)) (ev_state (evs ! Suc j)) = Inr ())"
proof -
  obtain evs m where ex: "db_history (en_store e) i = Inr \<lparr>hi_execution_id = i, hi_events = evs\<rparr>" "replays sn evs m"
      "stored (en_store e) sn evs"
    by (rule driven_found [OF assms])
  have run: "machine_run (sn_retry_policy sn) (step_keys sn) machine_start (map entry_of_event evs) = Some m"
    and state: "m_state m = sn_state sn"
    using ex(2) by (simp_all add: replays_def replay_def mirrors_def)
  have ne: "evs \<noteq> []" using ex(3) by (simp add: stored_def)
  then have "ev_state (last evs) = sn_state sn"
    using machine_run_state [OF run] state by (simp add: last_map entry_of_event_def)
  moreover have "ev_state (evs ! j) = ev_state (evs ! Suc j)
      \<or> assert_legal_transition (ev_state (evs ! j)) (ev_state (evs ! Suc j)) = Inr ()" if "Suc j < length evs" for j
    using machine_run_legal [OF run, of j] that by (simp add: entry_of_event_def)
  ultimately show ?thesis using ex(1) ne by (intro exI [of _ evs]) simp
qed

section \<open>What resuming does\<close>

lemma co_resume_db:
  "get_snapshot (en_store e) i = Inr (Some sn) \<Longrightarrow>
   co_resume (db_coordinator r uuid4) approval i e = co_execute (db_coordinator r uuid4) approval sn e"
  by (simp add: co_resume_def db_coordinator_def)

lemma co_strategy_resolver_db [simp]: "co_strategy_resolver (db_coordinator r uuid4) = r"
  by (simp add: db_coordinator_def)

text \<open>The specification of a run, at the tables: the stored snapshot afterwards and what the run did.\<close>

lemma resume_run:
  assumes "driven uuid4 e" "inj uuid4" "get_snapshot (en_store e) i = Inr (Some sn)" "\<not> terminal (sn_state sn)" "results_valid r"
    and "co_resume (db_coordinator r uuid4) approval i e = (q, e')"
  obtains sn' where "get_snapshot (en_store e') i = Inr (Some sn')" "sn_execution_id sn = i" "same_execution sn sn'"
    "pending_steps sn = drop (length (completed_keys sn)) (sn_steps sn)"
    "run.run_result r uuid4 approval sn (en_world e) sn' (en_world e') q"
    "sn_runtime_version sn' = sn_runtime_version sn \<longrightarrow> sn' = sn"
proof -
  obtain evs m where ex: "sn_execution_id sn = i" "tracked sn evs" "run.ready r uuid4 e sn evs" "replays sn evs m"
      "stored (en_store e) sn evs"
    by (rule driven_found [OF assms(1-3), of r])
  have go: "co_execute (db_coordinator r uuid4) approval sn e = (q, e')" using assms(3,6) by (simp add: co_resume_db)
  have rv: "results_valid (co_strategy_resolver (db_coordinator r uuid4))" using assms(5) by simp
  obtain sn' evs' where mv: "run.moved r uuid4 e sn evs e' sn' evs'"
    and res: "run.run_result r uuid4 approval sn (en_world e) sn' (en_world e') q"
    using run.execute_spec [OF ex(3,2) run.tracked_live [OF ex(2) assms(4)] rv go] by blast
  have "stored (en_store e') sn' evs'" "same_execution sn sn'" "sn_runtime_version sn' = sn_runtime_version sn \<longrightarrow> sn' = sn"
    using mv unfolding run.moved_def ready_iff by blast+
  then have "get_snapshot (en_store e') i = Inr (Some sn')"
    using stored_get [of "en_store e'" sn' evs'] ex(1) by (simp add: same_execution_def)
  moreover have "pending_steps sn = drop (length (completed_keys sn)) (sn_steps sn)"
    using pending_drop(1) [OF ex(4)] ex(5) by (simp add: stored_def)
  ultimately show thesis using that ex(1) res \<open>same_execution sn sn'\<close> \<open>_ \<longrightarrow> sn' = sn\<close> by blast
qed

text \<open>
  C24. When resuming an execution that has not ended returns, the strategies were called for the
  first \<^verbatim>\<open>n\<close> steps that were not completed, in plan order, each on the world that the one before it
  left, and \<^verbatim>\<open>n\<close> is as large as it can be: either all of them succeeded, and the stored execution is
  completed, or the last of them failed and none before it, the steps before it are recorded as
  completed, and the stored execution waits for a retry exactly when the policy grants one and has
  failed otherwise. The result carries the status of the stored snapshot.
\<close>

theorem resume_executes_in_order:
  assumes "driven uuid4 e" "inj uuid4" "get_snapshot (en_store e) i = Inr (Some sn)" "\<not> terminal (sn_state sn)" "results_valid r"
    and "co_resume (db_coordinator r uuid4) approval i e = (Inr x, e')"
  shows "\<exists>sn' n xs. get_snapshot (en_store e') i = Inr (Some sn') \<and> xr_status x = execution_status_of sn'
    \<and> performed (db_coordinator r uuid4) approval sn (take n (pending_steps sn)) (en_world e) xs (en_world e')
    \<and> pending_steps sn = drop (length (cp_completed_step_keys (sn_checkpoint sn))) (sn_steps sn)
    \<and> (n = length (pending_steps sn) \<and> list_all (\<lambda>y. \<not> is_failure y) xs \<and> sn_state sn' = X_COMPLETED
         \<and> cp_completed_step_keys (sn_checkpoint sn') = map st_step_key (pl_steps (sn_plan sn))
       \<or> 0 < n \<and> n \<le> length (pending_steps sn) \<and> list_all (\<lambda>y. \<not> is_failure y) (butlast xs) \<and> is_failure (last xs)
         \<and> cp_completed_step_keys (sn_checkpoint sn') =
             cp_completed_step_keys (sn_checkpoint sn) @ map rs_step_key (take (n - 1) (pending_steps sn))
         \<and> sn_state sn' = (if should_retry (sn_retry_policy sn) (rs_retry_count (pending_steps sn ! (n - 1)) + 1)
             then X_WAITING_RETRY else X_FAILED))"
proof -
  obtain sn' where g: "get_snapshot (en_store e') i = Inr (Some sn')" and same: "same_execution sn sn'"
    and pend: "pending_steps sn = drop (length (completed_keys sn)) (sn_steps sn)"
    and res: "run.run_result r uuid4 approval sn (en_world e) sn' (en_world e') (Inr x)"
    by (rule resume_run [OF assms])
  obtain evs m where k: "step_keys sn = map st_step_key (pl_steps (sn_plan sn))" by (rule driven_found [OF assms(1-3)])
  obtain n xs where n: "n \<le> length (pending_steps sn)" "xr_status x = execution_status_of sn'"
      "performed (db_coordinator r uuid4) approval sn (take n (pending_steps sn)) (en_world e) xs (en_world e')"
      "loop_outcome X_COMPLETED sn (pending_steps sn) sn' n xs"
    using res unfolding run.run_result_def by auto
  have len: "length xs = n" using performed_length [OF n(3)] n(1) by simp
  have retry: "may_retry p c = should_retry p c" for p c by (simp add: may_retry_def should_retry_def)
  have sk: "step_keys sn' = step_keys sn" using same by (simp add: same_execution_def)
  from n(4) consider
      (all) "n = length (pending_steps sn)" "list_all (\<lambda>y. \<not> is_failure y) xs" "sn_state sn' = X_COMPLETED"
        "completed_keys sn' = step_keys sn'"
    | (failed) "xs \<noteq> []" "list_all (\<lambda>y. \<not> is_failure y) (butlast xs)" "is_failure (last xs)"
        "sn_state sn' = (if should_retry (sn_retry_policy sn) (rs_retry_count (pending_steps sn ! (n - 1)) + 1)
             then X_WAITING_RETRY else X_FAILED)"
        "completed_keys sn' = completed_keys sn @ map rs_step_key (take (n - 1) (pending_steps sn))"
    unfolding loop_outcome_def retry by blast
  then have "n = length (pending_steps sn) \<and> list_all (\<lambda>y. \<not> is_failure y) xs \<and> sn_state sn' = X_COMPLETED
         \<and> completed_keys sn' = map st_step_key (pl_steps (sn_plan sn))
       \<or> 0 < n \<and> n \<le> length (pending_steps sn) \<and> list_all (\<lambda>y. \<not> is_failure y) (butlast xs) \<and> is_failure (last xs)
         \<and> completed_keys sn' = completed_keys sn @ map rs_step_key (take (n - 1) (pending_steps sn))
         \<and> sn_state sn' = (if should_retry (sn_retry_policy sn) (rs_retry_count (pending_steps sn ! (n - 1)) + 1)
             then X_WAITING_RETRY else X_FAILED)"
  proof cases
    case all
    with sk k show ?thesis by simp
  next
    case failed
    from failed(1) len have "0 < n" by auto
    with failed n(1) show ?thesis by blast
  qed
  with g n pend show ?thesis unfolding completed_keys_def by blast
qed

text \<open>
  C34. When resuming raises, the exception comes from resolving or calling the strategy of a step:
  every step before that one succeeded and is recorded as completed, the stored execution is
  RUNNING, and it is the steps from the raising one on that a later resume executes.
\<close>

theorem exceptions_keep_progress:
  assumes "driven uuid4 e" "inj uuid4" "get_snapshot (en_store e) i = Inr (Some sn)" "\<not> terminal (sn_state sn)" "results_valid r"
    and "co_resume (db_coordinator r uuid4) approval i e = (Inl err, e')"
  shows "\<exists>sn' n xs w. get_snapshot (en_store e') i = Inr (Some sn') \<and> n < length (pending_steps sn)
    \<and> performed (db_coordinator r uuid4) approval sn (take n (pending_steps sn)) (en_world e) xs w \<and> list_all (\<lambda>y. \<not> is_failure y) xs
    \<and> step_action (db_coordinator r uuid4) approval sn (pending_steps sn ! n) w = (Inl err, en_world e')
    \<and> sn_state sn' = X_RUNNING \<and> map rs_step_key (pending_steps sn') = map rs_step_key (drop n (pending_steps sn))"
proof -
  obtain sn' where g: "get_snapshot (en_store e') i = Inr (Some sn')" and same: "same_execution sn sn'"
    and pend: "pending_steps sn = drop (length (completed_keys sn)) (sn_steps sn)"
    and res: "run.run_result r uuid4 approval sn (en_world e) sn' (en_world e') (Inl err)"
    by (rule resume_run [OF assms])
  have e': "driven uuid4 e'" using driven.resume [OF assms(1,5), of approval i] assms(6) by simp
  obtain evs m where ex: "replays sn' evs m" "stored (en_store e') sn' evs" by (rule driven_found [OF e' assms(2) g])
  obtain n xs w where n: "n < length (pending_steps sn)"
      "performed (db_coordinator r uuid4) approval sn (take n (pending_steps sn)) (en_world e) xs w" "list_all (\<lambda>y. \<not> is_failure y) xs"
      "step_action (db_coordinator r uuid4) approval sn (pending_steps sn ! n) w = (Inl err, en_world e')"
      "sn_state sn' = X_RUNNING" "completed_keys sn' = completed_keys sn @ map rs_step_key (take n (pending_steps sn))"
    using res unfolding run.run_result_def by auto
  have "pending_steps sn' = drop (length (completed_keys sn')) (sn_steps sn')"
    using pending_drop(1) [OF ex(1)] ex(2) by (simp add: stored_def)
  moreover have "length (completed_keys sn') = n + length (completed_keys sn)" using n(1,6) by simp
  moreover have "map rs_step_key (sn_steps sn') = map rs_step_key (sn_steps sn)"
    using same by (simp add: same_execution_def step_keys_def)
  ultimately have "map rs_step_key (pending_steps sn') = map rs_step_key (drop n (pending_steps sn))"
    unfolding pend by (simp add: drop_map [symmetric])
  with g n show ?thesis by blast
qed

text \<open>
  C35. A session that works on a snapshot which another session has moved on since is refused before
  it does anything: executing it raises the conflict error at its first transition, and neither
  the tables nor the outside world change, so no strategy is called.
\<close>

theorem stale_session_does_nothing:
  assumes "driven uuid4 e" "inj uuid4" "get_snapshot (en_store e) i = Inr (Some sn)"
    and "driven old_uuid4 old" "inj old_uuid4" "get_snapshot (en_store old) i = Inr (Some old_sn)"
    and "sn_runtime_version old_sn \<noteq> sn_runtime_version sn" "\<not> terminal (sn_state old_sn)"
  shows "\<exists>m e'. co_execute (db_coordinator r uuid4) approval old_sn e = (Inl (ExecutionConcurrencyConflictError m), e')
    \<and> en_store e' = en_store e \<and> en_world e' = en_world e"
proof -
  obtain evs where new: "sn_execution_id sn = i" "run.ready r uuid4 e sn evs" by (rule driven_found [OF assms(1-3), of r])
  obtain oevs where o: "sn_execution_id old_sn = i" "tracked old_sn oevs" "stored (en_store old) old_sn oevs"
    by (rule driven_found [OF assms(4-6)])
  have "db_inv (en_store e)" "stored (en_store e) sn evs" using new(2) unfolding ready_iff by blast+
  moreover have "valid_snapshot old_sn" "ordered_steps (sn_steps old_sn)" using o(3) by (simp_all add: stored_def)
  ultimately obtain m where "co_execute (db_coordinator r uuid4) approval old_sn e
      = (Inl (ExecutionConcurrencyConflictError m), e\<lparr>en_uuid := Suc (en_uuid e)\<rparr>)"
    using run.execute_stale [of e sn evs old_sn oevs r uuid4 approval] o assms(7,8) new(1) by auto
  then show ?thesis by simp
qed

text \<open>
  Resuming an execution that has ended, any number of times, changes nothing and calls no
  strategy: it returns the stored results with the status of the stored snapshot.
\<close>

theorem ended_execution_replays:
  assumes "driven uuid4 e" "inj uuid4" "get_snapshot (en_store e) i = Inr (Some sn)" "terminal (sn_state sn)"
  shows "co_resume (db_coordinator r uuid4) approval i e =
      (Inr \<lparr>xr_execution_id = i, xr_status = execution_status_of sn, xr_step_results = List.map_filter rs_last_result (sn_steps sn),
        xr_warnings = pl_warnings (sn_plan sn)\<rparr>, e)
    \<and> resumes (db_coordinator r uuid4) approval i n e = e"
proof -
  obtain evs where ex: "sn_execution_id sn = i" "run.ready r uuid4 e sn evs" "stored (en_store e) sn evs"
    by (rule driven_found [OF assms(1-3), of r])
  from run.resumes_terminal [OF ex(2) assms(4)] ex(1) have "resumes (db_coordinator r uuid4) approval i n e = e" by simp
  moreover have "\<not> blank (sn_execution_id sn)" by (rule stored_not_blank [OF ex(3)])
  ultimately show ?thesis using assms(4) ex(1)
    by (auto simp: co_resume_db [OF assms(3)] co_execute_def TERMINAL_EXECUTION_STATES_def result_from_snapshot_def
        last_results_def mk_checked_def execution_result_checks_def)
qed

lemma resumes_driven: "driven uuid4 e \<Longrightarrow> results_valid r \<Longrightarrow> driven uuid4 (resumes (db_coordinator r uuid4) approval i n e)"
  by (induction n arbitrary: e) (simp_all add: driven.resume)

lemma resumes_reach_end:
  assumes "driven uuid4 e" "inj uuid4" "get_snapshot (en_store e) i = Inr (Some sn)" "results_valid r" "never_raises r"
    and "int (length (pl_steps (sn_plan sn))) * rp_max_attempts (sn_retry_policy sn) < int n"
  obtains sn' where "get_snapshot (en_store (resumes (db_coordinator r uuid4) approval i n e)) i = Inr (Some sn')"
    "terminal (sn_state sn')" "same_execution sn sn'"
proof -
  obtain evs m where ex: "sn_execution_id sn = i" "tracked sn evs" "run.ready r uuid4 e sn evs" "replays sn evs m"
      "step_keys sn = map st_step_key (pl_steps (sn_plan sn))" "machine_ok (sn_retry_policy sn) (step_keys sn) m"
    by (rule driven_found [OF assms(1-3), of r])
  have "length (sn_steps sn) = length (pl_steps (sn_plan sn))" using ex(5) unfolding step_keys_def by (rule map_eq_imp_length_eq)
  moreover have "0 \<le> rs_retry_count s" if "s \<in> set (sn_steps sn)" for s
  proof -
    have "m_retries m (rs_step_key s) = rs_retry_count s" using ex(4) that by (simp add: replays_def mirrors_def)
    moreover have "0 \<le> m_retries m (rs_step_key s)" using ex(6) by (simp add: machine_ok_def)
    ultimately show ?thesis by simp
  qed
  then have "0 \<le> total_retries sn" by (auto simp: total_retries_def intro!: sum_list_nonneg)
  ultimately have "int (length (sn_steps sn)) * rp_max_attempts (sn_retry_policy sn) < total_retries sn + int n" using assms(6) by simp
  from run.resumes_end [OF ex(3,2) _ _ this, of approval] assms(4,5) ex(1) obtain sn' evs' where
    sn': "run.ready r uuid4 (resumes (db_coordinator r uuid4) approval i n e) sn' evs'" "same_execution sn sn'" "terminal (sn_state sn')"
    by auto
  then have st: "stored (en_store (resumes (db_coordinator r uuid4) approval i n e)) sn' evs'" unfolding ready_iff by blast
  have "sn_execution_id sn' = i" using sn'(2) ex(1) by (simp add: same_execution_def)
  with that stored_get [OF st] sn'(2,3) show thesis by simp
qed


section \<open>A sample execution, resumed\<close>

definition sample_uuid4 :: "nat \<Rightarrow> string" where
  "sample_uuid4 n = replicate n CHR ''u''"

text \<open>A strategy whose first call fails and whose later calls succeed; its world counts the calls.\<close>

definition flaky_execute :: "step_request \<Rightarrow> (nat, hub_error, step_result) action" where
  "flaky_execute q w = (mk_checked step_result_checks
     \<lparr>sr_step_key = st_step_key (sq_step q), sr_step_type = st_step_type (sq_step q),
      sr_status = (if w = 0 then SS_FAILED else SS_EXECUTED), sr_dry_run = False, sr_message = None, sr_warnings = [],
      sr_produced_artifacts = [], sr_error_code = None\<rparr>, Suc w)"

definition flaky_resolver :: "nat resolver" where
  "flaky_resolver = map (\<lambda>t. (t, \<lparr>sg_name = ''flaky'', sg_supported_step_types = step_type_members, sg_supports_mode = (\<lambda>_. True),
     sg_supports_step = None, sg_execute = flaky_execute\<rparr>)) step_type_members"

definition sample_env :: "(execution_db, nat) env" where
  "sample_env = snd (create_or_load (db_coordinator [] sample_uuid4) create_from_plan db_history sample_plan (sample_policy 2)
     \<lparr>en_store = empty_db, en_uuid = 0, en_world = 0\<rparr>)"

definition sample_stored :: snapshot where
  "sample_stored = initial_snapshot sample_plan (sample_policy 2) ''execution:k'' (Some ''execution-event:u'')"

lemma sample_uuid4_inj: "inj sample_uuid4"
  by (rule injI) (simp add: sample_uuid4_def)

lemma sample_env_driven: "driven sample_uuid4 sample_env"
  using driven.create [OF driven.start sample_planned sample_policy_valid [of 2]]
  by (simp add: sample_env_def empty_db_def)

lemma sample_env_found: "get_snapshot (en_store sample_env) ''x1'' = Inr (Some sample_stored)"
proof -
  have key: "pl_idempotency_key sample_plan = Some ''execution:k''" and i: "sn_execution_id sample_stored = ''x1''"
    by (simp_all add: sample_plan_def sample_stored_def initial_snapshot_def)
  note fresh = create_fresh [where ?id1.0 = "''execution-event:''" and ?id2.0 = "''execution-event:u''",
      OF empty_db_inv sample_planned sample_policy_valid [of 2] key, folded sample_stored_def]
  have c: "create_from_plan ''execution-event:'' ''execution-event:u'' sample_plan (sample_policy 2) empty_db
      = (Inr sample_stored, created_db empty_db sample_stored ''execution-event:'' ''execution-event:u'')"
    by (rule fresh(1)) (simp_all add: empty_db_def blank_eval)
  have st: "stored (created_db empty_db sample_stored ''execution-event:'' ''execution-event:u'') sample_stored
      (created_events (pl_execution_id sample_plan) ''execution-event:'' ''execution-event:u'')"
    by (rule fresh(2)) (simp_all add: empty_db_def blank_eval)
  have "en_store sample_env = created_db empty_db sample_stored ''execution-event:'' ''execution-event:u''"
    using c by (simp add: sample_env_def create_or_load_def act_bind_def on_store_def event_identifier_def db_coordinator_def
        sample_uuid4_def)
  with stored_get [OF st] i show ?thesis by simp
qed

lemmas sample_run = sample_env_driven sample_uuid4_inj sample_env_found

lemma flaky_resolve: "resolve flaky_resolver t = Inr \<lparr>sg_name = ''flaky'', sg_supported_step_types = step_type_members,
    sg_supports_mode = (\<lambda>_. True), sg_supports_step = None, sg_execute = flaky_execute\<rparr>"
  by (cases t) (simp_all add: flaky_resolver_def resolve_def step_type_members_def)

lemma flaky_valid: "results_valid flaky_resolver" "never_raises flaky_resolver"
  by (auto simp: results_valid_def never_raises_def flaky_resolve flaky_execute_def mk_checked_Inr_iff valid_result_def
      valid_by_def step_result_checks_def valid_step_def execution_step_checks_def)

lemma empty_resolver_valid: "results_valid []"
  by (simp add: results_valid_def resolve_def)

lemma sample_stored_state: "\<not> terminal (sn_state sample_stored)" "sn_state sample_stored = X_PLANNED"
  "sn_plan sample_stored = sample_plan" "sn_retry_policy sample_stored = sample_policy 2"
  by (simp_all add: sample_stored_def initial_snapshot_def TERMINAL_EXECUTION_STATES_def)

theorem coordinator_refines_machine_witness:
  "\<exists>evs m. db_history (en_store sample_env) ''x1'' = Inr \<lparr>hi_execution_id = ''x1'', hi_events = evs\<rparr>
    \<and> replay (sample_policy 2) [''bill'', ''bill-2''] evs = Some m \<and> m_state m = X_PLANNED"
  using coordinator_refines_machine [OF sample_run] sample_stored_state
  by (auto simp: sample_plan_def sample_step_def)

text \<open>The sample after one call with the flaky strategy, after enough of them, and after a call without strategies.\<close>

lemma resume_returns:
  assumes "driven uuid4 e" "inj uuid4" "get_snapshot (en_store e) i = Inr (Some sn)" "\<not> terminal (sn_state sn)"
    and "results_valid r" "never_raises r"
  shows "\<exists>x e'. co_resume (db_coordinator r uuid4) approval i e = (Inr x, e')"
proof -
  obtain q e' where run: "co_resume (db_coordinator r uuid4) approval i e = (q, e')" by fastforce
  obtain sn' where res: "run.run_result r uuid4 approval sn (en_world e) sn' (en_world e') q"
    by (rule resume_run [OF assms(1-5) run])
  obtain evs where ex: "stored (en_store e) sn evs" "tracked sn evs" by (rule driven_found [OF assms(1-3)])
  have "q \<noteq> Inl err" for err
  proof
    assume "q = Inl err"
    with res obtain n v where n: "n < length (pending_steps sn)"
      "step_action (db_coordinator r uuid4) approval sn (pending_steps sn ! n) v = (Inl err, en_world e')"
      unfolding run.run_result_def by auto
    from n(1) have "pending_steps sn ! n \<in> set (pending_steps sn)" by (rule nth_mem)
    then have "pending_steps sn ! n \<in> set (sn_steps sn)" unfolding pending_steps_def by simp
    with step_action_returns [of "db_coordinator r uuid4" sn evs "pending_steps sn ! n" approval v] ex assms(6) n(2)
    show False by (auto simp: stored_def)
  qed
  with run show ?thesis by (cases q) auto
qed

lemma step_action_unsupported: "step_action (db_coordinator [] uuid4) approval sn step w \<noteq> (Inr x, w1)"
  by (auto simp: step_action_def resolve_def db_coordinator_def act_bind_def split: option.split)

lemma performed_unsupported: "performed (db_coordinator [] uuid4) approval sn steps w xs w' \<Longrightarrow> steps = []"
  by (induction rule: performed.induct) (simp_all add: step_action_unsupported)

lemma sample_pending: "length (pending_steps sample_stored) = 2"
  by (simp add: pending_steps_def sample_stored_def initial_snapshot_def initial_runtime_step_def sample_plan_def sample_step_def)

lemma sample_unsupported:
  obtains err e' sn' where "co_resume (db_coordinator [] sample_uuid4) None ''x1'' sample_env = (Inl err, e')"
    "driven sample_uuid4 e'" "get_snapshot (en_store e') ''x1'' = Inr (Some sn')"
    "sn_runtime_version sample_stored \<noteq> sn_runtime_version sn'"
proof -
  obtain q e' where run: "co_resume (db_coordinator [] sample_uuid4) None ''x1'' sample_env = (q, e')" by fastforce
  obtain sn' where res: "run.run_result [] sample_uuid4 None sample_stored (en_world sample_env) sn' (en_world e') q"
    and g: "get_snapshot (en_store e') ''x1'' = Inr (Some sn')"
    and v: "sn_runtime_version sn' = sn_runtime_version sample_stored \<longrightarrow> sn' = sample_stored"
    by (rule resume_run [OF sample_run sample_stored_state(1) empty_resolver_valid run])
  obtain err where q: "q = Inl err"
  proof (cases q)
    case (Inr x)
    with res obtain n xs where "performed (db_coordinator [] sample_uuid4) None sample_stored (take n (pending_steps sample_stored))
        (en_world sample_env) xs (en_world e')" "loop_outcome X_COMPLETED sample_stored (pending_steps sample_stored) sn' n xs"
      unfolding run.run_result_def by auto
    with performed_unsupported performed_length have "take n (pending_steps sample_stored) = []" "xs = []" by fastforce+
    with \<open>loop_outcome _ _ _ _ _ _\<close> sample_pending show thesis by (auto simp: loop_outcome_def)
  qed
  have "sn_state sn' = X_RUNNING" using res q unfolding run.run_result_def by auto
  then have "sn_runtime_version sample_stored \<noteq> sn_runtime_version sn'" using v sample_stored_state(2) by auto
  moreover have "driven sample_uuid4 e'"
    using driven.resume [OF sample_run(1) empty_resolver_valid, of None "''x1''"] run by simp
  ultimately show thesis using that run g q by blast
qed

theorem resume_executes_in_order_witness:
  "\<exists>x e' sn' n xs. co_resume (db_coordinator flaky_resolver sample_uuid4) None ''x1'' sample_env = (Inr x, e')
    \<and> get_snapshot (en_store e') ''x1'' = Inr (Some sn')
    \<and> performed (db_coordinator flaky_resolver sample_uuid4) None sample_stored (take n (pending_steps sample_stored)) (en_world sample_env) xs (en_world e')"
proof -
  obtain x e' where "co_resume (db_coordinator flaky_resolver sample_uuid4) None ''x1'' sample_env = (Inr x, e')"
    using resume_returns [OF sample_run sample_stored_state(1) flaky_valid] by blast
  with resume_executes_in_order [OF sample_run sample_stored_state(1) flaky_valid(1) this] show ?thesis by blast
qed

theorem exceptions_keep_progress_witness:
  "\<exists>err e' sn'. co_resume (db_coordinator [] sample_uuid4) None ''x1'' sample_env = (Inl err, e')
    \<and> get_snapshot (en_store e') ''x1'' = Inr (Some sn') \<and> sn_state sn' = X_RUNNING"
proof -
  obtain err e' where run: "co_resume (db_coordinator [] sample_uuid4) None ''x1'' sample_env = (Inl err, e')"
    using sample_unsupported by blast
  with exceptions_keep_progress [OF sample_run sample_stored_state(1) empty_resolver_valid run] show ?thesis by blast
qed

theorem stale_session_does_nothing_witness:
  "\<exists>e m e'. driven sample_uuid4 e \<and> co_execute (db_coordinator flaky_resolver sample_uuid4) None sample_stored e
      = (Inl (ExecutionConcurrencyConflictError m), e') \<and> en_store e' = en_store e \<and> en_world e' = en_world e"
proof -
  obtain e :: "(execution_db, nat) env" and sn where e: "driven sample_uuid4 e" "get_snapshot (en_store e) ''x1'' = Inr (Some sn)"
      "sn_runtime_version sample_stored \<noteq> sn_runtime_version sn"
    by (rule sample_unsupported) blast
  from stale_session_does_nothing [OF e(1) sample_uuid4_inj e(2) sample_run e(3) sample_stored_state(1)] e(1) show ?thesis by blast
qed


definition sample_ended :: "(execution_db, nat) env" where
  "sample_ended = resumes (db_coordinator flaky_resolver sample_uuid4) None ''x1'' 5 sample_env"

lemma sample_ended_found:
  obtains sn where "driven sample_uuid4 sample_ended" "get_snapshot (en_store sample_ended) ''x1'' = Inr (Some sn)"
    "terminal (sn_state sn)" "sn_retry_policy sn = sample_policy 2"
proof -
  have n: "int (length (pl_steps (sn_plan sample_stored))) * rp_max_attempts (sn_retry_policy sample_stored) < int 5"
    by (simp add: sample_stored_state sample_plan_def sample_policy_def)
  obtain sn where "get_snapshot (en_store sample_ended) ''x1'' = Inr (Some sn)" "terminal (sn_state sn)" "same_execution sample_stored sn"
    unfolding sample_ended_def by (rule resumes_reach_end [OF sample_run flaky_valid n])
  with that resumes_driven [OF sample_run(1) flaky_valid(1)] show thesis
    by (simp add: sample_ended_def same_execution_def sample_stored_state)
qed

theorem completed_steps_are_final_witness:
  "\<exists>evs sn. db_history (en_store sample_ended) ''x1'' = Inr \<lparr>hi_execution_id = ''x1'', hi_events = evs\<rparr>
    \<and> get_snapshot (en_store sample_ended) ''x1'' = Inr (Some sn)
    \<and> map ev_step_key (filter (\<lambda>ev. ev_event_type ev = EV_STEP_COMPLETED) evs) = map Some (cp_completed_step_keys (sn_checkpoint sn))"
proof -
  obtain sn where sn: "driven sample_uuid4 sample_ended" "get_snapshot (en_store sample_ended) ''x1'' = Inr (Some sn)"
    by (rule sample_ended_found)
  from completed_steps_are_final [OF sn(1) sample_uuid4_inj sn(2)] sn(2) show ?thesis by blast
qed

theorem failures_bounded_witness:
  "\<exists>evs. db_history (en_store sample_ended) ''x1'' = Inr \<lparr>hi_execution_id = ''x1'', hi_events = evs\<rparr>
    \<and> failures (map entry_of_event evs) ''bill'' \<le> 2"
proof -
  obtain sn where sn: "driven sample_uuid4 sample_ended" "get_snapshot (en_store sample_ended) ''x1'' = Inr (Some sn)"
      "sn_retry_policy sn = sample_policy 2"
    by (rule sample_ended_found)
  from failures_bounded [OF sn(1) sample_uuid4_inj sn(2)] sn(3) show ?thesis by (auto simp: sample_policy_def)
qed

theorem history_transitions_legal_witness:
  "\<exists>evs. db_history (en_store sample_ended) ''x1'' = Inr \<lparr>hi_execution_id = ''x1'', hi_events = evs\<rparr> \<and> terminal (ev_state (last evs))"
proof -
  obtain sn where sn: "driven sample_uuid4 sample_ended" "get_snapshot (en_store sample_ended) ''x1'' = Inr (Some sn)"
      "terminal (sn_state sn)"
    by (rule sample_ended_found)
  from history_transitions_legal [OF sn(1) sample_uuid4_inj sn(2)] sn(3) show ?thesis by auto
qed

theorem ended_execution_replays_witness:
  "\<exists>x. co_resume (db_coordinator flaky_resolver sample_uuid4) None ''x1'' sample_ended = (Inr x, sample_ended)
    \<and> resumes (db_coordinator flaky_resolver sample_uuid4) None ''x1'' 3 sample_ended = sample_ended"
proof -
  obtain sn where sn: "driven sample_uuid4 sample_ended" "get_snapshot (en_store sample_ended) ''x1'' = Inr (Some sn)"
      "terminal (sn_state sn)"
    by (rule sample_ended_found)
  from ended_execution_replays [OF sn(1) sample_uuid4_inj sn(2,3)] show ?thesis by blast
qed

end
