(* ===== verification/Uuid5.thy ===== *)
theory Uuid5
  imports Sha256
begin

text \<open>
  \<^verbatim>\<open>uuid.uuid5(NAMESPACE_URL, name)\<close> of the standard library and its text, from which the
  identifiers of accepted decision executions are made: the first sixteen bytes of the SHA-1 digest
  (FIPS 180-4) of the namespace and the UTF-8 bytes of the name, with the version and the variant
  set. Bytes are numbers below 256; a character of a model string is a code point below 256.
\<close>

section \<open>SHA-1\<close>

definition sha1_h0 :: "word32 list" where
  "sha1_h0 = map word_of_nat [1732584193, 4023233417, 2562383102, 271733878, 3285377520]"

definition sha1_f :: "nat \<Rightarrow> word32 \<Rightarrow> word32 \<Rightarrow> word32 \<Rightarrow> word32" where
  "sha1_f t x y z =
     (if t < 20 then sha_ch x y z else if 40 \<le> t \<and> t < 60 then sha_maj x y z else x XOR y XOR z)"

definition sha1_k :: "nat \<Rightarrow> word32" where
  "sha1_k t = word_of_nat
     (if t < 20 then 1518500249 else if t < 40 then 1859775393 else if t < 60 then 2400959708 else 3395469782)"

fun sha1_schedule :: "nat \<Rightarrow> word32 list \<Rightarrow> word32 list" where
  "sha1_schedule 0 w = w"
| "sha1_schedule (Suc n) w = (let t = length w in
     sha1_schedule n (w @ [word_rotl 1 (w ! (t - 3) XOR w ! (t - 8) XOR w ! (t - 14) XOR w ! (t - 16))]))"

fun sha1_round :: "word32 list \<Rightarrow> nat \<times> word32 \<Rightarrow> word32 list" where
  "sha1_round [a, b, c, d, e] (t, w) =
     [word_rotl 5 a + sha1_f t b c d + e + sha1_k t + w, a, word_rotl 30 b, c, d]"
| "sha1_round hs tw = hs"

definition sha1_block :: "word32 list \<Rightarrow> nat list \<Rightarrow> word32 list" where
  "sha1_block hs block = map2 (+) hs
     (foldl sha1_round hs (enumerate 0 (sha1_schedule 64 (map be_word (group_by 16 4 block)))))"

definition word_bytes :: "word32 \<Rightarrow> nat list" where
  "word_bytes w = map (\<lambda>i. unat w div 256 ^ (3 - i) mod 256) [0..<4]"

definition sha1_digest :: "nat list \<Rightarrow> nat list" where
  "sha1_digest bytes = (let m = sha_pad bytes
     in concat (map word_bytes (foldl sha1_block sha1_h0 (group_by (length m div 64) 64 m))))"

section \<open>The identifier\<close>

definition utf8_char :: "char \<Rightarrow> nat list" where
  "utf8_char c = (let n = of_char c in if n < 128 then [n] else [192 + n div 64, 128 + n mod 64])"

text \<open>6ba7b811-9dad-11d1-80b4-00c04fd430c8\<close>

definition NAMESPACE_URL :: "nat list" where
  "NAMESPACE_URL = [107, 167, 184, 17, 157, 173, 17, 209, 128, 180, 0, 192, 79, 212, 48, 200]"

text \<open>The version goes into the high half of byte 6 and the variant into the top bits of byte 8.\<close>

definition uuid_fields :: "nat list \<Rightarrow> nat list" where
  "uuid_fields b = b[6 := b ! 6 mod 16 + 80, 8 := b ! 8 mod 64 + 128]"

definition hex_byte :: "nat \<Rightarrow> string" where
  "hex_byte b = [hex_digit (b div 16), hex_digit (b mod 16)]"

definition uuid_text :: "nat list \<Rightarrow> string" where
  "uuid_text b = (let h = concat (map hex_byte b) in
     take 8 h @ ''-'' @ take 4 (drop 8 h) @ ''-'' @ take 4 (drop 12 h) @ ''-'' @ take 4 (drop 16 h) @ ''-'' @ drop 20 h)"

definition uuid5_url :: "string \<Rightarrow> string" where
  "uuid5_url name = uuid_text (uuid_fields (take 16 (sha1_digest (NAMESPACE_URL @ concat (map utf8_char name)))))"

section \<open>The shape of the text\<close>

lemma length_sha1_round [simp]: "length hs = 5 \<Longrightarrow> length (sha1_round hs tw) = 5"
  by (cases tw, induction hs tw rule: sha1_round.induct) auto

lemma length_sha1_rounds: "length hs = 5 \<Longrightarrow> length (foldl sha1_round hs tws) = 5"
  by (induction tws arbitrary: hs) simp_all

lemma length_sha1_blocks: "length hs = 5 \<Longrightarrow> length (foldl sha1_block hs bs) = 5"
  by (induction bs arbitrary: hs) (simp_all add: sha1_block_def length_sha1_rounds)

lemma length_sha1_digest: "length (sha1_digest bytes) = 20"
proof -
  have "sum_list (map (\<lambda>w. length (word_bytes w)) ws) = 4 * length ws" for ws :: "word32 list"
    by (induction ws) (simp_all add: word_bytes_def)
  then show ?thesis
    using length_sha1_blocks [of sha1_h0] by (simp add: sha1_digest_def Let_def length_concat comp_def sha1_h0_def)
qed

lemma length_hex_bytes: "length (concat (map hex_byte bs)) = 2 * length bs"
  by (induction bs) (simp_all add: hex_byte_def)

lemma length_uuid5_url: "length (uuid5_url name) = 36"
  by (simp add: uuid5_url_def uuid_text_def Let_def uuid_fields_def length_hex_bytes length_sha1_digest)

end
