(* ===== verification/Exec_UseCase.thy ===== *)
theory Exec_UseCase
  imports Exec_Service Exec_Planner Write_Authorization Uuid5
begin

text \<open>
  The use cases that run accepted decisions and issue write authorizations:
  \<^verbatim>\<open>app/application/execution/accepted_decision_use_cases.py\<close> and
  \<^verbatim>\<open>app/application/workbench/write_authorization_use_cases.py\<close>. They compose the planner, the
  authorizations, the preflight policy and the durable runtime in one Hub transaction. The readers
  of accepted decisions, billing evidence, reviews and source invoices, the strategies, the clock
  readings and the identifiers that \<^verbatim>\<open>uuid4\<close> returns are parameters.
\<close>

section \<open>The session\<close>

text \<open>The tables as the session sees them, and as they were last committed.\<close>

record 'w hub_session =
  hs_env :: "(execution_db, 'w) env"
  hs_authorizations :: auth_table
  hs_committed :: "execution_db \<times> auth_table"

definition hub_commit :: "('w hub_session, hub_error, unit) action" where
  "hub_commit s = (Inr (), s\<lparr>hs_committed := (en_store (hs_env s), hs_authorizations s)\<rparr>)"

definition hub_rollback :: "'w hub_session \<Rightarrow> 'w hub_session" where
  "hub_rollback s = s\<lparr>hs_env := (hs_env s)\<lparr>en_store := fst (hs_committed s)\<rparr>, hs_authorizations := snd (hs_committed s)\<rparr>"

definition on_env :: "((execution_db, 'w) env, hub_error, 'a) action \<Rightarrow> ('w hub_session, hub_error, 'a) action" where
  "on_env m s = (case m (hs_env s) of (r, e) \<Rightarrow> (r, s\<lparr>hs_env := e\<rparr>))"

definition on_authorizations :: "(auth_table, hub_error, 'a) action \<Rightarrow> ('w hub_session, hub_error, 'a) action" where
  "on_authorizations m s = (case m (hs_authorizations s) of (r, t) \<Rightarrow> (r, s\<lparr>hs_authorizations := t\<rparr>))"

text \<open>\<^verbatim>\<open>try: ... except Exception: rollback(); raise\<close>\<close>

definition in_transaction :: "('w hub_session, hub_error, 'a) action \<Rightarrow> ('w hub_session, hub_error, 'a) action" where
  "in_transaction m s = (case m s of (Inl e, s') \<Rightarrow> (Inl e, hub_rollback s') | (Inr x, s') \<Rightarrow> (Inr x, s'))"

section \<open>Running an accepted decision\<close>

datatype accepted_status = AS_PLANNED | AS_DRY_RUN_COMPLETED | AS_EXECUTED | AS_FAILED | AS_NOT_EXECUTABLE | AS_NOT_FOUND

fun accepted_status_value :: "accepted_status \<Rightarrow> string" where
  "accepted_status_value AS_PLANNED = execution_status_value XS_PLANNED"
| "accepted_status_value AS_DRY_RUN_COMPLETED = execution_status_value XS_DRY_RUN_COMPLETED"
| "accepted_status_value AS_EXECUTED = execution_status_value XS_EXECUTED"
| "accepted_status_value AS_FAILED = execution_status_value XS_FAILED"
| "accepted_status_value AS_NOT_EXECUTABLE = ''not_executable''"
| "accepted_status_value AS_NOT_FOUND = ''not_found''"

definition accepted_status_of :: "string \<Rightarrow> (hub_error, accepted_status) result" where
  "accepted_status_of s = enum_of_value
     [AS_PLANNED, AS_DRY_RUN_COMPLETED, AS_EXECUTED, AS_FAILED, AS_NOT_EXECUTABLE, AS_NOT_FOUND] accepted_status_value
     (ValueError ''not a valid AcceptedDecisionExecutionStatus'') s"

record run_command =
  xc_review_id :: string
  xc_company_id :: int
  xc_decision_version :: int
  xc_mode :: execution_mode
  xc_approval :: "execution_approval option"
  xc_authorization_id :: "string option"
  xc_trace_id :: "string option"

definition run_command_checks :: "run_command \<Rightarrow> hub_error check list" where
  "run_command_checks c =
     [(blank (xc_review_id c), ExecutionPlanningError ''review_id is required.''),
      (xc_company_id c \<le> 0, ExecutionPlanningError ''company_id must be positive.''),
      (xc_decision_version c \<le> 0, ExecutionPlanningError ''decision_version must be positive.''),
      (blank_opt (xc_authorization_id c), ExecutionPlanningError ''authorization_id must be non-empty.''),
      (xc_authorization_id c \<noteq> None \<and> xc_mode c \<noteq> EXECUTE,
       ExecutionPlanningError ''Runtime authorization is valid only in EXECUTE mode.'')]"

record accepted_result =
  xe_review_id :: string
  xe_company_id :: int
  xe_decision_version :: int
  xe_status :: accepted_status
  xe_execution_id :: "string option"
  xe_runtime_state :: "execution_state option"

definition accepted_result_checks :: "accepted_result \<Rightarrow> hub_error check list" where
  "accepted_result_checks r =
     [(blank (xe_review_id r), ExecutionPlanningError ''review_id is required.''),
      (xe_company_id r \<le> 0, ExecutionPlanningError ''company_id must be positive.''),
      (xe_decision_version r \<le> 0, ExecutionPlanningError ''decision_version must be positive.''),
      (blank_opt (xe_execution_id r), ExecutionPlanningError ''execution_id must be non-empty when supplied.'')]"

definition accepted_result_of ::
    "run_command \<Rightarrow> accepted_status \<Rightarrow> string option \<Rightarrow> execution_state option \<Rightarrow> (hub_error, accepted_result) result" where
  "accepted_result_of c status execution_id state = mk_checked accepted_result_checks
     \<lparr>xe_review_id = xc_review_id c, xe_company_id = xc_company_id c, xe_decision_version = xc_decision_version c,
      xe_status = status, xe_execution_id = execution_id, xe_runtime_state = state\<rparr>"

text \<open>What the use case is constructed with. The clock is read when the authorization is claimed and again in preflight.\<close>

record 'w run_ports =
  rn_get_accepted_decision :: "string \<Rightarrow> int \<Rightarrow> int \<Rightarrow> (hub_error, accepted_decision) result"
  rn_get_billing_instructions :: "(string \<Rightarrow> int \<Rightarrow> int \<Rightarrow> string option \<Rightarrow> (hub_error, billing_instruction list) result) option"
  rn_strategy_resolver :: "'w resolver"
  rn_retry_policy :: "execution_plan \<Rightarrow> (hub_error, retry_policy) result"
  rn_preflight :: "'w preflight_policy"
  rn_write_authorizations :: "review_versions option"
  rn_claim_time :: int
  rn_preflight_time :: int

definition accepted_decision_execution_id :: "run_command \<Rightarrow> accepted_decision \<Rightarrow> string" where
  "accepted_decision_execution_id c d = ''accepted-decision-execution:'' @ uuid5_url
     (''accepted-decision-execution:'' @ int_str (xc_company_id c) @ '':'' @ xc_review_id c @ '':''
      @ int_str (xc_decision_version c) @ '':'' @ text_or (ad_decision_id d) ''decision-id-absent'' @ '':'' @ mode_value (xc_mode c))"

definition has_customer_invoice_creation_allocations :: "accepted_decision \<Rightarrow> bool" where
  "has_customer_invoice_creation_allocations d = (case ad_business_context_allocations d of None \<Rightarrow> False
   | Some s \<Rightarrow> list_ex (\<lambda>a. al_allocation_type a = CUSTOMER_RECHARGE \<and> al_customer_invoice_id a = None) (as_allocations s))"

definition accepted_billing_instructions :: "'w run_ports \<Rightarrow> accepted_decision \<Rightarrow> (hub_error, billing_instruction list) result" where
  "accepted_billing_instructions ports d =
     (if has_customer_invoice_creation_allocations d
      then case rn_get_billing_instructions ports of None \<Rightarrow> Inr []
        | Some get \<Rightarrow> (case get (ad_review_id d) (ad_company_id d) (ad_decision_version d) (ad_decision_id d) of
            Inl (ReviewNotFoundError m) \<Rightarrow> Inr [] | r \<Rightarrow> r)
      else Inr [])"

definition accepted_execution_request ::
    "run_command \<Rightarrow> accepted_decision \<Rightarrow> billing_instruction list \<Rightarrow> (hub_error, execution_request) result" where
  "accepted_execution_request c d instructions = mk_checked execution_request_checks
     \<lparr>rq_execution_id = accepted_decision_execution_id c d, rq_review_id = ad_review_id d, rq_company_id = ad_company_id d,
      rq_decision_version = ad_decision_version d, rq_decision_id = ad_decision_id d, rq_idempotency_key = None,
      rq_mode = xc_mode c, rq_selected_workflow = ad_selected_workflow d,
      rq_business_context_allocations = ad_business_context_allocations d,
      rq_accepted_billing_instructions = instructions,
      rq_selected_quotation_scenario_ids = ad_selected_quotation_scenario_ids d\<rparr>"

text \<open>Claiming the authorization that the command names.\<close>

definition claim_authorization ::
    "'w run_ports \<Rightarrow> run_command \<Rightarrow> accepted_decision \<Rightarrow> execution_request \<Rightarrow> execution_plan \<Rightarrow>
     ('w hub_session, hub_error, write_authorization option) action" where
  "claim_authorization ports c d request plan = (case xc_authorization_id c of
     Some authorization_id \<Rightarrow>
       (case rn_write_authorizations ports of
          None \<Rightarrow> act_raise (WriteAuthorizationScopeMismatchError ''Runtime authorization is not supported by this workflow.'')
        | Some versions \<Rightarrow>
            if (case xc_approval c of None \<Rightarrow> True | Some a \<Rightarrow> ap_authorization a \<noteq> None)
            then act_raise (WriteAuthorizationScopeMismatchError ''Named approval and a persisted authorization ID are required.'')
            else if ad_selected_workflow d \<noteq> Some WF_VENDOR_BILL \<or> length (pl_steps plan) \<noteq> 1
                \<or> st_step_type (hd (pl_steps plan)) \<noteq> ST_VENDOR_BILL
            then act_raise (WriteAuthorizationScopeMismatchError ''Authorization is limited to one direct Vendor Bill execution.'')
            else act_bind (on_authorizations (claim_and_consume (rn_claim_time ports) versions
              \<lparr>cr_company_id = xc_company_id c, cr_review_id = xc_review_id c, cr_operation_type = EXECUTE_VENDOR_BILL,
               cr_target_version = xc_decision_version c, cr_authorization_id = authorization_id,
               cr_execution_id = rq_execution_id request, cr_trace_id = xc_trace_id c\<rparr>)) (\<lambda>w. act_return (Some w)))
   | None \<Rightarrow>
       if (case xc_approval c of None \<Rightarrow> False | Some a \<Rightarrow> ap_authorization a \<noteq> None)
       then act_raise (WriteAuthorizationScopeMismatchError ''Execution authorization must be claimed by the application.'')
       else act_return None)"

definition effective_approval ::
    "run_command \<Rightarrow> write_authorization option \<Rightarrow> (hub_error, execution_approval option) result" where
  "effective_approval c claimed = (case (claimed, xc_approval c) of
     (Some w, Some a) \<Rightarrow> ebind (mk_checked execution_approval_checks
        \<lparr>ap_approved_by = ap_approved_by a, ap_authorization = Some w\<rparr>) (\<lambda>x. Inr (Some x))
   | _ \<Rightarrow> Inr (xc_approval c))"

text \<open>The message of an application error; Python's own exceptions have none.\<close>

fun safe_message :: "hub_error \<Rightarrow> string option" where
  "safe_message (ExecutionPlanningError m) = Some m"
| "safe_message (ExecutionStrategyResolutionError m) = Some m"
| "safe_message (ExecutionUnsupportedStepError m) = Some m"
| "safe_message (ExecutionModeNotEnabledError m) = Some m"
| "safe_message (ExecutionApprovalError m) = Some m"
| "safe_message (ExecutionIdempotencyConflictError m) = Some m"
| "safe_message (ExecutionStateError m) = Some m"
| "safe_message (ExecutionPersistenceError m) = Some m"
| "safe_message (ExecutionNotFoundError m) = Some m"
| "safe_message (ExecutionConcurrencyConflictError m) = Some m"
| "safe_message (WorkbenchContractError m) = Some m"
| "safe_message (ReviewNotFoundError m) = Some m"
| "safe_message (WriteAuthorizationError m) = Some m"
| "safe_message (WriteAuthorizationNotFoundError m) = Some m"
| "safe_message (WriteAuthorizationScopeMismatchError m) = Some m"
| "safe_message (WriteAuthorizationExpiredError m) = Some m"
| "safe_message (WriteAuthorizationAlreadyConsumedError m) = Some m"
| "safe_message (WriteAuthorizationRevokedError m) = Some m"
| "safe_message (ProductionSafetyGateError m) = Some m"
| "safe_message _ = None"

text \<open>With a claimed authorization a refused safety gate is reported as an authorization error.\<close>

definition run_preflight ::
    "'w run_ports \<Rightarrow> execution_plan \<Rightarrow> write_authorization option \<Rightarrow> execution_approval option \<Rightarrow>
     ('w hub_session, hub_error, unit) action" where
  "run_preflight ports plan claimed approval s =
     (case on_env (on_world (ensure_execute_allowed (rn_preflight_time ports) (rn_preflight ports) plan approval)) s of
        (Inl e, s') \<Rightarrow>
          (Inl (if claimed = None \<or> error_category e \<noteq> Some ''production_safety_gate_failure'' then e
                else WriteAuthorizationError (the (safe_message e))), s')
      | (Inr u, s') \<Rightarrow> (Inr u, s'))"

definition authorize_execution ::
    "'w run_ports \<Rightarrow> run_command \<Rightarrow> accepted_decision \<Rightarrow> execution_request \<Rightarrow> execution_plan \<Rightarrow>
     ('w hub_session, hub_error, execution_approval option) action" where
  "authorize_execution ports c d request plan =
     (if xc_mode c = EXECUTE
      then act_bind (claim_authorization ports c d request plan) (\<lambda>claimed.
           act_bind (act_lift (effective_approval c claimed)) (\<lambda>approval.
           act_bind (run_preflight ports plan claimed approval) (\<lambda>_.
           act_bind (act_lift (ensure_plan_supports_mode (rn_strategy_resolver ports) plan (xc_mode c))) (\<lambda>_.
           act_return approval))))
      else act_return (xc_approval c))"

text \<open>From the approved plan to the committed result.\<close>

definition run_planned ::
    "(nat \<Rightarrow> string) \<Rightarrow> 'w run_ports \<Rightarrow> run_command \<Rightarrow> execution_plan \<Rightarrow> execution_approval option \<Rightarrow>
     ('w hub_session, hub_error, accepted_result) action" where
  "run_planned uuid4 ports c plan approval =
     (let co = db_coordinator (rn_strategy_resolver ports) uuid4 in
      act_bind (act_lift (rn_retry_policy ports plan)) (\<lambda>retry.
      act_bind (on_env (create_or_load co create_from_plan db_history plan retry)) (\<lambda>runtime.
      act_bind (on_env (co_execute co approval (rt_snapshot runtime))) (\<lambda>result.
      act_bind (\<lambda>s. (get_snapshot (en_store (hs_env s)) (xr_execution_id result), s)) (\<lambda>snapshot.
      act_bind (act_lift (ebind (accepted_status_of (execution_status_value (xr_status result))) (\<lambda>status.
        accepted_result_of c status (Some (xr_execution_id result)) (map_option sn_state snapshot)))) (\<lambda>execution_result.
      act_bind hub_commit (\<lambda>_. act_return execution_result)))))))"

definition run_accepted_decision ::
    "(nat \<Rightarrow> string) \<Rightarrow> 'w run_ports \<Rightarrow> run_command \<Rightarrow> ('w hub_session, hub_error, accepted_result) action" where
  "run_accepted_decision uuid4 ports c =
     (case rn_get_accepted_decision ports (xc_review_id c) (xc_company_id c) (xc_decision_version c) of
        Inl (ReviewNotFoundError m) \<Rightarrow> act_lift (accepted_result_of c AS_NOT_FOUND None None)
      | Inl e \<Rightarrow> act_raise e
      | Inr d \<Rightarrow>
          if ad_decision_type d = DISMISS then act_lift (accepted_result_of c AS_NOT_EXECUTABLE None None)
          else
            act_bind (act_lift (accepted_billing_instructions ports d)) (\<lambda>instructions.
            act_bind (act_lift (accepted_execution_request c d instructions)) (\<lambda>request.
            act_bind (act_lift (planner_plan request)) (\<lambda>plan.
            act_bind (authorize_execution ports c d request plan) (\<lambda>approval.
            run_planned uuid4 ports c plan approval)))))"

definition execute_accepted_decision ::
    "(nat \<Rightarrow> string) \<Rightarrow> 'w run_ports \<Rightarrow> run_command \<Rightarrow> ('w hub_session, hub_error, accepted_result) action" where
  "execute_accepted_decision uuid4 ports c = in_transaction (run_accepted_decision uuid4 ports c)"

section \<open>Issuing, listing and revoking authorizations\<close>

text \<open>Fifteen minutes, in microseconds.\<close>

definition WRITE_AUTHORIZATION_TTL :: int where
  "WRITE_AUTHORIZATION_TTL = 15 * 60 * 1000000"

record issue_ports =
  is_get_review_version :: "string \<Rightarrow> int \<Rightarrow> (hub_error, int) result"
  is_get_accepted_decision :: "string \<Rightarrow> int \<Rightarrow> int \<Rightarrow> (hub_error, accepted_decision) result"
  is_get_source_invoice :: "string \<Rightarrow> int \<Rightarrow> int \<Rightarrow> (hub_error, unit) result"

definition ensure_scope_is_authorizable ::
    "issue_ports \<Rightarrow> int \<Rightarrow> string \<Rightarrow> int \<Rightarrow> operation_type \<Rightarrow> (hub_error, unit) result" where
  "ensure_scope_is_authorizable ports company_id review_id target_version operation_type =
     (if operation_type = ONE_OFF_VENDOR_ARCHIVE
      then Inl (WriteAuthorizationScopeMismatchError
        ''ONE_OFF_VENDOR_ARCHIVE is retired; one-off supplier partners are no longer archived.'')
      else
        ebind (is_get_review_version ports review_id company_id) (\<lambda>version.
        if version \<noteq> target_version
        then Inl (WriteAuthorizationScopeMismatchError ''Authorization must target the review's current version.'')
        else if operation_type = EXECUTE_VENDOR_BILL
        then ebind (is_get_accepted_decision ports review_id company_id target_version) (\<lambda>d.
             if ad_decision_type d \<noteq> SELECT_WORKFLOW \<or> ad_selected_workflow d \<noteq> Some WF_VENDOR_BILL
                \<or> (case ad_business_context_allocations d of None \<Rightarrow> False | Some s \<Rightarrow> as_allocations s \<noteq> [])
             then Inl (WriteAuthorizationScopeMismatchError ''Only accepted direct Vendor Bill decisions may be authorized.'')
             else is_get_source_invoice ports review_id company_id target_version)
        else Inr ()))"

definition create_write_authorization ::
    "issue_ports \<Rightarrow> int \<Rightarrow> int \<Rightarrow> string \<Rightarrow> int \<Rightarrow> string \<Rightarrow> int \<Rightarrow> operation_type \<Rightarrow> string \<Rightarrow> string option \<Rightarrow>
     ('w hub_session, hub_error, write_authorization) action" where
  "create_write_authorization ports clock row_clock authorization_id company_id review_id decision_version operation_type
       authorized_by justification =
     in_transaction (
       if blank authorized_by then act_raise (WriteAuthorizationScopeMismatchError ''Authorization actor is required.'')
       else
         act_bind (act_lift (ensure_scope_is_authorizable ports company_id review_id decision_version operation_type)) (\<lambda>_.
         act_bind (on_authorizations (auth_create row_clock authorization_id company_id review_id operation_type
           decision_version authorized_by (clock + WRITE_AUTHORIZATION_TTL) justification)) (\<lambda>record.
         act_bind hub_commit (\<lambda>_. act_return record))))"

definition list_write_authorizations ::
    "issue_ports \<Rightarrow> int \<Rightarrow> int \<Rightarrow> string \<Rightarrow> ('w hub_session, hub_error, write_authorization list) action" where
  "list_write_authorizations ports now company_id review_id =
     act_bind (act_lift (is_get_review_version ports review_id company_id)) (\<lambda>_.
     (\<lambda>s. (auth_list_for_review now (hs_authorizations s) review_id company_id, s)))"

definition revoke_write_authorization ::
    "int \<Rightarrow> int \<Rightarrow> string \<Rightarrow> string \<Rightarrow> string \<Rightarrow> ('w hub_session, hub_error, write_authorization) action" where
  "revoke_write_authorization now company_id review_id authorization_id revoked_by =
     in_transaction (
       if blank revoked_by then act_raise (WriteAuthorizationScopeMismatchError ''Revocation actor is required.'')
       else
         act_bind (on_authorizations (auth_revoke now authorization_id company_id revoked_by review_id)) (\<lambda>record.
         act_bind hub_commit (\<lambda>_. act_return record)))"

end
