(* ===== verification/Exec_Commands.thy ===== *)
theory Exec_Commands
  imports Exec_UseCase
begin

text \<open>
  What the use cases guarantee as a whole: a command commits everything or nothing, the tables it
  leaves are ones that the properties of \<^verbatim>\<open>Exec_Service\<close> are about, a write needs the claimed
  authorization or the enabled production mode, and repeating a finished command changes nothing.
\<close>

section \<open>Loading and creating executions\<close>

lemma by_key_stored:
  assumes "db_inv db" "get_by_idempotency_key db company key = Inr (Some sn)"
  shows "\<exists>evs. stored db sn evs \<and> sn_company_id sn = company \<and> sn_idempotency_key sn = key"
proof -
  obtain row where row: "find (\<lambda>e. we_company_id e = company \<and> we_idempotency_key e = key) (db_executions db) = Some row"
    using assms(2) by (auto simp: get_by_idempotency_key_def read_optional_def split: option.splits)
  then have r: "row \<in> set (db_executions db)" "we_company_id row = company" "we_idempotency_key row = key"
    by (auto simp: find_Some_iff)
  then obtain sn0 evs where st: "stored db sn0 evs" "sn_execution_id sn0 = we_execution_id row"
    using assms(1) unfolding db_inv_def by force
  have "row \<in> set (filter (\<lambda>e. we_execution_id e = sn_execution_id sn0) (db_executions db))" using r(1) st(2) by simp
  moreover have "filter (\<lambda>e. we_execution_id e = sn_execution_id sn0) (db_executions db) = [row_of sn0 (int (length evs) + 1)]"
    using st(1) by (simp add: stored_def)
  ultimately have "row = row_of sn0 (int (length evs) + 1)" by (simp only: list.set singleton_iff)
  then have k: "sn_company_id sn0 = company" "sn_idempotency_key sn0 = key"
    using r(2,3) by (simp_all add: row_of_def execution_model_from_snapshot_def)
  from stored_by_key [OF assms(1) st(1)] assms(2) k have "sn = sn0" by simp
  with st(1) k show ?thesis by blast
qed

lemma create_returns_stored:
  assumes "create_from_plan id1 id2 p retry db = (Inr sn, db')" "planned p" "valid_by retry_policy_checks retry" "db_inv db"
  shows "\<exists>evs. stored db' sn evs \<and> sn_company_id sn = pl_company_id p \<and> pl_idempotency_key p = Some (sn_idempotency_key sn)
    \<and> plan_signature (sn_plan sn) = plan_signature p"
proof -
  obtain key where key: "pl_idempotency_key p = Some key"
    using assms(1) by (auto simp: create_from_plan_def create_from_plan_at_def plan_idempotency_key_def split: option.splits)
  show ?thesis
  proof (cases "\<exists>old. get_by_idempotency_key db (pl_company_id p) key = Inr (Some old) \<and> db' = db \<and> sn = old
      \<and> plan_signature (sn_plan old) = plan_signature p")
    case True
    with by_key_stored [OF assms(4)] key show ?thesis by blast
  next
    case new: False
    let ?sn = "initial_snapshot p retry key None"
    obtain db1 where ins: "insert_execution id1 id2 ?sn db = Inr db1" "db_constraints db1" "db' = db1"
        "Inr sn = snapshot_or ?sn (get_snapshot db1 (pl_execution_id p))"
      using assms(1) new key snapshot_from_plan_eq [OF assms(2,3) key]
      by (auto simp: create_from_plan_def create_from_plan_at_def plan_idempotency_key_def idempotent_existing_def
          ebind_Inr_iff split: sum.splits option.splits if_splits)
    let ?new = "initial_snapshot p retry key (Some id2)"
    have ids: "\<not> blank id1" "\<not> blank id2" and db1: "db1 = created_db db ?new id1 id2"
      using insert_execution_Inr [OF ins(1)] by auto
    have fields: "sn_execution_id ?new = pl_execution_id p" "sn_company_id ?new = pl_company_id p"
        "sn_idempotency_key ?new = key" "sn_plan ?new = p" "sn_execution_id ?sn = pl_execution_id p"
      by (simp_all add: initial_snapshot_def)
    have "map we_execution_id (db_executions db1) = map we_execution_id (db_executions db) @ [pl_execution_id p]"
      by (simp add: db1 created_db_def row_of_def execution_model_from_snapshot_def fields)
    with ins(2) have fresh: "pl_execution_id p \<notin> set (map we_execution_id (db_executions db))" by (simp add: db_constraints_def)
    have st: "stored db1 ?new (created_events (pl_execution_id p) id1 id2)"
      unfolding db1 using assms(4) by (intro stored_created [OF assms(2,3) key ids _ fresh]) (simp add: db_inv_def)
    then have "sn = ?new" using ins(4) stored_get [OF st] by (simp add: fields snapshot_or_def)
    with st ins(3) key fields show ?thesis by auto
  qed
qed

section \<open>Identifiers are only drawn\<close>

definition draws :: "(('s, 'w) env, hub_error, 'a) action \<Rightarrow> bool" where
  "draws m \<longleftrightarrow> (\<forall>e. en_uuid e \<le> en_uuid (snd (m e)))"

named_theorems draws_intros

lemma draws_simple [draws_intros]: "draws (act_lift r)" "draws (act_return x)" "draws (act_raise err)"
  by (simp_all add: draws_def)

lemma draws_store [draws_intros]: "draws (on_store m)" "draws (on_world n)"
  by (simp_all add: draws_def on_store_def on_world_def split: prod.split)

lemma draws_bind [draws_intros]:
  assumes "draws m" "\<And>x. draws (f x)"
  shows "draws (act_bind m f)"
  unfolding draws_def
proof
  fix e
  obtain r e1 where m: "m e = (r, e1)" by fastforce
  with assms(1) have "en_uuid e \<le> en_uuid e1" unfolding draws_def by (metis snd_conv)
  with m assms(2) show "en_uuid e \<le> en_uuid (snd (act_bind m f e))"
    by (cases r) (auto simp: act_bind_def draws_def intro: order_trans)
qed

lemma draws_event [draws_intros]: "draws (runtime_event co i ty state step result)"
  by (simp add: draws_def runtime_event_def)

lemma draws_if [draws_intros]: "draws m \<Longrightarrow> draws n \<Longrightarrow> draws (if b then m else n)"
  by simp

lemma draws_steps [draws_intros]: "draws (run_steps co approval steps sn results)"
proof (induction steps arbitrary: sn results)
  case (Cons step steps)
  have "draws (execute_step co approval x step)" for x
    by (simp add: execute_step_def split: option.split) (auto intro!: draws_intros)
  with Cons.IH show ?case
    by (auto simp: mark_step_running_def mark_step_completed_def handle_failure_def record_failure_def Let_def intro!: draws_intros)
qed (simp add: draws_intros)

lemma draws_execute: "draws (co_execute co approval sn)"
  by (auto simp: co_execute_def co_start_def co_complete_def intro!: draws_intros split: prod.split)

lemma draws_create: "draws (create_or_load co create history p retry)"
proof -
  have "draws (\<lambda>e. on_store (m e) (e\<lparr>en_uuid := en_uuid e + 2\<rparr>))" for m :: "('a, 'b) env \<Rightarrow> ('a, hub_error, snapshot) action"
    by (simp add: draws_def on_store_def split: prod.split)
  moreover have "draws (\<lambda>e. act_lift (g e) e)" for g :: "('a, 'b) env \<Rightarrow> (hub_error, runtime) result"
    by (simp add: draws_def act_lift_def)
  ultimately show ?thesis unfolding create_or_load_def by (intro draws_bind)
qed

section \<open>Sessions\<close>

text \<open>
  The readers and strategies hand out constructed objects: what the constructors of accepted
  decisions, allocations, billing instructions, retry policies and step results check holds of them.
\<close>

definition ports_ok :: "'w run_ports \<Rightarrow> bool" where
  "ports_ok ports \<longleftrightarrow>
     (\<forall>a b c d. rn_get_accepted_decision ports a b c = Inr d \<longrightarrow> pred_option valid_allocation_set (ad_business_context_allocations d))
     \<and> (\<forall>get a b c d xs. rn_get_billing_instructions ports = Some get \<longrightarrow> get a b c d = Inr xs \<longrightarrow> list_all valid_billing_instruction xs)
     \<and> (\<forall>p r. rn_retry_policy ports p = Inr r \<longrightarrow> valid_by retry_policy_checks r)
     \<and> results_valid (rn_strategy_resolver ports)"

definition clean :: "'w hub_session \<Rightarrow> bool" where
  "clean s \<longleftrightarrow> hs_committed s = (en_store (hs_env s), hs_authorizations s)"

definition session_ok :: "(nat \<Rightarrow> string) \<Rightarrow> 'w hub_session \<Rightarrow> bool" where
  "session_ok uuid4 s \<longleftrightarrow> clean s \<and> driven uuid4 (hs_env s) \<and> table_ok (hs_authorizations s)"

text \<open>A transaction under way: nothing committed yet, identifiers drawn, authorizations only moved on.\<close>

definition under_way :: "(nat \<Rightarrow> string) \<Rightarrow> 'w hub_session \<Rightarrow> 'w hub_session \<Rightarrow> bool" where
  "under_way uuid4 s s' \<longleftrightarrow> hs_committed s' = hs_committed s \<and> driven uuid4 (hs_env s') \<and> table_ok (hs_authorizations s')
     \<and> table_evolves (hs_authorizations s) (hs_authorizations s') \<and> en_uuid (hs_env s) \<le> en_uuid (hs_env s')"

lemma under_way_refl: "session_ok uuid4 s \<Longrightarrow> under_way uuid4 s s"
  by (simp add: under_way_def session_ok_def)

lemma under_way_trans: "under_way uuid4 a b \<Longrightarrow> under_way uuid4 b c \<Longrightarrow> under_way uuid4 a c"
  by (auto simp: under_way_def intro: table_evolves_trans)

lemma rollback_ok:
  assumes "session_ok uuid4 s" "under_way uuid4 s s'"
  shows "session_ok uuid4 (hub_rollback s')" "hs_committed (hub_rollback s') = hs_committed s"
    "hs_authorizations (hub_rollback s') = hs_authorizations s"
proof -
  have c: "hs_committed s' = (en_store (hs_env s), hs_authorizations s)" using assms by (simp add: session_ok_def clean_def under_way_def)
  have eq: "(hs_env s')\<lparr>en_store := en_store (hs_env s)\<rparr>
      = (hs_env s)\<lparr>en_world := en_world (hs_env s'), en_uuid := en_uuid (hs_env s')\<rparr>" by simp
  have "driven uuid4 ((hs_env s')\<lparr>en_store := en_store (hs_env s)\<rparr>)"
    unfolding eq using assms by (intro driven.drawn driven.outside) (simp_all add: session_ok_def under_way_def)
  then show "session_ok uuid4 (hub_rollback s')"
    using assms(1) c by (simp add: session_ok_def clean_def hub_rollback_def)
  show "hs_committed (hub_rollback s') = hs_committed s" "hs_authorizations (hub_rollback s') = hs_authorizations s"
    using assms c by (simp_all add: hub_rollback_def session_ok_def clean_def)
qed

lemma planner_planned:
  assumes "valid_request r" "planner_plan r = Inr p"
  shows "planned p" "pl_company_id p = rq_company_id r" "pl_review_id p = rq_review_id r"
    "pl_decision_version p = rq_decision_version r" "pl_mode p = rq_mode r" "pl_execution_id p = rq_execution_id r"
proof -
  obtain steps where steps: "planned_steps r = Inr steps" "pl_steps p = steps" "valid_by execution_plan_checks p"
    "pl_company_id p = rq_company_id r" "pl_review_id p = rq_review_id r" "pl_decision_version p = rq_decision_version r"
    "pl_mode p = rq_mode r" "pl_execution_id p = rq_execution_id r"
    by (rule planner_plan_Inr [OF assms(2)])
  from planned_steps_valid [OF assms(1) steps(1)] sequenced_upto [of 1 "pl_steps p"] steps show "planned p"
    by (simp add: planned_def valid_plan_def)
qed (use planner_plan_Inr [OF assms(2)] in metis)+

lemma request_planned:
  assumes "ports_ok ports" "rn_get_accepted_decision ports a b k = Inr d" "accepted_billing_instructions ports d = Inr xs"
    and "accepted_execution_request c d xs = Inr q"
  shows "valid_request q" "rq_execution_id q = accepted_decision_execution_id c d" "rq_mode q = xc_mode c"
proof -
  have "list_all valid_billing_instruction xs"
    using assms(1,3) by (auto simp: accepted_billing_instructions_def ports_ok_def split: if_splits option.splits sum.splits hub_error.splits)
  with assms show "valid_request q"
    by (auto simp: accepted_execution_request_def mk_checked_Inr_iff valid_request_def ports_ok_def)
  show "rq_execution_id q = accepted_decision_execution_id c d" "rq_mode q = xc_mode c"
    using assms(4) by (auto simp: accepted_execution_request_def mk_checked_Inr_iff)
qed

section \<open>The stages of a command\<close>

lemma act_bind_result:
  assumes "act_bind m f s = (r, s')"
  obtains (raised) err where "m s = (Inl err, s')" "r = Inl err"
    | (went_on) x s1 where "m s = (Inr x, s1)" "f x s1 = (r, s')"
  using assms by (cases "m s"; cases "fst (m s)") (auto simp: act_bind_def)

lemma on_env_result: "on_env m s = (r, s') \<longleftrightarrow> (\<exists>e. m (hs_env s) = (r, e) \<and> s' = s\<lparr>hs_env := e\<rparr>)"
  by (auto simp: on_env_def split: prod.splits)

lemma on_authorizations_result:
  "on_authorizations m s = (r, s') \<longleftrightarrow> (\<exists>t. m (hs_authorizations s) = (r, t) \<and> s' = s\<lparr>hs_authorizations := t\<rparr>)"
  by (auto simp: on_authorizations_def split: prod.splits)

text \<open>Claiming changes the authorizations only.\<close>

definition claim_of :: "run_command \<Rightarrow> string \<Rightarrow> execution_request \<Rightarrow> claim_request" where
  "claim_of c authorization_id q = \<lparr>cr_company_id = xc_company_id c, cr_review_id = xc_review_id c,
     cr_operation_type = EXECUTE_VENDOR_BILL, cr_target_version = xc_decision_version c,
     cr_authorization_id = authorization_id, cr_execution_id = rq_execution_id q, cr_trace_id = xc_trace_id c\<rparr>"

lemma claim_authorization_cases:
  assumes "claim_authorization ports c d q p s = (r, s')"
  obtains (refused) err where "r = Inl err" "s' = s"
    | (unclaimed) "xc_authorization_id c = None" "r = Inr None" "s' = s" "\<forall>a. xc_approval c = Some a \<longrightarrow> ap_authorization a = None"
    | (claimed) authorization_id versions x t where "xc_authorization_id c = Some authorization_id"
        "rn_write_authorizations ports = Some versions" "map st_step_type (pl_steps p) = [ST_VENDOR_BILL]"
        "claim_and_consume (rn_claim_time ports) versions (claim_of c authorization_id q) (hs_authorizations s) = (x, t)"
        "r = map_sum id Some x" "s' = s\<lparr>hs_authorizations := t\<rparr>" "xc_approval c \<noteq> None"
proof (cases "xc_authorization_id c")
  case None
  with assms refused unclaimed show thesis by (auto simp: claim_authorization_def split: option.splits if_splits)
next
  case (Some a)
  have one: "(length xs = 1 \<and> st_step_type (hd xs) = t) \<longleftrightarrow> map st_step_type xs = [t]" for xs :: "execution_step list" and t
    by (cases xs) auto
  show thesis
  proof (cases "\<exists>err. r = Inl err \<and> s' = s")
    case False
    then obtain versions where v: "rn_write_authorizations ports = Some versions" "xc_approval c \<noteq> None"
        "length (pl_steps p) = 1 \<and> st_step_type (hd (pl_steps p)) = ST_VENDOR_BILL"
        "act_bind (on_authorizations (claim_and_consume (rn_claim_time ports) versions (claim_of c a q))) (\<lambda>w. act_return (Some w)) s = (r, s')"
      using assms Some by (auto simp: claim_authorization_def claim_of_def split: option.splits if_splits)
    obtain x t where x: "claim_and_consume (rn_claim_time ports) versions (claim_of c a q) (hs_authorizations s) = (x, t)" by fastforce
    then have "r = map_sum id Some x" "s' = s\<lparr>hs_authorizations := t\<rparr>"
      using v(4) by (cases x; simp add: act_bind_def on_authorizations_def)+
    with claimed Some v x one show thesis by blast
  qed (use refused in blast)
qed

lemma claim_authorization_under_way:
  assumes "session_ok uuid4 s" "claim_authorization ports c d q p s = (r, s')"
  shows "under_way uuid4 s s' \<and> hs_env s' = hs_env s"
  using assms(2)
proof (cases rule: claim_authorization_cases)
  case (claimed authorization_id versions x t)
  have "table_ok (hs_authorizations s)" using assms(1) by (simp add: session_ok_def)
  from claim_evolves [OF this this table_evolves_refl claimed(4) [unfolded claim_and_consume_def]] claimed(6) assms(1)
  show ?thesis by (simp add: under_way_def session_ok_def)
qed (use under_way_refl [OF assms(1)] in simp_all)

lemma run_preflight_result:
  assumes "run_preflight ports p claimed approval s = (r, s')"
  obtains x w where "ensure_execute_allowed (rn_preflight_time ports) (rn_preflight ports) p approval (en_world (hs_env s)) = (x, w)"
    "s' = s\<lparr>hs_env := (hs_env s)\<lparr>en_world := w\<rparr>\<rparr>" "\<And>u. r = Inr u \<Longrightarrow> x = Inr u"
  using assms by (auto simp: run_preflight_def on_env_def on_world_def split: prod.splits sum.splits)

lemma authorize_under_way:
  assumes "session_ok uuid4 s" "authorize_execution ports c d q p s = (r, s')"
  shows "under_way uuid4 s s'"
proof (cases "xc_mode c = EXECUTE")
  case False
  with assms under_way_refl show ?thesis by (auto simp: authorize_execution_def)
next
  case True
  obtain r1 s1 where c: "claim_authorization ports c d q p s = (r1, s1)" by fastforce
  note s1 = claim_authorization_under_way [OF assms(1) c]
  have world: "under_way uuid4 s (s1\<lparr>hs_env := (hs_env s1)\<lparr>en_world := w\<rparr>\<rparr>)" for w
    using s1 driven.outside [of uuid4 "hs_env s" w] by (auto simp: under_way_def)
  from assms(2) True c conjunct1 [OF s1] show ?thesis
    by (auto simp: authorize_execution_def act_bind_def intro: world elim!: run_preflight_result split: sum.splits prod.splits)
qed

lemma co_execute_stored:
  assumes "driven uuid4 e" "inj uuid4" "stored (en_store e) sn evs"
  shows "co_execute (db_coordinator r uuid4) approval sn e = co_resume (db_coordinator r uuid4) approval (sn_execution_id sn) e"
  using co_resume_db [OF stored_get [OF assms(3)]] by simp

text \<open>The part of a command that runs the plan, when it raises and when it returns.\<close>

lemma run_planned_cases:
  assumes "session_ok uuid4 s0" "under_way uuid4 s0 s" "inj uuid4" "ports_ok ports" "planned p"
    and "run_planned uuid4 ports c p approval s = (q, s')"
  obtains (raised) err where "q = Inl err" "under_way uuid4 s0 s'"
    | (returned) x retry e1 sn evs y e2 status where "q = Inr x" "rn_retry_policy ports p = Inr retry"
        "create_or_load (db_coordinator (rn_strategy_resolver ports) uuid4) create_from_plan db_history p retry (hs_env s) = (Inr y, e1)"
        "rt_snapshot y = sn" "stored (en_store e1) sn evs" "driven uuid4 e1"
        "co_resume (db_coordinator (rn_strategy_resolver ports) uuid4) approval (sn_execution_id sn) e1 = (Inr status, e2)"
        "driven uuid4 e2" "s' = s\<lparr>hs_env := e2, hs_committed := (en_store e2, hs_authorizations s)\<rparr>"
        "ebind (get_snapshot (en_store e2) (xr_execution_id status)) (\<lambda>snapshot.
           ebind (accepted_status_of (execution_status_value (xr_status status))) (\<lambda>st.
             accepted_result_of c st (Some (xr_execution_id status)) (map_option sn_state snapshot))) = Inr x"
        "sn_company_id sn = pl_company_id p" "pl_idempotency_key p = Some (sn_idempotency_key sn)"
        "plan_signature (sn_plan sn) = plan_signature p"
proof -
  let ?co = "db_coordinator (rn_strategy_resolver ports) uuid4"
  have s: "driven uuid4 (hs_env s)" "under_way uuid4 s0 s" using assms(2) by (auto simp: under_way_def)
  have moved: "under_way uuid4 s0 (s\<lparr>hs_env := e\<rparr>)" if "driven uuid4 e" "en_uuid (hs_env s) \<le> en_uuid e" for e
    using s(2) that by (auto simp: under_way_def)
  show thesis
  proof (cases "rn_retry_policy ports p")
    case (Inl err)
    with assms(6) s(2) raised show thesis by (auto simp: run_planned_def Let_def act_bind_def)
  next
    case (Inr retry)
    then have rv: "valid_by retry_policy_checks retry" using assms(4) by (auto simp: ports_ok_def)
    obtain y0 e1 where cr: "create_or_load ?co create_from_plan db_history p retry (hs_env s) = (y0, e1)" by fastforce
    have e1: "driven uuid4 e1" "en_uuid (hs_env s) \<le> en_uuid e1"
      using driven.create [OF s(1) assms(5) rv, of "rn_strategy_resolver ports"] cr
        draws_create [of ?co create_from_plan db_history p retry] unfolding draws_def by (metis snd_conv)+
    show thesis
    proof (cases y0)
      case (Inl err)
      with assms(6) Inr cr moved [OF e1] raised show thesis by (auto simp: run_planned_def Let_def act_bind_def on_env_def)
    next
      case y: (Inr y)
      have "db_inv (en_store (hs_env s))" using driven_invariant [OF s(1) assms(3)] by (simp add: driven_inv_def)
      moreover have "create_from_plan (event_identifier ?co (en_uuid (hs_env s))) (event_identifier ?co (Suc (en_uuid (hs_env s))))
          p retry (en_store (hs_env s)) = (Inr (rt_snapshot y), en_store e1)"
        using cr y by (auto simp: create_or_load_def on_store_def mk_checked_Inr_iff ebind_Inr_iff elim!: act_bind_success split: prod.splits)
      ultimately obtain evs where st: "stored (en_store e1) (rt_snapshot y) evs"
          "sn_company_id (rt_snapshot y) = pl_company_id p" "pl_idempotency_key p = Some (sn_idempotency_key (rt_snapshot y))"
          "plan_signature (sn_plan (rt_snapshot y)) = plan_signature p"
        using create_returns_stored [OF _ assms(5) rv] by blast
      obtain z e2 where run: "co_resume ?co approval (sn_execution_id (rt_snapshot y)) e1 = (z, e2)" by fastforce
      then have ex: "co_execute ?co approval (rt_snapshot y) e1 = (z, e2)" using co_execute_stored [OF e1(1) assms(3) st(1)] by metis
      have e2: "driven uuid4 e2" "en_uuid (hs_env s) \<le> en_uuid e2"
        using driven.resume [OF e1(1), of "rn_strategy_resolver ports" approval "sn_execution_id (rt_snapshot y)"] run assms(4)
          draws_execute [of ?co approval "rt_snapshot y"] ex e1(2) unfolding draws_def ports_ok_def by (metis snd_conv order_trans)+
      show thesis
      proof (cases z)
        case (Inl err)
        with assms(6) Inr cr y ex moved [OF e2] raised show thesis by (auto simp: run_planned_def Let_def act_bind_def on_env_def)
      next
        case z: (Inr status)
        let ?x = "ebind (get_snapshot (en_store e2) (xr_execution_id status)) (\<lambda>snapshot.
           ebind (accepted_status_of (execution_status_value (xr_status status))) (\<lambda>st.
             accepted_result_of c st (Some (xr_execution_id status)) (map_option sn_state snapshot)))"
        have "(q, s') = (case ?x of Inl err \<Rightarrow> (Inl err, s\<lparr>hs_env := e2\<rparr>)
            | Inr x \<Rightarrow> (Inr x, s\<lparr>hs_env := e2, hs_committed := (en_store e2, hs_authorizations s)\<rparr>))"
          using assms(6) Inr cr y ex z
          by (auto simp: run_planned_def Let_def act_bind_def on_env_def hub_commit_def ebind_def split: sum.splits)
        with moved [OF e2] raised returned [OF _ Inr cr [unfolded y] refl st(1) e1(1) run [unfolded z] e2(1)] st(2-4) show thesis
          by (cases ?x) auto
      qed
    qed
  qed
qed

text \<open>Up to the plan a command changes nothing.\<close>

lemma run_accepted_cases:
  assumes "ports_ok ports"
  obtains (early) st where "run_accepted_decision uuid4 ports c = act_lift (accepted_result_of c st None None)"
        "st \<in> {AS_NOT_FOUND, AS_NOT_EXECUTABLE}"
    | (unplanned) err where "run_accepted_decision uuid4 ports c = act_raise err"
    | (planned) d q p where
        "rn_get_accepted_decision ports (xc_review_id c) (xc_company_id c) (xc_decision_version c) = Inr d"
        "rq_execution_id q = accepted_decision_execution_id c d" "rq_mode q = xc_mode c" "valid_request q" "planner_plan q = Inr p"
        "run_accepted_decision uuid4 ports c = act_bind (authorize_execution ports c d q p) (run_planned uuid4 ports c p)"
proof (cases "rn_get_accepted_decision ports (xc_review_id c) (xc_company_id c) (xc_decision_version c)")
  case (Inl err)
  show thesis
  proof (cases "\<exists>m. err = ReviewNotFoundError m")
    case True
    with Inl early [of AS_NOT_FOUND] show thesis by (auto simp: run_accepted_decision_def)
  next
    case False
    then have "run_accepted_decision uuid4 ports c = act_raise err"
      using Inl by (cases err) (simp_all add: run_accepted_decision_def)
    then show thesis by (rule unplanned)
  qed
next
  case d: (Inr d)
  let ?q = "ebind (accepted_billing_instructions ports d) (accepted_execution_request c d)"
  have lift: "act_bind (act_lift (Inr x)) f = f x" "act_bind (act_lift (Inl err)) f = act_raise err"
    for x :: 'x and f :: "'x \<Rightarrow> ('s, hub_error, 'y) action" and err by (simp_all add: fun_eq_iff act_bind_def)
  show thesis
  proof (cases "ad_decision_type d = DISMISS")
    case True
    with d early [of AS_NOT_EXECUTABLE] show thesis by (simp add: run_accepted_decision_def)
  next
    case False
    consider err where "ebind ?q planner_plan = Inl err" | q p where "?q = Inr q" "planner_plan q = Inr p"
      by (cases ?q; cases "planner_plan (projr ?q)") auto
    then show thesis
    proof cases
      case 1
      with d False unplanned [of err] show thesis by (auto simp: run_accepted_decision_def lift ebind_def fun_eq_iff split: sum.splits)
    next
      case 2
      with d False have "run_accepted_decision uuid4 ports c = act_bind (authorize_execution ports c d q p) (run_planned uuid4 ports c p)"
        by (auto simp: run_accepted_decision_def lift ebind_def split: sum.splits)
      moreover have "valid_request q" "rq_execution_id q = accepted_decision_execution_id c d" "rq_mode q = xc_mode c"
        using request_planned [OF assms d] 2(1) by (auto simp: ebind_Inr_iff)
      ultimately show thesis using planned d 2(2) by blast
    qed
  qed
qed

text \<open>A whole command: it stops early, raises and is rolled back, or runs the plan and commits.\<close>

lemma command_cases:
  assumes ok: "session_ok uuid4 s" "inj uuid4" "ports_ok ports" and run: "execute_accepted_decision uuid4 ports c s = (r, s')"
  obtains (early) "s' = s" "\<And>x. r = Inr x \<Longrightarrow> xe_status x \<in> {AS_NOT_FOUND, AS_NOT_EXECUTABLE} \<and> xe_execution_id x = None"
    | (refused) d q p err s1 where "r = Inl err" "valid_request q" "planner_plan q = Inr p" "rq_mode q = xc_mode c"
        "authorize_execution ports c d q p s = (Inl err, s1)" "under_way uuid4 s s1" "s' = hub_rollback s1"
    | (ran) d q p approval s1 s2 where
        "rn_get_accepted_decision ports (xc_review_id c) (xc_company_id c) (xc_decision_version c) = Inr d"
        "rq_execution_id q = accepted_decision_execution_id c d" "rq_mode q = xc_mode c" "valid_request q" "planner_plan q = Inr p"
        "authorize_execution ports c d q p s = (Inr approval, s1)" "under_way uuid4 s s1"
        "run_planned uuid4 ports c p approval s1 = (r, s2)" "s' = (case r of Inl _ \<Rightarrow> hub_rollback s2 | Inr _ \<Rightarrow> s2)"
  using ok(3)
proof (cases rule: run_accepted_cases [where c = c and ?uuid4.0 = uuid4])
  have same: "hub_rollback s = s" using ok(1) by (simp add: session_ok_def clean_def hub_rollback_def)
  case (early st)
  with run same have "s' = s" "r = accepted_result_of c st None None"
    by (auto simp: execute_accepted_decision_def in_transaction_def split: sum.splits)
  with early(2) that(1) show thesis by (auto simp: accepted_result_of_def mk_checked_Inr_iff)
next
  have same: "hub_rollback s = s" using ok(1) by (simp add: session_ok_def clean_def hub_rollback_def)
  case (unplanned err)
  with run same that(1) show thesis by (auto simp: execute_accepted_decision_def in_transaction_def)
next
  case (planned d q p)
  obtain a s1 where a: "authorize_execution ports c d q p s = (a, s1)" by fastforce
  note uw = authorize_under_way [OF ok(1) a]
  show thesis
  proof (cases a)
    case (Inl err)
    with run planned(6) a have "r = Inl err" "s' = hub_rollback s1"
      by (auto simp: execute_accepted_decision_def in_transaction_def act_bind_def)
    with that(2) planned a Inl uw show thesis by blast
  next
    case (Inr approval)
    obtain x0 s2 where go: "run_planned uuid4 ports c p approval s1 = (x0, s2)" by fastforce
    with run planned(6) a Inr have "x0 = r" "s' = (case r of Inl _ \<Rightarrow> hub_rollback s2 | Inr _ \<Rightarrow> s2)"
      by (auto simp: execute_accepted_decision_def in_transaction_def act_bind_def split: sum.splits)
    with that(3) planned a Inr uw go show thesis by blast
  qed
qed

section \<open>Everything the use cases do\<close>

text \<open>Sessions that serve commands one after the other, with any ports, while the outside world changes.\<close>

inductive served :: "(nat \<Rightarrow> string) \<Rightarrow> 'w hub_session \<Rightarrow> bool" for uuid4 where
  start: "served uuid4 \<lparr>hs_env = \<lparr>en_store = empty_db, en_uuid = 0, en_world = w\<rparr>, hs_authorizations = [], hs_committed = (empty_db, [])\<rparr>"
| run: "served uuid4 s \<Longrightarrow> ports_ok ports \<Longrightarrow> served uuid4 (snd (execute_accepted_decision uuid4 ports c s))"
| issue: "served uuid4 s \<Longrightarrow> served uuid4 (snd (create_write_authorization ip clock row_clock a k i v op by j s))"
| revoke: "served uuid4 s \<Longrightarrow> served uuid4 (snd (revoke_write_authorization now k i a by s))"
| outside: "served uuid4 s \<Longrightarrow> served uuid4 (s\<lparr>hs_env := (hs_env s)\<lparr>en_world := w\<rparr>\<rparr>)"

lemma transaction_ok:
  assumes "session_ok uuid4 s" "\<And>err s'. m s = (Inl err, s') \<Longrightarrow> under_way uuid4 s s'"
    and "\<And>x s'. m s = (Inr x, s') \<Longrightarrow> session_ok uuid4 s'"
  shows "session_ok uuid4 (snd (in_transaction m s))"
  using assms rollback_ok(1) [OF assms(1)] by (auto simp: in_transaction_def split: prod.split sum.split)

text \<open>A change of the authorizations that is committed at once.\<close>

lemma authorization_change_ok:
  assumes "session_ok uuid4 s" "\<And>r t. m (hs_authorizations s) = (r, t) \<Longrightarrow> table_ok t \<and> table_evolves (hs_authorizations s) t"
    and "act_bind (on_authorizations m) (\<lambda>x. act_bind hub_commit (\<lambda>_. act_return x)) s = (r, s')"
  shows "case r of Inl _ \<Rightarrow> under_way uuid4 s s' | Inr _ \<Rightarrow> session_ok uuid4 s'"
proof -
  obtain q t where q: "m (hs_authorizations s) = (q, t)" by fastforce
  with assms show ?thesis
    by (cases q) (auto simp: act_bind_def on_authorizations_def hub_commit_def session_ok_def clean_def under_way_def)
qed

lemma issue_ok:
  assumes "session_ok uuid4 s"
  shows "session_ok uuid4 (snd (create_write_authorization ip clock row_clock a k i v op by j s))"
  unfolding create_write_authorization_def
proof (rule transaction_ok [OF assms], goal_cases)
  have ok: "table_ok (hs_authorizations s)" using assms by (simp add: session_ok_def)
  note change = authorization_change_ok [OF assms auth_create_evolves [OF ok]]
  { case (1 err s')
    with change under_way_refl [OF assms] show ?case
      by (cases "ensure_scope_is_authorizable ip k i v op") (fastforce simp: act_bind_def split: if_splits)+
  next
    case (2 x s')
    with change show ?case
      by (cases "ensure_scope_is_authorizable ip k i v op") (fastforce simp: act_bind_def split: if_splits)+ }
qed

lemma revoke_ok:
  assumes "session_ok uuid4 s"
  shows "session_ok uuid4 (snd (revoke_write_authorization now k i a by s))"
  unfolding revoke_write_authorization_def
proof (rule transaction_ok [OF assms], goal_cases)
  have ok: "table_ok (hs_authorizations s)" using assms by (simp add: session_ok_def)
  note change = authorization_change_ok [OF assms auth_revoke_evolves [OF ok]]
  { case (1 err s')
    with change under_way_refl [OF assms] show ?case by (fastforce split: if_splits)
  next
    case (2 x s')
    with change show ?case by (fastforce split: if_splits) }
qed

lemma run_ok:
  assumes "session_ok uuid4 s" "inj uuid4" "ports_ok ports" "execute_accepted_decision uuid4 ports c s = (r, s')"
  shows "session_ok uuid4 s' \<and> (\<forall>err. r = Inl err \<longrightarrow> hs_committed s' = hs_committed s)"
  using assms
proof (cases rule: command_cases)
  case (ran d q p approval s1 s2)
  from assms(1) ran(7) assms(2,3) planner_planned(1) [OF ran(4,5)] ran(8) show ?thesis
  proof (cases rule: run_planned_cases)
    case (raised err)
    with ran(9) rollback_ok [OF assms(1)] show ?thesis by auto
  next
    case (returned x retry e1 sn evs y e2 status)
    with ran(7,9) show ?thesis by (simp add: session_ok_def clean_def under_way_def)
  qed
qed (use assms(1) rollback_ok in auto)

lemma served_ok:
  assumes "served uuid4 s" "inj uuid4"
  shows "session_ok uuid4 s"
  using assms(1)
proof (induction rule: served.induct)
  case (start w)
  have "driven uuid4 \<lparr>en_store = empty_db, en_uuid = 0, en_world = w\<rparr>" unfolding empty_db_def by (rule driven.start)
  then show ?case by (simp add: session_ok_def clean_def table_ok_def)
next
  case (run s ports c)
  then show ?case using run_ok [OF run.IH assms(2)] by (metis surjective_pairing)
next
  case (outside s w)
  then show ?case using driven.outside [of uuid4 "hs_env s" w] by (auto simp: session_ok_def clean_def)
qed (simp_all add: issue_ok revoke_ok)

text \<open>
  C5. A command commits everything or nothing, whatever it meets: after it returned, the committed
  tables are those the session sees; after it raised, the executions, steps, events and
  authorizations are exactly the ones committed before, claims included. And whatever commands were
  served, the execution tables are ones that creating and resuming executions lead to, so that the
  properties of durable executions hold of them.
\<close>

theorem commands_all_or_nothing:
  assumes "served uuid4 s" "inj uuid4" "ports_ok ports" "execute_accepted_decision uuid4 ports c s = (r, s')"
  shows "hs_committed s' = (en_store (hs_env s'), hs_authorizations s') \<and> driven uuid4 (hs_env s')
    \<and> (\<forall>err. r = Inl err \<longrightarrow> hs_committed s' = hs_committed s)"
  using run_ok [OF served_ok [OF assms(1,2)] assms(2-4)] by (auto simp: session_ok_def clean_def)

section \<open>Writes need permission\<close>

text \<open>
  C39. While production execution is not enabled, a command in EXECUTE mode that names no
  authorization never reaches a strategy or a write gate: the outside world and the committed
  tables stay as they are, and unless the decision is missing or dismissed the command raises.
\<close>

theorem production_disabled_never_writes:
  assumes "served uuid4 s" "inj uuid4" "ports_ok ports" "execute_accepted_decision uuid4 ports c s = (r, s')"
    and "xc_mode c = EXECUTE" "xc_authorization_id c = None" "\<not> pf_production_execution_enabled (rn_preflight ports)"
  shows "en_world (hs_env s') = en_world (hs_env s) \<and> hs_committed s' = hs_committed s
    \<and> (\<forall>x. r = Inr x \<longrightarrow> xe_status x \<in> {AS_NOT_FOUND, AS_NOT_EXECUTABLE})"
proof -
  note ok = served_ok [OF assms(1,2)]
  have denied: "\<exists>err. authorize_execution ports c d q p s = (Inl err, s)" if "pl_mode p = EXECUTE" for d q p
  proof -
    obtain r1 s1 where cl: "claim_authorization ports c d q p s = (r1, s1)" by fastforce
    show ?thesis
    proof (cases r1)
      case (Inl err)
      with cl assms(5,6) show ?thesis by (auto simp: authorize_execution_def act_bind_def elim: claim_authorization_cases)
    next
      case (Inr claimed)
      with cl assms(6) have none: "claimed = None" "s1 = s" "\<forall>a. xc_approval c = Some a \<longrightarrow> ap_authorization a = None"
        by (auto elim: claim_authorization_cases)
      have "\<exists>err. ensure_execute_allowed now (rn_preflight ports) p (xc_approval c) w = (Inl err, w)" for now w
        using none(3) assms(7) that
        by (auto simp: ensure_execute_allowed_def authorization_allows_def preflight_guards_def act_bind_def split: option.split)
      then obtain err where "ensure_execute_allowed (rn_preflight_time ports) (rn_preflight ports) p (xc_approval c) (en_world (hs_env s))
          = (Inl err, en_world (hs_env s))" by blast
      then have "run_preflight ports p None (xc_approval c) s = (Inl err, s)"
        by (simp add: run_preflight_def on_env_def on_world_def)
      with cl Inr none assms(5) show ?thesis by (auto simp: authorize_execution_def act_bind_def effective_approval_def)
    qed
  qed
  from ok assms(2-4) show ?thesis
  proof (cases rule: command_cases)
    case early
    then show ?thesis by blast
  next
    case (refused d q p err s1)
    have "pl_mode p = EXECUTE" using planner_planned(5) [OF refused(2,3)] refused(4) assms(5) by simp
    with denied refused(5) have "s1 = s" by (metis prod.inject)
    with refused(1,7) ok show ?thesis by (auto simp: hub_rollback_def session_ok_def clean_def)
  next
    case (ran d q p approval s1 s2)
    have "pl_mode p = EXECUTE" using planner_planned(5) [OF ran(4,5)] ran(3) assms(5) by simp
    with denied ran(6) show ?thesis by (metis Inl_Inr_False prod.inject)
  qed
qed

lemma claim_consumes:
  assumes "table_ok t" "claim_and_consume now versions cr t = (Inr w, t')"
  obtains m where "m \<in> set t" "w = consumed_row now cr m m" "w \<in> set t'" "wa_authorization_id m = cr_authorization_id cr"
    "wa_company_id m = cr_company_id cr" "claim_checks now versions cr m = Inr ()"
  using assms(2) [unfolded claim_and_consume_def]
proof (cases rule: claim_cases)
  case (consumed m x)
  note m = auth_row_Some [OF consumed(1)]
  have x: "x \<in> set t" "claim_selects m x" using consumed(3) by (auto simp: filter_eq_Cons_iff)
  then have "x = m" using m by (intro table_ok_unique [OF assms(1)]) (auto simp: claim_selects_def)
  then have w: "w = consumed_row now cr m m" using record_from_model_consumed consumed(4) by metis
  have "w \<in> set t'" using x \<open>x = m\<close> by (force simp: w consumed(5) update_row_def)
  with that m w consumed(2) show thesis by blast
qed simp

text \<open>A row that a command may claim for an execution.\<close>

definition claimable :: "'w run_ports \<Rightarrow> run_command \<Rightarrow> string \<Rightarrow> write_authorization \<Rightarrow> bool" where
  "claimable ports c i m \<longleftrightarrow> xc_authorization_id c = Some (wa_authorization_id m) \<and> wa_company_id m = xc_company_id c
     \<and> wa_review_id m = xc_review_id c \<and> wa_operation_type m = EXECUTE_VENDOR_BILL \<and> wa_target_version m = xc_decision_version c
     \<and> rn_claim_time ports < wa_expires_at m
     \<and> (wa_status m = WA_PENDING \<or> wa_status m = WA_CONSUMED \<and> wa_consumed_by_execution_id m = Some i)"

lemma authorize_claims:
  assumes "table_ok (hs_authorizations s)" "xc_mode c = EXECUTE" "xc_authorization_id c \<noteq> None"
    and "authorize_execution ports c d q p s = (r, s1)"
  obtains (denied) err where "r = Inl err" "hs_env s1 = hs_env s"
    | (claimed) m versions where "m \<in> set (hs_authorizations s)" "claimable ports c (rq_execution_id q) m"
        "map st_step_type (pl_steps p) = [ST_VENDOR_BILL]" "rn_write_authorizations ports = Some versions"
        "versions (xc_review_id c) (xc_company_id c) = Some (xc_decision_version c)"
        "consumed_row (rn_claim_time ports) (claim_of c (wa_authorization_id m) q) m m \<in> set (hs_authorizations s1)"
proof -
  obtain r1 s2 where cl: "claim_authorization ports c d q p s = (r1, s2)" by fastforce
  show thesis
  proof (cases r1)
    case (Inl err)
    from cl have "hs_env s2 = hs_env s" by (cases rule: claim_authorization_cases) auto
    with assms(2,4) cl Inl denied show thesis by (auto simp: authorize_execution_def act_bind_def)
  next
    case (Inr w0)
    from assms(2,4) cl Inr have auths: "hs_authorizations s1 = hs_authorizations s2"
      by (auto simp: authorize_execution_def act_bind_def elim!: run_preflight_result split: sum.splits prod.splits)
    from cl show thesis
    proof (cases rule: claim_authorization_cases)
      case (claimed a versions x t)
      with Inr obtain w where x: "x = Inr w" by (cases x) auto
      from claim_consumes [OF assms(1) claimed(4) [unfolded x]] obtain m where
        m: "m \<in> set (hs_authorizations s)" "w = consumed_row (rn_claim_time ports) (claim_of c a q) m m" "w \<in> set t"
          "wa_authorization_id m = a" "wa_company_id m = xc_company_id c"
          "claim_checks (rn_claim_time ports) versions (claim_of c a q) m = Inr ()"
        by (auto simp: claim_of_def)
      then have "claimable ports c (rq_execution_id q) m" "versions (xc_review_id c) (xc_company_id c) = Some (xc_decision_version c)"
        using claimed(1) by (auto simp: claimable_def claim_checks_ok claim_of_def)
      with that(2) m claimed(2,3,6) auths show thesis by auto
    qed (use Inr assms(3) in auto)
  qed
qed


text \<open>
  Every authorized command that reaches the runtime consumes its authorization: the committed
  row is bound to the execution of the command and its use count is one higher than before. This
  includes a command whose execution had ended before, which calls no strategy.
\<close>

theorem authorized_runs_consume:
  assumes "served uuid4 s" "inj uuid4" "ports_ok ports" "execute_accepted_decision uuid4 ports c s = (Inr x, s')"
    and "xc_mode c = EXECUTE" "xc_authorization_id c = Some a" "xe_execution_id x \<noteq> None"
  shows "\<exists>d m w. rn_get_accepted_decision ports (xc_review_id c) (xc_company_id c) (xc_decision_version c) = Inr d
    \<and> m \<in> set (snd (hs_committed s)) \<and> w \<in> set (snd (hs_committed s')) \<and> wa_authorization_id m = a \<and> wa_authorization_id w = a
    \<and> wa_status w = WA_CONSUMED \<and> wa_consumed_by_execution_id w = Some (accepted_decision_execution_id c d)
    \<and> wa_use_count w = wa_use_count m + 1"
proof -
  note ok = served_ok [OF assms(1,2)]
  have t: "table_ok (hs_authorizations s)" "snd (hs_committed s) = hs_authorizations s" using ok by (simp_all add: session_ok_def clean_def)
  have named: "xc_authorization_id c \<noteq> None" using assms(6) by simp
  from ok assms(2-4) show ?thesis
  proof (cases rule: command_cases)
    case early
    with assms(7) show ?thesis by auto
  next
    case (ran d q p approval s1 s2)
    from ok ran(7) assms(2,3) planner_planned(1) [OF ran(4,5)] ran(8) have s2: "snd (hs_committed s') = hs_authorizations s1"
      by (cases rule: run_planned_cases) (use ran(9) in auto)
    from t(1) assms(5) named ran(6) show ?thesis
    proof (cases rule: authorize_claims)
      case (claimed m versions)
      let ?w = "consumed_row (rn_claim_time ports) (claim_of c (wa_authorization_id m) q) m m"
      have "wa_authorization_id m = a" using claimed(2) assms(6) by (simp add: claimable_def)
      with claimed(1,6) ran(1,2) t(2) s2 show ?thesis
        by (intro exI [of _ d] exI [of _ m] exI [of _ ?w]) (simp add: consumed_row_def claim_of_def)
    qed simp
  qed auto
qed

section \<open>Repeating a finished command\<close>

lemma resume_finds:
  assumes "driven uuid4 e" "inj uuid4" "get_snapshot (en_store e) i = Inr (Some sn)" "results_valid r"
    and "co_resume (db_coordinator r uuid4) approval i e = (q, e')"
  obtains sn' evs where "stored (en_store e') sn' evs" "same_execution sn sn'" "sn_execution_id sn' = i"
    "\<And>y. q = Inr y \<Longrightarrow> xr_execution_id y = i \<and> xr_status y = execution_status_of sn'"
proof (cases "terminal (sn_state sn)")
  case True
  obtain evs where st: "sn_execution_id sn = i" "stored (en_store e) sn evs" by (rule driven_found [OF assms(1-3)])
  have "(q, e') = (result_from_snapshot sn [], e)"
    using assms(5) True by (auto simp: co_resume_db [OF assms(3)] co_execute_def TERMINAL_EXECUTION_STATES_def)
  with that [of sn evs] st show thesis by (auto simp: result_from_snapshot_def mk_checked_Inr_iff)
next
  case False
  obtain sn' where sn': "get_snapshot (en_store e') i = Inr (Some sn')" "sn_execution_id sn = i" "same_execution sn sn'"
      "run.run_result r uuid4 approval sn (en_world e) sn' (en_world e') q"
    by (rule resume_run [OF assms(1-3) False assms(4,5)])
  have "driven uuid4 e'" using driven.resume [OF assms(1,4), of approval i] assms(5) by simp
  then obtain evs where "stored (en_store e') sn' evs" "sn_execution_id sn' = i" by (rule driven_found [OF _ assms(2) sn'(1)])
  with that sn' show thesis unfolding run.run_result_def by fastforce
qed

text \<open>Running the plan of a stored execution that has ended gives its stored outcome and changes nothing.\<close>

lemma run_planned_ended:
  assumes "driven uuid4 (hs_env s)" "inj uuid4" "clean s" "stored (en_store (hs_env s)) sn evs" "terminal (sn_state sn)"
    and "sn_company_id sn = pl_company_id p" "pl_idempotency_key p = Some (sn_idempotency_key sn)"
    and "plan_signature (sn_plan sn) = plan_signature p" "rn_retry_policy ports p = Inr retry"
    and "ebind (accepted_status_of (execution_status_value (execution_status_of sn))) (\<lambda>st.
           accepted_result_of c st (Some (sn_execution_id sn)) (Some (sn_state sn))) = Inr x"
  shows "run_planned uuid4 ports c p approval s = (Inr x, s\<lparr>hs_env := (hs_env s)\<lparr>en_uuid := en_uuid (hs_env s) + 2\<rparr>\<rparr>)"
proof -
  let ?co = "db_coordinator (rn_strategy_resolver ports) uuid4" and ?e = "(hs_env s)\<lparr>en_uuid := en_uuid (hs_env s) + 2\<rparr>"
  have inv: "db_inv (en_store (hs_env s))" using driven_invariant [OF assms(1,2)] by (simp add: driven_inv_def)
  note known = stored_by_key [OF inv assms(4)] and found = stored_get [OF assms(4)] and hist = stored_history [OF assms(4)]
  have "create_from_plan i1 i2 p retry (en_store (hs_env s)) = (Inr sn, en_store (hs_env s))" for i1 i2
    using known assms(6-8) by (simp add: create_from_plan_def create_from_plan_at_def plan_idempotency_key_def)
  then obtain y where y: "create_or_load ?co create_from_plan db_history p retry (hs_env s) = (Inr y, ?e)" "rt_snapshot y = sn"
    using hist by (simp add: create_or_load_def act_bind_def on_store_def mk_checked_def runtime_checks_def)
  have "\<not> blank (sn_execution_id sn)" by (rule stored_not_blank [OF assms(4)])
  then obtain z where z: "co_execute ?co approval sn ?e = (Inr z, ?e)" "xr_execution_id z = sn_execution_id sn" "xr_status z = execution_status_of sn"
    using assms(5) by (auto simp: co_execute_def TERMINAL_EXECUTION_STATES_def result_from_snapshot_def mk_checked_def execution_result_checks_def)
  from assms(3) have "hs_committed s = (en_store (hs_env s), hs_authorizations s)" by (simp add: clean_def)
  with y z found assms(9,10) show ?thesis
    by (auto simp: run_planned_def Let_def act_bind_def on_env_def hub_commit_def ebind_Inr_iff)
qed

text \<open>
  Repeating a finished dry run is idempotent: when a dry run returned with its execution
  completed or failed, the same command returns the same result again, calls no strategy and
  leaves the outside world and all tables as they are.
\<close>

theorem finished_dry_run_replays:
  assumes "served uuid4 s" "inj uuid4" "ports_ok ports" "execute_accepted_decision uuid4 ports c s = (Inr x, s')"
    and "xc_mode c = DRY_RUN" "xe_runtime_state x = Some state" "terminal state"
  shows "\<exists>s''. execute_accepted_decision uuid4 ports c s' = (Inr x, s'') \<and> en_world (hs_env s'') = en_world (hs_env s')
    \<and> en_store (hs_env s'') = en_store (hs_env s') \<and> hs_committed s'' = hs_committed s'"
proof -
  note ok = served_ok [OF assms(1,2)]
  have ok': "session_ok uuid4 s'" using run_ok [OF ok assms(2-4)] by blast
  have dry: "authorize_execution ports c d q p t = (Inr (xc_approval c), t)" for d q p t
    using assms(5) by (simp add: authorize_execution_def)
  have st: "run_accepted_decision uuid4 ports c s = (Inr x, s')"
    using assms(4) by (auto simp: execute_accepted_decision_def in_transaction_def split: prod.splits sum.splits)
  from assms(3) show ?thesis
  proof (cases rule: run_accepted_cases [where c = c and ?uuid4.0 = uuid4])
    case (early k)
    with st assms(6) show ?thesis by (auto simp: accepted_result_of_def mk_checked_Inr_iff)
  next
    case (unplanned err)
    with st show ?thesis by simp
  next
    case (planned d q p)
    have whole: "run_accepted_decision uuid4 ports c t = run_planned uuid4 ports c p (xc_approval c) t" for t
      using planned(6) dry by (simp add: act_bind_def)
    from ok under_way_refl [OF ok] assms(2,3) planner_planned(1) [OF planned(4,5)] st [unfolded whole] show ?thesis
    proof (cases rule: run_planned_cases)
      case (returned x' retry e1 sn evs y e2 status)
      have rv: "results_valid (rn_strategy_resolver ports)" "valid_by retry_policy_checks retry"
        using assms(3) returned(2) by (auto simp: ports_ok_def)
      obtain sn' evs' where sn': "stored (en_store e2) sn' evs'" "same_execution sn sn'" "sn_execution_id sn' = sn_execution_id sn"
          "xr_execution_id status = sn_execution_id sn \<and> xr_status status = execution_status_of sn'"
        by (rule resume_finds [OF returned(6) assms(2) stored_get [OF returned(5)] rv(1) returned(7)]) auto
      have key: "sn_company_id sn' = pl_company_id p" "pl_idempotency_key p = Some (sn_idempotency_key sn')"
          "plan_signature (sn_plan sn') = plan_signature p"
        using sn'(2) returned(11-13) by (simp_all add: same_execution_def)
      have res: "ebind (accepted_status_of (execution_status_value (execution_status_of sn'))) (\<lambda>st.
           accepted_result_of c st (Some (sn_execution_id sn')) (Some (sn_state sn'))) = Inr x"
        using returned(1,10) sn'(3,4) stored_get [OF sn'(1)] by simp
      then have "sn_state sn' = state" using assms(6) by (auto simp: ebind_Inr_iff accepted_result_of_def mk_checked_Inr_iff)
      then have "run_planned uuid4 ports c p (xc_approval c) s' = (Inr x, s'\<lparr>hs_env := (hs_env s')\<lparr>en_uuid := en_uuid (hs_env s') + 2\<rparr>\<rparr>)"
        using run_planned_ended [OF _ assms(2) _ _ _ key returned(2) res] sn'(1) returned(9) ok' assms(7)
        by (simp add: session_ok_def)
      then show ?thesis by (simp add: execute_accepted_decision_def in_transaction_def whole)
    qed simp
  qed
qed

section \<open>Issued authorizations\<close>

lemma auth_create_appends:
  assumes "auth_create row_clock a k i op v by ex j t = (Inr w, t')"
  shows "w = new_row row_clock a k i op v by ex j" "t' = t @ [w]" "a \<notin> set (map wa_authorization_id t)" "\<not> blank a"
  using assms
  by (auto simp: auth_create_def Let_def record_from_model_def mk_checked_Inr_iff valid_by_def authorization_checks_def
      insert_violates_def new_row_def split: if_splits)

lemma claim_pending_succeeds:
  assumes "table_ok t" "w \<in> set t" "wa_status w = WA_PENDING" "valid_by authorization_checks w" "now < wa_expires_at w"
    and "versions (wa_review_id w) (wa_company_id w) = Some (wa_target_version w)" "wa_operation_type w \<noteq> ONE_OFF_VENDOR_ARCHIVE"
    and "x \<noteq> []" "0 \<le> wa_use_count w"
  shows "\<exists>w' t'. claim_and_consume now versions \<lparr>cr_company_id = wa_company_id w, cr_review_id = wa_review_id w,
      cr_operation_type = wa_operation_type w, cr_target_version = wa_target_version w,
      cr_authorization_id = wa_authorization_id w, cr_execution_id = x, cr_trace_id = trace\<rparr> t = (Inr w', t')
    \<and> wa_consumed_by_execution_id w' = Some x"
proof -
  let ?c = "\<lparr>cr_company_id = wa_company_id w, cr_review_id = wa_review_id w, cr_operation_type = wa_operation_type w,
      cr_target_version = wa_target_version w, cr_authorization_id = wa_authorization_id w, cr_execution_id = x, cr_trace_id = trace\<rparr>"
  have d: "distinct (map wa_authorization_id t)" using assms(1) by (simp add: table_ok_def)
  have "find (\<lambda>m. wa_authorization_id m = wa_authorization_id w) t = Some w" by (rule find_key_unique [OF d assms(2)])
  then have row: "auth_row t (wa_authorization_id w) (wa_company_id w) = Some w"
    using table_ok_unique [OF assms(1)] assms(2) unfolding auth_row_def find_Some_iff by (metis nth_mem)
  have only: "filter (\<lambda>m. wa_authorization_id m = wa_authorization_id w \<and> wa_status m = wa_status w \<and> wa_use_count m = wa_use_count w) t = [w]"
  proof -
    have "filter (\<lambda>m. wa_authorization_id m = wa_authorization_id w \<and> wa_status m = wa_status w \<and> wa_use_count m = wa_use_count w) t
        = filter (\<lambda>m. m = w) t"
      using table_ok_unique [OF assms(1)] assms(2) by (intro filter_cong) auto
    also have "\<dots> = [w]" using d assms(2) by (induction t) (auto simp: filter_empty_conv)
    finally show ?thesis .
  qed
  have "claim_checks now versions ?c w = Inr ()" using assms(3,5,6) by (simp add: claim_checks_ok)
  moreover have "wa_authorization_id w \<noteq> []" using assms(4) by (auto simp: valid_by_def authorization_checks_def)
  moreover have "record_from_model now (consumed_row now ?c w w) = Inr (consumed_row now ?c w w)"
    using assms(4,9) by (simp add: record_from_model_def consumed_row_def mk_checked_Inr_iff valid_by_def authorization_checks_def)
  ultimately show ?thesis
    using row only assms(7,8) by (simp add: claim_and_consume_def claim_and_consume_at_def Let_def consumed_row_def)
qed

text \<open>
  C40. An authorization is issued only by a named actor for the current version of the review, for an
  operation that is not retired, and for a vendor bill only when the accepted decision selects the
  vendor bill workflow without allocations. The committed row is pending and expires fifteen minutes
  after the clock reading, and until then, while the review stays at that version, any one execution
  can claim it.
\<close>

theorem issued_authorization_admits_claim:
  assumes "served uuid4 s" "inj uuid4" "create_write_authorization ip clock row_clock a k i v op actor j s = (Inr w, s')"
  shows "w \<in> set (snd (hs_committed s')) \<and> wa_status w = WA_PENDING \<and> wa_expires_at w = clock + 15 * 60 * 1000000 \<and> \<not> blank actor
    \<and> is_get_review_version ip i k = Inr v
    \<and> (op = EXECUTE_VENDOR_BILL \<longrightarrow> (\<exists>d. is_get_accepted_decision ip i k v = Inr d \<and> ad_selected_workflow d = Some WF_VENDOR_BILL
         \<and> (\<forall>as. ad_business_context_allocations d = Some as \<longrightarrow> as_allocations as = [])))
    \<and> (\<forall>now versions x trace. now < clock + 15 * 60 * 1000000 \<longrightarrow> versions i k = Some v \<longrightarrow> x \<noteq> [] \<longrightarrow>
        (\<exists>w' t'. claim_and_consume now versions \<lparr>cr_company_id = k, cr_review_id = i, cr_operation_type = op, cr_target_version = v,
            cr_authorization_id = a, cr_execution_id = x, cr_trace_id = trace\<rparr> (hs_authorizations s') = (Inr w', t')
          \<and> wa_consumed_by_execution_id w' = Some x))"
proof -
  note ok = served_ok [OF assms(1,2)]
  let ?ex = "clock + WRITE_AUTHORIZATION_TTL"
  have scope: "ensure_scope_is_authorizable ip k i v op = Inr ()" "\<not> blank actor"
    and create: "\<exists>t. auth_create row_clock a k i op v actor ?ex j (hs_authorizations s) = (Inr w, t)
      \<and> s' = s\<lparr>hs_authorizations := t, hs_committed := (en_store (hs_env s), t)\<rparr>"
    using assms(3)
    by (auto simp: create_write_authorization_def in_transaction_def on_authorizations_def hub_commit_def
        split: prod.splits sum.splits if_splits elim!: act_bind_success)
  then obtain t where t: "auth_create row_clock a k i op v actor ?ex j (hs_authorizations s) = (Inr w, t)"
      "s' = s\<lparr>hs_authorizations := t, hs_committed := (en_store (hs_env s), t)\<rparr>" by blast
  note w = auth_create_appends [OF t(1)]
  have tok: "table_ok t" using auth_create_evolves [OF _ t(1)] ok by (simp add: session_ok_def)
  have vw: "valid_by authorization_checks w" using t(1) w(1)
    by (auto simp: auth_create_def Let_def record_from_model_def mk_checked_Inr_iff new_row_def split: if_splits)
  have "\<exists>w' t'. claim_and_consume now versions \<lparr>cr_company_id = k, cr_review_id = i, cr_operation_type = op, cr_target_version = v,
            cr_authorization_id = a, cr_execution_id = x, cr_trace_id = trace\<rparr> t = (Inr w', t') \<and> wa_consumed_by_execution_id w' = Some x"
    if "now < ?ex" "versions i k = Some v" "x \<noteq> []" for now versions x trace
    using claim_pending_succeeds [OF tok _ _ vw, of now versions x trace] that w(1,2) scope(1)
    by (simp add: new_row_def ensure_scope_is_authorizable_def split: if_splits)
  moreover have "is_get_review_version ip i k = Inr v"
    using scope(1) by (auto simp: ensure_scope_is_authorizable_def ebind_Inr_iff split: if_splits)
  moreover have "\<exists>d. is_get_accepted_decision ip i k v = Inr d \<and> ad_selected_workflow d = Some WF_VENDOR_BILL
         \<and> (\<forall>as. ad_business_context_allocations d = Some as \<longrightarrow> as_allocations as = [])" if "op = EXECUTE_VENDOR_BILL"
    using scope(1) that by (auto simp: ensure_scope_is_authorizable_def ebind_Inr_iff split: if_splits option.splits)
  ultimately show ?thesis
    using scope(2) w(1,2) t(2) by (simp add: new_row_def WRITE_AUTHORIZATION_TTL_def)
qed

section \<open>Sample commands\<close>

text \<open>Once the execution is there, strategies that return make the command return.\<close>

lemma run_planned_returns:
  assumes "driven uuid4 (hs_env s)" "inj uuid4" "ports_ok ports" "never_raises (rn_strategy_resolver ports)" "planned p"
    and "rn_retry_policy ports p = Inr retry" "valid_by run_command_checks c"
    and "create_or_load (db_coordinator (rn_strategy_resolver ports) uuid4) create_from_plan db_history p retry (hs_env s) = (Inr y, e1)"
    and "stored (en_store e1) (rt_snapshot y) evs" "\<not> terminal (sn_state (rt_snapshot y))"
  shows "\<exists>x s' sn'. run_planned uuid4 ports c p approval s = (Inr x, s') \<and> xe_execution_id x \<noteq> None \<and> xe_runtime_state x = Some (sn_state sn')
    \<and> run.run_result (rn_strategy_resolver ports) uuid4 approval (rt_snapshot y) (en_world e1) sn' (en_world (hs_env s'))
        (fst (co_resume (db_coordinator (rn_strategy_resolver ports) uuid4) approval (sn_execution_id (rt_snapshot y)) e1))"
proof -
  let ?co = "db_coordinator (rn_strategy_resolver ports) uuid4" and ?sn = "rt_snapshot y"
  have rv: "results_valid (rn_strategy_resolver ports)" "valid_by retry_policy_checks retry"
    using assms(3,6) by (auto simp: ports_ok_def)
  have e1: "driven uuid4 e1" using driven.create [OF assms(1,5) rv(2), of "rn_strategy_resolver ports"] assms(8) by simp
  note found = stored_get [OF assms(9)]
  obtain z e2 where run: "co_resume ?co approval (sn_execution_id ?sn) e1 = (Inr z, e2)"
    using resume_returns [OF e1 assms(2) found assms(10) rv(1) assms(4)] by blast
  then have ex: "co_execute ?co approval ?sn e1 = (Inr z, e2)" using co_execute_stored [OF e1 assms(2,9)] by metis
  obtain sn' where sn': "get_snapshot (en_store e2) (sn_execution_id ?sn) = Inr (Some sn')"
      "run.run_result (rn_strategy_resolver ports) uuid4 approval ?sn (en_world e1) sn' (en_world e2) (Inr z)"
    by (rule resume_run [OF e1 assms(2) found assms(10) rv(1) run])
  have "driven uuid4 e2" using driven.resume [OF e1 rv(1), of approval "sn_execution_id ?sn"] run by simp
  then obtain evs' where "tracked sn' evs'" by (rule driven_found [OF _ assms(2) sn'(1)])
  then have "execution_status_of sn' \<in> {XS_PLANNED, XS_DRY_RUN_COMPLETED, XS_EXECUTED, XS_FAILED}"
    by (auto simp: tracked_def execution_status_of_def)
  then obtain st where st: "accepted_status_of (execution_status_value (execution_status_of sn')) = Inr st"
    by (auto simp: accepted_status_of_def enum_of_value_def)
  have z: "xr_execution_id z = sn_execution_id ?sn" "xr_status z = execution_status_of sn'"
    using sn'(2) unfolding run.run_result_def by auto
  have "\<not> blank (sn_execution_id ?sn)" by (rule stored_not_blank [OF assms(9)])
  then obtain x where x: "accepted_result_of c st (Some (sn_execution_id ?sn)) (Some (sn_state sn')) = Inr x"
      "xe_execution_id x \<noteq> None" "xe_runtime_state x = Some (sn_state sn')"
    using assms(7) by (auto simp: accepted_result_of_def mk_checked_def accepted_result_checks_def valid_by_def run_command_checks_def)
  then have "run_planned uuid4 ports c p approval s = (Inr x, s\<lparr>hs_env := e2, hs_committed := (en_store e2, hs_authorizations s)\<rparr>)"
    using assms(6,8) ex sn'(1) st z by (simp add: run_planned_def Let_def act_bind_def on_env_def hub_commit_def)
  with x sn'(2) run show ?thesis by auto
qed

lemma performed_flaky:
  "performed (db_coordinator flaky_resolver uuid4) approval sn steps w xs w' \<Longrightarrow> 1 \<le> w \<Longrightarrow>
   list_all (\<lambda>x. \<not> is_failure x) xs \<and> w' = w + length steps"
proof (induction rule: performed.induct)
  case (step stp w x w1 steps xs w2)
  then have "w1 = Suc w" "\<not> is_failure x"
    by (auto simp: step_action_def flaky_resolve flaky_execute_def mk_checked_Inr_iff is_failure_def split: option.splits elim!: act_bind_success)
  with step show ?case by simp
qed simp

definition sample_decision :: accepted_decision where
  "sample_decision = \<lparr>ad_review_id = ''r1'', ad_company_id = 1, ad_decision_version = 2, ad_decision_id = None,
     ad_selected_workflow = Some WF_VENDOR_BILL, ad_business_context_allocations = None,
     ad_selected_quotation_scenario_ids = [], ad_decision_type = SELECT_WORKFLOW\<rparr>"

definition sample_command :: "execution_mode \<Rightarrow> string option \<Rightarrow> run_command" where
  "sample_command mode a = \<lparr>xc_review_id = ''r1'', xc_company_id = 1, xc_decision_version = 2, xc_mode = mode,
     xc_approval = Some \<lparr>ap_approved_by = ''operator'', ap_authorization = None\<rparr>, xc_authorization_id = a, xc_trace_id = None\<rparr>"

definition sample_ports :: "nat run_ports" where
  "sample_ports = \<lparr>rn_get_accepted_decision = (\<lambda>_ _ _. Inr sample_decision), rn_get_billing_instructions = None,
     rn_strategy_resolver = flaky_resolver, rn_retry_policy = (\<lambda>_. Inr (sample_policy 2)),
     rn_preflight = \<lparr>pf_production_execution_enabled = False, pf_real_write_gate = None, pf_real_write_gates = None,
       pf_writer_step_types = [ST_VENDOR_BILL], pf_staging_execution_step_types = [], pf_production_operations_enabled = True\<rparr>,
     rn_write_authorizations = Some (\<lambda>_ _. Some 2), rn_claim_time = 200, rn_preflight_time = 300\<rparr>"

definition sample_session :: "nat hub_session" where
  "sample_session = \<lparr>hs_env = \<lparr>en_store = empty_db, en_uuid = 0, en_world = 1\<rparr>, hs_authorizations = [], hs_committed = (empty_db, [])\<rparr>"

definition sample_direct_request :: "run_command \<Rightarrow> execution_request" where
  "sample_direct_request c = \<lparr>rq_execution_id = accepted_decision_execution_id c sample_decision, rq_review_id = ''r1'', rq_company_id = 1,
      rq_decision_version = 2, rq_decision_id = None, rq_idempotency_key = None, rq_mode = xc_mode c,
      rq_selected_workflow = Some WF_VENDOR_BILL, rq_business_context_allocations = None,
      rq_accepted_billing_instructions = [], rq_selected_quotation_scenario_ids = []\<rparr>"

lemma execution_id_not_blank: "\<not> blank (accepted_decision_execution_id c d)"
  by (simp add: accepted_decision_execution_id_def blank_eval)

lemma sample_direct_valid:
  "accepted_execution_request c sample_decision [] = Inr (sample_direct_request c)" "valid_request (sample_direct_request c)"
  using execution_id_not_blank [of c sample_decision]
  by (simp_all add: accepted_execution_request_def mk_checked_Inr_iff sample_direct_request_def sample_decision_def valid_request_def
      valid_by_def execution_request_checks_def blank_eval)

lemma sample_direct_plan:
  "\<exists>p. planner_plan (sample_direct_request c) = Inr p \<and> map st_step_type (pl_steps p) = [ST_VENDOR_BILL]
     \<and> list_all st_execute_supported (pl_steps p)"
  using execution_id_not_blank [of c sample_decision]
  by (simp add: planner_eval sample_direct_request_def blank_eval execution_idempotency_key_def)

lemma sample_ports_ok: "ports_ok sample_ports" "never_raises (rn_strategy_resolver sample_ports)"
  "rn_retry_policy sample_ports p = Inr (sample_policy 2)" "rn_strategy_resolver sample_ports = flaky_resolver"
  using flaky_valid sample_policy_valid [of 2] by (simp_all add: ports_ok_def sample_ports_def sample_decision_def)

lemma sample_runs:
  assumes "hs_env s = \<lparr>en_store = empty_db, en_uuid = 0, en_world = 1\<rparr>" "planner_plan (sample_direct_request c) = Inr p"
    and "map st_step_type (pl_steps p) = [ST_VENDOR_BILL]" "valid_by run_command_checks c"
  shows "\<exists>x s'. run_planned sample_uuid4 sample_ports c p approval s = (Inr x, s') \<and> xe_execution_id x \<noteq> None
    \<and> xe_runtime_state x = Some X_COMPLETED \<and> en_world (hs_env s') = 2"
proof -
  let ?co = "db_coordinator (rn_strategy_resolver sample_ports) sample_uuid4"
  let ?i1 = "''execution-event:''" and ?i2 = "''execution-event:u''"
  have plan: "planned p" using planner_planned(1) [OF sample_direct_valid(2) assms(2)] .
  obtain key where key: "pl_idempotency_key p = Some key" using planner_plan_Inr [OF assms(2)] by metis
  let ?sn = "initial_snapshot p (sample_policy 2) key (Some ?i2)"
  note fresh = create_fresh [where ?id1.0 = "?i1" and ?id2.0 = "?i2", OF empty_db_inv plan sample_policy_valid [of 2] key]
  have cr: "create_from_plan ?i1 ?i2 p (sample_policy 2) empty_db = (Inr ?sn, created_db empty_db ?sn ?i1 ?i2)"
    by (rule fresh(1)) (simp_all add: empty_db_def blank_eval)
  have st: "stored (created_db empty_db ?sn ?i1 ?i2) ?sn (created_events (pl_execution_id p) ?i1 ?i2)"
    by (rule fresh(2)) (simp_all add: empty_db_def blank_eval)
  obtain y e1 where y: "create_or_load ?co create_from_plan db_history p (sample_policy 2) (hs_env s) = (Inr y, e1)"
      "rt_snapshot y = ?sn" "en_store e1 = created_db empty_db ?sn ?i1 ?i2" "en_world e1 = 1"
    using cr stored_history [OF st] assms(1)
    by (simp add: create_or_load_def act_bind_def on_store_def event_identifier_def db_coordinator_def sample_uuid4_def
        mk_checked_def runtime_checks_def)
  have d: "driven sample_uuid4 (hs_env s)" unfolding assms(1) empty_db_def by (rule driven.start)
  have nt: "\<not> terminal (sn_state (rt_snapshot y))" by (simp add: y(2) initial_snapshot_def TERMINAL_EXECUTION_STATES_def)
  have st1: "stored (en_store e1) (rt_snapshot y) (created_events (pl_execution_id p) ?i1 ?i2)" using st y(2,3) by simp
  obtain x s' sn' where x: "run_planned sample_uuid4 sample_ports c p approval s = (Inr x, s')" "xe_execution_id x \<noteq> None"
      "xe_runtime_state x = Some (sn_state sn')"
      "run.run_result flaky_resolver sample_uuid4 approval ?sn 1 sn' (en_world (hs_env s'))
        (fst (co_resume ?co approval (sn_execution_id ?sn) e1))"
    using run_planned_returns [OF d sample_uuid4_inj sample_ports_ok(1,2) plan sample_ports_ok(3) assms(4) y(1) st1 nt, of approval] y(2,4)
    by (auto simp: sample_ports_ok(4))
  have e1: "driven sample_uuid4 e1" using driven.create [OF d plan sample_policy_valid [of 2], of "rn_strategy_resolver sample_ports"] y(1) by simp
  obtain z e2 where "co_resume ?co approval (sn_execution_id ?sn) e1 = (Inr z, e2)"
    using resume_returns [OF e1 sample_uuid4_inj stored_get [OF st1] nt _ sample_ports_ok(2), of approval] sample_ports_ok(1) y(2)
    by (auto simp: ports_ok_def)
  with x(4) obtain n xs where n: "performed (db_coordinator flaky_resolver sample_uuid4) approval ?sn (take n (pending_steps ?sn)) 1 xs (en_world (hs_env s'))"
      "loop_outcome X_COMPLETED ?sn (pending_steps ?sn) sn' n xs"
    unfolding run.run_result_def by auto
  have len: "length (pending_steps ?sn) = 1"
    using arg_cong [OF assms(3), of length] by (simp add: pending_steps_def initial_snapshot_def initial_runtime_step_def length_filter_conv_card)
  note f = performed_flaky [OF n(1)]
  have "list_all (\<lambda>x. \<not> is_failure x) xs" using f by simp
  then have "sn_state sn' = X_COMPLETED \<and> n = 1" using n(2) len by (cases xs rule: rev_cases) (auto simp: loop_outcome_def)
  with f len x show ?thesis by auto
qed

lemma sample_served: "served sample_uuid4 sample_session"
  unfolding sample_session_def by (rule served.start)

lemma sample_accepted:
  assumes "planner_plan (sample_direct_request (sample_command mode a)) = Inr p"
    and "authorize_execution sample_ports (sample_command mode a) sample_decision (sample_direct_request (sample_command mode a)) p s = (Inr approval, s1)"
    and "run_planned sample_uuid4 sample_ports (sample_command mode a) p approval s1 = (Inr x, s')"
  shows "execute_accepted_decision sample_uuid4 sample_ports (sample_command mode a) s = (Inr x, s')"
proof -
  have "accepted_billing_instructions sample_ports sample_decision = Inr []" "rn_get_accepted_decision sample_ports i k v = Inr sample_decision"
      "ad_decision_type sample_decision = SELECT_WORKFLOW" for i k v
    by (simp_all add: accepted_billing_instructions_def has_customer_invoice_creation_allocations_def sample_decision_def sample_ports_def)
  with assms sample_direct_valid(1) show ?thesis
    by (simp add: execute_accepted_decision_def in_transaction_def run_accepted_decision_def act_bind_def)
qed

lemma sample_dry_run:
  obtains x s' where "execute_accepted_decision sample_uuid4 sample_ports (sample_command DRY_RUN None) sample_session = (Inr x, s')"
    "xe_runtime_state x = Some X_COMPLETED"
proof -
  let ?c = "sample_command DRY_RUN None"
  obtain p where p: "planner_plan (sample_direct_request ?c) = Inr p" "map st_step_type (pl_steps p) = [ST_VENDOR_BILL]"
    using sample_direct_plan [of ?c] by (elim exE conjE)
  have "valid_by run_command_checks ?c" by (simp add: sample_command_def valid_by_def run_command_checks_def blank_eval)
  with sample_runs [OF _ p, of sample_session "xc_approval ?c"] obtain x s' where
    "run_planned sample_uuid4 sample_ports ?c p (xc_approval ?c) sample_session = (Inr x, s')" "xe_runtime_state x = Some X_COMPLETED"
    by (auto simp: sample_session_def)
  moreover have "authorize_execution sample_ports ?c sample_decision (sample_direct_request ?c) p sample_session = (Inr (xc_approval ?c), sample_session)"
    by (simp add: authorize_execution_def sample_command_def)
  ultimately show thesis using that sample_accepted [OF p(1)] by blast
qed

definition sample_issue_ports :: issue_ports where
  "sample_issue_ports = \<lparr>is_get_review_version = (\<lambda>_ _. Inr 2), is_get_accepted_decision = (\<lambda>_ _ _. Inr sample_decision),
     is_get_source_invoice = (\<lambda>_ _ _. Inr ())\<rparr>"

definition sample_issued :: "nat hub_session" where
  "sample_issued = snd (create_write_authorization sample_issue_ports 0 0 ''a1'' 1 ''r1'' 2 EXECUTE_VENDOR_BILL ''operator'' None sample_session)"

lemma sample_issued_served: "served sample_uuid4 sample_issued"
  unfolding sample_issued_def by (rule served.issue [OF sample_served])

lemma sample_issued_eq:
  "sample_issued = sample_session\<lparr>hs_authorizations := [new_row 0 ''a1'' 1 ''r1'' EXECUTE_VENDOR_BILL 2 ''operator'' 900000000 None],
     hs_committed := (empty_db, [new_row 0 ''a1'' 1 ''r1'' EXECUTE_VENDOR_BILL 2 ''operator'' 900000000 None])\<rparr>"
  by (simp add: sample_issued_def create_write_authorization_def in_transaction_def ensure_scope_is_authorizable_def sample_issue_ports_def
      sample_decision_def on_authorizations_def auth_create_def insert_violates_def record_from_model_def mk_checked_def
      authorization_checks_def new_row_def hub_commit_def act_bind_def sample_session_def WRITE_AUTHORIZATION_TTL_def blank_eval Let_def)

lemma sample_authorized_run:
  obtains x s' where "execute_accepted_decision sample_uuid4 sample_ports (sample_command EXECUTE (Some ''a1'')) sample_issued = (Inr x, s')"
    "xe_execution_id x \<noteq> None" "en_world (hs_env s') = 2"
proof -
  let ?c = "sample_command EXECUTE (Some ''a1'')"
  obtain p where p: "planner_plan (sample_direct_request ?c) = Inr p" "map st_step_type (pl_steps p) = [ST_VENDOR_BILL]"
      "list_all st_execute_supported (pl_steps p)"
    using sample_direct_plan [of ?c] by (elim exE conjE)
  then obtain step where step: "pl_steps p = [step]" "st_step_type step = ST_VENDOR_BILL" "st_execute_supported step" by auto
  have pq: "pl_company_id p = 1" "pl_review_id p = ''r1''" "pl_decision_version p = 2" "pl_mode p = EXECUTE"
      "pl_execution_id p = rq_execution_id (sample_direct_request ?c)"
    using planner_planned(2-) [OF sample_direct_valid(2) p(1)] by (simp_all add: sample_direct_request_def sample_command_def)
  have id: "rq_execution_id (sample_direct_request ?c) \<noteq> []"
    using execution_id_not_blank [of ?c sample_decision] by (auto simp: sample_direct_request_def)
  obtain approval s1 where a: "authorize_execution sample_ports ?c sample_decision (sample_direct_request ?c) p sample_issued = (Inr approval, s1)"
      "hs_env s1 = hs_env sample_issued"
    using pq step id
    by (simp add: authorize_execution_def claim_authorization_def sample_ports_def sample_command_def sample_decision_def)
       (simp add: act_bind_def on_authorizations_def claim_and_consume_def claim_and_consume_at_def auth_row_def sample_issued_eq new_row_def
        claim_checks_def ensure_target_still_valid_def record_from_model_def consumed_row_def or_else_def or_else_text_def
        mk_checked_def authorization_checks_def effective_approval_def execution_approval_checks_def blank_eval
        run_preflight_def on_env_def on_world_def ensure_execute_allowed_def authorization_allows_def ensure_execution_scope_def
        ensure_scope_def is_expired_def preflight_guards_def gate_for_def ensure_plan_supports_mode_def supports_step_def flaky_resolve)
  have "valid_by run_command_checks ?c" by (simp add: sample_command_def valid_by_def run_command_checks_def blank_eval)
  moreover have "hs_env s1 = \<lparr>en_store = empty_db, en_uuid = 0, en_world = 1\<rparr>" using a(2) by (simp add: sample_issued_eq sample_session_def)
  ultimately obtain x s' where "run_planned sample_uuid4 sample_ports ?c p approval s1 = (Inr x, s')" "xe_execution_id x \<noteq> None" "en_world (hs_env s') = 2"
    using sample_runs [OF _ p(1,2)] by blast
  with that sample_accepted [OF p(1) a(1)] show thesis by blast
qed

theorem commands_all_or_nothing_witness:
  "\<exists>r s'. execute_accepted_decision sample_uuid4 sample_ports (sample_command EXECUTE None) sample_session = (r, s')
     \<and> hs_committed s' = (en_store (hs_env s'), hs_authorizations s')"
  using commands_all_or_nothing [OF sample_served sample_uuid4_inj sample_ports_ok(1)] by (metis surjective_pairing)

theorem production_disabled_never_writes_witness:
  "\<exists>r s'. execute_accepted_decision sample_uuid4 sample_ports (sample_command EXECUTE None) sample_session = (r, s')
     \<and> en_world (hs_env s') = 1"
proof -
  obtain r s' where run: "execute_accepted_decision sample_uuid4 sample_ports (sample_command EXECUTE None) sample_session = (r, s')" by fastforce
  from production_disabled_never_writes [OF sample_served sample_uuid4_inj sample_ports_ok(1) run] run show ?thesis
    by (simp add: sample_command_def sample_ports_def sample_session_def)
qed

theorem finished_dry_run_replays_witness:
  "\<exists>x s' s''. execute_accepted_decision sample_uuid4 sample_ports (sample_command DRY_RUN None) sample_session = (Inr x, s')
     \<and> execute_accepted_decision sample_uuid4 sample_ports (sample_command DRY_RUN None) s' = (Inr x, s'') \<and> hs_committed s'' = hs_committed s'"
proof -
  obtain x s' where run: "execute_accepted_decision sample_uuid4 sample_ports (sample_command DRY_RUN None) sample_session = (Inr x, s')"
      "xe_runtime_state x = Some X_COMPLETED"
    by (rule sample_dry_run)
  from finished_dry_run_replays [OF sample_served sample_uuid4_inj sample_ports_ok(1) run(1) _ run(2)] run(1) show ?thesis
    by (auto simp: sample_command_def TERMINAL_EXECUTION_STATES_def)
qed


theorem authorized_runs_consume_witness:
  "\<exists>x s' w. execute_accepted_decision sample_uuid4 sample_ports (sample_command EXECUTE (Some ''a1'')) sample_issued = (Inr x, s')
     \<and> w \<in> set (snd (hs_committed s')) \<and> wa_status w = WA_CONSUMED"
proof -
  obtain x s' where run: "execute_accepted_decision sample_uuid4 sample_ports (sample_command EXECUTE (Some ''a1'')) sample_issued = (Inr x, s')"
      "xe_execution_id x \<noteq> None"
    by (rule sample_authorized_run)
  from authorized_runs_consume [OF sample_issued_served sample_uuid4_inj sample_ports_ok(1) run(1) _ _ run(2), of "''a1''"] run(1) show ?thesis
    by (auto simp: sample_command_def)
qed

theorem issued_authorization_admits_claim_witness:
  "\<exists>w s' w' t'. create_write_authorization sample_issue_ports 0 0 ''a1'' 1 ''r1'' 2 EXECUTE_VENDOR_BILL ''operator'' None sample_session = (Inr w, s')
     \<and> claim_and_consume 200 (\<lambda>_ _. Some 2) ((sample_claim ''t'')\<lparr>cr_authorization_id := ''a1''\<rparr>) (hs_authorizations s') = (Inr w', t')"
proof -
  obtain w s' where run: "create_write_authorization sample_issue_ports 0 0 ''a1'' 1 ''r1'' 2 EXECUTE_VENDOR_BILL ''operator'' None sample_session = (Inr w, s')"
    by (simp add: create_write_authorization_def in_transaction_def ensure_scope_is_authorizable_def sample_issue_ports_def
      sample_decision_def on_authorizations_def auth_create_def insert_violates_def record_from_model_def mk_checked_def
      authorization_checks_def new_row_def hub_commit_def act_bind_def sample_session_def WRITE_AUTHORIZATION_TTL_def blank_eval Let_def)
  note issued = issued_authorization_admits_claim [OF sample_served sample_uuid4_inj run, THEN conjunct2, THEN conjunct2, THEN conjunct2,
      THEN conjunct2, THEN conjunct2, THEN conjunct2, rule_format, of 200 "\<lambda>_ _. Some 2" "''exec-1''" "Some ''t''"]
  from issued run show ?thesis by (auto simp: sample_claim_def)
qed

end
