(* ===== verification/Invoice_Data.thy ===== *)
theory Invoice_Data
  imports Prelude Py_Decimal
begin

text \<open>
  The parsed invoice and the records of the ERP that the matchers read:
  \<^verbatim>\<open>app/domain/invoice/dto.py\<close>, \<^verbatim>\<open>app/domain/invoice/source_profiles.py\<close> and \<^verbatim>\<open>app/erp/models.py\<close>.
  A date is its year, month and day, a time its hour, minute, second and microsecond.
\<close>

section \<open>Invoices\<close>

type_synonym py_date = "int \<times> int \<times> int"
type_synonym py_time = "int \<times> int \<times> int \<times> int"

record address =
  ad_street :: "string option"
  ad_building_number :: "string option"
  ad_city :: "string option"
  ad_district :: "string option"
  ad_postal_code :: "string option"
  ad_country :: "string option"

record party =
  py_name :: "string option"
  py_tax_number :: "string option"
  py_tax_office :: "string option"
  py_mersis_number :: "string option"
  py_website :: "string option"
  py_emails :: "string list"
  py_phones :: "string list"
  py_addresses :: "address list"

record header =
  hd_invoice_number :: string
  hd_invoice_uuid :: string
  hd_ettn :: "string option"
  hd_invoice_type :: "string option"
  hd_profile_id :: "string option"
  hd_issue_date :: "py_date option"
  hd_issue_time :: "py_time option"
  hd_currency_code :: "string option"
  hd_exchange_rate :: "decimal option"
  hd_notes :: "string list"

record monetary_totals =
  mt_line_extension_amount :: "decimal option"
  mt_tax_exclusive_amount :: "decimal option"
  mt_tax_inclusive_amount :: "decimal option"
  mt_allowance_total :: "decimal option"
  mt_charge_total :: "decimal option"
  mt_payable_amount :: "decimal option"
  mt_rounding_amount :: "decimal option"

record invoice_tax =
  it_tax_type :: "string option"
  it_rate :: "decimal option"
  it_base_amount :: "decimal option"
  it_tax_amount :: "decimal option"
  it_exemption_reason :: "string option"

record discount =
  dc_amount :: "decimal option"
  dc_reason :: "string option"
  dc_rate :: "decimal option"

definition DESCRIPTION_SOURCE_DESCRIPTION :: string where
  "DESCRIPTION_SOURCE_DESCRIPTION = ''Description''"

record invoice_line =
  ln_line_number :: "string option"
  ln_description :: "string option"
  ln_description_source :: "string option"
  ln_seller_item_code :: "string option"
  ln_buyer_item_code :: "string option"
  ln_barcode :: "string option"
  ln_manufacturer_item_code :: "string option"
  ln_commodity_classification :: "string option"
  ln_quantity :: "decimal option"
  ln_unit_code :: "string option"
  ln_unit_price :: "decimal option"
  ln_line_extension_amount :: "decimal option"
  ln_discounts :: "discount list"
  ln_taxes :: "invoice_tax list"

record attachment =
  at_filename :: "string option"
  at_mime_type :: "string option"
  at_sha256 :: "string option"
  at_size :: "int option"

record internal_invoice =
  iv_header :: header
  iv_supplier :: party
  iv_customer :: party
  iv_totals :: monetary_totals
  iv_lines :: "invoice_line list"
  iv_attachments :: "attachment list"

section \<open>Source profiles\<close>

definition VITEL_SUPPLIER_VKN :: string where
  "VITEL_SUPPLIER_VKN = ''9250020961''"

definition PRODUCT_SOURCE_SUPPLIER_VKNS :: "string list" where
  "PRODUCT_SOURCE_SUPPLIER_VKNS = [VITEL_SUPPLIER_VKN]"

text \<open>
  The whole value has the form of \<^verbatim>\<open>[0-9]{4,6}\.[0-9][0-9A-Z]{1,9}\<close>. The digits before the dot are
  all the leading digits of the value, since a dot is none.
\<close>

definition is_manageengine_sku :: "string \<Rightarrow> bool" where
  "is_manageengine_sku v \<longleftrightarrow> (case dropWhile is_digit v of
     dot # d # rest \<Rightarrow> 4 \<le> length (takeWhile is_digit v) \<and> length (takeWhile is_digit v) \<le> 6 \<and> dot = CHR ''.'' \<and> is_digit d
       \<and> 1 \<le> length rest \<and> length rest \<le> 9 \<and> list_all (\<lambda>c. is_digit c \<or> ascii_upper c) rest
   | _ \<Rightarrow> False)"

definition is_product_source_supplier :: "internal_invoice \<Rightarrow> bool" where
  "is_product_source_supplier invoice = (case py_tax_number (iv_supplier invoice) of
     None \<Rightarrow> False | Some vkn \<Rightarrow> py_strip vkn \<in> set PRODUCT_SOURCE_SUPPLIER_VKNS)"

definition profile_manufacturer_sku :: "internal_invoice \<Rightarrow> invoice_line \<Rightarrow> string option" where
  "profile_manufacturer_sku invoice line = (case py_tax_number (iv_supplier invoice) of
     None \<Rightarrow> None
   | Some vkn \<Rightarrow>
       if py_strip vkn \<noteq> VITEL_SUPPLIER_VKN then None
       else if ln_description_source line \<noteq> Some DESCRIPTION_SOURCE_DESCRIPTION then None
       else case ln_description line of None \<Rightarrow> None
         | Some description \<Rightarrow> let candidate = py_strip description in
             if is_manageengine_sku candidate then Some candidate else None)"

section \<open>ERP records\<close>

record partner =
  pr_id :: int
  pr_name :: "string option"
  pr_tax_number :: "string option"
  pr_active :: bool
  pr_company_id :: "int option"
  pr_company_type :: "string option"
  pr_parent_id :: "int option"
  pr_commercial_partner_id :: "int option"
  pr_street :: "string option"
  pr_street2 :: "string option"
  pr_zip_code :: "string option"
  pr_city :: "string option"
  pr_state_id :: "int option"
  pr_country_id :: "int option"
  pr_email :: "string option"
  pr_phone :: "string option"
  pr_mobile :: "string option"
  pr_website :: "string option"
  pr_supplier_rank :: "int option"
  pr_customer_rank :: "int option"

record product =
  pd_id :: int
  pd_name :: "string option"
  pd_default_code :: "string option"
  pd_barcode :: "string option"
  pd_active :: bool
  pd_company_id :: "int option"
  pd_product_tmpl_id :: "int option"

record supplier_product_code =
  sp_id :: int
  sp_partner_id :: int
  sp_product_code :: string
  sp_product_tmpl_id :: int
  sp_product_id :: "int option"
  sp_company_id :: "int option"

record product_variant =
  pv_id :: int
  pv_product_tmpl_id :: int
  pv_active :: bool
  pv_company_id :: "int option"

text \<open>\<^verbatim>\<open>_clean\<close> of the matchers: the stripped text, and nothing for blank text.\<close>

definition clean_text :: "string option \<Rightarrow> string option" where
  "clean_text v = (case v of None \<Rightarrow> None | Some s \<Rightarrow> let c = py_strip s in if c = [] then None else Some c)"

end
