(* ===== verification/Py_Decimal_Ops.thy ===== *)
theory Py_Decimal_Ops
  imports Py_Decimal
begin

text \<open>
  The rest of \<^verbatim>\<open>decimal.Decimal\<close> that the money code uses: products, differences, absolute values,
  division in a context of any precision, \<^verbatim>\<open>quantize\<close>, and the comparisons of numbers that need not
  be finite. What raises \<^verbatim>\<open>decimal.InvalidOperation\<close> returns \<^verbatim>\<open>None\<close>.
\<close>

section \<open>Definitions\<close>

definition dec_zero :: decimal where
  "dec_zero = Dec False 0 0"

definition dec_is_zero :: "decimal \<Rightarrow> bool" where
  "dec_is_zero d \<longleftrightarrow> (case d of Dec _ c _ \<Rightarrow> c = 0 | _ \<Rightarrow> False)"

fun dec_negative :: "decimal \<Rightarrow> bool" where
  "dec_negative (Dec neg _ _) = neg"
| "dec_negative (DecInf neg) = neg"
| "dec_negative DecNaN = False"

text \<open>\<^verbatim>\<open>copy_negate\<close>, and the unary operators, which round to the context.\<close>

fun dec_copy_negate :: "decimal \<Rightarrow> decimal" where
  "dec_copy_negate (Dec neg c e) = Dec (\<not> neg) c e"
| "dec_copy_negate (DecInf neg) = DecInf (\<not> neg)"
| "dec_copy_negate DecNaN = DecNaN"

fun dec_abs :: "decimal \<Rightarrow> decimal" where
  "dec_abs (Dec neg c e) = dec_fix (Dec False c e)"
| "dec_abs (DecInf _) = DecInf False"
| "dec_abs DecNaN = DecNaN"

text \<open>\<^verbatim>\<open>a + b\<close> and \<^verbatim>\<open>a - b\<close>: the difference of equal infinities raises.\<close>

definition dec_plus :: "decimal \<Rightarrow> decimal \<Rightarrow> decimal option" where
  "dec_plus a b = (case (a, b) of (DecInf m, DecInf n) \<Rightarrow> if m = n then Some a else None | _ \<Rightarrow> Some (dec_add a b))"

definition dec_minus :: "decimal \<Rightarrow> decimal \<Rightarrow> decimal option" where
  "dec_minus a b = dec_plus a (dec_copy_negate b)"

fun dec_total :: "decimal \<Rightarrow> decimal list \<Rightarrow> decimal option" where
  "dec_total acc [] = Some acc"
| "dec_total acc (d # ds) = Option.bind (dec_plus acc d) (\<lambda>s. dec_total s ds)"

text \<open>\<^verbatim>\<open>a * b\<close>: an infinity times zero raises.\<close>

fun dec_times :: "decimal \<Rightarrow> decimal \<Rightarrow> decimal option" where
  "dec_times (Dec n1 c1 e1) (Dec n2 c2 e2) = Some (dec_fix (Dec (n1 \<noteq> n2) (c1 * c2) (e1 + e2)))"
| "dec_times DecNaN _ = Some DecNaN"
| "dec_times _ DecNaN = Some DecNaN"
| "dec_times (DecInf n) b = (if dec_is_zero b then None else Some (DecInf (n \<noteq> dec_negative b)))"
| "dec_times a (DecInf n) = (if dec_is_zero a then None else Some (DecInf (dec_negative a \<noteq> n)))"

text \<open>Rounding to a context of \<^verbatim>\<open>p\<close> digits.\<close>

fun dec_round :: "nat \<Rightarrow> decimal \<Rightarrow> decimal" where
  "dec_round p (Dec neg c e) =
     (if ndigits c \<le> p then Dec neg c e
      else let k = ndigits c - p; q = round_half_even c k in
        if p < ndigits q then Dec neg (q div 10) (e + int k + 1) else Dec neg q (e + int k))"
| "dec_round p d = d"

text \<open>
  \<^verbatim>\<open>a / b\<close> of finite numbers, \<^verbatim>\<open>b\<close> not zero, in a context of \<^verbatim>\<open>p\<close> digits: the quotient is computed to
  at least \<^verbatim>\<open>p + 1\<close> digits, an inexact one is made to end in a digit that is neither 0 nor 5, an exact
  one is shortened towards the ideal exponent.
\<close>

function strip_to :: "int \<Rightarrow> nat \<Rightarrow> int \<Rightarrow> nat \<times> int" where
  "strip_to ideal c e = (if e < ideal \<and> c mod 10 = 0 then strip_to ideal (c div 10) (e + 1) else (c, e))"
  by pat_completeness auto
termination
  by (relation "measure (\<lambda>(ideal, c, e). nat (ideal - e))") auto

declare strip_to.simps [simp del]

fun dec_divide :: "nat \<Rightarrow> decimal \<Rightarrow> decimal \<Rightarrow> decimal" where
  "dec_divide p (Dec n1 c1 e1) (Dec n2 c2 e2) =
     (if c1 = 0 then Dec (n1 \<noteq> n2) 0 (e1 - e2)
      else
        let shift = int (ndigits c2) - int (ndigits c1) + int p + 1;
            x = e1 - e2 - shift;
            (q, r) = (if 0 \<le> shift then ((c1 * 10 ^ nat shift) div c2, (c1 * 10 ^ nat shift) mod c2)
                      else (c1 div (c2 * 10 ^ nat (- shift)), c1 mod (c2 * 10 ^ nat (- shift))));
            (c, e) = (if r \<noteq> 0 then (if q mod 5 = 0 then q + 1 else q, x) else strip_to (e1 - e2) q x)
        in dec_round p (Dec (n1 \<noteq> n2) c e))"
| "dec_divide p _ _ = DecNaN"

text \<open>The coefficient without its last \<^verbatim>\<open>k\<close> digits, a half rounded away from zero.\<close>

definition round_half_up :: "nat \<Rightarrow> nat \<Rightarrow> nat" where
  "round_half_up c k = (if 10 ^ k \<le> 2 * (c mod 10 ^ k) then c div 10 ^ k + 1 else c div 10 ^ k)"

text \<open>
  \<^verbatim>\<open>a.quantize(Decimal(1).scaleb(x), rounding)\<close> of a finite number: the multiple of \<^verbatim>\<open>10 ** x\<close> that the
  rounding picks, if it has at most 28 digits.
\<close>

fun dec_quantize :: "(nat \<Rightarrow> nat \<Rightarrow> nat) \<Rightarrow> decimal \<Rightarrow> int \<Rightarrow> decimal option" where
  "dec_quantize rounding (Dec neg c e) x =
     (if c = 0 then Some (Dec neg 0 x)
      else if int dec_prec < e + int (ndigits c) - x then None
      else let q = (if x \<le> e then c * 10 ^ nat (e - x) else rounding c (nat (x - e))) in
        if dec_prec < ndigits q then None else Some (Dec neg q x))"
| "dec_quantize rounding (DecInf neg) x = None"
| "dec_quantize rounding DecNaN x = Some DecNaN"

text \<open>\<^verbatim>\<open>a == b\<close>, and \<^verbatim>\<open>a > b\<close>, which raises on NaN.\<close>

definition dec_same :: "decimal \<Rightarrow> decimal \<Rightarrow> bool" where
  "dec_same a b = (case (a, b) of
     (Dec _ _ _, Dec _ _ _) \<Rightarrow> dec_eq a b | (DecInf m, DecInf n) \<Rightarrow> m = n | _ \<Rightarrow> False)"

definition dec_gt :: "decimal \<Rightarrow> decimal \<Rightarrow> bool option" where
  "dec_gt a b = (case (a, b) of
     (DecNaN, _) \<Rightarrow> None | (_, DecNaN) \<Rightarrow> None
   | (DecInf m, DecInf n) \<Rightarrow> Some (\<not> m \<and> n)
   | (DecInf m, _) \<Rightarrow> Some (\<not> m)
   | (_, DecInf n) \<Rightarrow> Some n
   | _ \<Rightarrow> Some (dec_less b a))"

text \<open>\<^verbatim>\<open>bool(d)\<close>\<close>

definition dec_truth :: "decimal \<Rightarrow> bool" where
  "dec_truth d \<longleftrightarrow> \<not> dec_is_zero d"

section \<open>Values\<close>

lemma dec_round_prec: "dec_round dec_prec d = dec_fix d"
  by (cases d) (simp_all add: dec_fix.simps)

lemma dec_abs_val: "on_grid (10 ^ 28) d \<Longrightarrow> dec_val (dec_abs d) = \<bar>dec_val d\<bar> \<and> dec_is_finite (dec_abs d)"
proof -
  assume grid: "on_grid (10 ^ 28) d"
  then obtain neg c e where d: "d = Dec neg c e" by (auto simp: on_grid_def dec_finite_cases)
  have v: "dec_val (Dec False c e) = \<bar>dec_val d\<bar>" by (simp add: d signed_def abs_mult)
  have "on_grid (10 ^ 28) (Dec False c e)"
  proof -
    obtain m where "dec_val d * 10 ^ 6 = of_int m" "\<bar>m\<bar> < int (10 ^ 28)" using grid by (auto simp: on_grid_def)
    then have "\<bar>dec_val d\<bar> * 10 ^ 6 = of_int \<bar>m\<bar> \<and> \<bar>\<bar>m\<bar>\<bar> < int (10 ^ 28)"
      by (metis abs_idempotent abs_mult abs_numeral of_int_abs power_abs)
    then show ?thesis unfolding on_grid_def v by (intro conjI exI [of _ "\<bar>m\<bar>"]) (simp_all add: dec_is_finite_def)
  qed
  then have "dec_val (dec_fix (Dec False c e)) = \<bar>dec_val d\<bar>" using dec_fix_grid v by simp
  then show ?thesis by (simp add: d dec_fix_finite) (simp add: dec_is_finite_def)
qed

text \<open>Rounding half up is rounding to the nearest multiple, a tie away from zero.\<close>

lemma round_half_up_floor: "int (round_half_up c k) = \<lfloor>(of_nat c / 10 ^ k + 1 / 2 :: rat)\<rfloor>"
proof -
  let ?t = "(10::nat) ^ k"
  let ?q = "c div ?t" and ?r = "c mod ?t"
  define x :: rat where "x = of_nat ?r / 10 ^ k"
  have "(of_nat c :: rat) = of_nat (?q * ?t + ?r)" by (simp only: div_mult_mod_eq)
  then have c: "(of_nat c :: rat) / 10 ^ k = of_nat ?q + x"
    unfolding x_def by (simp only: of_nat_add of_nat_mult add_divide_distrib) simp
  have x: "0 \<le> x" "x < 1" unfolding x_def using mod_less_divisor [of ?t c] by (simp_all flip: of_nat_power)
  have "?t \<le> 2 * ?r \<longleftrightarrow> (of_nat ?t :: rat) \<le> of_nat (2 * ?r)" by (simp only: of_nat_le_iff)
  then have half: "?t \<le> 2 * ?r \<longleftrightarrow> 1 / 2 \<le> x" by (simp add: x_def field_simps)
  have "\<lfloor>(of_nat c / 10 ^ k + 1 / 2 :: rat)\<rfloor> = (if 1 / 2 \<le> x then int ?q + 1 else int ?q)"
    unfolding c using x by (intro floor_unique) auto
  then show ?thesis by (simp add: round_half_up_def half)
qed

end
