(* ===== verification/Money.thy ===== *)
theory Money
  imports Invoice_Data Py_Decimal_Ops
begin

text \<open>
  Money at the precision of its currency: \<^verbatim>\<open>app/billing/money.py\<close> and
  \<^verbatim>\<open>app/billing/reconciliation.py\<close>. Two amounts reconcile when they are equal after rounding to the
  decimal places of the currency, a half away from zero. The theorems relate the decimal arithmetic to
  rounding of rational numbers.
\<close>

section \<open>Precision and rounding\<close>

datatype money_error = MonetaryPrecisionError string | DecimalInvalidOperation | AssertionError | RateValueError string

definition MAX_CURRENCY_DECIMAL_PLACES :: int where
  "MAX_CURRENCY_DECIMAL_PLACES = 6"

record monetary_precision =
  mp_decimal_places :: int

definition monetary_precision_checks :: "monetary_precision \<Rightarrow> money_error check list" where
  "monetary_precision_checks p =
     [(\<not> (0 \<le> mp_decimal_places p \<and> mp_decimal_places p \<le> MAX_CURRENCY_DECIMAL_PLACES),
       MonetaryPrecisionError ''Currency decimal_places must be an integer between 0 and 6.'')]"

definition quantum :: "monetary_precision \<Rightarrow> decimal" where
  "quantum p = Dec False 1 (- mp_decimal_places p)"

text \<open>An operation of \<^verbatim>\<open>Decimal\<close> that may raise.\<close>

definition dec_try :: "'a option \<Rightarrow> (money_error, 'a) result" where
  "dec_try v = (case v of None \<Rightarrow> Inl DecimalInvalidOperation | Some x \<Rightarrow> Inr x)"

definition currency_round :: "decimal \<Rightarrow> monetary_precision \<Rightarrow> (money_error, decimal) result" where
  "currency_round amount p =
     (if \<not> dec_is_finite amount then Inl (MonetaryPrecisionError ''A finite Decimal amount is required.'')
      else dec_try (dec_quantize round_half_up amount (dec_exponent (quantum p))))"

definition monetary_equal :: "decimal \<Rightarrow> decimal \<Rightarrow> monetary_precision \<Rightarrow> (money_error, bool) result" where
  "monetary_equal left right p =
     ebind (currency_round left p) (\<lambda>l. ebind (currency_round right p) (\<lambda>r. Inr (dec_same l r)))"

section \<open>Totals of the source invoice\<close>

record source_totals =
  so_untaxed :: "decimal option"
  so_tax :: "decimal option"
  so_total :: "decimal option"

definition source_monetary_totals :: "internal_invoice \<Rightarrow> (money_error, source_totals) result" where
  "source_monetary_totals invoice =
     (let taxes = concat (map (\<lambda>line. map it_tax_amount (ln_taxes line)) (iv_lines invoice)) in
      ebind (if list_ex (\<lambda>a. a = None) taxes then Inr None
             else ebind (dec_try (dec_total dec_zero (map the taxes))) (\<lambda>t. Inr (Some t))) (\<lambda>tax.
      Inr \<lparr>so_untaxed = mt_tax_exclusive_amount (iv_totals invoice), so_tax = tax,
           so_total = mt_tax_inclusive_amount (iv_totals invoice)\<rparr>))"

definition line_currency_subtotal :: "decimal \<Rightarrow> decimal \<Rightarrow> monetary_precision \<Rightarrow> (money_error, decimal) result" where
  "line_currency_subtotal quantity unit_price p = ebind (dec_try (dec_times quantity unit_price)) (\<lambda>a. currency_round a p)"

definition source_line_extension_amount :: "invoice_line \<Rightarrow> decimal option" where
  "source_line_extension_amount line = ln_line_extension_amount line"

definition opt_dec_text :: "decimal option \<Rightarrow> string" where
  "opt_dec_text v = (case v of None \<Rightarrow> ''None'' | Some d \<Rightarrow> dec_str d)"

fun monetary_mismatches ::
    "(string \<times> decimal option \<times> decimal option) list \<Rightarrow> monetary_precision \<Rightarrow> (money_error, string list) result" where
  "monetary_mismatches [] p = Inr []"
| "monetary_mismatches ((label, actual, expected) # checks) p =
     ebind (case (actual, expected) of
         (Some a, Some b) \<Rightarrow>
           ebind (monetary_equal a b p) (\<lambda>same.
           if same then Inr []
           else ebind (currency_round a p) (\<lambda>x. ebind (currency_round b p) (\<lambda>y.
             Inr [label @ '': '' @ dec_str x @ '' != '' @ dec_str y @ '' at '' @ int_str (mp_decimal_places p) @ '' decimal places''])))
       | _ \<Rightarrow> Inr [label @ '': amount unavailable (actual='' @ opt_dec_text actual @ '', expected='' @ opt_dec_text expected @ '')'']) (\<lambda>m.
     ebind (monetary_mismatches checks p) (\<lambda>ms. Inr (m @ ms)))"

section \<open>Rounding of rational numbers\<close>

text \<open>The nearest integer, a half away from zero.\<close>

definition half_away :: "rat \<Rightarrow> int" where
  "half_away x = (if x < 0 then - \<lfloor>- x + 1 / 2\<rfloor> else \<lfloor>x + 1 / 2\<rfloor>)"

lemma below_next: "(x::rat) < of_int \<lfloor>x\<rfloor> + 1"
  using floor_correct [of x] by simp

lemma half_away_near: "\<bar>of_int (half_away x) - x\<bar> \<le> 1 / 2"
proof (cases "x < 0")
  case True
  then show ?thesis using of_int_floor_le [of "- x + 1 / 2"] below_next [of "- x + 1 / 2"]
    unfolding half_away_def by (simp only: if_True of_int_minus abs_le_iff) linarith
next
  case False
  then show ?thesis using of_int_floor_le [of "x + 1 / 2"] below_next [of "x + 1 / 2"]
    unfolding half_away_def by (simp only: if_False abs_le_iff) linarith
qed

lemma half_away_neg: "0 \<le> x \<Longrightarrow> half_away (- x) = - half_away x"
  by (cases "x = 0") (simp_all add: half_away_def floor_eq_iff)

lemma half_away_int [simp]: "half_away (of_int i) = i"
proof -
  have "\<bar>(of_int (half_away (of_int i) - i) :: rat)\<bar> \<le> 1 / 2" using half_away_near [of "of_int i"] by simp
  then have "\<bar>half_away (of_int i) - i\<bar> < 1" by linarith
  then show ?thesis by simp
qed

text \<open>An amount in units of the smallest coin of the currency.\<close>

definition in_units :: "decimal \<Rightarrow> monetary_precision \<Rightarrow> rat" where
  "in_units d p = dec_val d * 10 ^ nat (mp_decimal_places p)"

definition valid_precision :: "monetary_precision \<Rightarrow> bool" where
  "valid_precision p \<longleftrightarrow> valid_by monetary_precision_checks p"

lemma valid_precision_iff: "valid_precision p \<longleftrightarrow> 0 \<le> mp_decimal_places p \<and> mp_decimal_places p \<le> 6"
  by (auto simp: valid_precision_def valid_by_def monetary_precision_checks_def MAX_CURRENCY_DECIMAL_PLACES_def)

text \<open>The magnitude below which every computation fits the 28 digits of the context.\<close>

definition moderate :: "decimal \<Rightarrow> bool" where
  "moderate d \<longleftrightarrow> dec_is_finite d \<and> \<bar>dec_val d\<bar> < 10 ^ 21"

lemma moderate_digits:
  assumes "moderate (Dec neg c e)" "c \<noteq> 0"
  shows "e + int (ndigits c) \<le> 21"
proof -
  have "\<bar>dec_val (Dec neg c e)\<bar> = of_nat c * 10 powi e" by (simp add: signed_def abs_mult)
  then have "of_nat c * (10::rat) powi e < 10 powi 21" using assms(1) by (simp add: moderate_def)
  moreover have "(10::rat) powi (int (ndigits c - 1) + e) \<le> of_nat c * 10 powi e"
    using ndigits_bounds [of c] assms(2)
    by (subst power_int_add) (simp_all only: power_int_of_nat, simp_all flip: of_nat_power)
  ultimately have "\<not> 21 \<le> int (ndigits c - 1) + e"
    using power_int_increasing [of 21 "int (ndigits c - 1) + e" "10::rat"] by auto
  then show ?thesis using ndigits_pos [of c] by linarith
qed

text \<open>Rounding moderate amounts always succeeds and is exact rounding to the units of the currency.\<close>

lemma quantize_units:
  assumes "moderate d" "0 \<le> n" "n \<le> 6"
  obtains r where "dec_quantize round_half_up d (- n) = Some r" "dec_is_finite r"
    "dec_val r * 10 ^ nat n = of_int (half_away (dec_val d * 10 ^ nat n))"
proof -
  obtain neg c e where d: "d = Dec neg c e" using assms(1) by (auto simp: moderate_def dec_finite_cases)
  define q where "q = (if - n \<le> e then c * 10 ^ nat (e + n) else round_half_up c (nat (- n - e)))"
  have unit: "dec_val (Dec neg m (- n)) * 10 ^ nat n = of_int (signed neg m)" for m
    using assms(2) by (simp add: power_int_minus flip: power_int_of_nat)
  have mag: "int q = half_away (of_nat c * 10 powi (e + n))"
  proof (cases "- n \<le> e")
    case True
    then have "(of_nat c * 10 powi (e + n) :: rat) = of_int (int (c * 10 ^ nat (e + n)))"
      by (simp flip: power_int_of_nat)
    with True show ?thesis by (simp only: q_def if_True half_away_int)
  next
    case False
    then have "(of_nat c * 10 powi (e + n) :: rat) = of_nat c / 10 ^ nat (- n - e)"
      by (simp add: power_int_def field_simps) (metis add.commute diff_conv_add_uminus minus_diff_eq uminus_add_conv_diff)
    moreover have "\<not> (of_nat c / 10 ^ nat (- n - e) :: rat) < 0" by (simp add: not_less)
    ultimately show ?thesis using False by (simp add: q_def half_away_def round_half_up_floor)
  qed
  have val: "dec_val d * 10 ^ nat n = of_int (signed neg c) * 10 powi (e + n)"
    using assms(2) by (simp add: d power_int_add flip: power_int_of_nat)
  have sgn: "signed neg q = half_away (dec_val d * 10 ^ nat n)"
    using mag half_away_neg [of "of_nat c * 10 powi (e + n)"] by (simp add: val signed_def)
  have "of_nat q \<le> of_nat c * (10::rat) powi (e + n) + 1 / 2"
  proof -
    have "\<bar>of_int (int q) - of_nat c * (10::rat) powi (e + n)\<bar> \<le> 1 / 2" unfolding mag by (rule half_away_near)
    then show ?thesis by (simp only: of_int_of_nat_eq abs_le_iff) linarith
  qed
  also have "\<dots> < 10 ^ 27 + 1 / 2"
  proof -
    have "of_nat c * (10::rat) powi (e + n) = \<bar>dec_val d\<bar> * 10 ^ nat n"
      using assms(2) by (simp add: d signed_def abs_mult power_int_add flip: power_int_of_nat)
    also have "\<dots> \<le> \<bar>dec_val d\<bar> * 10 ^ 6"
      using assms(2,3) by (intro mult_left_mono power_increasing) auto
    also have "\<dots> < 10 ^ 21 * 10 ^ 6" using assms(1) by (intro mult_strict_right_mono) (simp_all add: moderate_def)
    finally show ?thesis by simp
  qed
  finally have "(of_nat q :: rat) < of_nat (10 ^ 28)" by simp
  then have "q < 10 ^ 28" by (simp only: of_nat_less_iff)
  then have digits: "ndigits q \<le> dec_prec" by (intro ndigits_le) (simp_all add: dec_prec_def)
  show thesis
  proof (cases "c = 0")
    case True
    then have "q = 0" by (simp add: q_def round_half_up_def)
    with True have "dec_quantize round_half_up d (- n) = Some (Dec neg q (- n))" by (simp add: d)
    then show thesis using that [of "Dec neg q (- n)"] unit [of q] sgn by (simp add: dec_is_finite_def)
  next
    case False
    then have "e + int (ndigits c) \<le> 21" using moderate_digits assms(1) d by blast
    then have "dec_quantize round_half_up d (- n) = Some (Dec neg q (- n))"
      using False digits assms(2,3) by (auto simp: d q_def Let_def dec_prec_def split: if_splits)
    then show thesis using that [of "Dec neg q (- n)"] unit [of q] sgn by (simp add: dec_is_finite_def)
  qed
qed

lemma currency_round_units:
  assumes "moderate d" "valid_precision p"
  obtains r where "currency_round d p = Inr r" "dec_is_finite r" "in_units r p = of_int (half_away (in_units d p))"
proof -
  obtain r where "dec_quantize round_half_up d (- mp_decimal_places p) = Some r" "dec_is_finite r"
      "dec_val r * 10 ^ nat (mp_decimal_places p) = of_int (half_away (dec_val d * 10 ^ nat (mp_decimal_places p)))"
    using quantize_units [OF assms(1)] assms(2) unfolding valid_precision_iff by metis
  then show thesis using that assms(1) by (simp add: currency_round_def quantum_def dec_try_def moderate_def in_units_def)
qed

lemma in_units_same: "dec_is_finite a \<Longrightarrow> dec_is_finite b \<Longrightarrow> dec_same a b \<longleftrightarrow> in_units a p = in_units b p"
  using dec_compare_val(1) [of a b] by (auto simp: dec_finite_cases dec_same_def in_units_def)

lemma monetary_equal_units:
  assumes "moderate a" "moderate b" "valid_precision p"
  shows "monetary_equal a b p = Inr (half_away (in_units a p) = half_away (in_units b p))"
proof -
  obtain x where x: "currency_round a p = Inr x" "dec_is_finite x" "in_units x p = of_int (half_away (in_units a p))"
    using currency_round_units [OF assms(1,3)] .
  obtain y where y: "currency_round b p = Inr y" "dec_is_finite y" "in_units y p = of_int (half_away (in_units b p))"
    using currency_round_units [OF assms(2,3)] .
  have "dec_same x y \<longleftrightarrow> half_away (in_units a p) = half_away (in_units b p)"
    unfolding in_units_same [OF x(2) y(2), of p] x(3) y(3) by simp
  then show ?thesis by (simp add: monetary_equal_def x(1) y(1))
qed

text \<open>
  C28. Rounding to the currency is exact: for every amount below \<open>10 ^ 21\<close> it returns the multiple of the
  smallest unit nearest to the amount, a half going away from zero, and so never moves an amount by
  more than half a unit. Two amounts reconcile exactly when they round to the same number of units,
  however many digits they were written with.
\<close>

theorem currency_rounding_exact:
  assumes "moderate a" "moderate b" "valid_precision p"
  shows "(\<exists>r. currency_round a p = Inr r \<and> in_units r p = of_int (half_away (in_units a p))
           \<and> \<bar>in_units r p - in_units a p\<bar> \<le> 1 / 2)
    \<and> monetary_equal a b p = Inr (half_away (in_units a p) = half_away (in_units b p))"
proof -
  obtain r where r: "currency_round a p = Inr r" "dec_is_finite r" "in_units r p = of_int (half_away (in_units a p))"
    using currency_round_units [OF assms(1,3)] .
  have "\<bar>in_units r p - in_units a p\<bar> \<le> 1 / 2" unfolding r(3) by (rule half_away_near)
  with r monetary_equal_units [OF assms] show ?thesis by blast
qed

theorem currency_rounding_exact_witness:
  "currency_round (Dec True 594755 (-4)) \<lparr>mp_decimal_places = 2\<rparr> = Inr (Dec True 5948 (-2))
   \<and> monetary_equal (Dec False 1194756 (-4)) (Dec False 11948 (-2)) \<lparr>mp_decimal_places = 2\<rparr> = Inr True"
proof -
  let ?p = "\<lparr>mp_decimal_places = 2\<rparr>"
  have m: "moderate (Dec True 594755 (-4))" "moderate (Dec False 1194756 (-4))" "moderate (Dec False 11948 (-2))" "valid_precision ?p"
    by (simp_all add: moderate_def dec_is_finite_def signed_def valid_precision_iff power_int_minus)
  have "half_away (in_units (Dec False 1194756 (-4)) ?p) = 11948" "half_away (in_units (Dec False 11948 (-2)) ?p) = 11948"
    by (simp_all add: in_units_def signed_def half_away_def floor_eq_iff power_int_minus)
  then have "monetary_equal (Dec False 1194756 (-4)) (Dec False 11948 (-2)) ?p = Inr True"
    using currency_rounding_exact [OF m(2,3,4)] by simp
  moreover have "currency_round (Dec True 594755 (-4)) ?p = Inr (Dec True 5948 (-2))"
    by (simp add: currency_round_def quantum_def dec_try_def dec_is_finite_def dec_prec_def ndigits_def nat_str.simps Let_def round_half_up_def)
  ultimately show ?thesis by simp
qed

text \<open>The amounts of a check, both known, of the magnitude the context can round.\<close>

definition known_moderate :: "string \<times> decimal option \<times> decimal option \<Rightarrow> bool" where
  "known_moderate t \<longleftrightarrow> (case t of (_, a, b) \<Rightarrow> pred_option moderate a \<and> pred_option moderate b)"

text \<open>
  The list of mismatches is empty exactly when every pair of amounts is known and rounds to the
  same number of currency units; no amount that is missing ever reconciles.
\<close>

lemma mismatch_free_iff_reconciled:
  assumes "list_all known_moderate checks" "valid_precision p"
  shows "\<exists>ms. monetary_mismatches checks p = Inr ms \<and> (ms = [] \<longleftrightarrow>
    list_all (\<lambda>(_, actual, expected). \<exists>a b. actual = Some a \<and> expected = Some b \<and> half_away (in_units a p) = half_away (in_units b p)) checks)"
  using assms(1)
proof (induction checks)
  case Nil
  then show ?case by simp
next
  case (Cons t checks)
  obtain label actual expected where t: "t = (label, actual, expected)" by (cases t)
  obtain ms where ms: "monetary_mismatches checks p = Inr ms" and iff: "ms = [] \<longleftrightarrow>
      list_all (\<lambda>(_, actual, expected). \<exists>a b. actual = Some a \<and> expected = Some b \<and> half_away (in_units a p) = half_away (in_units b p)) checks"
    using Cons by auto
  show ?case
  proof (cases "actual = None \<or> expected = None")
    case True
    then show ?thesis by (cases actual; cases expected) (simp_all add: t ms)
  next
    case False
    then obtain a b where ab: "actual = Some a" "expected = Some b" by auto
    with Cons.prems have m: "moderate a" "moderate b" by (simp_all add: t known_moderate_def)
    obtain x y where "currency_round a p = Inr x" "currency_round b p = Inr y"
      using currency_round_units [OF m(1) assms(2)] currency_round_units [OF m(2) assms(2)] by metis
    then show ?thesis using iff by (simp add: t ab ms monetary_equal_units [OF m assms(2)])
  qed
qed

end
