(* ===== verification/Fx_Rate.thy ===== *)
theory Fx_Rate
  imports Money
begin

text \<open>
  Exchange rates of foreign-currency vendor bills: \<^verbatim>\<open>app/billing/fx_rate.py\<close> with the facts it reads,
  \<^verbatim>\<open>app/domain/invoice/fx_facts.py\<close>. The rate that the original invoice states is the one the bill is
  created with, or no bill is created; a created bill is verified against it.

  The original document is the element tree that the XML parser of the standard library returns. A
  float is its integer significand and binary exponent.
\<close>

section \<open>Facts of the original document\<close>

datatype xml = Elem (xml_tag: string) (xml_text: "string option") (xml_children: "xml list")

definition PRICING_EXCHANGE_RATE :: string where
  "PRICING_EXCHANGE_RATE = ''PricingExchangeRate''"

record exchange_rate_fact =
  xr_element :: string
  xr_source_currency :: "string option"
  xr_target_currency :: "string option"
  xr_calculation_rate_text :: "string option"
  xr_calculation_rate :: "decimal option"

record source_fx_facts =
  fx_invoice_uuid :: "string option"
  fx_document_currency :: "string option"
  fx_exchange_rates :: "exchange_rate_fact list"

definition by_element :: "source_fx_facts \<Rightarrow> string \<Rightarrow> exchange_rate_fact list" where
  "by_element facts element = filter (\<lambda>r. xr_element r = element) (fx_exchange_rates facts)"

text \<open>\<^verbatim>\<open>str(tag).rsplit("}", 1)[-1]\<close>\<close>

definition local_name :: "string \<Rightarrow> string" where
  "local_name tag = rev (takeWhile (\<lambda>c. c \<noteq> CHR ''}'') (rev tag))"

definition child_text :: "xml \<Rightarrow> string \<Rightarrow> string option" where
  "child_text element name = (case find (\<lambda>c. local_name (xml_tag c) = name) (xml_children element) of
     None \<Rightarrow> None
   | Some c \<Rightarrow> let text = py_strip (case xml_text c of None \<Rightarrow> [] | Some t \<Rightarrow> t) in if text = [] then None else Some text)"

text \<open>\<^verbatim>\<open>Decimal(text)\<close> ignores surrounding space and underscores; only finite numbers are kept.\<close>

definition fx_decimal :: "string option \<Rightarrow> decimal option" where
  "fx_decimal text = Option.bind text (\<lambda>t. Option.bind (dec_parse (filter (\<lambda>c. c \<noteq> CHR ''_'') (py_strip t))) (\<lambda>d.
     if dec_is_finite d then Some d else None))"

definition ends_with :: "string \<Rightarrow> string \<Rightarrow> bool" where
  "ends_with s suffix \<longleftrightarrow> length suffix \<le> length s \<and> drop (length s - length suffix) s = suffix"

definition exchange_rate_fact_of :: "xml \<Rightarrow> exchange_rate_fact" where
  "exchange_rate_fact_of element =
     (let rate_text = child_text element ''CalculationRate'' in
      \<lparr>xr_element = local_name (xml_tag element),
       xr_source_currency = map_option py_upper (child_text element ''SourceCurrencyCode''),
       xr_target_currency = map_option py_upper (child_text element ''TargetCurrencyCode''),
       xr_calculation_rate_text = rate_text, xr_calculation_rate = fx_decimal rate_text\<rparr>)"

definition extract_source_fx_facts :: "xml \<Rightarrow> source_fx_facts" where
  "extract_source_fx_facts document_root =
     \<lparr>fx_invoice_uuid = child_text document_root ''UUID'',
      fx_document_currency = map_option py_upper (child_text document_root ''DocumentCurrencyCode''),
      fx_exchange_rates = map exchange_rate_fact_of (filter (\<lambda>c. ends_with (local_name (xml_tag c)) ''ExchangeRate'') (xml_children document_root))\<rparr>"

section \<open>Rates\<close>

datatype fx_status = FX_NOT_APPLICABLE | FX_SOURCE_RATE_SELECTED | FX_UNVERIFIED_SOURCE_DOCUMENT | FX_SOURCE_RATE_MISSING
  | FX_SOURCE_RATE_INVALID | FX_SOURCE_RATE_DIRECTION_INVALID | FX_SOURCE_RATE_CONTRADICTORY | FX_EVIDENCE_UNAVAILABLE

record odoo_currency_context =
  oc_company_currency :: string
  oc_company_currency_decimal_places :: int
  oc_automatic_invoice_currency_rate :: "decimal option"

datatype py_float = PyFloat nat int | PyFloatInf

record fx_rate_plan =
  fp_status :: fx_status
  fp_document_currency :: string
  fp_company_currency :: "string option"
  fp_rate_date :: "py_date option"
  fp_source_rate :: "decimal option"
  fp_odoo_automatic_rate :: "decimal option"
  fp_selected_rate :: "decimal option"
  fp_odoo_invoice_currency_rate :: "py_float option"
  fp_rate_difference :: "decimal option"
  fp_company_currency_decimal_places :: "int option"
  fp_expected_company_untaxed :: "decimal option"
  fp_expected_company_tax :: "decimal option"
  fp_expected_company_total :: "decimal option"
  fp_message :: string

definition applies_rate :: "fx_rate_plan \<Rightarrow> bool" where
  "applies_rate plan \<longleftrightarrow> fp_status plan = FX_SOURCE_RATE_SELECTED"

definition blocks_vendor_bill :: "fx_rate_plan \<Rightarrow> bool" where
  "blocks_vendor_bill plan \<longleftrightarrow> fp_status plan \<notin> {FX_NOT_APPLICABLE, FX_SOURCE_RATE_SELECTED}"

definition RATE_DECIMAL_PLACES :: int where
  "RATE_DECIMAL_PLACES = 6"

text \<open>The nearest binary64 number to \<^verbatim>\<open>n / d\<close>, a tie to the even significand.\<close>

fun bit_length :: "nat \<Rightarrow> nat" where
  "bit_length n = (if n = 0 then 0 else Suc (bit_length (n div 2)))"

declare bit_length.simps [simp del]

definition nearest_double :: "nat \<Rightarrow> nat \<Rightarrow> py_float" where
  "nearest_double n d =
     (let scaled = (\<lambda>e. (if e < 0 then n * 2 ^ nat (- e) else n, if e < 0 then d else d * 2 ^ nat e));
          e0 = max (-1074) (int (bit_length n) - int (bit_length d) - 53);
          e = (if fst (scaled e0) div snd (scaled e0) < 2 ^ 53 then e0 else e0 + 1);
          (x, y) = scaled e; q = x div y; r = x mod y;
          m = (if y < 2 * r \<or> (2 * r = y \<and> odd q) then q + 1 else q);
          (m, e) = (if m = 2 ^ 53 then (2 ^ 52, e + 1) else (m, e))
      in if 971 < e then PyFloatInf else PyFloat m e)"

fun float_of_positive :: "decimal \<Rightarrow> py_float" where
  "float_of_positive (Dec _ c e) = (if 0 \<le> e then nearest_double (c * 10 ^ nat e) 1 else nearest_double c (10 ^ nat (- e)))"
| "float_of_positive _ = PyFloatInf"

definition odoo_invoice_currency_rate :: "decimal \<Rightarrow> (money_error, py_float) result" where
  "odoo_invoice_currency_rate rate =
     (if \<not> dec_is_finite rate \<or> dec_le rate dec_zero then Inl (RateValueError ''A finite positive Decimal rate is required.'')
      else Inr (float_of_positive (dec_divide 40 (dec_of_int 1) rate)))"

definition normalized_rate :: "decimal \<Rightarrow> (money_error, decimal) result" where
  "normalized_rate rate = dec_try (dec_quantize round_half_even rate (- RATE_DECIMAL_PLACES))"

definition company_rate_from_odoo :: "decimal option \<Rightarrow> (money_error, decimal option) result" where
  "company_rate_from_odoo v = (case v of None \<Rightarrow> Inr None
   | Some r \<Rightarrow> if \<not> dec_is_finite r \<or> dec_le r dec_zero then Inr None
       else ebind (normalized_rate (dec_divide 40 (dec_of_int 1) r)) (\<lambda>x. Inr (Some x)))"

definition fx_precision :: "odoo_currency_context option \<Rightarrow> monetary_precision option" where
  "fx_precision odoo = Option.bind odoo (\<lambda>o'.
     case mk_checked monetary_precision_checks \<lparr>mp_decimal_places = oc_company_currency_decimal_places o'\<rparr> of
       Inl _ \<Rightarrow> None | Inr p \<Rightarrow> Some p)"

definition automatic_rate :: "odoo_currency_context option \<Rightarrow> (money_error, decimal option) result" where
  "automatic_rate odoo =
     ebind (case odoo of None \<Rightarrow> Inr None | Some o' \<Rightarrow> company_rate_from_odoo (oc_automatic_invoice_currency_rate o')) (\<lambda>automatic.
     ebind (normalized_rate (dec_of_int 1)) (\<lambda>one.
     Inr (case automatic of None \<Rightarrow> None | Some a \<Rightarrow> if dec_same a one then None else Some a)))"

definition convert_to_company_currency :: "decimal \<Rightarrow> decimal \<Rightarrow> monetary_precision \<Rightarrow> (money_error, decimal) result" where
  "convert_to_company_currency amount rate p = ebind (dec_try (dec_times amount rate)) (\<lambda>a. currency_round a p)"

section \<open>Text of messages\<close>

definition opt_text :: "string option \<Rightarrow> string" where
  "opt_text v = (case v of None \<Rightarrow> ''None'' | Some s \<Rightarrow> s)"

definition pad_zeros :: "nat \<Rightarrow> string \<Rightarrow> string" where
  "pad_zeros n s = replicate (n - length s) (CHR ''0'') @ s"

definition date_text :: "py_date option \<Rightarrow> string" where
  "date_text v = (case v of None \<Rightarrow> ''None''
   | Some (y, m, d) \<Rightarrow> pad_zeros 4 (int_str y) @ ''-'' @ pad_zeros 2 (int_str m) @ ''-'' @ pad_zeros 2 (int_str d))"

text \<open>\<^verbatim>\<open>repr\<close> of a text.\<close>

definition hex_low :: "nat \<Rightarrow> char" where
  "hex_low n = char_of (if n < 10 then 48 + n else 87 + n)"

definition repr_char :: "char \<Rightarrow> char \<Rightarrow> string" where
  "repr_char quote c = (let n = of_char c :: nat in
     if c = quote \<or> c = CHR 0x5C then [CHR 0x5C, c]
     else if n = 9 then [CHR 0x5C, CHR ''t''] else if n = 10 then [CHR 0x5C, CHR ''n''] else if n = 13 then [CHR 0x5C, CHR ''r'']
     else if n < 32 \<or> (127 \<le> n \<and> n \<le> 160) \<or> n = 173 then [CHR 0x5C, CHR ''x'', hex_low (n div 16), hex_low (n mod 16)]
     else [c])"

definition py_repr :: "string option \<Rightarrow> string" where
  "py_repr v = (case v of None \<Rightarrow> ''None''
   | Some s \<Rightarrow> let quote = (if CHR 0x27 \<in> set s \<and> CHR 0x22 \<notin> set s then CHR 0x22 else CHR 0x27) in
       quote # concat (map (repr_char quote) s) @ [quote])"

section \<open>Selecting the rate\<close>

definition fx_base :: "string \<Rightarrow> string option \<Rightarrow> py_date option \<Rightarrow> decimal option \<Rightarrow> monetary_precision option \<Rightarrow> fx_rate_plan" where
  "fx_base document company rate_date automatic p =
     \<lparr>fp_status = FX_NOT_APPLICABLE, fp_document_currency = document, fp_company_currency = company, fp_rate_date = rate_date,
      fp_source_rate = None, fp_odoo_automatic_rate = automatic, fp_selected_rate = None, fp_odoo_invoice_currency_rate = None,
      fp_rate_difference = None, fp_company_currency_decimal_places = map_option mp_decimal_places p,
      fp_expected_company_untaxed = None, fp_expected_company_tax = None, fp_expected_company_total = None, fp_message = []\<rparr>"

definition fx_blocked :: "fx_status \<Rightarrow> string \<Rightarrow> fx_rate_plan \<Rightarrow> fx_rate_plan" where
  "fx_blocked status message base = base\<lparr>fp_status := status, fp_message := message\<rparr>"

definition contradicting :: "source_fx_facts \<Rightarrow> string \<Rightarrow> string \<Rightarrow> decimal \<Rightarrow> exchange_rate_fact option" where
  "contradicting facts document company rate = find (\<lambda>other.
     xr_element other \<noteq> PRICING_EXCHANGE_RATE \<and> (xr_source_currency other, xr_target_currency other) = (Some document, Some company)
     \<and> (case xr_calculation_rate other of None \<Rightarrow> True | Some r \<Rightarrow> \<not> dec_same r rate)) (fx_exchange_rates facts)"

definition automatic_rate_text :: "py_date option \<Rightarrow> decimal option \<Rightarrow> string \<Rightarrow> decimal option \<Rightarrow> string" where
  "automatic_rate_text rate_date automatic company difference = (case (automatic, difference) of
     (Some a, Some d) \<Rightarrow> ''Odoo's automatic rate for '' @ date_text rate_date @ '' is '' @ dec_str a @ '' '' @ company
       @ (if dec_same d dec_zero then '' (same).'' else '' (difference '' @ dec_str d @ ''); it is not used.'')
   | _ \<Rightarrow> ''Odoo's automatic rate is unavailable; it is not used.'')"

definition selected_plan ::
    "fx_rate_plan \<Rightarrow> decimal \<Rightarrow> string \<Rightarrow> string \<Rightarrow> monetary_precision \<Rightarrow> decimal list \<Rightarrow> decimal option \<Rightarrow> (money_error, fx_rate_plan) result" where
  "selected_plan base rate document company p line_subtotals tax_total =
     ebind (emap (\<lambda>s. convert_to_company_currency s rate p) line_subtotals) (\<lambda>lines.
     ebind (dec_try (dec_total dec_zero lines)) (\<lambda>untaxed.
     ebind (case tax_total of None \<Rightarrow> Inr None
            | Some t \<Rightarrow> ebind (convert_to_company_currency t rate p) (\<lambda>x. Inr (Some x))) (\<lambda>tax.
     ebind (case fp_odoo_automatic_rate base of None \<Rightarrow> Inr None
            | Some a \<Rightarrow> ebind (normalized_rate rate) (\<lambda>n. ebind (dec_try (dec_minus n a)) (\<lambda>x. Inr (Some x)))) (\<lambda>difference.
     ebind (odoo_invoice_currency_rate rate) (\<lambda>odoo_rate.
     ebind (case tax of None \<Rightarrow> Inr None | Some t \<Rightarrow> ebind (dec_try (dec_plus untaxed t)) (\<lambda>x. Inr (Some x))) (\<lambda>total.
     Inr (base\<lparr>fp_status := FX_SOURCE_RATE_SELECTED, fp_selected_rate := Some rate, fp_odoo_invoice_currency_rate := Some odoo_rate,
       fp_rate_difference := difference, fp_expected_company_untaxed := Some untaxed, fp_expected_company_tax := tax,
       fp_expected_company_total := total,
       fp_message := ''The bill is created with the invoice rate 1 '' @ document @ '' = '' @ dec_str rate @ '' '' @ company @ ''. ''
         @ automatic_rate_text (fp_rate_date base) (fp_odoo_automatic_rate base) company difference\<rparr>)))))))"

definition select_vendor_bill_rate ::
    "string \<Rightarrow> py_date option \<Rightarrow> decimal option \<Rightarrow> source_fx_facts option \<Rightarrow> odoo_currency_context option \<Rightarrow> decimal list \<Rightarrow> decimal option \<Rightarrow>
     (money_error, fx_rate_plan) result" where
  "select_vendor_bill_rate document_currency rate_date evidence_rate facts odoo line_subtotals tax_total =
     (let document = py_upper (py_strip document_currency);
          company = map_option (\<lambda>o'. py_upper (py_strip (oc_company_currency o'))) odoo;
          precision = fx_precision odoo in
      ebind (automatic_rate odoo) (\<lambda>automatic.
      let base = fx_base document company rate_date automatic precision in
      if company = Some document then Inr (fx_blocked FX_NOT_APPLICABLE ''Bill is in the company currency.'' base)
      else case (company, precision) of
        (Some company, Some p) \<Rightarrow>
          (case facts of
             None \<Rightarrow> Inr (fx_blocked FX_UNVERIFIED_SOURCE_DOCUMENT
               (''The original invoice document could not be verified, so its exchange rate cannot be trusted. ''
                @ ''No Vendor Bill was created.'') base)
           | Some facts \<Rightarrow>
               if fx_document_currency facts \<noteq> Some document
               then Inr (fx_blocked FX_SOURCE_RATE_CONTRADICTORY (''The original invoice currency '' @ opt_text (fx_document_currency facts)
                 @ '' differs from the accepted evidence currency '' @ document @ ''. No Vendor Bill was created.'') base)
               else case by_element facts PRICING_EXCHANGE_RATE of
                 [] \<Rightarrow> Inr (fx_blocked FX_SOURCE_RATE_MISSING (''The original invoice states no PricingExchangeRate for '' @ document
                   @ ''; the Hub does not use Odoo's automatic rate instead. No Vendor Bill was created. Ask accounting which rate applies.'') base)
               | stated # others \<Rightarrow>
                   if others \<noteq> []
                   then Inr (fx_blocked FX_SOURCE_RATE_CONTRADICTORY
                     ''The original invoice states more than one PricingExchangeRate. No Vendor Bill was created.'' base)
                   else if xr_source_currency stated \<noteq> Some document \<or> xr_target_currency stated \<noteq> Some company
                   then Inr (fx_blocked FX_SOURCE_RATE_DIRECTION_INVALID (''The invoice PricingExchangeRate converts ''
                     @ opt_text (xr_source_currency stated) @ '' -> '' @ opt_text (xr_target_currency stated) @ '', not '' @ document @ '' -> ''
                     @ company @ ''; the Hub never inverts or guesses a rate direction. No Vendor Bill was created.'') base)
                   else case xr_calculation_rate stated of
                     None \<Rightarrow> Inr (fx_blocked FX_SOURCE_RATE_INVALID (''The invoice PricingExchangeRate CalculationRate ''
                       @ py_repr (xr_calculation_rate_text stated) @ '' is not a positive number. No Vendor Bill was created.'') base)
                   | Some rate \<Rightarrow>
                       if \<not> dec_is_finite rate \<or> dec_le rate dec_zero
                       then Inr (fx_blocked FX_SOURCE_RATE_INVALID (''The invoice PricingExchangeRate CalculationRate ''
                         @ py_repr (xr_calculation_rate_text stated) @ '' is not a positive number. No Vendor Bill was created.'') base)
                       else let base = base\<lparr>fp_source_rate := Some rate\<rparr> in
                         if (case evidence_rate of None \<Rightarrow> True | Some e \<Rightarrow> \<not> dec_same e rate)
                         then Inr (fx_blocked FX_SOURCE_RATE_CONTRADICTORY (''The original invoice rate '' @ dec_str rate
                           @ '' differs from the accepted decision evidence rate '' @ opt_dec_text evidence_rate
                           @ ''. No Vendor Bill was created.'') base)
                         else case contradicting facts document company rate of
                           Some other \<Rightarrow> Inr (fx_blocked FX_SOURCE_RATE_CONTRADICTORY (''The invoice '' @ xr_element other @ '' (''
                             @ opt_text (xr_calculation_rate_text other) @ '') contradicts its PricingExchangeRate ('' @ dec_str rate @ '') for ''
                             @ document @ '' -> '' @ company @ ''. No Vendor Bill was created.'') base)
                         | None \<Rightarrow> selected_plan base rate document company p line_subtotals tax_total)
      | _ \<Rightarrow> Inr (fx_blocked FX_EVIDENCE_UNAVAILABLE
          ''The Odoo company currency could not be read; no Vendor Bill was created. Retry.'' base)))"

section \<open>Verification of the created bill\<close>

datatype fx_verification_status = FV_VERIFIED | FV_MISMATCH | FV_NOT_APPLICABLE | FV_UNVERIFIED

record company_line =
  cl_line_id :: int
  cl_display_type :: string
  cl_amount_currency :: decimal
  cl_balance :: decimal

record company_amounts =
  ca_move_id :: int
  ca_state :: string
  ca_currency :: string
  ca_invoice_currency_rate :: "decimal option"
  ca_lines :: "company_line list"

record fx_verification =
  fv_status :: fx_verification_status
  fv_expected_rate :: "decimal option"
  fv_actual_rate :: "decimal option"
  fv_company_untaxed :: "decimal option"
  fv_company_tax :: "decimal option"
  fv_company_payable :: "decimal option"
  fv_expected_company_total :: "decimal option"
  fv_mismatches :: "string list"
  fv_notes :: "string list"

definition fx_unverified :: "fx_verification_status \<Rightarrow> decimal option \<Rightarrow> string list \<Rightarrow> fx_verification" where
  "fx_unverified status rate mismatches =
     \<lparr>fv_status = status, fv_expected_rate = rate, fv_actual_rate = None, fv_company_untaxed = None, fv_company_tax = None,
      fv_company_payable = None, fv_expected_company_total = None, fv_mismatches = mismatches, fv_notes = []\<rparr>"

definition ZERO_LINE_TYPES :: "string list" where
  "ZERO_LINE_TYPES = [''line_section'', ''line_subsection'', ''line_note'']"

definition VERIFIED_LINE_TYPES :: "string list" where
  "VERIFIED_LINE_TYPES = [''product'', ''tax'', ''payment_term'']"

definition lines_of_type :: "string \<Rightarrow> company_amounts \<Rightarrow> company_line list" where
  "lines_of_type t actual = filter (\<lambda>l. cl_display_type l = t) (ca_lines actual)"

definition unverified_type_mismatches :: "company_amounts \<Rightarrow> string list" where
  "unverified_type_mismatches actual =
     map (\<lambda>l. ''line '' @ int_str (cl_line_id l) @ '': unverified line type '' @ cl_display_type l)
       (filter (\<lambda>l. cl_display_type l \<notin> set ZERO_LINE_TYPES \<and> cl_display_type l \<notin> set VERIFIED_LINE_TYPES) (ca_lines actual))"

text \<open>A difference from what was expected: a mismatch beyond the tolerance, a note within it.\<close>

definition judged :: "decimal \<Rightarrow> decimal \<Rightarrow> string \<Rightarrow> string \<Rightarrow> (money_error, string list \<times> string list) result" where
  "judged difference tolerance mismatch subject =
     ebind (dec_try (dec_gt (dec_abs difference) tolerance)) (\<lambda>beyond.
     Inr (if beyond then ([mismatch], [])
          else if dec_truth difference
          then ([], [subject @ '' differs by '' @ dec_str difference @ '' (rounding, within '' @ dec_str tolerance @ '')''])
          else ([], [])))"

definition check_company_line ::
    "monetary_precision \<Rightarrow> decimal \<Rightarrow> decimal \<Rightarrow> company_line \<Rightarrow> (money_error, string list \<times> string list) result" where
  "check_company_line p rate tolerance line =
     ebind (convert_to_company_currency (dec_abs (cl_amount_currency line)) rate p) (\<lambda>expected.
     ebind (dec_try (dec_minus (dec_abs (cl_balance line)) expected)) (\<lambda>difference.
     judged difference tolerance
       (''line '' @ int_str (cl_line_id line) @ '': TRY '' @ dec_str (dec_abs (cl_balance line)) @ '' != expected '' @ dec_str expected)
       (''line '' @ int_str (cl_line_id line) @ '': TRY'')))"

definition collected :: "(string list \<times> string list) list \<Rightarrow> string list \<times> string list" where
  "collected fs = (concat (map fst fs), concat (map snd fs))"

definition check_company_total ::
    "decimal option \<Rightarrow> decimal \<Rightarrow> decimal \<Rightarrow> (money_error, string list \<times> string list) result" where
  "check_company_total expected_total payable tolerance = (case expected_total of None \<Rightarrow> Inr ([], [])
   | Some expected \<Rightarrow>
       ebind (dec_try (dec_minus (dec_abs payable) expected)) (\<lambda>difference.
       judged difference tolerance (''TRY payable '' @ dec_str (dec_abs payable) @ '' != expected '' @ dec_str expected) ''TRY payable''))"

definition verify_selected ::
    "fx_rate_plan \<Rightarrow> decimal \<Rightarrow> monetary_precision \<Rightarrow> company_amounts \<Rightarrow> (money_error, fx_verification) result" where
  "verify_selected plan rate p actual =
     ebind (company_rate_from_odoo (ca_invoice_currency_rate actual)) (\<lambda>actual_rate.
     ebind (case actual_rate of None \<Rightarrow> Inr True | Some r \<Rightarrow> ebind (normalized_rate rate) (\<lambda>n. Inr (\<not> dec_same r n))) (\<lambda>rate_differs.
     let products = lines_of_type ''product'' actual; taxes = lines_of_type ''tax'' actual; payables = lines_of_type ''payment_term'' actual;
         header = (if py_upper (py_strip (ca_currency actual)) \<noteq> fp_document_currency plan
                   then [''bill currency '' @ ca_currency actual @ '' != '' @ fp_document_currency plan] else [])
           @ (if ca_state actual \<noteq> ''draft'' then [''bill state '' @ ca_state actual @ '' != draft''] else [])
           @ (if rate_differs then [''bill rate '' @ opt_dec_text actual_rate @ '' != invoice rate '' @ dec_str rate] else [])
           @ unverified_type_mismatches actual
           @ (if products = [] \<or> payables = [] then [''bill has no product or payable line''] else []) in
     ebind (dec_try (dec_times (quantum p) (dec_of_int (max 1 (int (length products)))))) (\<lambda>tax_tolerance.
     ebind (emap (check_company_line p rate (quantum p)) products) (\<lambda>product_findings.
     ebind (emap (check_company_line p rate tax_tolerance) taxes) (\<lambda>tax_findings.
     ebind (dec_try (dec_total dec_zero (map (\<lambda>l. dec_abs (cl_balance l)) products))) (\<lambda>untaxed.
     ebind (dec_try (dec_total dec_zero (map (\<lambda>l. dec_abs (cl_balance l)) taxes))) (\<lambda>tax.
     ebind (dec_try (dec_total dec_zero (map cl_balance (products @ taxes)))) (\<lambda>debit_side.
     ebind (dec_try (dec_total dec_zero (map cl_balance payables))) (\<lambda>payable.
     ebind (dec_try (dec_plus payable debit_side)) (\<lambda>rest.
     ebind (if fp_expected_company_total plan = None then Inr dec_zero
            else ebind (dec_try (dec_times (quantum p) (dec_of_int (int (length products))))) (\<lambda>t. dec_try (dec_plus t tax_tolerance))) (\<lambda>total_tolerance.
     ebind (check_company_total (fp_expected_company_total plan) payable total_tolerance) (\<lambda>total_findings.
     let lines = collected (product_findings @ tax_findings);
         mismatches = header @ fst lines
           @ (if \<not> dec_same rest dec_zero then [''payable '' @ dec_str payable @ '' does not balance the lines '' @ dec_str debit_side] else [])
           @ fst total_findings in
     Inr \<lparr>fv_status = (if mismatches = [] then FV_VERIFIED else FV_MISMATCH), fv_expected_rate = Some rate, fv_actual_rate = actual_rate,
          fv_company_untaxed = Some untaxed, fv_company_tax = Some tax, fv_company_payable = Some (dec_abs payable),
          fv_expected_company_total = fp_expected_company_total plan, fv_mismatches = mismatches,
          fv_notes = snd lines @ snd total_findings\<rparr>))))))))))))"

definition verify_vendor_bill_company_amounts ::
    "fx_rate_plan option \<Rightarrow> company_amounts option \<Rightarrow> (money_error, fx_verification) result" where
  "verify_vendor_bill_company_amounts plan actual = (case plan of
     None \<Rightarrow> Inr (fx_unverified FV_UNVERIFIED None [''no applicable invoice rate''])
   | Some plan \<Rightarrow>
       if fp_status plan \<noteq> FX_SOURCE_RATE_SELECTED
       then Inr (if fp_status plan = FX_NOT_APPLICABLE then fx_unverified FV_NOT_APPLICABLE None []
                 else fx_unverified FV_UNVERIFIED None [''no applicable invoice rate''])
       else case actual of
         None \<Rightarrow> Inr (fx_unverified FV_UNVERIFIED (fp_selected_rate plan) [''bill not found''])
       | Some actual \<Rightarrow> (case fp_selected_rate plan of
           None \<Rightarrow> Inl AssertionError
         | Some rate \<Rightarrow> (case map_option (\<lambda>n. mk_checked monetary_precision_checks \<lparr>mp_decimal_places = n\<rparr>)
               (fp_company_currency_decimal_places plan) of
             Some (Inr p) \<Rightarrow> verify_selected plan rate p actual
           | _ \<Rightarrow> Inr (fx_unverified FV_UNVERIFIED None [''company precision unknown'']))))"

end
