(* ===== verification/Tax_Mapping.thy ===== *)
theory Tax_Mapping
  imports Invoice_Data Py_Decimal_Ops
begin

text \<open>
  Mapping of the VAT of invoice lines to purchase taxes of the ERP: \<^verbatim>\<open>app/tax_mapping/engine.py\<close> with
  \<^verbatim>\<open>result.py\<close>, \<^verbatim>\<open>repository.py\<close> and \<^verbatim>\<open>exceptions.py\<close>. The tax repository is an argument. The engine
  remembers what it looked up; the theorems show that this changes no result, and when a tax is
  found.

  On text of code points below 256 the normal form of \<^verbatim>\<open>unicodedata\<close> is the text itself; upper case is
  exact on ASCII text, and the names it is compared with are ASCII.
\<close>

section \<open>Data\<close>

datatype tax_type = TT_VAT | TT_WITHHOLDING | TT_EXEMPTION | TT_UNKNOWN

datatype tax_match_status = TX_MATCHED | TX_NOT_FOUND | TX_MULTIPLE_MATCHES | TX_INVALID_INPUT

datatype tax_error = TaxMappingError string | TaxInvalidOperation | TaxRepositoryError string

record tax_match_result =
  tr_status :: tax_match_status
  tr_tax_id :: "int option"
  tr_company_id :: "int option"
  tr_tax_type :: "tax_type option"
  tr_tax_rate :: "decimal option"
  tr_matched_by :: "string option"
  tr_confidence :: "decimal option"
  tr_reason :: string
  tr_candidate_count :: nat

record tax_line_result =
  tl_line_number :: "string option"
  tl_tax_index :: nat
  tl_result :: tax_match_result

record tax_mapping_result =
  tm_line_results :: "tax_line_result list"
  tm_warnings :: "string list"
  tm_errors :: "string list"

record tax_candidate =
  tc_tax_id :: int
  tc_company_id :: "int option"
  tc_tax_type :: tax_type
  tc_rate :: decimal
  tc_active :: bool
  tc_usage_type :: "string option"
  tc_amount_type :: "string option"
  tc_has_children :: "bool option"

type_synonym tax_repository = "int option \<Rightarrow> decimal \<Rightarrow> tax_type \<Rightarrow> (tax_error, tax_candidate list) result"

section \<open>Names and rates\<close>

definition turkish_fold :: "char \<Rightarrow> char" where
  "turkish_fold c = (let n = of_char c :: nat in
     if n = 0xC7 \<or> n = 0xE7 then CHR ''C'' else if n = 0xD6 \<or> n = 0xF6 then CHR ''O''
     else if n = 0xDC \<or> n = 0xFC then CHR ''U'' else c)"

text \<open>\<^verbatim>\<open>s.split()\<close>\<close>

function py_split :: "string \<Rightarrow> string list" where
  "py_split s = (let t = dropWhile py_space s in
     if t = [] then [] else takeWhile (\<lambda>c. \<not> py_space c) t # py_split (dropWhile (\<lambda>c. \<not> py_space c) t))"
  by pat_completeness auto
termination
proof (relation "measure length")
  fix s t :: string
  assume t: "t = dropWhile py_space s" "t \<noteq> []"
  from t(2) obtain c u where cu: "t = c # u" by (metis list.exhaust)
  with t have "\<not> py_space c" by (metis hd_dropWhile list.sel(1))
  then have "length (dropWhile (\<lambda>c. \<not> py_space c) t) < length t"
    unfolding cu by (simp add: le_imp_less_Suc length_dropWhile_le)
  also have "\<dots> \<le> length s" unfolding t by (rule length_dropWhile_le)
  finally show "(dropWhile (\<lambda>c. \<not> py_space c) t, s) \<in> measure length" by simp
qed simp

declare py_split.simps [simp del]

definition fold_tax_name :: "string \<Rightarrow> string" where
  "fold_tax_name value = str_join '' '' (py_split (map (\<lambda>c. if c = CHR ''_'' \<or> c = CHR ''-'' then CHR '' '' else c)
     (py_upper (map turkish_fold value))))"

definition VAT_NAMES :: "string list" where
  "VAT_NAMES = [''KDV'', ''VAT'', ''VALUE ADDED TAX'', ''KATMA DEGER VERGISI'', ''GERCEK USULDE KATMA DEGER VERGISI'']"

text \<open>The rate in a name of the form \<^verbatim>\<open>KDV\s*%\s*([0-9]+(?:[.,][0-9]+)?)\<close>.\<close>

definition ascii_space :: "char \<Rightarrow> bool" where
  "ascii_space c \<longleftrightarrow> (let n = of_char c :: nat in n = 32 \<or> (9 \<le> n \<and> n \<le> 13))"

definition vat_rate_name :: "string \<Rightarrow> string option" where
  "vat_rate_name s = (if take 3 s \<noteq> ''KDV'' then None
   else case dropWhile ascii_space (drop 3 s) of
     percent # t \<Rightarrow>
       (if percent \<noteq> CHR ''%'' then None
        else let u = dropWhile ascii_space t; whole = takeWhile is_digit u in
          if whole = [] then None
          else case dropWhile is_digit u of
            [] \<Rightarrow> Some whole
          | dot # fraction \<Rightarrow> if (dot = CHR ''.'' \<or> dot = CHR '','') \<and> fraction \<noteq> [] \<and> list_all is_digit fraction then Some u else None)
   | [] \<Rightarrow> None)"

definition vat_name_rate_consistent :: "string \<Rightarrow> decimal option \<Rightarrow> bool" where
  "vat_name_rate_consistent value rate = (case vat_rate_name (fold_tax_name value) of
     None \<Rightarrow> True
   | Some t \<Rightarrow> (case (rate, dec_parse (map (\<lambda>c. if c = CHR '','' then CHR ''.'' else c) t)) of
       (Some r, Some n) \<Rightarrow> dec_same n r | _ \<Rightarrow> False))"

definition TAX_TYPE_ALIASES :: "(string \<times> tax_type) list" where
  "TAX_TYPE_ALIASES = [(''WITHHOLDING'', TT_WITHHOLDING), (''TEVKIFAT'', TT_WITHHOLDING), (''STOPAJ'', TT_WITHHOLDING),
     (''EXEMPTION'', TT_EXEMPTION), (''EXEMPT'', TT_EXEMPTION), (''ISTISNA'', TT_EXEMPTION), (''UNKNOWN'', TT_UNKNOWN)]"

definition normalize_tax_type :: "string option \<Rightarrow> tax_type option" where
  "normalize_tax_type value = (case value of None \<Rightarrow> None
   | Some v \<Rightarrow> let folded = fold_tax_name v in
       if folded = [] then None
       else if folded \<in> set VAT_NAMES \<or> vat_rate_name folded \<noteq> None then Some TT_VAT
       else map_of TAX_TYPE_ALIASES (map (\<lambda>c. if c = CHR ''-'' \<or> c = CHR '' '' then CHR ''_'' else c) folded))"

text \<open>\<^verbatim>\<open>Decimal(str(value)).normalize()\<close>; the constructor reads back what \<^verbatim>\<open>str\<close> prints.\<close>

definition normalize_tax_rate :: "decimal option \<Rightarrow> decimal option" where
  "normalize_tax_rate value = Option.bind value (\<lambda>v. map_option dec_normalize (dec_parse (dec_str v)))"

section \<open>Results\<close>

definition tax_try :: "'a option \<Rightarrow> (tax_error, 'a) result" where
  "tax_try v = (case v of None \<Rightarrow> Inl TaxInvalidOperation | Some x \<Rightarrow> Inr x)"

definition invalid_reason :: "tax_type option \<Rightarrow> decimal option \<Rightarrow> (tax_error, string option) result" where
  "invalid_reason tax_type rate = (case tax_type of
     None \<Rightarrow> Inr (Some ''Tax type is required or unsupported.'')
   | Some t \<Rightarrow>
       if t = TT_UNKNOWN then Inr (Some ''Tax type is unknown.'')
       else if t \<noteq> TT_VAT then Inr (Some ''Only ordinary VAT is supported for automatic tax mapping.'')
       else case rate of
         None \<Rightarrow> Inr (Some ''VAT percent is required; exemptions need an approved mapping.'')
       | Some r \<Rightarrow> ebind (tax_try (dec_gt dec_zero r)) (\<lambda>negative.
           Inr (if negative then Some ''Tax rate must not be negative.'' else None)))"

definition tax_result ::
    "tax_match_status \<Rightarrow> int option \<Rightarrow> int option \<Rightarrow> tax_type option \<Rightarrow> decimal option \<Rightarrow> string option \<Rightarrow> decimal option \<Rightarrow> string \<Rightarrow> nat \<Rightarrow> tax_match_result" where
  "tax_result status tax_id company_id tax_type tax_rate matched_by confidence reason candidate_count =
     \<lparr>tr_status = status, tr_tax_id = (if status = TX_MATCHED then tax_id else None), tr_company_id = company_id, tr_tax_type = tax_type,
      tr_tax_rate = tax_rate, tr_matched_by = matched_by, tr_confidence = confidence, tr_reason = reason, tr_candidate_count = candidate_count\<rparr>"

definition invalid_tax_result :: "invoice_tax \<Rightarrow> string \<Rightarrow> tax_type option \<Rightarrow> decimal option \<Rightarrow> tax_match_result" where
  "invalid_tax_result tax reason tax_type rate = tax_result TX_INVALID_INPUT None None
     (case tax_type of Some t \<Rightarrow> Some t | None \<Rightarrow> normalize_tax_type (it_tax_type tax))
     (case rate of Some r \<Rightarrow> Some r | None \<Rightarrow> normalize_tax_rate (it_rate tax)) None None reason 0"

text \<open>The last conditions of the filter are evaluated only when those before hold; a comparison with NaN raises.\<close>

definition valid_candidate :: "int option \<Rightarrow> decimal \<Rightarrow> tax_type \<Rightarrow> tax_candidate \<Rightarrow> (tax_error, bool) result" where
  "valid_candidate company_id rate tax_type c =
     (if tc_active c \<and> tc_tax_type c = tax_type \<and> tc_usage_type c = Some ''purchase'' \<and> tc_amount_type c = Some ''percent''
         \<and> tc_has_children c = Some False
      then ebind (tax_try (dec_gt dec_zero (tc_rate c))) (\<lambda>negative.
        Inr (\<not> negative \<and> (case normalize_tax_rate (Some (tc_rate c)) of None \<Rightarrow> False | Some r \<Rightarrow> dec_same r rate)
          \<and> (company_id = None \<or> tc_company_id c = company_id)))
      else Inr False)"

fun valid_candidates :: "int option \<Rightarrow> decimal \<Rightarrow> tax_type \<Rightarrow> tax_candidate list \<Rightarrow> (tax_error, tax_candidate list) result" where
  "valid_candidates company_id rate tax_type [] = Inr []"
| "valid_candidates company_id rate tax_type (c # cs) =
     ebind (valid_candidate company_id rate tax_type c) (\<lambda>ok.
     ebind (valid_candidates company_id rate tax_type cs) (\<lambda>rest. Inr (if ok then c # rest else rest)))"

definition TAX_EXACT_MATCH_CONFIDENCE :: decimal where
  "TAX_EXACT_MATCH_CONFIDENCE = Dec False 100 (-2)"

definition result_from_candidates :: "int option \<Rightarrow> decimal \<Rightarrow> tax_type \<Rightarrow> tax_candidate list \<Rightarrow> tax_match_result" where
  "result_from_candidates company_id rate tax_type candidates = (case candidates of
     [c] \<Rightarrow> tax_result TX_MATCHED (Some (tc_tax_id c)) (tc_company_id c) (Some tax_type) (Some rate) (Some ''company_type_rate'')
       (Some TAX_EXACT_MATCH_CONFIDENCE) ''Exact company, type, and rate match.'' 1
   | [] \<Rightarrow> tax_result TX_NOT_FOUND None company_id (Some tax_type) (Some rate) None None ''No active exact tax candidate found.'' 0
   | _ \<Rightarrow> tax_result TX_MULTIPLE_MATCHES None company_id (Some tax_type) (Some rate) None None ''Multiple exact tax candidates found.''
       (length candidates))"

section \<open>The engine\<close>

type_synonym tax_cache = "((int option \<times> decimal \<times> tax_type) \<times> tax_match_result) list"

text \<open>A key of the dict is found when it is equal, and decimals are equal by value.\<close>

definition cache_lookup :: "tax_cache \<Rightarrow> int option \<times> decimal \<times> tax_type \<Rightarrow> tax_match_result option" where
  "cache_lookup cache key = map_option snd (find (\<lambda>(k, _). fst k = fst key \<and> dec_same (fst (snd k)) (fst (snd key)) \<and> snd (snd k) = snd (snd key)) cache)"

definition tax_blocked :: "invoice_tax \<Rightarrow> (tax_error, string option) result" where
  "tax_blocked tax =
     (let tax_type = normalize_tax_type (it_tax_type tax); rate = normalize_tax_rate (it_rate tax) in
      ebind (invalid_reason tax_type rate) (\<lambda>reason.
      Inr (if reason = None \<and> tax_type = Some TT_VAT
           then if (case it_exemption_reason tax of None \<Rightarrow> False | Some e \<Rightarrow> \<not> blank e)
             then Some ''VAT exemption requires an approved exemption mapping.''
             else if (case rate of None \<Rightarrow> False | Some r \<Rightarrow> dec_same r dec_zero) then Some ''Zero-rate VAT requires an approved exemption mapping.''
             else if \<not> vat_name_rate_consistent (case it_tax_type tax of None \<Rightarrow> ''None'' | Some n \<Rightarrow> n) rate
             then Some ''VAT rate in tax name does not match Percent.''
             else None
           else reason)))"

definition tax_lookup :: "tax_repository \<Rightarrow> int option \<Rightarrow> decimal \<Rightarrow> tax_type \<Rightarrow> (tax_error, tax_match_result) result" where
  "tax_lookup find_candidates company_id rate tax_type =
     ebind (case find_candidates company_id rate tax_type of
        Inl (TaxMappingError _) \<Rightarrow> Inl (TaxMappingError ''Tax repository lookup failed.'')
      | r \<Rightarrow> r) (\<lambda>candidates.
     ebind (valid_candidates company_id rate tax_type candidates) (\<lambda>valid.
     Inr (result_from_candidates company_id rate tax_type valid)))"

definition map_tax :: "tax_repository \<Rightarrow> int option \<Rightarrow> invoice_tax \<Rightarrow> tax_cache \<Rightarrow> (tax_error, tax_match_result \<times> tax_cache) result" where
  "map_tax repo company_id tax cache =
     (let tax_type = normalize_tax_type (it_tax_type tax); rate = normalize_tax_rate (it_rate tax) in
      ebind (tax_blocked tax) (\<lambda>blocked. case blocked of
        Some reason \<Rightarrow> Inr (invalid_tax_result tax reason tax_type rate, cache)
      | None \<Rightarrow>
          let key = (company_id, the rate, the tax_type) in
          (case cache_lookup cache key of
             Some r \<Rightarrow> Inr (r, cache)
           | None \<Rightarrow> ebind (tax_lookup repo company_id (the rate) (the tax_type)) (\<lambda>r. Inr (r, cache @ [(key, r)])))))"

fun map_taxes ::
    "tax_repository \<Rightarrow> int option \<Rightarrow> string option \<Rightarrow> nat \<Rightarrow> invoice_tax list \<Rightarrow> tax_cache \<Rightarrow> (tax_error, tax_line_result list \<times> tax_cache) result" where
  "map_taxes repo company_id line_number i [] cache = Inr ([], cache)"
| "map_taxes repo company_id line_number i (tax # taxes) cache =
     ebind (map_tax repo company_id tax cache) (\<lambda>(r, cache1).
     ebind (map_taxes repo company_id line_number (Suc i) taxes cache1) (\<lambda>(rs, cache2).
     Inr (\<lparr>tl_line_number = line_number, tl_tax_index = i, tl_result = r\<rparr> # rs, cache2)))"

definition unnumbered_results :: "invoice_line \<Rightarrow> tax_line_result list" where
  "unnumbered_results line = map (\<lambda>(i, tax). \<lparr>tl_line_number = ln_line_number line, tl_tax_index = i,
     tl_result = invalid_tax_result tax ''Line identifier is required for tax mapping.'' None None\<rparr>) (enumerate 0 (ln_taxes line))"

fun map_lines ::
    "tax_repository \<Rightarrow> int option \<Rightarrow> invoice_line list \<Rightarrow> tax_cache \<Rightarrow> (tax_error, tax_line_result list \<times> string list) result" where
  "map_lines repo company_id [] cache = Inr ([], [])"
| "map_lines repo company_id (line # lines) cache =
     (if (case ln_line_number line of None \<Rightarrow> True | Some n \<Rightarrow> blank n)
      then ebind (map_lines repo company_id lines cache) (\<lambda>(rs, errors).
        if ln_taxes line \<noteq> [] then Inr (unnumbered_results line @ rs, errors)
        else Inr (rs, ''Line identifier is required for tax mapping.'' # errors))
      else
        ebind (map_taxes repo company_id (ln_line_number line) 0 (ln_taxes line) cache) (\<lambda>(here, cache1).
        ebind (map_lines repo company_id lines cache1) (\<lambda>(rs, errors). Inr (here @ rs, errors))))"

definition map_invoice_taxes :: "tax_repository \<Rightarrow> internal_invoice \<Rightarrow> int option \<Rightarrow> (tax_error, tax_mapping_result) result" where
  "map_invoice_taxes repo invoice company_id =
     (if iv_lines invoice = [] then Inr \<lparr>tm_line_results = [], tm_warnings = [], tm_errors = [''Invoice has no lines to map.'']\<rparr>
      else ebind (map_lines repo company_id (iv_lines invoice) []) (\<lambda>(rs, errors).
        Inr \<lparr>tm_line_results = rs, tm_warnings = [], tm_errors = errors\<rparr>))"

section \<open>The cache changes nothing\<close>

text \<open>The reference: every tax is looked up for itself.\<close>

definition map_tax_alone :: "tax_repository \<Rightarrow> int option \<Rightarrow> invoice_tax \<Rightarrow> (tax_error, tax_match_result) result" where
  "map_tax_alone repo company_id tax =
     (let tax_type = normalize_tax_type (it_tax_type tax); rate = normalize_tax_rate (it_rate tax) in
      ebind (tax_blocked tax) (\<lambda>blocked. case blocked of
        Some reason \<Rightarrow> Inr (invalid_tax_result tax reason tax_type rate)
      | None \<Rightarrow> tax_lookup repo company_id (the rate) (the tax_type)))"

definition map_line_alone :: "tax_repository \<Rightarrow> int option \<Rightarrow> invoice_line \<Rightarrow> (tax_error, tax_line_result list \<times> string list) result" where
  "map_line_alone repo company_id line =
     (if (case ln_line_number line of None \<Rightarrow> True | Some n \<Rightarrow> blank n)
      then Inr (if ln_taxes line \<noteq> [] then (unnumbered_results line, []) else ([], [''Line identifier is required for tax mapping.'']))
      else ebind (emap (\<lambda>(i, tax). ebind (map_tax_alone repo company_id tax) (\<lambda>r.
          Inr \<lparr>tl_line_number = ln_line_number line, tl_tax_index = i, tl_result = r\<rparr>)) (enumerate 0 (ln_taxes line))) (\<lambda>rs. Inr (rs, [])))"

definition map_invoice_alone :: "tax_repository \<Rightarrow> internal_invoice \<Rightarrow> int option \<Rightarrow> (tax_error, tax_mapping_result) result" where
  "map_invoice_alone repo invoice company_id =
     (if iv_lines invoice = [] then Inr \<lparr>tm_line_results = [], tm_warnings = [], tm_errors = [''Invoice has no lines to map.'']\<rparr>
      else ebind (emap (map_line_alone repo company_id) (iv_lines invoice)) (\<lambda>rs.
        Inr \<lparr>tm_line_results = concat (map fst rs), tm_warnings = [], tm_errors = concat (map snd rs)\<rparr>))"

text \<open>A normal form: no trailing zero in the coefficient.\<close>

definition normal_rate :: "decimal \<Rightarrow> bool" where
  "normal_rate d = (case d of Dec neg c e \<Rightarrow> c = 0 \<or> c mod 10 \<noteq> 0 | DecInf _ \<Rightarrow> True | DecNaN \<Rightarrow> True)"

lemma normalize_normal: "normal_rate (dec_normalize d)"
proof (cases d)
  case (Dec neg c e)
  then obtain n q x where "dec_fix (Dec neg c e) = Dec n q x"
    using dec_fix_finite [of d] by (cases "dec_fix d") (auto simp: dec_is_finite_def)
  moreover obtain c' e' where "strip_zeros q x = (c', e')" by fastforce
  moreover from this have "c' = 0 \<or> c' mod 10 \<noteq> 0" using strip_zeros_last by blast
  ultimately show ?thesis by (simp add: Dec dec_normalize.simps normal_rate_def)
qed (simp_all add: dec_normalize.simps normal_rate_def)

lemma scaled_normal:
  fixes c1 c2 :: nat
  assumes "c2 mod 10 \<noteq> 0" "c1 * 10 ^ nat (e1 - min e1 e2) = c2 * 10 ^ nat (e2 - min e1 e2)"
  shows "e1 \<le> e2"
proof (rule ccontr)
  assume "\<not> e1 \<le> e2"
  then have "c2 = c1 * 10 ^ nat (e1 - e2)" "nat (e1 - e2) = Suc (nat (e1 - e2 - 1))" using assms(2) by (simp_all add: min_def nat_diff_distrib)
  then have "c2 = 10 * (c1 * 10 ^ nat (e1 - e2 - 1))" by simp
  then show False using assms(1) by (metis mod_mult_self1_is_0)
qed

lemma normal_same_eq:
  assumes "normal_rate a" "normal_rate b" "dec_same a b" "\<not> dec_same a dec_zero"
  shows "a = b"
proof (cases "dec_is_finite a")
  case True
  then obtain n1 c1 e1 n2 c2 e2 where ab: "a = Dec n1 c1 e1" "b = Dec n2 c2 e2"
    using assms(3) by (cases b) (auto simp: dec_finite_cases dec_same_def)
  let ?m = "min e1 e2"
  have eq: "signed n1 c1 * 10 ^ nat (e1 - ?m) = signed n2 c2 * 10 ^ nat (e2 - ?m)"
    using assms(3) by (simp add: ab dec_same_def dec_eq_def Let_def)
  have "c1 \<noteq> 0"
  proof
    assume "c1 = 0"
    then have "dec_same a dec_zero" by (simp add: ab dec_same_def dec_eq_def dec_zero_def signed_def Let_def)
    with assms(4) show False by simp
  qed
  moreover have "c2 \<noteq> 0"
  proof
    assume "c2 = 0"
    then have "signed n1 c1 * 10 ^ nat (e1 - ?m) = 0" using eq by (simp add: signed_def)
    with \<open>c1 \<noteq> 0\<close> show False by (simp add: signed_def split: if_splits)
  qed
  ultimately have digits: "c1 mod 10 \<noteq> 0" "c2 mod 10 \<noteq> 0" using assms(1,2) by (auto simp: ab normal_rate_def)
  have "\<bar>signed n1 c1 * 10 ^ nat (e1 - ?m)\<bar> = \<bar>signed n2 c2 * 10 ^ nat (e2 - ?m)\<bar>" by (simp only: eq)
  then have "int (c1 * 10 ^ nat (e1 - ?m)) = int (c2 * 10 ^ nat (e2 - ?m))" by (simp add: abs_mult signed_def split: if_splits)
  then have mag: "c1 * 10 ^ nat (e1 - ?m) = c2 * 10 ^ nat (e2 - ?m)" by (simp only: of_nat_eq_iff)
  have "e1 = e2"
    using scaled_normal [OF digits(2) mag] scaled_normal [OF digits(1), of c2 e2 e1] mag by (simp add: min.commute)
  with eq mag show ?thesis using \<open>c1 \<noteq> 0\<close> by (auto simp: ab signed_def split: if_splits)
next
  case False
  with assms(3) show ?thesis by (cases a; cases b) (auto simp: dec_same_def dec_is_finite_def)
qed

lemma tax_blocked_None:
  assumes "tax_blocked tax = Inr None"
  obtains r where "normalize_tax_type (it_tax_type tax) = Some TT_VAT" "normalize_tax_rate (it_rate tax) = Some r"
    "normal_rate r" "\<not> dec_same r dec_zero" "dec_gt dec_zero r = Some False"
proof -
  from assms obtain t where t: "normalize_tax_type (it_tax_type tax) = Some t"
    by (cases "normalize_tax_type (it_tax_type tax)") (auto simp: tax_blocked_def invalid_reason_def Let_def)
  from assms t obtain r where r: "normalize_tax_rate (it_rate tax) = Some r"
    by (cases "normalize_tax_rate (it_rate tax)") (auto simp: tax_blocked_def invalid_reason_def Let_def split: if_splits)
  have "normal_rate r" using r normalize_normal by (auto simp: normalize_tax_rate_def bind_eq_Some_conv)
  moreover from assms t r have "t = TT_VAT" "dec_gt dec_zero r = Some False" "\<not> dec_same r dec_zero"
    by (auto simp: tax_blocked_def Let_def invalid_reason_def tax_try_def ebind_Inr_iff split: if_splits option.splits)
  ultimately show thesis using t r that by blast
qed

text \<open>What the cache holds is what a lookup gives, at the very key.\<close>

definition cache_ok :: "tax_repository \<Rightarrow> tax_cache \<Rightarrow> bool" where
  "cache_ok repo cache \<longleftrightarrow> list_all (\<lambda>((k, rate, t), r). normal_rate rate \<and> tax_lookup repo k rate t = Inr r) cache"

lemma find_SomeD: "find P xs = Some x \<Longrightarrow> x \<in> set xs \<and> P x"
  by (auto simp: find_Some_iff)

lemma cache_hit:
  assumes "cache_ok repo cache" "cache_lookup cache (k, rate, t) = Some r" "normal_rate rate" "\<not> dec_same rate dec_zero"
  shows "tax_lookup repo k rate t = Inr r"
proof -
  from assms(2) obtain key where key: "(key, r) \<in> set cache" "fst key = k" "dec_same (fst (snd key)) rate" "snd (snd key) = t"
    by (auto simp: cache_lookup_def dest!: find_SomeD)
  obtain x where x: "key = (k, x, t)" using key by (cases key) auto
  with key assms(1) have ok: "normal_rate x" "tax_lookup repo k x t = Inr r" by (auto simp: cache_ok_def list_all_iff)
  have "dec_same rate x" using key(3) x by (auto simp: dec_same_def dec_eq_def min.commute Let_def split: decimal.splits)
  then have "rate = x" using normal_same_eq [OF assms(3) ok(1)] assms(4) by blast
  with ok show ?thesis by simp
qed

lemma map_tax_alone:
  assumes "cache_ok repo cache"
  shows "case map_tax repo company_id tax cache of
    Inl e \<Rightarrow> map_tax_alone repo company_id tax = Inl e
  | Inr (r, cache') \<Rightarrow> map_tax_alone repo company_id tax = Inr r \<and> cache_ok repo cache'"
proof (cases "tax_blocked tax")
  case (Inl e)
  then show ?thesis by (simp add: map_tax_def map_tax_alone_def Let_def)
next
  case (Inr blocked)
  show ?thesis
  proof (cases blocked)
    case (Some reason)
    with Inr assms show ?thesis by (simp add: map_tax_def map_tax_alone_def Let_def)
  next
    case None
    with Inr obtain r where r: "normalize_tax_type (it_tax_type tax) = Some TT_VAT" "normalize_tax_rate (it_rate tax) = Some r"
        "normal_rate r" "\<not> dec_same r dec_zero" by (metis tax_blocked_None)
    show ?thesis
    proof (cases "cache_lookup cache (company_id, r, TT_VAT)")
      case (Some hit)
      with cache_hit [OF assms _ r(3,4)] show ?thesis using Inr None r assms by (simp add: map_tax_def map_tax_alone_def Let_def)
    next
      case miss: None
      with assms show ?thesis using Inr None r
        by (cases "tax_lookup repo company_id r TT_VAT") (auto simp: map_tax_def map_tax_alone_def Let_def cache_ok_def)
    qed
  qed
qed

lemma map_taxes_alone:
  assumes "cache_ok repo cache"
  shows "case map_taxes repo company_id n i taxes cache of
    Inl e \<Rightarrow> emap (\<lambda>(i, tax). ebind (map_tax_alone repo company_id tax) (\<lambda>r.
      Inr \<lparr>tl_line_number = n, tl_tax_index = i, tl_result = r\<rparr>)) (enumerate i taxes) = Inl e
  | Inr (rs, cache') \<Rightarrow> emap (\<lambda>(i, tax). ebind (map_tax_alone repo company_id tax) (\<lambda>r.
      Inr \<lparr>tl_line_number = n, tl_tax_index = i, tl_result = r\<rparr>)) (enumerate i taxes) = Inr rs \<and> cache_ok repo cache'"
  using assms
proof (induction taxes arbitrary: i cache)
  case (Cons tax taxes)
  show ?case
  proof (cases "map_tax repo company_id tax cache")
    case (Inl e)
    with map_tax_alone [OF Cons.prems, of company_id tax] show ?thesis by simp
  next
    case (Inr p)
    obtain r cache1 where p: "p = (r, cache1)" by fastforce
    with Inr map_tax_alone [OF Cons.prems, of company_id tax]
    have one: "map_tax_alone repo company_id tax = Inr r" "cache_ok repo cache1" by simp_all
    from Cons.IH [OF one(2), of "Suc i"] show ?thesis using Inr p one
      by (cases "map_taxes repo company_id n (Suc i) taxes cache1") (auto split: prod.splits)
  qed
qed simp

lemma map_lines_alone:
  assumes "cache_ok repo cache"
  shows "map_lines repo company_id lines cache = ebind (emap (map_line_alone repo company_id) lines) (\<lambda>rs.
    Inr (concat (map fst rs), concat (map snd rs)))"
  using assms
proof (induction lines arbitrary: cache)
  case (Cons line lines)
  show ?case
  proof (cases "case ln_line_number line of None \<Rightarrow> True | Some n \<Rightarrow> blank n")
    case True
    then show ?thesis using Cons.IH [OF Cons.prems]
      by (cases "emap (map_line_alone repo company_id) lines") (simp_all add: map_line_alone_def [of repo company_id line])
  next
    case False
    show ?thesis
    proof (cases "map_taxes repo company_id (ln_line_number line) 0 (ln_taxes line) cache")
      case (Inl e)
      with map_taxes_alone [OF Cons.prems, of company_id "ln_line_number line" 0 "ln_taxes line"] False show ?thesis
        by (simp add: map_line_alone_def [of repo company_id line])
    next
      case (Inr p)
      obtain rs cache1 where p: "p = (rs, cache1)" by fastforce
      note step = map_taxes_alone [OF Cons.prems, of company_id "ln_line_number line" 0 "ln_taxes line", unfolded Inr p, simplified]
      with Cons.IH [of cache1] False show ?thesis
        by (cases "emap (map_line_alone repo company_id) lines") (simp_all add: map_line_alone_def [of repo company_id line] Inr p)
    qed
  qed
qed simp

text \<open>
  C29. Remembering lookups changes nothing: on every invoice and every repository the engine returns
  what looking each tax up for itself returns, and raises exactly what that raises.
\<close>

theorem tax_cache_transparent: "map_invoice_taxes repo invoice company_id = map_invoice_alone repo invoice company_id"
  using map_lines_alone [of repo "[]" company_id "iv_lines invoice"]
  by (cases "emap (map_line_alone repo company_id) (iv_lines invoice)")
    (simp_all add: map_invoice_taxes_def map_invoice_alone_def cache_ok_def)

section \<open>When a tax is matched\<close>

lemma valid_candidates_filter:
  assumes "valid_candidates company_id rate t cs = Inr vs"
  shows "vs = filter (\<lambda>c. valid_candidate company_id rate t c = Inr True) cs"
  using assms by (induction cs arbitrary: vs) (auto simp: ebind_Inr_iff split: if_splits)

text \<open>
  C19. A tax is matched to purchase tax \<^verbatim>\<open>i\<close> exactly when it is ordinary VAT of a positive rate without an
  exemption reason, whose name states no other rate, and among the candidates of the repository
  exactly one is an active, simple, percentage purchase tax of that type, rate and company: \<^verbatim>\<open>i\<close>.
\<close>

theorem tax_match_exact:
  assumes "map_tax_alone repo company_id tax = Inr r"
  shows "tr_tax_id r = Some i \<longleftrightarrow> (\<exists>rate cs c. tax_blocked tax = Inr None
      \<and> normalize_tax_type (it_tax_type tax) = Some TT_VAT \<and> normalize_tax_rate (it_rate tax) = Some rate
      \<and> dec_gt rate dec_zero = Some True \<and> (\<forall>e. it_exemption_reason tax = Some e \<longrightarrow> blank e)
      \<and> repo company_id rate TT_VAT = Inr cs
      \<and> filter (\<lambda>c. valid_candidate company_id rate TT_VAT c = Inr True) cs = [c] \<and> tc_tax_id c = i)"
proof (cases "tax_blocked tax = Inr None")
  case False
  then obtain reason where "r = invalid_tax_result tax reason (normalize_tax_type (it_tax_type tax)) (normalize_tax_rate (it_rate tax))"
    using assms by (auto simp: map_tax_alone_def Let_def ebind_Inr_iff split: option.splits)
  then have "tr_tax_id r = None" by (simp only: invalid_tax_result_def tax_result_def tax_match_result.simps) simp
  with False show ?thesis by simp
next
  case True
  then obtain rate where rate: "normalize_tax_type (it_tax_type tax) = Some TT_VAT" "normalize_tax_rate (it_rate tax) = Some rate"
      "\<not> dec_same rate dec_zero" "dec_gt dec_zero rate = Some False" by (metis tax_blocked_None)
  have positive: "dec_gt rate dec_zero = Some True"
  proof (cases rate)
    case (Dec neg c e)
    then show ?thesis using rate(3,4) dec_compare_val [of rate dec_zero] dec_compare_val [of dec_zero rate]
      by (auto simp: dec_gt_def dec_same_def dec_zero_def dec_is_finite_def)
  qed (use rate(4) in \<open>auto simp: dec_gt_def dec_zero_def\<close>)
  have exemption: "\<forall>e. it_exemption_reason tax = Some e \<longrightarrow> blank e"
    using True rate by (auto simp: tax_blocked_def Let_def invalid_reason_def tax_try_def split: if_splits)
  from assms True rate obtain cs vs where cs: "repo company_id rate TT_VAT = Inr cs"
      "valid_candidates company_id rate TT_VAT cs = Inr vs" "r = result_from_candidates company_id rate TT_VAT vs"
    by (auto simp: map_tax_alone_def tax_lookup_def ebind_Inr_iff split: sum.splits tax_error.splits)
  have "tr_tax_id r = Some i \<longleftrightarrow> (\<exists>c. vs = [c] \<and> tc_tax_id c = i)"
    unfolding cs(3) by (auto simp: result_from_candidates_def tax_result_def split: list.splits)
  then show ?thesis using True rate(1,2) positive exemption cs(1) valid_candidates_filter [OF cs(2)] by auto
qed

definition example_tax :: invoice_tax where
  "example_tax = \<lparr>it_tax_type = Some ''KDV % 20'', it_rate = Some (Dec False 2000 (-2)), it_base_amount = None, it_tax_amount = None,
     it_exemption_reason = None\<rparr>"

definition example_candidate :: "int \<Rightarrow> bool \<Rightarrow> tax_candidate" where
  "example_candidate i active = \<lparr>tc_tax_id = i, tc_company_id = Some 1, tc_tax_type = TT_VAT, tc_rate = Dec False 20 0, tc_active = active,
     tc_usage_type = Some ''purchase'', tc_amount_type = Some ''percent'', tc_has_children = Some False\<rparr>"

definition example_repository :: tax_repository where
  "example_repository k rate t = Inr [example_candidate 8 False, example_candidate 9 True]"

lemma example_rate: "normalize_tax_rate (Some (Dec False 2000 (-2))) = Some (Dec False 2 1)" "normalize_tax_rate (Some (Dec False 20 0)) = Some (Dec False 2 1)"
  by (simp_all add: normalize_tax_rate_def dec_normalize.simps dec_fix.simps dec_prec_def ndigits_def nat_str.simps strip_zeros.simps)

lemma example_name: "fold_tax_name ''KDV % 20'' = ''KDV % 20''" "vat_rate_name ''KDV % 20'' = Some ''20''"
  by (simp_all add: fold_tax_name_def turkish_fold_def py_upper_def upper_char_def ascii_lower_def py_split.simps py_space_def
      vat_rate_name_def ascii_space_def is_digit_def Let_def)

lemma example_blocked: "tax_blocked example_tax = Inr None"
  by (simp add: tax_blocked_def example_tax_def normalize_tax_type_def example_name example_rate invalid_reason_def tax_try_def dec_gt_def
      dec_zero_def dec_less_def dec_is_finite_def signed_def dec_same_def dec_eq_def vat_name_rate_consistent_def dec_parse_def
      dec_unsigned_def is_digit_def str_nat_def digit_val_def Let_def)

lemma example_mapped: "map_tax_alone example_repository (Some 1) example_tax =
    Inr (result_from_candidates (Some 1) (Dec False 2 1) TT_VAT [example_candidate 9 True])"
proof -
  have "normalize_tax_type (it_tax_type example_tax) = Some TT_VAT" "normalize_tax_rate (it_rate example_tax) = Some (Dec False 2 1)"
    by (simp_all add: example_tax_def normalize_tax_type_def example_name example_rate)
  then show ?thesis
    by (simp add: map_tax_alone_def example_blocked tax_lookup_def example_repository_def example_candidate_def valid_candidate_def
        example_rate tax_try_def dec_gt_def dec_zero_def dec_less_def dec_is_finite_def signed_def dec_same_def dec_eq_def Let_def)
qed

theorem tax_match_exact_witness:
  "\<exists>r cs c. map_tax_alone example_repository (Some 1) example_tax = Inr r \<and> tr_tax_id r = Some 9
     \<and> example_repository (Some 1) (Dec False 2 1) TT_VAT = Inr cs
     \<and> filter (\<lambda>c. valid_candidate (Some 1) (Dec False 2 1) TT_VAT c = Inr True) cs = [c] \<and> tc_tax_id c = 9"
proof -
  let ?r = "result_from_candidates (Some 1) (Dec False 2 1) TT_VAT [example_candidate 9 True]"
  have "tr_tax_id ?r = Some 9" by (simp add: result_from_candidates_def tax_result_def example_candidate_def)
  moreover from this [unfolded tax_match_exact [OF example_mapped]] obtain rate cs c where
    "normalize_tax_rate (it_rate example_tax) = Some rate" "example_repository (Some 1) rate TT_VAT = Inr cs"
    "filter (\<lambda>c. valid_candidate (Some 1) rate TT_VAT c = Inr True) cs = [c]" "tc_tax_id c = 9" by auto
  moreover from this have "rate = Dec False 2 1" by (auto simp: example_tax_def example_rate)
  ultimately show ?thesis using example_mapped by blast
qed

end
