(* ===== verification/Tax_Facts.thy ===== *)
theory Tax_Facts
  imports Fx_Rate Tax_Mapping
begin

text \<open>
  The tax facts of an original UBL document: \<^verbatim>\<open>app/domain/invoice/tax_facts.py\<close>. The document is the
  element tree of the XML parser; \<^verbatim>\<open>find\<close> and \<^verbatim>\<open>findall\<close> follow exact tags, the broad walk follows local
  names. An element that the exact traversal reaches is known by the tags on its path, since the
  traversal takes every child of a tag.
\<close>

section \<open>Data\<close>

definition WITHHOLDING_INVOICE_TYPE_CODES :: "string list" where
  "WITHHOLDING_INVOICE_TYPE_CODES = [''TEVKIFAT'', ''YTBTEVKIFAT'', ''TEVKIFATIADE'', ''YTBTEVKIFATIADE'']"

definition SUPPORTED_TAX_TYPE_CODES :: "string list" where
  "SUPPORTED_TAX_TYPE_CODES = [''0015'']"

record tax_subtotal_fact =
  sf_line_id :: "string option"
  sf_tax_index :: nat
  sf_has_subtotal :: bool
  sf_tax_type_code :: "string option"
  sf_exemption_reason_code :: "string option"
  sf_exemption_reason :: "string option"
  sf_percent_present :: bool
  sf_percent :: "decimal option"
  sf_tax_amount :: "decimal option"
  sf_taxable_amount :: "decimal option"
  sf_malformed :: bool

record tax_total_fact =
  tf_line_id :: "string option"
  tf_amount_present :: bool
  tf_amount :: "decimal option"
  tf_malformed :: bool
  tf_subtotal_count :: nat

record source_tax_facts =
  xf_invoice_uuid :: "string option"
  xf_invoice_type_code :: "string option"
  xf_tax_type_codes :: "string list"
  xf_tax_subtotals_without_type_code :: nat
  xf_invoice_withholding_total_count :: nat
  xf_line_withholding_total_count :: nat
  xf_line_ids :: "string option list option"
  xf_line_tax_subtotals :: "tax_subtotal_fact list"
  xf_invoice_tax_subtotals :: "tax_subtotal_fact list"
  xf_unrecognized_tax_subtotal_count :: "nat option"
  xf_unrecognized_tax_total_count :: "nat option"
  xf_line_tax_totals :: "tax_total_fact list"
  xf_invoice_tax_totals :: "tax_total_fact list"
  xf_monetary_total_count :: "nat option"
  xf_tax_exclusive_amount :: "decimal option"
  xf_tax_inclusive_amount :: "decimal option"
  xf_monetary_totals_malformed :: bool

definition has_withholding :: "source_tax_facts \<Rightarrow> bool" where
  "has_withholding f \<longleftrightarrow> (case xf_invoice_type_code f of None \<Rightarrow> False | Some c \<Rightarrow> c \<in> set WITHHOLDING_INVOICE_TYPE_CODES)
     \<or> 0 < xf_invoice_withholding_total_count f \<or> 0 < xf_line_withholding_total_count f"

definition unsupported_tax_type_codes :: "source_tax_facts \<Rightarrow> string list" where
  "unsupported_tax_type_codes f = filter (\<lambda>c. c \<notin> set SUPPORTED_TAX_TYPE_CODES) (xf_tax_type_codes f)"

definition has_unsupported_tax_content :: "source_tax_facts \<Rightarrow> bool" where
  "has_unsupported_tax_content f \<longleftrightarrow> unsupported_tax_type_codes f \<noteq> [] \<or> 0 < xf_tax_subtotals_without_type_code f"

section \<open>Elements\<close>

definition CAC :: string where
  "CAC = ''{urn:oasis:names:specification:ubl:schema:xsd:CommonAggregateComponents-2}''"

definition CBC :: string where
  "CBC = ''{urn:oasis:names:specification:ubl:schema:xsd:CommonBasicComponents-2}''"

definition xml_findall :: "string \<Rightarrow> xml \<Rightarrow> xml list" where
  "xml_findall tag element = filter (\<lambda>c. xml_tag c = tag) (xml_children element)"

definition xml_find :: "string \<Rightarrow> xml \<Rightarrow> xml option" where
  "xml_find tag element = find (\<lambda>c. xml_tag c = tag) (xml_children element)"

text \<open>\<^verbatim>\<open>find("a/b")\<close>: the first \<^verbatim>\<open>b\<close> below any \<^verbatim>\<open>a\<close>.\<close>

definition xml_find2 :: "string \<Rightarrow> string \<Rightarrow> xml \<Rightarrow> xml option" where
  "xml_find2 tag1 tag2 element = (case concat (map (xml_findall tag2) (xml_findall tag1 element)) of [] \<Rightarrow> None | x # _ \<Rightarrow> Some x)"

definition element_text :: "xml option \<Rightarrow> string option" where
  "element_text element = Option.bind element (\<lambda>x. Option.bind (xml_text x) (\<lambda>t. let v = py_strip t in if v = [] then None else Some v))"

definition element_decimal :: "xml option \<Rightarrow> string \<Rightarrow> decimal option \<times> bool" where
  "element_decimal element tag = (case element_text (Option.bind element (xml_find tag)) of
     None \<Rightarrow> (None, False)
   | Some t \<Rightarrow> (case fx_decimal (Some t) of None \<Rightarrow> (None, True) | Some d \<Rightarrow> (Some d, False)))"

definition subtotal_fact :: "xml \<Rightarrow> string option \<Rightarrow> nat \<Rightarrow> tax_subtotal_fact" where
  "subtotal_fact subtotal line_id tax_index =
     (let category = xml_find (CAC @ ''TaxCategory'') subtotal;
          (percent, m1) = element_decimal (Some subtotal) (CBC @ ''Percent'');
          (tax_amount, m2) = element_decimal (Some subtotal) (CBC @ ''TaxAmount'');
          (taxable_amount, m3) = element_decimal (Some subtotal) (CBC @ ''TaxableAmount'') in
      \<lparr>sf_line_id = line_id, sf_tax_index = tax_index, sf_has_subtotal = True,
       sf_tax_type_code = element_text (Option.bind category (xml_find2 (CAC @ ''TaxScheme'') (CBC @ ''TaxTypeCode''))),
       sf_exemption_reason_code = element_text (Option.bind category (xml_find (CBC @ ''TaxExemptionReasonCode''))),
       sf_exemption_reason = element_text (Option.bind category (xml_find (CBC @ ''TaxExemptionReason''))),
       sf_percent_present = (xml_find (CBC @ ''Percent'') subtotal \<noteq> None), sf_percent = percent, sf_tax_amount = tax_amount,
       sf_taxable_amount = taxable_amount, sf_malformed = (m1 \<or> m2 \<or> m3)\<rparr>)"

definition placeholder_fact :: "xml \<Rightarrow> string option \<Rightarrow> nat \<Rightarrow> tax_subtotal_fact" where
  "placeholder_fact tot line_id tax_index =
     (let (amount, malformed) = element_decimal (Some tot) (CBC @ ''TaxAmount'') in
      \<lparr>sf_line_id = line_id, sf_tax_index = tax_index, sf_has_subtotal = False, sf_tax_type_code = None, sf_exemption_reason_code = None,
       sf_exemption_reason = None, sf_percent_present = False, sf_percent = None, sf_tax_amount = amount, sf_taxable_amount = None,
       sf_malformed = malformed\<rparr>)"

fun subtotal_facts :: "xml list \<Rightarrow> string option \<Rightarrow> nat \<Rightarrow> tax_subtotal_fact list" where
  "subtotal_facts [] line_id i = []"
| "subtotal_facts (s # ss) line_id i = subtotal_fact s line_id i # subtotal_facts ss line_id (Suc i)"

fun total_facts :: "xml list \<Rightarrow> string option \<Rightarrow> nat \<Rightarrow> tax_subtotal_fact list" where
  "total_facts [] line_id i = []"
| "total_facts (tot # totals) line_id i =
     (let subtotals = xml_findall (CAC @ ''TaxSubtotal'') tot;
          here = (if subtotals = [] then [placeholder_fact tot line_id i] else subtotal_facts subtotals line_id i) in
      here @ total_facts totals line_id (i + length here))"

definition tax_position_facts :: "xml \<Rightarrow> string option \<Rightarrow> tax_subtotal_fact list" where
  "tax_position_facts element line_id = total_facts (xml_findall (CAC @ ''TaxTotal'') element) line_id 0"

definition tax_total_fact_of :: "xml \<Rightarrow> string option \<Rightarrow> tax_total_fact" where
  "tax_total_fact_of tot line_id =
     (let (amount, malformed) = element_decimal (Some tot) (CBC @ ''TaxAmount'') in
      \<lparr>tf_line_id = line_id, tf_amount_present = (xml_find (CBC @ ''TaxAmount'') tot \<noteq> None), tf_amount = amount, tf_malformed = malformed,
       tf_subtotal_count = length (xml_findall (CAC @ ''TaxSubtotal'') tot)\<rparr>)"

section \<open>The broad walk\<close>

text \<open>Every descendant of a local name outside withholding totalals, with the tags on its path.\<close>

fun non_withholding_elements :: "string list \<Rightarrow> string \<Rightarrow> xml \<Rightarrow> (string list \<times> xml) list" where
  "non_withholding_elements path wanted (Elem tag text children) = concat (map (\<lambda>child.
     let name = local_name (xml_tag child); here = path @ [xml_tag child] in
     if name = ''WithholdingTaxTotal'' then []
     else (if name = wanted then [(here, child)] else []) @ non_withholding_elements here wanted child) children)"

fun xml_iter :: "xml \<Rightarrow> xml list" where
  "xml_iter (Elem tag text children) = Elem tag text children # concat (map xml_iter children)"

definition broad_child :: "string \<Rightarrow> xml \<Rightarrow> xml option" where
  "broad_child name element = find (\<lambda>c. local_name (xml_tag c) = name) (xml_children element)"

definition broad_tax_type_code :: "xml \<Rightarrow> string option" where
  "broad_tax_type_code subtotal = element_text
     (Option.bind (Option.bind (broad_child ''TaxCategory'' subtotal) (broad_child ''TaxScheme'')) (broad_child ''TaxTypeCode''))"

definition EXACT_TOTAL_PATHS :: "string list list" where
  "EXACT_TOTAL_PATHS = [[CAC @ ''InvoiceLine'', CAC @ ''TaxTotal''], [CAC @ ''TaxTotal'']]"

definition EXACT_SUBTOTAL_PATHS :: "string list list" where
  "EXACT_SUBTOTAL_PATHS = map (\<lambda>p. p @ [CAC @ ''TaxSubtotal'']) EXACT_TOTAL_PATHS"

definition extract_source_tax_facts :: "xml \<Rightarrow> source_tax_facts" where
  "extract_source_tax_facts doc =
     (let invoice_level = length (filter (\<lambda>c. local_name (xml_tag c) = ''WithholdingTaxTotal'') (xml_children doc));
          all_levels = length (filter (\<lambda>c. local_name (xml_tag c) = ''WithholdingTaxTotal'') (xml_iter doc));
          broad_subtotals = non_withholding_elements [] ''TaxSubtotal'' doc;
          codes = map (\<lambda>(_, s). broad_tax_type_code s) broad_subtotals;
          lines = map (\<lambda>line. (line, element_text (xml_find (CBC @ ''ID'') line))) (xml_findall (CAC @ ''InvoiceLine'') doc);
          monetary_totals = xml_findall (CAC @ ''LegalMonetaryTotal'') doc;
          monetary_total = (case monetary_totals of [] \<Rightarrow> None | m # _ \<Rightarrow> Some m);
          (tax_exclusive, m1) = element_decimal monetary_total (CBC @ ''TaxExclusiveAmount'');
          (tax_inclusive, m2) = element_decimal monetary_total (CBC @ ''TaxInclusiveAmount'') in
      \<lparr>xf_invoice_uuid = element_text (xml_find (CBC @ ''UUID'') doc),
       xf_invoice_type_code = map_option py_upper (element_text (xml_find (CBC @ ''InvoiceTypeCode'') doc)),
       xf_tax_type_codes = sort (remdups (map the (filter (\<lambda>c. c \<noteq> None) codes))),
       xf_tax_subtotals_without_type_code = length (filter (\<lambda>c. c = None) codes),
       xf_invoice_withholding_total_count = invoice_level,
       xf_line_withholding_total_count = all_levels - invoice_level,
       xf_line_ids = Some (map snd lines),
       xf_line_tax_subtotals = concat (map (\<lambda>(line, line_id). tax_position_facts line line_id) lines),
       xf_invoice_tax_subtotals = tax_position_facts doc None,
       xf_unrecognized_tax_subtotal_count = Some (length (filter (\<lambda>(path, _). path \<notin> set EXACT_SUBTOTAL_PATHS) broad_subtotals)),
       xf_unrecognized_tax_total_count =
         Some (length (filter (\<lambda>(path, _). path \<notin> set EXACT_TOTAL_PATHS) (non_withholding_elements [] ''TaxTotal'' doc))),
       xf_line_tax_totals = concat (map (\<lambda>(line, line_id). map (\<lambda>t. tax_total_fact_of t line_id) (xml_findall (CAC @ ''TaxTotal'') line)) lines),
       xf_invoice_tax_totals = map (\<lambda>t. tax_total_fact_of t None) (xml_findall (CAC @ ''TaxTotal'') doc),
       xf_monetary_total_count = Some (length monetary_totals),
       xf_tax_exclusive_amount = tax_exclusive, xf_tax_inclusive_amount = tax_inclusive,
       xf_monetary_totals_malformed = (m1 \<or> m2)\<rparr>)"

end
