(* ===== verification/Tax_Exemption.thy ===== *)
theory Tax_Exemption
  imports Tax_Facts "HOL-Library.AList"
begin

text \<open>
  VAT exemptions: \<^verbatim>\<open>app/tax_mapping/exemption.py\<close>. A line may carry the approved exemption tax only when
  the verified original document proves the exemption of every line. A record of the ERP is a dict
  from field names to values of the kinds the ERP client returns; a float is the decimal that \<^verbatim>\<open>str\<close> shows.
\<close>

section \<open>Configuration\<close>

datatype erp_value = EvNone | EvBool bool | EvInt int | EvFloat decimal | EvStr string | EvList "erp_value list" | EvTuple "erp_value list"

definition APPROVED_VAT_EXEMPTION_CODES :: "string list" where
  "APPROVED_VAT_EXEMPTION_CODES = [''335'']"

definition EXEMPTION_INVOICE_TYPE_CODE :: string where
  "EXEMPTION_INVOICE_TYPE_CODE = ''ISTISNA''"

definition FORBIDDEN_EXEMPTION_TAX_IDS :: "int list" where
  "FORBIDDEN_EXEMPTION_TAX_IDS = [6]"

definition EXEMPTION_MATCHED_BY_PREFIX :: string where
  "EXEMPTION_MATCHED_BY_PREFIX = ''source_exemption_code:''"

datatype exemption_config = ConfigAbsent | ConfigMapping "(string \<times> erp_value) list" | ConfigOther

fun validated_codes :: "(string \<times> int) list \<Rightarrow> (string \<times> erp_value) list \<Rightarrow> (string, (string \<times> int) list) result" where
  "validated_codes validated [] = Inr validated"
| "validated_codes validated ((raw_code, raw_tax_id) # items) =
     (if raw_code \<noteq> py_strip raw_code \<or> raw_code = [] then Inl ''VAT exemption codes must be exact, non-empty strings.''
      else if raw_code \<notin> set APPROVED_VAT_EXEMPTION_CODES
      then Inl (''VAT exemption code '' @ raw_code @ '' is not approved for automatic mapping.'')
      else case raw_tax_id of
        EvInt i \<Rightarrow>
          if i \<le> 0 then Inl (''VAT exemption code '' @ raw_code @ '' needs a positive integer ERP tax id.'')
          else if i \<in> set FORBIDDEN_EXEMPTION_TAX_IDS then Inl ''The generic 0% purchase tax is never a VAT exemption tax.''
          else if i \<in> set (map snd validated) then Inl ''Each VAT exemption code needs its own dedicated ERP tax id.''
          else validated_codes (AList.update raw_code i validated) items
      | _ \<Rightarrow> Inl (''VAT exemption code '' @ raw_code @ '' needs a positive integer ERP tax id.''))"

definition validate_vat_exemption_tax_config :: "exemption_config \<Rightarrow> (string, (string \<times> int) list) result" where
  "validate_vat_exemption_tax_config value = (case value of
     ConfigAbsent \<Rightarrow> Inr []
   | ConfigOther \<Rightarrow> Inl ''VAT exemption tax configuration must be a JSON object.''
   | ConfigMapping items \<Rightarrow> validated_codes [] items)"

section \<open>Eligibility\<close>

record exemption_eligibility =
  el_code :: "string option"
  el_problems :: "string list"

definition eligible :: "exemption_eligibility \<Rightarrow> bool" where
  "eligible e \<longleftrightarrow> el_code e \<noteq> None \<and> el_problems e = []"

definition document_problems :: "internal_invoice \<Rightarrow> source_tax_facts option \<Rightarrow> string list" where
  "document_problems invoice facts = (case facts of
     None \<Rightarrow> [''Verified source tax facts are required.'']
   | Some f \<Rightarrow>
       (if has_withholding f then [''Withholding tax content is never mapped as an exemption.''] else [])
       @ (if has_unsupported_tax_content f then [''Non-VAT tax content is never mapped as an exemption.''] else [])
       @ (if xf_invoice_type_code f \<noteq> Some EXEMPTION_INVOICE_TYPE_CODE then [''InvoiceTypeCode must be ISTISNA.''] else [])
       @ (if py_upper (py_strip (case hd_invoice_type (iv_header invoice) of None \<Rightarrow> [] | Some t \<Rightarrow> t)) \<noteq> EXEMPTION_INVOICE_TYPE_CODE
          then [''Canonical invoice type must be ISTISNA.''] else [])
       @ (if xf_line_ids f = None then [''Source line structure was not extracted.''] else []))"

definition where_text :: "string option \<Rightarrow> string" where
  "where_text line_id = (case line_id of Some i \<Rightarrow> ''line '' @ i | None \<Rightarrow> ''invoice level'')"

definition tax_total_problems :: "tax_total_fact \<Rightarrow> string list" where
  "tax_total_problems t =
     (let w = where_text (tf_line_id t) in
      if tf_malformed t then [''TaxTotal of '' @ w @ '' has a malformed TaxAmount.'']
      else if \<not> tf_amount_present t \<or> tf_amount t = None then [''TaxTotal of '' @ w @ '' has no TaxAmount.'']
      else if \<not> dec_same (the (tf_amount t)) dec_zero then [''TaxTotal of '' @ w @ '' must have TaxAmount 0.'']
      else if tf_subtotal_count t = 0 then [''TaxTotal of '' @ w @ '' has no TaxSubtotal.''] else [])"

definition same_decimal :: "decimal option \<Rightarrow> decimal option \<Rightarrow> bool" where
  "same_decimal left right = (case (left, right) of (Some a, Some b) \<Rightarrow> dec_same a b | (None, None) \<Rightarrow> True | _ \<Rightarrow> False)"

definition monetary_total_problems :: "internal_invoice \<Rightarrow> source_tax_facts \<Rightarrow> string list" where
  "monetary_total_problems invoice f =
     (if xf_monetary_total_count f \<noteq> Some 1 then [''Source document must have exactly one LegalMonetaryTotal.'']
      else if xf_monetary_totals_malformed f then [''Source document has a malformed monetary total.'']
      else if (case (xf_tax_exclusive_amount f, xf_tax_inclusive_amount f) of (Some a, Some b) \<Rightarrow> \<not> dec_same a b | _ \<Rightarrow> False)
      then [''TaxInclusiveAmount must equal TaxExclusiveAmount for a VAT-exempt invoice.'']
      else if \<not> same_decimal (mt_tax_exclusive_amount (iv_totals invoice)) (xf_tax_exclusive_amount f)
           \<or> \<not> same_decimal (mt_tax_inclusive_amount (iv_totals invoice)) (xf_tax_inclusive_amount f)
      then [''Source monetary totals do not match canonical evidence.''] else [])"

definition completeness_problems :: "internal_invoice \<Rightarrow> source_tax_facts \<Rightarrow> string list" where
  "completeness_problems invoice f = (case (xf_unrecognized_tax_subtotal_count f, xf_unrecognized_tax_total_count f) of
     (Some subtotals, Some totals) \<Rightarrow>
       (if subtotals \<noteq> 0 then [''Source document has TaxSubtotal elements outside the canonical tax paths.''] else [])
       @ (if totals \<noteq> 0 then [''Source document has TaxTotal elements outside the canonical tax paths.''] else [])
       @ (if xf_invoice_tax_totals f = [] then [''Source document has no invoice-level TaxTotal.''] else [])
       @ concat (map tax_total_problems (xf_line_tax_totals f @ xf_invoice_tax_totals f))
       @ monetary_total_problems invoice f
   | _ \<Rightarrow> [''Source tax structure completeness was not extracted.''])"

definition canonical_tax_matches :: "invoice_tax \<Rightarrow> tax_subtotal_fact \<Rightarrow> bool" where
  "canonical_tax_matches tax tx \<longleftrightarrow>
     normalize_tax_type (it_tax_type tax) = Some TT_VAT
     \<and> same_decimal (it_rate tax) (sf_percent tx)
     \<and> same_decimal (it_tax_amount tax) (sf_tax_amount tx)
     \<and> same_decimal (it_base_amount tax) (sf_taxable_amount tx)
     \<and> it_exemption_reason tax = (case sf_exemption_reason tx of
          Some r \<Rightarrow> if r = [] then sf_exemption_reason_code tx else Some r | None \<Rightarrow> sf_exemption_reason_code tx)"

definition canonical_keys :: "internal_invoice \<Rightarrow> (string option \<times> nat) list" where
  "canonical_keys invoice = concat (map (\<lambda>line. map (\<lambda>(i, _). (ln_line_number line, i)) (enumerate 0 (ln_taxes line))) (iv_lines invoice))"

definition alignment_problems :: "internal_invoice \<Rightarrow> source_tax_facts \<Rightarrow> string list" where
  "alignment_problems invoice f =
     (let canonical_ids = map ln_line_number (iv_lines invoice) in
      if canonical_ids = [] then [''Invoice has no lines.'']
      else if xf_line_ids f \<noteq> Some canonical_ids then [''Source invoice lines do not align with canonical evidence.'']
      else if list_ex (\<lambda>i. case i of None \<Rightarrow> True | Some s \<Rightarrow> blank s) canonical_ids then [''Every invoice line needs an identifier.'']
      else if card (set canonical_ids) \<noteq> length canonical_ids then [''Invoice line identifiers must be unique.'']
      else if map (\<lambda>tx. (sf_line_id tx, sf_tax_index tx)) (xf_line_tax_subtotals f) \<noteq> canonical_keys invoice
      then [''Source tax subtotals do not align with canonical evidence.'']
      else if list_ex (\<lambda>line. length (ln_taxes line) \<noteq> 1) (iv_lines invoice) then [''Every line must carry exactly one tax subtotal.'']
      else case find (\<lambda>(tax, tx). \<not> canonical_tax_matches tax tx) (zip (map (\<lambda>line. hd (ln_taxes line)) (iv_lines invoice)) (xf_line_tax_subtotals f)) of
          Some (tax, tx) \<Rightarrow> [''Source tax of line '' @ (case sf_line_id tx of Some i \<Rightarrow> i | None \<Rightarrow> ''None'') @ '' does not match canonical evidence.'']
        | None \<Rightarrow> [])"

text \<open>A comparison of a taxable amount with zero raises on NaN.\<close>

definition exempt_fact_problems :: "tax_subtotal_fact \<Rightarrow> (tax_error, string list) result" where
  "exempt_fact_problems tx =
     (let w = where_text (sf_line_id tx) in
      if \<not> sf_has_subtotal tx then Inr [''Tax of '' @ w @ '' has no TaxSubtotal.'']
      else if sf_malformed tx then Inr [''Tax of '' @ w @ '' has a malformed amount.'']
      else ebind (case sf_taxable_amount tx of None \<Rightarrow> Inr True | Some a \<Rightarrow> tax_try (dec_gt dec_zero a)) (\<lambda>bad_base.
        Inr ((if (case sf_tax_type_code tx of None \<Rightarrow> True | Some c \<Rightarrow> c \<notin> set SUPPORTED_TAX_TYPE_CODES)
              then [''Tax of '' @ w @ '' is not TaxTypeCode 0015.''] else [])
          @ (case sf_exemption_reason_code tx of
               None \<Rightarrow> [''Tax of '' @ w @ '' has no TaxExemptionReasonCode.'']
             | Some c \<Rightarrow> if c \<notin> set APPROVED_VAT_EXEMPTION_CODES then [''Exemption code '' @ c @ '' of '' @ w @ '' is not approved.''] else [])
          @ (if (case sf_tax_amount tx of None \<Rightarrow> True | Some a \<Rightarrow> \<not> dec_same a dec_zero) then [''Tax of '' @ w @ '' must have TaxAmount 0.''] else [])
          @ (if sf_percent_present tx \<and> (case sf_percent tx of None \<Rightarrow> True | Some p \<Rightarrow> \<not> dec_same p dec_zero)
             then [''Tax of '' @ w @ '' must have no Percent or Percent 0.''] else [])
          @ (if bad_base then [''Tax of '' @ w @ '' needs a non-negative TaxableAmount.''] else []))))"

definition taxable_or_zero :: "tax_subtotal_fact \<Rightarrow> decimal" where
  "taxable_or_zero tx = (case sf_taxable_amount tx of None \<Rightarrow> dec_zero | Some a \<Rightarrow> if dec_truth a then a else dec_zero)"

definition fact_problems :: "tax_subtotal_fact list \<Rightarrow> (tax_error, string list) result" where
  "fact_problems facts = ebind (emap exempt_fact_problems facts) (\<lambda>ps. Inr (concat ps))"

definition invoice_level_problems :: "source_tax_facts \<Rightarrow> string \<Rightarrow> (tax_error, string list) result" where
  "invoice_level_problems f code =
     (let subtotals = xf_invoice_tax_subtotals f in
      if subtotals = [] then Inr [''Source document has no invoice-level TaxSubtotal.'']
      else ebind (fact_problems subtotals) (\<lambda>problems.
        if problems \<noteq> [] then Inr problems
        else if list_ex (\<lambda>tx. sf_exemption_reason_code tx \<noteq> Some code) subtotals
        then Inr [''Invoice-level exemption code differs from the line exemption code.'']
        else ebind (tax_try (dec_total dec_zero (map taxable_or_zero subtotals))) (\<lambda>invoice_base.
          ebind (tax_try (dec_total dec_zero (map taxable_or_zero (xf_line_tax_subtotals f)))) (\<lambda>line_base.
          Inr (if \<not> dec_same invoice_base line_base
               then [''Invoice-level TaxableAmount does not equal the sum of the line TaxableAmounts.''] else [])))))"

definition assess_invoice_exemption :: "internal_invoice \<Rightarrow> source_tax_facts option \<Rightarrow> (tax_error, exemption_eligibility) result" where
  "assess_invoice_exemption invoice facts =
     (let problems = document_problems invoice facts in
      if problems \<noteq> [] then Inr \<lparr>el_code = None, el_problems = problems\<rparr>
      else let f = the facts;
               problems = (let c = completeness_problems invoice f in if c \<noteq> [] then c else alignment_problems invoice f) in
        if problems \<noteq> [] then Inr \<lparr>el_code = None, el_problems = problems\<rparr>
        else let codes = remdups (map sf_exemption_reason_code (xf_line_tax_subtotals f)) in
          ebind (fact_problems (xf_line_tax_subtotals f)) (\<lambda>problems.
          let problems = (if problems = [] \<and> length codes \<noteq> 1 then [''Every line must carry the same exemption code.''] else problems);
              code = (if length codes = 1 then hd codes else None) in
          ebind (case code of Some c \<Rightarrow> if problems = [] then invoice_level_problems f c else Inr problems | None \<Rightarrow> Inr problems) (\<lambda>problems.
          Inr \<lparr>el_code = (if problems = [] then code else None), el_problems = problems\<rparr>)))"

section \<open>The tax of the ERP\<close>

type_synonym erp_record = "string \<rightharpoonup> erp_value"

definition EXEMPTION_TAX_FIELDS :: "string list" where
  "EXEMPTION_TAX_FIELDS = [''id'', ''name'', ''active'', ''company_id'', ''country_code'', ''type_tax_use'', ''amount_type'', ''amount'',
     ''children_tax_ids'', ''price_include'', ''price_include_override'', ''include_base_amount'', ''tax_exigibility'',
     ''has_negative_factor'', ''fiscal_position_ids'', ''original_tax_ids'', ''replacing_tax_ids'']"

definition EMPTY_RELATION_FIELDS :: "string list" where
  "EMPTY_RELATION_FIELDS = [''children_tax_ids'', ''fiscal_position_ids'', ''original_tax_ids'', ''replacing_tax_ids'']"

fun many2one_id :: "erp_value \<Rightarrow> int option" where
  "many2one_id (EvList (EvInt i # _)) = Some i"
| "many2one_id (EvTuple (EvInt i # _)) = Some i"
| "many2one_id (EvInt i) = Some i"
| "many2one_id _ = None"

fun is_zero_amount :: "erp_value \<Rightarrow> bool" where
  "is_zero_amount (EvInt i) = (i = 0)"
| "is_zero_amount (EvFloat d) = dec_same d dec_zero"
| "is_zero_amount _ = False"

definition alnum :: "char \<Rightarrow> bool" where
  "alnum c \<longleftrightarrow> is_digit c \<or> ascii_alpha c"

text \<open>The code stands in the text, not inside a longer word.\<close>

definition has_code_token :: "erp_value \<Rightarrow> string \<Rightarrow> bool" where
  "has_code_token name code = (case name of
     EvStr s \<Rightarrow> list_ex (\<lambda>i. take (length code) (drop i s) = code \<and> length code \<le> length s - i
       \<and> (i = 0 \<or> \<not> alnum (s ! (i - 1))) \<and> (i + length code < length s \<longrightarrow> \<not> alnum (s ! (i + length code)))) [0..<Suc (length s)]
   | _ \<Rightarrow> False)"

text \<open>\<^verbatim>\<open>value in (False, None, "tax_excluded")\<close>; zero equals \<^verbatim>\<open>False\<close>.\<close>

fun tax_excluded_override :: "erp_value \<Rightarrow> bool" where
  "tax_excluded_override EvNone = True"
| "tax_excluded_override (EvBool b) = (\<not> b)"
| "tax_excluded_override (EvInt i) = (i = 0)"
| "tax_excluded_override (EvFloat d) = dec_same d dec_zero"
| "tax_excluded_override (EvStr s) = (s = ''tax_excluded'')"
| "tax_excluded_override _ = False"

definition exemption_tax_problems :: "erp_record option \<Rightarrow> int \<Rightarrow> int option \<Rightarrow> string \<Rightarrow> string list" where
  "exemption_tax_problems rec expected_tax_id company_id code =
     (if expected_tax_id \<in> set FORBIDDEN_EXEMPTION_TAX_IDS then [''The generic 0% purchase tax is never a VAT exemption tax.'']
      else case rec of None \<Rightarrow> [''Configured exemption tax was not found in the ERP.'']
      | Some r \<Rightarrow>
          let missing = filter (\<lambda>field. r field = None) EXEMPTION_TAX_FIELDS; v = (\<lambda>field. the (r field)) in
          if missing \<noteq> [] then [''Configured exemption tax is missing required fields: '' @ str_join '', '' missing @ ''.'']
          else
            (if v ''id'' \<noteq> EvInt expected_tax_id then [''Configured exemption tax id does not match the ERP record.''] else [])
            @ (if v ''active'' \<noteq> EvBool True then [''Configured exemption tax is not active.''] else [])
            @ (if company_id = None \<or> many2one_id (v ''company_id'') \<noteq> company_id then [''Configured exemption tax belongs to another company.''] else [])
            @ (if v ''country_code'' \<noteq> EvStr ''TR'' then [''Configured exemption tax is not a T'' @ [CHR 0xFC] @ ''rkiye tax.''] else [])
            @ (if v ''type_tax_use'' \<noteq> EvStr ''purchase'' then [''Configured exemption tax is not a purchase tax.''] else [])
            @ (if v ''amount_type'' \<noteq> EvStr ''percent'' then [''Configured exemption tax is not a percentage tax.''] else [])
            @ (if \<not> is_zero_amount (v ''amount'') then [''Configured exemption tax amount is not 0.''] else [])
            @ concat (map (\<lambda>field. if v field \<noteq> EvList [] then [''Configured exemption tax must have no '' @ field @ ''.''] else []) EMPTY_RELATION_FIELDS)
            @ (if v ''price_include'' \<noteq> EvBool False then [''Configured exemption tax must not be included in price.''] else [])
            @ (if \<not> tax_excluded_override (v ''price_include_override'') then [''Configured exemption tax price inclusion must be tax excluded.''] else [])
            @ (if v ''include_base_amount'' \<noteq> EvBool False then [''Configured exemption tax must not affect the base of subsequent taxes.''] else [])
            @ (if v ''tax_exigibility'' \<noteq> EvStr ''on_invoice'' then [''Configured exemption tax must be due on invoice.''] else [])
            @ (if v ''has_negative_factor'' \<noteq> EvBool False then [''Configured exemption tax must have no negative repartition factor.''] else [])
            @ (if \<not> has_code_token (v ''name'') code then [''Configured exemption tax name must carry the '' @ code @ '' token.''] else []))"

section \<open>Upgrading a mapping\<close>

definition exemption_matched_by :: "string \<Rightarrow> string" where
  "exemption_matched_by code = EXEMPTION_MATCHED_BY_PREFIX @ code"

definition exemption_match_result :: "string \<Rightarrow> int \<Rightarrow> int option \<Rightarrow> tax_match_result" where
  "exemption_match_result code tax_id company_id =
     \<lparr>tr_status = TX_MATCHED, tr_tax_id = Some tax_id, tr_company_id = company_id, tr_tax_type = Some TT_EXEMPTION, tr_tax_rate = Some dec_zero,
      tr_matched_by = Some (exemption_matched_by code), tr_confidence = Some TAX_EXACT_MATCH_CONFIDENCE,
      tr_reason = ''Verified UBL-TR exemption code '' @ code @ '' mapped to the approved ERP purchase tax.'', tr_candidate_count = 1\<rparr>"

definition upgrade_to_exemption :: "internal_invoice \<Rightarrow> tax_mapping_result \<Rightarrow> string \<Rightarrow> int \<Rightarrow> int option \<Rightarrow> tax_mapping_result option" where
  "upgrade_to_exemption invoice tax_match code tax_id company_id =
     (if tm_errors tax_match \<noteq> [] \<or> map (\<lambda>l. (tl_line_number l, tl_tax_index l)) (tm_line_results tax_match) \<noteq> canonical_keys invoice then None
      else if list_ex (\<lambda>l. tr_status (tl_result l) \<noteq> TX_INVALID_INPUT) (tm_line_results tax_match) then None
      else Some \<lparr>tm_line_results = map (\<lambda>l. l\<lparr>tl_result := exemption_match_result code tax_id company_id\<rparr>) (tm_line_results tax_match),
        tm_warnings = tm_warnings tax_match, tm_errors = []\<rparr>)"

definition blocked_exemption_mapping :: "tax_mapping_result \<Rightarrow> string \<Rightarrow> tax_mapping_result" where
  "blocked_exemption_mapping tax_match reason =
     tax_match\<lparr>tm_line_results := map (\<lambda>l. if tr_status (tl_result l) = TX_INVALID_INPUT
        then l\<lparr>tl_result := (tl_result l)\<lparr>tr_reason := reason\<rparr>\<rparr> else l) (tm_line_results tax_match)\<rparr>"

definition is_exemption_pinned :: "tax_match_result \<Rightarrow> int set \<Rightarrow> bool" where
  "is_exemption_pinned r exemption_tax_ids \<longleftrightarrow>
     tr_tax_type r = Some TT_EXEMPTION
     \<or> take (length EXEMPTION_MATCHED_BY_PREFIX) (case tr_matched_by r of None \<Rightarrow> [] | Some m \<Rightarrow> m) = EXEMPTION_MATCHED_BY_PREFIX
     \<or> (case tr_tax_id r of None \<Rightarrow> False | Some i \<Rightarrow> i \<in> exemption_tax_ids)"

section \<open>What an exemption proves\<close>

definition zero_amount :: "decimal option \<Rightarrow> bool" where
  "zero_amount d \<longleftrightarrow> (case d of None \<Rightarrow> False | Some x \<Rightarrow> dec_same x dec_zero)"

lemma dec_same_val: "dec_is_finite b \<Longrightarrow> dec_same a b \<longleftrightarrow> dec_is_finite a \<and> dec_val a = dec_val b"
  using dec_compare_val(1) [of a b]
  by (cases a; cases b) (simp_all add: dec_same_def dec_is_finite_def)

lemma dec_zero_finite [simp]: "dec_is_finite dec_zero"
  by (simp add: dec_zero_def dec_is_finite_def)

lemma same_zero_trans: "dec_same a b \<Longrightarrow> dec_same b dec_zero \<Longrightarrow> dec_same a dec_zero"
  by (simp add: dec_same_val)

lemma same_decimal_zero: "same_decimal a b \<Longrightarrow> zero_amount b \<Longrightarrow> zero_amount a"
  by (auto simp: same_decimal_def zero_amount_def split: option.splits intro: same_zero_trans)

lemma one_tax_keys: "list_all (\<lambda>line. length (ln_taxes line) = 1) ls \<Longrightarrow>
    length (concat (map (\<lambda>line. map (\<lambda>(i, _). (ln_line_number line, i)) (enumerate 0 (ln_taxes line))) ls)) = length ls"
  by (induction ls) auto

text \<open>Without alignment problems the taxes of the lines and the facts of the document correspond one to one.\<close>

lemma aligned:
  assumes "alignment_problems invoice f = []"
  shows "list_all2 (\<lambda>line tx. \<exists>tax. ln_taxes line = [tax] \<and> canonical_tax_matches tax tx) (iv_lines invoice) (xf_line_tax_subtotals f)"
proof -
  from assms have keys: "map (\<lambda>tx. (sf_line_id tx, sf_tax_index tx)) (xf_line_tax_subtotals f) = canonical_keys invoice"
    and one: "list_all (\<lambda>line. length (ln_taxes line) = 1) (iv_lines invoice)"
    and found: "find (\<lambda>(tax, tx). \<not> canonical_tax_matches tax tx) (zip (map (\<lambda>line. hd (ln_taxes line)) (iv_lines invoice)) (xf_line_tax_subtotals f)) = None"
    by (auto simp: alignment_problems_def Let_def list_all_iff list_ex_iff split: if_splits option.splits)
  have len: "length (xf_line_tax_subtotals f) = length (iv_lines invoice)"
    using arg_cong [OF keys, of length] one_tax_keys [OF one] by (simp add: canonical_keys_def)
  show ?thesis
    unfolding list_all2_conv_all_nth
  proof (intro conjI allI impI)
    fix i assume i: "i < length (iv_lines invoice)"
    let ?line = "iv_lines invoice ! i" and ?tx = "xf_line_tax_subtotals f ! i"
    have "(hd (ln_taxes ?line), ?tx) \<in> set (zip (map (\<lambda>line. hd (ln_taxes line)) (iv_lines invoice)) (xf_line_tax_subtotals f))"
      using i len by (auto simp: set_zip intro!: exI [of _ i])
    with found have "canonical_tax_matches (hd (ln_taxes ?line)) ?tx" by (auto simp: find_None_iff)
    moreover have "length (ln_taxes ?line) = 1" using one i by (auto simp: list_all_length)
    then have "ln_taxes ?line = [hd (ln_taxes ?line)]" by (cases "ln_taxes ?line") auto
    ultimately show "\<exists>tax. ln_taxes ?line = [tax] \<and> canonical_tax_matches tax ?tx" by metis
  qed (simp add: len)
qed

lemma fact_problems_Nil:
  assumes "fact_problems txs = Inr []" "tx \<in> set txs"
  shows "sf_has_subtotal tx \<and> zero_amount (sf_tax_amount tx) \<and> sf_tax_type_code tx = Some ''0015''
    \<and> (\<exists>c \<in> set APPROVED_VAT_EXEMPTION_CODES. sf_exemption_reason_code tx = Some c)
    \<and> (sf_percent_present tx \<longrightarrow> zero_amount (sf_percent tx))"
proof -
  from assms(1) obtain ps where ps: "emap exempt_fact_problems txs = Inr ps" "concat ps = []" by (auto simp: fact_problems_def ebind_Inr_iff)
  from assms(2) obtain i where "i < length txs" "tx = txs ! i" by (auto simp: in_set_conv_nth)
  with ps(1) have q: "exempt_fact_problems tx = Inr (ps ! i)" "ps ! i \<in> set ps"
    by (auto simp: emap_Inr_nth list_all2_conv_all_nth)
  with ps(2) have "exempt_fact_problems tx = Inr []" by auto
  then show ?thesis
    by (auto simp: exempt_fact_problems_def Let_def ebind_Inr_iff zero_amount_def SUPPORTED_TAX_TYPE_CODES_def split: if_splits option.splits)
qed

lemma tax_total_problems_Nil: "tax_total_problems t = [] \<Longrightarrow> zero_amount (tf_amount t)"
  by (auto simp: tax_total_problems_def Let_def zero_amount_def split: if_splits)

lemma complete_document:
  assumes "completeness_problems invoice f = []"
  shows "xf_unrecognized_tax_subtotal_count f = Some 0 \<and> xf_unrecognized_tax_total_count f = Some 0
    \<and> (\<forall>t \<in> set (xf_line_tax_totals f @ xf_invoice_tax_totals f). zero_amount (tf_amount t))"
  using assms
  by (auto simp: completeness_problems_def split: option.splits if_splits intro: tax_total_problems_Nil)

lemma one_code: "length (remdups xs) = 1 \<Longrightarrow> x \<in> set xs \<Longrightarrow> x = hd (remdups xs)"
  by (metis One_nat_def empty_iff empty_set length_0_conv length_Suc_conv list.sel(1) set_ConsD set_remdups)

text \<open>The branches of the assessment that end in an eligible document.\<close>

lemma assessed_eligible:
  assumes "assess_invoice_exemption invoice (Some f) = Inr e" "eligible e"
  obtains (proven) code where "el_code e = Some code" "document_problems invoice (Some f) = []" "completeness_problems invoice f = []"
    "alignment_problems invoice f = []" "fact_problems (xf_line_tax_subtotals f) = Inr []" "invoice_level_problems f code = Inr []"
    "\<And>tx. tx \<in> set (xf_line_tax_subtotals f) \<Longrightarrow> sf_exemption_reason_code tx = Some code"
proof -
  let ?codes = "remdups (map sf_exemption_reason_code (xf_line_tax_subtotals f))"
  from assms obtain code where
    "el_code e = Some code" "document_problems invoice (Some f) = []" "completeness_problems invoice f = []"
    "alignment_problems invoice f = []" "fact_problems (xf_line_tax_subtotals f) = Inr []" "invoice_level_problems f code = Inr []"
    and codes: "length ?codes = 1" "hd ?codes = Some code"
    by (auto simp: assess_invoice_exemption_def eligible_def Let_def ebind_Inr_iff split: if_splits option.splits)
  moreover have "sf_exemption_reason_code tx = Some code" if "tx \<in> set (xf_line_tax_subtotals f)" for tx
    using one_code [OF codes(1), of "sf_exemption_reason_code tx"] codes(2) that by simp
  ultimately show ?thesis using proven by blast
qed

lemma invoice_level_Nil:
  assumes "invoice_level_problems f code = Inr []"
  shows "xf_invoice_tax_subtotals f \<noteq> [] \<and> (\<forall>tx \<in> set (xf_invoice_tax_subtotals f). sf_exemption_reason_code tx = Some code)
    \<and> (\<exists>invoice_base line_base. dec_total dec_zero (map taxable_or_zero (xf_invoice_tax_subtotals f)) = Some invoice_base
        \<and> dec_total dec_zero (map taxable_or_zero (xf_line_tax_subtotals f)) = Some line_base \<and> dec_same invoice_base line_base)"
  using assms
  by (auto simp: invoice_level_problems_def Let_def ebind_Inr_iff tax_try_def list_ex_iff split: if_splits option.splits)

text \<open>
  C18. An invoice is eligible for an exemption only if its original document proves it: the code is an
  approved one; there is no withholding, no other tax and no tax element outside the places the
  reader knows; every \<^verbatim>\<open>TaxTotal\<close> of the document is zero; every line of the canonical invoice has
  exactly one tax, a VAT whose amount is zero and whose rate, where the document states one, is zero; every
  subtotal of the lines and of the document names that one code; and the taxable amounts of the document
  level add up to those of the lines.
\<close>

theorem exemption_is_proven:
  assumes "assess_invoice_exemption invoice (Some f) = Inr e" "eligible e"
  shows "\<exists>code. el_code e = Some code \<and> code \<in> set APPROVED_VAT_EXEMPTION_CODES
    \<and> \<not> has_withholding f \<and> \<not> has_unsupported_tax_content f \<and> xf_invoice_type_code f = Some EXEMPTION_INVOICE_TYPE_CODE
    \<and> xf_unrecognized_tax_subtotal_count f = Some 0 \<and> xf_unrecognized_tax_total_count f = Some 0
    \<and> (\<forall>t \<in> set (xf_line_tax_totals f @ xf_invoice_tax_totals f). zero_amount (tf_amount t))
    \<and> list_all2 (\<lambda>line tx. \<exists>tax. ln_taxes line = [tax] \<and> normalize_tax_type (it_tax_type tax) = Some TT_VAT
        \<and> zero_amount (it_tax_amount tax) \<and> (sf_percent_present tx \<longrightarrow> zero_amount (it_rate tax))) (iv_lines invoice) (xf_line_tax_subtotals f)
    \<and> (\<forall>tx \<in> set (xf_line_tax_subtotals f @ xf_invoice_tax_subtotals f). sf_exemption_reason_code tx = Some code)
    \<and> (\<exists>invoice_base line_base. dec_total dec_zero (map taxable_or_zero (xf_invoice_tax_subtotals f)) = Some invoice_base
        \<and> dec_total dec_zero (map taxable_or_zero (xf_line_tax_subtotals f)) = Some line_base \<and> dec_same invoice_base line_base)"
proof -
  from assms obtain code where code: "el_code e = Some code" and doc: "document_problems invoice (Some f) = []"
    and complete: "completeness_problems invoice f = []" and alignment: "alignment_problems invoice f = []"
    and facts: "fact_problems (xf_line_tax_subtotals f) = Inr []" and level: "invoice_level_problems f code = Inr []"
    and same: "\<And>tx. tx \<in> set (xf_line_tax_subtotals f) \<Longrightarrow> sf_exemption_reason_code tx = Some code"
    by (rule assessed_eligible) (blast intro: that)
  have pairs: "list_all2 (\<lambda>line tx. \<exists>tax. ln_taxes line = [tax] \<and> canonical_tax_matches tax tx) (iv_lines invoice) (xf_line_tax_subtotals f)"
    by (rule aligned [OF alignment])
  have lines: "list_all2 (\<lambda>line tx. \<exists>tax. ln_taxes line = [tax] \<and> normalize_tax_type (it_tax_type tax) = Some TT_VAT
        \<and> zero_amount (it_tax_amount tax) \<and> (sf_percent_present tx \<longrightarrow> zero_amount (it_rate tax))) (iv_lines invoice) (xf_line_tax_subtotals f)"
    by (rule list.rel_mono_strong [OF pairs])
      (use fact_problems_Nil [OF facts] in \<open>fastforce simp: canonical_tax_matches_def intro: same_decimal_zero\<close>)
  have "iv_lines invoice \<noteq> []" using alignment by (auto simp: alignment_problems_def)
  with pairs obtain tx where tx: "tx \<in> set (xf_line_tax_subtotals f)" by (cases "xf_line_tax_subtotals f") auto
  have approved: "code \<in> set APPROVED_VAT_EXEMPTION_CODES" using fact_problems_Nil [OF facts tx] same [OF tx] by auto
  have document: "\<not> has_withholding f" "\<not> has_unsupported_tax_content f" "xf_invoice_type_code f = Some EXEMPTION_INVOICE_TYPE_CODE"
    using doc by (auto simp: document_problems_def split: if_splits)
  show ?thesis
    using code approved document complete_document [OF complete] lines same invoice_level_Nil [OF level]
    by (intro exI [of _ code]) auto
qed

definition exempt_line :: invoice_line where
  "exempt_line = \<lparr>ln_line_number = Some ''1'', ln_description = None, ln_description_source = None, ln_seller_item_code = None,
     ln_buyer_item_code = None, ln_barcode = None, ln_manufacturer_item_code = None, ln_commodity_classification = None, ln_quantity = None,
     ln_unit_code = None, ln_unit_price = None, ln_line_extension_amount = None, ln_discounts = [],
     ln_taxes = [\<lparr>it_tax_type = Some ''KDV'', it_rate = None, it_base_amount = Some (Dec False 100 0), it_tax_amount = Some dec_zero,
       it_exemption_reason = Some ''335''\<rparr>]\<rparr>"

definition exempt_party :: party where
  "exempt_party = \<lparr>py_name = None, py_tax_number = None, py_tax_office = None, py_mersis_number = None, py_website = None, py_emails = [],
     py_phones = [], py_addresses = []\<rparr>"

definition exempt_invoice :: internal_invoice where
  "exempt_invoice = \<lparr>iv_header = \<lparr>hd_invoice_number = ''A1'', hd_invoice_uuid = ''U1'', hd_ettn = None, hd_invoice_type = Some ''ISTISNA'',
       hd_profile_id = None, hd_issue_date = None, hd_issue_time = None, hd_currency_code = None, hd_exchange_rate = None, hd_notes = []\<rparr>,
     iv_supplier = exempt_party, iv_customer = exempt_party,
     iv_totals = \<lparr>mt_line_extension_amount = None, mt_tax_exclusive_amount = Some (Dec False 100 0), mt_tax_inclusive_amount = Some (Dec False 100 0),
       mt_allowance_total = None, mt_charge_total = None, mt_payable_amount = None, mt_rounding_amount = None\<rparr>,
     iv_lines = [exempt_line], iv_attachments = []\<rparr>"

definition exempt_subtotal :: "string option \<Rightarrow> tax_subtotal_fact" where
  "exempt_subtotal line_id = \<lparr>sf_line_id = line_id, sf_tax_index = 0, sf_has_subtotal = True, sf_tax_type_code = Some ''0015'',
     sf_exemption_reason_code = Some ''335'', sf_exemption_reason = None, sf_percent_present = False, sf_percent = None,
     sf_tax_amount = Some dec_zero, sf_taxable_amount = Some (Dec False 100 0), sf_malformed = False\<rparr>"

definition exempt_total :: "string option \<Rightarrow> tax_total_fact" where
  "exempt_total line_id = \<lparr>tf_line_id = line_id, tf_amount_present = True, tf_amount = Some dec_zero, tf_malformed = False, tf_subtotal_count = 1\<rparr>"

definition exempt_facts :: source_tax_facts where
  "exempt_facts = \<lparr>xf_invoice_uuid = Some ''U1'', xf_invoice_type_code = Some ''ISTISNA'', xf_tax_type_codes = [''0015''],
     xf_tax_subtotals_without_type_code = 0, xf_invoice_withholding_total_count = 0, xf_line_withholding_total_count = 0,
     xf_line_ids = Some [Some ''1''], xf_line_tax_subtotals = [exempt_subtotal (Some ''1'')], xf_invoice_tax_subtotals = [exempt_subtotal None],
     xf_unrecognized_tax_subtotal_count = Some 0, xf_unrecognized_tax_total_count = Some 0, xf_line_tax_totals = [exempt_total (Some ''1'')],
     xf_invoice_tax_totals = [exempt_total None], xf_monetary_total_count = Some 1, xf_tax_exclusive_amount = Some (Dec False 100 0),
     xf_tax_inclusive_amount = Some (Dec False 100 0), xf_monetary_totals_malformed = False\<rparr>"

lemma exempt_assessed: "assess_invoice_exemption exempt_invoice (Some exempt_facts) = Inr \<lparr>el_code = Some ''335'', el_problems = []\<rparr>"
  by code_simp

theorem exemption_is_proven_witness:
  "\<exists>e code. assess_invoice_exemption exempt_invoice (Some exempt_facts) = Inr e \<and> eligible e \<and> el_code e = Some code
     \<and> code \<in> set APPROVED_VAT_EXEMPTION_CODES \<and> iv_lines exempt_invoice \<noteq> []"
  using exemption_is_proven [OF exempt_assessed] exempt_assessed by (auto simp: eligible_def exempt_invoice_def)

end
