(* ===== verification/Matching.thy ===== *)
theory Matching
  imports Invoice_Data "HOL-Library.Multiset"
begin

text \<open>
  Deterministic matching of suppliers and products: \<^verbatim>\<open>app/matching/partner.py\<close>,
  \<^verbatim>\<open>app/matching/product.py\<close> and \<^verbatim>\<open>app/matching/result.py\<close>. The repositories of the ERP are
  arguments: functions that return rows or raise. Results are found only when every identity that
  the invoice carries agrees; the theorems say so of the whole engines.
\<close>

section \<open>Results\<close>

datatype matching_error = PartnerMatchingError string | ProductMatchingError string

datatype match_status = MATCHED | NOT_FOUND | MULTIPLE_MATCHES | INVALID_INPUT

record partner_match =
  pm_status :: match_status
  pm_partner_id :: "int option"
  pm_matched_by :: "string option"
  pm_reason :: string
  pm_candidate_count :: nat
  pm_confidence :: "decimal option"

record product_match =
  dm_status :: match_status
  dm_line_number :: "string option"
  dm_product_id :: "int option"
  dm_default_code :: "string option"
  dm_barcode :: "string option"
  dm_seller_item_code :: "string option"
  dm_matched_by :: "string option"
  dm_reason :: string
  dm_candidate_count :: nat
  dm_confidence :: "decimal option"

record product_line_match =
  lm_line_number :: "string option"
  lm_result :: product_match

record invoice_product_match =
  im_line_results :: "product_line_match list"
  im_warnings :: "string list"
  im_errors :: "string list"

definition EXACT_MATCH_CONFIDENCE :: decimal where
  "EXACT_MATCH_CONFIDENCE = Dec False 100 (-2)"

section \<open>Partners\<close>

record 'e partner_repository =
  pt_find_by_tax_number :: "string \<Rightarrow> int option \<Rightarrow> ('e, partner list) result"
  pt_find_by_ids :: "int list \<Rightarrow> ('e, partner list) result"

record commercial_group =
  cg_commercial_partner_id :: int
  cg_partner :: "partner option"
  cg_contacts :: "partner list"

definition partner_result ::
    "match_status \<Rightarrow> int option \<Rightarrow> string option \<Rightarrow> string \<Rightarrow> nat \<Rightarrow> decimal option \<Rightarrow> partner_match" where
  "partner_result status partner_id matched_by reason candidate_count confidence =
     \<lparr>pm_status = status, pm_partner_id = (if status = MATCHED then partner_id else None), pm_matched_by = matched_by,
      pm_reason = reason, pm_candidate_count = candidate_count, pm_confidence = confidence\<rparr>"

definition canonical_partner_id :: "partner \<Rightarrow> int" where
  "canonical_partner_id p = (case pr_commercial_partner_id p of Some i \<Rightarrow> i | None \<Rightarrow> pr_id p)"

text \<open>A Python dict built from rows: the last row of an id counts.\<close>

definition rows_by_id :: "partner list \<Rightarrow> int \<Rightarrow> partner option" where
  "rows_by_id rows = map_of (rev (map (\<lambda>p. (pr_id p, p)) rows))"

definition group_by_commercial_partner :: "'e partner_repository \<Rightarrow> partner list \<Rightarrow> ('e, commercial_group list) result" where
  "group_by_commercial_partner repo candidates =
     (let ids = rev (remdups (rev (map canonical_partner_id candidates)));
          missing = filter (\<lambda>i. rows_by_id candidates i = None) ids in
      ebind (if missing = [] then Inr [] else pt_find_by_ids repo missing) (\<lambda>loaded.
      Inr (map (\<lambda>i. \<lparr>cg_commercial_partner_id = i,
        cg_partner = (case rows_by_id candidates i of Some p \<Rightarrow> Some p | None \<Rightarrow> rows_by_id loaded i),
        cg_contacts = filter (\<lambda>p. canonical_partner_id p = i) candidates\<rparr>) ids)))"

definition is_valid_canonical_partner :: "commercial_group \<Rightarrow> string \<Rightarrow> int option \<Rightarrow> bool" where
  "is_valid_canonical_partner g tax_number company_id = (case cg_partner g of None \<Rightarrow> False
   | Some p \<Rightarrow>
       pr_id p = cg_commercial_partner_id g \<and> canonical_partner_id p = pr_id p \<and> pr_active p
       \<and> clean_text (pr_tax_number p) = Some tax_number
       \<and> (company_id = None \<or> pr_company_id p = company_id \<or> pr_company_id p = None))"

definition match_partner ::
    "'e partner_repository \<Rightarrow> internal_invoice \<Rightarrow> int option \<Rightarrow> (matching_error, partner_match) result" where
  "match_partner repo invoice company_id = (case clean_text (py_tax_number (iv_supplier invoice)) of
     None \<Rightarrow> Inr (partner_result INVALID_INPUT None None ''Supplier tax number is required for deterministic matching.'' 0 None)
   | Some tax_number \<Rightarrow>
       (case pt_find_by_tax_number repo tax_number company_id of
          Inl _ \<Rightarrow> Inl (PartnerMatchingError ''Partner repository lookup failed.'')
        | Inr candidates \<Rightarrow>
            let active = filter pr_active candidates in
            if active = [] then Inr (partner_result NOT_FOUND None None ''No active deterministic supplier partner candidate found.'' 0 None)
            else case group_by_commercial_partner repo active of
              Inl _ \<Rightarrow> Inl (PartnerMatchingError ''Partner repository lookup failed.'')
            | Inr groups \<Rightarrow>
                if 1 < length groups
                then Inr (partner_result MULTIPLE_MATCHES None None
                  ''Multiple active supplier partner candidates found by tax number.'' (length groups) None)
                else let g = hd groups in
                  if \<not> is_valid_canonical_partner g tax_number company_id
                  then Inr (partner_result MULTIPLE_MATCHES None None
                    ''The commercial partner of the matching supplier contacts failed validation.'' (length (cg_contacts g)) None)
                  else Inr (partner_result MATCHED (Some (cg_commercial_partner_id g)) (Some ''tax_number'')
                    ''Unique supplier partner match by tax number.'' 1 (Some EXACT_MATCH_CONFIDENCE))))"

section \<open>Products\<close>

record 'e product_repository =
  pp_find_by_default_code :: "string \<Rightarrow> int option \<Rightarrow> ('e, product list) result"
  pp_find_by_barcode :: "string \<Rightarrow> int option \<Rightarrow> ('e, product list) result"

record 'e supplier_product_repository =
  sr_find_supplier_product_codes :: "int \<Rightarrow> string \<Rightarrow> int \<Rightarrow> nat \<Rightarrow> ('e, supplier_product_code list) result"
  sr_find_template_variants :: "int \<Rightarrow> int \<Rightarrow> int option \<Rightarrow> nat \<Rightarrow> ('e, product_variant list) result"

definition SUPPLIER_PRODUCT_LOOKUP_LIMIT :: nat where
  "SUPPLIER_PRODUCT_LOOKUP_LIMIT = 2"

record identity_outcome =
  io_matched_by :: "string option"
  io_product_id :: "int option"
  io_candidate_count :: nat

definition resolved_supplier_partner_id :: "partner_match option \<Rightarrow> int option" where
  "resolved_supplier_partner_id m = (case m of None \<Rightarrow> None
   | Some r \<Rightarrow> if pm_status r \<noteq> MATCHED then None
       else case pm_partner_id r of Some i \<Rightarrow> if 0 < i then Some i else None | None \<Rightarrow> None)"

definition authoritative_sku_identities :: "internal_invoice \<Rightarrow> invoice_line \<Rightarrow> (string \<times> string) list" where
  "authoritative_sku_identities invoice line =
     (case clean_text (ln_manufacturer_item_code line) of None \<Rightarrow> [] | Some c \<Rightarrow> [(''manufacturer_item_code'', c)])
     @ (case profile_manufacturer_sku invoice line of None \<Rightarrow> [] | Some s \<Rightarrow> [(''supplier_profile_sku'', s)])"

definition unique_active :: "int list \<Rightarrow> int option" where
  "unique_active ids = (case ids of [i] \<Rightarrow> Some i | _ \<Rightarrow> None)"

definition lookup_outcome ::
    "string \<Rightarrow> string \<Rightarrow> (string \<Rightarrow> int option \<Rightarrow> ('e, product list) result) \<Rightarrow> int option \<Rightarrow> (matching_error, identity_outcome) result" where
  "lookup_outcome matched_by identifier find_products company_id = (case find_products identifier company_id of
     Inl _ \<Rightarrow> Inl (ProductMatchingError ''Product repository lookup failed.'')
   | Inr candidates \<Rightarrow> let active = filter pd_active candidates in
       Inr \<lparr>io_matched_by = Some matched_by, io_product_id = unique_active (map pd_id active), io_candidate_count = length active\<rparr>)"

fun legacy_chain_outcome ::
    "(string \<times> string option \<times> (string \<Rightarrow> int option \<Rightarrow> ('e, product list) result)) list \<Rightarrow> int option \<Rightarrow>
     (matching_error, identity_outcome) result" where
  "legacy_chain_outcome [] company_id = Inr \<lparr>io_matched_by = None, io_product_id = None, io_candidate_count = 0\<rparr>"
| "legacy_chain_outcome ((matched_by, identifier, find_products) # plan) company_id = (case identifier of
     None \<Rightarrow> legacy_chain_outcome plan company_id
   | Some i \<Rightarrow> ebind (lookup_outcome matched_by i find_products company_id) (\<lambda>outcome.
       if 0 < io_candidate_count outcome then Inr outcome else legacy_chain_outcome plan company_id))"

definition supplier_product_outcome ::
    "'e supplier_product_repository option \<Rightarrow> string option \<Rightarrow> int option \<Rightarrow> int option \<Rightarrow>
     (matching_error, identity_outcome option) result" where
  "supplier_product_outcome repo seller_item_code supplier_partner_id company_id =
     (case (repo, seller_item_code, supplier_partner_id, company_id) of
        (Some r, Some code, Some supplier, Some company) \<Rightarrow>
          if company \<le> 0 then Inr None
          else (case sr_find_supplier_product_codes r supplier code company SUPPLIER_PRODUCT_LOOKUP_LIMIT of
              Inl _ \<Rightarrow> Inl (ProductMatchingError ''Supplier product repository lookup failed.'')
            | Inr [row] \<Rightarrow>
                (case sr_find_template_variants r (sp_product_tmpl_id row) company (sp_product_id row) SUPPLIER_PRODUCT_LOOKUP_LIMIT of
                   Inl _ \<Rightarrow> Inl (ProductMatchingError ''Supplier product repository lookup failed.'')
                 | Inr variants \<Rightarrow> let active = filter pv_active variants in
                     Inr (Some \<lparr>io_matched_by = Some ''supplier_product_code'', io_product_id = unique_active (map pv_id active),
                       io_candidate_count = length active\<rparr>))
            | Inr rows \<Rightarrow> Inr (Some \<lparr>io_matched_by = Some ''supplier_product_code'', io_product_id = None, io_candidate_count = length rows\<rparr>))
      | _ \<Rightarrow> Inr None)"

definition product_result ::
    "match_status \<Rightarrow> invoice_line \<Rightarrow> int option \<Rightarrow> string option \<Rightarrow> string \<Rightarrow> nat \<Rightarrow> decimal option \<Rightarrow> product_match" where
  "product_result status line product_id matched_by reason candidate_count confidence =
     \<lparr>dm_status = status, dm_line_number = ln_line_number line, dm_product_id = (if status = MATCHED then product_id else None),
      dm_default_code = clean_text (ln_buyer_item_code line), dm_barcode = clean_text (ln_barcode line),
      dm_seller_item_code = clean_text (ln_seller_item_code line), dm_matched_by = matched_by, dm_reason = reason,
      dm_candidate_count = candidate_count, dm_confidence = confidence\<rparr>"

definition text_of :: "string option \<Rightarrow> string" where
  "text_of v = (case v of None \<Rightarrow> ''None'' | Some s \<Rightarrow> s)"

definition conflict_text :: "identity_outcome list \<Rightarrow> string" where
  "conflict_text matched = str_join '', '' (map (\<lambda>o'. text_of (io_matched_by o') @ '' -> product ''
     @ (case io_product_id o' of None \<Rightarrow> ''None'' | Some i \<Rightarrow> int_str i)) matched)"

definition corroborating_text :: "identity_outcome list \<Rightarrow> identity_outcome option \<Rightarrow> int \<Rightarrow> string list" where
  "corroborating_text others advisory product_id = map (\<lambda>o'. text_of (io_matched_by o')) others
     @ (case advisory of None \<Rightarrow> []
        | Some a \<Rightarrow> if io_candidate_count a = 1 \<and> io_product_id a = Some product_id then [text_of (io_matched_by a) @ '' (advisory)''] else [])"

definition combined_result :: "invoice_line \<Rightarrow> identity_outcome list \<Rightarrow> identity_outcome option \<Rightarrow> product_match" where
  "combined_result line outcomes advisory =
     (case find (\<lambda>o'. 1 < io_candidate_count o') outcomes of
        Some ambiguous \<Rightarrow> product_result MULTIPLE_MATCHES line None None
          (''Multiple active product candidates found by '' @ text_of (io_matched_by ambiguous) @ ''.'') (io_candidate_count ambiguous) None
      | None \<Rightarrow>
          let matched = filter (\<lambda>o'. io_product_id o' \<noteq> None) outcomes;
              product_ids = rev (remdups (rev (map (\<lambda>o'. the (io_product_id o')) matched))) in
          if 1 < length product_ids
          then product_result MULTIPLE_MATCHES line None None
            (''Conflicting product identities resolve to different products: '' @ conflict_text matched @ ''.'') (length product_ids) None
          else case product_ids of
            product_id # _ \<Rightarrow>
              let primary = io_matched_by (hd matched); corroborating = corroborating_text (tl matched) advisory product_id in
              product_result MATCHED line (Some product_id) primary
                (if corroborating = [] then ''Unique product match by '' @ text_of primary @ ''.''
                 else ''Unique product match by '' @ text_of primary @ ''; corroborated by '' @ str_join '', '' corroborating @ ''.'')
                1 (Some EXACT_MATCH_CONFIDENCE)
          | [] \<Rightarrow>
              product_result NOT_FOUND line None None
                (case advisory of
                   Some a \<Rightarrow> if 0 < io_candidate_count a
                     then ''No active deterministic product candidate found. Seller item code equals the default_code of ''
                       @ nat_str (io_candidate_count a)
                       @ '' active product(s); a seller code is not a global product identity, so a supplier-specific mapping is required.''
                     else ''No active deterministic product candidate found.''
                 | None \<Rightarrow> ''No active deterministic product candidate found.'') 0 None)"

definition match_line ::
    "'e product_repository \<Rightarrow> 'e supplier_product_repository option \<Rightarrow> internal_invoice \<Rightarrow> invoice_line \<Rightarrow> int option \<Rightarrow> int option \<Rightarrow>
     (matching_error, product_match) result" where
  "match_line repo suppliers invoice line company_id supplier_partner_id =
     (if (case ln_line_number line of None \<Rightarrow> True | Some n \<Rightarrow> blank n)
      then Inr (product_result INVALID_INPUT line None None ''Line identifier is required for product matching.'' 0 None)
      else
        let seller_item_code = clean_text (ln_seller_item_code line);
            lookup_plan = [(''default_code'', clean_text (ln_buyer_item_code line), pp_find_by_default_code repo),
                           (''barcode'', clean_text (ln_barcode line), pp_find_by_barcode repo)];
            sku_plan = authoritative_sku_identities invoice line in
        if list_all (\<lambda>(_, identifier, _). identifier = None) lookup_plan \<and> seller_item_code = None \<and> sku_plan = []
        then Inr (product_result INVALID_INPUT line None None ''At least one deterministic product identifier is required.'' 0 None)
        else
          ebind (legacy_chain_outcome lookup_plan company_id) (\<lambda>legacy.
          ebind (case seller_item_code of
                   Some code \<Rightarrow> if io_candidate_count legacy = 0
                     then ebind (lookup_outcome ''seller_item_code'' code (pp_find_by_default_code repo) company_id) (\<lambda>x. Inr (Some x))
                     else Inr None
                 | None \<Rightarrow> Inr None) (\<lambda>advisory.
          ebind (emap (\<lambda>(matched_by, identifier). lookup_outcome matched_by identifier (pp_find_by_default_code repo) company_id) sku_plan) (\<lambda>skus.
          ebind (supplier_product_outcome suppliers seller_item_code supplier_partner_id company_id) (\<lambda>supplier.
          Inr (combined_result line ((case supplier of Some s \<Rightarrow> [s] | None \<Rightarrow> []) @ [legacy] @ skus) advisory))))))"

definition match_products ::
    "'e product_repository \<Rightarrow> 'e supplier_product_repository option \<Rightarrow> internal_invoice \<Rightarrow> int option \<Rightarrow> partner_match option \<Rightarrow>
     (matching_error, invoice_product_match) result" where
  "match_products repo suppliers invoice company_id partner =
     (if iv_lines invoice = [] then Inr \<lparr>im_line_results = [], im_warnings = [], im_errors = [''Invoice has no lines to match.'']\<rparr>
      else
        ebind (emap (\<lambda>line. ebind (match_line repo suppliers invoice line company_id (resolved_supplier_partner_id partner)) (\<lambda>r.
          Inr \<lparr>lm_line_number = ln_line_number line, lm_result = r\<rparr>)) (iv_lines invoice)) (\<lambda>rs.
        Inr \<lparr>im_line_results = rs, im_warnings = [], im_errors = []\<rparr>))"

section \<open>When a supplier is matched\<close>

lemma rev_remdups_set [simp]: "set (rev (remdups (rev xs))) = set xs"
  by simp

lemma short_remdups: "length (rev (remdups (rev xs))) \<le> 1 \<longleftrightarrow> (\<forall>x \<in> set xs. \<forall>y \<in> set xs. x = y)"
proof -
  have "length (remdups (rev xs)) = card (set xs)" by (simp add: length_remdups_card_conv)
  moreover have "card (set xs) \<le> 1 \<longleftrightarrow> (\<forall>x \<in> set xs. \<forall>y \<in> set xs. x = y)" by (auto simp: card_le_Suc0_iff_eq)
  ultimately show ?thesis by simp
qed

lemma single_remdups:
  assumes "xs \<noteq> []" "\<forall>x \<in> set xs. x = i"
  shows "rev (remdups (rev xs)) = [i]"
proof -
  have "length (rev (remdups (rev xs))) \<le> 1" unfolding short_remdups using assms(2) by metis
  moreover have "set (rev (remdups (rev xs))) = {i}" using assms by (cases xs) auto
  ultimately show ?thesis by (cases "rev (remdups (rev xs))") auto
qed

text \<open>The record of the canonical partner: among the candidates, or read by its id.\<close>

definition canonical_record :: "'e partner_repository \<Rightarrow> partner list \<Rightarrow> int \<Rightarrow> ('e, partner option) result" where
  "canonical_record repo active i = (case rows_by_id active i of Some p \<Rightarrow> Inr (Some p)
   | None \<Rightarrow> ebind (pt_find_by_ids repo [i]) (\<lambda>loaded. Inr (rows_by_id loaded i)))"

lemma group_single:
  assumes "active \<noteq> []" "\<forall>c \<in> set active. canonical_partner_id c = i"
  shows "group_by_commercial_partner repo active = ebind (canonical_record repo active i) (\<lambda>p.
    Inr [\<lparr>cg_commercial_partner_id = i, cg_partner = p, cg_contacts = active\<rparr>])"
proof -
  have ids: "rev (remdups (rev (map canonical_partner_id active))) = [i]" using assms by (intro single_remdups) auto
  have "filter (\<lambda>p. canonical_partner_id p = i) active = active" using assms(2) by simp
  then show ?thesis
    unfolding group_by_commercial_partner_def ids by (auto simp: canonical_record_def ebind_def split: option.split sum.split)
qed

lemma group_many:
  assumes "c \<in> set active" "d \<in> set active" "canonical_partner_id c \<noteq> canonical_partner_id d"
    and "group_by_commercial_partner repo active = Inr groups"
  shows "1 < length groups"
proof -
  have "length groups = length (rev (remdups (rev (map canonical_partner_id active))))"
    using assms(4) by (auto simp: group_by_commercial_partner_def Let_def ebind_Inr_iff)
  moreover have "\<not> length (rev (remdups (rev (map canonical_partner_id active)))) \<le> 1"
    unfolding short_remdups using assms(1-3) by auto
  ultimately show ?thesis by simp
qed

text \<open>
  C25. An invoice is matched to supplier \<^verbatim>\<open>i\<close> exactly when its tax number finds active partners, all of
  them belong to the commercial partner \<^verbatim>\<open>i\<close>, and the record of \<^verbatim>\<open>i\<close> itself is its own commercial
  partner, active, carries exactly that tax number, and is of the company or shared. In every other
  case nothing is matched.
\<close>

theorem partner_match_exact:
  "(\<exists>r. match_partner repo invoice company_id = Inr r \<and> pm_partner_id r = Some i) \<longleftrightarrow>
   (\<exists>tax_number candidates p. clean_text (py_tax_number (iv_supplier invoice)) = Some tax_number
      \<and> pt_find_by_tax_number repo tax_number company_id = Inr candidates
      \<and> filter pr_active candidates \<noteq> [] \<and> list_all (\<lambda>c. canonical_partner_id c = i) (filter pr_active candidates)
      \<and> canonical_record repo (filter pr_active candidates) i = Inr (Some p)
      \<and> pr_id p = i \<and> canonical_partner_id p = i \<and> pr_active p \<and> clean_text (pr_tax_number p) = Some tax_number
      \<and> (company_id = None \<or> pr_company_id p = company_id \<or> pr_company_id p = None))"
proof (cases "clean_text (py_tax_number (iv_supplier invoice))")
  case None
  then show ?thesis by (simp add: match_partner_def partner_result_def)
next
  case tax: (Some tax_number)
  show ?thesis
  proof (cases "pt_find_by_tax_number repo tax_number company_id")
    case (Inl err)
    with tax show ?thesis by (simp add: match_partner_def)
  next
    case found: (Inr candidates)
    let ?active = "filter pr_active candidates"
    show ?thesis
    proof (cases "?active = []")
      case True
      with tax found show ?thesis by (simp add: match_partner_def partner_result_def)
    next
      case some: False
      show ?thesis
      proof (cases "\<exists>j. \<forall>c \<in> set ?active. canonical_partner_id c = j")
        case True
        then obtain j where j: "\<forall>c \<in> set ?active. canonical_partner_id c = j" by blast
        from some obtain c where "c \<in> set ?active" by (cases ?active) auto
        with j have all: "list_all (\<lambda>c. canonical_partner_id c = i) ?active \<longleftrightarrow> i = j" by (auto simp: list_all_iff)
        note step = match_partner_def [of repo invoice company_id] group_single [OF some j, of repo]
        show ?thesis
        proof (cases "canonical_record repo ?active j")
          case (Inl err)
          then show ?thesis using tax found some all by (auto simp: step ebind_def)
        next
          case (Inr p)
          let ?g = "\<lparr>cg_commercial_partner_id = j, cg_partner = p, cg_contacts = ?active\<rparr>"
          have "match_partner repo invoice company_id = Inr (
            if is_valid_canonical_partner ?g tax_number company_id
            then partner_result MATCHED (Some j) (Some ''tax_number'') ''Unique supplier partner match by tax number.'' 1 (Some EXACT_MATCH_CONFIDENCE)
            else partner_result MULTIPLE_MATCHES None None
              ''The commercial partner of the matching supplier contacts failed validation.'' (length ?active) None)"
            using some by (simp add: step tax found Inr ebind_def Let_def)
          then have "(\<exists>r. match_partner repo invoice company_id = Inr r \<and> pm_partner_id r = Some i) \<longleftrightarrow>
              i = j \<and> is_valid_canonical_partner ?g tax_number company_id"
            by (auto simp: partner_result_def)
          then show ?thesis using some all Inr
            by (cases "i = j"; cases p; force simp: tax found is_valid_canonical_partner_def)
        qed
      next
        case False
        then obtain c d where cd: "c \<in> set ?active" "d \<in> set ?active" "canonical_partner_id c \<noteq> canonical_partner_id d"
          by blast
        then have "\<not> list_all (\<lambda>c. canonical_partner_id c = i) ?active" by (auto simp: list_all_iff)
        moreover have "\<not> (match_partner repo invoice company_id = Inr r \<and> pm_partner_id r = Some i)" for r
          using tax found some group_many [OF cd, of repo]
          by (auto simp: match_partner_def Let_def partner_result_def split: sum.splits if_splits)
        ultimately show ?thesis using tax found by auto
      qed
    qed
  qed
qed

section \<open>When a product is matched\<close>

definition agreeing :: "identity_outcome list \<Rightarrow> int \<Rightarrow> bool" where
  "agreeing os i \<longleftrightarrow> list_all (\<lambda>x. io_candidate_count x \<le> 1 \<and> (io_product_id x = None \<or> io_product_id x = Some i)) os
     \<and> list_ex (\<lambda>x. io_product_id x = Some i) os"

lemma found_ids_set: "(\<forall>y \<in> set (map (\<lambda>x. the (io_product_id x)) (filter (\<lambda>x. io_product_id x \<noteq> None) os)). P y) \<longleftrightarrow>
   (\<forall>x \<in> set os. \<forall>y. io_product_id x = Some y \<longrightarrow> P y)"
  by (induction os) auto

lemma uniq_single: "rev (remdups (rev xs)) = [i] \<longleftrightarrow> xs \<noteq> [] \<and> (\<forall>y \<in> set xs. y = i)"
proof
  assume "rev (remdups (rev xs)) = [i]"
  then have "set xs = {i}" using rev_remdups_set [of xs] by (metis empty_set list.simps(15))
  then show "xs \<noteq> [] \<and> (\<forall>y \<in> set xs. y = i)" by auto
qed (rule single_remdups; blast)

lemma product_ids_single:
  "rev (remdups (rev (map (\<lambda>x. the (io_product_id x)) (filter (\<lambda>x. io_product_id x \<noteq> None) os)))) = [i] \<longleftrightarrow>
   (\<exists>x \<in> set os. io_product_id x = Some i) \<and> (\<forall>x \<in> set os. io_product_id x = None \<or> io_product_id x = Some i)"
proof -
  have "(\<forall>y. io_product_id x = Some y \<longrightarrow> y = i) \<longleftrightarrow> io_product_id x = None \<or> io_product_id x = Some i" for x
    by (cases "io_product_id x") auto
  then show ?thesis unfolding uniq_single found_ids_set by (auto simp: filter_empty_conv)
qed

text \<open>
  C26. What the identities of a line found decides the line alone and fails closed: a product is
  matched exactly when no identity is ambiguous and those that found a product all found it; the
  line has several matches exactly when an identity is ambiguous or two disagree; and the advisory
  lookup of the seller code changes nothing but the explanation.
\<close>

theorem product_match_fails_closed:
  "(dm_product_id (combined_result line os advisory) = Some i \<longleftrightarrow> agreeing os i)
   \<and> (dm_status (combined_result line os advisory) = MATCHED \<longleftrightarrow> (\<exists>i. agreeing os i))
   \<and> (dm_status (combined_result line os advisory) = MULTIPLE_MATCHES \<longleftrightarrow>
        (\<exists>x \<in> set os. 1 < io_candidate_count x)
        \<or> (\<exists>x \<in> set os. \<exists>y \<in> set os. io_product_id x \<noteq> None \<and> io_product_id y \<noteq> None \<and> io_product_id x \<noteq> io_product_id y))
   \<and> (combined_result line os advisory)\<lparr>dm_reason := reason\<rparr> = (combined_result line os None)\<lparr>dm_reason := reason\<rparr>"
proof -
  let ?matched = "filter (\<lambda>x. io_product_id x \<noteq> None) os"
  let ?ids = "map (\<lambda>x. the (io_product_id x)) ?matched"
  let ?uniq = "rev (remdups (rev ?ids))"
  show ?thesis
  proof (cases "find (\<lambda>x. 1 < io_candidate_count x) os")
    case (Some a)
    then have a: "a \<in> set os" "1 < io_candidate_count a" by (auto simp: find_Some_iff)
    then have "\<not> agreeing os j" for j by (metis (mono_tags, lifting) agreeing_def leD list_all_iff)
    with Some a show ?thesis by (auto simp: combined_result_def product_result_def)
  next
    case None
    then have le: "\<forall>x \<in> set os. io_candidate_count x \<le> 1" by (auto simp: find_None_iff)
    then have agree: "agreeing os j \<longleftrightarrow> ?uniq = [j]" for j
      unfolding product_ids_single by (auto simp: agreeing_def list_all_iff list_ex_iff)
    have differ: "1 < length ?uniq \<longleftrightarrow>
        (\<exists>x \<in> set os. \<exists>y \<in> set os. io_product_id x \<noteq> None \<and> io_product_id y \<noteq> None \<and> io_product_id x \<noteq> io_product_id y)"
    proof -
      have "1 < length ?uniq \<longleftrightarrow> \<not> (\<forall>x \<in> set ?ids. \<forall>y \<in> set ?ids. x = y)" 
        unfolding short_remdups [symmetric] not_le ..
      also have "\<dots> \<longleftrightarrow> (\<exists>x \<in> set os. \<exists>y \<in> set os. io_product_id x \<noteq> None \<and> io_product_id y \<noteq> None \<and> io_product_id x \<noteq> io_product_id y)"
        unfolding found_ids_set by (metis not_None_eq option.inject)
      finally show ?thesis .
    qed
    show ?thesis
    proof (cases "1 < length ?uniq")
      case True
      then have "\<not> agreeing os j" for j unfolding agree by auto
      with True None differ show ?thesis by (simp add: combined_result_def Let_def product_result_def)
    next
      case False
      then consider "?uniq = []" | j where "?uniq = [j]" by (cases ?uniq) auto
      then show ?thesis
      proof cases
        case 1
        then have "\<not> agreeing os j" for j unfolding agree by simp
        with 1 False None differ le show ?thesis
          by (auto simp: combined_result_def Let_def product_result_def)
      next
        case 2
        then have "agreeing os k \<longleftrightarrow> k = j" for k unfolding agree by auto
        with 2 False None differ le show ?thesis
          by (auto simp: combined_result_def Let_def product_result_def)
      qed
    qed
  qed
qed

end
