(* ===== verification/Expense_Mapping.thy ===== *)
theory Expense_Mapping
  imports Matching Json_Data
begin

text \<open>
  Operating expenses and fixed assets: the package \<^verbatim>\<open>app/application/expense_mapping\<close>,
  \<^verbatim>\<open>app/application/fixed_asset_accounting.py\<close> and \<^verbatim>\<open>app/domain/invoice/document_types.py\<close>.
  An invoice may be posted to an account without a product only if no line carries a product identifier.
  The mapping table is an argument; onboarding passes it on explicitly.
\<close>

section \<open>Document types\<close>

definition RETURN_INVOICE_TYPE_CODES :: "string list" where
  "RETURN_INVOICE_TYPE_CODES = [''IADE'', ''TEVKIFATIADE'', ''YTBIADE'', ''YTBTEVKIFATIADE'']"

definition return_invoice_type_code :: "internal_invoice \<Rightarrow> string option" where
  "return_invoice_type_code invoice = (case hd_invoice_type (iv_header invoice) of
     None \<Rightarrow> None
   | Some code \<Rightarrow> let canonical = py_upper (py_strip code) in
       if canonical \<in> set RETURN_INVOICE_TYPE_CODES then Some canonical else None)"

definition is_return_invoice :: "internal_invoice \<Rightarrow> bool" where
  "is_return_invoice invoice \<longleftrightarrow> return_invoice_type_code invoice \<noteq> None"

section \<open>Product identifiers\<close>

definition is_blank :: "string option \<Rightarrow> bool" where
  "is_blank v = (case v of None \<Rightarrow> True | Some s \<Rightarrow> blank s)"

definition line_is_identifier_free :: "internal_invoice \<Rightarrow> invoice_line \<Rightarrow> bool" where
  "line_is_identifier_free invoice line \<longleftrightarrow>
     is_blank (ln_buyer_item_code line) \<and> is_blank (ln_seller_item_code line) \<and> is_blank (ln_barcode line)
     \<and> is_blank (ln_commodity_classification line) \<and> is_blank (ln_manufacturer_item_code line)
     \<and> profile_manufacturer_sku invoice line = None"

definition invoice_is_product_identifier_free :: "internal_invoice \<Rightarrow> bool" where
  "invoice_is_product_identifier_free invoice \<longleftrightarrow>
     iv_lines invoice \<noteq> [] \<and> list_all (line_is_identifier_free invoice) (iv_lines invoice)"

definition invoice_has_product_identifier :: "internal_invoice \<Rightarrow> bool" where
  "invoice_has_product_identifier invoice \<longleftrightarrow> list_ex (\<lambda>line. \<not> line_is_identifier_free invoice line) (iv_lines invoice)"

definition invoice_is_ambiguous_commercial_purchase :: "internal_invoice \<Rightarrow> bool" where
  "invoice_is_ambiguous_commercial_purchase invoice \<longleftrightarrow>
     is_product_source_supplier invoice \<and> invoice_is_product_identifier_free invoice"

section \<open>Mappings\<close>

datatype expense_error =
    OperatingExpenseMappingError string
  | OperatingExpenseMappingContractError string
  | OperatingExpenseMappingDataIntegrityError string
  | OperatingExpenseMappingConflictError string

record expense_mapping =
  em_id :: int
  em_company_id :: int
  em_vendor_partner_id :: int
  em_expense_account_id :: int
  em_expense_category :: string
  em_enabled :: bool

text \<open>\<^verbatim>\<open>^[A-Z][A-Z0-9_]{0,63}$\<close> with \<^verbatim>\<open>match\<close>: the dollar sign also matches before a final newline.\<close>

definition category_char :: "char \<Rightarrow> bool" where
  "category_char c \<longleftrightarrow> ascii_upper c \<or> is_digit c \<or> c = CHR ''_''"

definition matches_category :: "string \<Rightarrow> bool" where
  "matches_category s =
     (let body = (if s \<noteq> [] \<and> last s = CHR 0x0A then butlast s else s) in
      case body of [] \<Rightarrow> False | c # cs \<Rightarrow> ascii_upper c \<and> list_all category_char cs \<and> length cs \<le> 63)"

definition expense_mapping_checks :: "expense_mapping \<Rightarrow> expense_error check list" where
  "expense_mapping_checks m =
     [(em_id m \<le> 0, OperatingExpenseMappingContractError ''id must be a positive integer.''),
      (em_company_id m \<le> 0, OperatingExpenseMappingContractError ''company_id must be a positive integer.''),
      (em_vendor_partner_id m \<le> 0, OperatingExpenseMappingContractError ''vendor_partner_id must be a positive integer.''),
      (em_expense_account_id m \<le> 0, OperatingExpenseMappingContractError ''expense_account_id must be a positive integer.''),
      (\<not> matches_category (em_expense_category m),
       OperatingExpenseMappingContractError ''expense_category must be a short uppercase code matching ^[A-Z][A-Z0-9_]{0,63}$.'')]"

section \<open>Matching\<close>

definition MATCHED_BY_COMPANY_PARTNER :: string where
  "MATCHED_BY_COMPANY_PARTNER = ''company_partner''"

definition MATCHED_BY_REVIEW_ACCOUNTING_RESOLUTION :: string where
  "MATCHED_BY_REVIEW_ACCOUNTING_RESOLUTION = ''review_accounting_resolution''"

record expense_match =
  ex_status :: match_status
  ex_reason :: string
  ex_candidate_count :: nat
  ex_mapping_id :: "int option"
  ex_company_id :: "int option"
  ex_vendor_partner_id :: "int option"
  ex_expense_account_id :: "int option"
  ex_expense_category :: "string option"
  ex_matched_by :: "string option"
  ex_confidence :: "decimal option"

definition expense_match_checks :: "expense_match \<Rightarrow> expense_error check list" where
  "expense_match_checks m =
     [(ex_status m \<noteq> MATCHED \<and> (ex_mapping_id m \<noteq> None \<or> ex_expense_account_id m \<noteq> None \<or> ex_expense_category m \<noteq> None),
       OperatingExpenseMappingContractError ''Only a MATCHED operating-expense result may expose mapping, account, or category.''),
      (ex_status m = MATCHED \<and> (ex_mapping_id m = None \<or> ex_expense_account_id m = None \<or> ex_expense_category m = None),
       OperatingExpenseMappingContractError ''A MATCHED operating-expense result must expose mapping, account, and category.'')]"

definition expense_result ::
    "match_status \<Rightarrow> string \<Rightarrow> nat \<Rightarrow> int option \<Rightarrow> int option \<Rightarrow> (expense_error, expense_match) result" where
  "expense_result status reason candidate_count company_id vendor_partner_id = mk_checked expense_match_checks
     \<lparr>ex_status = status, ex_reason = reason, ex_candidate_count = candidate_count, ex_mapping_id = None, ex_company_id = company_id,
      ex_vendor_partner_id = vendor_partner_id, ex_expense_account_id = None, ex_expense_category = None, ex_matched_by = None,
      ex_confidence = None\<rparr>"

definition matched_expense_result :: "expense_mapping \<Rightarrow> (expense_error, expense_match) result" where
  "matched_expense_result m = mk_checked expense_match_checks
     \<lparr>ex_status = MATCHED, ex_reason = ''Exact company and supplier partner operating-expense mapping.'', ex_candidate_count = 1,
      ex_mapping_id = Some (em_id m), ex_company_id = Some (em_company_id m), ex_vendor_partner_id = Some (em_vendor_partner_id m),
      ex_expense_account_id = Some (em_expense_account_id m), ex_expense_category = Some (em_expense_category m),
      ex_matched_by = Some MATCHED_BY_COMPANY_PARTNER, ex_confidence = Some EXACT_MATCH_CONFIDENCE\<rparr>"

type_synonym mapping_lookup = "int \<Rightarrow> int \<Rightarrow> (expense_error, expense_mapping option) result"

definition match_expense ::
    "mapping_lookup \<Rightarrow> int option \<Rightarrow> partner_match option \<Rightarrow> (expense_error, expense_match) result" where
  "match_expense find_for_supplier company_id partner_match =
     (case company_id of
        None \<Rightarrow> expense_result INVALID_INPUT ''A positive company_id is required for operating-expense matching.'' 0 None None
      | Some company \<Rightarrow>
          if company \<le> 0 then expense_result INVALID_INPUT ''A positive company_id is required for operating-expense matching.'' 0 None None
          else case partner_match of
            None \<Rightarrow> expense_result INVALID_INPUT ''A supplier PartnerMatchResult is required for operating-expense matching.'' 0 None None
          | Some pm \<Rightarrow>
              (case (pm_status pm, pm_partner_id pm) of
                 (MATCHED, Some partner) \<Rightarrow>
                   (case find_for_supplier company partner of
                      Inl (OperatingExpenseMappingDataIntegrityError _) \<Rightarrow>
                        expense_result MULTIPLE_MATCHES ''More than one enabled operating-expense mapping exists for the supplier.'' 2
                          (Some company) (Some partner)
                    | Inl _ \<Rightarrow> expense_result INVALID_INPUT ''Operating-expense mapping lookup failed.'' 0 (Some company) (Some partner)
                    | Inr None \<Rightarrow> expense_result NOT_FOUND ''No enabled operating-expense mapping is configured for this supplier.'' 0
                        (Some company) (Some partner)
                    | Inr (Some m) \<Rightarrow> matched_expense_result m)
               | _ \<Rightarrow> expense_result NOT_FOUND ''Supplier partner is not deterministically matched.'' 0 (Some company) None))"

definition null_match_expense :: "(expense_error, expense_match) result" where
  "null_match_expense = expense_result NOT_FOUND ''Operating-expense matching is not enabled for this runtime.'' 0 None None"

section \<open>Evidence\<close>

definition product_shape_errors :: "internal_invoice \<Rightarrow> invoice_product_match \<Rightarrow> string list" where
  "product_shape_errors invoice pm =
     (if im_errors pm \<noteq> [] then [''operating-expense product evidence carries evaluation errors.'']
      else if map lm_line_number (im_line_results pm) \<noteq> map ln_line_number (iv_lines invoice)
      then [''operating-expense product evidence must cover every invoice line exactly once.'']
      else if list_ex (\<lambda>r. dm_status (lm_result r) \<noteq> INVALID_INPUT) (im_line_results pm)
      then [''operating-expense product evidence must be INVALID_INPUT for every line.''] else [])"

definition positive_id :: "int option \<Rightarrow> bool" where
  "positive_id v = (case v of None \<Rightarrow> False | Some i \<Rightarrow> 0 < i)"

text \<open>\<^verbatim>\<open>match.confidence != 1.00\<close>: decimals are compared by value, \<^verbatim>\<open>None\<close> and NaN differ.\<close>

definition exactly_one :: "decimal option \<Rightarrow> bool" where
  "exactly_one v = (case v of Some (Dec n c e) \<Rightarrow> dec_eq (Dec n c e) EXACT_MATCH_CONFIDENCE | _ \<Rightarrow> False)"

definition operating_expense_evidence_errors ::
    "expense_match option \<Rightarrow> int \<Rightarrow> internal_invoice \<Rightarrow> partner_match \<Rightarrow> invoice_product_match \<Rightarrow> string list" where
  "operating_expense_evidence_errors operating_expense_match company_id invoice partner_match product_match = (case operating_expense_match of
     None \<Rightarrow> []
   | Some m \<Rightarrow>
       (if ex_status m \<noteq> MATCHED then [''operating_expense_match evidence must be MATCHED.''] else [])
       @ concat (map (\<lambda>(name, v). if \<not> positive_id v then [''operating_expense_match.'' @ name @ '' must be a positive integer.''] else [])
           [(''mapping_id'', ex_mapping_id m), (''company_id'', ex_company_id m), (''vendor_partner_id'', ex_vendor_partner_id m),
            (''expense_account_id'', ex_expense_account_id m)])
       @ (if is_blank (ex_expense_category m) then [''operating_expense_match.expense_category is required.''] else [])
       @ (if is_blank (ex_matched_by m) then [''operating_expense_match.matched_by is required.''] else [])
       @ (if \<not> exactly_one (ex_confidence m) then [''operating_expense_match.confidence must be exactly 1.00.''] else [])
       @ (if ex_company_id m \<noteq> Some company_id then [''operating_expense_match.company_id must match evidence company_id.''] else [])
       @ (if pm_partner_id partner_match \<noteq> None \<and> ex_vendor_partner_id m \<noteq> pm_partner_id partner_match
          then [''operating_expense_match.vendor_partner_id must match the matched supplier partner.''] else [])
       @ (if \<not> invoice_is_product_identifier_free invoice
          then [''operating-expense evidence requires an invoice free of deterministic product identifiers.''] else [])
       @ product_shape_errors invoice product_match)"

section \<open>Onboarding\<close>

datatype onboarding_outcome = OO_CREATED | OO_ALREADY_CONFIGURED

record onboard_command =
  ob_company :: int
  ob_vendor_partner :: int
  ob_expense_account :: int
  ob_expense_category :: string
  ob_enabled :: bool

definition onboard_checks :: "onboard_command \<Rightarrow> expense_error check list" where
  "onboard_checks c =
     [(ob_company c \<le> 0, OperatingExpenseMappingError ''company_id must be a positive integer.''),
      (ob_vendor_partner c \<le> 0, OperatingExpenseMappingError ''vendor_partner_id must be a positive integer.''),
      (ob_expense_account c \<le> 0, OperatingExpenseMappingError ''expense_account_id must be a positive integer.''),
      (\<not> matches_category (py_strip (ob_expense_category c)),
       OperatingExpenseMappingError ''expense_category must be a short uppercase code matching ^[A-Z][A-Z0-9_]{0,63}$.'')]"

text \<open>The repository is a store with a lookup and an insertion that may raise.\<close>

record 's mapping_store =
  ms_find_for_supplier :: "int \<Rightarrow> int \<Rightarrow> ('s, expense_error, expense_mapping option) action"
  ms_create :: "int \<Rightarrow> int \<Rightarrow> int \<Rightarrow> string \<Rightarrow> bool \<Rightarrow> ('s, expense_error, expense_mapping) action"

definition onboard_mapping ::
    "'s mapping_store \<Rightarrow> onboard_command \<Rightarrow> ('s, expense_error, onboarding_outcome \<times> expense_mapping) action" where
  "onboard_mapping store c =
     act_bind (act_lift (run_checks (onboard_checks c))) (\<lambda>_.
     let category = py_strip (ob_expense_category c) in
     act_bind (ms_find_for_supplier store (ob_company c) (ob_vendor_partner c)) (\<lambda>existing.
     case existing of
       Some m \<Rightarrow>
         if em_expense_account_id m = ob_expense_account c \<and> em_expense_category m = category \<and> em_enabled m = ob_enabled c
         then act_return (OO_ALREADY_CONFIGURED, m)
         else act_raise (OperatingExpenseMappingConflictError
           ''An enabled operating-expense mapping with different accounting values already exists for this supplier; change it through a separate administrative action.'')
     | None \<Rightarrow> act_bind (ms_create store (ob_company c) (ob_vendor_partner c) (ob_expense_account c) category (ob_enabled c)) (\<lambda>created.
         act_return (OO_CREATED, created))))"

section \<open>Fixed assets\<close>

datatype fixed_asset_error = FixedAssetAccountingContractError string

record fixed_asset_accounting =
  fa_accounting_resolution_id :: int
  fa_asset_account_id :: int
  fa_depreciation_model_id :: int
  fa_schema_version :: int

definition FIXED_ASSET_ACCOUNTING_SCHEMA_VERSION :: int where
  "FIXED_ASSET_ACCOUNTING_SCHEMA_VERSION = 1"

definition FIXED_ASSET_ACCOUNTING_SOURCE :: string where
  "FIXED_ASSET_ACCOUNTING_SOURCE = ''review_accounting_resolution''"

definition fixed_asset_checks :: "fixed_asset_accounting \<Rightarrow> fixed_asset_error check list" where
  "fixed_asset_checks f =
     [(fa_accounting_resolution_id f \<le> 0,
       FixedAssetAccountingContractError ''fixed_asset_accounting.accounting_resolution_id must be a positive integer.''),
      (fa_asset_account_id f \<le> 0, FixedAssetAccountingContractError ''fixed_asset_accounting.asset_account_id must be a positive integer.''),
      (fa_depreciation_model_id f \<le> 0,
       FixedAssetAccountingContractError ''fixed_asset_accounting.depreciation_model_id must be a positive integer.''),
      (fa_schema_version f \<noteq> FIXED_ASSET_ACCOUNTING_SCHEMA_VERSION,
       FixedAssetAccountingContractError ''Unsupported fixed_asset_accounting schema_version.'')]"

definition fixed_asset_accounting_to_data :: "fixed_asset_accounting \<Rightarrow> json" where
  "fixed_asset_accounting_to_data f = JObj
     [(''schema_version'', JInt (fa_schema_version f)), (''source'', JStr FIXED_ASSET_ACCOUNTING_SOURCE),
      (''accounting_resolution_id'', JInt (fa_accounting_resolution_id f)), (''asset_account_id'', JInt (fa_asset_account_id f)),
      (''depreciation_model_id'', JInt (fa_depreciation_model_id f))]"

definition FIXED_ASSET_KEYS :: "string list" where
  "FIXED_ASSET_KEYS = [''schema_version'', ''source'', ''accounting_resolution_id'', ''asset_account_id'', ''depreciation_model_id'']"

text \<open>The constructor on values of a document: only \<^verbatim>\<open>int\<close> itself is an id, while \<^verbatim>\<open>True == 1\<close> as a schema version.\<close>

definition id_of_data :: "string \<Rightarrow> json \<Rightarrow> (fixed_asset_error, int) result" where
  "id_of_data name v = (case v of
     JInt i \<Rightarrow> if 0 < i then Inr i
       else Inl (FixedAssetAccountingContractError (''fixed_asset_accounting.'' @ name @ '' must be a positive integer.''))
   | _ \<Rightarrow> Inl (FixedAssetAccountingContractError (''fixed_asset_accounting.'' @ name @ '' must be a positive integer.'')))"

definition version_of_data :: "json \<Rightarrow> bool" where
  "version_of_data v \<longleftrightarrow> v = JInt FIXED_ASSET_ACCOUNTING_SCHEMA_VERSION \<or> v = JBool True"

definition fixed_asset_accounting_from_data :: "json \<Rightarrow> (fixed_asset_error, fixed_asset_accounting option) result" where
  "fixed_asset_accounting_from_data data = (case data of
     JNull \<Rightarrow> Inr None
   | JObj kvs \<Rightarrow>
       if set (map fst kvs) \<noteq> set FIXED_ASSET_KEYS \<or> map_of kvs ''source'' \<noteq> Some (JStr FIXED_ASSET_ACCOUNTING_SOURCE)
       then Inl (FixedAssetAccountingContractError ''Persisted fixed_asset_accounting evidence is not canonical.'')
       else let v = (\<lambda>k. the (map_of kvs k)) in
         ebind (id_of_data ''accounting_resolution_id'' (v ''accounting_resolution_id'')) (\<lambda>r.
         ebind (id_of_data ''asset_account_id'' (v ''asset_account_id'')) (\<lambda>a.
         ebind (id_of_data ''depreciation_model_id'' (v ''depreciation_model_id'')) (\<lambda>d.
         if \<not> version_of_data (v ''schema_version'')
         then Inl (FixedAssetAccountingContractError ''Unsupported fixed_asset_accounting schema_version.'')
         else Inr (Some \<lparr>fa_accounting_resolution_id = r, fa_asset_account_id = a, fa_depreciation_model_id = d,
           fa_schema_version = FIXED_ASSET_ACCOUNTING_SCHEMA_VERSION\<rparr>))))
   | _ \<Rightarrow> Inl (FixedAssetAccountingContractError ''Persisted fixed_asset_accounting evidence is not canonical.''))"

definition fixed_asset_evidence_errors ::
    "fixed_asset_accounting option \<Rightarrow> expense_match option \<Rightarrow> internal_invoice \<Rightarrow> partner_match \<Rightarrow> invoice_product_match \<Rightarrow> string list" where
  "fixed_asset_evidence_errors fixed_asset operating_expense_match invoice partner_match product_match = (case fixed_asset of
     None \<Rightarrow> []
   | Some _ \<Rightarrow>
       (if operating_expense_match \<noteq> None then [''fixed_asset_accounting cannot coexist with operating_expense_match.''] else [])
       @ (if pm_status partner_match \<noteq> MATCHED \<or> pm_partner_id partner_match = None
          then [''fixed-asset evidence requires a matched supplier partner.''] else [])
       @ (if \<not> invoice_is_product_identifier_free invoice
          then [''fixed-asset evidence requires an invoice free of deterministic product identifiers.''] else [])
       @ (if im_errors product_match \<noteq> [] then [''fixed-asset product evidence carries evaluation errors.'']
          else if map lm_line_number (im_line_results product_match) \<noteq> map ln_line_number (iv_lines invoice)
          then [''fixed-asset product evidence must cover every invoice line exactly once.'']
          else if list_ex (\<lambda>r. dm_status (lm_result r) \<noteq> INVALID_INPUT) (im_line_results product_match)
          then [''fixed-asset product evidence must be INVALID_INPUT for every line.''] else []))"

end
