(* ===== verification/Vendor_Bill.thy ===== *)
theory Vendor_Bill
  imports Expense_Mapping Tax_Mapping Fx_Rate Exec_Contracts
begin

text \<open>
  Construction of bills and invoices: \<^verbatim>\<open>app/billing/builder.py\<close>, the bill types of \<^verbatim>\<open>app/billing/dto.py\<close>
  and \<^verbatim>\<open>app/billing/validation.py\<close>. A seal is a flag that only the two issuing functions set. A dict is
  an association list with distinct keys, a set of line numbers a list. The lists of errors are complete, as in
  the code: validation goes on after an error unless the code returns.
\<close>

section \<open>Decimals\<close>

text \<open>\<^verbatim>\<open>a / b\<close> in the default context; \<^verbatim>\<open>None\<close> where it raises.\<close>

fun dec_over :: "decimal \<Rightarrow> decimal \<Rightarrow> decimal option" where
  "dec_over DecNaN _ = Some DecNaN"
| "dec_over _ DecNaN = Some DecNaN"
| "dec_over (DecInf _) (DecInf _) = None"
| "dec_over (DecInf m) (Dec n _ _) = Some (DecInf (m \<noteq> n))"
| "dec_over (Dec m _ _) (DecInf n) = Some (Dec (m \<noteq> n) 0 (-1000026))"
| "dec_over a (Dec n c e) = (if c = 0 then None else Some (dec_divide dec_prec a (Dec n c e)))"

text \<open>\<^verbatim>\<open>format(value, "f")\<close>\<close>

fun decimal_text :: "decimal \<Rightarrow> string" where
  "decimal_text (Dec neg c e) =
     (let digits = nat_str c; left = e + int (length digits) in
      (if neg then ''-'' else []) @
      (if c = 0 \<and> 0 < e then ''0''
       else if left < 0 then ''0.'' @ replicate (nat (- left)) (CHR ''0'') @ digits
       else if int (length digits) < left then digits @ replicate (nat left - length digits) (CHR ''0'')
       else (if left = 0 then ''0'' else take (nat left) digits)
         @ (if drop (nat left) digits = [] then [] else ''.'' @ drop (nat left) digits)))"
| "decimal_text (DecInf neg) = (if neg then ''-Infinity'' else ''Infinity'')"
| "decimal_text DecNaN = ''NaN''"

section \<open>Bills\<close>

datatype bill_error =
    VendorBillBuildError "string list"
  | CustomerInvoiceBuildError "string list"
  | BillValueError string
  | BillKeyError
  | BillAttributeError
  | BillMoneyError money_error

definition bill_money :: "(money_error, 'a) result \<Rightarrow> (bill_error, 'a) result" where
  "bill_money r = (case r of Inl e \<Rightarrow> Inl (BillMoneyError e) | Inr x \<Rightarrow> Inr x)"

record resale_account =
  ra_line_number :: string
  ra_product_id :: int
  ra_account_id :: int
  ra_sealed :: bool

definition resale_account_checks :: "resale_account \<Rightarrow> bill_error check list" where
  "resale_account_checks a =
     [(blank (ra_line_number a), BillValueError ''line_number is required.''),
      (ra_product_id a \<le> 0, BillValueError ''product_id must be a positive ERP id.''),
      (ra_account_id a \<le> 0, BillValueError ''account_id must be a positive ERP account id.'')]"

definition issue_validated_resale_line_account :: "string \<Rightarrow> int \<Rightarrow> int \<Rightarrow> (bill_error, resale_account) result" where
  "issue_validated_resale_line_account line_number product_id account_id =
     ebind (mk_checked resale_account_checks
       \<lparr>ra_line_number = line_number, ra_product_id = product_id, ra_account_id = account_id, ra_sealed = False\<rparr>) (\<lambda>issued.
     Inr (issued\<lparr>ra_sealed := True\<rparr>))"

record internal_use_account =
  ia_line_number :: string
  ia_product_id :: int
  ia_account_id :: int
  ia_sealed :: bool

definition internal_use_account_checks :: "internal_use_account \<Rightarrow> bill_error check list" where
  "internal_use_account_checks a =
     [(blank (ia_line_number a), BillValueError ''line_number is required.''),
      (ia_product_id a \<le> 0, BillValueError ''product_id must be a positive ERP id.''),
      (ia_account_id a \<le> 0, BillValueError ''account_id must be a positive ERP account id.'')]"

definition issue_validated_internal_use_line_account :: "string \<Rightarrow> int \<Rightarrow> int \<Rightarrow> (bill_error, internal_use_account) result" where
  "issue_validated_internal_use_line_account line_number product_id account_id =
     ebind (mk_checked internal_use_account_checks
       \<lparr>ia_line_number = line_number, ia_product_id = product_id, ia_account_id = account_id, ia_sealed = False\<rparr>) (\<lambda>issued.
     Inr (issued\<lparr>ia_sealed := True\<rparr>))"

record vendor_bill_line =
  vl_product_id :: "int option"
  vl_quantity :: decimal
  vl_unit_price :: decimal
  vl_tax_ids :: "int list"
  vl_description :: "string option"
  vl_account_id :: "int option"
  vl_resale_account :: "resale_account option"
  vl_depreciation_model_id :: "int option"
  vl_internal_use_account :: "internal_use_account option"

text \<open>The check of the depreciation model comes first; then the first account that is present decides.\<close>

definition depreciation_checks :: "vendor_bill_line \<Rightarrow> bill_error check list" where
  "depreciation_checks l = (case vl_depreciation_model_id l of
     None \<Rightarrow> []
   | Some d \<Rightarrow>
       [(d \<le> 0, BillValueError ''depreciation_model_id must be a positive ERP id.''),
        (vl_product_id l \<noteq> None \<or> vl_resale_account l \<noteq> None \<or> vl_internal_use_account l \<noteq> None \<or> vl_account_id l = None,
         BillValueError ''depreciation_model_id is only valid on an account-only fixed-asset line.'')])"

definition pinned_id_checks :: "vendor_bill_line \<Rightarrow> bill_error check list" where
  "pinned_id_checks l =
     [(\<not> positive_id (vl_product_id l), BillValueError ''product_id must be a positive ERP id.''),
      (\<not> positive_id (vl_account_id l), BillValueError ''account_id must be a positive ERP account id.'')]"

definition vendor_bill_line_checks :: "vendor_bill_line \<Rightarrow> bill_error check list" where
  "vendor_bill_line_checks l = depreciation_checks l
     @ (case (vl_internal_use_account l, vl_resale_account l) of
          (Some a, r) \<Rightarrow>
            [(r \<noteq> None, BillValueError ''A line cannot carry both a RESALE and an INTERNAL_USE account.''),
             (\<not> ia_sealed a, BillValueError ''internal_use_account must be issued by INTERNAL_USE execution validation.'')]
            @ pinned_id_checks l
            @ [((vl_product_id l, vl_account_id l) \<noteq> (Some (ia_product_id a), Some (ia_account_id a)),
                BillValueError ''An INTERNAL_USE line's product and account must be exactly its validated pin.'')]
        | (None, Some a) \<Rightarrow>
            [(\<not> ra_sealed a, BillValueError ''resale_account must be issued by RESALE execution validation.'')]
            @ pinned_id_checks l
            @ [((vl_product_id l, vl_account_id l) \<noteq> (Some (ra_product_id a), Some (ra_account_id a)),
                BillValueError ''A RESALE line's product and account must be exactly its validated pin.'')]
        | (None, None) \<Rightarrow>
            [((vl_product_id l \<noteq> None) = (vl_account_id l \<noteq> None),
              BillValueError ''VendorBillLine requires exactly one of product_id or account_id.''),
             (vl_product_id l \<noteq> None \<and> \<not> positive_id (vl_product_id l), BillValueError ''product_id must be a positive ERP id.''),
             (vl_product_id l = None \<and> \<not> positive_id (vl_account_id l), BillValueError ''account_id must be a positive ERP account id.'')])"

record vendor_bill =
  vb_supplier_id :: int
  vb_invoice_number :: string
  vb_invoice_date :: "py_date option"
  vb_currency :: string
  vb_external_uuid :: "string option"
  vb_reference :: "string option"
  vb_company_id :: "int option"
  vb_invoice_lines :: "vendor_bill_line list"
  vb_notes :: "string list"
  vb_company_currency_rate :: "decimal option"

record customer_invoice_line =
  cl_product_id :: int
  cl_quantity :: decimal
  cl_unit_price :: decimal
  cl_tax_ids :: "int list"
  cl_description :: "string option"
  cl_source_allocation_key :: "string option"

record customer_invoice =
  ci_company_id :: int
  ci_customer_id :: int
  ci_invoice_date :: py_date
  ci_currency :: string
  ci_external_uuid :: "string option"
  ci_reference :: string
  ci_invoice_lines :: "customer_invoice_line list"
  ci_notes :: "string list"

definition is_valid :: "string list \<Rightarrow> bool" where
  "is_valid errors \<longleftrightarrow> errors = []"

section \<open>Line economics\<close>

definition is_economically_neutral :: "discount \<Rightarrow> bool" where
  "is_economically_neutral d \<longleftrightarrow>
     (case dc_amount d of None \<Rightarrow> False | Some a \<Rightarrow> dec_same a dec_zero)
     \<and> (case dc_rate d of None \<Rightarrow> True | Some r \<Rightarrow> dec_same r dec_zero)"

definition economic_discounts :: "invoice_line \<Rightarrow> discount list" where
  "economic_discounts line = filter (\<lambda>d. \<not> is_economically_neutral d) (ln_discounts line)"

definition line_gross_total :: "invoice_line \<Rightarrow> (money_error, decimal) result" where
  "line_gross_total line = (case (ln_unit_price line, ln_quantity line) of
     (Some u, Some q) \<Rightarrow> dec_try (dec_times u q) | _ \<Rightarrow> Inl AssertionError)"

definition line_total_discount :: "invoice_line \<Rightarrow> (money_error, decimal) result" where
  "line_total_discount line =
     dec_try (dec_total dec_zero (map the (filter (\<lambda>a. a \<noteq> None) (map dc_amount (economic_discounts line)))))"

definition line_net_total :: "invoice_line \<Rightarrow> (money_error, decimal) result" where
  "line_net_total line = (case (economic_discounts line, ln_line_extension_amount line) of
     ([], Some amount) \<Rightarrow> Inr amount
   | _ \<Rightarrow> ebind (line_gross_total line) (\<lambda>g. ebind (line_total_discount line) (\<lambda>d. dec_try (dec_minus g d))))"

definition DISCOUNT_UNIT_PRICE_PLACES :: int where
  "DISCOUNT_UNIT_PRICE_PLACES = 6"

definition net_unit_price :: "invoice_line \<Rightarrow> monetary_precision option \<Rightarrow> (money_error, decimal) result" where
  "net_unit_price line precision = (case (ln_unit_price line, ln_quantity line) of
     (Some u, Some q) \<Rightarrow>
       ebind (line_net_total line) (\<lambda>net_total.
       ebind (dec_try (dec_times u q)) (\<lambda>gross_total.
       if dec_same gross_total net_total then Inr u
       else ebind (case precision of
             Some p \<Rightarrow> if economic_discounts line = [] then monetary_equal gross_total net_total p else Inr False
           | None \<Rightarrow> Inr False) (\<lambda>same.
         if same then Inr u
         else ebind (dec_try (dec_over net_total q)) (\<lambda>price.
           dec_try (dec_quantize round_half_up price (- DISCOUNT_UNIT_PRICE_PLACES))))))
   | _ \<Rightarrow> Inl AssertionError)"

definition LEGACY_TOTALS_TOLERANCE :: decimal where
  "LEGACY_TOTALS_TOLERANCE = Dec False 1 (-2)"

definition discount_errors :: "invoice_line \<Rightarrow> string \<Rightarrow> monetary_precision option \<Rightarrow> (money_error, string list) result" where
  "discount_errors line path precision =
     (if economic_discounts line = [] then Inr []
      else if list_ex (\<lambda>d. dc_amount d = None) (economic_discounts line)
      then Inr [path @ ''.discounts contains an allowance with no amount; percentage-only/rate-only allowances are not supported.'']
      else ebind (line_total_discount line) (\<lambda>total_discount.
        ebind (dec_try (dec_gt dec_zero total_discount)) (\<lambda>negative.
        if negative then Inr [path @ ''.discounts total must not be negative.'']
        else ebind (line_gross_total line) (\<lambda>gross_total.
          ebind (case precision of
              None \<Rightarrow> ebind (dec_try (dec_plus gross_total LEGACY_TOTALS_TOLERANCE)) (\<lambda>limit. dec_try (dec_gt total_discount limit))
            | Some p \<Rightarrow> ebind (currency_round total_discount p) (\<lambda>a. ebind (currency_round gross_total p) (\<lambda>b. dec_try (dec_gt a b)))) (\<lambda>exceeds.
          Inr (if exceeds then [path @ ''.discounts total must not exceed the line's gross amount.''] else []))))))"

definition summed :: "('a \<Rightarrow> (money_error, decimal) result) \<Rightarrow> 'a list \<Rightarrow> (money_error, decimal) result" where
  "summed f xs = ebind (emap f xs) (\<lambda>ds. dec_try (dec_total dec_zero ds))"

definition totals_invariant_errors :: "internal_invoice \<Rightarrow> monetary_precision option \<Rightarrow> (money_error, string list) result" where
  "totals_invariant_errors invoice precision = (case mt_tax_exclusive_amount (iv_totals invoice) of
     None \<Rightarrow> Inr [''totals.tax_exclusive_amount is required to validate discounted line economics.'']
   | Some target \<Rightarrow>
       ebind (emap line_net_total (filter (\<lambda>line. ln_unit_price line \<noteq> None \<and> ln_quantity line \<noteq> None) (iv_lines invoice))) (\<lambda>nets.
       ebind (case precision of
           None \<Rightarrow> ebind (dec_try (dec_total dec_zero nets)) (\<lambda>computed.
             ebind (dec_try (dec_minus computed target)) (\<lambda>difference.
             ebind (dec_try (dec_gt (dec_abs difference) LEGACY_TOTALS_TOLERANCE)) (\<lambda>above. Inr (computed, \<not> above))))
         | Some p \<Rightarrow> ebind (summed (\<lambda>net. currency_round net p) nets) (\<lambda>computed.
             ebind (monetary_equal computed target p) (\<lambda>same. Inr (computed, same)))) (\<lambda>(computed, reconciles).
       Inr (if reconciles then []
            else [''Computed net line total ('' @ dec_str computed @ '') does not match the source invoice's tax-exclusive amount (''
              @ dec_str target @ ''); refusing to build a Vendor Bill with different economics than the source invoice.'']))))"

section \<open>Matched products and taxes\<close>

text \<open>A dict of the results that are matched, and the errors of the others, in order.\<close>

fun collect_products ::
    "string list \<Rightarrow> (string option \<rightharpoonup> product_match) \<Rightarrow> string list \<Rightarrow> product_line_match list \<Rightarrow> (string option \<rightharpoonup> product_match) \<times> string list" where
  "collect_products skip by_line errors [] = (by_line, errors)"
| "collect_products skip by_line errors (r # rs) =
     (let n = lm_line_number r in
      if n \<in> Some ` set skip then collect_products skip by_line errors rs
      else if by_line n \<noteq> None
      then collect_products skip by_line (errors @ [''Duplicate product mapping for line '' @ opt_text n @ ''.'']) rs
      else if dm_status (lm_result r) \<noteq> MATCHED \<or> dm_product_id (lm_result r) = None
      then collect_products skip by_line (errors @ [''Product mapping for line '' @ opt_text n @ '' is not matched.'']) rs
      else collect_products skip (by_line(n \<mapsto> lm_result r)) errors rs)"

definition validated_product_results ::
    "invoice_product_match \<Rightarrow> string list \<Rightarrow> (string option \<rightharpoonup> product_match) \<times> string list" where
  "validated_product_results pm skip = collect_products skip Map.empty (im_errors pm) (im_line_results pm)"

fun collect_taxes ::
    "(string option \<times> nat \<rightharpoonup> tax_match_result) \<Rightarrow> string list \<Rightarrow> tax_line_result list \<Rightarrow> (string option \<times> nat \<rightharpoonup> tax_match_result) \<times> string list" where
  "collect_taxes by_line errors [] = (by_line, errors)"
| "collect_taxes by_line errors (r # rs) =
     (let key = (tl_line_number r, tl_tax_index r);
          where_text = ''line '' @ opt_text (tl_line_number r) @ '' tax '' @ nat_str (tl_tax_index r) in
      if by_line key \<noteq> None then collect_taxes by_line (errors @ [''Duplicate tax mapping for '' @ where_text @ ''.'']) rs
      else if tr_status (tl_result r) \<noteq> TX_MATCHED \<or> tr_tax_id (tl_result r) = None
      then collect_taxes by_line (errors @ [''Tax mapping for '' @ where_text @ '' is not matched.'']) rs
      else collect_taxes (by_line(key \<mapsto> tl_result r)) errors rs)"

definition validated_tax_results :: "tax_mapping_result \<Rightarrow> (string option \<times> nat \<rightharpoonup> tax_match_result) \<times> string list" where
  "validated_tax_results tm = collect_taxes Map.empty (tm_errors tm) (tm_line_results tm)"

definition line_tax_keys :: "invoice_line \<Rightarrow> (string option \<times> nat) list" where
  "line_tax_keys line = map (\<lambda>(i, _). (ln_line_number line, i)) (enumerate 0 (ln_taxes line))"

definition tax_lines_fully_matched :: "internal_invoice \<Rightarrow> tax_mapping_result \<Rightarrow> bool" where
  "tax_lines_fully_matched invoice tm = (case validated_tax_results tm of (by_line, errors) \<Rightarrow>
     errors = [] \<and> list_all (\<lambda>line. list_all (\<lambda>key. by_line key \<noteq> None) (line_tax_keys line)) (iv_lines invoice))"

text \<open>A dict comprehension: a later entry replaces an earlier one.\<close>

definition product_results_by_line :: "invoice_product_match \<Rightarrow> string option \<rightharpoonup> product_match" where
  "product_results_by_line pm = map_of (rev (map (\<lambda>r. (lm_line_number r, lm_result r)) (im_line_results pm)))"

definition tax_ids_by_line :: "tax_mapping_result \<Rightarrow> string option \<times> nat \<rightharpoonup> int" where
  "tax_ids_by_line tm = map_of (rev (map (\<lambda>r. ((tl_line_number r, tl_tax_index r), the (tr_tax_id (tl_result r))))
     (filter (\<lambda>r. tr_tax_id (tl_result r) \<noteq> None) (tm_line_results tm))))"

section \<open>Validation\<close>

record bill_inputs =
  vi_invoice :: internal_invoice
  vi_partner_match :: partner_match
  vi_product_match :: invoice_product_match
  vi_tax_match :: tax_mapping_result
  vi_company_id :: "int option"
  vi_operating_expense_match :: "expense_match option"
  vi_account_only_line_numbers :: "string list"
  vi_account_only_expense_match :: "expense_match option"
  vi_explicit_account_only_accounts :: "(string \<times> int) list option"
  vi_validated_resale_accounts :: "(string \<times> resale_account) list option"
  vi_monetary_precision :: "monetary_precision option"
  vi_fixed_asset_accounting :: "fixed_asset_accounting option"
  vi_validated_internal_use_accounts :: "(string \<times> internal_use_account) list option"

definition operating_expense_mode :: "internal_invoice \<Rightarrow> expense_match option \<Rightarrow> bool" where
  "operating_expense_mode invoice match = (case match of
     None \<Rightarrow> False
   | Some m \<Rightarrow> ex_status m = MATCHED \<and> positive_id (ex_expense_account_id m) \<and> invoice_is_product_identifier_free invoice)"

definition fallback_account_only_account_id :: "expense_match option \<Rightarrow> int option" where
  "fallback_account_only_account_id match = (case match of
     None \<Rightarrow> None
   | Some m \<Rightarrow> if ex_status m = MATCHED \<and> positive_id (ex_expense_account_id m) then ex_expense_account_id m else None)"

definition resolved_account_only_account_ids ::
    "string list \<Rightarrow> expense_match option \<Rightarrow> (string \<times> int) list option \<Rightarrow> string \<rightharpoonup> int" where
  "resolved_account_only_account_ids line_numbers match explicit = (\<lambda>n.
     if n \<notin> set line_numbers then None
     else case (case explicit of None \<Rightarrow> None | Some accounts \<Rightarrow> map_of accounts n) of
       Some account \<Rightarrow> if 0 < account then Some account else fallback_account_only_account_id match
     | None \<Rightarrow> fallback_account_only_account_id match)"

definition operating_expense_product_shape_errors :: "internal_invoice \<Rightarrow> invoice_product_match \<Rightarrow> string list" where
  "operating_expense_product_shape_errors invoice pm =
     (if im_errors pm \<noteq> [] then [''Operating-expense product result carries evaluation errors.'']
      else if map lm_line_number (im_line_results pm) \<noteq> map ln_line_number (iv_lines invoice)
      then [''Operating-expense product result does not cover every invoice line exactly once.'']
      else if list_ex (\<lambda>r. dm_status (lm_result r) \<noteq> INVALID_INPUT) (im_line_results pm)
      then [''Operating-expense product result must be INVALID_INPUT for an identifier-free invoice.''] else [])"

definition company_id_errors :: "int option \<Rightarrow> string list" where
  "company_id_errors company_id = (case company_id of
     Some i \<Rightarrow> if i \<le> 0 then [''company_id must be a positive integer when provided.''] else [] | None \<Rightarrow> [])"

definition header_errors :: "internal_invoice \<Rightarrow> partner_match \<Rightarrow> string list" where
  "header_errors invoice pm =
     (if pm_status pm \<noteq> MATCHED \<or> pm_partner_id pm = None then [''Supplier partner must be matched before building a vendor bill.''] else [])
     @ (if blank (hd_invoice_number (iv_header invoice)) then [''Invoice number is required.''] else [])
     @ (if hd_issue_date (iv_header invoice) = None then [''Invoice date is required.''] else [])
     @ (if is_blank (hd_currency_code (iv_header invoice)) then [''Invoice currency is required.''] else [])
     @ (if iv_lines invoice = [] then [''At least one invoice line is required.''] else [])"

definition line_path :: "nat \<Rightarrow> string" where
  "line_path index = ''lines['' @ nat_str index @ '']''"

text \<open>Quantity, price, taxes and discounts of a line; a comparison with NaN raises.\<close>

definition line_amount_errors ::
    "(string option \<times> nat \<rightharpoonup> tax_match_result) \<Rightarrow> monetary_precision option \<Rightarrow> string \<Rightarrow> invoice_line \<Rightarrow> (money_error, string list) result" where
  "line_amount_errors tax_by_line precision path line =
     ebind (case ln_quantity line of None \<Rightarrow> Inr False | Some q \<Rightarrow> dec_try (dec_gt q dec_zero)) (\<lambda>positive.
     ebind (case ln_unit_price line of
         None \<Rightarrow> Inr [path @ ''.unit_price is required.'']
       | Some u \<Rightarrow> ebind (dec_try (dec_gt dec_zero u)) (\<lambda>negative.
           Inr (if negative then [path @ ''.unit_price must not be negative.''] else []))) (\<lambda>price_errors.
     ebind (if ln_unit_price line \<noteq> None \<and> ln_quantity line \<noteq> None then discount_errors line path precision else Inr []) (\<lambda>discounts.
     Inr ((if positive then [] else [path @ ''.quantity must be greater than zero.''])
       @ price_errors
       @ concat (map (\<lambda>(n, i). if tax_by_line (n, i) = None then [path @ ''.taxes['' @ nat_str i @ ''] must be matched.''] else []) (line_tax_keys line))
       @ discounts))))"

definition bill_line_errors ::
    "(string option \<Rightarrow> bool) \<Rightarrow> (string option \<times> nat \<rightharpoonup> tax_match_result) \<Rightarrow> monetary_precision option \<Rightarrow> nat \<times> invoice_line
     \<Rightarrow> (money_error, string list) result" where
  "bill_line_errors has_target tax_by_line precision = (\<lambda>(index, line).
     if is_blank (ln_line_number line) then Inr [line_path index @ ''.line_number is required.'']
     else ebind (line_amount_errors tax_by_line precision (line_path index) line) (\<lambda>errors.
       Inr ((if has_target (ln_line_number line) then [] else [line_path index @ ''.product must be matched.'']) @ errors)))"

definition fixed_asset_line_errors ::
    "(string option \<times> nat \<rightharpoonup> tax_match_result) \<Rightarrow> monetary_precision option \<Rightarrow> nat \<times> invoice_line \<Rightarrow> (money_error, string list) result" where
  "fixed_asset_line_errors tax_by_line precision = (\<lambda>(index, line).
     if is_blank (ln_line_number line) then Inr [line_path index @ ''.line_number is required.'']
     else ebind (line_amount_errors tax_by_line precision (line_path index) line) (\<lambda>errors.
       Inr ((if is_blank (ln_description line) then [line_path index @ ''.description is required for a fixed-asset line.''] else []) @ errors)))"

definition discounted_totals_errors :: "string list \<Rightarrow> internal_invoice \<Rightarrow> monetary_precision option \<Rightarrow> (money_error, string list) result" where
  "discounted_totals_errors errors invoice precision =
     (if errors = [] \<and> list_ex (\<lambda>line. economic_discounts line \<noteq> []) (iv_lines invoice)
      then totals_invariant_errors invoice precision else Inr [])"

definition fixed_asset_mode_errors :: "bill_inputs \<Rightarrow> (money_error, string list) result" where
  "fixed_asset_mode_errors v =
     (let invoice = vi_invoice v; (tax_by_line, tax_errors) = validated_tax_results (vi_tax_match v);
          before = company_id_errors (vi_company_id v)
            @ (if vi_operating_expense_match v \<noteq> None then [''Fixed-asset mode cannot be combined with an operating-expense account.''] else [])
            @ (if vi_account_only_line_numbers v \<noteq> [] \<or> vi_explicit_account_only_accounts v \<notin> {None, Some []}
               then [''Fixed-asset mode cannot be combined with per-line account-only decisions.''] else [])
            @ (if vi_validated_resale_accounts v \<noteq> None then [''Fixed-asset mode cannot be combined with RESALE accounting.''] else [])
            @ header_errors invoice (vi_partner_match v)
            @ (if \<not> invoice_is_product_identifier_free invoice
               then [''Fixed-asset mode requires an invoice free of deterministic product identifiers.''] else [])
            @ operating_expense_product_shape_errors invoice (vi_product_match v) @ tax_errors in
      ebind (emap (fixed_asset_line_errors tax_by_line (vi_monetary_precision v)) (enumerate 0 (iv_lines invoice))) (\<lambda>line_errors.
      let errors = before @ concat line_errors in
      ebind (discounted_totals_errors errors invoice (vi_monetary_precision v)) (\<lambda>totals. Inr (errors @ totals))))"

definition resale_account_errors ::
    "internal_invoice \<Rightarrow> (string \<times> resale_account) list \<Rightarrow> bool \<Rightarrow> string list \<Rightarrow> (string option \<rightharpoonup> product_match) \<Rightarrow> string list" where
  "resale_account_errors invoice accounts expense_mode account_only product_by_line =
     (if accounts = [] then [''RESALE validated accounts must be a non-empty mapping.'']
      else if expense_mode \<or> account_only \<noteq> [] then [''RESALE lines cannot be account-only or operating-expense lines.'']
      else if set (map (\<lambda>(n, _). Some n) accounts) \<noteq> set (map ln_line_number (iv_lines invoice))
      then [''RESALE validated accounts must cover exactly every invoice line.'']
      else concat (map (\<lambda>(n, a).
        if \<not> ra_sealed a then [''RESALE account for line '' @ n @ '' was not issued by RESALE validation.'']
        else case product_by_line (Some n) of
            None \<Rightarrow> [''RESALE account for line '' @ n @ '' does not match the line.'']
          | Some r \<Rightarrow> if ra_line_number a \<noteq> n then [''RESALE account for line '' @ n @ '' does not match the line.'']
              else if dm_product_id r \<noteq> Some (ra_product_id a) then [''RESALE account for line '' @ n @ '' names a different product.''] else []) accounts))"

definition internal_use_account_errors ::
    "internal_invoice \<Rightarrow> (string \<times> internal_use_account) list \<Rightarrow> bool \<Rightarrow> string list \<Rightarrow> (string option \<rightharpoonup> product_match) \<Rightarrow> bool \<Rightarrow> string list" where
  "internal_use_account_errors invoice accounts expense_mode account_only product_by_line resale =
     (if accounts = [] then [''INTERNAL_USE validated accounts must be a non-empty mapping.'']
      else if resale then [''INTERNAL_USE accounting cannot be combined with RESALE accounting.'']
      else if expense_mode \<or> account_only \<noteq> [] then [''INTERNAL_USE product lines cannot be account-only or operating-expense lines.'']
      else if set (map (\<lambda>(n, _). Some n) accounts) \<noteq> set (map ln_line_number (iv_lines invoice))
      then [''INTERNAL_USE validated accounts must cover exactly every invoice line.'']
      else concat (map (\<lambda>(n, a).
        if \<not> ia_sealed a then [''INTERNAL_USE account for line '' @ n @ '' was not issued by INTERNAL_USE validation.'']
        else case product_by_line (Some n) of
            None \<Rightarrow> [''INTERNAL_USE account for line '' @ n @ '' does not match the line.'']
          | Some r \<Rightarrow> if ia_line_number a \<noteq> n then [''INTERNAL_USE account for line '' @ n @ '' does not match the line.'']
              else if dm_product_id r \<noteq> Some (ia_product_id a) then [''INTERNAL_USE account for line '' @ n @ '' names a different product.''] else []) accounts))"

definition mode_errors :: "bill_inputs \<Rightarrow> string list" where
  "mode_errors v = (let invoice = vi_invoice v in
     (if is_product_source_supplier invoice \<and> (vi_account_only_line_numbers v \<noteq> [] \<or> vi_explicit_account_only_accounts v \<notin> {None, Some []})
      then [''Account-only line overrides are not allowed for a product-source supplier.''] else [])
     @ (if invoice_is_ambiguous_commercial_purchase invoice
           \<and> Option.bind (vi_operating_expense_match v) ex_matched_by \<noteq> Some MATCHED_BY_REVIEW_ACCOUNTING_RESOLUTION
        then [''Identifier-free invoice from a product-source supplier needs an explicit review-scoped accounting resolution to be billed as an operating expense.'']
        else []))"

definition account_only_lines :: "bill_inputs \<Rightarrow> string list" where
  "account_only_lines v =
     (if operating_expense_mode (vi_invoice v) (vi_operating_expense_match v) then [] else vi_account_only_line_numbers v)"

definition ordinary_mode_errors :: "bill_inputs \<Rightarrow> (money_error, string list) result" where
  "ordinary_mode_errors v =
     (let invoice = vi_invoice v; expense_mode = operating_expense_mode invoice (vi_operating_expense_match v);
          account_only = account_only_lines v;
          resolved = resolved_account_only_account_ids account_only (vi_account_only_expense_match v) (vi_explicit_account_only_accounts v);
          (product_by_line, product_errors) =
            (if expense_mode then (Map.empty, operating_expense_product_shape_errors invoice (vi_product_match v))
             else validated_product_results (vi_product_match v) account_only);
          (tax_by_line, tax_errors) = validated_tax_results (vi_tax_match v);
          before = company_id_errors (vi_company_id v) @ mode_errors v
            @ (if list_ex (\<lambda>n. resolved n = None) account_only
               then [''Explicit account-only line resolution requires a deterministic expense account mapping.''] else [])
            @ header_errors invoice (vi_partner_match v) @ product_errors @ tax_errors;
          has_target = (\<lambda>n. expense_mode \<or> n \<in> Some ` set account_only \<or> product_by_line n \<noteq> None) in
      ebind (emap (bill_line_errors has_target tax_by_line (vi_monetary_precision v)) (enumerate 0 (iv_lines invoice))) (\<lambda>line_errors.
      let errors = before @ concat line_errors in
      ebind (discounted_totals_errors errors invoice (vi_monetary_precision v)) (\<lambda>totals.
      Inr (errors @ totals
        @ (case vi_validated_resale_accounts v of None \<Rightarrow> []
           | Some accounts \<Rightarrow> resale_account_errors invoice accounts expense_mode account_only product_by_line)
        @ (case vi_validated_internal_use_accounts v of None \<Rightarrow> []
           | Some accounts \<Rightarrow> internal_use_account_errors invoice accounts expense_mode account_only product_by_line
               (vi_validated_resale_accounts v \<noteq> None))))))"

definition validate_vendor_bill_inputs :: "bill_inputs \<Rightarrow> (money_error, string list) result" where
  "validate_vendor_bill_inputs v = (case return_invoice_type_code (vi_invoice v) of
     Some code \<Rightarrow> Inr [''Return invoice (InvoiceTypeCode '' @ code @ '') cannot become a vendor bill.'']
   | None \<Rightarrow>
       if vi_fixed_asset_accounting v \<noteq> None
       then (if vi_validated_internal_use_accounts v \<noteq> None
             then Inr [''Fixed-asset mode cannot be combined with INTERNAL_USE product accounting.'']
             else fixed_asset_mode_errors v)
       else ordinary_mode_errors v)"

section \<open>Building a bill\<close>

definition line_tax_ids :: "(string option \<times> nat \<rightharpoonup> int) \<Rightarrow> invoice_line \<Rightarrow> (bill_error, int list) result" where
  "line_tax_ids tax_ids line =
     emap (\<lambda>key. case tax_ids key of None \<Rightarrow> Inl BillKeyError | Some i \<Rightarrow> Inr i) (line_tax_keys line)"

text \<open>The fields that every kind of line takes from the source line.\<close>

definition source_bill_line ::
    "invoice_line \<Rightarrow> (string option \<times> nat \<rightharpoonup> int) \<Rightarrow> monetary_precision option \<Rightarrow> (bill_error, vendor_bill_line) result" where
  "source_bill_line line tax_ids precision = (case (ln_quantity line, ln_unit_price line) of
     (Some quantity, Some _) \<Rightarrow>
       ebind (line_tax_ids tax_ids line) (\<lambda>ids.
       ebind (bill_money (net_unit_price line precision)) (\<lambda>unit_price.
       Inr \<lparr>vl_product_id = None, vl_quantity = quantity, vl_unit_price = unit_price, vl_tax_ids = ids,
            vl_description = ln_description line, vl_account_id = None, vl_resale_account = None, vl_depreciation_model_id = None,
            vl_internal_use_account = None\<rparr>))
   | _ \<Rightarrow> Inl (BillMoneyError AssertionError))"

definition bill_line_of ::
    "invoice_line \<Rightarrow> product_match \<Rightarrow> (string option \<times> nat \<rightharpoonup> int) \<Rightarrow> monetary_precision option \<Rightarrow> resale_account option
     \<Rightarrow> internal_use_account option \<Rightarrow> (bill_error, vendor_bill_line) result" where
  "bill_line_of line product_found tax_ids precision resale internal_use =
     (if dm_product_id product_found = None then Inl (BillMoneyError AssertionError)
      else ebind (source_bill_line line tax_ids precision) (\<lambda>l.
        mk_checked vendor_bill_line_checks
          (case (resale, internal_use) of
             (Some a, _) \<Rightarrow> l\<lparr>vl_product_id := dm_product_id product_found, vl_account_id := Some (ra_account_id a), vl_resale_account := Some a\<rparr>
           | (None, Some a) \<Rightarrow>
               l\<lparr>vl_product_id := dm_product_id product_found, vl_account_id := Some (ia_account_id a), vl_internal_use_account := Some a\<rparr>
           | (None, None) \<Rightarrow> l\<lparr>vl_product_id := dm_product_id product_found\<rparr>)))"

definition expense_bill_line ::
    "invoice_line \<Rightarrow> int \<Rightarrow> (string option \<times> nat \<rightharpoonup> int) \<Rightarrow> monetary_precision option \<Rightarrow> (bill_error, vendor_bill_line) result" where
  "expense_bill_line line account_id tax_ids precision =
     ebind (source_bill_line line tax_ids precision) (\<lambda>l. mk_checked vendor_bill_line_checks (l\<lparr>vl_account_id := Some account_id\<rparr>))"

definition fixed_asset_bill_line ::
    "invoice_line \<Rightarrow> fixed_asset_accounting \<Rightarrow> (string option \<times> nat \<rightharpoonup> int) \<Rightarrow> monetary_precision option \<Rightarrow> (bill_error, vendor_bill_line) result" where
  "fixed_asset_bill_line line fixed_asset tax_ids precision =
     ebind (expense_bill_line line (fa_asset_account_id fixed_asset) tax_ids precision) (\<lambda>l.
     mk_checked vendor_bill_line_checks (l\<lparr>vl_depreciation_model_id := Some (fa_depreciation_model_id fixed_asset)\<rparr>))"

definition ordinary_bill_line :: "bill_inputs \<Rightarrow> invoice_line \<Rightarrow> (bill_error, vendor_bill_line) result" where
  "ordinary_bill_line v line =
     (let tax_ids = tax_ids_by_line (vi_tax_match v); precision = vi_monetary_precision v;
          resolved = resolved_account_only_account_ids (vi_account_only_line_numbers v) (vi_account_only_expense_match v)
            (vi_explicit_account_only_accounts v) in
      case Option.bind (ln_line_number line) resolved of
        Some account_id \<Rightarrow> expense_bill_line line account_id tax_ids precision
      | None \<Rightarrow> (case product_results_by_line (vi_product_match v) (ln_line_number line) of
          None \<Rightarrow> Inl BillKeyError
        | Some product_found \<Rightarrow> bill_line_of line product_found tax_ids precision
            (Option.bind (ln_line_number line) (map_of (case vi_validated_resale_accounts v of None \<Rightarrow> [] | Some as \<Rightarrow> as)))
            (Option.bind (ln_line_number line) (map_of (case vi_validated_internal_use_accounts v of None \<Rightarrow> [] | Some as \<Rightarrow> as)))))"

definition invoice_bill_lines :: "bill_inputs \<Rightarrow> (bill_error, vendor_bill_line list) result" where
  "invoice_bill_lines v =
     (let invoice = vi_invoice v; tax_ids = tax_ids_by_line (vi_tax_match v); precision = vi_monetary_precision v in
      case vi_fixed_asset_accounting v of
        Some fixed_asset \<Rightarrow> emap (\<lambda>line. fixed_asset_bill_line line fixed_asset tax_ids precision) (iv_lines invoice)
      | None \<Rightarrow>
          (case (if operating_expense_mode invoice (vi_operating_expense_match v)
                 then Option.bind (vi_operating_expense_match v) ex_expense_account_id else None) of
             Some account_id \<Rightarrow> emap (\<lambda>line. expense_bill_line line account_id tax_ids precision) (iv_lines invoice)
           | None \<Rightarrow> emap (ordinary_bill_line v) (iv_lines invoice)))"

definition external_uuid_of :: "header \<Rightarrow> string option" where
  "external_uuid_of h = (if py_strip (hd_invoice_uuid h) \<noteq> [] then Some (py_strip (hd_invoice_uuid h)) else hd_ettn h)"

definition build_vendor_bill :: "bill_inputs \<Rightarrow> (bill_error, vendor_bill) result" where
  "build_vendor_bill v =
     ebind (bill_money (validate_vendor_bill_inputs v)) (\<lambda>errors.
     if \<not> is_valid errors then Inl (VendorBillBuildError errors)
     else let h = iv_header (vi_invoice v) in
       case (pm_partner_id (vi_partner_match v), hd_currency_code h) of
         (Some supplier, Some currency) \<Rightarrow>
           ebind (invoice_bill_lines v) (\<lambda>lines.
           Inr \<lparr>vb_supplier_id = supplier, vb_invoice_number = py_strip (hd_invoice_number h), vb_invoice_date = hd_issue_date h,
                vb_currency = py_strip currency, vb_external_uuid = external_uuid_of h, vb_reference = Some (py_strip (hd_invoice_number h)),
                vb_company_id = vi_company_id v, vb_invoice_lines = lines,
                vb_notes = map py_strip (filter (\<lambda>n. \<not> blank n) (hd_notes h)), vb_company_currency_rate = None\<rparr>)
       | (None, _) \<Rightarrow> Inl (BillMoneyError AssertionError)
       | (_, None) \<Rightarrow> Inl BillAttributeError)"

section \<open>Customer invoices\<close>

definition validate_customer_invoice_inputs :: "int \<Rightarrow> string \<Rightarrow> internal_invoice \<Rightarrow> string list" where
  "validate_customer_invoice_inputs company_id source_invoice_id invoice =
     (if company_id \<le> 0 then [''company_id must be a positive integer.''] else [])
     @ (if blank source_invoice_id then [''source_invoice_id is required.''] else [])
     @ (if hd_issue_date (iv_header invoice) = None then [''Invoice date is required.''] else [])"

definition customer_invoice_reference :: "string \<Rightarrow> billing_instruction \<Rightarrow> string" where
  "customer_invoice_reference source_invoice_id b = ''Recharge '' @ source_invoice_id @ '':'' @ bi_billing_key b"

definition customer_line_of :: "billing_line \<Rightarrow> customer_invoice_line" where
  "customer_line_of l = \<lparr>cl_product_id = bl_product_id l, cl_quantity = bl_quantity l, cl_unit_price = bl_unit_price l,
     cl_tax_ids = bl_sales_tax_ids l, cl_description = Some (bl_description l), cl_source_allocation_key = Some (bl_allocation_key l)\<rparr>"

definition build_customer_invoice ::
    "int \<Rightarrow> string \<Rightarrow> internal_invoice \<Rightarrow> billing_instruction \<Rightarrow> (bill_error, customer_invoice) result" where
  "build_customer_invoice company_id source_invoice_id invoice b =
     (let errors = validate_customer_invoice_inputs company_id source_invoice_id invoice in
      if \<not> is_valid errors then Inl (CustomerInvoiceBuildError errors)
      else case hd_issue_date (iv_header invoice) of
        None \<Rightarrow> Inl (BillMoneyError AssertionError)
      | Some d \<Rightarrow> Inr \<lparr>ci_company_id = company_id, ci_customer_id = bi_customer_id b, ci_invoice_date = d, ci_currency = bi_currency b,
          ci_external_uuid = external_uuid_of (iv_header invoice), ci_reference = customer_invoice_reference source_invoice_id b,
          ci_invoice_lines = map customer_line_of (bi_lines b), ci_notes = [''Source invoice: '' @ source_invoice_id]\<rparr>)"

section \<open>Payloads\<close>

text \<open>The commands \<^verbatim>\<open>((6, 0, ids),)\<close> and \<^verbatim>\<open>(0, 0, values)\<close> of the ERP are constructors.\<close>

datatype odoo_value = OInt int | OText string | OFloat py_float | OReplaceIds "int list" | OCreateLines "(string \<times> odoo_value) list list"

type_synonym payload = "(string \<times> odoo_value) list"

definition present :: "(string \<times> odoo_value option) list \<Rightarrow> payload" where
  "present kvs = map (\<lambda>(k, v). (k, the v)) (filter (\<lambda>(_, v). v \<noteq> None) kvs)"

definition product_line_payload :: "vendor_bill_line \<Rightarrow> (int \<times> int) list \<Rightarrow> (bill_error, payload) result" where
  "product_line_payload line product_uom_ids = (case vl_product_id line of
     None \<Rightarrow> Inl (BillMoneyError AssertionError)
   | Some product_id \<Rightarrow>
       if \<not> positive_id (map_of product_uom_ids product_id)
       then Inl (BillValueError (''No resolved Odoo product_uom_id for product '' @ int_str product_id @ ''.''))
       else Inr (present [(''product_id'', Some (OInt product_id)), (''quantity'', Some (OText (decimal_text (vl_quantity line)))),
         (''price_unit'', Some (OText (decimal_text (vl_unit_price line)))), (''tax_ids'', Some (OReplaceIds (vl_tax_ids line))),
         (''name'', map_option OText (vl_description line)), (''product_uom_id'', map_option OInt (map_of product_uom_ids product_id))]))"

definition resale_product_line_payload :: "vendor_bill_line \<Rightarrow> (int \<times> int) list \<Rightarrow> (bill_error, payload) result" where
  "resale_product_line_payload line product_uom_ids = (case vl_resale_account line of
     None \<Rightarrow> Inl (BillMoneyError AssertionError)
   | Some a \<Rightarrow> ebind (product_line_payload line product_uom_ids) (\<lambda>p. Inr (p @ [(''account_id'', OInt (ra_account_id a))])))"

definition internal_use_product_line_payload :: "vendor_bill_line \<Rightarrow> (int \<times> int) list \<Rightarrow> (bill_error, payload) result" where
  "internal_use_product_line_payload line product_uom_ids = (case vl_internal_use_account line of
     None \<Rightarrow> Inl (BillMoneyError AssertionError)
   | Some a \<Rightarrow> ebind (product_line_payload line product_uom_ids) (\<lambda>p. Inr (p @ [(''account_id'', OInt (ia_account_id a))])))"

definition operating_expense_line_payload :: "vendor_bill_line \<Rightarrow> payload" where
  "operating_expense_line_payload line = present
     [(''name'', map_option OText (vl_description line)), (''quantity'', Some (OText (decimal_text (vl_quantity line)))),
      (''price_unit'', Some (OText (decimal_text (vl_unit_price line)))), (''account_id'', map_option OInt (vl_account_id line)),
      (''tax_ids'', Some (OReplaceIds (vl_tax_ids line)))]"

definition fixed_asset_line_payload :: "vendor_bill_line \<Rightarrow> payload" where
  "fixed_asset_line_payload line =
     operating_expense_line_payload line @ (case vl_depreciation_model_id line of None \<Rightarrow> [] | Some d \<Rightarrow> [(''depreciation_model_id'', OInt d)])"

definition line_payload :: "vendor_bill_line \<Rightarrow> (int \<times> int) list \<Rightarrow> (bill_error, payload) result" where
  "line_payload line product_uom_ids =
     (if vl_resale_account line \<noteq> None then resale_product_line_payload line product_uom_ids
      else if vl_internal_use_account line \<noteq> None then internal_use_product_line_payload line product_uom_ids
      else if vl_depreciation_model_id line \<noteq> None then Inr (fixed_asset_line_payload line)
      else if vl_account_id line \<noteq> None then Inr (operating_expense_line_payload line)
      else product_line_payload line product_uom_ids)"

definition newline :: string where
  "newline = [CHR 0x0A]"

definition to_odoo_account_move_payload :: "vendor_bill \<Rightarrow> int \<Rightarrow> (int \<times> int) list \<Rightarrow> (bill_error, payload) result" where
  "to_odoo_account_move_payload bill currency_id product_uom_ids =
     (if currency_id \<le> 0 then Inl (BillValueError ''currency_id must be a positive Odoo id.'')
      else if vb_invoice_date bill = None then Inl BillAttributeError
      else ebind (emap (\<lambda>line. line_payload line product_uom_ids) (vb_invoice_lines bill)) (\<lambda>lines.
        ebind (case vb_company_currency_rate bill of None \<Rightarrow> Inr None
               | Some rate \<Rightarrow> ebind (bill_money (odoo_invoice_currency_rate rate)) (\<lambda>f. Inr (Some (OFloat f)))) (\<lambda>rate.
        Inr (present [(''move_type'', Some (OText ''in_invoice'')), (''partner_id'', Some (OInt (vb_supplier_id bill))),
          (''invoice_date'', Some (OText (date_text (vb_invoice_date bill)))), (''ref'', map_option OText (vb_reference bill)),
          (''currency_id'', Some (OInt currency_id)), (''invoice_line_ids'', Some (OCreateLines lines)),
          (''company_id'', map_option OInt (vb_company_id bill)),
          (''narration'', if vb_notes bill = [] then None else Some (OText (str_join newline (vb_notes bill)))),
          (''invoice_currency_rate'', rate)]))))"

definition customer_line_payload :: "customer_invoice_line \<Rightarrow> payload" where
  "customer_line_payload line = present
     [(''product_id'', Some (OInt (cl_product_id line))), (''quantity'', Some (OText (decimal_text (cl_quantity line)))),
      (''price_unit'', Some (OText (decimal_text (cl_unit_price line)))), (''tax_ids'', Some (OReplaceIds (cl_tax_ids line))),
      (''name'', map_option OText (cl_description line))]"

definition to_odoo_customer_invoice_payload :: "customer_invoice \<Rightarrow> int \<Rightarrow> (bill_error, payload) result" where
  "to_odoo_customer_invoice_payload invoice currency_id =
     (if currency_id \<le> 0 then Inl (BillValueError ''currency_id must be a positive Odoo id.'')
      else Inr (present [(''move_type'', Some (OText ''out_invoice'')), (''company_id'', Some (OInt (ci_company_id invoice))),
        (''partner_id'', Some (OInt (ci_customer_id invoice))), (''invoice_date'', Some (OText (date_text (Some (ci_invoice_date invoice))))),
        (''ref'', Some (OText (ci_reference invoice))), (''currency_id'', Some (OInt currency_id)),
        (''invoice_line_ids'', Some (OCreateLines (map customer_line_payload (ci_invoice_lines invoice)))),
        (''narration'', if ci_notes invoice = [] then None else Some (OText (str_join newline (ci_notes invoice))))]))"

section \<open>Money of a bill\<close>

record vendor_bill_totals =
  vm_computed_untaxed :: decimal
  vm_untaxed :: decimal
  vm_tax :: decimal
  vm_total :: decimal

definition line_rates :: "internal_invoice \<Rightarrow> (invoice_line \<times> decimal) list" where
  "line_rates invoice = concat (map (\<lambda>line. map (\<lambda>tax. (line, the (it_rate tax))) (filter (\<lambda>tax. it_rate tax \<noteq> None) (ln_taxes line))) (iv_lines invoice))"

definition vendor_bill_money :: "internal_invoice \<Rightarrow> vendor_bill_line list \<Rightarrow> monetary_precision \<Rightarrow> (money_error, vendor_bill_totals) result" where
  "vendor_bill_money invoice bill_lines p =
     ebind (summed (\<lambda>l. line_currency_subtotal (vl_quantity l) (vl_unit_price l) p) bill_lines) (\<lambda>untaxed.
     ebind (summed (\<lambda>(line, rate). ebind (line_net_total line) (\<lambda>net. ebind (dec_try (dec_over rate (dec_of_int 100))) (\<lambda>r.
         dec_try (dec_times net r)))) (line_rates invoice)) (\<lambda>taxes.
     ebind (currency_round taxes p) (\<lambda>tax.
     ebind (summed (\<lambda>l. dec_try (dec_times (vl_quantity l) (vl_unit_price l))) bill_lines) (\<lambda>computed.
     ebind (dec_try (dec_plus untaxed tax)) (\<lambda>total_amount.
     Inr \<lparr>vm_computed_untaxed = computed, vm_untaxed = untaxed, vm_tax = tax, vm_total = total_amount\<rparr>)))))"

definition bill_line_mismatch :: "monetary_precision \<Rightarrow> nat \<times> invoice_line \<times> vendor_bill_line \<Rightarrow> (money_error, string list) result" where
  "bill_line_mismatch p = (\<lambda>(index, source_line, bill_line).
     ebind (dec_try (dec_times (vl_quantity bill_line) (vl_unit_price bill_line))) (\<lambda>subtotal.
     ebind (line_net_total source_line) (\<lambda>net_total.
     ebind (monetary_equal subtotal net_total p) (\<lambda>same.
     if same then Inr []
     else ebind (currency_round subtotal p) (\<lambda>a. ebind (currency_round net_total p) (\<lambda>b.
       Inr [line_path index @ '': quantity x price_unit ('' @ dec_str a @ '') does not match the source line amount ('' @ dec_str b @ '') at ''
         @ int_str (mp_decimal_places p) @ '' decimal places.'']))))))"

definition vendor_bill_line_mismatches ::
    "internal_invoice \<Rightarrow> vendor_bill_line list \<Rightarrow> monetary_precision \<Rightarrow> (money_error, string list) result" where
  "vendor_bill_line_mismatches invoice bill_lines p =
     (if length bill_lines \<noteq> length (iv_lines invoice)
      then Inr [''Vendor Bill lines do not correspond one-to-one with the source invoice lines.'']
      else ebind (emap (bill_line_mismatch p) (enumerate 0 (zip (iv_lines invoice) bill_lines))) (\<lambda>errors. Inr (concat errors)))"

definition vendor_bill_monetary_errors ::
    "internal_invoice \<Rightarrow> vendor_bill_line list \<Rightarrow> monetary_precision \<Rightarrow> (money_error, string list) result" where
  "vendor_bill_monetary_errors invoice bill_lines p =
     ebind (vendor_bill_line_mismatches invoice bill_lines p) (\<lambda>errors.
     ebind (vendor_bill_money invoice bill_lines p) (\<lambda>money.
     ebind (source_monetary_totals invoice) (\<lambda>source.
     ebind (monetary_mismatches (filter (\<lambda>(_, _, expected). expected \<noteq> None)
       [(''untaxed'', Some (vm_untaxed money), so_untaxed source), (''tax'', Some (vm_tax money), so_tax source),
        (''total'', Some (vm_total money), so_total source)]) p) (\<lambda>mismatches.
     Inr (errors @ map (\<lambda>m. ''Vendor Bill '' @ m @ '' (source invoice); refusing to build a Vendor Bill with different economics.'') mismatches)))))"

end
