(* ===== verification/Fx_Guard.thy ===== *)
theory Fx_Guard
  imports Fx_Rate Sha256
begin

text \<open>
  The exchange rate policy of vendor bills, \<^verbatim>\<open>app/application/execution/vendor_bill_fx_guard.py\<close>, and
  what the selection and the verification of a rate guarantee. The locator and the reader of stored
  documents, the XML parser and the ERP readers are the ports of the policy.
\<close>

section \<open>The stored document\<close>

datatype fx_guard_error =
    FxReviewNotFoundError string
  | FxReviewPersistenceError string
  | SourceDocumentUnreadableError string
  | SourceTaxFactsUnavailableError string
  | InvoiceDomainError string
  | SourceFxFactsUnavailableError string
  | FxPortError string
  | FxMoneyError money_error

record source_document =
  sd_storage_key :: string
  sd_content_sha256 :: "string option"

record facts_ports =
  dp_find_source_documents :: "string \<Rightarrow> int \<Rightarrow> (fx_guard_error, source_document list) result"
  dp_read_document :: "string \<Rightarrow> (fx_guard_error, string) result"
  dp_parse_ubl_invoice_root :: "string \<Rightarrow> (fx_guard_error, xml) result"

definition read_source_fx_facts ::
    "facts_ports \<Rightarrow> string \<Rightarrow> int \<Rightarrow> string option \<Rightarrow> (fx_guard_error, source_fx_facts option) result" where
  "read_source_fx_facts ports review_id company_id invoice_uuid =
     (case dp_find_source_documents ports review_id company_id of
        Inl (FxReviewPersistenceError _) \<Rightarrow> Inl (SourceFxFactsUnavailableError ''Source invoice document could not be located right now.'')
      | Inl e \<Rightarrow> Inl e
      | Inr [document] \<Rightarrow>
          (case dp_read_document ports (sd_storage_key document) of
             Inl (SourceDocumentUnreadableError _) \<Rightarrow> Inr None
           | Inl (SourceTaxFactsUnavailableError _) \<Rightarrow> Inl (SourceFxFactsUnavailableError ''Stored source invoice document could not be read.'')
           | Inl e \<Rightarrow> Inl e
           | Inr content \<Rightarrow>
               let expected_sha256 = py_lower (py_strip (case sd_content_sha256 document of None \<Rightarrow> [] | Some s \<Rightarrow> s)) in
               if expected_sha256 = [] \<or> sha256_hexdigest content \<noteq> expected_sha256 then Inr None
               else (case dp_parse_ubl_invoice_root ports content of
                   Inl (InvoiceDomainError _) \<Rightarrow> Inr None
                 | Inl e \<Rightarrow> Inl e
                 | Inr document_root \<Rightarrow>
                     let facts = extract_source_fx_facts document_root;
                         expected_uuid = py_strip (case invoice_uuid of None \<Rightarrow> [] | Some u \<Rightarrow> u) in
                     if expected_uuid = [] \<or> fx_invoice_uuid facts \<noteq> Some expected_uuid then Inr None else Inr (Some facts)))
      | Inr _ \<Rightarrow> Inr None)"

section \<open>The policy\<close>

definition UNCONVERTED_CURRENCY_CODE :: string where
  "UNCONVERTED_CURRENCY_CODE = ''TRY''"

record fx_policy =
  xp_read_source_fx_facts :: "string \<Rightarrow> int \<Rightarrow> string option \<Rightarrow> (fx_guard_error, source_fx_facts option) result"
  xp_resolve_document_rate :: "int \<Rightarrow> string \<Rightarrow> py_date \<Rightarrow> (fx_guard_error, odoo_currency_context) result"
  xp_read_company_amounts :: "int \<Rightarrow> int \<Rightarrow> (fx_guard_error, company_amounts option) result"

definition fx_lift :: "(money_error, 'a) result \<Rightarrow> (fx_guard_error, 'a) result" where
  "fx_lift r = (case r of Inl e \<Rightarrow> Inl (FxMoneyError e) | Inr x \<Rightarrow> Inr x)"

definition invoice_currency :: "internal_invoice \<Rightarrow> string" where
  "invoice_currency invoice = py_upper (py_strip (case hd_currency_code (iv_header invoice) of None \<Rightarrow> [] | Some c \<Rightarrow> c))"

definition policy_plan ::
    "fx_policy \<Rightarrow> string \<Rightarrow> int \<Rightarrow> internal_invoice \<Rightarrow> py_date \<Rightarrow> decimal list \<Rightarrow> decimal option \<Rightarrow> (fx_guard_error, fx_rate_plan) result" where
  "policy_plan policy review_id company_id invoice rate_date line_subtotals tax_total =
     (let currency = invoice_currency invoice in
      if currency = UNCONVERTED_CURRENCY_CODE
      then Inr ((fx_base currency (Some UNCONVERTED_CURRENCY_CODE) (Some rate_date) None None)\<lparr>fp_message := ''Bill is in the company currency.''\<rparr>)
      else
        ebind (xp_resolve_document_rate policy company_id currency rate_date) (\<lambda>odoo.
        ebind (xp_read_source_fx_facts policy review_id company_id (Some (hd_invoice_uuid (iv_header invoice)))) (\<lambda>facts.
        fx_lift (select_vendor_bill_rate currency (Some rate_date) (hd_exchange_rate (iv_header invoice)) facts (Some odoo) line_subtotals tax_total))))"

definition verify_created :: "fx_policy \<Rightarrow> fx_rate_plan \<Rightarrow> int \<Rightarrow> int \<Rightarrow> (fx_guard_error, fx_verification) result" where
  "verify_created policy plan move_id company_id =
     (if \<not> applies_rate plan then Inr (fx_unverified FV_NOT_APPLICABLE None [])
      else ebind (xp_read_company_amounts policy move_id company_id) (\<lambda>actual.
        fx_lift (verify_vendor_bill_company_amounts (Some plan) actual)))"

definition evidence_unavailable_plan :: "internal_invoice \<Rightarrow> py_date \<Rightarrow> string \<Rightarrow> fx_rate_plan" where
  "evidence_unavailable_plan invoice rate_date reason =
     fx_blocked FX_EVIDENCE_UNAVAILABLE (''Exchange-rate evidence could not be read right now: '' @ reason)
       (fx_base (invoice_currency invoice) None (Some rate_date) None None)"

section \<open>The rate of the invoice is the rate of the bill\<close>

definition agrees :: "decimal \<Rightarrow> decimal option \<Rightarrow> bool" where
  "agrees rate v = (case v of None \<Rightarrow> False | Some x \<Rightarrow> dec_same x rate)"

text \<open>The document states this one rate for the pair of currencies, and the accepted evidence has it too.\<close>

definition states_rate :: "source_fx_facts \<Rightarrow> string \<Rightarrow> string \<Rightarrow> decimal option \<Rightarrow> decimal \<Rightarrow> bool" where
  "states_rate facts document company evidence rate \<longleftrightarrow>
     fx_document_currency facts = Some document
     \<and> map (\<lambda>r. (xr_source_currency r, xr_target_currency r, xr_calculation_rate r)) (by_element facts PRICING_EXCHANGE_RATE)
       = [(Some document, Some company, Some rate)]
     \<and> dec_is_finite rate \<and> 0 < dec_val rate \<and> agrees rate evidence
     \<and> list_all (\<lambda>r. xr_element r = PRICING_EXCHANGE_RATE \<or> (xr_source_currency r, xr_target_currency r) \<noteq> (Some document, Some company)
         \<or> agrees rate (xr_calculation_rate r)) (fx_exchange_rates facts)"

lemma positive_iff: "dec_is_finite r \<Longrightarrow> dec_le r dec_zero \<longleftrightarrow> \<not> 0 < dec_val r"
  using dec_compare_val(3) [of r dec_zero] by (simp add: dec_zero_def dec_is_finite_def Py_Decimal.signed_def not_less)

lemma contradicting_None: "contradicting facts document company rate = None \<longleftrightarrow>
  list_all (\<lambda>r. xr_element r = PRICING_EXCHANGE_RATE \<or> (xr_source_currency r, xr_target_currency r) \<noteq> (Some document, Some company)
    \<or> agrees rate (xr_calculation_rate r)) (fx_exchange_rates facts)"
proof -
  have "(case xr_calculation_rate r of None \<Rightarrow> True | Some x \<Rightarrow> \<not> dec_same x rate) \<longleftrightarrow> \<not> agrees rate (xr_calculation_rate r)" for r
    by (simp add: agrees_def split: option.split)
  then show ?thesis unfolding contradicting_def find_None_iff list_all_iff by blast
qed

lemma selected_plan_Inr:
  assumes "selected_plan base rate document company p subtotals tax = Inr plan"
  shows "fp_status plan = FX_SOURCE_RATE_SELECTED \<and> fp_selected_rate plan = Some rate
    \<and> odoo_invoice_currency_rate rate = Inr (the (fp_odoo_invoice_currency_rate plan))"
  using assms unfolding selected_plan_def by (auto simp: ebind_Inr_iff)

definition company_code :: "odoo_currency_context \<Rightarrow> string" where
  "company_code odoo = py_upper (py_strip (oc_company_currency odoo))"

text \<open>The two ways a selection can end.\<close>

lemma selection_cases:
  assumes "select_vendor_bill_rate currency date evidence facts odoo subtotals tax = Inr plan"
  obtains (refused) "\<not> applies_rate plan" "fp_selected_rate plan = None" "fp_odoo_invoice_currency_rate plan = None"
      "fp_status plan = FX_NOT_APPLICABLE \<longleftrightarrow> map_option company_code odoo = Some (py_upper (py_strip currency))"
      "\<not> (\<exists>o' fs rate. odoo = Some o' \<and> fx_precision odoo \<noteq> None \<and> company_code o' \<noteq> py_upper (py_strip currency)
         \<and> facts = Some fs \<and> states_rate fs (py_upper (py_strip currency)) (company_code o') evidence rate)"
  | (selected) o' fs rate base p where "odoo = Some o'" "fx_precision odoo = Some p" "company_code o' \<noteq> py_upper (py_strip currency)"
      "facts = Some fs" "states_rate fs (py_upper (py_strip currency)) (company_code o') evidence rate"
      "selected_plan base rate (py_upper (py_strip currency)) (company_code o') p subtotals tax = Inr plan"
      "fp_company_currency_decimal_places base = Some (mp_decimal_places p)" "fp_document_currency base = py_upper (py_strip currency)"
proof -
  let ?doc = "py_upper (py_strip currency)"
  obtain automatic where auto: "automatic_rate odoo = Inr automatic"
    using assms by (auto simp: select_vendor_bill_rate_def Let_def ebind_Inr_iff)
  define base where "base = fx_base ?doc (map_option company_code odoo) date automatic (fx_precision odoo)"
  note step = assms [unfolded select_vendor_bill_rate_def Let_def auto ebind_simps company_code_def [symmetric], folded base_def]
  let ?good = "\<exists>o' fs rate. odoo = Some o' \<and> fx_precision odoo \<noteq> None \<and> company_code o' \<noteq> ?doc
    \<and> facts = Some fs \<and> states_rate fs ?doc (company_code o') evidence rate"
  have refuse: thesis if "plan = fx_blocked st m b" "st \<noteq> FX_SOURCE_RATE_SELECTED" "b = base \<or> (\<exists>r. b = base\<lparr>fp_source_rate := Some r\<rparr>)"
      "st = FX_NOT_APPLICABLE \<longleftrightarrow> map_option company_code odoo = Some ?doc" "\<not> ?good" for st m b
    by (rule refused) (use that in \<open>auto simp: base_def fx_base_def fx_blocked_def applies_rate_def\<close>)
  show thesis
  proof (cases "map_option company_code odoo = Some ?doc")
    case True
    then have "plan = fx_blocked FX_NOT_APPLICABLE ''Bill is in the company currency.'' base" using step by simp
    then show thesis by (rule refuse) (use True in auto)
  next
    case foreign: False
    show thesis
    proof (cases "odoo = None \<or> fx_precision odoo = None \<or> facts = None")
      case True
      with step foreign have "\<exists>st m. plan = fx_blocked st m base \<and> st \<noteq> FX_SOURCE_RATE_SELECTED \<and> st \<noteq> FX_NOT_APPLICABLE"
        by (cases odoo; cases "fx_precision odoo"; cases facts) auto
      then show thesis using True foreign by (elim exE conjE) (rule refuse, auto)
    next
      case False
      then obtain o' p fs where ok: "odoo = Some o'" "fx_precision (Some o') = Some p" "facts = Some fs" by auto
      let ?co = "company_code o'"
      have diff: "?co \<noteq> ?doc" using foreign ok by simp
      have good: "?good \<longleftrightarrow> (\<exists>rate. states_rate fs ?doc ?co evidence rate)" using ok diff by auto
      have pricing: thesis if "fx_document_currency fs \<noteq> Some ?doc \<or> length (by_element fs PRICING_EXCHANGE_RATE) \<noteq> 1"
      proof -
        have "\<not> ?good" unfolding good states_rate_def using that ok by (auto dest: arg_cong [of _ _ length])
        moreover have "\<exists>st m. plan = fx_blocked st m base \<and> st \<noteq> FX_SOURCE_RATE_SELECTED \<and> st \<noteq> FX_NOT_APPLICABLE"
          using step diff that by (auto simp: ok split: list.splits if_splits)
        ultimately show thesis using foreign by (elim exE conjE) (rule refuse, auto)
      qed
      show thesis
      proof (cases "fx_document_currency fs = Some ?doc \<and> length (by_element fs PRICING_EXCHANGE_RATE) = 1")
        case False
        then show thesis using pricing by blast
      next
        case True
        then obtain stated where stated: "by_element fs PRICING_EXCHANGE_RATE = [stated]" by (auto simp: length_Suc_conv)
        have states: "states_rate fs ?doc ?co evidence r \<longleftrightarrow> xr_source_currency stated = Some ?doc \<and> xr_target_currency stated = Some ?co
            \<and> xr_calculation_rate stated = Some r \<and> dec_is_finite r \<and> \<not> dec_le r dec_zero \<and> agrees r evidence
            \<and> contradicting fs ?doc ?co r = None" for r
          using True positive_iff [of r] by (auto simp: states_rate_def stated contradicting_None)
        have evid: "(case evidence of None \<Rightarrow> True | Some e \<Rightarrow> \<not> dec_same e r) \<longleftrightarrow> \<not> agrees r evidence" for r
          by (simp add: agrees_def split: option.split)
        show thesis
        proof (cases "\<exists>rate. states_rate fs ?doc ?co evidence rate")
          case True
          then obtain rate where rate: "states_rate fs ?doc ?co evidence rate" ..
          have sel: "selected_plan (base\<lparr>fp_source_rate := Some rate\<rparr>) rate ?doc ?co p subtotals tax = Inr plan"
            using step diff \<open>fx_document_currency fs = Some ?doc \<and> _\<close> rate [unfolded states]
            by (simp add: ok stated evid del: option.case_cong)
          show thesis
            by (rule selected [OF ok(1) _ diff ok(3) rate sel]) (use ok in \<open>simp_all add: base_def fx_base_def\<close>)
        next
          case False
          have "\<exists>st m b. plan = fx_blocked st m b \<and> (b = base \<or> (\<exists>r. b = base\<lparr>fp_source_rate := Some r\<rparr>))
              \<and> st \<noteq> FX_SOURCE_RATE_SELECTED \<and> st \<noteq> FX_NOT_APPLICABLE"
            using step diff \<open>fx_document_currency fs = Some ?doc \<and> _\<close> False
            unfolding states by (auto simp: ok stated evid agrees_def split: option.splits if_splits)
          then show thesis using foreign False good by (elim exE conjE) (rule refuse, auto)
        qed
      qed
    qed
  qed
qed

text \<open>
  C17. The rate of the invoice is authoritative. A rate is selected exactly when the bill is in a
  foreign currency and the verified original document states one pricing rate from the currency of the
  bill to the currency of the company, positive, equal to the rate of the accepted evidence and
  contradicted by no other rate of the document; the selected rate is that rate and the number sent to
  the ERP is computed from it. Otherwise no rate is chosen at all, and unless the bill is in the
  currency of the company it is blocked. The automatic rate of the ERP decides nothing.
\<close>

theorem invoice_rate_is_authoritative:
  assumes "select_vendor_bill_rate currency date evidence facts odoo subtotals tax = Inr plan"
  defines "document \<equiv> py_upper (py_strip currency)"
  shows "(fp_selected_rate plan = Some rate \<longleftrightarrow> (\<exists>o' fs. odoo = Some o' \<and> fx_precision odoo \<noteq> None \<and> company_code o' \<noteq> document
            \<and> facts = Some fs \<and> states_rate fs document (company_code o') evidence rate))
    \<and> (fp_selected_rate plan = Some rate \<longrightarrow> odoo_invoice_currency_rate rate = Inr (the (fp_odoo_invoice_currency_rate plan)))
    \<and> (applies_rate plan \<longleftrightarrow> fp_selected_rate plan \<noteq> None)
    \<and> (blocks_vendor_bill plan \<longleftrightarrow> fp_selected_rate plan = None \<and> map_option company_code odoo \<noteq> Some document)"
  using assms(1)
proof (cases rule: selection_cases)
  case refused
  then show ?thesis unfolding document_def blocks_vendor_bill_def applies_rate_def by auto
next
  case (selected o' fs r base p)
  have unique: "states_rate fs document (company_code o') evidence rate \<Longrightarrow> rate = r"
    using selected(5) by (auto simp: states_rate_def document_def)
  from selected_plan_Inr [OF selected(6)] show ?thesis
    using selected(1-5) unique unfolding document_def blocks_vendor_bill_def applies_rate_def by auto
qed

text \<open>A dollar invoice for a lira company, at 49.1616 lira for a dollar.\<close>

definition example_facts :: source_fx_facts where
  "example_facts = extract_source_fx_facts (Elem ''{urn}Invoice'' None
     [Elem ''{cbc}UUID'' (Some ''u-1'') [], Elem ''{cbc}DocumentCurrencyCode'' (Some ''USD'') [],
      Elem ''{cac}PricingExchangeRate'' None [Elem ''{cbc}SourceCurrencyCode'' (Some ''USD'') [],
        Elem ''{cbc}TargetCurrencyCode'' (Some ''TRY'') [], Elem ''{cbc}CalculationRate'' (Some ''49.1616'') []]])"

definition example_context :: odoo_currency_context where
  "example_context = \<lparr>oc_company_currency = ''TRY'', oc_company_currency_decimal_places = 2, oc_automatic_invoice_currency_rate = None\<rparr>"

lemma example_facts_eval: "example_facts = \<lparr>fx_invoice_uuid = Some ''u-1'', fx_document_currency = Some ''USD'',
    fx_exchange_rates = [\<lparr>xr_element = PRICING_EXCHANGE_RATE, xr_source_currency = Some ''USD'', xr_target_currency = Some ''TRY'',
      xr_calculation_rate_text = Some ''49.1616'', xr_calculation_rate = Some (Dec False 491616 (-4))\<rparr>]\<rparr>"
  by (simp add: example_facts_def extract_source_fx_facts_def child_text_def local_name_def exchange_rate_fact_of_def
      fx_decimal_def ends_with_def PRICING_EXCHANGE_RATE_def py_strip_def py_space_def py_upper_def upper_char_def ascii_lower_def
      dec_parse_def dec_unsigned_def is_digit_def str_nat_def digit_val_def dec_is_finite_def Let_def)

lemma example_codes: "company_code example_context = ''TRY''" "py_upper (py_strip ''USD'') = ''USD''"
  by (simp_all add: company_code_def example_context_def py_strip_def py_space_def py_upper_def upper_char_def ascii_lower_def Let_def)

lemma example_precision: "fx_precision (Some example_context) = Some \<lparr>mp_decimal_places = 2\<rparr>"
  by (simp add: fx_precision_def example_context_def mk_checked_def monetary_precision_checks_def MAX_CURRENCY_DECIMAL_PLACES_def)

lemma example_automatic: "automatic_rate (Some example_context) = Inr None"
  by (simp add: automatic_rate_def example_context_def company_rate_from_odoo_def normalized_rate_def RATE_DECIMAL_PLACES_def
      dec_try_def dec_of_int_def dec_prec_def ndigits_def nat_str.simps Let_def)

lemma example_states: "states_rate example_facts ''USD'' ''TRY'' (Some (Dec False 491616 (-4))) (Dec False 491616 (-4))"
  by (simp add: states_rate_def example_facts_eval by_element_def agrees_def dec_same_def dec_eq_def dec_is_finite_def Py_Decimal.signed_def)

lemma example_selection: "\<exists>plan. select_vendor_bill_rate ''USD'' None (Some (Dec False 491616 (-4))) (Some example_facts)
    (Some example_context) [] None = Inr plan"
  using example_codes
  by (simp add: select_vendor_bill_rate_def example_automatic example_precision example_facts_eval by_element_def dec_is_finite_def
      dec_le_def dec_zero_def Py_Decimal.signed_def dec_same_def dec_eq_def contradicting_def selected_plan_def dec_try_def
      odoo_invoice_currency_rate_def fx_base_def Let_def flip: company_code_def)

theorem invoice_rate_is_authoritative_witness:
  "\<exists>plan. select_vendor_bill_rate ''USD'' None (Some (Dec False 491616 (-4))) (Some example_facts) (Some example_context) [] None = Inr plan
     \<and> fp_selected_rate plan = Some (Dec False 491616 (-4)) \<and> \<not> blocks_vendor_bill plan"
proof -
  obtain plan where plan: "select_vendor_bill_rate ''USD'' None (Some (Dec False 491616 (-4))) (Some example_facts) (Some example_context) [] None
      = Inr plan" using example_selection ..
  from invoice_rate_is_authoritative [OF plan, of "Dec False 491616 (-4)"] example_states show ?thesis
    using plan by (simp add: example_codes example_precision)
qed

text \<open>
  The selection is documented never to raise for data, but the automatic rate, which is only shown, is
  rounded to six places before anything else is looked at; a rate too small for that raises.
\<close>

lemma unusable_automatic_rate_raises:
  "select_vendor_bill_rate currency date evidence facts
     (Some (example_context\<lparr>oc_automatic_invoice_currency_rate := Some (Dec False 1 (-30))\<rparr>)) subtotals tax = Inl DecimalInvalidOperation"
proof -
  have "dec_divide 40 (dec_of_int 1) (Dec False 1 (-30)) = Dec False 1 30"
    by (simp add: dec_of_int_def ndigits_def nat_str.simps strip_to.simps Let_def)
  then show ?thesis
    by (simp add: select_vendor_bill_rate_def automatic_rate_def company_rate_from_odoo_def example_context_def normalized_rate_def
        RATE_DECIMAL_PLACES_def dec_try_def dec_prec_def ndigits_def nat_str.simps dec_is_finite_def dec_le_def dec_zero_def
        Py_Decimal.signed_def Let_def)
qed

end
