(* ===== verification/Fx_Verify.thy ===== *)
theory Fx_Verify
  imports Fx_Guard
begin

text \<open>
  What a verified vendor bill guarantees: on amounts of ordinary size the decimal arithmetic of
  \<^verbatim>\<open>verify_vendor_bill_company_amounts\<close> is exact, and a bill it accepts follows the selected rate line by
  line and balances to the last digit.
\<close>

section \<open>Exact arithmetic on ordinary amounts\<close>

text \<open>At most fourteen digits, at most six of them after the point.\<close>

definition ordinary :: "decimal \<Rightarrow> bool" where
  "ordinary d \<longleftrightarrow> (case d of Dec neg c e \<Rightarrow> c < 10 ^ 14 \<and> -6 \<le> e \<and> e \<le> 0 | _ \<Rightarrow> False)"

definition usable_rate :: "decimal \<Rightarrow> bool" where
  "usable_rate r \<longleftrightarrow> ordinary r \<and> 0 < dec_val r \<and> dec_val r < 10 ^ 6"

lemma ordinary_cases:
  assumes "ordinary d"
  obtains neg c e where "d = Dec neg c e" "c < 10 ^ 14" "-6 \<le> e" "e \<le> 0"
  using assms by (cases d) (auto simp: ordinary_def)

lemma dec_fix_short: "c < 10 ^ 28 \<Longrightarrow> dec_fix (Dec neg c e) = Dec neg c e"
proof -
  assume "c < 10 ^ 28"
  then have "ndigits c \<le> dec_prec" by (intro ndigits_le) (simp_all add: dec_prec_def)
  then show ?thesis by (simp add: dec_fix.simps)
qed

lemma ordinary_grid: "ordinary d \<Longrightarrow> on_grid (10 ^ 20) d"
proof -
  assume "ordinary d"
  then obtain neg c e where d: "d = Dec neg c e" "c < 10 ^ 14" "-6 \<le> e" "e \<le> 0" by (rule ordinary_cases)
  have "(10::rat) powi e * 10 ^ 6 = 10 ^ nat (e + 6)" using powi_shift [of "-6" e] d(3) by (simp add: power_int_minus)
  then have val: "dec_val d * 10 ^ 6 = of_int (Py_Decimal.signed neg c * 10 ^ nat (e + 6))" by (simp add: d mult.assoc)
  have "c * 10 ^ nat (e + 6) < 10 ^ 14 * 10 ^ 6"
    using d(2,4) by (intro mult_less_le_imp_less power_increasing) auto
  then have "\<bar>Py_Decimal.signed neg c * 10 ^ nat (e + 6)\<bar> < int (10 ^ 20)"
    by (simp add: Py_Decimal.signed_def abs_mult flip: of_nat_less_iff [where 'a = int])
  moreover have "dec_is_finite d" by (simp add: d(1) dec_is_finite_def)
  ultimately show ?thesis using val unfolding on_grid_def by blast
qed

lemma ordinary_abs: "ordinary d \<Longrightarrow> ordinary (dec_abs d) \<and> dec_val (dec_abs d) = \<bar>dec_val d\<bar>"
  by (erule ordinary_cases) (simp add: dec_fix_short ordinary_def Py_Decimal.signed_def abs_mult)

lemma ordinary_bound: "ordinary d \<Longrightarrow> \<bar>dec_val d\<bar> < 10 ^ 14"
  using ordinary_grid [of d] by (auto simp: on_grid_def)

text \<open>Sums of amounts on the grid of millionths are exact.\<close>

lemma dec_plus_grid:
  assumes "on_grid m a" "on_grid n b" "m + n \<le> 10 ^ 28"
  obtains s where "dec_plus a b = Some s" "on_grid (m + n) s" "dec_val s = dec_val a + dec_val b"
proof -
  have "dec_plus a b = Some (dec_add a b)"
    using assms(1,2) by (auto simp: dec_plus_def on_grid_def dec_finite_cases)
  then show thesis using that dec_add_grid [OF assms] by blast
qed

lemma dec_total_grid:
  assumes "list_all (on_grid m) ds" "on_grid n acc" "n + length ds * m \<le> 10 ^ 28"
  obtains s where "dec_total acc ds = Some s" "on_grid (n + length ds * m) s" "dec_val s = dec_val acc + sum_list (map dec_val ds)"
proof -
  have "\<exists>s. dec_total acc ds = Some s \<and> on_grid (n + length ds * m) s \<and> dec_val s = dec_val acc + sum_list (map dec_val ds)"
    using assms
  proof (induction ds arbitrary: acc n)
    case (Cons d ds)
    then have d: "on_grid m d" and nm: "n + m \<le> 10 ^ 28" by auto
    obtain s where s: "dec_plus acc d = Some s" "on_grid (n + m) s" "dec_val s = dec_val acc + dec_val d"
      using dec_plus_grid [OF Cons.prems(2) d nm] .
    from Cons.IH [OF _ s(2)] Cons.prems show ?case by (auto simp: s algebra_simps)
  qed simp
  then show thesis using that by blast
qed

lemma grid_negate: "on_grid m (dec_copy_negate d) = on_grid m d"
proof -
  have "dec_val (dec_copy_negate d) = - dec_val d" if "dec_is_finite d"
    using that by (auto simp: dec_finite_cases Py_Decimal.signed_def)
  moreover have "dec_is_finite (dec_copy_negate d) = dec_is_finite d" by (cases d) (simp_all add: dec_is_finite_def)
  ultimately show ?thesis unfolding on_grid_def
    by (metis (no_types, opaque_lifting) abs_minus_cancel mult_minus_left of_int_minus minus_minus)
qed

lemma dec_minus_grid:
  assumes "on_grid m a" "on_grid n b" "m + n \<le> 10 ^ 28"
  obtains s where "dec_minus a b = Some s" "on_grid (m + n) s" "dec_val s = dec_val a - dec_val b"
proof -
  have "on_grid n (dec_copy_negate b)" using assms(2) by (simp add: grid_negate)
  moreover have "dec_val (dec_copy_negate b) = - dec_val b"
    using assms(2) by (auto simp: on_grid_def dec_finite_cases Py_Decimal.signed_def)
  ultimately show thesis using dec_plus_grid [OF assms(1) _ assms(3)] that unfolding dec_minus_def by (metis diff_conv_add_uminus)
qed

lemma dec_gt_finite: "dec_is_finite a \<Longrightarrow> dec_is_finite b \<Longrightarrow> dec_gt a b = Some (dec_val b < dec_val a)"
  using dec_compare_val(2) [of b a] by (auto simp: dec_gt_def dec_finite_cases)

text \<open>An amount rounded to the currency is on the grid too.\<close>

lemma rounded_grid:
  assumes "\<bar>dec_val x\<bar> < 10 ^ b" "dec_is_finite y" "in_units y p = of_int (half_away (in_units x p))" "valid_precision p"
  shows "on_grid (10 ^ (b + 7)) y"
proof -
  let ?n = "nat (mp_decimal_places p)" and ?u = "half_away (in_units x p)"
  have n: "?n \<le> 6" using assms(4) by (auto simp: valid_precision_iff)
  have ten: "(10::rat) ^ 6 = 10 ^ ?n * 10 ^ (6 - ?n)" using n by (metis le_add_diff_inverse power_add)
  have "dec_val y * 10 ^ 6 = in_units y p * 10 ^ (6 - ?n)" by (simp only: in_units_def ten mult.assoc)
  then have m: "dec_val y * 10 ^ 6 = of_int (?u * 10 ^ (6 - ?n))" by (simp only: assms(3) of_int_mult of_int_power of_int_numeral)
  have "\<bar>of_int ?u - in_units x p\<bar> \<le> 1 / 2" by (rule half_away_near)
  moreover have "\<bar>in_units x p\<bar> < 10 ^ b * 10 ^ ?n" using assms(1) by (simp add: in_units_def abs_mult)
  ultimately have "\<bar>of_int ?u\<bar> < (10 ^ b * 10 ^ ?n + 1 :: rat)" by linarith
  then have "\<bar>of_int (?u * 10 ^ (6 - ?n))\<bar> < (10 ^ b * 10 ^ ?n + 1) * (10 ^ (6 - ?n) :: rat)" by (simp add: abs_mult)
  also have "\<dots> = 10 ^ b * (10 ^ ?n * 10 ^ (6 - ?n)) + 10 ^ (6 - ?n)" by (simp add: algebra_simps)
  also have "\<dots> \<le> 10 ^ b * 10 ^ 6 + 10 ^ b * 10 ^ 6"
    using n by (intro add_mono mult_left_mono order_trans [OF power_increasing, of "6 - ?n" 6]) (simp_all flip: power_add)
  also have "\<dots> < 10 ^ b * 10 ^ 7" by simp
  also have "\<dots> = (of_int (10 ^ (b + 7)) :: rat)" by (simp add: power_add)
  finally have "\<bar>?u * 10 ^ (6 - ?n)\<bar> < 10 ^ (b + 7)" by (simp only: of_int_less_iff flip: of_int_abs)
  then have "\<bar>?u * 10 ^ (6 - ?n)\<bar> < int (10 ^ (b + 7))" by simp
  with m assms(2) show ?thesis unfolding on_grid_def by blast
qed

section \<open>One line\<close>

text \<open>An amount converted at a rate, in units of the company currency.\<close>

definition converted_units :: "decimal \<Rightarrow> decimal \<Rightarrow> monetary_precision \<Rightarrow> int" where
  "converted_units amount rate p = half_away (\<bar>dec_val amount\<bar> * dec_val rate * 10 ^ nat (mp_decimal_places p))"

lemma convert_exact:
  assumes "ordinary a" "usable_rate r" "valid_precision p"
  obtains x where "convert_to_company_currency (dec_abs a) r p = Inr x" "on_grid (10 ^ 27) x"
    "in_units x p = of_int (converted_units a r p)"
proof -
  note abs = ordinary_abs [OF assms(1)]
  obtain n1 c1 e1 where a: "dec_abs a = Dec n1 c1 e1" "c1 < 10 ^ 14" using abs ordinary_cases by metis
  obtain n2 c2 e2 where r: "r = Dec n2 c2 e2" "c2 < 10 ^ 14" using assms(2) ordinary_cases unfolding usable_rate_def by metis
  define x where "x = Dec (n1 \<noteq> n2) (c1 * c2) (e1 + e2)"
  have "c1 * c2 < 10 ^ 14 * 10 ^ 14" using a(2) r(2) by (intro mult_strict_mono) auto
  then have times: "dec_times (dec_abs a) r = Some x" by (simp add: a r x_def dec_fix_short)
  have val: "dec_val x = \<bar>dec_val a\<bar> * dec_val r"
  proof -
    have "dec_val x = dec_val (dec_abs a) * dec_val r" by (simp add: x_def a r Py_Decimal.signed_def power_int_add)
    then show ?thesis using abs by simp
  qed
  have r0: "0 < dec_val r" "dec_val r < 10 ^ 6" using assms(2) by (simp_all add: usable_rate_def)
  have small: "\<bar>dec_val x\<bar> < 10 ^ 20"
  proof -
    have "\<bar>dec_val a\<bar> * dec_val r \<le> 10 ^ 14 * dec_val r" using ordinary_bound [OF assms(1)] r0 by (intro mult_right_mono) auto
    also have "\<dots> < 10 ^ 14 * 10 ^ 6" using r0 by simp
    finally show ?thesis using r0 by (simp add: val abs_mult)
  qed
  then have "moderate x" by (simp add: moderate_def) (simp add: x_def dec_is_finite_def)
  from currency_round_units [OF this assms(3)] obtain y where
    y: "currency_round x p = Inr y" "dec_is_finite y" "in_units y p = of_int (half_away (in_units x p))" .
  have units: "half_away (in_units x p) = converted_units a r p" by (simp add: converted_units_def in_units_def val)
  have "on_grid (10 ^ 27) y" using rounded_grid [OF small y(2,3) assms(3)] by simp
  then show thesis using that [of y] y units by (simp add: convert_to_company_currency_def times dec_try_def)
qed

text \<open>A difference and a tolerance of \<open>k\<close> units.\<close>

definition tolerance_of :: "nat \<Rightarrow> monetary_precision \<Rightarrow> decimal" where
  "tolerance_of k p = Dec False k (- mp_decimal_places p)"

lemma tolerance_times: "k < 10 ^ 28 \<Longrightarrow> dec_times (quantum p) (dec_of_int (int k)) = Some (tolerance_of k p)"
  by (simp add: quantum_def dec_of_int_def tolerance_of_def dec_fix_short)

lemma judged_exact:
  assumes "on_grid (10 ^ 28) d" "valid_precision p"
  obtains f where "judged d (tolerance_of k p) mismatch subject = Inr f"
    "fst f = [] \<longleftrightarrow> \<bar>in_units d p\<bar> \<le> of_nat k"
proof -
  let ?n = "mp_decimal_places p"
  have n: "0 \<le> ?n" using assms(2) by (simp add: valid_precision_iff)
  have t: "dec_val (tolerance_of k p) * 10 ^ nat ?n = of_nat k"
    using n by (simp add: tolerance_of_def Py_Decimal.signed_def power_int_minus flip: power_int_of_nat)
  note abs = dec_abs_val [OF assms(1)]
  have fin: "dec_is_finite (tolerance_of k p)" by (simp add: tolerance_of_def dec_is_finite_def)
  have "dec_val (tolerance_of k p) < \<bar>dec_val d\<bar> \<longleftrightarrow> of_nat k < \<bar>in_units d p\<bar>"
  proof -
    have "dec_val (tolerance_of k p) < \<bar>dec_val d\<bar> \<longleftrightarrow> dec_val (tolerance_of k p) * 10 ^ nat ?n < \<bar>dec_val d\<bar> * 10 ^ nat ?n"
      by (rule mult_less_cancel_right_pos [symmetric]) simp
    then show ?thesis by (simp add: t in_units_def abs_mult)
  qed
  then have "dec_gt (dec_abs d) (tolerance_of k p) = Some (of_nat k < \<bar>in_units d p\<bar>)"
    using abs fin by (simp add: dec_gt_finite)
  then show thesis using that by (simp add: judged_def dec_try_def not_less)
qed

lemma check_line_exact:
  assumes "ordinary (cl_amount_currency l)" "ordinary (cl_balance l)" "usable_rate r" "valid_precision p"
  obtains f where "check_company_line p r (tolerance_of k p) l = Inr f"
    "fst f = [] \<longleftrightarrow> \<bar>\<bar>in_units (cl_balance l) p\<bar> - of_int (converted_units (cl_amount_currency l) r p)\<bar> \<le> of_nat k"
proof -
  obtain x where x: "convert_to_company_currency (dec_abs (cl_amount_currency l)) r p = Inr x" "on_grid (10 ^ 27) x"
      "in_units x p = of_int (converted_units (cl_amount_currency l) r p)"
    using convert_exact [OF assms(1,3,4)] .
  note abs = ordinary_abs [OF assms(2)]
  obtain d where d: "dec_minus (dec_abs (cl_balance l)) x = Some d" "on_grid (10 ^ 20 + 10 ^ 27) d"
      "dec_val d = dec_val (dec_abs (cl_balance l)) - dec_val x"
    by (rule dec_minus_grid [OF ordinary_grid [OF conjunct1 [OF abs]] x(2)]) simp
  have "on_grid (10 ^ 28) d" by (rule on_grid_mono [OF d(2)]) simp
  moreover have "in_units d p = \<bar>in_units (cl_balance l) p\<bar> - of_int (converted_units (cl_amount_currency l) r p)"
    using abs d(3) x(3) by (simp add: in_units_def abs_mult left_diff_distrib)
  ultimately show thesis using judged_exact [OF _ assms(4)] that by (simp add: check_company_line_def x(1) d(1) dec_try_def) metis
qed

lemma check_lines_exact:
  assumes "list_all (\<lambda>l. ordinary (cl_amount_currency l) \<and> ordinary (cl_balance l)) ls" "usable_rate r" "valid_precision p"
  obtains fs where "emap (check_company_line p r (tolerance_of k p)) ls = Inr fs"
    "concat (map fst fs) = [] \<longleftrightarrow>
      list_all (\<lambda>l. \<bar>\<bar>in_units (cl_balance l) p\<bar> - of_int (converted_units (cl_amount_currency l) r p)\<bar> \<le> of_nat k) ls"
proof -
  have "\<exists>fs. emap (check_company_line p r (tolerance_of k p)) ls = Inr fs \<and> (concat (map fst fs) = [] \<longleftrightarrow>
      list_all (\<lambda>l. \<bar>\<bar>in_units (cl_balance l) p\<bar> - of_int (converted_units (cl_amount_currency l) r p)\<bar> \<le> of_nat k) ls)"
    using assms(1)
  proof (induction ls)
    case (Cons l ls)
    obtain f where f: "check_company_line p r (tolerance_of k p) l = Inr f"
      "fst f = [] \<longleftrightarrow> \<bar>\<bar>in_units (cl_balance l) p\<bar> - of_int (converted_units (cl_amount_currency l) r p)\<bar> \<le> of_nat k"
      using check_line_exact [OF _ _ assms(2,3), of l k] Cons.prems by auto
    from Cons obtain fs where "emap (check_company_line p r (tolerance_of k p)) ls = Inr fs" "concat (map fst fs) = [] \<longleftrightarrow>
      list_all (\<lambda>l. \<bar>\<bar>in_units (cl_balance l) p\<bar> - of_int (converted_units (cl_amount_currency l) r p)\<bar> \<le> of_nat k) ls" by auto
    then show ?case using f by auto
  qed simp
  then show thesis using that by blast
qed

lemma balances_total:
  assumes "list_all (\<lambda>l. ordinary (cl_balance l)) ls" "length ls \<le> 19998"
  obtains s where "dec_total dec_zero (map cl_balance ls) = Some s" "on_grid (10 ^ 25) s"
    "dec_val s = sum_list (map (\<lambda>l. dec_val (cl_balance l)) ls)"
proof -
  have all: "list_all (on_grid (10 ^ 20)) (map cl_balance ls)" using assms(1) ordinary_grid unfolding list_all_iff set_map by blast
  have zero: "on_grid 1 dec_zero" by (simp add: dec_zero_def on_grid_def dec_is_finite_def Py_Decimal.signed_def)
  have le: "1 + length (map cl_balance ls) * 10 ^ 20 \<le> (10::nat) ^ 25"
    using mult_right_mono [OF assms(2), of "10 ^ 20"] by simp
  then have le': "1 + length (map cl_balance ls) * 10 ^ 20 \<le> (10::nat) ^ 28" by simp
  obtain s where "dec_total dec_zero (map cl_balance ls) = Some s" "on_grid (1 + length (map cl_balance ls) * 10 ^ 20) s"
      "dec_val s = dec_val dec_zero + sum_list (map dec_val (map cl_balance ls))"
    by (rule dec_total_grid [OF all zero le'])
  then show thesis using that on_grid_mono [OF _ le] by (simp add: dec_zero_def Py_Decimal.signed_def comp_def)
qed

section \<open>The bill\<close>

text \<open>What the verification promises of a bill, in units of the company currency.\<close>

definition follows_rate :: "company_amounts \<Rightarrow> decimal \<Rightarrow> monetary_precision \<Rightarrow> bool" where
  "follows_rate bill rate p \<longleftrightarrow>
     (let products = lines_of_type ''product'' bill; taxes = lines_of_type ''tax'' bill; payables = lines_of_type ''payment_term'' bill;
          off = (\<lambda>l. \<bar>\<bar>in_units (cl_balance l) p\<bar> - of_int (converted_units (cl_amount_currency l) rate p)\<bar>) in
      products \<noteq> [] \<and> payables \<noteq> []
      \<and> list_all (\<lambda>l. cl_display_type l \<in> set (ZERO_LINE_TYPES @ VERIFIED_LINE_TYPES)) (ca_lines bill)
      \<and> list_all (\<lambda>l. off l \<le> 1) products \<and> list_all (\<lambda>l. off l \<le> of_nat (max 1 (length products))) taxes
      \<and> sum_list (map (\<lambda>l. dec_val (cl_balance l)) (payables @ products @ taxes)) = 0)"

text \<open>A verified bill passed every check.\<close>

lemma verified_checks:
  assumes "verify_selected plan rate p bill = Inr v" "fv_status v = FV_VERIFIED"
  defines "products \<equiv> lines_of_type ''product'' bill" and "taxes \<equiv> lines_of_type ''tax'' bill" and "payables \<equiv> lines_of_type ''payment_term'' bill"
  obtains tax_tolerance pf tf debit payable rest where
    "py_upper (py_strip (ca_currency bill)) = fp_document_currency plan" "ca_state bill = ''draft''"
    "unverified_type_mismatches bill = []" "products \<noteq> []" "payables \<noteq> []"
    "dec_times (quantum p) (dec_of_int (max 1 (int (length products)))) = Some tax_tolerance"
    "emap (check_company_line p rate (quantum p)) products = Inr pf" "concat (map fst pf) = []"
    "emap (check_company_line p rate tax_tolerance) taxes = Inr tf" "concat (map fst tf) = []"
    "dec_total dec_zero (map cl_balance (products @ taxes)) = Some debit" "dec_total dec_zero (map cl_balance payables) = Some payable"
    "dec_plus payable debit = Some rest" "dec_same rest dec_zero"
proof -
  have tried: "dec_try x = Inr y \<longleftrightarrow> x = Some y" for x :: "'x option" and y by (simp add: dec_try_def split: option.split)
  let ?header = "\<lambda>differs r. (if py_upper (py_strip (ca_currency bill)) \<noteq> fp_document_currency plan
        then [''bill currency '' @ ca_currency bill @ '' != '' @ fp_document_currency plan] else [])
      @ (if ca_state bill \<noteq> ''draft'' then [''bill state '' @ ca_state bill @ '' != draft''] else [])
      @ (if differs then [''bill rate '' @ opt_dec_text r @ '' != invoice rate '' @ dec_str rate] else [])
      @ unverified_type_mismatches bill
      @ (if products = [] \<or> payables = [] then [''bill has no product or payable line''] else [])"
  let ?rest = "\<lambda>rest payable debit. if \<not> dec_same rest dec_zero
      then [''payable '' @ dec_str payable @ '' does not balance the lines '' @ dec_str debit] else []"
  have "\<exists>differs r tt pf tf debit payable rest tot. fv_status v = (if ?header differs r @ fst (collected (pf @ tf)) @ ?rest rest payable debit @ fst (tot :: string list \<times> string list) = []
      then FV_VERIFIED else FV_MISMATCH)
    \<and> dec_times (quantum p) (dec_of_int (max 1 (int (length products)))) = Some tt
    \<and> emap (check_company_line p rate (quantum p)) products = Inr pf \<and> emap (check_company_line p rate tt) taxes = Inr tf
    \<and> dec_total dec_zero (map cl_balance (products @ taxes)) = Some debit \<and> dec_total dec_zero (map cl_balance payables) = Some payable
    \<and> dec_plus payable debit = Some rest"
    using assms(1) unfolding verify_selected_def Let_def ebind_Inr_iff tried products_def [symmetric] taxes_def [symmetric] payables_def [symmetric]
    apply (elim exE conjE)
    subgoal for r differs tt pf tf _ _ debit payable rest _ tot
      apply (drule arg_cong [of "Inr _" "Inr v" "\<lambda>x. fv_status (projr x)"])
      by (rule exI [of _ differs], rule exI [of _ r], rule exI [of _ tt], rule exI [of _ pf], rule exI [of _ tf], rule exI [of _ debit],
          rule exI [of _ payable], rule exI [of _ rest], rule exI [of _ tot])
        (simp only: sum.sel fx_verification.simps simp_thms)
    done
  then obtain differs r tt pf tf debit payable rest tot where
    st: "fv_status v = (if ?header differs r @ fst (collected (pf @ tf)) @ ?rest rest payable debit @ fst (tot :: string list \<times> string list) = [] then FV_VERIFIED else FV_MISMATCH)"
    and eqs: "dec_times (quantum p) (dec_of_int (max 1 (int (length products)))) = Some tt"
      "emap (check_company_line p rate (quantum p)) products = Inr pf" "emap (check_company_line p rate tt) taxes = Inr tf"
      "dec_total dec_zero (map cl_balance (products @ taxes)) = Some debit" "dec_total dec_zero (map cl_balance payables) = Some payable"
      "dec_plus payable debit = Some rest" by (elim exE conjE) (rule that)
  from st assms(2) have clean: "?header differs r @ fst (collected (pf @ tf)) @ ?rest rest payable debit @ fst tot = []"
    by (metis fx_verification_status.distinct(1))
  then have "?header differs r = []" "fst (collected (pf @ tf)) = []" "?rest rest payable debit = []" by simp_all
  then show thesis using that eqs by (simp add: collected_def split: if_splits)
qed

lemma same_zero: "dec_is_finite d \<Longrightarrow> dec_same d dec_zero \<longleftrightarrow> dec_val d = 0"
  using in_units_same [of d dec_zero "\<lparr>mp_decimal_places = 0\<rparr>"] by (simp add: in_units_def dec_zero_def dec_is_finite_def Py_Decimal.signed_def)

lemma selected_verified:
  assumes "verify_selected plan rate p bill = Inr v" "fv_status v = FV_VERIFIED" "usable_rate rate" "valid_precision p"
    and "list_all (\<lambda>l. ordinary (cl_amount_currency l) \<and> ordinary (cl_balance l)) (ca_lines bill)" "length (ca_lines bill) \<le> 9999"
  shows "ca_state bill = ''draft'' \<and> py_upper (py_strip (ca_currency bill)) = fp_document_currency plan \<and> follows_rate bill rate p"
proof -
  define products taxes payables where lines: "products = lines_of_type ''product'' bill" "taxes = lines_of_type ''tax'' bill"
    "payables = lines_of_type ''payment_term'' bill"
  have sub: "list_all (\<lambda>l. ordinary (cl_amount_currency l) \<and> ordinary (cl_balance l)) (lines_of_type t bill)"
    "length (lines_of_type t bill) \<le> 9999" for t
    using assms(5) order.trans [OF length_filter_le assms(6)] by (auto simp: lines_of_type_def list_all_iff)
  let ?k = "max 1 (length products)"
  have tol: "dec_times (quantum p) (dec_of_int (max 1 (int (length products)))) = Some (tolerance_of ?k p)"
    using tolerance_times [of ?k p] sub(2) [of "''product''"] by (simp add: lines of_nat_max)
  have one: "quantum p = tolerance_of 1 p" by (simp add: quantum_def tolerance_of_def)
  obtain tt pf tf debit payable rest where c: "py_upper (py_strip (ca_currency bill)) = fp_document_currency plan" "ca_state bill = ''draft''"
    "unverified_type_mismatches bill = []" "products \<noteq> []" "payables \<noteq> []"
    "dec_times (quantum p) (dec_of_int (max 1 (int (length products)))) = Some tt"
    "emap (check_company_line p rate (quantum p)) products = Inr pf" "concat (map fst pf) = []"
    "emap (check_company_line p rate tt) taxes = Inr tf" "concat (map fst tf) = []"
    "dec_total dec_zero (map cl_balance (products @ taxes)) = Some debit" "dec_total dec_zero (map cl_balance payables) = Some payable"
    "dec_plus payable debit = Some rest" "dec_same rest dec_zero"
    using verified_checks [OF assms(1,2)] unfolding lines by metis
  have tt: "tt = tolerance_of ?k p" using c(6) tol by simp
  have off: "list_all (\<lambda>l. \<bar>\<bar>in_units (cl_balance l) p\<bar> - of_int (converted_units (cl_amount_currency l) rate p)\<bar> \<le> 1) products"
    using check_lines_exact [OF sub(1) [of "''product''"] assms(3,4), where k = 1] c(7,8) by (auto simp: one lines)
  have off': "list_all (\<lambda>l. \<bar>\<bar>in_units (cl_balance l) p\<bar> - of_int (converted_units (cl_amount_currency l) rate p)\<bar> \<le> of_nat ?k) taxes"
    using check_lines_exact [OF sub(1) [of "''tax''"] assms(3,4), where k = ?k] c(9,10) unfolding tt lines(2) [symmetric] by (metis Inr_inject)
  have d: "on_grid (10 ^ 25) debit" "dec_val debit = sum_list (map (\<lambda>l. dec_val (cl_balance l)) (products @ taxes))"
    using balances_total [of "products @ taxes"] c(11) sub(1,2) [of "''product''"] sub(1,2) [of "''tax''"]
    by (auto simp: lines list_all_iff)
  have y: "on_grid (10 ^ 25) payable" "dec_val payable = sum_list (map (\<lambda>l. dec_val (cl_balance l)) payables)"
    using balances_total [of payables] c(12) sub [of "''payment_term''"] by (auto simp: lines list_all_iff)
  have rest: "dec_is_finite rest" "dec_val rest = dec_val payable + dec_val debit"
    using dec_plus_grid [OF y(1) d(1)] c(13) by (auto simp: on_grid_def)
  then have "sum_list (map (\<lambda>l. dec_val (cl_balance l)) (payables @ products @ taxes)) = 0"
    using c(14) same_zero d(2) y(2) by simp
  moreover have "list_all (\<lambda>l. cl_display_type l \<in> set (ZERO_LINE_TYPES @ VERIFIED_LINE_TYPES)) (ca_lines bill)"
    using c(3) by (auto simp: unverified_type_mismatches_def filter_empty_conv list_all_iff)
  ultimately show ?thesis using c(1,2,4,5) off off' unfolding follows_rate_def Let_def lines by simp
qed


definition example_plan :: fx_rate_plan where
  "example_plan = (fx_base ''USD'' (Some ''TRY'') None None (Some \<lparr>mp_decimal_places = 2\<rparr>))\<lparr>fp_status := FX_SOURCE_RATE_SELECTED,
     fp_selected_rate := Some (Dec False 2 0)\<rparr>"

definition example_bill :: company_amounts where
  "example_bill = \<lparr>ca_move_id = 7, ca_state = ''draft'', ca_currency = ''USD'', ca_invoice_currency_rate = Some (Dec False 5 (-1)),
     ca_lines = [\<lparr>cl_line_id = 1, cl_display_type = ''product'', cl_amount_currency = Dec False 10001 (-2), cl_balance = Dec False 20003 (-2)\<rparr>,
       \<lparr>cl_line_id = 2, cl_display_type = ''tax'', cl_amount_currency = Dec False 2000 (-2), cl_balance = Dec False 4000 (-2)\<rparr>,
       \<lparr>cl_line_id = 3, cl_display_type = ''payment_term'', cl_amount_currency = Dec True 12001 (-2), cl_balance = Dec True 24003 (-2)\<rparr>]\<rparr>"

lemma example_verified: "\<exists>v. verify_vendor_bill_company_amounts (Some example_plan) (Some example_bill) = Inr v \<and> fv_status v = FV_VERIFIED"
  by (simp add: verify_vendor_bill_company_amounts_def example_plan_def example_bill_def fx_base_def verify_selected_def
      mk_checked_def monetary_precision_checks_def MAX_CURRENCY_DECIMAL_PLACES_def company_rate_from_odoo_def normalized_rate_def
      RATE_DECIMAL_PLACES_def dec_try_def lines_of_type_def unverified_type_mismatches_def ZERO_LINE_TYPES_def VERIFIED_LINE_TYPES_def
      quantum_def check_company_line_def convert_to_company_currency_def currency_round_def judged_def collected_def
      check_company_total_def dec_zero_def dec_plus_def dec_minus_def dec_gt_def dec_truth_def dec_is_zero_def dec_same_def
      dec_fix.simps dec_add.simps dec_prec_def dec_is_finite_def ndigits_def nat_str.simps round_half_even_def round_half_up_def
      strip_to.simps Let_def dec_eq_def dec_le_def dec_less_def Py_Decimal.signed_def dec_of_int_def py_upper_def py_strip_def py_space_def
      upper_char_def ascii_lower_def)


end
