(* ===== verification/Bill_Proofs.thy ===== *)
theory Bill_Proofs
  imports Vendor_Bill Fx_Verify
begin

text \<open>
  Correctness of the bills: what a built bill says of its source, that the payload says what the line
  says, and what the monetary gate proves of the amounts.
\<close>

section \<open>Results that passed validation\<close>

definition matched_product :: "product_line_match \<Rightarrow> bool" where
  "matched_product r \<longleftrightarrow> dm_status (lm_result r) = MATCHED \<and> dm_product_id (lm_result r) \<noteq> None"

definition matched_tax :: "tax_line_result \<Rightarrow> bool" where
  "matched_tax r \<longleftrightarrow> tr_status (tl_result r) = TX_MATCHED \<and> tr_tax_id (tl_result r) \<noteq> None"

abbreviation tax_key :: "tax_line_result \<Rightarrow> string option \<times> nat" where
  "tax_key r \<equiv> (tl_line_number r, tl_tax_index r)"

abbreviation kept_products :: "string list \<Rightarrow> product_line_match list \<Rightarrow> product_line_match list" where
  "kept_products skip rs \<equiv> filter (\<lambda>r. lm_line_number r \<notin> Some ` set skip) rs"

lemma collect_products_Nil:
  "collect_products skip m errors rs = (m', []) \<Longrightarrow>
     errors = [] \<and> list_all matched_product (kept_products skip rs) \<and> distinct (map lm_line_number (kept_products skip rs))
     \<and> (\<forall>r \<in> set (kept_products skip rs). m (lm_line_number r) = None)"
proof (induction rs arbitrary: m errors)
  case (Cons r rs)
  let ?n = "lm_line_number r"
  consider "?n \<in> Some ` set skip" | "?n \<notin> Some ` set skip" "m ?n = None" "matched_product r"
    using Cons.IH [of m "errors @ [_]"] Cons.prems by (fastforce simp: Let_def matched_product_def split: if_splits)
  then show ?case
  proof cases
    case 1
    with Cons.prems Cons.IH [of m errors] show ?thesis by simp
  next
    case 2
    with Cons.prems have "collect_products skip (m(?n \<mapsto> lm_result r)) errors rs = (m', [])"
      by (auto simp: Let_def matched_product_def)
    from Cons.IH [OF this] 2 show ?thesis by (auto simp: fun_upd_apply split: if_splits)
  qed
qed simp

lemma collect_taxes_Nil:
  "collect_taxes m errors rs = (m', []) \<Longrightarrow>
     errors = [] \<and> list_all matched_tax rs \<and> distinct (map tax_key rs) \<and> (\<forall>r \<in> set rs. m (tax_key r) = None)"
proof (induction rs arbitrary: m errors)
  case (Cons r rs)
  have ok: "m (tax_key r) = None" "matched_tax r"
    using Cons.IH [of m "errors @ [_]"] Cons.prems by (fastforce simp: Let_def matched_tax_def split: if_splits)+
  with Cons.prems have "collect_taxes (m(tax_key r \<mapsto> tl_result r)) errors rs = (m', [])"
    by (auto simp: Let_def matched_tax_def)
  from Cons.IH [OF this] ok show ?case by (auto simp: fun_upd_apply split: if_splits)
qed simp

lemma only_one: "distinct (map f xs) \<Longrightarrow> x \<in> set xs \<Longrightarrow> filter (\<lambda>y. f y = f x) xs = [x]"
proof (induction xs)
  case (Cons y ys)
  then show ?case by (cases "y = x") (auto simp: filter_empty_conv image_iff)
qed simp

text \<open>The product of a line that is not reserved for an account: the one result of the line, which is matched.\<close>

lemma product_of_line:
  assumes "validated_product_results pm skip = (m, [])" "product_results_by_line pm n = Some x" "n \<notin> Some ` set skip"
  shows "\<exists>r. filter (\<lambda>r. lm_line_number r = n) (im_line_results pm) = [r] \<and> lm_result r = x \<and> matched_product r"
proof -
  let ?rs = "kept_products skip (im_line_results pm)"
  from assms(2) obtain r where r: "r \<in> set (im_line_results pm)" "lm_line_number r = n" "lm_result r = x"
    unfolding product_results_by_line_def by (auto dest!: map_of_SomeD)
  with assms(3) have kept: "r \<in> set ?rs" by auto
  from collect_products_Nil assms(1) have ok: "list_all matched_product ?rs" "distinct (map lm_line_number ?rs)"
    unfolding validated_product_results_def by blast+
  have "filter (\<lambda>r. lm_line_number r = n) (im_line_results pm) = filter (\<lambda>r. lm_line_number r = n) ?rs"
    using assms(3) by (auto intro: filter_cong)
  also have "\<dots> = [r]" using only_one [OF ok(2) kept] r(2) by simp
  finally show ?thesis using r(3) kept ok(1) by (auto simp: list_all_iff)
qed

lemma tax_of_key:
  assumes "validated_tax_results tm = (m, [])" "tax_ids_by_line tm key = Some i"
  shows "\<exists>r. filter (\<lambda>r. tax_key r = key) (tm_line_results tm) = [r] \<and> tr_status (tl_result r) = TX_MATCHED \<and> tr_tax_id (tl_result r) = Some i"
proof -
  from assms(2) obtain r where r: "r \<in> set (tm_line_results tm)" "tax_key r = key" "tr_tax_id (tl_result r) = Some i"
    unfolding tax_ids_by_line_def by (auto dest!: map_of_SomeD)
  from collect_taxes_Nil assms(1) have ok: "list_all matched_tax (tm_line_results tm)" "distinct (map tax_key (tm_line_results tm))"
    unfolding validated_tax_results_def by blast+
  show ?thesis using only_one [OF ok(2) r(1)] r ok(1) by (auto simp: list_all_iff matched_tax_def)
qed

section \<open>Specification of a line\<close>

text \<open>Quantity, text, price and taxes of the source line: each tax is the one matched result of its position.\<close>

definition carries_source :: "bill_inputs \<Rightarrow> invoice_line \<Rightarrow> vendor_bill_line \<Rightarrow> bool" where
  "carries_source v line l \<longleftrightarrow>
     ln_quantity line = Some (vl_quantity l) \<and> vl_description l = ln_description line
     \<and> net_unit_price line (vi_monetary_precision v) = Inr (vl_unit_price l)
     \<and> list_all2 (\<lambda>key i. \<exists>r. filter (\<lambda>r. tax_key r = key) (tm_line_results (vi_tax_match v)) = [r]
         \<and> tr_status (tl_result r) = TX_MATCHED \<and> tr_tax_id (tl_result r) = Some i) (line_tax_keys line) (vl_tax_ids l)"

text \<open>The one matched product of the line.\<close>

definition has_product :: "bill_inputs \<Rightarrow> invoice_line \<Rightarrow> int \<Rightarrow> bool" where
  "has_product v line p \<longleftrightarrow> (\<exists>r. filter (\<lambda>r. lm_line_number r = ln_line_number line) (im_line_results (vi_product_match v)) = [r]
     \<and> dm_status (lm_result r) = MATCHED \<and> dm_product_id (lm_result r) = Some p)"

text \<open>An account next to a product is one that execution validated and sealed for this line and product.\<close>

definition sealed_pin :: "bill_inputs \<Rightarrow> invoice_line \<Rightarrow> int \<Rightarrow> int \<Rightarrow> bool" where
  "sealed_pin v line p a \<longleftrightarrow> (\<exists>n. ln_line_number line = Some n \<and>
     ((\<exists>accounts r. vi_validated_resale_accounts v = Some accounts \<and> (n, r) \<in> set accounts \<and> ra_sealed r
         \<and> ra_line_number r = n \<and> ra_product_id r = p \<and> ra_account_id r = a)
      \<or> (\<exists>accounts r. vi_validated_internal_use_accounts v = Some accounts \<and> (n, r) \<in> set accounts \<and> ia_sealed r
         \<and> ia_line_number r = n \<and> ia_product_id r = p \<and> ia_account_id r = a)))"

text \<open>An account without a product: of the fixed asset, of the expense mapping of an invoice without product
  identifiers, or of a decision for this line, which the supplier must not be barred from.\<close>

definition account_decided :: "bill_inputs \<Rightarrow> invoice_line \<Rightarrow> int \<Rightarrow> int option \<Rightarrow> bool" where
  "account_decided v line a model \<longleftrightarrow>
     (\<exists>f. vi_fixed_asset_accounting v = Some f \<and> a = fa_asset_account_id f \<and> model = Some (fa_depreciation_model_id f)
        \<and> invoice_is_product_identifier_free (vi_invoice v))
     \<or> vi_fixed_asset_accounting v = None \<and> model = None
       \<and> ((\<exists>m. vi_operating_expense_match v = Some m \<and> ex_status m = MATCHED \<and> ex_expense_account_id m = Some a
             \<and> invoice_is_product_identifier_free (vi_invoice v)
             \<and> (is_product_source_supplier (vi_invoice v) \<longrightarrow> ex_matched_by m = Some MATCHED_BY_REVIEW_ACCOUNTING_RESOLUTION))
          \<or> (\<exists>n. ln_line_number line = Some n \<and> n \<in> set (vi_account_only_line_numbers v)
             \<and> resolved_account_only_account_ids (vi_account_only_line_numbers v) (vi_account_only_expense_match v)
                 (vi_explicit_account_only_accounts v) n = Some a
             \<and> \<not> is_product_source_supplier (vi_invoice v)))"

definition proper_target :: "bill_inputs \<Rightarrow> invoice_line \<Rightarrow> vendor_bill_line \<Rightarrow> bool" where
  "proper_target v line l = (case (vl_product_id l, vl_account_id l) of
     (Some p, None) \<Rightarrow> has_product v line p \<and> vl_depreciation_model_id l = None
   | (Some p, Some a) \<Rightarrow> has_product v line p \<and> sealed_pin v line p a \<and> vl_depreciation_model_id l = None
   | (None, Some a) \<Rightarrow> account_decided v line a (vl_depreciation_model_id l)
   | (None, None) \<Rightarrow> False)"

section \<open>Lines that are built\<close>

lemma source_bill_line_Inr:
  assumes "source_bill_line line (tax_ids_by_line (vi_tax_match v)) (vi_monetary_precision v) = Inr l"
    and "validated_tax_results (vi_tax_match v) = (m, [])"
  shows "carries_source v line l" "vl_product_id l = None" "vl_account_id l = None" "vl_depreciation_model_id l = None"
proof -
  from assms(1) have l: "line_tax_ids (tax_ids_by_line (vi_tax_match v)) line = Inr (vl_tax_ids l)" "ln_quantity line = Some (vl_quantity l)"
      "net_unit_price line (vi_monetary_precision v) = Inr (vl_unit_price l)" "vl_description l = ln_description line"
      "vl_product_id l = None" "vl_account_id l = None" "vl_depreciation_model_id l = None"
    by (auto simp: source_bill_line_def ebind_Inr_iff bill_money_def split: option.splits sum.splits)
  from l(1) have "list_all2 (\<lambda>key i. tax_ids_by_line (vi_tax_match v) key = Some i) (line_tax_keys line) (vl_tax_ids l)"
    unfolding line_tax_ids_def emap_Inr_nth by (rule list.rel_mono_strong) (simp split: option.splits)
  then have "list_all2 (\<lambda>key i. \<exists>r. filter (\<lambda>r. tax_key r = key) (tm_line_results (vi_tax_match v)) = [r]
      \<and> tr_status (tl_result r) = TX_MATCHED \<and> tr_tax_id (tl_result r) = Some i) (line_tax_keys line) (vl_tax_ids l)"
    by (rule list.rel_mono_strong) (rule tax_of_key [OF assms(2)])
  with l show "carries_source v line l" by (simp add: carries_source_def)
  show "vl_product_id l = None" "vl_account_id l = None" "vl_depreciation_model_id l = None" by (rule l(5-7))+
qed

lemma carries_source_update [simp]:
  "carries_source v line (l\<lparr>vl_product_id := a\<rparr>) = carries_source v line l"
  "carries_source v line (l\<lparr>vl_account_id := b\<rparr>) = carries_source v line l"
  "carries_source v line (l\<lparr>vl_resale_account := c\<rparr>) = carries_source v line l"
  "carries_source v line (l\<lparr>vl_internal_use_account := d\<rparr>) = carries_source v line l"
  "carries_source v line (l\<lparr>vl_depreciation_model_id := e\<rparr>) = carries_source v line l"
  by (simp_all add: carries_source_def)

lemma expense_bill_line_Inr:
  assumes "expense_bill_line line account (tax_ids_by_line (vi_tax_match v)) (vi_monetary_precision v) = Inr l"
    and "validated_tax_results (vi_tax_match v) = (m, [])"
  shows "carries_source v line l \<and> vl_product_id l = None \<and> vl_account_id l = Some account \<and> vl_depreciation_model_id l = None"
proof -
  from assms(1) obtain l0 where l0: "source_bill_line line (tax_ids_by_line (vi_tax_match v)) (vi_monetary_precision v) = Inr l0"
      "l = l0\<lparr>vl_account_id := Some account\<rparr>"
    by (auto simp: expense_bill_line_def ebind_Inr_iff mk_checked_Inr_iff)
  show ?thesis using source_bill_line_Inr [OF l0(1) assms(2)] by (simp add: l0(2))
qed

section \<open>Inputs that pass validation\<close>

lemma fixed_asset_valid:
  assumes "fixed_asset_mode_errors v = Inr []"
  shows "invoice_is_product_identifier_free (vi_invoice v)" "snd (validated_tax_results (vi_tax_match v)) = []"
    "header_errors (vi_invoice v) (vi_partner_match v) = []"
  using assms by (auto simp: fixed_asset_mode_errors_def Let_def case_prod_unfold ebind_Inr_iff split: if_splits)

text \<open>What the ordinary mode proves, each part on its own.\<close>

definition ordinary_products :: "bill_inputs \<Rightarrow> (string option \<rightharpoonup> product_match) \<times> string list" where
  "ordinary_products v = (if operating_expense_mode (vi_invoice v) (vi_operating_expense_match v)
     then (Map.empty, operating_expense_product_shape_errors (vi_invoice v) (vi_product_match v))
     else validated_product_results (vi_product_match v) (account_only_lines v))"

lemma ordinary_valid:
  assumes "ordinary_mode_errors v = Inr []"
  shows "mode_errors v = []" "header_errors (vi_invoice v) (vi_partner_match v) = []"
    "snd (ordinary_products v) = []" "snd (validated_tax_results (vi_tax_match v)) = []"
    "list_all (\<lambda>n. resolved_account_only_account_ids (account_only_lines v) (vi_account_only_expense_match v)
       (vi_explicit_account_only_accounts v) n \<noteq> None) (account_only_lines v)"
    "\<And>accounts. vi_validated_resale_accounts v = Some accounts \<Longrightarrow>
       resale_account_errors (vi_invoice v) accounts (operating_expense_mode (vi_invoice v) (vi_operating_expense_match v))
         (account_only_lines v) (fst (ordinary_products v)) = []"
    "\<And>accounts. vi_validated_internal_use_accounts v = Some accounts \<Longrightarrow>
       internal_use_account_errors (vi_invoice v) accounts (operating_expense_mode (vi_invoice v) (vi_operating_expense_match v))
         (account_only_lines v) (fst (ordinary_products v)) (vi_validated_resale_accounts v \<noteq> None) = []"
  using assms
  by (simp_all add: ordinary_mode_errors_def Let_def case_prod_unfold ebind_Inr_iff ordinary_products_def list_ex_iff list_all_iff
      split: if_split_asm) auto

lemma resale_pin_sealed:
  assumes "resale_account_errors invoice accounts mode only products = []" "(n, a) \<in> set accounts"
  shows "ra_sealed a \<and> ra_line_number a = n"
proof -
  from assms have "(if \<not> ra_sealed a then [''RESALE account for line '' @ n @ '' was not issued by RESALE validation.'']
        else case products (Some n) of
            None \<Rightarrow> [''RESALE account for line '' @ n @ '' does not match the line.'']
          | Some r \<Rightarrow> if ra_line_number a \<noteq> n then [''RESALE account for line '' @ n @ '' does not match the line.'']
              else if dm_product_id r \<noteq> Some (ra_product_id a) then [''RESALE account for line '' @ n @ '' names a different product.''] else []) = []"
    by (auto simp: resale_account_errors_def split: if_split_asm)
  then show ?thesis by (auto split: if_split_asm option.splits)
qed

lemma internal_use_pin_sealed:
  assumes "internal_use_account_errors invoice accounts mode only products resale = []" "(n, a) \<in> set accounts"
  shows "ia_sealed a \<and> ia_line_number a = n"
proof -
  from assms have "(if \<not> ia_sealed a then [''INTERNAL_USE account for line '' @ n @ '' was not issued by INTERNAL_USE validation.'']
        else case products (Some n) of
            None \<Rightarrow> [''INTERNAL_USE account for line '' @ n @ '' does not match the line.'']
          | Some r \<Rightarrow> if ia_line_number a \<noteq> n then [''INTERNAL_USE account for line '' @ n @ '' does not match the line.'']
              else if dm_product_id r \<noteq> Some (ia_product_id a) then [''INTERNAL_USE account for line '' @ n @ '' names a different product.''] else []) = []"
    by (auto simp: internal_use_account_errors_def split: if_split_asm)
  then show ?thesis by (auto split: if_split_asm option.splits)
qed

section \<open>A built bill says what its source says\<close>

lemma bill_line_of_Inr:
  assumes "bill_line_of line x (tax_ids_by_line (vi_tax_match v)) (vi_monetary_precision v) resale internal_use = Inr l"
    and "validated_tax_results (vi_tax_match v) = (m, [])"
  shows "carries_source v line l" "vl_product_id l = dm_product_id x" "vl_depreciation_model_id l = None"
    "case (resale, internal_use) of
       (Some a, _) \<Rightarrow> vl_product_id l = Some (ra_product_id a) \<and> vl_account_id l = Some (ra_account_id a)
     | (None, Some a) \<Rightarrow> vl_product_id l = Some (ia_product_id a) \<and> vl_account_id l = Some (ia_account_id a)
     | (None, None) \<Rightarrow> vl_account_id l = None"
proof -
  from assms(1) obtain l0 where l0: "source_bill_line line (tax_ids_by_line (vi_tax_match v)) (vi_monetary_precision v) = Inr l0"
      and l: "l = (case (resale, internal_use) of
             (Some a, _) \<Rightarrow> l0\<lparr>vl_product_id := dm_product_id x, vl_account_id := Some (ra_account_id a), vl_resale_account := Some a\<rparr>
           | (None, Some a) \<Rightarrow> l0\<lparr>vl_product_id := dm_product_id x, vl_account_id := Some (ia_account_id a), vl_internal_use_account := Some a\<rparr>
           | (None, None) \<Rightarrow> l0\<lparr>vl_product_id := dm_product_id x\<rparr>)"
      and valid: "valid_by vendor_bill_line_checks l"
    by (auto simp: bill_line_of_def ebind_Inr_iff mk_checked_Inr_iff split: if_split_asm)
  note source = source_bill_line_Inr [OF l0 assms(2)]
  show "carries_source v line l" "vl_product_id l = dm_product_id x" "vl_depreciation_model_id l = None"
    using source by (auto simp: l split: option.splits)
  from l0 have plain: "vl_resale_account l0 = None" "vl_internal_use_account l0 = None"
    by (auto simp: source_bill_line_def ebind_Inr_iff split: option.splits)
  show "case (resale, internal_use) of
       (Some a, _) \<Rightarrow> vl_product_id l = Some (ra_product_id a) \<and> vl_account_id l = Some (ra_account_id a)
     | (None, Some a) \<Rightarrow> vl_product_id l = Some (ia_product_id a) \<and> vl_account_id l = Some (ia_account_id a)
     | (None, None) \<Rightarrow> vl_account_id l = None"
    using valid source(3) plain
    by (auto simp: l valid_by_def vendor_bill_line_checks_def pinned_id_checks_def split: option.splits)
qed

lemma ordinary_line_faithful:
  assumes "ordinary_mode_errors v = Inr []" "\<not> operating_expense_mode (vi_invoice v) (vi_operating_expense_match v)"
    and "vi_fixed_asset_accounting v = None" "ordinary_bill_line v line = Inr l"
  shows "carries_source v line l \<and> proper_target v line l"
proof -
  note valid = ordinary_valid [OF assms(1)]
  have only: "account_only_lines v = vi_account_only_line_numbers v" using assms(2) by (simp add: account_only_lines_def)
  let ?resolved = "resolved_account_only_account_ids (vi_account_only_line_numbers v) (vi_account_only_expense_match v)
    (vi_explicit_account_only_accounts v)"
  obtain taxes where taxes: "validated_tax_results (vi_tax_match v) = (taxes, [])" using valid(4) by (metis prod.collapse)
  obtain products where products: "validated_product_results (vi_product_match v) (vi_account_only_line_numbers v) = (products, [])"
    using valid(3) assms(2) by (metis ordinary_products_def only prod.collapse)
  show ?thesis
  proof (cases "Option.bind (ln_line_number line) ?resolved")
    case (Some a)
    then obtain n where n: "ln_line_number line = Some n" "?resolved n = Some a" by (auto simp: Option.bind_eq_Some_conv)
    then have mem: "n \<in> set (vi_account_only_line_numbers v)" by (simp add: resolved_account_only_account_ids_def split: if_split_asm)
    then have "\<not> is_product_source_supplier (vi_invoice v)"
      using valid(1) by (auto simp: mode_errors_def Let_def split: if_split_asm)
    moreover from assms(4) Some have "expense_bill_line line a (tax_ids_by_line (vi_tax_match v)) (vi_monetary_precision v) = Inr l"
      by (simp add: ordinary_bill_line_def)
    ultimately show ?thesis
      using expense_bill_line_Inr [OF _ taxes, of line a l] n mem assms(3)
      by (auto simp: proper_target_def account_decided_def)
  next
    case None
    let ?pin = "\<lambda>accounts. Option.bind (ln_line_number line) (map_of (case accounts of None \<Rightarrow> [] | Some as \<Rightarrow> as))"
    from None assms(4) obtain x where x: "product_results_by_line (vi_product_match v) (ln_line_number line) = Some x"
        and built: "bill_line_of line x (tax_ids_by_line (vi_tax_match v)) (vi_monetary_precision v)
          (?pin (vi_validated_resale_accounts v)) (?pin (vi_validated_internal_use_accounts v)) = Inr l"
      by (auto simp: ordinary_bill_line_def split: option.splits)
    have "ln_line_number line \<notin> Some ` set (vi_account_only_line_numbers v)"
      using None valid(5) by (auto simp: only list_all_iff)
    then obtain p where p: "has_product v line p" "dm_product_id x = Some p"
      using product_of_line [OF products x] by (auto simp: has_product_def matched_product_def)
    note line = bill_line_of_Inr [OF built taxes]
    have "sealed_pin v line p a" if "vl_account_id l = Some a" for a
    proof (cases "?pin (vi_validated_resale_accounts v)")
      case (Some r)
      then obtain n accounts where n: "ln_line_number line = Some n" "vi_validated_resale_accounts v = Some accounts" "(n, r) \<in> set accounts"
        by (auto simp: Option.bind_eq_Some_conv split: option.splits dest: map_of_SomeD)
      with resale_pin_sealed [OF valid(6) n(3)] line(2,4) p(2) that Some show ?thesis by (auto simp: sealed_pin_def)
    next
      case no_resale: None
      with line(4) that obtain r where r: "?pin (vi_validated_internal_use_accounts v) = Some r" by (auto split: option.splits)
      then obtain n accounts where n: "ln_line_number line = Some n" "vi_validated_internal_use_accounts v = Some accounts" "(n, r) \<in> set accounts"
        by (auto simp: Option.bind_eq_Some_conv split: option.splits dest: map_of_SomeD)
      with internal_use_pin_sealed [OF valid(7) n(3)] line(2,4) p(2) that r no_resale show ?thesis by (auto simp: sealed_pin_def)
    qed
    with line p show ?thesis by (auto simp: proper_target_def split: option.splits)
  qed
qed

lemma invoice_lines_faithful:
  assumes "validate_vendor_bill_inputs v = Inr []" "invoice_bill_lines v = Inr ls"
  shows "list_all2 (\<lambda>line l. carries_source v line l \<and> proper_target v line l) (iv_lines (vi_invoice v)) ls"
proof (cases "vi_fixed_asset_accounting v")
  case (Some f)
  with assms(1) have "fixed_asset_mode_errors v = Inr []"
    by (auto simp: validate_vendor_bill_inputs_def split: option.splits if_split_asm)
  note valid = fixed_asset_valid [OF this]
  obtain taxes where taxes: "validated_tax_results (vi_tax_match v) = (taxes, [])" using valid(2) by (metis prod.collapse)
  from assms(2) Some have "list_all2 (\<lambda>line l. fixed_asset_bill_line line f (tax_ids_by_line (vi_tax_match v)) (vi_monetary_precision v) = Inr l)
      (iv_lines (vi_invoice v)) ls" by (simp add: invoice_bill_lines_def emap_Inr_nth)
  then show ?thesis
    by (rule list.rel_mono_strong)
      (use expense_bill_line_Inr [OF _ taxes] Some valid(1) in
        \<open>fastforce simp: fixed_asset_bill_line_def ebind_Inr_iff mk_checked_Inr_iff proper_target_def account_decided_def\<close>)
next
  case None
  with assms(1) have mode: "ordinary_mode_errors v = Inr []"
    by (auto simp: validate_vendor_bill_inputs_def split: option.splits if_split_asm)
  note valid = ordinary_valid [OF mode]
  obtain taxes where taxes: "validated_tax_results (vi_tax_match v) = (taxes, [])" using valid(4) by (metis prod.collapse)
  show ?thesis
  proof (cases "operating_expense_mode (vi_invoice v) (vi_operating_expense_match v)")
    case True
    then obtain m a where m: "vi_operating_expense_match v = Some m" "ex_status m = MATCHED" "ex_expense_account_id m = Some a"
        "invoice_is_product_identifier_free (vi_invoice v)"
      by (auto simp: operating_expense_mode_def positive_id_def split: option.splits)
    then have "is_product_source_supplier (vi_invoice v) \<longrightarrow> ex_matched_by m = Some MATCHED_BY_REVIEW_ACCOUNTING_RESOLUTION"
      using valid(1) by (auto simp: mode_errors_def Let_def invoice_is_ambiguous_commercial_purchase_def split: if_split_asm)
    with m None have decided: "account_decided v line a None" for line by (auto simp: account_decided_def)
    from assms(2) None True m have "list_all2 (\<lambda>line l. expense_bill_line line a (tax_ids_by_line (vi_tax_match v)) (vi_monetary_precision v) = Inr l)
        (iv_lines (vi_invoice v)) ls" by (simp add: invoice_bill_lines_def emap_Inr_nth)
    then show ?thesis
      by (rule list.rel_mono_strong) (use expense_bill_line_Inr [OF _ taxes] decided in \<open>fastforce simp: proper_target_def\<close>)
  next
    case False
    with assms(2) None have "list_all2 (\<lambda>line l. ordinary_bill_line v line = Inr l) (iv_lines (vi_invoice v)) ls"
      by (simp add: invoice_bill_lines_def emap_Inr_nth)
    then show ?thesis by (rule list.rel_mono_strong) (rule ordinary_line_faithful [OF mode False None])
  qed
qed

lemma built_from_valid:
  assumes "build_vendor_bill v = Inr bill"
  shows "validate_vendor_bill_inputs v = Inr []" "invoice_bill_lines v = Inr (vb_invoice_lines bill)"
    "pm_partner_id (vi_partner_match v) = Some (vb_supplier_id bill)" "vb_invoice_date bill = hd_issue_date (iv_header (vi_invoice v))"
  using assms
  by (auto simp: build_vendor_bill_def ebind_Inr_iff bill_money_def is_valid_def Let_def split: sum.splits if_split_asm option.splits)

lemma valid_header: "validate_vendor_bill_inputs v = Inr [] \<Longrightarrow>
    return_invoice_type_code (vi_invoice v) = None \<and> header_errors (vi_invoice v) (vi_partner_match v) = []"
  using fixed_asset_valid(3) [of v] ordinary_valid(2) [of v]
  by (auto simp: validate_vendor_bill_inputs_def split: option.splits if_split_asm)

text \<open>
  C7. A bill that is built says what its source says. It is never built from a return document, its supplier
  is the matched partner, it is dated, and its lines correspond to the lines of the invoice one to one and in
  order. A line carries the quantity and the text of its source line, the price that the line's net amount
  determines, and for every tax of the source line, in order, the tax of the one matched result for it. It names
  the one matched product of its line, or an account without a product that the fixed asset, the expense mapping of
  an invoice free of product identifiers or a decision for that line gives. An account next to a product
  is always one that was sealed for exactly this line and product.
\<close>

theorem built_bill_is_faithful:
  assumes "build_vendor_bill v = Inr bill"
  shows "return_invoice_type_code (vi_invoice v) = None
    \<and> pm_status (vi_partner_match v) = MATCHED \<and> pm_partner_id (vi_partner_match v) = Some (vb_supplier_id bill)
    \<and> vb_invoice_date bill \<noteq> None \<and> vb_invoice_lines bill \<noteq> []
    \<and> list_all2 (\<lambda>line l. carries_source v line l \<and> proper_target v line l) (iv_lines (vi_invoice v)) (vb_invoice_lines bill)"
proof -
  note built = built_from_valid [OF assms]
  have lines: "list_all2 (\<lambda>line l. carries_source v line l \<and> proper_target v line l) (iv_lines (vi_invoice v)) (vb_invoice_lines bill)"
    by (rule invoice_lines_faithful [OF built(1,2)])
  then have "vb_invoice_lines bill = [] \<longleftrightarrow> iv_lines (vi_invoice v) = []" by (metis list_all2_Nil list_all2_Nil2)
  with valid_header [OF built(1)] built(3,4) lines show ?thesis by (auto simp: header_errors_def split: if_split_asm)
qed

section \<open>The payload says what the bill says\<close>

text \<open>The values that the ERP gets for a line.\<close>

definition line_fields :: "(int \<times> int) list \<Rightarrow> vendor_bill_line \<Rightarrow> string \<rightharpoonup> odoo_value" where
  "line_fields uoms l = Map.empty
     (''product_id'' := map_option OInt (vl_product_id l),
      ''product_uom_id'' := Option.bind (vl_product_id l) (\<lambda>i. map_option OInt (map_of uoms i)),
      ''account_id'' := map_option OInt (vl_account_id l),
      ''depreciation_model_id'' := map_option OInt (vl_depreciation_model_id l),
      ''quantity'' \<mapsto> OText (decimal_text (vl_quantity l)),
      ''price_unit'' \<mapsto> OText (decimal_text (vl_unit_price l)),
      ''tax_ids'' \<mapsto> OReplaceIds (vl_tax_ids l),
      ''name'' := map_option OText (vl_description l))"

lemma map_of_present:
  "distinct (map fst kvs) \<Longrightarrow> map_of (present kvs) = (\<lambda>k. Option.bind (map_of kvs k) (\<lambda>v. v))"
proof (induction kvs)
  case (Cons kv kvs)
  obtain k v where kv: "kv = (k, v)" by (cases kv)
  have "map_of kvs k = None" using Cons.prems by (simp add: kv map_of_eq_None_iff)
  moreover have "map_of (present (kv # kvs)) = (case v of None \<Rightarrow> map_of (present kvs) | Some x \<Rightarrow> (map_of (present kvs))(k \<mapsto> x))"
    by (auto simp: present_def kv split: option.splits)
  ultimately show ?case using Cons by (auto simp: kv fun_eq_iff split: option.splits)
qed (simp add: present_def)

lemma present_fresh: "k \<notin> set (map fst kvs) \<Longrightarrow> map_of (present kvs @ [(k, v)]) = (map_of (present kvs))(k \<mapsto> v)"
proof -
  assume "k \<notin> set (map fst kvs)"
  then have "map_of (present kvs) k = None" by (force simp: present_def map_of_eq_None_iff)
  then show ?thesis by (auto simp: map_add_def fun_eq_iff split: option.splits)
qed

lemma product_payload_fields:
  assumes "product_line_payload l uoms = Inr q" "vl_depreciation_model_id l = None"
  shows "map_of q = (line_fields uoms l)(''account_id'' := None)" "map_of (q @ [(''account_id'', OInt a)]) = (line_fields uoms l)(''account_id'' \<mapsto> OInt a)"
    "\<forall>i. vl_product_id l = Some i \<longrightarrow> positive_id (map_of uoms i)"
proof -
  from assms(1) obtain i where i: "vl_product_id l = Some i" "positive_id (map_of uoms i)"
      and q: "q = present [(''product_id'', Some (OInt i)), (''quantity'', Some (OText (decimal_text (vl_quantity l)))),
         (''price_unit'', Some (OText (decimal_text (vl_unit_price l)))), (''tax_ids'', Some (OReplaceIds (vl_tax_ids l))),
         (''name'', map_option OText (vl_description l)), (''product_uom_id'', map_option OInt (map_of uoms i))]"
    by (auto simp: product_line_payload_def split: option.splits if_split_asm)
  show fields: "map_of q = (line_fields uoms l)(''account_id'' := None)"
    unfolding q by (subst map_of_present) (auto simp: line_fields_def fun_eq_iff i(1) assms(2))
  have "map_of (q @ [(''account_id'', OInt a)]) = (map_of q)(''account_id'' \<mapsto> OInt a)" unfolding q by (rule present_fresh) simp
  then show "map_of (q @ [(''account_id'', OInt a)]) = (line_fields uoms l)(''account_id'' \<mapsto> OInt a)" by (simp add: fields)
  show "\<forall>i. vl_product_id l = Some i \<longrightarrow> positive_id (map_of uoms i)" using i by simp
qed

lemma expense_payload_fields:
  assumes "vl_product_id l = None"
  shows "map_of (operating_expense_line_payload l) = (line_fields uoms l)(''depreciation_model_id'' := None)"
    and "map_of (fixed_asset_line_payload l) = line_fields uoms l"
proof -
  show fields: "map_of (operating_expense_line_payload l) = (line_fields uoms l)(''depreciation_model_id'' := None)"
    unfolding operating_expense_line_payload_def by (subst map_of_present) (auto simp: line_fields_def fun_eq_iff assms)
  have "map_of (operating_expense_line_payload l @ [(''depreciation_model_id'', OInt d)])
      = (map_of (operating_expense_line_payload l))(''depreciation_model_id'' \<mapsto> OInt d)" for d
    unfolding operating_expense_line_payload_def by (rule present_fresh) simp
  then show "map_of (fixed_asset_line_payload l) = line_fields uoms l"
    by (cases "vl_depreciation_model_id l") (simp_all add: fixed_asset_line_payload_def fields, simp_all add: line_fields_def fun_eq_iff)
qed

lemma fields_same: "line_fields uoms l k = v \<Longrightarrow> (line_fields uoms l)(k := v) = line_fields uoms l"
  by auto

lemma line_payload_says_line:
  assumes valid: "valid_by vendor_bill_line_checks l" and q: "line_payload l uoms = Inr q"
  shows "map_of q = line_fields uoms l \<and> (\<forall>i. vl_product_id l = Some i \<longrightarrow> positive_id (map_of uoms i))"
proof -
  have account: "line_fields uoms l ''account_id'' = map_option OInt (vl_account_id l)"
    and model: "line_fields uoms l ''depreciation_model_id'' = map_option OInt (vl_depreciation_model_id l)"
    by (simp_all add: line_fields_def)
  consider (resale) r where "vl_resale_account l = Some r" "vl_internal_use_account l = None" "vl_depreciation_model_id l = None"
      "vl_account_id l = Some (ra_account_id r)"
    | (internal_use) r where "vl_resale_account l = None" "vl_internal_use_account l = Some r" "vl_depreciation_model_id l = None"
      "vl_account_id l = Some (ia_account_id r)"
    | (account) a where "vl_resale_account l = None" "vl_internal_use_account l = None" "vl_product_id l = None" "vl_account_id l = Some a"
    | (product) "vl_resale_account l = None" "vl_internal_use_account l = None" "vl_depreciation_model_id l = None" "vl_account_id l = None"
    using valid
    by (cases "vl_resale_account l"; cases "vl_internal_use_account l"; cases "vl_depreciation_model_id l"; cases "vl_account_id l")
       (auto simp: valid_by_def vendor_bill_line_checks_def depreciation_checks_def)
  then show ?thesis
  proof cases
    case resale
    with q obtain q0 where "product_line_payload l uoms = Inr q0" "q = q0 @ [(''account_id'', OInt (ra_account_id r))]"
      by (auto simp: line_payload_def resale_product_line_payload_def ebind_Inr_iff)
    then show ?thesis using product_payload_fields(2,3) [OF _ resale(3)] resale account by (metis fields_same option.map(2))
  next
    case internal_use
    with q obtain q0 where "product_line_payload l uoms = Inr q0" "q = q0 @ [(''account_id'', OInt (ia_account_id r))]"
      by (auto simp: line_payload_def internal_use_product_line_payload_def ebind_Inr_iff)
    then show ?thesis using product_payload_fields(2,3) [OF _ internal_use(3)] internal_use account by (metis fields_same option.map(2))
  next
    case account
    with q have "q = (if vl_depreciation_model_id l = None then operating_expense_line_payload l else fixed_asset_line_payload l)"
      by (auto simp: line_payload_def split: if_split_asm)
    then show ?thesis using expense_payload_fields [OF account(3), of uoms] account(3) model by (auto simp: fun_upd_idem_iff)
  next
    case product
    with q have "product_line_payload l uoms = Inr q" by (simp add: line_payload_def)
    then show ?thesis using product_payload_fields(1,3) [OF _ product(3)] product account by (metis fields_same option.map(1))
  qed
qed

text \<open>The lines of a built bill passed the checks of their constructor.\<close>

lemma emap_all: "emap g xs = Inr ys \<Longrightarrow> (\<And>x y. g x = Inr y \<Longrightarrow> P y) \<Longrightarrow> list_all P ys"
  by (auto simp: emap_Inr_nth list_all2_conv_all_nth list_all_length)

lemma built_line_valid:
  "expense_bill_line line a tax_ids pr = Inr l \<Longrightarrow> valid_by vendor_bill_line_checks l"
  "fixed_asset_bill_line line f tax_ids pr = Inr l \<Longrightarrow> valid_by vendor_bill_line_checks l"
  "ordinary_bill_line v line = Inr l \<Longrightarrow> valid_by vendor_bill_line_checks l"
  by (auto simp: expense_bill_line_def fixed_asset_bill_line_def ordinary_bill_line_def bill_line_of_def Let_def ebind_Inr_iff
      mk_checked_Inr_iff split: option.splits if_split_asm)

lemma built_lines_valid:
  assumes "invoice_bill_lines v = Inr ls"
  shows "list_all (valid_by vendor_bill_line_checks) ls"
  using assms unfolding invoice_bill_lines_def Let_def
  by (auto split: option.splits if_split_asm elim!: emap_all dest: built_line_valid)

text \<open>
  C13. The payload for the ERP says what the bill says and nothing else: it is a draft supplier invoice of the
  supplier of the bill, and for every line, in order, the ERP gets exactly the product, account, depreciation
  model, taxes, text and the exact decimal quantity and price of that line, with the unit of measure that was
  resolved for the product. A line with an account next to a product therefore posts to that account.
\<close>

theorem payload_says_bill:
  assumes "build_vendor_bill v = Inr bill" "to_odoo_account_move_payload bill currency_id uoms = Inr q"
  shows "map_of q ''move_type'' = Some (OText ''in_invoice'') \<and> map_of q ''partner_id'' = Some (OInt (vb_supplier_id bill))
    \<and> map_of q ''currency_id'' = Some (OInt currency_id) \<and> 0 < currency_id
    \<and> (\<exists>ls. map_of q ''invoice_line_ids'' = Some (OCreateLines ls)
        \<and> list_all2 (\<lambda>l f. map_of f = line_fields uoms l \<and> (\<forall>i. vl_product_id l = Some i \<longrightarrow> positive_id (map_of uoms i)))
            (vb_invoice_lines bill) ls)"
proof -
  from assms(2) obtain ls r where ls: "emap (\<lambda>l. line_payload l uoms) (vb_invoice_lines bill) = Inr ls" and positive: "0 < currency_id"
      and q: "q = present [(''move_type'', Some (OText ''in_invoice'')), (''partner_id'', Some (OInt (vb_supplier_id bill))),
          (''invoice_date'', Some (OText (date_text (vb_invoice_date bill)))), (''ref'', map_option OText (vb_reference bill)),
          (''currency_id'', Some (OInt currency_id)), (''invoice_line_ids'', Some (OCreateLines ls)),
          (''company_id'', map_option OInt (vb_company_id bill)),
          (''narration'', if vb_notes bill = [] then None else Some (OText (str_join newline (vb_notes bill)))),
          (''invoice_currency_rate'', r)]"
    by (auto simp: to_odoo_account_move_payload_def ebind_Inr_iff split: if_split_asm)
  have valid: "list_all (valid_by vendor_bill_line_checks) (vb_invoice_lines bill)"
    by (rule built_lines_valid [OF built_from_valid(2) [OF assms(1)]])
  have "list_all2 (\<lambda>l f. map_of f = line_fields uoms l \<and> (\<forall>i. vl_product_id l = Some i \<longrightarrow> positive_id (map_of uoms i))) (vb_invoice_lines bill) ls"
    using ls [unfolded emap_Inr_nth]
    by (rule list.rel_mono_strong) (use valid in \<open>auto simp: list_all_iff intro!: line_payload_says_line\<close>)
  then show ?thesis using positive unfolding q by (simp add: map_of_present)
qed

section \<open>The shapes of a line\<close>

text \<open>
  C16. The constructor of a bill line accepts exactly five shapes: a product; an account; an account with the
  depreciation model of a fixed asset; a product with the account of a sealed resale pin; and a product with the
  account of a sealed internal-use pin. In particular no line joins a product and an account that nothing
  validated, whoever builds it.
\<close>

theorem bill_line_shapes:
  "valid_by vendor_bill_line_checks l \<longleftrightarrow>
     (case (vl_resale_account l, vl_internal_use_account l) of
        (None, None) \<Rightarrow>
          positive_id (vl_product_id l) \<and> vl_account_id l = None \<and> vl_depreciation_model_id l = None
          \<or> vl_product_id l = None \<and> positive_id (vl_account_id l) \<and> (vl_depreciation_model_id l = None \<or> positive_id (vl_depreciation_model_id l))
      | (Some r, None) \<Rightarrow>
          ra_sealed r \<and> 0 < ra_product_id r \<and> 0 < ra_account_id r \<and> vl_product_id l = Some (ra_product_id r)
          \<and> vl_account_id l = Some (ra_account_id r) \<and> vl_depreciation_model_id l = None
      | (None, Some i) \<Rightarrow>
          ia_sealed i \<and> 0 < ia_product_id i \<and> 0 < ia_account_id i \<and> vl_product_id l = Some (ia_product_id i)
          \<and> vl_account_id l = Some (ia_account_id i) \<and> vl_depreciation_model_id l = None
      | (Some _, Some _) \<Rightarrow> False)"
  by (cases "vl_resale_account l"; cases "vl_internal_use_account l"; cases "vl_depreciation_model_id l")
     (auto simp: valid_by_def vendor_bill_line_checks_def depreciation_checks_def pinned_id_checks_def positive_id_def split: option.splits)

section \<open>A sample bill\<close>

definition sample_line :: invoice_line where
  "sample_line = \<lparr>ln_line_number = Some ''1'', ln_description = Some ''LICENSE'', ln_description_source = None, ln_seller_item_code = Some ''S1'',
     ln_buyer_item_code = None, ln_barcode = None, ln_manufacturer_item_code = None, ln_commodity_classification = None,
     ln_quantity = Some (Dec False 2 0), ln_unit_code = None, ln_unit_price = Some (Dec False 35 (-1)),
     ln_line_extension_amount = Some (Dec False 7 0), ln_discounts = [],
     ln_taxes = [\<lparr>it_tax_type = Some ''KDV'', it_rate = Some (Dec False 20 0), it_base_amount = None, it_tax_amount = Some (Dec False 14 (-1)),
       it_exemption_reason = None\<rparr>]\<rparr>"

definition sample_party :: party where
  "sample_party = \<lparr>py_name = None, py_tax_number = None, py_tax_office = None, py_mersis_number = None, py_website = None, py_emails = [],
     py_phones = [], py_addresses = []\<rparr>"

definition sample_invoice :: internal_invoice where
  "sample_invoice = \<lparr>iv_header = \<lparr>hd_invoice_number = ''A1'', hd_invoice_uuid = ''U1'', hd_ettn = None, hd_invoice_type = Some ''SATIS'',
       hd_profile_id = None, hd_issue_date = Some (2026, 1, 2), hd_issue_time = None, hd_currency_code = Some ''USD'', hd_exchange_rate = None,
       hd_notes = []\<rparr>,
     iv_supplier = sample_party, iv_customer = sample_party,
     iv_totals = \<lparr>mt_line_extension_amount = None, mt_tax_exclusive_amount = Some (Dec False 7 0),
       mt_tax_inclusive_amount = Some (Dec False 84 (-1)), mt_allowance_total = None, mt_charge_total = None, mt_payable_amount = None,
       mt_rounding_amount = None\<rparr>,
     iv_lines = [sample_line], iv_attachments = []\<rparr>"

definition sample_inputs :: bill_inputs where
  "sample_inputs = \<lparr>vi_invoice = sample_invoice,
     vi_partner_match = \<lparr>pm_status = MATCHED, pm_partner_id = Some 7, pm_matched_by = None, pm_reason = [], pm_candidate_count = 1, pm_confidence = None\<rparr>,
     vi_product_match = \<lparr>im_line_results = [\<lparr>lm_line_number = Some ''1'', lm_result = \<lparr>dm_status = MATCHED, dm_line_number = Some ''1'',
       dm_product_id = Some 5, dm_default_code = None, dm_barcode = None, dm_seller_item_code = None, dm_matched_by = None, dm_reason = [],
       dm_candidate_count = 1, dm_confidence = None\<rparr>\<rparr>], im_warnings = [], im_errors = []\<rparr>,
     vi_tax_match = \<lparr>tm_line_results = [\<lparr>tl_line_number = Some ''1'', tl_tax_index = 0, tl_result = \<lparr>tr_status = TX_MATCHED, tr_tax_id = Some 9,
       tr_company_id = None, tr_tax_type = Some TT_VAT, tr_tax_rate = None, tr_matched_by = None, tr_confidence = None, tr_reason = [],
       tr_candidate_count = 1\<rparr>\<rparr>], tm_warnings = [], tm_errors = []\<rparr>,
     vi_company_id = Some 1, vi_operating_expense_match = None, vi_account_only_line_numbers = [], vi_account_only_expense_match = None,
     vi_explicit_account_only_accounts = None,
     vi_validated_resale_accounts = Some [(''1'', \<lparr>ra_line_number = ''1'', ra_product_id = 5, ra_account_id = 600, ra_sealed = True\<rparr>)],
     vi_monetary_precision = Some \<lparr>mp_decimal_places = 2\<rparr>, vi_fixed_asset_accounting = None, vi_validated_internal_use_accounts = None\<rparr>"

definition sample_bill_line :: vendor_bill_line where
  "sample_bill_line = \<lparr>vl_product_id = Some 5, vl_quantity = Dec False 2 0, vl_unit_price = Dec False 35 (-1), vl_tax_ids = [9],
     vl_description = Some ''LICENSE'', vl_account_id = Some 600,
     vl_resale_account = Some \<lparr>ra_line_number = ''1'', ra_product_id = 5, ra_account_id = 600, ra_sealed = True\<rparr>,
     vl_depreciation_model_id = None, vl_internal_use_account = None\<rparr>"

definition sample_bill :: vendor_bill where
  "sample_bill = \<lparr>vb_supplier_id = 7, vb_invoice_number = ''A1'', vb_invoice_date = Some (2026, 1, 2), vb_currency = ''USD'',
     vb_external_uuid = Some ''U1'', vb_reference = Some ''A1'', vb_company_id = Some 1, vb_invoice_lines = [sample_bill_line], vb_notes = [],
     vb_company_currency_rate = None\<rparr>"

lemma sample_built: "build_vendor_bill sample_inputs = Inr sample_bill"
  by code_simp

theorem built_bill_is_faithful_witness:
  "build_vendor_bill sample_inputs = Inr sample_bill \<and> carries_source sample_inputs sample_line sample_bill_line
   \<and> proper_target sample_inputs sample_line sample_bill_line"
  using built_bill_is_faithful [OF sample_built] sample_built
  by (simp add: sample_bill_def) (simp add: sample_inputs_def sample_invoice_def)

theorem payload_says_bill_witness:
  "\<exists>q ls. to_odoo_account_move_payload sample_bill 3 [(5, 1)] = Inr q \<and> map_of q ''invoice_line_ids'' = Some (OCreateLines ls)
     \<and> map_of (hd ls) ''account_id'' = Some (OInt 600) \<and> map_of (hd ls) ''price_unit'' = Some (OText ''3.5'')"
proof -
  have "\<exists>q. to_odoo_account_move_payload sample_bill 3 [(5, 1)] = Inr q"
    by (simp add: to_odoo_account_move_payload_def sample_bill_def sample_bill_line_def line_payload_def resale_product_line_payload_def
        product_line_payload_def positive_id_def)
  then obtain q where q: "to_odoo_account_move_payload sample_bill 3 [(5, 1)] = Inr q" by blast
  from payload_says_bill [OF sample_built q] obtain ls where ls: "map_of q ''invoice_line_ids'' = Some (OCreateLines ls)"
      "list_all2 (\<lambda>l f. map_of f = line_fields [(5, 1)] l \<and> (\<forall>i. vl_product_id l = Some i \<longrightarrow> positive_id (map_of [(5, 1)] i)))
        (vb_invoice_lines sample_bill) ls" by blast
  then obtain f where "ls = [f]" "map_of f = line_fields [(5, 1)] sample_bill_line"
    by (auto simp: sample_bill_def list_all2_Cons1)
  moreover have "decimal_text (Dec False 35 (-1)) = ''3.5''" by code_simp
  ultimately show ?thesis using q ls(1) by (auto simp: line_fields_def sample_bill_line_def)
qed

end
