(* ===== verification/Bill_Money.thy ===== *)
theory Bill_Money
  imports Bill_Proofs
begin

text \<open>
  The monetary gate of \<^verbatim>\<open>app/billing/builder.py\<close>: a bill without findings has, line by line and in total,
  exactly the money of its source invoice at the precision of the currency.
\<close>

section \<open>Lines\<close>

text \<open>The exact amount of a line in units of the currency, as the ERP stores it.\<close>

definition stored_units :: "monetary_precision \<Rightarrow> vendor_bill_line \<Rightarrow> int" where
  "stored_units p l = half_away (dec_val (vl_quantity l) * dec_val (vl_unit_price l) * 10 ^ nat (mp_decimal_places p))"

text \<open>Quantities and prices as invoices have them, with an amount below \<open>10 ^ 15\<close>.\<close>

definition plain_line :: "vendor_bill_line \<Rightarrow> bool" where
  "plain_line l \<longleftrightarrow> ordinary (vl_quantity l) \<and> ordinary (vl_unit_price l)
     \<and> \<bar>dec_val (vl_quantity l) * dec_val (vl_unit_price l)\<bar> < 10 ^ 15"

lemma times_ordinary:
  assumes "ordinary a" "ordinary b"
  obtains x where "dec_times a b = Some x" "dec_is_finite x" "dec_val x = dec_val a * dec_val b"
proof -
  obtain n1 c1 e1 where a: "a = Dec n1 c1 e1" "c1 < 10 ^ 14" using assms(1) by (rule ordinary_cases)
  obtain n2 c2 e2 where b: "b = Dec n2 c2 e2" "c2 < 10 ^ 14" using assms(2) by (rule ordinary_cases)
  have "c1 * c2 < 10 ^ 14 * 10 ^ 14" using a(2) b(2) by (intro mult_strict_mono) auto
  then have "dec_times a b = Some (Dec (n1 \<noteq> n2) (c1 * c2) (e1 + e2))" by (simp add: a b dec_fix_short)
  then show thesis using that by (simp add: a b dec_is_finite_def Py_Decimal.signed_def power_int_add)
qed

lemma plain_amount:
  assumes "plain_line l"
  obtains x where "dec_times (vl_quantity l) (vl_unit_price l) = Some x" "moderate x"
    "dec_val x = dec_val (vl_quantity l) * dec_val (vl_unit_price l)" "half_away (in_units x p) = stored_units p l"
proof -
  obtain x where x: "dec_times (vl_quantity l) (vl_unit_price l) = Some x" "dec_is_finite x"
      "dec_val x = dec_val (vl_quantity l) * dec_val (vl_unit_price l)"
    using times_ordinary assms by (auto simp: plain_line_def)
  moreover have "moderate x" using assms x by (simp add: moderate_def plain_line_def)
  ultimately show thesis using that by (simp add: in_units_def stored_units_def)
qed

lemma line_without_mismatch:
  assumes "bill_line_mismatch p (i, line, l) = Inr []" "plain_line l" "valid_precision p" "line_net_total line = Inr n" "moderate n"
  shows "stored_units p l = half_away (in_units n p)"
proof -
  obtain x where x: "dec_times (vl_quantity l) (vl_unit_price l) = Some x" "moderate x" "half_away (in_units x p) = stored_units p l"
    using plain_amount [OF assms(2)] by metis
  have "monetary_equal x n p = Inr True"
    using assms(1,4) monetary_equal_units [OF x(2) assms(5,3)]
    by (auto simp: bill_line_mismatch_def x(1) dec_try_def ebind_Inr_iff split: if_split_asm)
  with monetary_equal_units [OF x(2) assms(5,3)] x(3) show ?thesis by simp
qed

section \<open>Totals\<close>

lemma subtotal_grid:
  assumes "plain_line l" "valid_precision p"
  obtains r where "line_currency_subtotal (vl_quantity l) (vl_unit_price l) p = Inr r" "on_grid (10 ^ 22) r"
    "in_units r p = of_int (stored_units p l)"
proof -
  obtain x where x: "dec_times (vl_quantity l) (vl_unit_price l) = Some x" "moderate x"
      "dec_val x = dec_val (vl_quantity l) * dec_val (vl_unit_price l)" "half_away (in_units x p) = stored_units p l"
    using plain_amount [OF assms(1)] by metis
  obtain r where r: "currency_round x p = Inr r" "dec_is_finite r" "in_units r p = of_int (half_away (in_units x p))"
    using currency_round_units [OF x(2) assms(2)] .
  have "\<bar>dec_val x\<bar> < 10 ^ 15" using assms(1) x(3) by (simp add: plain_line_def)
  from rounded_grid [OF this r(2,3) assms(2)] have "on_grid (10 ^ 22) r" by simp
  with x r show thesis by (intro that) (simp_all add: line_currency_subtotal_def dec_try_def)
qed

lemma sum_list_of_int: "sum_list (map (\<lambda>x. of_int (f x)) xs) = (of_int (sum_list (map f xs)) :: rat)"
  by (induction xs) simp_all

lemma untaxed_exact:
  assumes "list_all plain_line ls" "valid_precision p" "length ls \<le> 10 ^ 4"
  obtains s where "summed (\<lambda>l. line_currency_subtotal (vl_quantity l) (vl_unit_price l) p) ls = Inr s" "moderate s"
    "in_units s p = of_int (sum_list (map (stored_units p) ls))"
proof -
  let ?f = "\<lambda>l. line_currency_subtotal (vl_quantity l) (vl_unit_price l) p"
  have "\<forall>l \<in> set ls. \<exists>r. ?f l = Inr r \<and> on_grid (10 ^ 22) r \<and> in_units r p = of_int (stored_units p l)"
    using assms(1,2) subtotal_grid by (metis list_all_iff)
  then obtain g where g: "\<And>l. l \<in> set ls \<Longrightarrow> ?f l = Inr (g l) \<and> on_grid (10 ^ 22) (g l) \<and> in_units (g l) p = of_int (stored_units p l)"
    by metis
  have map: "emap ?f ls = Inr (map g ls)" using g by (intro emap_Inr) simp
  have zero: "on_grid 1 dec_zero" by (auto simp: on_grid_def dec_zero_def dec_is_finite_def Py_Decimal.signed_def)
  have "1 + length (map g ls) * 10 ^ 22 \<le> 10 ^ 28" using assms(3) by simp
  moreover have "list_all (on_grid (10 ^ 22)) (map g ls)" using g by (simp add: list_all_iff)
  ultimately obtain s where s: "dec_total dec_zero (map g ls) = Some s" "on_grid (1 + length (map g ls) * 10 ^ 22) s"
      "dec_val s = dec_val dec_zero + sum_list (map dec_val (map g ls))"
    using dec_total_grid zero by metis
  have "sum_list (map (\<lambda>l. in_units (g l) p) ls) = sum_list (map (\<lambda>l. of_int (stored_units p l)) ls)"
    using g by (intro arg_cong [where f = sum_list] map_cong) auto
  then have "in_units s p = of_int (sum_list (map (stored_units p) ls))"
    using s(3) by (simp add: in_units_def dec_zero_def Py_Decimal.signed_def comp_def sum_list_mult_const flip: sum_list_of_int)
  moreover have "on_grid (10 ^ 27) s" using on_grid_mono [OF s(2)] assms(3) by simp
  then have "moderate s" by (auto simp: on_grid_def moderate_def)
  ultimately show thesis using that map s(1) by (simp add: summed_def dec_try_def)
qed

section \<open>The gate\<close>

lemma gate_without_findings:
  assumes "vendor_bill_monetary_errors invoice ls p = Inr []" "mt_tax_exclusive_amount (iv_totals invoice) = Some untaxed"
  obtains s where "vendor_bill_line_mismatches invoice ls p = Inr []"
    "summed (\<lambda>l. line_currency_subtotal (vl_quantity l) (vl_unit_price l) p) ls = Inr s" "monetary_equal s untaxed p = Inr True"
proof -
  from assms(1) obtain money source ms where lines: "vendor_bill_line_mismatches invoice ls p = Inr []"
      and money: "vendor_bill_money invoice ls p = Inr money" and source: "source_monetary_totals invoice = Inr source"
      and ms: "monetary_mismatches (filter (\<lambda>(_, _, expected). expected \<noteq> None)
       [(''untaxed'', Some (vm_untaxed money), so_untaxed source), (''tax'', Some (vm_tax money), so_tax source),
        (''total'', Some (vm_total money), so_total source)]) p = Inr []"
    by (auto simp: vendor_bill_monetary_errors_def ebind_Inr_iff)
  from source assms(2) have "so_untaxed source = Some untaxed" by (auto simp: source_monetary_totals_def Let_def ebind_Inr_iff split: if_split_asm)
  with ms have "monetary_equal (vm_untaxed money) untaxed p = Inr True"
    by (auto simp: ebind_Inr_iff split: if_split_asm)
  moreover from money have "summed (\<lambda>l. line_currency_subtotal (vl_quantity l) (vl_unit_price l) p) ls = Inr (vm_untaxed money)"
    by (auto simp: vendor_bill_money_def ebind_Inr_iff)
  ultimately show thesis using that lines by blast
qed


lemma sample_rate: "dec_over (Dec False 20 0) (dec_of_int 100) = Some (Dec False 2 (-1))"
  by (simp add: dec_of_int_def ndigits_def nat_str.simps strip_to.simps Let_def dec_prec_def)

lemma sample_sums:
  "vendor_bill_line_mismatches sample_invoice [sample_bill_line] \<lparr>mp_decimal_places = 2\<rparr> = Inr []"
  "source_monetary_totals sample_invoice = Inr \<lparr>so_untaxed = Some (Dec False 7 0), so_tax = Some (Dec False 14 (-1)), so_total = Some (Dec False 84 (-1))\<rparr>"
  "summed (\<lambda>l. line_currency_subtotal (vl_quantity l) (vl_unit_price l) \<lparr>mp_decimal_places = 2\<rparr>) [sample_bill_line] = Inr (Dec False 700 (-2))"
  "summed (\<lambda>l. dec_try (dec_times (vl_quantity l) (vl_unit_price l))) [sample_bill_line] = Inr (Dec False 70 (-1))"
  by code_simp+

lemma sample_money:
  "vendor_bill_money sample_invoice [sample_bill_line] \<lparr>mp_decimal_places = 2\<rparr> =
     Inr \<lparr>vm_computed_untaxed = Dec False 70 (-1), vm_untaxed = Dec False 700 (-2), vm_tax = Dec False 140 (-2), vm_total = Dec False 840 (-2)\<rparr>"
proof -
  have rates: "line_rates sample_invoice = [(sample_line, Dec False 20 0)]" and net: "line_net_total sample_line = Inr (Dec False 7 0)"
    by code_simp+
  have "summed (\<lambda>(line, rate). ebind (line_net_total line) (\<lambda>net. ebind (dec_try (dec_over rate (dec_of_int 100))) (\<lambda>r. dec_try (dec_times net r))))
      (line_rates sample_invoice) = dec_try (dec_total dec_zero [dec_fix (Dec False 14 (-1))])"
    by (simp add: summed_def rates net sample_rate dec_try_def)
  also have "\<dots> = Inr (Dec False 14 (-1))" by code_simp
  finally have tax: "summed (\<lambda>(line, rate). ebind (line_net_total line) (\<lambda>net. ebind (dec_try (dec_over rate (dec_of_int 100))) (\<lambda>r.
      dec_try (dec_times net r)))) (line_rates sample_invoice) = Inr (Dec False 14 (-1))" .
  have "currency_round (Dec False 14 (-1)) \<lparr>mp_decimal_places = 2\<rparr> = Inr (Dec False 140 (-2))"
    "dec_try (dec_plus (Dec False 700 (-2)) (Dec False 140 (-2))) = Inr (Dec False 840 (-2))" by code_simp+
  with tax sample_sums(3,4) show ?thesis by (simp add: vendor_bill_money_def)
qed

lemma sample_gate: "vendor_bill_monetary_errors sample_invoice [sample_bill_line] \<lparr>mp_decimal_places = 2\<rparr> = Inr []"
proof -
  have "monetary_mismatches [(''untaxed'', Some (Dec False 700 (-2)), Some (Dec False 7 0)), (''tax'', Some (Dec False 140 (-2)), Some (Dec False 14 (-1))),
      (''total'', Some (Dec False 840 (-2)), Some (Dec False 84 (-1)))] \<lparr>mp_decimal_places = 2\<rparr> = Inr []" by code_simp
  then show ?thesis by (simp add: vendor_bill_monetary_errors_def sample_sums(1,2) sample_money del: monetary_mismatches.simps)
qed


end
