(* ===== verification/Expense_Store.thy ===== *)
theory Expense_Store
  imports Expense_Mapping
begin

text \<open>
  The table of operating-expense mappings: \<^verbatim>\<open>app/persistence/operating_expense_mapping_repository.py\<close> and
  \<^verbatim>\<open>app/models/operating_expense_mapping.py\<close>, and what onboarding does on it. The table is a list of rows
  in insertion order; the key that the database gives a new row is an argument. Connection failures are
  not modelled; a violated constraint rolls the savepoint back and raises.
\<close>

section \<open>The repository\<close>

type_synonym mapping_table = "expense_mapping list"

definition table_checks :: "expense_mapping \<Rightarrow> bool" where
  "table_checks m \<longleftrightarrow> 0 < em_company_id m \<and> 0 < em_vendor_partner_id m \<and> 0 < em_expense_account_id m
     \<and> \<not> blank (em_expense_category m)"

text \<open>The partial unique index and the primary key.\<close>

definition table_unique :: "mapping_table \<Rightarrow> bool" where
  "table_unique t \<longleftrightarrow> distinct (map em_id t)
     \<and> distinct (map (\<lambda>m. (em_company_id m, em_vendor_partner_id m)) (filter em_enabled t))"

definition mapping_constraints :: "mapping_table \<Rightarrow> bool" where
  "mapping_constraints t \<longleftrightarrow> list_all table_checks t \<and> table_unique t"

definition mapping_from_record :: "expense_mapping \<Rightarrow> (expense_error, expense_mapping) result" where
  "mapping_from_record m = mk_checked expense_mapping_checks m"

definition require_positive :: "int \<Rightarrow> string \<Rightarrow> expense_error check" where
  "require_positive i name = (i \<le> 0, OperatingExpenseMappingError (name @ '' must be a positive integer.''))"

definition enabled_rows :: "mapping_table \<Rightarrow> int \<Rightarrow> int \<Rightarrow> expense_mapping list" where
  "enabled_rows t company_id vendor_partner_id =
     filter (\<lambda>m. em_company_id m = company_id \<and> em_vendor_partner_id m = vendor_partner_id \<and> em_enabled m) t"

definition find_for_supplier :: "int \<Rightarrow> int \<Rightarrow> (mapping_table, expense_error, expense_mapping option) action" where
  "find_for_supplier company_id vendor_partner_id t =
     (ebind (run_checks [require_positive company_id ''company_id'', require_positive vendor_partner_id ''vendor_partner_id'']) (\<lambda>_.
      case enabled_rows t company_id vendor_partner_id of
        [] \<Rightarrow> Inr None
      | [m] \<Rightarrow> ebind (mapping_from_record m) (\<lambda>x. Inr (Some x))
      | _ \<Rightarrow> Inl (OperatingExpenseMappingDataIntegrityError ''More than one enabled operating expense mapping exists for the supplier.'')), t)"

definition create_mapping ::
    "(mapping_table \<Rightarrow> int) \<Rightarrow> int \<Rightarrow> int \<Rightarrow> int \<Rightarrow> string \<Rightarrow> bool \<Rightarrow> (mapping_table, expense_error, expense_mapping) action" where
  "create_mapping new_key company_id vendor_partner_id expense_account_id expense_category enabled t =
     (let category = py_strip expense_category;
          row = \<lparr>em_id = new_key t, em_company_id = company_id, em_vendor_partner_id = vendor_partner_id,
            em_expense_account_id = expense_account_id, em_expense_category = category, em_enabled = enabled\<rparr> in
      case run_checks [require_positive company_id ''company_id'', require_positive vendor_partner_id ''vendor_partner_id'',
          require_positive expense_account_id ''expense_account_id'',
          (\<not> matches_category category,
           OperatingExpenseMappingContractError ''expense_category must be a short uppercase code matching ^[A-Z][A-Z0-9_]{0,63}$.'')] of
        Inl e \<Rightarrow> (Inl e, t)
      | Inr _ \<Rightarrow>
          if \<not> mapping_constraints (t @ [row])
          then (Inl (OperatingExpenseMappingDataIntegrityError ''An enabled operating expense mapping already exists for this supplier.''), t)
          else (mapping_from_record row, t @ [row]))"

definition sql_mapping_store :: "(mapping_table \<Rightarrow> int) \<Rightarrow> mapping_table mapping_store" where
  "sql_mapping_store new_key = \<lparr>ms_find_for_supplier = find_for_supplier, ms_create = create_mapping new_key\<rparr>"

section \<open>The interface of onboarding\<close>

text \<open>Commands that pass the checks, and the row that a command asks for.\<close>

definition acceptable :: "onboard_command \<Rightarrow> bool" where
  "acceptable c \<longleftrightarrow> list_all (\<lambda>x. \<not> fst x) (onboard_checks c)"

definition asks_for :: "onboard_command \<Rightarrow> expense_mapping \<Rightarrow> bool" where
  "asks_for c m \<longleftrightarrow> em_company_id m = ob_company c \<and> em_vendor_partner_id m = ob_vendor_partner c
     \<and> em_expense_account_id m = ob_expense_account c \<and> em_expense_category m = py_strip (ob_expense_category c)
     \<and> em_enabled m = ob_enabled c"

text \<open>A store that shows at most one enabled mapping for a supplier and keeps what it is given.\<close>

locale supplier_mappings =
  fixes store :: "'s mapping_store"
    and active :: "'s \<Rightarrow> int \<Rightarrow> int \<Rightarrow> expense_mapping option"
    and invar :: "'s \<Rightarrow> bool"
  assumes find_active: "invar s \<Longrightarrow> acceptable c \<Longrightarrow>
      ms_find_for_supplier store (ob_company c) (ob_vendor_partner c) s = (Inr (active s (ob_company c) (ob_vendor_partner c)), s)"
    and create_row: "invar s \<Longrightarrow> acceptable c \<Longrightarrow> active s (ob_company c) (ob_vendor_partner c) = None \<Longrightarrow>
      \<exists>m s'. ms_create store (ob_company c) (ob_vendor_partner c) (ob_expense_account c) (py_strip (ob_expense_category c)) (ob_enabled c) s
          = (Inr m, s') \<and> invar s' \<and> asks_for c m
        \<and> active s' (ob_company c) (ob_vendor_partner c) = (if ob_enabled c then Some m else None)
        \<and> (\<forall>i j. (i, j) \<noteq> (ob_company c, ob_vendor_partner c) \<longrightarrow> active s' i j = active s i j)"
    and active_supplier: "invar s \<Longrightarrow> active s i j = Some m \<Longrightarrow> em_company_id m = i \<and> em_vendor_partner_id m = j"
begin

lemma onboard_unknown:
  assumes "invar s" "acceptable c" "active s (ob_company c) (ob_vendor_partner c) = None"
  obtains m s' where "onboard_mapping store c s = (Inr (OO_CREATED, m), s')" "invar s'" "asks_for c m"
    "active s' (ob_company c) (ob_vendor_partner c) = (if ob_enabled c then Some m else None)"
    "\<And>i j. (i, j) \<noteq> (ob_company c, ob_vendor_partner c) \<Longrightarrow> active s' i j = active s i j"
proof -
  have "run_checks (onboard_checks c) = Inr ()" using assms(2) by (simp add: acceptable_def run_checks_ok)
  with create_row [OF assms] find_active [OF assms(1,2)] assms(3) show thesis
    using that by (auto simp: onboard_mapping_def act_bind_def Let_def)
qed

lemma onboard_known:
  assumes "invar s" "acceptable c" "active s (ob_company c) (ob_vendor_partner c) = Some m"
  shows "onboard_mapping store c s =
    (if asks_for c m then Inr (OO_ALREADY_CONFIGURED, m)
     else Inl (OperatingExpenseMappingConflictError
       ''An enabled operating-expense mapping with different accounting values already exists for this supplier; change it through a separate administrative action.''), s)"
proof -
  have "run_checks (onboard_checks c) = Inr ()" using assms(2) by (simp add: acceptable_def run_checks_ok)
  moreover have "asks_for c m \<longleftrightarrow> em_expense_account_id m = ob_expense_account c
      \<and> em_expense_category m = py_strip (ob_expense_category c) \<and> em_enabled m = ob_enabled c"
    using active_supplier [OF assms(1,3)] by (auto simp: asks_for_def)
  ultimately show ?thesis using find_active [OF assms(1,2)] assms(3) by (simp add: onboard_mapping_def act_bind_def Let_def)
qed

lemma onboarding_settles:
  assumes "invar s" "acceptable c" "onboard_mapping store c s = (r, s')"
  shows "invar s'" "\<forall>i j. (i, j) \<noteq> (ob_company c, ob_vendor_partner c) \<longrightarrow> active s' i j = active s i j"
    "\<And>e. r = Inl e \<Longrightarrow> s' = s"
    "ob_enabled c \<Longrightarrow> r = Inr (x, m) \<Longrightarrow>
       asks_for c m \<and> active s' (ob_company c) (ob_vendor_partner c) = Some m \<and> onboard_mapping store c s' = (Inr (OO_ALREADY_CONFIGURED, m), s')"
proof -
  have "invar s' \<and> (\<forall>i j. (i, j) \<noteq> (ob_company c, ob_vendor_partner c) \<longrightarrow> active s' i j = active s i j) \<and> (\<forall>e. r = Inl e \<longrightarrow> s' = s)
    \<and> (\<forall>x m. ob_enabled c \<longrightarrow> r = Inr (x, m) \<longrightarrow> asks_for c m \<and> active s' (ob_company c) (ob_vendor_partner c) = Some m)"
  proof (cases "active s (ob_company c) (ob_vendor_partner c)")
    case None
    from onboard_unknown [OF assms(1,2) None] obtain m0 s0 where "onboard_mapping store c s = (Inr (OO_CREATED, m0), s0)" "invar s0" "asks_for c m0"
      "active s0 (ob_company c) (ob_vendor_partner c) = (if ob_enabled c then Some m0 else None)"
      "\<And>i j. (i, j) \<noteq> (ob_company c, ob_vendor_partner c) \<Longrightarrow> active s0 i j = active s i j" by metis
    then show ?thesis using assms(3) by auto
  next
    case (Some m0)
    then show ?thesis using onboard_known [OF assms(1,2) Some] assms by (auto split: if_split_asm)
  qed
  then show "invar s'" "\<forall>i j. (i, j) \<noteq> (ob_company c, ob_vendor_partner c) \<longrightarrow> active s' i j = active s i j" "\<And>e. r = Inl e \<Longrightarrow> s' = s"
    "ob_enabled c \<Longrightarrow> r = Inr (x, m) \<Longrightarrow>
       asks_for c m \<and> active s' (ob_company c) (ob_vendor_partner c) = Some m \<and> onboard_mapping store c s' = (Inr (OO_ALREADY_CONFIGURED, m), s')"
    using onboard_known [OF _ assms(2), of s' m] by auto
qed

end

section \<open>The table provides it\<close>

definition sound_table :: "mapping_table \<Rightarrow> bool" where
  "sound_table t \<longleftrightarrow> mapping_constraints t \<and> list_all (valid_by expense_mapping_checks) t"

definition active_mapping :: "mapping_table \<Rightarrow> int \<Rightarrow> int \<Rightarrow> expense_mapping option" where
  "active_mapping t i j = (case enabled_rows t i j of [] \<Rightarrow> None | m # _ \<Rightarrow> Some m)"

text \<open>The key of a new row is positive and new.\<close>

locale key_source =
  fixes new_key :: "mapping_table \<Rightarrow> int"
  assumes key_positive: "0 < new_key t" and key_fresh: "new_key t \<notin> set (map em_id t)"

lemma acceptable_facts:
  "acceptable c \<longleftrightarrow> 0 < ob_company c \<and> 0 < ob_vendor_partner c \<and> 0 < ob_expense_account c \<and> matches_category (py_strip (ob_expense_category c))"
  by (auto simp: acceptable_def onboard_checks_def)

lemma enabled_rows_single:
  assumes "table_unique t"
  shows "enabled_rows t i j = [] \<or> (\<exists>m. enabled_rows t i j = [m])"
proof -
  let ?key = "\<lambda>m. (em_company_id m, em_vendor_partner_id m)"
  have rows: "enabled_rows t i j = filter (\<lambda>m. ?key m = (i, j)) (filter em_enabled t)"
    by (auto simp: enabled_rows_def intro: filter_cong)
  have "distinct (map ?key (enabled_rows t i j))"
    using assms unfolding rows table_unique_def by (blast intro: distinct_map_filter)
  moreover have "set (map ?key (enabled_rows t i j)) \<subseteq> {(i, j)}" by (auto simp: enabled_rows_def)
  ultimately have "length (enabled_rows t i j) \<le> 1"
    by (metis card_mono distinct_card finite.emptyI finite_insert is_singletonI is_singleton_altdef length_map)
  then show ?thesis by (cases "enabled_rows t i j") auto
qed

lemma matches_not_blank: "matches_category s \<Longrightarrow> \<not> blank s"
proof -
  assume m: "matches_category s"
  then have "\<exists>c \<in> set s. ascii_upper c"
    by (auto simp: matches_category_def Let_def split: list.splits if_split_asm dest!: arg_cong [where f = set] in_set_butlastD)
  then show ?thesis by (auto simp: blank_iff list_all_iff py_space_def ascii_upper_def Let_def intro!: bexI)
qed

text \<open>A row that an acceptable command asks for may join a sound table that shows no mapping for its supplier.\<close>

lemma new_row_sound:
  assumes "sound_table t" "valid_by expense_mapping_checks m" "\<not> blank (em_expense_category m)" "em_id m \<notin> set (map em_id t)"
    and "em_enabled m \<Longrightarrow> enabled_rows t (em_company_id m) (em_vendor_partner_id m) = []"
  shows "sound_table (t @ [m])"
proof -
  have "table_checks m" using assms(2,3) by (auto simp: table_checks_def valid_by_def expense_mapping_checks_def)
  moreover have "(em_company_id m, em_vendor_partner_id m) \<notin> (\<lambda>x. (em_company_id x, em_vendor_partner_id x)) ` {x \<in> set t. em_enabled x}"
    if "em_enabled m" using assms(5) [OF that] by (auto simp: enabled_rows_def filter_empty_conv)
  ultimately show ?thesis using assms(1,2,4) by (auto simp: sound_table_def mapping_constraints_def table_unique_def)
qed

context key_source
begin

lemma created_row:
  assumes "sound_table t" "acceptable c" "active_mapping t (ob_company c) (ob_vendor_partner c) = None"
  defines "m \<equiv> \<lparr>em_id = new_key t, em_company_id = ob_company c, em_vendor_partner_id = ob_vendor_partner c,
      em_expense_account_id = ob_expense_account c, em_expense_category = py_strip (ob_expense_category c), em_enabled = ob_enabled c\<rparr>"
  shows "create_mapping new_key (ob_company c) (ob_vendor_partner c) (ob_expense_account c) (py_strip (ob_expense_category c)) (ob_enabled c) t
      = (Inr m, t @ [m])" "sound_table (t @ [m])"
proof -
  have fields: "0 < ob_company c" "0 < ob_vendor_partner c" "0 < ob_expense_account c" "matches_category (py_strip (ob_expense_category c))"
    using assms(2) by (simp_all add: acceptable_facts)
  have valid: "valid_by expense_mapping_checks m"
    using fields key_positive [of t] by (simp add: valid_by_def expense_mapping_checks_def m_def)
  have "enabled_rows t (ob_company c) (ob_vendor_partner c) = []"
    using assms(3) by (simp add: active_mapping_def split: list.splits)
  then show sound: "sound_table (t @ [m])"
    using assms(1) valid key_fresh [of t] matches_not_blank [OF fields(4)] by (intro new_row_sound) (simp_all add: m_def)
  then have "mapping_constraints (t @ [m])" by (simp add: sound_table_def)
  with fields valid show "create_mapping new_key (ob_company c) (ob_vendor_partner c) (ob_expense_account c)
      (py_strip (ob_expense_category c)) (ob_enabled c) t = (Inr m, t @ [m])"
    by (simp add: create_mapping_def require_positive_def mapping_from_record_def flip: m_def)
qed

end

lemma found_mapping:
  assumes "sound_table t" "0 < i" "0 < j"
  shows "find_for_supplier i j t = (Inr (active_mapping t i j), t)"
proof -
  have one: "enabled_rows t i j = [] \<or> (\<exists>m. enabled_rows t i j = [m])"
    using assms(1) by (intro enabled_rows_single) (simp add: sound_table_def mapping_constraints_def)
  have "valid_by expense_mapping_checks m" if "enabled_rows t i j = [m]" for m
  proof -
    have "m \<in> set (enabled_rows t i j)" by (simp add: that)
    then show ?thesis using assms(1) by (simp add: enabled_rows_def sound_table_def list_all_iff)
  qed
  with one assms(2,3) show ?thesis
    by (auto simp: find_for_supplier_def require_positive_def mapping_from_record_def active_mapping_def)
qed

lemma active_added:
  "active_mapping t i j = None \<Longrightarrow> active_mapping (t @ [m]) i j =
     (if em_company_id m = i \<and> em_vendor_partner_id m = j \<and> em_enabled m then Some m else None)"
  "(em_company_id m, em_vendor_partner_id m) \<noteq> (i, j) \<Longrightarrow> active_mapping (t @ [m]) i j = active_mapping t i j"
  by (auto simp: active_mapping_def enabled_rows_def split: list.splits)

sublocale key_source \<subseteq> sql: supplier_mappings "sql_mapping_store new_key" active_mapping sound_table
proof unfold_locales
  fix s c
  assume "sound_table s" "acceptable c"
  then show "ms_find_for_supplier (sql_mapping_store new_key) (ob_company c) (ob_vendor_partner c) s
      = (Inr (active_mapping s (ob_company c) (ob_vendor_partner c)), s)"
    by (simp add: sql_mapping_store_def found_mapping acceptable_facts)
next
  fix s c
  assume s: "sound_table s" "acceptable c" "active_mapping s (ob_company c) (ob_vendor_partner c) = None"
  note created = created_row [OF s]
  show "\<exists>m s'. ms_create (sql_mapping_store new_key) (ob_company c) (ob_vendor_partner c) (ob_expense_account c)
        (py_strip (ob_expense_category c)) (ob_enabled c) s = (Inr m, s') \<and> sound_table s' \<and> asks_for c m
      \<and> active_mapping s' (ob_company c) (ob_vendor_partner c) = (if ob_enabled c then Some m else None)
      \<and> (\<forall>i j. (i, j) \<noteq> (ob_company c, ob_vendor_partner c) \<longrightarrow> active_mapping s' i j = active_mapping s i j)"
    using created by (auto simp: sql_mapping_store_def asks_for_def active_added s(3) intro!: exI)
next
  fix s i j m
  assume "active_mapping s i j = Some m"
  then have "m \<in> set (enabled_rows s i j)" by (auto simp: active_mapping_def split: list.splits)
  then show "em_company_id m = i \<and> em_vendor_partner_id m = j" by (simp add: enabled_rows_def)
qed

context key_source
begin

lemmas table_onboarding = sql.onboarding_settles

end

text \<open>The keys that SQLite gives: one above the largest.\<close>

definition next_rowid :: "mapping_table \<Rightarrow> int" where
  "next_rowid t = 1 + foldr max (map em_id t) 0"

lemma foldr_max_bound: "0 \<le> foldr max xs (0 :: int) \<and> (\<forall>x \<in> set xs. x \<le> foldr max xs 0)"
  by (induction xs) (auto simp: le_max_iff_disj)

interpretation rowid: key_source next_rowid
proof
  fix t
  show "0 < next_rowid t" using foldr_max_bound [of "map em_id t"] by (simp add: next_rowid_def)
  show "next_rowid t \<notin> set (map em_id t)" using foldr_max_bound [of "map em_id t"] by (fastforce simp: next_rowid_def)
qed

interpretation sql_table: supplier_mappings "sql_mapping_store next_rowid" active_mapping sound_table
  by unfold_locales

section \<open>Onboarding\<close>

text \<open>
  C30. Onboarding an enabled mapping settles it: the table stays sound, with at most one enabled mapping for a
  supplier; a failing command changes nothing; a successful one returns the mapping that it asked for, which is
  then the mapping found for the supplier, and repeating the command returns the same mapping and
  changes nothing. No other supplier's mapping changes.
\<close>

theorem onboarding_settles_supplier:
  assumes "key_source new_key" "sound_table t" "acceptable c" "ob_enabled c"
    and "onboard_mapping (sql_mapping_store new_key) c t = (r, t')"
  shows "sound_table t' \<and> (\<forall>e. r = Inl e \<longrightarrow> t' = t)
    \<and> (\<forall>x m. r = Inr (x, m) \<longrightarrow> asks_for c m \<and> find_for_supplier (ob_company c) (ob_vendor_partner c) t' = (Inr (Some m), t')
        \<and> onboard_mapping (sql_mapping_store new_key) c t' = (Inr (OO_ALREADY_CONFIGURED, m), t'))
    \<and> (\<forall>i j. (i, j) \<noteq> (ob_company c, ob_vendor_partner c) \<longrightarrow> active_mapping t' i j = active_mapping t i j)"
proof -
  note settled = key_source.table_onboarding [OF assms(1-3,5)]
  have "0 < ob_company c" "0 < ob_vendor_partner c" using assms(3) by (simp_all add: acceptable_facts)
  with found_mapping [OF settled(1)] settled assms(4) show ?thesis by auto
qed

definition fuel_command :: "bool \<Rightarrow> onboard_command" where
  "fuel_command enabled = \<lparr>ob_company = 1, ob_vendor_partner = 7, ob_expense_account = 770, ob_expense_category = ''FUEL'', ob_enabled = enabled\<rparr>"

definition fuel_mapping :: "int \<Rightarrow> bool \<Rightarrow> expense_mapping" where
  "fuel_mapping i enabled = \<lparr>em_id = i, em_company_id = 1, em_vendor_partner_id = 7, em_expense_account_id = 770,
     em_expense_category = ''FUEL'', em_enabled = enabled\<rparr>"

lemma fuel_category: "py_strip ''FUEL'' = ''FUEL''" "matches_category ''FUEL''" "acceptable (fuel_command e)"
  by (code_simp, code_simp, cases e, code_simp, code_simp)

lemma fuel_created: "onboard_mapping (sql_mapping_store next_rowid) (fuel_command True) [] = (Inr (OO_CREATED, fuel_mapping 1 True), [fuel_mapping 1 True])"
  by code_simp

theorem onboarding_settles_supplier_witness:
  "sound_table [] \<and> onboard_mapping (sql_mapping_store next_rowid) (fuel_command True) [] = (Inr (OO_CREATED, fuel_mapping 1 True), [fuel_mapping 1 True])
   \<and> onboard_mapping (sql_mapping_store next_rowid) (fuel_command True) [fuel_mapping 1 True]
       = (Inr (OO_ALREADY_CONFIGURED, fuel_mapping 1 True), [fuel_mapping 1 True])"
proof -
  have empty: "sound_table []" by (simp add: sound_table_def mapping_constraints_def table_unique_def)
  have "ob_enabled (fuel_command True)" by (simp add: fuel_command_def)
  from onboarding_settles_supplier [OF rowid.key_source_axioms empty fuel_category(3) this fuel_created] empty fuel_created
  show ?thesis by simp
qed

text \<open>
  Onboarding a disabled mapping is not idempotent: the lookup sees enabled rows only, so repeating an
  identical request adds a second disabled row instead of reporting that the mapping is configured.
\<close>

theorem disabled_onboarding_repeats:
  "\<exists>t. onboard_mapping (sql_mapping_store next_rowid) (fuel_command False) [] = (Inr (OO_CREATED, fuel_mapping 1 False), t)
     \<and> onboard_mapping (sql_mapping_store next_rowid) (fuel_command False) t = (Inr (OO_CREATED, fuel_mapping 2 False), [fuel_mapping 1 False, fuel_mapping 2 False])"
proof (intro exI conjI)
  show "onboard_mapping (sql_mapping_store next_rowid) (fuel_command False) [] = (Inr (OO_CREATED, fuel_mapping 1 False), [fuel_mapping 1 False])"
    by code_simp
  show "onboard_mapping (sql_mapping_store next_rowid) (fuel_command False) [fuel_mapping 1 False]
      = (Inr (OO_CREATED, fuel_mapping 2 False), [fuel_mapping 1 False, fuel_mapping 2 False])"
    by code_simp
qed

end
