(* ===== verification/Source_Tax.thy ===== *)
theory Source_Tax
  imports Tax_Exemption Exec_Contracts Sha256
begin

text \<open>
  The guard on the taxes of the original document, \<^verbatim>\<open>app/application/source_tax\<close>, and the review reasons
  of \<^verbatim>\<open>app/application/workflow.py\<close>. The stored document must have the recorded hash and the identity
  of the review before its tax facts count; they are read again before each use of a vendor bill. The
  locator and reader of documents, the XML parser and the reader of ERP taxes are the ports.
\<close>

section \<open>Review reasons\<close>

datatype reason_code =
    SUPPLIER_TAX_NUMBER_MISSING | SUPPLIER_NOT_FOUND | SUPPLIER_AMBIGUOUS | PRODUCT_IDENTIFIER_MISSING | PRODUCT_NOT_FOUND
  | PRODUCT_AMBIGUOUS | PRODUCT_MAPPING_INCOMPLETE | TAX_NOT_FOUND | TAX_AMBIGUOUS | TAX_MAPPING_INCOMPLETE
  | OPERATING_EXPENSE_MAPPING_REQUIRED | OPERATING_EXPENSE_MAPPING_AMBIGUOUS | UNSUPPORTED_INVOICE_CONTENT
  | RETURN_INVOICE_NOT_SUPPORTED | AMBIGUOUS_COMMERCIAL_PURCHASE | WITHHOLDING_TAX_NOT_SUPPORTED | SOURCE_DOCUMENT_UNVERIFIED

fun reason_code_value :: "reason_code \<Rightarrow> string" where
  "reason_code_value SUPPLIER_TAX_NUMBER_MISSING = ''SUPPLIER_TAX_NUMBER_MISSING''"
| "reason_code_value SUPPLIER_NOT_FOUND = ''SUPPLIER_NOT_FOUND''"
| "reason_code_value SUPPLIER_AMBIGUOUS = ''SUPPLIER_AMBIGUOUS''"
| "reason_code_value PRODUCT_IDENTIFIER_MISSING = ''PRODUCT_IDENTIFIER_MISSING''"
| "reason_code_value PRODUCT_NOT_FOUND = ''PRODUCT_NOT_FOUND''"
| "reason_code_value PRODUCT_AMBIGUOUS = ''PRODUCT_AMBIGUOUS''"
| "reason_code_value PRODUCT_MAPPING_INCOMPLETE = ''PRODUCT_MAPPING_INCOMPLETE''"
| "reason_code_value TAX_NOT_FOUND = ''TAX_NOT_FOUND''"
| "reason_code_value TAX_AMBIGUOUS = ''TAX_AMBIGUOUS''"
| "reason_code_value TAX_MAPPING_INCOMPLETE = ''TAX_MAPPING_INCOMPLETE''"
| "reason_code_value OPERATING_EXPENSE_MAPPING_REQUIRED = ''OPERATING_EXPENSE_MAPPING_REQUIRED''"
| "reason_code_value OPERATING_EXPENSE_MAPPING_AMBIGUOUS = ''OPERATING_EXPENSE_MAPPING_AMBIGUOUS''"
| "reason_code_value UNSUPPORTED_INVOICE_CONTENT = ''UNSUPPORTED_INVOICE_CONTENT''"
| "reason_code_value RETURN_INVOICE_NOT_SUPPORTED = ''RETURN_INVOICE_NOT_SUPPORTED''"
| "reason_code_value AMBIGUOUS_COMMERCIAL_PURCHASE = ''AMBIGUOUS_COMMERCIAL_PURCHASE''"
| "reason_code_value WITHHOLDING_TAX_NOT_SUPPORTED = ''WITHHOLDING_TAX_NOT_SUPPORTED''"
| "reason_code_value SOURCE_DOCUMENT_UNVERIFIED = ''SOURCE_DOCUMENT_UNVERIFIED''"

definition SOURCE_TAX_SAFETY_REASON_CODES :: "reason_code list" where
  "SOURCE_TAX_SAFETY_REASON_CODES = [WITHHOLDING_TAX_NOT_SUPPORTED, SOURCE_DOCUMENT_UNVERIFIED]"

definition SOURCE_TAX_REASON_SOURCE :: string where
  "SOURCE_TAX_REASON_SOURCE = ''source_tax''"

record review_reason =
  rr_code :: reason_code
  rr_message :: string
  rr_line_number :: "string option"
  rr_tax_index :: "nat option"
  rr_candidate_count :: "nat option"
  rr_source :: "string option"
  rr_details :: "(string \<times> string) list"

record manual_review_decision =
  mr_reasons :: "review_reason list"
  mr_summary :: string
  mr_warnings :: "string list"

record workflow_decision =
  wd_workflow :: workflow_type
  wd_matched_rule :: "string option"
  wd_explanation :: "string option"
  wd_manual_review :: "manual_review_decision option"
  wd_warnings :: "string list"
  wd_errors :: "string list"

section \<open>Assessments\<close>

datatype document_issue =
    FACTS_NOT_SUPPLIED | DOCUMENT_MISSING | DOCUMENT_AMBIGUOUS | DOCUMENT_FILE_MISSING | STORAGE_KEY_INVALID | HASH_MISMATCH
  | DOCUMENT_INVALID | UUID_MISSING | UUID_MISMATCH

fun document_issue_value :: "document_issue \<Rightarrow> string" where
  "document_issue_value FACTS_NOT_SUPPLIED = ''FACTS_NOT_SUPPLIED''"
| "document_issue_value DOCUMENT_MISSING = ''DOCUMENT_MISSING''"
| "document_issue_value DOCUMENT_AMBIGUOUS = ''DOCUMENT_AMBIGUOUS''"
| "document_issue_value DOCUMENT_FILE_MISSING = ''DOCUMENT_FILE_MISSING''"
| "document_issue_value STORAGE_KEY_INVALID = ''STORAGE_KEY_INVALID''"
| "document_issue_value HASH_MISMATCH = ''HASH_MISMATCH''"
| "document_issue_value DOCUMENT_INVALID = ''DOCUMENT_INVALID''"
| "document_issue_value UUID_MISSING = ''UUID_MISSING''"
| "document_issue_value UUID_MISMATCH = ''UUID_MISMATCH''"

text \<open>An assessment carries either verified facts or an issue; the constructor admits nothing else.\<close>

datatype tax_assessment = Verified source_tax_facts | Unverified document_issue

fun assessment_facts :: "tax_assessment \<Rightarrow> source_tax_facts option" where
  "assessment_facts (Verified f) = Some f"
| "assessment_facts (Unverified _) = None"

datatype source_tax_error =
    TaxFactsUnavailableError string
  | DocumentUnreadableError string document_issue
  | SourceTaxSafetyBlockedError string "reason_code list"
  | StReviewNotFoundError string
  | StReviewPersistenceError string
  | StInvoiceDomainError string
  | StErpRepositoryError string
  | StTaxError tax_error

definition assess_source_document ::
    "(string \<Rightarrow> (source_tax_error, xml) result) \<Rightarrow> string \<Rightarrow> string option \<Rightarrow> string option \<Rightarrow> (source_tax_error, tax_assessment) result" where
  "assess_source_document parse_root content expected_sha256 expected_invoice_uuid =
     (if (case expected_sha256 of None \<Rightarrow> True | Some h \<Rightarrow> h = [] \<or> sha256_hexdigest content \<noteq> py_lower (py_strip h))
      then Inr (Unverified HASH_MISMATCH)
      else case parse_root content of
        Inl (StInvoiceDomainError _) \<Rightarrow> Inr (Unverified DOCUMENT_INVALID)
      | Inl e \<Rightarrow> Inl e
      | Inr document_root \<Rightarrow>
          let facts = extract_source_tax_facts document_root;
              expected = py_strip (case expected_invoice_uuid of None \<Rightarrow> [] | Some u \<Rightarrow> u) in
          Inr (if xf_invoice_uuid facts = None \<or> expected = [] then Unverified UUID_MISSING
               else if xf_invoice_uuid facts \<noteq> Some expected then Unverified UUID_MISMATCH
               else Verified facts))"

definition unverified_reason :: "document_issue \<Rightarrow> review_reason" where
  "unverified_reason issue =
     \<lparr>rr_code = SOURCE_DOCUMENT_UNVERIFIED,
      rr_message = ''The original invoice document could not be verified; its tax content cannot be checked.'',
      rr_line_number = None, rr_tax_index = None, rr_candidate_count = None, rr_source = Some SOURCE_TAX_REASON_SOURCE,
      rr_details = [(''issue'', document_issue_value issue)]\<rparr>"

definition given_details :: "(string \<times> string) list \<Rightarrow> (string \<times> string) list" where
  "given_details details = filter (\<lambda>(_, v). v \<noteq> []) details"

definition withholding_reason :: "source_tax_facts \<Rightarrow> review_reason" where
  "withholding_reason facts =
     \<lparr>rr_code = WITHHOLDING_TAX_NOT_SUPPORTED,
      rr_message = ''The invoice declares tax withholding (tevkifat); a Vendor Bill is never created for it.'',
      rr_line_number = None, rr_tax_index = None, rr_candidate_count = None, rr_source = Some SOURCE_TAX_REASON_SOURCE,
      rr_details = given_details
        [(''invoice_type_code'', case xf_invoice_type_code facts of None \<Rightarrow> [] | Some c \<Rightarrow> c),
         (''invoice_withholding_tax_totals'', nat_str (xf_invoice_withholding_total_count facts)),
         (''line_withholding_tax_totals'', nat_str (xf_line_withholding_total_count facts))]\<rparr>"

definition unsupported_tax_reason :: "source_tax_facts \<Rightarrow> review_reason" where
  "unsupported_tax_reason facts =
     \<lparr>rr_code = UNSUPPORTED_INVOICE_CONTENT,
      rr_message = ''The invoice carries a tax other than VAT (TaxTypeCode 0015); it is not supported.'',
      rr_line_number = None, rr_tax_index = None, rr_candidate_count = None, rr_source = Some SOURCE_TAX_REASON_SOURCE,
      rr_details = given_details
        [(''unsupported_tax_type_codes'', str_join '','' (unsupported_tax_type_codes facts)),
         (''tax_subtotals_without_type_code'',
          if xf_tax_subtotals_without_type_code facts = 0 then [] else nat_str (xf_tax_subtotals_without_type_code facts))]\<rparr>"

fun source_tax_review_reasons :: "tax_assessment \<Rightarrow> review_reason list" where
  "source_tax_review_reasons (Unverified issue) = [unverified_reason issue]"
| "source_tax_review_reasons (Verified facts) =
     (if has_withholding facts then [withholding_reason facts] else [])
     @ (if has_unsupported_tax_content facts then [unsupported_tax_reason facts] else [])"

section \<open>The exemption policy\<close>

record exemption_policy =
  ep_tax_ids_by_code :: "(string \<times> int) list"
  ep_read_exemption_tax :: "int \<Rightarrow> (source_tax_error, erp_record option) result"

definition policy_enabled :: "exemption_policy \<Rightarrow> bool" where
  "policy_enabled policy \<longleftrightarrow> ep_tax_ids_by_code policy \<noteq> []"

definition policy_tax_ids :: "exemption_policy \<Rightarrow> int set" where
  "policy_tax_ids policy = set (map snd (ep_tax_ids_by_code policy))"

definition disabled_exemption_policy :: exemption_policy where
  "disabled_exemption_policy = \<lparr>ep_tax_ids_by_code = [], ep_read_exemption_tax = (\<lambda>_. Inr None)\<rparr>"

definition lift_tax :: "(tax_error, 'a) result \<Rightarrow> (source_tax_error, 'a) result" where
  "lift_tax r = (case r of Inl e \<Rightarrow> Inl (StTaxError e) | Inr x \<Rightarrow> Inr x)"

definition map_exemptions ::
    "exemption_policy \<Rightarrow> internal_invoice \<Rightarrow> tax_mapping_result \<Rightarrow> tax_assessment option \<Rightarrow> int option \<Rightarrow>
     (source_tax_error, tax_mapping_result) result" where
  "map_exemptions policy invoice tax_match assessment company_id =
     (case Option.bind assessment assessment_facts of
        None \<Rightarrow> Inr tax_match
      | Some facts \<Rightarrow>
          if \<not> policy_enabled policy then Inr tax_match
          else ebind (lift_tax (assess_invoice_exemption invoice (Some facts))) (\<lambda>eligibility.
            if \<not> eligible eligibility then Inr tax_match
            else let code = the (el_code eligibility) in
              case map_of (ep_tax_ids_by_code policy) code of
                None \<Rightarrow> Inr tax_match
              | Some tax_id \<Rightarrow>
                  ebind (ep_read_exemption_tax policy tax_id) (\<lambda>tax_record.
                  if exemption_tax_problems tax_record tax_id company_id code \<noteq> []
                  then Inr (blocked_exemption_mapping tax_match
                    (''VAT exemption '' @ code @ '' is proven, but the configured Odoo tax failed validation.''))
                  else case upgrade_to_exemption invoice tax_match code tax_id company_id of
                    None \<Rightarrow> Inr tax_match
                  | Some upgraded \<Rightarrow> Inr upgraded)))"

definition SAFE_EXEMPTION_BLOCKED_MESSAGE :: string where
  "SAFE_EXEMPTION_BLOCKED_MESSAGE = ''The invoice's VAT exemption mapping could not be re-proven safely.''"

definition exemption_block :: "string \<Rightarrow> (source_tax_error, 'a) result" where
  "exemption_block message =
     Inl (SourceTaxSafetyBlockedError (SAFE_EXEMPTION_BLOCKED_MESSAGE @ '' '' @ message) [UNSUPPORTED_INVOICE_CONTENT])"

definition is_current_exemption_pin :: "tax_match_result \<Rightarrow> string \<Rightarrow> int \<Rightarrow> int \<Rightarrow> bool" where
  "is_current_exemption_pin r code tax_id company_id \<longleftrightarrow>
     tr_status r = TX_MATCHED \<and> tr_tax_type r = Some TT_EXEMPTION \<and> tr_tax_id r = Some tax_id \<and> tr_company_id r = Some company_id
     \<and> (case tr_tax_rate r of None \<Rightarrow> False | Some rate \<Rightarrow> dec_same rate dec_zero)
     \<and> tr_matched_by r = Some (exemption_matched_by code)"

definition ensure_pinned_exemptions_allowed ::
    "exemption_policy \<Rightarrow> int \<Rightarrow> internal_invoice \<Rightarrow> tax_mapping_result \<Rightarrow> source_tax_facts \<Rightarrow> (source_tax_error, unit) result" where
  "ensure_pinned_exemptions_allowed policy company_id invoice tax_match facts =
     (let results = map tl_result (tm_line_results tax_match) in
      if \<not> list_ex (\<lambda>r. is_exemption_pinned r (policy_tax_ids policy)) results then Inr ()
      else if \<not> policy_enabled policy then exemption_block ''VAT exemption mapping is not configured.''
      else ebind (lift_tax (assess_invoice_exemption invoice (Some facts))) (\<lambda>eligibility.
        if \<not> eligible eligibility then exemption_block ''Source document no longer proves the exemption.''
        else let code = the (el_code eligibility) in
          case map_of (ep_tax_ids_by_code policy) code of
            None \<Rightarrow> exemption_block (''VAT exemption code '' @ code @ '' is not configured.'')
          | Some tax_id \<Rightarrow>
              if tm_errors tax_match \<noteq> []
                 \<or> map (\<lambda>l. (tl_line_number l, tl_tax_index l)) (tm_line_results tax_match) \<noteq> canonical_keys invoice
              then exemption_block ''Pinned tax mapping does not cover every invoice tax.''
              else if list_ex (\<lambda>r. \<not> is_current_exemption_pin r code tax_id company_id) results
              then exemption_block ''A pinned tax does not match the approved exemption mapping.''
              else case ep_read_exemption_tax policy tax_id of
                Inl (StErpRepositoryError _) \<Rightarrow> Inl (TaxFactsUnavailableError ''Configured VAT exemption tax could not be read right now.'')
              | Inl e \<Rightarrow> Inl e
              | Inr tax_record \<Rightarrow>
                  if exemption_tax_problems tax_record tax_id (Some company_id) code \<noteq> []
                  then exemption_block ''Configured VAT exemption tax failed validation.'' else Inr ()))"

section \<open>The stored document\<close>

record tax_document =
  td_storage_key :: string
  td_content_sha256 :: string

record tax_document_ports =
  tp_find_source_documents :: "string \<Rightarrow> int \<Rightarrow> (source_tax_error, tax_document list) result"
  tp_read_document :: "string \<Rightarrow> (source_tax_error, string) result"
  tp_parse_ubl_invoice_root :: "string \<Rightarrow> (source_tax_error, xml) result"

definition assess_stored_document ::
    "tax_document_ports \<Rightarrow> string \<Rightarrow> int \<Rightarrow> string option \<Rightarrow> (source_tax_error, tax_assessment) result" where
  "assess_stored_document ports review_id company_id invoice_uuid =
     (case tp_find_source_documents ports review_id company_id of
        Inl (StReviewPersistenceError _) \<Rightarrow> Inl (TaxFactsUnavailableError ''Source invoice document could not be located right now.'')
      | Inl e \<Rightarrow> Inl e
      | Inr [] \<Rightarrow> Inr (Unverified DOCUMENT_MISSING)
      | Inr [document] \<Rightarrow>
          (case tp_read_document ports (td_storage_key document) of
             Inl (DocumentUnreadableError _ issue) \<Rightarrow> Inr (Unverified issue)
           | Inl e \<Rightarrow> Inl e
           | Inr content \<Rightarrow> assess_source_document (tp_parse_ubl_invoice_root ports) content (Some (td_content_sha256 document)) invoice_uuid)
      | Inr _ \<Rightarrow> Inr (Unverified DOCUMENT_AMBIGUOUS))"

section \<open>The backstop of a vendor bill\<close>

type_synonym assessment_reader = "string \<Rightarrow> int \<Rightarrow> string option \<Rightarrow> (source_tax_error, tax_assessment) result"

definition ensure_vendor_bill_allowed ::
    "assessment_reader \<Rightarrow> string \<Rightarrow> int \<Rightarrow> internal_invoice \<Rightarrow> (source_tax_error, source_tax_facts) result" where
  "ensure_vendor_bill_allowed assess review_id company_id invoice =
     ebind (assess review_id company_id (Some (hd_invoice_uuid (iv_header invoice)))) (\<lambda>assessment.
       let reasons = source_tax_review_reasons assessment in
       case assessment_facts assessment of
         Some facts \<Rightarrow> if reasons = [] then Inr facts
           else Inl (SourceTaxSafetyBlockedError (''The original invoice document does not allow a Vendor Bill: ''
             @ str_join '', '' (map (\<lambda>r. reason_code_value (rr_code r)) reasons) @ ''.'') (map rr_code reasons))
       | None \<Rightarrow> Inl (SourceTaxSafetyBlockedError (''The original invoice document does not allow a Vendor Bill: ''
             @ str_join '', '' (map (\<lambda>r. reason_code_value (rr_code r)) reasons) @ ''.'') (map rr_code reasons)))"

definition ensure_vendor_bill_tax_allowed ::
    "assessment_reader \<Rightarrow> exemption_policy \<Rightarrow> string \<Rightarrow> int \<Rightarrow> internal_invoice \<Rightarrow> tax_mapping_result \<Rightarrow>
     (source_tax_error, source_tax_facts) result" where
  "ensure_vendor_bill_tax_allowed assess policy review_id company_id invoice tax_match =
     ebind (ensure_vendor_bill_allowed assess review_id company_id invoice) (\<lambda>facts.
     ebind (ensure_pinned_exemptions_allowed policy company_id invoice tax_match facts) (\<lambda>_.
     Inr facts))"

section \<open>What the backstop guarantees\<close>

text \<open>The pins of a mapping that is about to be used are the ones the document and the ERP prove now.\<close>

definition pins_reproven :: "exemption_policy \<Rightarrow> int \<Rightarrow> internal_invoice \<Rightarrow> tax_mapping_result \<Rightarrow> source_tax_facts \<Rightarrow> bool" where
  "pins_reproven policy company_id invoice tax_match facts \<longleftrightarrow>
     (\<exists>e code tax_id tax_record. assess_invoice_exemption invoice (Some facts) = Inr e \<and> eligible e \<and> el_code e = Some code
       \<and> map_of (ep_tax_ids_by_code policy) code = Some tax_id
       \<and> map (\<lambda>l. (tl_line_number l, tl_tax_index l)) (tm_line_results tax_match) = canonical_keys invoice
       \<and> (\<forall>l \<in> set (tm_line_results tax_match). is_current_exemption_pin (tl_result l) code tax_id company_id)
       \<and> ep_read_exemption_tax policy tax_id = Inr tax_record \<and> exemption_tax_problems tax_record tax_id (Some company_id) code = [])"

lemma pins_allowed:
  assumes "ensure_pinned_exemptions_allowed policy company_id invoice tax_match facts = Inr u"
    and "l \<in> set (tm_line_results tax_match)" "is_exemption_pinned (tl_result l) (policy_tax_ids policy)"
  shows "pins_reproven policy company_id invoice tax_match facts"
proof -
  have pinned: "list_ex (\<lambda>r. is_exemption_pinned r (policy_tax_ids policy)) (map tl_result (tm_line_results tax_match))"
    using assms(2,3) by (auto simp: list_ex_iff)
  with assms(1) have enabled: "policy_enabled policy"
    by (auto simp: ensure_pinned_exemptions_allowed_def exemption_block_def Let_def split: if_splits)
  with assms(1) pinned obtain e where e: "assess_invoice_exemption invoice (Some facts) = Inr e" "eligible e"
    by (auto simp: ensure_pinned_exemptions_allowed_def exemption_block_def lift_tax_def ebind_Inr_iff Let_def split: if_splits sum.splits)
  then obtain code where code: "el_code e = Some code" by (auto simp: eligible_def)
  with assms(1) pinned enabled e obtain tax_id where tax_id: "map_of (ep_tax_ids_by_code policy) code = Some tax_id"
    by (auto simp: ensure_pinned_exemptions_allowed_def exemption_block_def lift_tax_def Let_def split: option.splits)
  with assms(1) pinned enabled e code have
    "map (\<lambda>l. (tl_line_number l, tl_tax_index l)) (tm_line_results tax_match) = canonical_keys invoice"
    "\<forall>l \<in> set (tm_line_results tax_match). is_current_exemption_pin (tl_result l) code tax_id company_id"
    "\<exists>tax_record. ep_read_exemption_tax policy tax_id = Inr tax_record \<and> exemption_tax_problems tax_record tax_id (Some company_id) code = []"
    by (auto simp: ensure_pinned_exemptions_allowed_def exemption_block_def lift_tax_def Let_def list_ex_iff
        split: if_splits sum.splits source_tax_error.splits)
  with e code tax_id show ?thesis unfolding pins_reproven_def by blast
qed

lemma assess_document_verified:
  assumes "assess_source_document parse_root content (Some hash) uuid = Inr (Verified facts)"
  shows "sha256_hexdigest content = py_lower (py_strip hash) \<and> xf_invoice_uuid facts = Some (py_strip (the uuid))
    \<and> (\<exists>document_root. parse_root content = Inr document_root \<and> facts = extract_source_tax_facts document_root)"
  using assms
  by (auto simp: assess_source_document_def Let_def py_strip_def split: if_splits sum.splits source_tax_error.splits option.splits)

lemma assess_stored_verified:
  assumes "assess_stored_document ports review_id company_id uuid = Inr (Verified facts)"
  obtains document content where "tp_find_source_documents ports review_id company_id = Inr [document]"
    "tp_read_document ports (td_storage_key document) = Inr content"
    "assess_source_document (tp_parse_ubl_invoice_root ports) content (Some (td_content_sha256 document)) uuid = Inr (Verified facts)"
  using assms
  by (auto simp: assess_stored_document_def split: sum.splits source_tax_error.splits list.splits)

lemma no_source_tax_reasons:
  "source_tax_review_reasons a = [] \<longleftrightarrow> (\<exists>facts. a = Verified facts \<and> \<not> has_withholding facts \<and> \<not> has_unsupported_tax_content facts)"
  by (cases a) auto

text \<open>
  C10. A vendor bill passes the tax backstop only if exactly one stored document exists for the review, its
  bytes have the recorded hash, it states the invoice's UUID, it declares no withholding and no tax other
  than VAT; and if any tax of the mapping is pinned to an exemption, then the document proves the exemption
  again, every tax of the invoice is pinned to the tax approved for its code, and the ERP's record of that
  tax passes validation now.
\<close>

theorem vendor_bill_backstop:
  assumes "ensure_vendor_bill_tax_allowed (assess_stored_document ports) policy review_id company_id invoice tax_match = Inr facts"
  shows "(\<exists>document content document_root. tp_find_source_documents ports review_id company_id = Inr [document]
      \<and> tp_read_document ports (td_storage_key document) = Inr content
      \<and> sha256_hexdigest content = py_lower (py_strip (td_content_sha256 document))
      \<and> tp_parse_ubl_invoice_root ports content = Inr document_root \<and> facts = extract_source_tax_facts document_root)
    \<and> xf_invoice_uuid facts = Some (py_strip (hd_invoice_uuid (iv_header invoice)))
    \<and> \<not> has_withholding facts \<and> \<not> has_unsupported_tax_content facts
    \<and> (\<forall>l \<in> set (tm_line_results tax_match). is_exemption_pinned (tl_result l) (policy_tax_ids policy)
        \<longrightarrow> pins_reproven policy company_id invoice tax_match facts)"
proof -
  let ?uuid = "Some (hd_invoice_uuid (iv_header invoice))"
  from assms obtain u where allowed: "ensure_vendor_bill_allowed (assess_stored_document ports) review_id company_id invoice = Inr facts"
    and pins: "ensure_pinned_exemptions_allowed policy company_id invoice tax_match facts = Inr u"
    by (auto simp: ensure_vendor_bill_tax_allowed_def ebind_Inr_iff)
  from allowed have verified: "assess_stored_document ports review_id company_id ?uuid = Inr (Verified facts)"
    and clean: "\<not> has_withholding facts" "\<not> has_unsupported_tax_content facts"
    by (auto simp: ensure_vendor_bill_allowed_def ebind_Inr_iff Let_def split: option.splits if_splits elim!: assessment_facts.elims)
  from verified obtain document content where found: "tp_find_source_documents ports review_id company_id = Inr [document]"
    "tp_read_document ports (td_storage_key document) = Inr content"
    and assessed: "assess_source_document (tp_parse_ubl_invoice_root ports) content (Some (td_content_sha256 document)) ?uuid = Inr (Verified facts)"
    by (rule assess_stored_verified)
  from assess_document_verified [OF assessed] found clean pins_allowed [OF pins] show ?thesis by auto
qed

section \<open>An example\<close>

lemma hex_digit_plain:
  assumes "n < 16"
  shows "lower_char (hex_digit n) = hex_digit n \<and> \<not> py_space (hex_digit n)"
proof -
  define k where "k = (if n < 10 then 48 + n else 87 + n)"
  have "(of_char (hex_digit n) :: nat) = k" using assms by (auto simp: hex_digit_def k_def)
  moreover have "k \<in> {48..57} \<union> {97..102}" using assms by (auto simp: k_def)
  ultimately show ?thesis by (auto simp: lower_char_def ascii_upper_def py_space_def Let_def)
qed

lemma hexdigest_plain: "py_lower (py_strip (sha256_hexdigest s)) = sha256_hexdigest s"
proof -
  have "\<forall>c \<in> set (sha256_hexdigest s). lower_char c = c \<and> \<not> py_space c"
    by (auto simp: sha256_hexdigest_def hex_word_def Let_def hex_digit_plain)
  then show ?thesis by (simp add: py_strip_no_space list_all_iff py_lower_def map_idI)
qed

definition plain_document :: xml where
  "plain_document = Elem ''Invoice'' None [Elem (CBC @ ''UUID'') (Some ''u'') []]"

definition plain_ports :: tax_document_ports where
  "plain_ports = \<lparr>tp_find_source_documents = (\<lambda>_ _. Inr [\<lparr>td_storage_key = ''k'', td_content_sha256 = sha256_hexdigest ''x''\<rparr>]),
     tp_read_document = (\<lambda>_. Inr ''x''), tp_parse_ubl_invoice_root = (\<lambda>_. Inr plain_document)\<rparr>"

definition plain_invoice :: internal_invoice where
  "plain_invoice = exempt_invoice\<lparr>iv_header := (iv_header exempt_invoice)\<lparr>hd_invoice_uuid := '' u''\<rparr>\<rparr>"

lemma plain_facts:
  "xf_invoice_uuid (extract_source_tax_facts plain_document) = Some ''u''"
  "source_tax_review_reasons (Verified (extract_source_tax_facts plain_document)) = []"
  by (simp_all add: plain_document_def extract_source_tax_facts_def Let_def xml_find_def xml_findall_def element_text_def
      element_decimal_def tax_position_facts_def local_name_def has_withholding_def has_unsupported_tax_content_def
      unsupported_tax_type_codes_def CAC_def CBC_def py_strip_def py_space_def)

lemma plain_allowed:
  "ensure_vendor_bill_tax_allowed (assess_stored_document plain_ports) disabled_exemption_policy r c plain_invoice
     \<lparr>tm_line_results = [], tm_warnings = [], tm_errors = []\<rparr> = Inr (extract_source_tax_facts plain_document)"
proof -
  have "sha256_hexdigest ''x'' \<noteq> []" using length_sha256_hexdigest [of "''x''"] by auto
  moreover have "py_strip '' u'' = ''u''" by code_simp
  ultimately show ?thesis
    using plain_facts
    by (simp add: ensure_vendor_bill_tax_allowed_def ensure_vendor_bill_allowed_def assess_stored_document_def plain_ports_def
        assess_source_document_def hexdigest_plain ensure_pinned_exemptions_allowed_def plain_invoice_def Let_def
        del: source_tax_review_reasons.simps)
qed

theorem vendor_bill_backstop_witness:
  "\<exists>facts. xf_invoice_uuid facts = Some (py_strip '' u'') \<and> \<not> has_withholding facts
     \<and> facts = extract_source_tax_facts plain_document"
  using vendor_bill_backstop [OF plain_allowed] by (simp add: plain_invoice_def)

end
