(* ===== verification/Effective_Supplier.thy ===== *)
theory Effective_Supplier
  imports Matching
begin

text \<open>
  The effective supplier of a review: \<^verbatim>\<open>app/application/effective_supplier.py\<close>. A deterministic match
  wins; otherwise an accepted resolution counts, provided a read of the ERP proves that its partner is
  its own commercial partner in a compatible company. The store of resolutions, the ERP and the partner
  matcher are ports. Messages to the operator, which are Turkish, are named by constructors.
\<close>

section \<open>Accepted suppliers\<close>

datatype supplier_origin = SO_DETERMINISTIC | SO_MATCH_EXISTING | SO_CREATE_PERMANENT_SUPPLIER | SO_ONE_OFF_VENDOR

fun supplier_origin_value :: "supplier_origin \<Rightarrow> string" where
  "supplier_origin_value SO_DETERMINISTIC = ''deterministic''"
| "supplier_origin_value SO_MATCH_EXISTING = ''match_existing''"
| "supplier_origin_value SO_CREATE_PERMANENT_SUPPLIER = ''create_permanent_supplier''"
| "supplier_origin_value SO_ONE_OFF_VENDOR = ''one_off_vendor''"

definition supplier_origin_members :: "supplier_origin list" where
  "supplier_origin_members = [SO_DETERMINISTIC, SO_MATCH_EXISTING, SO_CREATE_PERMANENT_SUPPLIER, SO_ONE_OFF_VENDOR]"

interpretation supplier_origin_enum: str_enum supplier_origin_members supplier_origin_value
proof unfold_locales
  show "x \<in> set supplier_origin_members" for x
    by (cases x) (simp_all add: supplier_origin_members_def)
qed (simp add: supplier_origin_members_def)

definition ACCEPTED_ORIGINS :: "supplier_origin list" where
  "ACCEPTED_ORIGINS = [SO_MATCH_EXISTING, SO_CREATE_PERMANENT_SUPPLIER, SO_ONE_OFF_VENDOR]"

datatype supplier_failure =
    UNSUPPORTED_RESOLUTION | PARTNER_NOT_IN_ERP | CONTACT_OF_COMMERCIAL_PARTNER int | PARTNER_OF_OTHER_COMPANY | UNRESOLVED_SUPPLIER

datatype supplier_error = EffectiveSupplierReadError | SupplierValueError string | SupplierPortError string

record accepted_supplier =
  as_origin :: supplier_origin
  as_partner_id :: int

definition accepted_supplier_checks :: "accepted_supplier \<Rightarrow> supplier_error check list" where
  "accepted_supplier_checks s =
     [(as_origin s \<notin> set ACCEPTED_ORIGINS, SupplierValueError ''An accepted supplier needs an accepted-resolution origin.''),
      (as_partner_id s \<le> 0, SupplierValueError ''An accepted supplier needs a positive partner id.'')]"

record effective_supplier =
  ef_partner_id :: int
  ef_origin :: supplier_origin
  ef_partner_match :: partner_match

definition supplier_accepted :: "effective_supplier \<Rightarrow> bool" where
  "supplier_accepted s \<longleftrightarrow> ef_origin s \<noteq> SO_DETERMINISTIC"

section \<open>Precedence\<close>

definition ACCEPTED_SUPPLIER_MATCHED_BY :: string where
  "ACCEPTED_SUPPLIER_MATCHED_BY = ''supplier_remediation_effect''"

definition ACCEPTED_SUPPLIER_MATCH_CONFIDENCE :: decimal where
  "ACCEPTED_SUPPLIER_MATCH_CONFIDENCE = Dec False 100 (-2)"

definition accepted_supplier_partner_match :: "int \<Rightarrow> partner_match" where
  "accepted_supplier_partner_match partner_id =
     \<lparr>pm_status = MATCHED, pm_partner_id = Some partner_id, pm_matched_by = Some ACCEPTED_SUPPLIER_MATCHED_BY,
      pm_reason = ''Resolved via an accepted supplier remediation effect for this review.'', pm_candidate_count = 1,
      pm_confidence = Some ACCEPTED_SUPPLIER_MATCH_CONFIDENCE\<rparr>"

definition raw_matched :: "partner_match option \<Rightarrow> int option" where
  "raw_matched raw = (case raw of None \<Rightarrow> None
   | Some pm \<Rightarrow> if pm_status pm = MATCHED then (case pm_partner_id pm of None \<Rightarrow> None | Some i \<Rightarrow> if 0 < i then Some i else None) else None)"

definition resolve_effective_supplier :: "partner_match option \<Rightarrow> accepted_supplier option \<Rightarrow> effective_supplier option" where
  "resolve_effective_supplier raw accepted =
     (case raw_matched raw of
        Some i \<Rightarrow> Some \<lparr>ef_partner_id = i, ef_origin = SO_DETERMINISTIC, ef_partner_match = the raw\<rparr>
      | None \<Rightarrow> (case accepted of
          Some s \<Rightarrow> Some \<lparr>ef_partner_id = as_partner_id s, ef_origin = as_origin s,
            ef_partner_match = accepted_supplier_partner_match (as_partner_id s)\<rparr>
        | None \<Rightarrow> None))"

definition supplier_match_for_product_matching :: "partner_match option \<Rightarrow> accepted_supplier option \<Rightarrow> partner_match option" where
  "supplier_match_for_product_matching raw accepted =
     (case resolve_effective_supplier raw accepted of Some e \<Rightarrow> Some (ef_partner_match e) | None \<Rightarrow> raw)"

section \<open>Proof of an accepted supplier\<close>

record remediation_effect =
  rf_mode :: string
  rf_resolved_partner_id :: int

datatype accepted_lookup = NO_ACCEPTED_SUPPLIER | PROVEN_SUPPLIER accepted_supplier | UNPROVEN_SUPPLIER supplier_failure

record supplier_ports =
  sp_find_latest_remediation_effect :: "string \<Rightarrow> int \<Rightarrow> (supplier_error, remediation_effect option) result"
  sp_find_by_ids_including_archived :: "int list \<Rightarrow> (supplier_error, partner list) result"
  sp_match_invoice :: "internal_invoice \<Rightarrow> int option \<Rightarrow> (matching_error, partner_match) result"

definition accepted_origin :: "string \<Rightarrow> supplier_origin option" where
  "accepted_origin mode = (case enum_of_value supplier_origin_members supplier_origin_value () mode of
     Inl _ \<Rightarrow> None | Inr origin \<Rightarrow> if origin \<in> set ACCEPTED_ORIGINS then Some origin else None)"

definition lookup_accepted_supplier :: "supplier_ports \<Rightarrow> string \<Rightarrow> int \<Rightarrow> (supplier_error, accepted_lookup) result" where
  "lookup_accepted_supplier ports review_id company_id =
     ebind (sp_find_latest_remediation_effect ports review_id company_id) (\<lambda>found. case found of
       None \<Rightarrow> Inr NO_ACCEPTED_SUPPLIER
     | Some effect \<Rightarrow> let partner_id = rf_resolved_partner_id effect in
         (case accepted_origin (rf_mode effect) of
            None \<Rightarrow> Inr (UNPROVEN_SUPPLIER UNSUPPORTED_RESOLUTION)
          | Some origin \<Rightarrow>
              if partner_id \<le> 0 then Inr (UNPROVEN_SUPPLIER UNSUPPORTED_RESOLUTION)
              else case sp_find_by_ids_including_archived ports [partner_id] of
                Inl _ \<Rightarrow> Inl EffectiveSupplierReadError
              | Inr rows \<Rightarrow>
                  (case filter (\<lambda>p. pr_id p = partner_id) rows of
                     [partner] \<Rightarrow>
                       if canonical_partner_id partner \<noteq> pr_id partner
                       then Inr (UNPROVEN_SUPPLIER (CONTACT_OF_COMMERCIAL_PARTNER (canonical_partner_id partner)))
                       else if pr_company_id partner \<notin> {None, Some company_id}
                       then Inr (UNPROVEN_SUPPLIER PARTNER_OF_OTHER_COMPANY)
                       else ebind (mk_checked accepted_supplier_checks \<lparr>as_origin = origin, as_partner_id = partner_id\<rparr>) (\<lambda>s.
                         Inr (PROVEN_SUPPLIER s))
                   | _ \<Rightarrow> Inr (UNPROVEN_SUPPLIER PARTNER_NOT_IN_ERP))))"

definition resolve_supplier ::
    "supplier_ports \<Rightarrow> string \<Rightarrow> int \<Rightarrow> internal_invoice \<Rightarrow> (supplier_error, (supplier_failure, effective_supplier) result) result" where
  "resolve_supplier ports review_id company_id invoice =
     (case sp_match_invoice ports invoice (Some company_id) of
        Inl _ \<Rightarrow> Inl EffectiveSupplierReadError
      | Inr raw \<Rightarrow> (case resolve_effective_supplier (Some raw) None of
          Some e \<Rightarrow> Inr (Inr e)
        | None \<Rightarrow> ebind (lookup_accepted_supplier ports review_id company_id) (\<lambda>lookup. case lookup of
            UNPROVEN_SUPPLIER failure \<Rightarrow> Inr (Inl failure)
          | NO_ACCEPTED_SUPPLIER \<Rightarrow> Inr (Inl UNRESOLVED_SUPPLIER)
          | PROVEN_SUPPLIER s \<Rightarrow> (case resolve_effective_supplier (Some raw) (Some s) of
              None \<Rightarrow> Inr (Inl UNRESOLVED_SUPPLIER) | Some e \<Rightarrow> Inr (Inr e)))))"

section \<open>What an effective supplier is\<close>

text \<open>The partner of an effective supplier was matched by the invoice's tax number, or is the accepted and proven one.\<close>

definition proven_partner :: "supplier_ports \<Rightarrow> string \<Rightarrow> int \<Rightarrow> int \<Rightarrow> bool" where
  "proven_partner ports review_id company_id i \<longleftrightarrow>
     (\<exists>effect partner rows. sp_find_latest_remediation_effect ports review_id company_id = Inr (Some effect)
       \<and> rf_resolved_partner_id effect = i \<and> 0 < i \<and> rf_mode effect \<in> supplier_origin_value ` set ACCEPTED_ORIGINS
       \<and> sp_find_by_ids_including_archived ports [i] = Inr rows \<and> filter (\<lambda>p. pr_id p = i) rows = [partner]
       \<and> canonical_partner_id partner = i \<and> pr_company_id partner \<in> {None, Some company_id})"

lemma accepted_origin_Some: "accepted_origin mode = Some origin \<longleftrightarrow> origin \<in> set ACCEPTED_ORIGINS \<and> mode = supplier_origin_value origin"
proof (cases "enum_of_value supplier_origin_members supplier_origin_value () mode")
  case (Inl e)
  then have "mode \<noteq> supplier_origin_value origin" using supplier_origin_enum.of_value_value by (metis Inl_Inr_False)
  with Inl show ?thesis by (simp add: accepted_origin_def)
next
  case (Inr o')
  then have "mode = supplier_origin_value o'" by (simp add: supplier_origin_enum.of_value_Inr)
  with Inr show ?thesis by (auto simp: accepted_origin_def supplier_origin_enum.val_inject)
qed

lemma single_partner:
  assumes "(case filter P rows of [partner] \<Rightarrow> f partner | _ \<Rightarrow> Inr (UNPROVEN_SUPPLIER u)) = Inr (PROVEN_SUPPLIER s)"
  obtains partner where "filter P rows = [partner]" "f partner = Inr (PROVEN_SUPPLIER s)"
  using assms by (auto split: list.splits)

lemma lookup_proven:
  assumes "lookup_accepted_supplier ports review_id company_id = Inr (PROVEN_SUPPLIER s)"
  shows "proven_partner ports review_id company_id (as_partner_id s) \<and> as_origin s \<in> set ACCEPTED_ORIGINS"
proof -
  from assms obtain effect where effect: "sp_find_latest_remediation_effect ports review_id company_id = Inr (Some effect)"
    by (auto simp: lookup_accepted_supplier_def ebind_Inr_iff split: option.splits)
  let ?i = "rf_resolved_partner_id effect"
  from assms effect obtain origin where origin: "accepted_origin (rf_mode effect) = Some origin"
    by (auto simp: lookup_accepted_supplier_def Let_def split: option.splits)
  with assms effect have pos: "0 < ?i" by (auto simp: lookup_accepted_supplier_def Let_def split: if_splits)
  with assms effect origin obtain rows where rows: "sp_find_by_ids_including_archived ports [?i] = Inr rows"
    by (auto simp: lookup_accepted_supplier_def Let_def split: sum.splits)
  with assms effect origin pos obtain partner where partner: "filter (\<lambda>p. pr_id p = ?i) rows = [partner]"
    and ok: "canonical_partner_id partner = pr_id partner" "pr_company_id partner \<in> {None, Some company_id}"
      "s = \<lparr>as_origin = origin, as_partner_id = ?i\<rparr>"
    by (auto simp: lookup_accepted_supplier_def Let_def ebind_Inr_iff mk_checked_Inr_iff elim!: single_partner split: if_splits)
  have "pr_id partner = ?i" using arg_cong [OF partner, of set] by auto
  moreover have "origin \<in> set ACCEPTED_ORIGINS" "rf_mode effect = supplier_origin_value origin"
    using origin by (simp_all add: accepted_origin_Some)
  ultimately show ?thesis using effect rows partner ok pos by (auto simp: proven_partner_def)
qed

lemma effective_supplier_is_proven:
  assumes "resolve_supplier ports review_id company_id invoice = Inr (Inr e)"
  shows "(\<exists>raw. sp_match_invoice ports invoice (Some company_id) = Inr raw \<and> pm_status raw = MATCHED
      \<and> pm_partner_id raw = Some (ef_partner_id e) \<and> 0 < ef_partner_id e \<and> \<not> supplier_accepted e)
    \<or> (supplier_accepted e \<and> proven_partner ports review_id company_id (ef_partner_id e))"
proof -
  from assms obtain raw where raw: "sp_match_invoice ports invoice (Some company_id) = Inr raw"
    by (auto simp: resolve_supplier_def split: sum.splits)
  show ?thesis
  proof (cases "raw_matched (Some raw)")
    case (Some i)
    with assms raw have "ef_partner_id e = i" "ef_origin e = SO_DETERMINISTIC"
      by (auto simp: resolve_supplier_def resolve_effective_supplier_def)
    with Some raw show ?thesis by (auto simp: raw_matched_def supplier_accepted_def split: if_splits option.splits)
  next
    case None
    with assms raw obtain l where l: "lookup_accepted_supplier ports review_id company_id = Inr l"
      by (auto simp: resolve_supplier_def resolve_effective_supplier_def ebind_Inr_iff)
    with None assms raw obtain s where s: "l = PROVEN_SUPPLIER s" "ef_partner_id e = as_partner_id s" "ef_origin e = as_origin s"
      by (cases l) (auto simp: resolve_supplier_def resolve_effective_supplier_def)
    have s': "lookup_accepted_supplier ports review_id company_id = Inr (PROVEN_SUPPLIER s)" using l s(1) by simp
    have "proven_partner ports review_id company_id (ef_partner_id e)" "as_origin s \<in> set ACCEPTED_ORIGINS"
      using lookup_proven [OF s'] s(2) by simp_all
    with s(3) show ?thesis by (auto simp: supplier_accepted_def ACCEPTED_ORIGINS_def)
  qed
qed

end
