(* ===== verification/Rule_Engine.thy ===== *)
theory Rule_Engine
  imports Source_Tax Effective_Supplier Expense_Mapping
begin

text \<open>
  The deterministic rule engine, \<^verbatim>\<open>app/application/rules/deterministic.py\<close>, which decides whether an
  invoice may become a vendor bill or needs a manual review, and why. The matchers are its ports; a port
  raises an application error, which passes, or any other exception, which the engine replaces.
\<close>

section \<open>The engine\<close>

datatype engine_error =
    PortApplicationError string
  | PortException "string option"
  | PartnerRuleEvaluationError string
  | ProductRuleEvaluationError string
  | TaxRuleEvaluationError string
  | OperatingExpenseRuleEvaluationError string

record import_command =
  ic_invoice :: internal_invoice
  ic_idempotency_key :: string
  ic_company_id :: "int option"
  ic_dry_run :: bool
  ic_approved_by :: "string option"
  ic_accepted_supplier :: "accepted_supplier option"
  ic_source_tax_assessment :: "tax_assessment option"

record rule_evaluation =
  ev_workflow_decision :: workflow_decision
  ev_partner_match :: "partner_match option"
  ev_product_match :: "invoice_product_match option"
  ev_tax_match :: "tax_mapping_result option"
  ev_expense_match :: "expense_match option"
  ev_warnings :: "string list"
  ev_errors :: "string list"

record rule_engine =
  en_match_partner :: "internal_invoice \<Rightarrow> int option \<Rightarrow> (engine_error, partner_match) result"
  en_match_products :: "internal_invoice \<Rightarrow> int option \<Rightarrow> partner_match option \<Rightarrow> (engine_error, invoice_product_match) result"
  en_map_taxes :: "internal_invoice \<Rightarrow> int option \<Rightarrow> (engine_error, tax_mapping_result) result"
  en_match_expense :: "internal_invoice \<Rightarrow> int option \<Rightarrow> partner_match \<Rightarrow> (engine_error, expense_match) result"
  en_map_exemptions ::
    "internal_invoice \<Rightarrow> tax_mapping_result \<Rightarrow> tax_assessment option \<Rightarrow> int option \<Rightarrow> (engine_error, tax_mapping_result) result"

definition engine_message :: "string option \<Rightarrow> string \<Rightarrow> string" where
  "engine_message message fallback = (case message of Some m \<Rightarrow> if blank m then fallback else m | None \<Rightarrow> fallback)"

definition wrapped :: "(string \<Rightarrow> engine_error) \<Rightarrow> string \<Rightarrow> (engine_error, 'a) result \<Rightarrow> (engine_error, 'a) result" where
  "wrapped error fallback r = (case r of Inl (PortException m) \<Rightarrow> Inl (error (engine_message m fallback)) | _ \<Rightarrow> r)"

section \<open>Reasons\<close>

definition reason ::
    "reason_code \<Rightarrow> string \<Rightarrow> string option \<Rightarrow> nat option \<Rightarrow> nat option \<Rightarrow> string \<Rightarrow> (string \<times> string) list \<Rightarrow> review_reason" where
  "reason code message line_number tax_index candidate_count source details =
     \<lparr>rr_code = code, rr_message = message, rr_line_number = line_number, rr_tax_index = tax_index,
      rr_candidate_count = candidate_count, rr_source = Some source, rr_details = given_details details\<rparr>"

definition join_messages :: "string list \<Rightarrow> string" where
  "join_messages messages = str_join ''; '' (filter (\<lambda>m. \<not> blank m) messages)"

definition or_empty :: "string option \<Rightarrow> string" where
  "or_empty v = (case v of None \<Rightarrow> [] | Some s \<Rightarrow> s)"

definition join_values :: "string option list \<Rightarrow> string" where
  "join_values values = str_join '','' (map or_empty values)"

definition join_keys :: "(string option \<times> nat) list \<Rightarrow> string" where
  "join_keys keys = str_join '','' (map (\<lambda>(n, i). or_empty n @ '':'' @ nat_str i) keys)"

definition return_invoice_reason :: "string \<Rightarrow> review_reason" where
  "return_invoice_reason invoice_type_code = reason RETURN_INVOICE_NOT_SUPPORTED
     ''Return invoice (InvoiceTypeCode IADE) is not a purchase; a Vendor Bill is never created for it.'' None None None
     ''document_type'' [(''invoice_type_code'', invoice_type_code)]"

definition ambiguous_commercial_purchase_reason :: review_reason where
  "ambiguous_commercial_purchase_reason = reason AMBIGUOUS_COMMERCIAL_PURCHASE
     ''Supplier is a registered product source and no line carries a product identifier; it is never treated as an operating expense automatically.''
     None None None ''product_source_supplier'' []"

definition operating_expense_review_reason :: "expense_match \<Rightarrow> review_reason" where
  "operating_expense_review_reason m =
     (if ex_status m = MULTIPLE_MATCHES
      then reason OPERATING_EXPENSE_MAPPING_AMBIGUOUS ''More than one enabled operating-expense mapping exists for this supplier.''
        None None (Some (ex_candidate_count m)) ''operating_expense_matching'' [(''reason'', ex_reason m)]
      else reason OPERATING_EXPENSE_MAPPING_REQUIRED ''No enabled operating-expense mapping is configured for this supplier.''
        None None (Some (ex_candidate_count m)) ''operating_expense_matching'' [(''reason'', ex_reason m)])"

definition partner_review_reasons :: "partner_match \<Rightarrow> review_reason list" where
  "partner_review_reasons r =
     (if pm_status r = MATCHED \<and> pm_partner_id r \<noteq> None then []
      else if pm_status r = NOT_FOUND
      then [reason SUPPLIER_NOT_FOUND ''Supplier was not matched deterministically.'' None None (Some (pm_candidate_count r))
        ''partner_matching'' [(''matched_by'', or_empty (pm_matched_by r)), (''reason'', pm_reason r)]]
      else if pm_status r = MULTIPLE_MATCHES
      then [reason SUPPLIER_AMBIGUOUS ''Supplier match is ambiguous.'' None None (Some (pm_candidate_count r))
        ''partner_matching'' [(''reason'', pm_reason r)]]
      else if substring ''tax number'' (py_lower (pm_reason r))
      then [reason SUPPLIER_TAX_NUMBER_MISSING ''Supplier tax number is missing or invalid.'' None None (Some (pm_candidate_count r))
        ''partner_matching'' [(''reason'', pm_reason r)]]
      else [reason UNSUPPORTED_INVOICE_CONTENT ''Supplier content is not supported by deterministic review rules.'' None None
        (Some (pm_candidate_count r)) ''partner_matching'' [(''reason'', pm_reason r)]])"

definition product_line_reasons :: "product_line_match \<Rightarrow> review_reason list" where
  "product_line_reasons l =
     (let m = lm_result l;
          line_reason = (\<lambda>code message. reason code message (lm_line_number l) None (Some (dm_candidate_count m)) ''product_matching''
            [(''reason'', dm_reason m)]) in
      if dm_status m = MATCHED \<and> dm_product_id m \<noteq> None then []
      else if dm_status m = NOT_FOUND then [line_reason PRODUCT_NOT_FOUND ''Product was not matched deterministically.'']
      else if dm_status m = MULTIPLE_MATCHES then [line_reason PRODUCT_AMBIGUOUS ''Product match is ambiguous.'']
      else [line_reason (if substring ''identifier'' (py_lower (dm_reason m)) then PRODUCT_IDENTIFIER_MISSING else UNSUPPORTED_INVOICE_CONTENT)
        ''Product identifier is missing or invoice line content is unsupported.''])"

definition product_review_reasons :: "internal_invoice \<Rightarrow> invoice_product_match \<Rightarrow> review_reason list" where
  "product_review_reasons invoice r =
     (let invoice_line_numbers = map ln_line_number (iv_lines invoice); result_line_numbers = map lm_line_number (im_line_results r) in
      (if im_errors r \<noteq> []
       then [reason UNSUPPORTED_INVOICE_CONTENT ''Product matching could not evaluate invoice content deterministically.'' None None None
         ''product_matching'' [(''errors'', join_messages (im_errors r))]] else [])
      @ (if result_line_numbers \<noteq> invoice_line_numbers
         then [reason PRODUCT_MAPPING_INCOMPLETE ''Product matching result is incomplete for invoice lines.'' None None None
           ''product_matching'' [(''expected_line_numbers'', join_values invoice_line_numbers),
             (''result_line_numbers'', join_values result_line_numbers)]] else [])
      @ concat (map product_line_reasons (im_line_results r)))"

definition tax_line_reasons :: "tax_line_result \<Rightarrow> review_reason list" where
  "tax_line_reasons l =
     (let m = tl_result l;
          line_reason = (\<lambda>code message. reason code message (tl_line_number l) (Some (tl_tax_index l)) (Some (tr_candidate_count m)) ''tax_mapping''
            [(''reason'', tr_reason m)]) in
      if tr_status m = TX_MATCHED \<and> tr_tax_id m \<noteq> None then []
      else if tr_status m = TX_NOT_FOUND then [line_reason TAX_NOT_FOUND ''Tax was not mapped deterministically.'']
      else if tr_status m = TX_MULTIPLE_MATCHES then [line_reason TAX_AMBIGUOUS ''Tax mapping is ambiguous.'']
      else [line_reason UNSUPPORTED_INVOICE_CONTENT ''Tax content is not supported by deterministic review rules.''])"

definition result_tax_keys :: "tax_mapping_result \<Rightarrow> (string option \<times> nat) list" where
  "result_tax_keys r = map (\<lambda>l. (tl_line_number l, tl_tax_index l)) (tm_line_results r)"

definition tax_review_reasons :: "internal_invoice \<Rightarrow> tax_mapping_result \<Rightarrow> review_reason list" where
  "tax_review_reasons invoice r =
     (let expected_keys = canonical_keys invoice; result_keys = result_tax_keys r in
      (if tm_errors r \<noteq> []
       then [reason TAX_MAPPING_INCOMPLETE ''Tax mapping result is incomplete for invoice taxes.'' None None None
         ''tax_mapping'' [(''errors'', join_messages (tm_errors r))]] else [])
      @ (if tm_errors r = [] \<and> result_keys \<noteq> expected_keys
         then [reason TAX_MAPPING_INCOMPLETE ''Tax mapping result is incomplete for invoice taxes.'' None None None
           ''tax_mapping'' [(''expected_tax_keys'', join_keys expected_keys), (''result_tax_keys'', join_keys result_keys)]] else [])
      @ concat (map tax_line_reasons (tm_line_results r)))"

definition source_tax_reasons :: "import_command \<Rightarrow> review_reason list" where
  "source_tax_reasons command = (case ic_source_tax_assessment command of
     None \<Rightarrow> if ic_dry_run command then [] else source_tax_review_reasons (Unverified FACTS_NOT_SUPPLIED)
   | Some assessment \<Rightarrow> source_tax_review_reasons assessment)"

definition manual_review_reasons ::
    "review_reason list \<Rightarrow> review_reason list \<Rightarrow> review_reason list \<Rightarrow> bool \<Rightarrow> bool \<Rightarrow> expense_match \<Rightarrow> review_reason list" where
  "manual_review_reasons partner_reasons product_reasons tax_reasons identifier_free tax_ok m =
     (if identifier_free \<and> tax_ok
      then partner_reasons @ (if ex_status m = MATCHED then [] else [operating_expense_review_reason m]) @ tax_reasons
      else partner_reasons @ product_reasons @ tax_reasons)"

section \<open>Decisions\<close>

definition DIRECT_VENDOR_BILL_RULE_ID :: string where
  "DIRECT_VENDOR_BILL_RULE_ID = ''RULE-DIRECT-VENDOR-BILL-001''"

definition OPERATING_EXPENSE_VENDOR_BILL_RULE_ID :: string where
  "OPERATING_EXPENSE_VENDOR_BILL_RULE_ID = ''RULE-OPERATING-EXPENSE-VENDOR-BILL-001''"

definition MANUAL_REVIEW_RULE_ID :: string where
  "MANUAL_REVIEW_RULE_ID = ''RULE-MANUAL-REVIEW-001''"

definition DIRECT_VENDOR_BILL_EXPLANATION :: string where
  "DIRECT_VENDOR_BILL_EXPLANATION = ''Supplier, products and taxes matched deterministically; Vendor Bill workflow selected.''"

definition OPERATING_EXPENSE_VENDOR_BILL_EXPLANATION :: string where
  "OPERATING_EXPENSE_VENDOR_BILL_EXPLANATION =
     ''Supplier and taxes matched deterministically; explicit operating-expense mapping selected the Vendor Bill workflow.''"

definition MANUAL_REVIEW_EXPLANATION :: string where
  "MANUAL_REVIEW_EXPLANATION = ''Deterministic business mismatch requires Manual Review.''"

definition PRODUCT_SOURCE_SUPPLIER_EXPENSE_MATCH :: expense_match where
  "PRODUCT_SOURCE_SUPPLIER_EXPENSE_MATCH =
     \<lparr>ex_status = NOT_FOUND,
      ex_reason = ''Supplier-wide operating-expense mappings never apply to a registered product-source supplier.'',
      ex_candidate_count = 0, ex_mapping_id = None, ex_company_id = None, ex_vendor_partner_id = None, ex_expense_account_id = None,
      ex_expense_category = None, ex_matched_by = None, ex_confidence = None\<rparr>"

definition vendor_bill_decision :: "string \<Rightarrow> string \<Rightarrow> workflow_decision" where
  "vendor_bill_decision rule_id explanation =
     \<lparr>wd_workflow = WF_VENDOR_BILL, wd_matched_rule = Some rule_id, wd_explanation = Some explanation, wd_manual_review = None,
      wd_warnings = [], wd_errors = []\<rparr>"

definition manual_review_decision_of :: "review_reason list \<Rightarrow> workflow_decision" where
  "manual_review_decision_of reasons =
     \<lparr>wd_workflow = WF_MANUAL_REVIEW, wd_matched_rule = Some MANUAL_REVIEW_RULE_ID, wd_explanation = Some MANUAL_REVIEW_EXPLANATION,
      wd_manual_review = Some \<lparr>mr_reasons = reasons,
        mr_summary = nat_str (length reasons) @ '' deterministic review reason(s) require manual review.'', mr_warnings = []\<rparr>,
      wd_warnings = [], wd_errors = []\<rparr>"

definition decided ::
    "import_command \<Rightarrow> partner_match \<Rightarrow> invoice_product_match \<Rightarrow> tax_mapping_result \<Rightarrow> expense_match \<Rightarrow> workflow_decision" where
  "decided command partner product tax expense =
     (let invoice = ic_invoice command;
          ambiguous_commercial = invoice_is_ambiguous_commercial_purchase invoice;
          partner_reasons = partner_review_reasons partner;
          product_reasons = product_review_reasons invoice product;
          tax_reasons = tax_review_reasons invoice tax in
      case return_invoice_type_code invoice of
        Some code \<Rightarrow> manual_review_decision_of [return_invoice_reason code]
      | None \<Rightarrow>
          let partner_ok = partner_reasons = []; product_ok = product_reasons = []; tax_ok = tax_reasons = [];
              identifier_free = invoice_is_product_identifier_free invoice;
              expense_matched = ex_status expense = MATCHED;
              source_reasons = source_tax_reasons command in
          if partner_ok \<and> product_ok \<and> tax_ok \<and> source_reasons = []
          then vendor_bill_decision DIRECT_VENDOR_BILL_RULE_ID DIRECT_VENDOR_BILL_EXPLANATION
          else if partner_ok \<and> tax_ok \<and> identifier_free \<and> expense_matched \<and> \<not> ambiguous_commercial \<and> source_reasons = []
          then vendor_bill_decision OPERATING_EXPENSE_VENDOR_BILL_RULE_ID OPERATING_EXPENSE_VENDOR_BILL_EXPLANATION
          else
            let review_reasons = manual_review_reasons partner_reasons product_reasons tax_reasons identifier_free tax_ok expense;
                review_reasons = (if ambiguous_commercial then ambiguous_commercial_purchase_reason # review_reasons else review_reasons) in
            manual_review_decision_of (source_reasons @ review_reasons))"

definition evaluate :: "rule_engine \<Rightarrow> import_command \<Rightarrow> (engine_error, rule_evaluation) result" where
  "evaluate engine command =
     (let invoice = ic_invoice command; company_id = ic_company_id command in
      ebind (wrapped PartnerRuleEvaluationError ''Supplier matching failed.'' (en_match_partner engine invoice company_id)) (\<lambda>partner.
      ebind (wrapped ProductRuleEvaluationError ''Product matching failed.''
        (en_match_products engine invoice company_id (supplier_match_for_product_matching (Some partner) (ic_accepted_supplier command)))) (\<lambda>product.
      ebind (wrapped TaxRuleEvaluationError ''Tax mapping failed.'' (en_map_taxes engine invoice company_id)) (\<lambda>mapped.
      ebind (wrapped TaxRuleEvaluationError ''VAT exemption mapping failed.''
        (en_map_exemptions engine invoice mapped (ic_source_tax_assessment command) company_id)) (\<lambda>tax.
      ebind (if invoice_is_ambiguous_commercial_purchase invoice then Inr PRODUCT_SOURCE_SUPPLIER_EXPENSE_MATCH
             else wrapped OperatingExpenseRuleEvaluationError ''Operating-expense matching failed.''
               (en_match_expense engine invoice company_id partner)) (\<lambda>expense.
      Inr \<lparr>ev_workflow_decision = decided command partner product tax expense, ev_partner_match = Some partner,
        ev_product_match = Some product, ev_tax_match = Some tax, ev_expense_match = Some expense,
        ev_warnings = im_warnings product @ tm_warnings tax, ev_errors = []\<rparr>))))))"

section \<open>When a vendor bill is selected\<close>

definition partner_settled :: "partner_match \<Rightarrow> bool" where
  "partner_settled r \<longleftrightarrow> pm_status r = MATCHED \<and> pm_partner_id r \<noteq> None"

definition products_settled :: "internal_invoice \<Rightarrow> invoice_product_match \<Rightarrow> bool" where
  "products_settled invoice r \<longleftrightarrow> im_errors r = [] \<and> map lm_line_number (im_line_results r) = map ln_line_number (iv_lines invoice)
     \<and> (\<forall>l \<in> set (im_line_results r). dm_status (lm_result l) = MATCHED \<and> dm_product_id (lm_result l) \<noteq> None)"

definition taxes_settled :: "internal_invoice \<Rightarrow> tax_mapping_result \<Rightarrow> bool" where
  "taxes_settled invoice r \<longleftrightarrow> tm_errors r = [] \<and> result_tax_keys r = canonical_keys invoice
     \<and> (\<forall>l \<in> set (tm_line_results r). tr_status (tl_result l) = TX_MATCHED \<and> tr_tax_id (tl_result l) \<noteq> None)"

text \<open>The document's taxes allow a bill; without an assessment, only a dry run may go on.\<close>

definition source_settled :: "import_command \<Rightarrow> bool" where
  "source_settled command \<longleftrightarrow> (case ic_source_tax_assessment command of
     None \<Rightarrow> ic_dry_run command
   | Some (Unverified _) \<Rightarrow> False
   | Some (Verified facts) \<Rightarrow> \<not> has_withholding facts \<and> \<not> has_unsupported_tax_content facts)"

definition expense_settled :: "internal_invoice \<Rightarrow> expense_match \<Rightarrow> bool" where
  "expense_settled invoice m \<longleftrightarrow> invoice_is_product_identifier_free invoice \<and> \<not> is_product_source_supplier invoice \<and> ex_status m = MATCHED"

lemma partner_reasons_Nil [simp]: "partner_review_reasons r = [] \<longleftrightarrow> partner_settled r"
  by (auto simp: partner_review_reasons_def partner_settled_def)

lemma product_line_reasons_Nil: "product_line_reasons l = [] \<longleftrightarrow> dm_status (lm_result l) = MATCHED \<and> dm_product_id (lm_result l) \<noteq> None"
  by (auto simp: product_line_reasons_def Let_def)

lemma product_reasons_Nil [simp]: "product_review_reasons invoice r = [] \<longleftrightarrow> products_settled invoice r"
  by (auto simp: product_review_reasons_def products_settled_def Let_def product_line_reasons_Nil)

lemma tax_line_reasons_Nil: "tax_line_reasons l = [] \<longleftrightarrow> tr_status (tl_result l) = TX_MATCHED \<and> tr_tax_id (tl_result l) \<noteq> None"
  by (auto simp: tax_line_reasons_def Let_def)

lemma tax_reasons_Nil [simp]: "tax_review_reasons invoice r = [] \<longleftrightarrow> taxes_settled invoice r"
  by (auto simp: tax_review_reasons_def taxes_settled_def Let_def tax_line_reasons_Nil)

lemma source_reasons_Nil [simp]: "source_tax_reasons command = [] \<longleftrightarrow> source_settled command"
  by (auto simp: source_tax_reasons_def source_settled_def split: option.splits tax_assessment.splits)

lemma decisions_workflow [simp]:
  "wd_workflow (vendor_bill_decision i e) = WF_VENDOR_BILL" "wd_workflow (manual_review_decision_of rs) = WF_MANUAL_REVIEW"
  "wd_manual_review (vendor_bill_decision i e) = None"
  "(\<exists>d. wd_manual_review (manual_review_decision_of rs) = Some d \<and> mr_reasons d \<noteq> []) \<longleftrightarrow> rs \<noteq> []"
  by (simp_all add: vendor_bill_decision_def manual_review_decision_of_def)

definition bill_allowed ::
    "import_command \<Rightarrow> partner_match \<Rightarrow> invoice_product_match \<Rightarrow> tax_mapping_result \<Rightarrow> expense_match \<Rightarrow> bool" where
  "bill_allowed command partner product tax expense \<longleftrightarrow>
     \<not> is_return_invoice (ic_invoice command) \<and> partner_settled partner \<and> taxes_settled (ic_invoice command) tax \<and> source_settled command
     \<and> (products_settled (ic_invoice command) product \<or> expense_settled (ic_invoice command) expense)"

lemma decided_workflow:
  "if bill_allowed command partner product tax expense
   then wd_workflow (decided command partner product tax expense) = WF_VENDOR_BILL
     \<and> wd_matched_rule (decided command partner product tax expense)
       = Some (if products_settled (ic_invoice command) product then DIRECT_VENDOR_BILL_RULE_ID else OPERATING_EXPENSE_VENDOR_BILL_RULE_ID)
   else \<exists>rs. decided command partner product tax expense = manual_review_decision_of rs \<and> rs \<noteq> []"
proof (cases "return_invoice_type_code (ic_invoice command)")
  case (Some code)
  then have "decided command partner product tax expense = manual_review_decision_of [return_invoice_reason code]"
    by (simp add: decided_def Let_def)
  moreover have "\<not> bill_allowed command partner product tax expense" using Some by (simp add: bill_allowed_def is_return_invoice_def)
  ultimately show ?thesis by auto
next
  case None
  have ambiguous: "\<not> invoice_is_ambiguous_commercial_purchase (ic_invoice command) \<and> invoice_is_product_identifier_free (ic_invoice command)
      \<and> ex_status expense = MATCHED \<longleftrightarrow> expense_settled (ic_invoice command) expense"
    by (auto simp: expense_settled_def invoice_is_ambiguous_commercial_purchase_def)
  show ?thesis
  proof (cases "bill_allowed command partner product tax expense")
    case True
    with None ambiguous show ?thesis by (auto simp: bill_allowed_def decided_def Let_def vendor_bill_decision_def)
  next
    case False
    define review where "review = manual_review_reasons (partner_review_reasons partner) (product_review_reasons (ic_invoice command) product)
      (tax_review_reasons (ic_invoice command) tax) (invoice_is_product_identifier_free (ic_invoice command))
      (taxes_settled (ic_invoice command) tax) expense"
    define rs where "rs = source_tax_reasons command @ (if invoice_is_ambiguous_commercial_purchase (ic_invoice command)
      then ambiguous_commercial_purchase_reason # review else review)"
    have "decided command partner product tax expense = manual_review_decision_of rs"
      using False None ambiguous by (auto simp: bill_allowed_def is_return_invoice_def decided_def Let_def rs_def review_def)
    moreover have "rs \<noteq> []"
      using False None ambiguous
      by (auto simp: bill_allowed_def is_return_invoice_def rs_def review_def manual_review_reasons_def)
    ultimately show ?thesis using False by auto
  qed
qed

text \<open>
  C6. Whatever the matchers answer, the engine selects the vendor bill workflow exactly when the invoice is
  not a return, its supplier is matched, every tax of every line is mapped, the verified document declares
  neither withholding nor another tax (or there is no assessment and the run is dry), and either every line
  is matched to a product or no line carries a product identifier, the supplier is not a registered source
  of products and an expense mapping applies. In every other case the decision is a manual review that
  gives at least one reason. The results of the matchers are handed on unchanged.
\<close>

theorem vendor_bill_selected:
  assumes "evaluate engine command = Inr res"
  shows "\<exists>partner product tax expense. ev_partner_match res = Some partner \<and> ev_product_match res = Some product
    \<and> ev_tax_match res = Some tax \<and> ev_expense_match res = Some expense
    \<and> en_match_partner engine (ic_invoice command) (ic_company_id command) = Inr partner
    \<and> en_match_products engine (ic_invoice command) (ic_company_id command)
        (supplier_match_for_product_matching (Some partner) (ic_accepted_supplier command)) = Inr product
    \<and> (if bill_allowed command partner product tax expense
       then wd_workflow (ev_workflow_decision res) = WF_VENDOR_BILL
       else wd_workflow (ev_workflow_decision res) = WF_MANUAL_REVIEW
         \<and> (\<exists>d. wd_manual_review (ev_workflow_decision res) = Some d \<and> mr_reasons d \<noteq> []))"
proof -
  have wrapped_Inr: "r = Inr y" if "wrapped error fallback r = Inr y" for error fallback and r :: "(engine_error, 'b) result" and y
    using that by (auto simp: wrapped_def split: sum.splits engine_error.splits)
  from assms obtain partner product mapped tax expense where
    "en_match_partner engine (ic_invoice command) (ic_company_id command) = Inr partner"
    "en_match_products engine (ic_invoice command) (ic_company_id command)
       (supplier_match_for_product_matching (Some partner) (ic_accepted_supplier command)) = Inr product"
    "ev_partner_match res = Some partner" "ev_product_match res = Some product" "ev_tax_match res = Some tax"
    "ev_expense_match res = Some expense" "ev_workflow_decision res = decided command partner product tax expense"
    by (auto simp: evaluate_def ebind_Inr_iff Let_def dest!: wrapped_Inr)
  with decided_workflow [of command partner product tax expense] show ?thesis by (auto split: if_splits)
qed

definition example_engine :: "expense_match \<Rightarrow> rule_engine" where
  "example_engine expense =
     \<lparr>en_match_partner = (\<lambda>_ _. Inr (partner_result MATCHED (Some 501) (Some ''tax_number'') ''ok'' 1 None)),
      en_match_products = (\<lambda>_ _ _. Inr \<lparr>im_line_results = [], im_warnings = [], im_errors = [''no identifier'']\<rparr>),
      en_map_taxes = (\<lambda>invoice company. Inr \<lparr>tm_line_results = [\<lparr>tl_line_number = Some ''1'', tl_tax_index = 0,
        tl_result = exemption_match_result ''335'' 7 company\<rparr>], tm_warnings = [], tm_errors = []\<rparr>),
      en_match_expense = (\<lambda>_ _ _. Inr expense), en_map_exemptions = (\<lambda>_ tax _ _. Inr tax)\<rparr>"

definition example_command :: "bool \<Rightarrow> import_command" where
  "example_command dry_run = \<lparr>ic_invoice = exempt_invoice, ic_idempotency_key = ''k'', ic_company_id = Some 1, ic_dry_run = dry_run,
     ic_approved_by = None, ic_accepted_supplier = None, ic_source_tax_assessment = None\<rparr>"

definition matched_expense :: expense_match where
  "matched_expense = PRODUCT_SOURCE_SUPPLIER_EXPENSE_MATCH\<lparr>ex_status := MATCHED, ex_reason := ''mapped'', ex_mapping_id := Some 1,
     ex_expense_account_id := Some 9, ex_expense_category := Some ''FUEL''\<rparr>"

lemma example_evaluated:
  "map_option (\<lambda>r. (wd_workflow (ev_workflow_decision r), ev_expense_match r))
     (case evaluate (example_engine matched_expense) (example_command True) of Inl _ \<Rightarrow> None | Inr r \<Rightarrow> Some r)
   = Some (WF_VENDOR_BILL, Some matched_expense)"
  by code_simp

theorem vendor_bill_selected_witness:
  "\<exists>res partner product tax. evaluate (example_engine matched_expense) (example_command True) = Inr res
     \<and> wd_workflow (ev_workflow_decision res) = WF_VENDOR_BILL \<and> bill_allowed (example_command True) partner product tax matched_expense"
proof -
  from example_evaluated obtain res where res: "evaluate (example_engine matched_expense) (example_command True) = Inr res"
    "wd_workflow (ev_workflow_decision res) = WF_VENDOR_BILL" "ev_expense_match res = Some matched_expense"
    by (auto split: sum.splits)
  from vendor_bill_selected [OF res(1)] res show ?thesis by (auto split: if_splits)
qed

end
