(* ===== verification/Classification.thy ===== *)
theory Classification
  imports Exec_Contracts Expense_Mapping "HOL-Library.Product_Lexorder"
begin

text \<open>
  The classification rules: \<^verbatim>\<open>app/application/rules/contracts.py\<close>, \<^verbatim>\<open>classification.py\<close> and
  \<^verbatim>\<open>classification_context.py\<close>. A rule states conditions on an invoice and an action; the engine
  takes the matching rules of the best precedence and selects an action only if they agree on it.
  The constructors normalise their texts, so each is a function to the normalised record. Upper and
  lower case are exact on ASCII text.
\<close>

section \<open>Normalisation of texts\<close>

datatype rule_error = InvoiceDecisionRuleContractError string

abbreviation contract_error :: "string \<Rightarrow> (rule_error, 'a) result" where
  "contract_error message \<equiv> Inl (InvoiceDecisionRuleContractError message)"

definition MAX_RULE_CODE_LENGTH :: nat where "MAX_RULE_CODE_LENGTH = 120"

definition MAX_RULE_NAME_LENGTH :: nat where "MAX_RULE_NAME_LENGTH = 200"

definition MAX_RULE_TEXT_LENGTH :: nat where "MAX_RULE_TEXT_LENGTH = 500"

definition require_positive_int :: "int \<Rightarrow> string \<Rightarrow> (rule_error, unit) result" where
  "require_positive_int value message = (if value \<le> 0 then contract_error message else Inr ())"

definition require_non_negative_int :: "int \<Rightarrow> string \<Rightarrow> (rule_error, unit) result" where
  "require_non_negative_int value message = (if value < 0 then contract_error message else Inr ())"

definition require_optional_positive_int :: "int option \<Rightarrow> string \<Rightarrow> (rule_error, unit) result" where
  "require_optional_positive_int value message = (case value of None \<Rightarrow> Inr () | Some v \<Rightarrow> require_positive_int v message)"

definition required_text :: "string \<Rightarrow> string \<Rightarrow> nat \<Rightarrow> (rule_error, string) result" where
  "required_text value field_name max_length =
     (if blank value then contract_error (field_name @ '' is required.'')
      else let cleaned = py_strip value in
        if max_length < length cleaned then contract_error (field_name @ '' exceeds maximum length.'') else Inr cleaned)"

definition optional_by :: "('a \<Rightarrow> (rule_error, 'b) result) \<Rightarrow> 'a option \<Rightarrow> (rule_error, 'b option) result" where
  "optional_by f v = (case v of None \<Rightarrow> Inr None | Some x \<Rightarrow> ebind (f x) (\<lambda>y. Inr (Some y)))"

definition optional_text :: "string option \<Rightarrow> string \<Rightarrow> (rule_error, string option) result" where
  "optional_text value field_name = optional_by (\<lambda>v. required_text v field_name MAX_RULE_TEXT_LENGTH) value"

definition optional_currency :: "string option \<Rightarrow> (rule_error, string option) result" where
  "optional_currency value = optional_by (\<lambda>v.
     ebind (required_text v ''currency'' 3) (\<lambda>t. let cleaned = py_upper t in
       if length cleaned \<noteq> 3 \<or> \<not> py_isalpha cleaned then contract_error ''currency must be a canonical ISO-4217 code.'' else Inr cleaned)) value"

text \<open>\<^verbatim>\<open>^[A-Z][A-Z0-9_]{0,63}$\<close> with \<^verbatim>\<open>fullmatch\<close>: nothing may follow the last character.\<close>

definition fullmatches_classification_code :: "string \<Rightarrow> bool" where
  "fullmatches_classification_code s =
     (case s of [] \<Rightarrow> False | c # cs \<Rightarrow> ascii_upper c \<and> list_all category_char cs \<and> length cs \<le> 63)"

definition optional_classification_code :: "string option \<Rightarrow> (rule_error, string option) result" where
  "optional_classification_code value = optional_by (\<lambda>v.
     ebind (required_text v ''classification_code'' 64) (\<lambda>t. let cleaned = py_upper t in
       if \<not> fullmatches_classification_code cleaned
       then contract_error ''classification_code must match [A-Z][A-Z0-9_]{0,63} when supplied.'' else Inr cleaned)) value"

definition canonical_text_tuple :: "string list \<Rightarrow> string \<Rightarrow> bool \<Rightarrow> (rule_error, string list) result" where
  "canonical_text_tuple values field_name lower =
     ebind (emap (\<lambda>v. ebind (required_text v field_name MAX_RULE_TEXT_LENGTH) (\<lambda>t. Inr (if lower then py_lower t else py_upper t))) values) (\<lambda>cleaned.
       if length (remdups cleaned) \<noteq> length cleaned then contract_error (field_name @ '' values must be unique.'')
       else Inr (sort cleaned))"

section \<open>Rules\<close>

record rule_priority =
  rp_tier :: int
  rp_rank :: int

definition mk_rule_priority :: "int \<Rightarrow> int \<Rightarrow> (rule_error, rule_priority) result" where
  "mk_rule_priority tier rank =
     ebind (require_non_negative_int tier ''priority tier must be a non-negative integer.'') (\<lambda>_.
     ebind (require_non_negative_int rank ''priority rank must be a non-negative integer.'') (\<lambda>_.
     Inr \<lparr>rp_tier = tier, rp_rank = rank\<rparr>))"

definition priority_sort_key :: "rule_priority \<Rightarrow> int \<times> int" where
  "priority_sort_key p = (rp_tier p, rp_rank p)"

record rule_match =
  rm_company_id :: "int option"
  rm_vendor_partner_id :: "int option"
  rm_vendor_tax_id :: "string option"
  rm_currency :: "string option"
  rm_provider_document_type :: "string option"
  rm_purchase_order_present :: "bool option"
  rm_description_contains :: "string list"
  rm_product_mapping_id :: "int option"

definition mk_rule_match :: "rule_match \<Rightarrow> (rule_error, rule_match) result" where
  "mk_rule_match m =
     ebind (require_optional_positive_int (rm_company_id m) ''company_id must be a positive integer when supplied.'') (\<lambda>_.
     ebind (require_optional_positive_int (rm_vendor_partner_id m) ''vendor_partner_id must be a positive integer when supplied.'') (\<lambda>_.
     ebind (require_optional_positive_int (rm_product_mapping_id m) ''product_mapping_id must be a positive integer when supplied.'') (\<lambda>_.
     ebind (optional_text (rm_vendor_tax_id m) ''vendor_tax_id'') (\<lambda>vendor_tax_id.
     ebind (optional_currency (rm_currency m)) (\<lambda>currency.
     ebind (optional_text (rm_provider_document_type m) ''provider_document_type'') (\<lambda>provider_document_type.
     ebind (canonical_text_tuple (rm_description_contains m) ''description_contains'' True) (\<lambda>description_contains.
     Inr (m\<lparr>rm_vendor_tax_id := vendor_tax_id, rm_currency := currency, rm_provider_document_type := provider_document_type,
       rm_description_contains := description_contains\<rparr>))))))))"

definition specificity :: "rule_match \<Rightarrow> int" where
  "specificity m = sum_list (map of_bool
     [rm_company_id m \<noteq> None, rm_vendor_partner_id m \<noteq> None, rm_vendor_tax_id m \<noteq> None, rm_currency m \<noteq> None,
      rm_provider_document_type m \<noteq> None, rm_purchase_order_present m \<noteq> None, rm_description_contains m \<noteq> [],
      rm_product_mapping_id m \<noteq> None])"

text \<open>The fingerprints are the tuples of all fields in order; two are equal exactly when the records are.\<close>

type_synonym match_tuple =
  "int option \<times> int option \<times> string option \<times> string option \<times> string option \<times> bool option \<times> string list \<times> int option"

definition match_fingerprint :: "rule_match \<Rightarrow> match_tuple" where
  "match_fingerprint m = (rm_company_id m, rm_vendor_partner_id m, rm_vendor_tax_id m, rm_currency m, rm_provider_document_type m,
     rm_purchase_order_present m, rm_description_contains m, rm_product_mapping_id m)"

record rule_action =
  ra_workflow :: "workflow_type option"
  ra_classification_code :: "string option"
  ra_default_department_id :: "int option"
  ra_default_analytic_account_id :: "int option"
  ra_require_review :: bool
  ra_require_business_context :: bool

definition mk_rule_action :: "rule_action \<Rightarrow> (rule_error, rule_action) result" where
  "mk_rule_action a =
     ebind (optional_classification_code (ra_classification_code a)) (\<lambda>classification_code.
     ebind (require_optional_positive_int (ra_default_department_id a) ''default_department_id must be a positive integer when supplied.'') (\<lambda>_.
     ebind (require_optional_positive_int (ra_default_analytic_account_id a)
       ''default_analytic_account_id must be a positive integer when supplied.'') (\<lambda>_.
     if ra_workflow a = None \<and> classification_code = None \<and> ra_default_department_id a = None
        \<and> ra_default_analytic_account_id a = None \<and> \<not> ra_require_review a \<and> \<not> ra_require_business_context a
     then contract_error ''at least one rule action value is required.''
     else Inr (a\<lparr>ra_classification_code := classification_code\<rparr>))))"

definition action_fingerprint ::
    "rule_action \<Rightarrow> workflow_type option \<times> string option \<times> int option \<times> int option \<times> bool \<times> bool" where
  "action_fingerprint a = (ra_workflow a, ra_classification_code a, ra_default_department_id a, ra_default_analytic_account_id a,
     ra_require_review a, ra_require_business_context a)"

record decision_rule =
  dr_rule_id :: string
  dr_rule_code :: string
  dr_rule_version :: int
  dr_name :: string
  dr_enabled :: bool
  dr_priority :: rule_priority
  dr_match :: rule_match
  dr_action :: rule_action

definition mk_decision_rule :: "decision_rule \<Rightarrow> (rule_error, decision_rule) result" where
  "mk_decision_rule r =
     ebind (required_text (dr_rule_id r) ''rule_id'' MAX_RULE_CODE_LENGTH) (\<lambda>rule_id.
     ebind (required_text (dr_rule_code r) ''rule_code'' MAX_RULE_CODE_LENGTH) (\<lambda>rule_code.
     ebind (require_positive_int (dr_rule_version r) ''rule_version must be a positive integer.'') (\<lambda>_.
     ebind (required_text (dr_name r) ''name'' MAX_RULE_NAME_LENGTH) (\<lambda>name.
     Inr (r\<lparr>dr_rule_id := rule_id, dr_rule_code := py_upper rule_code, dr_name := name\<rparr>)))))"

definition precedence_key :: "decision_rule \<Rightarrow> int \<times> int \<times> int \<times> string \<times> int" where
  "precedence_key r = (- specificity (dr_match r), rp_tier (dr_priority r), rp_rank (dr_priority r), dr_rule_code r, dr_rule_version r)"

definition is_behaviorally_equivalent_to :: "decision_rule \<Rightarrow> decision_rule \<Rightarrow> bool" where
  "is_behaviorally_equivalent_to r other \<longleftrightarrow>
     (match_fingerprint (dr_match r), action_fingerprint (dr_action r)) = (match_fingerprint (dr_match other), action_fingerprint (dr_action other))"

section \<open>Conflicts between rules\<close>

record rule_conflict =
  rc_rule_codes :: "string list"
  rc_match_fingerprint :: match_tuple

definition mk_rule_conflict :: "string list \<Rightarrow> match_tuple \<Rightarrow> (rule_error, rule_conflict) result" where
  "mk_rule_conflict rule_codes m =
     ebind (canonical_text_tuple rule_codes ''rule_codes'' False) (\<lambda>codes.
       if length codes < 2 then contract_error ''conflict requires at least two rule codes.''
       else Inr \<lparr>rc_rule_codes = codes, rc_match_fingerprint = m\<rparr>)"

definition order_invoice_decision_rules :: "decision_rule list \<Rightarrow> decision_rule list" where
  "order_invoice_decision_rules rules = sort_key precedence_key (filter dr_enabled rules)"

text \<open>The buckets of a dict: keys in the order of their first rule, each with its rules in order.\<close>

definition bucket_key :: "decision_rule \<Rightarrow> (int \<times> int) \<times> match_tuple" where
  "bucket_key r = (priority_sort_key (dr_priority r), match_fingerprint (dr_match r))"

definition rule_buckets :: "decision_rule list \<Rightarrow> decision_rule list list" where
  "rule_buckets rules = (let enabled = filter dr_enabled rules in
     map (\<lambda>k. filter (\<lambda>r. bucket_key r = k) enabled) (rev (remdups (rev (map bucket_key enabled)))))"

definition find_invoice_decision_rule_conflicts :: "decision_rule list \<Rightarrow> (rule_error, rule_conflict list) result" where
  "find_invoice_decision_rule_conflicts rules =
     ebind (emap (\<lambda>bucket. mk_rule_conflict (map dr_rule_code (sort_key dr_rule_code bucket)) (match_fingerprint (dr_match (hd bucket))))
       (filter (\<lambda>bucket. 1 < length (remdups (map (\<lambda>r. action_fingerprint (dr_action r)) bucket))) (rule_buckets rules))) (\<lambda>conflicts.
     Inr (sort_key rc_rule_codes conflicts))"

section \<open>Results\<close>

datatype classification_status = CL_MATCHED | CL_NO_MATCH | CL_CONFLICT | CL_REVIEW_REQUIRED

record rule_evidence =
  re_rule_id :: string
  re_rule_code :: string
  re_rule_version :: int
  re_rule_name :: string
  re_workflow :: "workflow_type option"
  re_classification_code :: "string option"
  re_require_review :: bool
  re_require_business_context :: bool

definition evidence_from_rule :: "decision_rule \<Rightarrow> (rule_error, rule_evidence) result" where
  "evidence_from_rule r =
     ebind (required_text (dr_rule_id r) ''rule_id'' MAX_RULE_CODE_LENGTH) (\<lambda>rule_id.
     ebind (required_text (dr_rule_code r) ''rule_code'' MAX_RULE_CODE_LENGTH) (\<lambda>rule_code.
     ebind (require_positive_int (dr_rule_version r) ''rule_version must be a positive integer.'') (\<lambda>_.
     ebind (required_text (dr_name r) ''rule_name'' MAX_RULE_NAME_LENGTH) (\<lambda>name.
     ebind (optional_classification_code (ra_classification_code (dr_action r))) (\<lambda>code.
     Inr \<lparr>re_rule_id = rule_id, re_rule_code = py_upper rule_code, re_rule_version = dr_rule_version r, re_rule_name = name,
       re_workflow = ra_workflow (dr_action r), re_classification_code = code, re_require_review = ra_require_review (dr_action r),
       re_require_business_context = ra_require_business_context (dr_action r)\<rparr>)))))"

record classification_result =
  cr_status :: classification_status
  cr_matched_rules :: "decision_rule list"
  cr_selected_rule :: "decision_rule option"
  cr_conflicts :: "rule_conflict list"
  cr_matched_rule_evidence :: "rule_evidence list"
  cr_conflict_rule_evidence :: "rule_evidence list"

definition mk_classification_result :: "classification_result \<Rightarrow> (rule_error, classification_result) result" where
  "mk_classification_result r =
     (let selected = cr_selected_rule r; conflicts = cr_conflicts r;
          status = (case (cr_status r, selected) of
             (CL_NO_MATCH, Some s) \<Rightarrow> if ra_require_review (dr_action s) then CL_REVIEW_REQUIRED else CL_MATCHED
           | (st, _) \<Rightarrow> st) in
      if (case selected of None \<Rightarrow> False | Some s \<Rightarrow> s \<notin> set (cr_matched_rules r))
      then contract_error ''selected_rule must be included in matched_rules.''
      else if conflicts \<noteq> [] \<and> selected \<noteq> None then contract_error ''conflicting classification results must not select a rule.''
      else if status = CL_NO_MATCH \<and> (cr_matched_rules r \<noteq> [] \<or> selected \<noteq> None \<or> conflicts \<noteq> [])
      then contract_error ''NO_MATCH results must not include matched or conflict rules.''
      else if status \<in> {CL_MATCHED, CL_REVIEW_REQUIRED} \<and> selected = None
      then contract_error ''matched classification results must select a rule.''
      else if status \<in> {CL_MATCHED, CL_REVIEW_REQUIRED} \<and> (conflicts \<noteq> [] \<or> cr_conflict_rule_evidence r \<noteq> [])
      then contract_error ''matched classification results must not include conflicts.''
      else if status = CL_CONFLICT \<and> (cr_matched_rules r = [] \<or> cr_conflict_rule_evidence r = [])
      then contract_error ''conflicting classification results require conflict evidence.''
      else if status = CL_CONFLICT \<and> selected \<noteq> None
      then contract_error ''conflicting classification results must not select a rule.''
      else Inr (r\<lparr>cr_status := status\<rparr>))"

definition selected_action :: "(rule_action \<Rightarrow> 'a) \<Rightarrow> 'a \<Rightarrow> classification_result \<Rightarrow> 'a" where
  "selected_action f default_value r = (case cr_selected_rule r of None \<Rightarrow> default_value | Some s \<Rightarrow> f (dr_action s))"

definition result_classification_code :: "classification_result \<Rightarrow> string option" where
  "result_classification_code = selected_action ra_classification_code None"

definition result_workflow :: "classification_result \<Rightarrow> workflow_type option" where
  "result_workflow = selected_action ra_workflow None"

definition result_require_review :: "classification_result \<Rightarrow> bool" where
  "result_require_review = selected_action ra_require_review False"

definition result_require_business_context :: "classification_result \<Rightarrow> bool" where
  "result_require_business_context = selected_action ra_require_business_context False"

section \<open>The context of an invoice\<close>

record classification_context =
  cx_company_id :: int
  cx_vendor_partner_id :: "int option"
  cx_vendor_tax_id :: "string option"
  cx_currency :: "string option"
  cx_provider_document_type :: "string option"
  cx_purchase_order_present :: "bool option"
  cx_description_corpus :: string
  cx_product_mapping_ids :: "int list"

definition context_text :: "string option \<Rightarrow> (rule_error, string option) result" where
  "context_text value = optional_by (\<lambda>v.
     if blank v then contract_error ''canonical text values must be non-empty when supplied.'' else Inr (py_upper (py_strip v))) value"

definition context_currency :: "string option \<Rightarrow> (rule_error, string option) result" where
  "context_currency value = ebind (context_text value) (\<lambda>cleaned. case cleaned of None \<Rightarrow> Inr None
     | Some c \<Rightarrow> if length c \<noteq> 3 \<or> \<not> py_isalpha c then contract_error ''currency must be a canonical ISO-4217 code.'' else Inr (Some c))"

definition positive_int_tuple :: "int list \<Rightarrow> string \<Rightarrow> (rule_error, int list) result" where
  "positive_int_tuple values field_name =
     ebind (emap (\<lambda>v. require_positive_int v (field_name @ '' must contain positive integers.'')) values) (\<lambda>_.
     Inr (sort (remdups values)))"

definition mk_classification_context :: "classification_context \<Rightarrow> (rule_error, classification_context) result" where
  "mk_classification_context c =
     ebind (require_positive_int (cx_company_id c) ''company_id must be a positive integer.'') (\<lambda>_.
     ebind (require_optional_positive_int (cx_vendor_partner_id c) ''vendor_partner_id must be a positive integer when supplied.'') (\<lambda>_.
     ebind (context_text (cx_vendor_tax_id c)) (\<lambda>vendor_tax_id.
     ebind (context_currency (cx_currency c)) (\<lambda>currency.
     ebind (context_text (cx_provider_document_type c)) (\<lambda>provider_document_type.
     ebind (positive_int_tuple (cx_product_mapping_ids c) ''product_mapping_ids'') (\<lambda>product_mapping_ids.
     Inr (c\<lparr>cx_vendor_tax_id := vendor_tax_id, cx_currency := currency, cx_provider_document_type := provider_document_type,
       cx_description_corpus := py_lower (py_strip (cx_description_corpus c)), cx_product_mapping_ids := product_mapping_ids\<rparr>)))))))"

definition corpus_of_descriptions :: "string list \<Rightarrow> string" where
  "corpus_of_descriptions line_descriptions =
     str_join [CHR 0x0A] (map py_strip (filter (\<lambda>d. \<not> blank d) line_descriptions))"

definition matched_partner_id :: "partner_match option \<Rightarrow> int option" where
  "matched_partner_id pm = (case pm of None \<Rightarrow> None | Some p \<Rightarrow> if pm_status p \<noteq> MATCHED then None else pm_partner_id p)"

definition matched_product_ids :: "invoice_product_match option \<Rightarrow> int list" where
  "matched_product_ids pm = (case pm of None \<Rightarrow> []
   | Some p \<Rightarrow> sort (remdups (concat (map (\<lambda>l. if dm_status (lm_result l) = MATCHED
       then (case dm_product_id (lm_result l) of None \<Rightarrow> [] | Some i \<Rightarrow> [i]) else []) (im_line_results p)))))"

definition given_text :: "string option \<Rightarrow> bool" where
  "given_text v \<longleftrightarrow> (case v of None \<Rightarrow> False | Some s \<Rightarrow> s \<noteq> [])"

definition build_invoice_classification_context ::
    "internal_invoice \<Rightarrow> int \<Rightarrow> partner_match option \<Rightarrow> invoice_product_match option \<Rightarrow> (rule_error, classification_context) result" where
  "build_invoice_classification_context invoice company_id partner product = mk_classification_context
     \<lparr>cx_company_id = company_id, cx_vendor_partner_id = matched_partner_id partner,
      cx_vendor_tax_id = py_tax_number (iv_supplier invoice),
      cx_currency = hd_currency_code (iv_header invoice),
      cx_provider_document_type = (if given_text (hd_invoice_type (iv_header invoice)) then hd_invoice_type (iv_header invoice)
        else hd_profile_id (iv_header invoice)),
      cx_purchase_order_present = None,
      cx_description_corpus = corpus_of_descriptions
        (concat (map (\<lambda>l. case ln_description l of None \<Rightarrow> [] | Some d \<Rightarrow> if d = [] then [] else [d]) (iv_lines invoice))),
      cx_product_mapping_ids = matched_product_ids product\<rparr>"

section \<open>The engine\<close>

definition agrees :: "'a option \<Rightarrow> 'a option \<Rightarrow> bool" where
  "agrees condition fact_value \<longleftrightarrow> condition = None \<or> condition = fact_value"

definition rule_matches :: "rule_match \<Rightarrow> classification_context \<Rightarrow> bool" where
  "rule_matches m c \<longleftrightarrow>
     agrees (rm_company_id m) (Some (cx_company_id c)) \<and> agrees (rm_vendor_partner_id m) (cx_vendor_partner_id c)
     \<and> agrees (rm_vendor_tax_id m) (cx_vendor_tax_id c) \<and> agrees (rm_currency m) (cx_currency c)
     \<and> agrees (rm_provider_document_type m) (cx_provider_document_type c)
     \<and> agrees (rm_purchase_order_present m) (cx_purchase_order_present c)
     \<and> (case rm_product_mapping_id m of None \<Rightarrow> True | Some i \<Rightarrow> i \<in> set (cx_product_mapping_ids c))
     \<and> list_all (\<lambda>term. substring term (cx_description_corpus c)) (rm_description_contains m)"

definition effective_precedence_key :: "decision_rule \<Rightarrow> int \<times> int \<times> int" where
  "effective_precedence_key r = (- specificity (dr_match r), rp_tier (dr_priority r), rp_rank (dr_priority r))"

definition no_match_result :: classification_result where
  "no_match_result = \<lparr>cr_status = CL_NO_MATCH, cr_matched_rules = [], cr_selected_rule = None, cr_conflicts = [],
     cr_matched_rule_evidence = [], cr_conflict_rule_evidence = []\<rparr>"

definition classify :: "classification_context \<Rightarrow> decision_rule list \<Rightarrow> (rule_error, classification_result) result" where
  "classify c rules =
     (let matched_rules = filter (\<lambda>r. rule_matches (dr_match r) c) (order_invoice_decision_rules rules) in
      case matched_rules of
        [] \<Rightarrow> mk_classification_result no_match_result
      | best # _ \<Rightarrow>
          let winning_rules = filter (\<lambda>r. effective_precedence_key r = effective_precedence_key best) matched_rules in
          if 1 < length (remdups (map (\<lambda>r. action_fingerprint (dr_action r)) winning_rules))
          then ebind (emap evidence_from_rule winning_rules) (\<lambda>evidence.
            mk_classification_result (no_match_result\<lparr>cr_status := CL_CONFLICT, cr_matched_rules := matched_rules,
              cr_conflict_rule_evidence := evidence\<rparr>))
          else
            let selected_rule = hd winning_rules in
            ebind (emap evidence_from_rule winning_rules) (\<lambda>evidence.
            mk_classification_result (no_match_result\<lparr>
              cr_status := (if ra_require_review (dr_action selected_rule) then CL_REVIEW_REQUIRED else CL_MATCHED),
              cr_matched_rules := matched_rules, cr_selected_rule := Some selected_rule, cr_matched_rule_evidence := evidence\<rparr>)))"

section \<open>What the constructors establish\<close>

definition settled_text :: "string \<Rightarrow> nat \<Rightarrow> bool" where
  "settled_text t n \<longleftrightarrow> \<not> blank t \<and> py_strip t = t \<and> length t \<le> n"

lemma required_text_settled: "required_text v field_name n = Inr t \<Longrightarrow> settled_text t n"
  by (auto simp: required_text_def settled_text_def blank_def Let_def split: if_splits)

lemma settled_required [simp]: "settled_text t n \<Longrightarrow> required_text t field_name n = Inr t"
  by (simp add: required_text_def settled_text_def Let_def)

lemma settled_upper: "settled_text t n \<Longrightarrow> settled_text (py_upper t) n"
  by (simp add: settled_text_def py_strip_upper)

lemma optional_by_Inr: "optional_by f v = Inr w \<longleftrightarrow> (case v of None \<Rightarrow> w = None | Some x \<Rightarrow> \<exists>y. f x = Inr y \<and> w = Some y)"
  by (auto simp: optional_by_def ebind_Inr_iff split: option.splits)

lemma classification_code_settled:
  assumes "optional_classification_code v = Inr (Some t)"
  shows "settled_text t 64" "fullmatches_classification_code t" "py_upper t = t"
  using assms
  by (auto simp: optional_classification_code_def optional_by_Inr ebind_Inr_iff Let_def settled_upper
      dest: required_text_settled split: option.splits if_splits)

lemma classification_code_again [simp]:
  "optional_classification_code v = Inr t \<Longrightarrow> optional_classification_code t = Inr t"
proof (cases t)
  case (Some c)
  assume "optional_classification_code v = Inr t"
  with Some have "settled_text c 64" "fullmatches_classification_code c" "py_upper c = c"
    using classification_code_settled by auto
  with Some show ?thesis by (simp add: optional_classification_code_def optional_by_def)
qed (simp add: optional_classification_code_def optional_by_def)

text \<open>A rule whose action and whose other fields come out of the constructors.\<close>

definition constructed_rule :: "decision_rule \<Rightarrow> bool" where
  "constructed_rule r \<longleftrightarrow> (\<exists>r0 a0. mk_decision_rule r0 = Inr r \<and> mk_rule_action a0 = Inr (dr_action r))"

definition rule_evidence_of :: "decision_rule \<Rightarrow> rule_evidence" where
  "rule_evidence_of r = \<lparr>re_rule_id = dr_rule_id r, re_rule_code = dr_rule_code r, re_rule_version = dr_rule_version r,
     re_rule_name = dr_name r, re_workflow = ra_workflow (dr_action r), re_classification_code = ra_classification_code (dr_action r),
     re_require_review = ra_require_review (dr_action r), re_require_business_context = ra_require_business_context (dr_action r)\<rparr>"

lemma constructed_action_code:
  "mk_rule_action a0 = Inr a \<Longrightarrow> optional_classification_code (ra_classification_code a) = Inr (ra_classification_code a)"
  by (auto simp: mk_rule_action_def ebind_Inr_iff split: if_splits)

lemma evidence_of_constructed:
  assumes "constructed_rule r"
  shows "evidence_from_rule r = Inr (rule_evidence_of r)"
proof -
  from assms obtain r0 a0 where r0: "mk_decision_rule r0 = Inr r" and a0: "mk_rule_action a0 = Inr (dr_action r)"
    by (auto simp: constructed_rule_def)
  from r0 obtain i code n where "required_text (dr_rule_id r0) ''rule_id'' MAX_RULE_CODE_LENGTH = Inr i"
    "required_text (dr_rule_code r0) ''rule_code'' MAX_RULE_CODE_LENGTH = Inr code" "0 < dr_rule_version r0"
    "required_text (dr_name r0) ''name'' MAX_RULE_NAME_LENGTH = Inr n"
    and r: "r = r0\<lparr>dr_rule_id := i, dr_rule_code := py_upper code, dr_name := n\<rparr>"
    by (auto simp: mk_decision_rule_def ebind_Inr_iff require_positive_int_def split: if_splits)
  then have "settled_text (dr_rule_id r) MAX_RULE_CODE_LENGTH" "settled_text code MAX_RULE_CODE_LENGTH"
    "dr_rule_code r = py_upper code" "0 < dr_rule_version r" "settled_text (dr_name r) MAX_RULE_NAME_LENGTH"
    by (simp_all add: required_text_settled)
  with constructed_action_code [OF a0] show ?thesis
    by (simp add: evidence_from_rule_def require_positive_int_def settled_upper rule_evidence_of_def)
qed

section \<open>What the engine decides\<close>

definition applicable :: "classification_context \<Rightarrow> decision_rule list \<Rightarrow> decision_rule set" where
  "applicable c rules = {r \<in> set rules. dr_enabled r \<and> rule_matches (dr_match r) c}"

text \<open>The applicable rules that no applicable rule precedes by specificity, tier and rank.\<close>

definition leading :: "classification_context \<Rightarrow> decision_rule list \<Rightarrow> decision_rule set" where
  "leading c rules = {r \<in> applicable c rules. \<forall>s \<in> applicable c rules. effective_precedence_key r \<le> effective_precedence_key s}"

definition unanimous :: "decision_rule set \<Rightarrow> bool" where
  "unanimous rs \<longleftrightarrow> (\<exists>a. \<forall>r \<in> rs. dr_action r = a)"

lemma action_fingerprint_eq [simp]: "action_fingerprint a = action_fingerprint b \<longleftrightarrow> a = b"
  by (cases a; cases b) (simp add: action_fingerprint_def)

lemma match_fingerprint_eq [simp]: "match_fingerprint a = match_fingerprint b \<longleftrightarrow> a = b"
  by (cases a; cases b) (simp add: match_fingerprint_def)

lemma precedence_effective: "precedence_key r \<le> precedence_key s \<Longrightarrow> effective_precedence_key r \<le> effective_precedence_key s"
  by (auto simp: precedence_key_def effective_precedence_key_def)

lemma one_action:
  "\<not> 1 < length (remdups (map (\<lambda>r. action_fingerprint (dr_action r)) rs)) \<longleftrightarrow> unanimous (set rs)"
proof -
  have short: "length (remdups xs) \<le> 1 \<longleftrightarrow> (\<forall>x \<in> set xs. \<forall>y \<in> set xs. x = y)" for xs :: "'a list"
    using short_remdups [of "rev xs"] by simp
  have "\<not> 1 < length (remdups (map (\<lambda>r. action_fingerprint (dr_action r)) rs))
      \<longleftrightarrow> (\<forall>r \<in> set rs. \<forall>s \<in> set rs. dr_action r = dr_action s)"
    unfolding not_less short by simp
  also have "\<dots> \<longleftrightarrow> unanimous (set rs)" unfolding unanimous_def by metis
  finally show ?thesis .
qed

lemma first_leads:
  assumes "filter (\<lambda>r. rule_matches (dr_match r) c) (order_invoice_decision_rules rules) = best # rest"
  shows "set (filter (\<lambda>r. effective_precedence_key r = effective_precedence_key best) (best # rest)) = leading c rules"
    "hd (filter (\<lambda>r. effective_precedence_key r = effective_precedence_key best) (best # rest)) = best" "best \<in> leading c rules"
proof -
  let ?m = "filter (\<lambda>r. rule_matches (dr_match r) c) (order_invoice_decision_rules rules)"
  have members: "set (best # rest) = applicable c rules"
    unfolding assms [symmetric] by (auto simp: order_invoice_decision_rules_def applicable_def)
  have "sorted (map precedence_key ?m)" by (simp add: order_invoice_decision_rules_def sorted_filter)
  then have first: "effective_precedence_key best \<le> effective_precedence_key s" if "s \<in> applicable c rules" for s
    using that members unfolding assms by (auto intro: precedence_effective)
  show best: "best \<in> leading c rules" using members first by (auto simp: leading_def)
  show "set (filter (\<lambda>r. effective_precedence_key r = effective_precedence_key best) (best # rest)) = leading c rules"
    using members first best by (auto simp: leading_def intro: antisym)
  show "hd (filter (\<lambda>r. effective_precedence_key r = effective_precedence_key best) (best # rest)) = best" by simp
qed

lemma evidence_of_all: "\<forall>r \<in> set rs. constructed_rule r \<Longrightarrow> emap evidence_from_rule rs = Inr (map rule_evidence_of rs)"
  by (intro emap_Inr) (simp add: evidence_of_constructed)

text \<open>
  C14. Given rules that the constructors built, classification never raises. It considers exactly the enabled
  rules whose conditions the invoice meets; among them those of the best precedence (most specific, then
  lowest tier, then lowest rank) decide. If there is none, nothing matches. If they all ask for the same
  action, one of them is selected, as a match or, if the action asks for it, for review. If they disagree,
  nothing is selected and the evidence of the conflict names all of them.
\<close>

theorem classification_decides:
  assumes "\<forall>r \<in> set rules. constructed_rule r"
  shows "\<exists>res. classify c rules = Inr res \<and> set (cr_matched_rules res) = applicable c rules
    \<and> (if leading c rules = {} then cr_status res = CL_NO_MATCH \<and> cr_selected_rule res = None
       else if unanimous (leading c rules)
       then \<exists>s \<in> leading c rules. cr_selected_rule res = Some s
         \<and> cr_status res = (if ra_require_review (dr_action s) then CL_REVIEW_REQUIRED else CL_MATCHED)
         \<and> set (cr_matched_rule_evidence res) = rule_evidence_of ` leading c rules
       else cr_status res = CL_CONFLICT \<and> cr_selected_rule res = None
         \<and> set (cr_conflict_rule_evidence res) = rule_evidence_of ` leading c rules)"
proof -
  define matched where "matched = filter (\<lambda>r. rule_matches (dr_match r) c) (order_invoice_decision_rules rules)"
  have members: "set matched = applicable c rules"
    by (auto simp: matched_def order_invoice_decision_rules_def applicable_def)
  show ?thesis
  proof (cases matched)
    case Nil
    with members have "leading c rules = {}" by (auto simp: leading_def)
    with Nil members show ?thesis
      by (simp add: classify_def matched_def [symmetric] mk_classification_result_def no_match_result_def)
  next
    case (Cons best rest)
    define winning where "winning = filter (\<lambda>r. effective_precedence_key r = effective_precedence_key best) matched"
    have winning: "set winning = leading c rules" "hd winning = best" and best: "best \<in> leading c rules"
      using first_leads [OF Cons [unfolded matched_def]] Cons by (simp_all add: winning_def)
    have nonempty: "leading c rules \<noteq> {}" "winning \<noteq> []" "best \<in> set matched" using best winning Cons by auto
    have shape: "classify c rules = (if 1 < length (remdups (map (\<lambda>r. action_fingerprint (dr_action r)) winning))
        then ebind (emap evidence_from_rule winning) (\<lambda>evidence. mk_classification_result
          (no_match_result\<lparr>cr_status := CL_CONFLICT, cr_matched_rules := matched, cr_conflict_rule_evidence := evidence\<rparr>))
        else ebind (emap evidence_from_rule winning) (\<lambda>evidence. mk_classification_result (no_match_result\<lparr>
          cr_status := (if ra_require_review (dr_action (hd winning)) then CL_REVIEW_REQUIRED else CL_MATCHED),
          cr_matched_rules := matched, cr_selected_rule := Some (hd winning), cr_matched_rule_evidence := evidence\<rparr>)))"
      unfolding classify_def matched_def [symmetric] winning_def Let_def by (simp only: Cons list.case)
    have "\<forall>r \<in> set winning. constructed_rule r" using assms members by (auto simp: winning_def applicable_def)
    then have evidence: "emap evidence_from_rule winning = Inr (map rule_evidence_of winning)" by (rule evidence_of_all)
    show ?thesis
    proof (cases "unanimous (leading c rules)")
      case True
      then have "\<not> 1 < length (remdups (map (\<lambda>r. action_fingerprint (dr_action r)) winning))" by (simp only: one_action winning)
      then have "classify c rules = Inr (no_match_result\<lparr>
          cr_status := (if ra_require_review (dr_action best) then CL_REVIEW_REQUIRED else CL_MATCHED),
          cr_matched_rules := matched, cr_selected_rule := Some best, cr_matched_rule_evidence := map rule_evidence_of winning\<rparr>)"
        unfolding shape using nonempty evidence winning(2) by (simp add: mk_classification_result_def no_match_result_def Let_def)
      with True nonempty best winning members show ?thesis by (auto simp: no_match_result_def)
    next
      case False
      then have "1 < length (remdups (map (\<lambda>r. action_fingerprint (dr_action r)) winning))" using one_action winning by metis
      then have "classify c rules = Inr (no_match_result\<lparr>cr_status := CL_CONFLICT, cr_matched_rules := matched,
          cr_conflict_rule_evidence := map rule_evidence_of winning\<rparr>)"
        unfolding shape using nonempty evidence by (auto simp: mk_classification_result_def no_match_result_def Let_def)
      with False nonempty winning members show ?thesis by (simp add: no_match_result_def)
    qed
  qed
qed

section \<open>An example\<close>

definition example_rule :: "string \<Rightarrow> string option \<Rightarrow> workflow_type \<Rightarrow> bool \<Rightarrow> decision_rule" where
  "example_rule code currency workflow review =
     \<lparr>dr_rule_id = ''odoo:1'', dr_rule_code = code, dr_rule_version = 1, dr_name = ''Rule'', dr_enabled = True,
      dr_priority = \<lparr>rp_tier = 0, rp_rank = 1000\<rparr>,
      dr_match = \<lparr>rm_company_id = Some 7, rm_vendor_partner_id = None, rm_vendor_tax_id = None, rm_currency = currency,
        rm_provider_document_type = None, rm_purchase_order_present = None, rm_description_contains = [], rm_product_mapping_id = None\<rparr>,
      dr_action = \<lparr>ra_workflow = Some workflow, ra_classification_code = None, ra_default_department_id = None,
        ra_default_analytic_account_id = None, ra_require_review = review, ra_require_business_context = False\<rparr>\<rparr>"

definition broad_rule :: decision_rule where "broad_rule = example_rule ''BROAD'' None WF_EXPENSE False"

definition narrow_rule :: decision_rule where "narrow_rule = example_rule ''NARROW'' (Some ''TRY'') WF_VENDOR_BILL True"

definition example_context :: classification_context where
  "example_context = \<lparr>cx_company_id = 7, cx_vendor_partner_id = None, cx_vendor_tax_id = None, cx_currency = Some ''TRY'',
     cx_provider_document_type = None, cx_purchase_order_present = None, cx_description_corpus = [], cx_product_mapping_ids = []\<rparr>"

lemma example_constructed: "constructed_rule broad_rule" "constructed_rule narrow_rule"
proof -
  have "mk_decision_rule broad_rule = Inr broad_rule" "mk_rule_action (dr_action broad_rule) = Inr (dr_action broad_rule)"
    "mk_decision_rule narrow_rule = Inr narrow_rule" "mk_rule_action (dr_action narrow_rule) = Inr (dr_action narrow_rule)"
    by code_simp+
  then show "constructed_rule broad_rule" "constructed_rule narrow_rule" unfolding constructed_rule_def by blast+
qed

lemma example_leading: "leading example_context [broad_rule, narrow_rule] = {narrow_rule}"
proof -
  have "applicable example_context [broad_rule, narrow_rule] = {broad_rule, narrow_rule}"
    by (auto simp: applicable_def broad_rule_def narrow_rule_def example_rule_def rule_matches_def agrees_def example_context_def)
  moreover have "effective_precedence_key narrow_rule < effective_precedence_key broad_rule" by code_simp
  ultimately show ?thesis by (auto simp: leading_def)
qed

theorem classification_decides_witness:
  "\<exists>res. classify example_context [broad_rule, narrow_rule] = Inr res \<and> cr_selected_rule res = Some narrow_rule
     \<and> cr_status res = CL_REVIEW_REQUIRED"
proof -
  have "ra_require_review (dr_action narrow_rule)" by (simp add: narrow_rule_def example_rule_def)
  then show ?thesis
    using classification_decides [of "[broad_rule, narrow_rule]" example_context] example_constructed
    by (auto simp: example_leading unanimous_def)
qed

section \<open>Two limits of the rules\<close>

text \<open>
  A rule keeps the case of its tax number and document type, while a context has them in upper case: a
  rule that states one with a lower case letter applies to no invoice.
\<close>

lemma context_text_upper: "context_text v = Inr (Some t) \<Longrightarrow> py_upper t = t"
  by (auto simp: context_text_def optional_by_Inr split: option.splits if_splits)

lemma lower_case_never_matches:
  assumes "mk_classification_context given = Inr c"
    and "rm_vendor_tax_id m = Some t \<or> rm_provider_document_type m = Some t" "py_upper t \<noteq> t"
  shows "\<not> rule_matches m c"
  using assms context_text_upper
  by (fastforce simp: mk_classification_context_def ebind_Inr_iff rule_matches_def agrees_def split: if_splits)

text \<open>Two enabled versions of a rule that differ in their action are an error, not a reported conflict.\<close>

lemma conflicting_versions_raise:
  "find_invoice_decision_rule_conflicts
     [narrow_rule, narrow_rule\<lparr>dr_rule_version := 2, dr_action := dr_action broad_rule\<rparr>]
   = contract_error ''rule_codes values must be unique.''"
  by code_simp

end
