(* ===== verification/Rule_Authoring.thy ===== *)
theory Rule_Authoring
  imports Classification Tax_Exemption
begin

text \<open>
  The classification rules that are authored in the ERP: \<^verbatim>\<open>app/application/rules/odoo_authoring.py\<close>,
  \<^verbatim>\<open>app/erp/odoo/decision_rule_mapper.py\<close> and \<^verbatim>\<open>decision_rule_repository.py\<close>. A row of the ERP maps
  field names to values; the adapter that reads the rows and the currency repository are ports.
\<close>

section \<open>Errors and fields\<close>

datatype authoring_error =
    OdooDecisionRuleAuthoringContractError string
  | OdooDecisionRuleDataError string
  | OdooDecisionRuleReadError string
  | RuleErpRepositoryError string
  | RulePythonError string
  | RuleContractError rule_error

definition SAFE_DECISION_RULE_DATA_ERROR :: string where
  "SAFE_DECISION_RULE_DATA_ERROR = ''Odoo Decision Rule configuration is invalid.''"

definition SAFE_DECISION_RULE_READ_ERROR :: string where
  "SAFE_DECISION_RULE_READ_ERROR = ''Odoo Decision Rule read failed.''"

abbreviation data_error :: "(authoring_error, 'a) result" where
  "data_error \<equiv> Inl (OdooDecisionRuleDataError SAFE_DECISION_RULE_DATA_ERROR)"

abbreviation authoring_failure :: "string \<Rightarrow> (authoring_error, 'a) result" where
  "authoring_failure message \<equiv> Inl (OdooDecisionRuleAuthoringContractError message)"

definition contract :: "(rule_error, 'a) result \<Rightarrow> (authoring_error, 'a) result" where
  "contract r = (case r of Inl e \<Rightarrow> Inl (RuleContractError e) | Inr x \<Rightarrow> Inr x)"

record field_mapping =
  fm_model_name :: string
  fm_name :: string
  fm_rule_code :: string
  fm_active :: string
  fm_priority :: string
  fm_company :: string
  fm_vendor :: string
  fm_vendor_tax_id :: string
  fm_currency :: string
  fm_provider_document_type :: string
  fm_purchase_order_present :: string
  fm_description_contains :: string
  fm_product_mapping :: string
  fm_workflow :: string
  fm_classification_code :: string
  fm_require_review :: string
  fm_require_business_context :: string
  fm_rule_version :: string
  fm_notes :: string

definition default_field_mapping :: field_mapping where
  "default_field_mapping =
     \<lparr>fm_model_name = ''x_ipp_decision_rule'', fm_name = ''x_name'', fm_rule_code = ''x_studio_rule_code'', fm_active = ''x_studio_active'',
      fm_priority = ''x_studio_priority'', fm_company = ''x_studio_company_id'', fm_vendor = ''x_studio_vendor_id'',
      fm_vendor_tax_id = ''x_studio_vendor_tax_id'', fm_currency = ''x_studio_currency_id'',
      fm_provider_document_type = ''x_studio_provider_document_type'', fm_purchase_order_present = ''x_studio_purchase_order_presence'',
      fm_description_contains = ''x_studio_description_contains'', fm_product_mapping = ''x_studio_product_mapping_id'',
      fm_workflow = ''x_studio_workflow'', fm_classification_code = ''x_studio_classification_code'',
      fm_require_review = ''x_studio_require_review'', fm_require_business_context = ''x_studio_require_business_context'',
      fm_rule_version = ''x_studio_rule_version'', fm_notes = ''x_studio_notes''\<rparr>"

definition authored_text :: "string \<Rightarrow> string \<Rightarrow> (authoring_error, string) result" where
  "authored_text value field_name = (if blank value then authoring_failure (field_name @ '' is required.'') else Inr (py_strip value))"

definition required_model_name :: "string \<Rightarrow> (authoring_error, string) result" where
  "required_model_name value = ebind (authored_text value ''model_name'') (\<lambda>cleaned.
     if take 2 cleaned \<noteq> ''x_'' then authoring_failure ''Odoo decision rule model must be a Studio/custom model.'' else Inr cleaned)"

definition required_studio_field_name :: "string \<Rightarrow> (authoring_error, string) result" where
  "required_studio_field_name value = ebind (authored_text value ''field_name'') (\<lambda>cleaned.
     if cleaned \<in> {''active'', ''company_id'', ''x_name''} then Inr cleaned
     else if take 9 cleaned \<noteq> ''x_studio_''
     then authoring_failure ''Odoo decision rule fields must be centralized Studio fields or documented standard Odoo fields.''
     else Inr cleaned)"

definition studio_fields :: "field_mapping \<Rightarrow> (authoring_error, string list) result" where
  "studio_fields m = emap required_studio_field_name
     [fm_name m, fm_rule_code m, fm_active m, fm_priority m, fm_company m, fm_vendor m, fm_vendor_tax_id m, fm_currency m,
      fm_provider_document_type m, fm_purchase_order_present m, fm_description_contains m, fm_product_mapping m, fm_workflow m,
      fm_classification_code m, fm_require_review m, fm_require_business_context m, fm_rule_version m, fm_notes m]"

definition mk_field_mapping :: "field_mapping \<Rightarrow> (authoring_error, field_mapping) result" where
  "mk_field_mapping m =
     ebind (required_model_name (fm_model_name m)) (\<lambda>model_name.
     ebind (studio_fields m) (\<lambda>names.
     if \<not> distinct names then authoring_failure ''Odoo decision rule field names must be unique.''
     else Inr (m\<lparr>fm_model_name := model_name\<rparr>)))"

section \<open>Authored rules\<close>

record authored_rule =
  ar_odoo_record_id :: int
  ar_name :: string
  ar_rule_code :: string
  ar_active :: bool
  ar_priority :: int
  ar_rule_version :: int
  ar_workflow :: string
  ar_classification_code :: "string option"
  ar_company_id :: "int option"
  ar_vendor_partner_id :: "int option"
  ar_vendor_tax_id :: "string option"
  ar_currency_id :: "int option"
  ar_currency_code :: "string option"
  ar_provider_document_type :: "string option"
  ar_purchase_order_present :: "bool option"
  ar_description_contains :: "string list"
  ar_product_mapping_id :: "int option"
  ar_require_review :: bool
  ar_require_business_context :: bool
  ar_notes :: "string option"

definition authored_int :: "bool \<Rightarrow> string \<Rightarrow> (authoring_error, unit) result" where
  "authored_int invalid message = (if invalid then authoring_failure message else Inr ())"

definition given_not_positive :: "int option \<Rightarrow> bool" where
  "given_not_positive v \<longleftrightarrow> (case v of None \<Rightarrow> False | Some i \<Rightarrow> i \<le> 0)"

definition odoo_workflow_to_workflow_type :: "string \<Rightarrow> (authoring_error, workflow_type) result" where
  "odoo_workflow_to_workflow_type value =
     (let cleaned = py_upper (py_strip value) in
      case find (\<lambda>w. cleaned = py_upper (workflow_value w)) workflow_members of
        Some w \<Rightarrow> Inr w
      | None \<Rightarrow> authoring_failure ''workflow must map exactly to a supported WorkflowType.'')"

text \<open>The constructor returns the workflow beside the record, whose field holds the authored text.\<close>

definition mk_authored_rule :: "authored_rule \<Rightarrow> (authoring_error, authored_rule \<times> workflow_type) result" where
  "mk_authored_rule a =
     ebind (authored_int (ar_odoo_record_id a \<le> 0) ''odoo_record_id must be a positive integer.'') (\<lambda>_.
     ebind (authored_int (ar_priority a < 0) ''priority must be a non-negative integer.'') (\<lambda>_.
     ebind (authored_int (ar_rule_version a \<le> 0) ''rule_version must be a positive integer.'') (\<lambda>_.
     ebind (authored_int (given_not_positive (ar_company_id a)) ''company_id must be a positive integer when supplied.'') (\<lambda>_.
     ebind (authored_int (given_not_positive (ar_vendor_partner_id a)) ''vendor_partner_id must be a positive integer when supplied.'') (\<lambda>_.
     ebind (authored_int (given_not_positive (ar_currency_id a)) ''currency_id must be a positive integer when supplied.'') (\<lambda>_.
     ebind (authored_int (given_not_positive (ar_product_mapping_id a)) ''product_mapping_id must be a positive integer when supplied.'') (\<lambda>_.
     ebind (authored_int ((ar_currency_id a = None) \<noteq> (ar_currency_code a = None))
       ''currency_id and canonical currency_code must be supplied together.'') (\<lambda>_.
     ebind (authored_text (ar_name a) ''name'') (\<lambda>name.
     ebind (authored_text (ar_rule_code a) ''rule_code'') (\<lambda>rule_code.
     ebind (odoo_workflow_to_workflow_type (ar_workflow a)) (\<lambda>workflow.
     ebind (case ar_provider_document_type a of None \<Rightarrow> Inr None
       | Some t \<Rightarrow> ebind (authored_text t ''provider_document_type'') (\<lambda>c. Inr (Some (py_upper c)))) (\<lambda>document_type.
     ebind (case ar_notes a of None \<Rightarrow> Inr None | Some t \<Rightarrow> ebind (authored_text t ''notes'') (\<lambda>c. Inr (Some c))) (\<lambda>notes.
     ebind (emap (\<lambda>t. authored_text t ''description_contains'') (ar_description_contains a)) (\<lambda>_.
     Inr (a\<lparr>ar_name := name, ar_rule_code := py_upper rule_code, ar_provider_document_type := document_type, ar_notes := notes\<rparr>,
       workflow)))))))))))))))"

definition to_invoice_decision_rule :: "authored_rule \<times> workflow_type \<Rightarrow> (rule_error, decision_rule) result" where
  "to_invoice_decision_rule aw = (case aw of (a, workflow) \<Rightarrow>
     ebind (mk_rule_priority (ar_priority a) 1000) (\<lambda>priority.
     ebind (mk_rule_match \<lparr>rm_company_id = ar_company_id a, rm_vendor_partner_id = ar_vendor_partner_id a,
       rm_vendor_tax_id = ar_vendor_tax_id a, rm_currency = ar_currency_code a,
       rm_provider_document_type = ar_provider_document_type a, rm_purchase_order_present = ar_purchase_order_present a,
       rm_description_contains = ar_description_contains a, rm_product_mapping_id = ar_product_mapping_id a\<rparr>) (\<lambda>m.
     ebind (mk_rule_action \<lparr>ra_workflow = Some workflow, ra_classification_code = ar_classification_code a,
       ra_default_department_id = None, ra_default_analytic_account_id = None, ra_require_review = ar_require_review a,
       ra_require_business_context = ar_require_business_context a\<rparr>) (\<lambda>action.
     mk_decision_rule \<lparr>dr_rule_id = ''odoo:'' @ nat_str (nat (ar_odoo_record_id a)), dr_rule_code = ar_rule_code a,
       dr_rule_version = ar_rule_version a, dr_name = ar_name a, dr_enabled = ar_active a, dr_priority = priority,
       dr_match = m, dr_action = action\<rparr>))))"

definition rule_identity :: "decision_rule \<Rightarrow> string \<times> int" where
  "rule_identity r = (dr_rule_code r, dr_rule_version r)"

definition validate_unique_odoo_decision_rule_identities :: "decision_rule list \<Rightarrow> (authoring_error, unit) result" where
  "validate_unique_odoo_decision_rule_identities rules =
     (if \<not> distinct (map rule_identity rules) then authoring_failure ''duplicate Rule Code + Rule Version is not allowed.'' else Inr ())"

section \<open>Values of a row\<close>

text \<open>\<^verbatim>\<open>value in (None, False)\<close>: a zero equals \<^verbatim>\<open>False\<close>.\<close>

fun none_or_false :: "erp_value \<Rightarrow> bool" where
  "none_or_false EvNone = True"
| "none_or_false (EvBool b) = (\<not> b)"
| "none_or_false (EvInt i) = (i = 0)"
| "none_or_false (EvFloat d) = dec_same d dec_zero"
| "none_or_false _ = False"

definition row_get :: "erp_record \<Rightarrow> string \<Rightarrow> erp_value" where
  "row_get row field = (case row field of None \<Rightarrow> EvNone | Some v \<Rightarrow> v)"

fun odoo_many2one_id :: "erp_value \<Rightarrow> int option" where
  "odoo_many2one_id (EvInt i) = Some i"
| "odoo_many2one_id (EvList (EvInt i # _)) = Some i"
| "odoo_many2one_id (EvTuple (EvInt i # _)) = Some i"
| "odoo_many2one_id _ = None"

definition parse_odoo_many2one_id :: "erp_value \<Rightarrow> (authoring_error, int option) result" where
  "parse_odoo_many2one_id value =
     (if none_or_false value then Inr None
      else case odoo_many2one_id value of None \<Rightarrow> data_error | Some i \<Rightarrow> if i \<le> 0 then data_error else Inr (Some i))"

definition parse_purchase_order_presence :: "erp_value \<Rightarrow> (authoring_error, bool option) result" where
  "parse_purchase_order_presence value =
     (if none_or_false value \<or> value = EvStr ''any'' then Inr None
      else if value = EvStr ''required'' then Inr (Some True)
      else if value = EvStr ''must_not_exist'' then Inr (Some False)
      else data_error)"

text \<open>\<^verbatim>\<open>str.splitlines\<close>: a carriage return and a line feed are one break; the first argument is the line so far, reversed.\<close>

definition line_break :: "char \<Rightarrow> bool" where
  "line_break c \<longleftrightarrow> (of_char c :: nat) \<in> {10, 11, 12, 13, 28, 29, 30, 133}"

fun split_lines :: "string \<Rightarrow> string \<Rightarrow> string list" where
  "split_lines acc [] = (if acc = [] then [] else [rev acc])"
| "split_lines acc (c # cs) =
     (if \<not> line_break c then split_lines (c # acc) cs
      else if c = CHR 0x0D \<and> take 1 cs = [CHR 0x0A] then rev acc # split_lines [] (drop 1 cs)
      else rev acc # split_lines [] cs)"

definition parse_odoo_decision_rule_description_terms :: "erp_value \<Rightarrow> (authoring_error, string list) result" where
  "parse_odoo_decision_rule_description_terms value =
     (if none_or_false value then Inr []
      else case value of EvStr s \<Rightarrow> Inr (map py_strip (filter (\<lambda>l. \<not> blank l) (split_lines [] s))) | _ \<Rightarrow> data_error)"

definition row_bool :: "erp_value \<Rightarrow> (authoring_error, bool) result" where
  "row_bool value = (case value of EvBool b \<Rightarrow> Inr b | _ \<Rightarrow> data_error)"

text \<open>\<^verbatim>\<open>isdigit\<close> also accepts the superscript digits, which \<^verbatim>\<open>int\<close> then refuses.\<close>

definition superscript_digit :: "char \<Rightarrow> bool" where
  "superscript_digit c \<longleftrightarrow> (of_char c :: nat) \<in> {178, 179, 185}"

definition exact_int :: "erp_value \<Rightarrow> (authoring_error, int) result" where
  "exact_int value = (case value of
     EvInt i \<Rightarrow> Inr i
   | EvStr s \<Rightarrow> let t = py_strip s in
       if t \<noteq> [] \<and> list_all (\<lambda>c. is_digit c \<or> superscript_digit c) t
       then (if list_all is_digit t then Inr (int (str_nat t)) else Inl (RulePythonError ''ValueError''))
       else data_error
   | _ \<Rightarrow> data_error)"

definition row_positive_int :: "erp_value \<Rightarrow> (authoring_error, int) result" where
  "row_positive_int value = ebind (exact_int value) (\<lambda>i. if i \<le> 0 then data_error else Inr i)"

definition row_non_negative_int :: "erp_value \<Rightarrow> (authoring_error, int) result" where
  "row_non_negative_int value = ebind (exact_int value) (\<lambda>i. if i < 0 then data_error else Inr i)"

definition row_text :: "erp_value \<Rightarrow> (authoring_error, string) result" where
  "row_text value = (case value of EvStr s \<Rightarrow> if blank s then data_error else Inr (py_strip s) | _ \<Rightarrow> data_error)"

definition row_optional_text :: "erp_value \<Rightarrow> (authoring_error, string option) result" where
  "row_optional_text value = (if none_or_false value then Inr None else ebind (row_text value) (\<lambda>t. Inr (Some t)))"

section \<open>Rows\<close>

record currency_reference =
  cy_id :: int
  cy_code :: string
  cy_active :: bool

type_synonym currency_repository = "int list \<Rightarrow> (authoring_error, currency_reference list) result"

definition is_applicable_active_record :: "field_mapping \<Rightarrow> int \<Rightarrow> erp_record \<Rightarrow> (authoring_error, bool) result" where
  "is_applicable_active_record m company_id row =
     ebind (row_bool (row_get row (fm_active m))) (\<lambda>active.
     if \<not> active then Inr False
     else ebind (parse_odoo_many2one_id (row_get row (fm_company m))) (\<lambda>record_company_id.
       Inr (record_company_id \<in> {None, Some company_id})))"

fun efilter :: "('a \<Rightarrow> ('e, bool) result) \<Rightarrow> 'a list \<Rightarrow> ('e, 'a list) result" where
  "efilter f [] = Inr []"
| "efilter f (x # xs) = ebind (f x) (\<lambda>b. ebind (efilter f xs) (\<lambda>ys. Inr (if b then x # ys else ys)))"

definition currency_codes ::
    "field_mapping \<Rightarrow> currency_repository \<Rightarrow> erp_record list \<Rightarrow> (authoring_error, int \<rightharpoonup> string) result" where
  "currency_codes m find_currencies_by_ids rows =
     ebind (emap (\<lambda>row. parse_odoo_many2one_id (row_get row (fm_currency m))) rows) (\<lambda>ids.
       let currency_ids = sort (remdups (map the (filter (\<lambda>i. i \<noteq> None) ids))) in
       if currency_ids = [] then Inr Map.empty
       else ebind (find_currencies_by_ids currency_ids) (\<lambda>references.
         let active_by_id = map_of (rev (map (\<lambda>r. (cy_id r, cy_code r)) (filter cy_active references))) in
         if list_ex (\<lambda>i. active_by_id i = None) currency_ids then data_error else Inr active_by_id))"

definition rule_from_record ::
    "field_mapping \<Rightarrow> int \<Rightarrow> (int \<rightharpoonup> string) \<Rightarrow> erp_record \<Rightarrow> (authoring_error, decision_rule) result" where
  "rule_from_record m company_id codes row =
     ebind (parse_odoo_many2one_id (row_get row (fm_company m))) (\<lambda>record_company_id.
     if record_company_id \<notin> {None, Some company_id} then data_error
     else
       ebind (parse_odoo_many2one_id (row_get row (fm_currency m))) (\<lambda>currency_id.
       ebind (row_positive_int (row_get row ''id'')) (\<lambda>odoo_record_id.
       ebind (row_text (row_get row (fm_name m))) (\<lambda>name.
       ebind (row_text (row_get row (fm_rule_code m))) (\<lambda>rule_code.
       ebind (row_bool (row_get row (fm_active m))) (\<lambda>active.
       ebind (row_non_negative_int (row_get row (fm_priority m))) (\<lambda>priority.
       ebind (row_positive_int (row_get row (fm_rule_version m))) (\<lambda>rule_version.
       ebind (row_text (row_get row (fm_workflow m))) (\<lambda>workflow.
       ebind (row_optional_text (row_get row (fm_classification_code m))) (\<lambda>classification_code.
       ebind (parse_odoo_many2one_id (row_get row (fm_vendor m))) (\<lambda>vendor_partner_id.
       ebind (row_optional_text (row_get row (fm_vendor_tax_id m))) (\<lambda>vendor_tax_id.
       ebind (row_optional_text (row_get row (fm_provider_document_type m))) (\<lambda>provider_document_type.
       ebind (parse_purchase_order_presence (row_get row (fm_purchase_order_present m))) (\<lambda>purchase_order_present.
       ebind (parse_odoo_decision_rule_description_terms (row_get row (fm_description_contains m))) (\<lambda>description_contains.
       ebind (parse_odoo_many2one_id (row_get row (fm_product_mapping m))) (\<lambda>product_mapping_id.
       ebind (row_bool (row_get row (fm_require_review m))) (\<lambda>require_review.
       ebind (row_bool (row_get row (fm_require_business_context m))) (\<lambda>require_business_context.
       ebind (row_optional_text (row_get row (fm_notes m))) (\<lambda>notes.
       ebind (mk_authored_rule
         \<lparr>ar_odoo_record_id = odoo_record_id, ar_name = name, ar_rule_code = rule_code, ar_active = active, ar_priority = priority,
          ar_rule_version = rule_version, ar_workflow = workflow, ar_classification_code = classification_code,
          ar_company_id = record_company_id, ar_vendor_partner_id = vendor_partner_id, ar_vendor_tax_id = vendor_tax_id,
          ar_currency_id = currency_id, ar_currency_code = Option.bind currency_id codes,
          ar_provider_document_type = provider_document_type, ar_purchase_order_present = purchase_order_present,
          ar_description_contains = description_contains, ar_product_mapping_id = product_mapping_id,
          ar_require_review = require_review, ar_require_business_context = require_business_context, ar_notes = notes\<rparr>) (\<lambda>authored.
       contract (to_invoice_decision_rule authored)))))))))))))))))))))"

definition map_records ::
    "field_mapping \<Rightarrow> currency_repository \<Rightarrow> erp_record list \<Rightarrow> int \<Rightarrow> (authoring_error, decision_rule list) result" where
  "map_records m find_currencies_by_ids rows company_id =
     ebind (efilter (is_applicable_active_record m company_id) rows) (\<lambda>applicable_rows.
     ebind (currency_codes m find_currencies_by_ids applicable_rows) (\<lambda>codes.
     emap (rule_from_record m company_id codes) applicable_rows))"

section \<open>The repository\<close>

datatype domain_term = DomainAnd | DomainOr | DomainTest string string erp_value

type_synonym rule_adapter = "string \<Rightarrow> domain_term list \<Rightarrow> string list \<Rightarrow> (authoring_error, erp_record list) result"

definition rule_domain :: "field_mapping \<Rightarrow> int \<Rightarrow> domain_term list" where
  "rule_domain m company_id =
     [DomainAnd, DomainTest (fm_active m) ''='' (EvBool True), DomainOr, DomainTest (fm_company m) ''='' (EvInt company_id),
      DomainTest (fm_company m) ''='' (EvBool False)]"

definition unique_fields :: "string list \<Rightarrow> string list" where
  "unique_fields names = rev (remdups (rev names))"

definition list_invoice_decision_rules ::
    "rule_adapter \<Rightarrow> field_mapping \<Rightarrow> currency_repository \<Rightarrow> int \<Rightarrow> (authoring_error, decision_rule list) result" where
  "list_invoice_decision_rules search_read_all m find_currencies_by_ids company_id =
     (if company_id \<le> 0 then Inl (OdooDecisionRuleDataError ''company_id must be a positive integer.'')
      else case
        ebind (studio_fields m) (\<lambda>names.
        ebind (search_read_all (fm_model_name m) (rule_domain m company_id) (unique_fields (''id'' # names))) (\<lambda>rows.
        ebind (map_records m find_currencies_by_ids rows company_id) (\<lambda>rules.
        ebind (validate_unique_odoo_decision_rule_identities rules) (\<lambda>_.
        Inr (order_invoice_decision_rules rules))))) of
        Inl (OdooDecisionRuleDataError message) \<Rightarrow> Inl (OdooDecisionRuleDataError message)
      | Inl (OdooDecisionRuleAuthoringContractError _) \<Rightarrow> data_error
      | Inl (OdooDecisionRuleReadError _) \<Rightarrow> Inl (OdooDecisionRuleReadError SAFE_DECISION_RULE_READ_ERROR)
      | Inl (RuleErpRepositoryError _) \<Rightarrow> Inl (OdooDecisionRuleReadError SAFE_DECISION_RULE_READ_ERROR)
      | Inl (RulePythonError _) \<Rightarrow> data_error
      | Inl (RuleContractError e) \<Rightarrow> Inl (RuleContractError e)
      | Inr rules \<Rightarrow> Inr rules)"

section \<open>What a read of the rules gives\<close>

lemma efilter_Inr: "efilter f xs = Inr ys \<longleftrightarrow> (\<forall>x \<in> set xs. \<exists>b. f x = Inr b) \<and> ys = filter (\<lambda>x. f x = Inr True) xs"
proof (induction xs arbitrary: ys)
  case (Cons x xs)
  show ?case
  proof (cases "f x")
    case (Inr b)
    then show ?thesis using Cons.IH by (cases b; cases "efilter f xs") auto
  qed simp
qed auto

lemma emap_projr: "emap f xs = Inr ys \<longleftrightarrow> (\<forall>x \<in> set xs. \<exists>y. f x = Inr y) \<and> ys = map (\<lambda>x. projr (f x)) xs"
  by (induction xs arbitrary: ys) (auto simp: ebind_Inr_iff)

lemma emap_permuted:
  assumes "emap f xs = Inr ys" "mset xs = mset xs'"
  shows "\<exists>ys'. emap f xs' = Inr ys' \<and> mset ys' = mset ys"
  using assms mset_eq_setD [OF assms(2)] by (auto simp: emap_projr)

lemma efilter_permuted:
  assumes "efilter f xs = Inr ys" "mset xs = mset xs'"
  shows "\<exists>ys'. efilter f xs' = Inr ys' \<and> mset ys' = mset ys"
  using assms mset_eq_setD [OF assms(2)] by (auto simp: efilter_Inr)

lemma currency_codes_permuted:
  assumes "currency_codes m currencies rows = Inr codes" "mset rows = mset rows'"
  shows "currency_codes m currencies rows' = Inr codes"
proof -
  from assms(1) obtain ids where ids: "emap (\<lambda>row. parse_odoo_many2one_id (row_get row (fm_currency m))) rows = Inr ids"
    by (auto simp: currency_codes_def ebind_Inr_iff)
  from emap_permuted [OF ids assms(2)] obtain ids' where
    ids': "emap (\<lambda>row. parse_odoo_many2one_id (row_get row (fm_currency m))) rows' = Inr ids'" "mset ids' = mset ids" by blast
  have "set ids' = set ids" using ids'(2) by (rule mset_eq_setD)
  then have "sort (remdups (map the (filter (\<lambda>i. i \<noteq> None) ids'))) = sort (remdups (map the (filter (\<lambda>i. i \<noteq> None) ids)))"
    by (simp add: sorted_list_of_set_sort_remdups [symmetric])
  with ids ids'(1) assms(1) show ?thesis unfolding currency_codes_def by (simp only: ebind_simps Let_def)
qed

lemma map_records_permuted:
  assumes "map_records m currencies rows company_id = Inr rules" "mset rows = mset rows'"
  shows "\<exists>rules'. map_records m currencies rows' company_id = Inr rules' \<and> mset rules' = mset rules"
proof -
  from assms(1) obtain applicable codes where a: "efilter (is_applicable_active_record m company_id) rows = Inr applicable"
    and c: "currency_codes m currencies applicable = Inr codes" and r: "emap (rule_from_record m company_id codes) applicable = Inr rules"
    by (auto simp: map_records_def ebind_Inr_iff)
  from efilter_permuted [OF a assms(2)] obtain applicable' where
    a': "efilter (is_applicable_active_record m company_id) rows' = Inr applicable'" "mset applicable' = mset applicable" by blast
  have "currency_codes m currencies applicable' = Inr codes" by (rule currency_codes_permuted [OF c a'(2) [symmetric]])
  with a'(1) emap_permuted [OF r a'(2) [symmetric]] show ?thesis by (auto simp: map_records_def)
qed

lemma ordered_permuted:
  assumes "distinct (map rule_identity rules)" "mset rules' = mset rules"
  shows "order_invoice_decision_rules rules' = order_invoice_decision_rules rules"
  unfolding order_invoice_decision_rules_def
proof (rule sort_key_inj_key_eq)
  show "mset (filter dr_enabled rules') = mset (sort_key precedence_key (filter dr_enabled rules))" using assms(2) by simp
  have "inj_on rule_identity (set rules)" using assms(1) by (simp add: distinct_map)
  then have "inj_on precedence_key (set rules)" by (auto simp: inj_on_def precedence_key_def rule_identity_def)
  then show "inj_on precedence_key (set (filter dr_enabled rules'))"
    using mset_eq_setD [OF assms(2)] by (auto simp: inj_on_def)
qed simp

lemma read_rules:
  assumes "list_invoice_decision_rules adapter m currencies company_id = Inr rules"
  obtains names rows mapped where "studio_fields m = Inr names" "0 < company_id"
    "adapter (fm_model_name m) (rule_domain m company_id) (unique_fields (''id'' # names)) = Inr rows"
    "map_records m currencies rows company_id = Inr mapped" "distinct (map rule_identity mapped)"
    "rules = order_invoice_decision_rules mapped"
  using assms
  by (auto simp: list_invoice_decision_rules_def ebind_Inr_iff validate_unique_odoo_decision_rule_identities_def
      split: if_splits sum.splits authoring_error.splits)

lemma ebind_InrE: "ebind x f = Inr y \<Longrightarrow> (\<And>z. x = Inr z \<Longrightarrow> f z = Inr y \<Longrightarrow> thesis) \<Longrightarrow> thesis"
  by (auto simp: ebind_Inr_iff)

lemma mk_decision_rule_fields:
  "mk_decision_rule r0 = Inr r \<Longrightarrow> dr_action r = dr_action r0 \<and> dr_match r = dr_match r0 \<and> dr_enabled r = dr_enabled r0"
  by (auto simp: mk_decision_rule_def ebind_Inr_iff)

lemma mk_rule_match_company: "mk_rule_match m0 = Inr m \<Longrightarrow> rm_company_id m = rm_company_id m0"
  by (auto simp: mk_rule_match_def ebind_Inr_iff)

lemma mk_authored_rule_company: "mk_authored_rule a0 = Inr aw \<Longrightarrow> ar_company_id (fst aw) = ar_company_id a0 \<and> ar_active (fst aw) = ar_active a0"
  by (auto simp: mk_authored_rule_def ebind_Inr_iff)

lemma authored_constructed:
  assumes "to_invoice_decision_rule aw = Inr r"
  shows "constructed_rule r \<and> rm_company_id (dr_match r) = ar_company_id (fst aw)"
proof -
  from assms obtain p0 p m0 m a0 act r0 where "mk_rule_match m0 = Inr m" "rm_company_id m0 = ar_company_id (fst aw)"
    "mk_rule_action a0 = Inr act" "mk_decision_rule r0 = Inr r" "dr_action r0 = act" "dr_match r0 = m"
    by (cases aw) (fastforce simp: to_invoice_decision_rule_def ebind_Inr_iff)
  with mk_decision_rule_fields mk_rule_match_company show ?thesis unfolding constructed_rule_def by metis
qed

lemma rule_from_record_constructed:
  assumes "rule_from_record m company_id codes row = Inr r"
  shows "constructed_rule r \<and> rm_company_id (dr_match r) \<in> {None, Some company_id}"
proof -
  have contract_Inr: "x = Inr y" if "contract x = Inr y" for x :: "(rule_error, 'b) result" and y
    using that by (auto simp: contract_def split: sum.splits)
  show ?thesis
    using assms unfolding rule_from_record_def
    by (auto elim!: ebind_InrE dest!: contract_Inr authored_constructed mk_authored_rule_company split: if_splits)
qed

lemma mapped_rules_constructed:
  assumes "map_records m currencies rows company_id = Inr rules" "r \<in> set rules"
  shows "constructed_rule r \<and> rm_company_id (dr_match r) \<in> {None, Some company_id}"
proof -
  from assms obtain codes applicable where "emap (rule_from_record m company_id codes) applicable = Inr rules"
    by (auto simp: map_records_def ebind_Inr_iff)
  with assms(2) obtain row where "rule_from_record m company_id codes row = Inr r" by (auto simp: emap_projr)
  then show ?thesis by (rule rule_from_record_constructed)
qed

lemma ordered_strictly:
  assumes "distinct (map rule_identity rules)"
  shows "sorted_wrt (\<lambda>r s. precedence_key r < precedence_key s) (order_invoice_decision_rules rules)"
proof -
  have "inj_on rule_identity (set rules)" "distinct rules" using assms by (simp_all add: distinct_map)
  then have "inj_on precedence_key (set (filter dr_enabled rules))"
    by (auto simp: inj_on_def precedence_key_def rule_identity_def)
  with \<open>distinct rules\<close> have "distinct (map precedence_key (order_invoice_decision_rules rules))"
    by (simp add: order_invoice_decision_rules_def distinct_map)
  moreover have "sorted (map precedence_key (order_invoice_decision_rules rules))"
    by (simp add: order_invoice_decision_rules_def)
  ultimately have "sorted_wrt (<) (map precedence_key (order_invoice_decision_rules rules))"
    by (simp add: strict_sorted_iff)
  then show ?thesis by (simp add: sorted_wrt_map)
qed

text \<open>
  C15. The rules that a read of the ERP gives do not depend on the order of its rows: an adapter that returns
  the same rows in another order gives the same list. Every rule of the list is one that the constructors
  built, is enabled and belongs to the company or to none, and the list is strictly ordered by precedence,
  so no two rules tie.
\<close>

theorem rules_ignore_row_order:
  assumes "list_invoice_decision_rules adapter m currencies company_id = Inr rules"
    and "\<And>model domain names rows. adapter model domain names = Inr rows
      \<Longrightarrow> \<exists>rows'. adapter' model domain names = Inr rows' \<and> mset rows' = mset rows"
  shows "list_invoice_decision_rules adapter' m currencies company_id = Inr rules
    \<and> (\<forall>r \<in> set rules. constructed_rule r \<and> dr_enabled r \<and> rm_company_id (dr_match r) \<in> {None, Some company_id})
    \<and> sorted_wrt (\<lambda>r s. precedence_key r < precedence_key s) rules"
proof -
  from assms(1) obtain names rows mapped where read: "studio_fields m = Inr names" "0 < company_id"
    and rows: "adapter (fm_model_name m) (rule_domain m company_id) (unique_fields (''id'' # names)) = Inr rows"
    and mapped: "map_records m currencies rows company_id = Inr mapped" and unique: "distinct (map rule_identity mapped)"
    and rules: "rules = order_invoice_decision_rules mapped" by (rule read_rules)
  from assms(2) [OF rows] obtain rows' where
    rows': "adapter' (fm_model_name m) (rule_domain m company_id) (unique_fields (''id'' # names)) = Inr rows'" "mset rows = mset rows'"
    by force
  from map_records_permuted [OF mapped rows'(2)] obtain mapped' where
    mapped': "map_records m currencies rows' company_id = Inr mapped'" "mset mapped' = mset mapped" by blast
  have "mset (map rule_identity mapped') = mset (map rule_identity mapped)" using mapped'(2) by simp
  then have unique': "distinct (map rule_identity mapped')" using unique by (metis mset_eq_imp_distinct_iff)
  have "list_invoice_decision_rules adapter' m currencies company_id = Inr (order_invoice_decision_rules mapped')"
    using read rows'(1) mapped'(1) unique'
    by (simp add: list_invoice_decision_rules_def validate_unique_odoo_decision_rule_identities_def)
  moreover have "order_invoice_decision_rules mapped' = rules" unfolding rules by (rule ordered_permuted [OF unique mapped'(2)])
  moreover have "\<forall>r \<in> set rules. constructed_rule r \<and> dr_enabled r \<and> rm_company_id (dr_match r) \<in> {None, Some company_id}"
    using mapped_rules_constructed [OF mapped] by (simp add: rules order_invoice_decision_rules_def)
  moreover have "sorted_wrt (\<lambda>r s. precedence_key r < precedence_key s) rules" unfolding rules by (rule ordered_strictly [OF unique])
  ultimately show ?thesis by simp
qed

section \<open>An example\<close>

definition example_row :: "string \<Rightarrow> erp_value \<Rightarrow> erp_value \<Rightarrow> erp_record" where
  "example_row code company terms = map_of
     [(''id'', EvInt 3), (''x_name'', EvStr ''Rule''), (''x_studio_rule_code'', EvStr code), (''x_studio_active'', EvBool True),
      (''x_studio_priority'', EvInt 1), (''x_studio_company_id'', company), (''x_studio_workflow'', EvStr ''vendor_bill''),
      (''x_studio_description_contains'', terms), (''x_studio_require_review'', EvBool False),
      (''x_studio_require_business_context'', EvBool True), (''x_studio_rule_version'', EvStr ''1'')]"

definition read_example :: "erp_record list \<Rightarrow> (authoring_error, decision_rule list) result" where
  "read_example rows = list_invoice_decision_rules (\<lambda>_ _ _. Inr rows) default_field_mapping (\<lambda>_. Inr []) 7"

lemma example_read:
  "map_option (map dr_rule_code) (case read_example [example_row ''b'' (EvInt 7) EvNone, example_row ''a'' (EvBool False) EvNone]
     of Inl _ \<Rightarrow> None | Inr rules \<Rightarrow> Some rules) = Some [''B'', ''A'']"
  by code_simp

theorem rules_ignore_row_order_witness:
  "\<exists>rules. map dr_rule_code rules = [''B'', ''A'']
     \<and> read_example [example_row ''a'' (EvBool False) EvNone, example_row ''b'' (EvInt 7) EvNone] = Inr rules"
proof -
  let ?a = "example_row ''a'' (EvBool False) EvNone" and ?b = "example_row ''b'' (EvInt 7) EvNone"
  from example_read obtain rules where r: "read_example [?b, ?a] = Inr rules" "map dr_rule_code rules = [''B'', ''A'']"
    by (auto split: sum.splits)
  have "list_invoice_decision_rules (\<lambda>_ _ _. Inr [?a, ?b]) default_field_mapping (\<lambda>_. Inr []) 7 = Inr rules"
    using rules_ignore_row_order [of "\<lambda>_ _ _. Inr [?b, ?a]" default_field_mapping "\<lambda>_. Inr []" 7 rules "\<lambda>_ _ _. Inr [?a, ?b]"] r(1)
    by (auto simp: read_example_def)
  with r(2) show ?thesis by (auto simp: read_example_def)
qed

text \<open>A row that repeats a term of its description raises the error of the contract, which the repository does not translate.\<close>

lemma repeated_term_escapes:
  "read_example [example_row ''a'' (EvInt 7) (EvStr (''x'' @ CHR 0x0A # ''X''))]
   = Inl (RuleContractError (InvoiceDecisionRuleContractError ''description_contains values must be unique.''))"
  by code_simp

end
