(* ===== verification/Decision_Engine.thy ===== *)
theory Decision_Engine
  imports Rule_Engine Rule_Authoring Vendor_Bill
begin

text \<open>
  The decision engine, \<^verbatim>\<open>app/application/decision\<close>, and its composition in
  \<^verbatim>\<open>app/composition/imports.py\<close>: evaluate the deterministic rules, classify the invoice, and let the
  strategy of the selected workflow act. The strategies act on an outside world \<^verbatim>\<open>'w\<close>. The measured
  duration of a result is left out.
\<close>

section \<open>Results\<close>

datatype decision_error =
    EngineError engine_error
  | ClassificationError rule_error
  | RuleRepositoryError authoring_error
  | UnsupportedWorkflowError string
  | BillBuilderError bill_error
  | WriterError string

record decision_result =
  de_success :: bool
  de_invoice_id :: string
  de_workflow :: workflow_type
  de_strategy :: string
  de_status :: string
  de_vendor_bill_id :: "int option"
  de_review_id :: "string option"
  de_review_required :: bool
  de_review_reasons :: "review_reason list"
  de_classification :: "classification_result option"
  de_partner_match :: "partner_match option"
  de_product_match :: "invoice_product_match option"
  de_tax_match :: "tax_mapping_result option"
  de_expense_match :: "expense_match option"
  de_warnings :: "string list"
  de_errors :: "string list"
  de_fixed_asset_accounting :: "fixed_asset_accounting option"

definition invoice_identity :: "internal_invoice \<Rightarrow> string" where
  "invoice_identity invoice = (case hd_ettn (iv_header invoice) of
     None \<Rightarrow> hd_invoice_uuid (iv_header invoice)
   | Some e \<Rightarrow> if e = [] then hd_invoice_uuid (iv_header invoice) else e)"

definition base_result :: "import_command \<Rightarrow> workflow_type \<Rightarrow> string \<Rightarrow> decision_result" where
  "base_result command workflow strategy =
     \<lparr>de_success = False, de_invoice_id = invoice_identity (ic_invoice command), de_workflow = workflow, de_strategy = strategy,
      de_status = ''review_required'', de_vendor_bill_id = None, de_review_id = None, de_review_required = False, de_review_reasons = [],
      de_classification = None, de_partner_match = None, de_product_match = None, de_tax_match = None, de_expense_match = None,
      de_warnings = [], de_errors = [], de_fixed_asset_accounting = None\<rparr>"

definition ev_workflow :: "rule_evaluation \<Rightarrow> workflow_type" where
  "ev_workflow r = wd_workflow (ev_workflow_decision r)"

section \<open>Strategies\<close>

record 'w workflow_strategy =
  ws_workflow :: workflow_type
  ws_execute :: "import_command \<Rightarrow> rule_evaluation \<Rightarrow> ('w, decision_error, decision_result) action"

definition structured_review :: "rule_evaluation \<Rightarrow> (decision_error, manual_review_decision) result" where
  "structured_review r =
     (if ev_workflow r \<noteq> WF_MANUAL_REVIEW
      then Inl (UnsupportedWorkflowError (''ManualReviewStrategy cannot execute workflow: '' @ workflow_value (ev_workflow r) @ ''.''))
      else case wd_manual_review (ev_workflow_decision r) of
        None \<Rightarrow> Inl (UnsupportedWorkflowError ''Manual Review workflow requires structured review reasons.'')
      | Some d \<Rightarrow> if mr_reasons d = []
          then Inl (UnsupportedWorkflowError ''Manual Review workflow requires structured review reasons.'') else Inr d)"

definition execute_manual_review :: "import_command \<Rightarrow> rule_evaluation \<Rightarrow> ('w, decision_error, decision_result) action" where
  "execute_manual_review command r = act_lift (ebind (structured_review r) (\<lambda>d.
     Inr ((base_result command WF_MANUAL_REVIEW (workflow_value WF_MANUAL_REVIEW))
       \<lparr>de_review_required := True, de_review_reasons := mr_reasons d, de_warnings := mr_warnings d\<rparr>)))"

definition manual_review_strategy :: "'w workflow_strategy" where
  "manual_review_strategy = \<lparr>ws_workflow = WF_MANUAL_REVIEW, ws_execute = execute_manual_review\<rparr>"

definition matching_outputs :: "rule_evaluation \<Rightarrow> (partner_match \<times> invoice_product_match \<times> tax_mapping_result) option" where
  "matching_outputs r = (case (ev_partner_match r, ev_product_match r, ev_tax_match r) of
     (Some partner, Some product, Some tax) \<Rightarrow> Some (partner, product, tax) | _ \<Rightarrow> None)"

definition execute_review_recommendation :: "import_command \<Rightarrow> rule_evaluation \<Rightarrow> ('w, decision_error, decision_result) action" where
  "execute_review_recommendation command r = act_lift
     (if ev_workflow r \<noteq> WF_VENDOR_BILL
      then Inl (UnsupportedWorkflowError (''VendorBillReviewRecommendationStrategy cannot execute workflow: ''
        @ workflow_value (ev_workflow r) @ ''.''))
      else if matching_outputs r = None
      then Inl (UnsupportedWorkflowError ''Vendor Bill review recommendation requires matching rule outputs.'')
      else Inr ((base_result command WF_VENDOR_BILL ''vendor_bill_review_recommendation'')
        \<lparr>de_success := True, de_review_required := True, de_partner_match := ev_partner_match r, de_product_match := ev_product_match r,
         de_tax_match := ev_tax_match r, de_warnings := ev_warnings r, de_errors := ev_errors r\<rparr>))"

definition review_recommendation_strategy :: "'w workflow_strategy" where
  "review_recommendation_strategy = \<lparr>ws_workflow = WF_VENDOR_BILL, ws_execute = execute_review_recommendation\<rparr>"

text \<open>The direct strategy, which builds the bill and calls the writer.\<close>

record bill_write_command =
  bc_vendor_bill :: vendor_bill
  bc_idempotency_key :: string
  bc_company_id :: "int option"
  bc_dry_run :: bool
  bc_approved_by :: "string option"

datatype bill_write_status = BW_DRY_RUN | BW_CREATED | BW_EXISTING | BW_FAILED

fun bill_write_status_value :: "bill_write_status \<Rightarrow> string" where
  "bill_write_status_value BW_DRY_RUN = ''dry_run''"
| "bill_write_status_value BW_CREATED = ''created''"
| "bill_write_status_value BW_EXISTING = ''existing''"
| "bill_write_status_value BW_FAILED = ''failed''"

record bill_write_result =
  bw_status :: bill_write_status
  bw_external_id :: "int option"
  bw_safe_message :: "string option"
  bw_warnings :: "string list"
  bw_errors :: "string list"

type_synonym 'w bill_writer = "bill_write_command \<Rightarrow> ('w, decision_error, bill_write_result) action"

definition message_or :: "string list \<Rightarrow> string option \<Rightarrow> string list \<Rightarrow> string list" where
  "message_or messages safe fallback = (if messages \<noteq> [] then messages
     else case safe of Some m \<Rightarrow> if m \<noteq> [] then [m] else fallback | None \<Rightarrow> fallback)"

definition decision_from_write :: "import_command \<Rightarrow> bill_write_result \<Rightarrow> decision_result" where
  "decision_from_write command w =
     (let success = (bw_status w \<in> {BW_DRY_RUN, BW_CREATED, BW_EXISTING}) in
      (base_result command WF_VENDOR_BILL (workflow_value WF_VENDOR_BILL))
        \<lparr>de_success := success,
         de_status := (if bw_status w = BW_EXISTING then ''already_exists'' else bill_write_status_value (bw_status w)),
         de_vendor_bill_id := bw_external_id w,
         de_warnings := (if success then message_or (bw_warnings w) (bw_safe_message w) [] else []),
         de_errors := (if success then [] else message_or (bw_errors w) (bw_safe_message w) [''Vendor Bill write operation failed.''])\<rparr>)"

definition direct_bill_inputs :: "import_command \<Rightarrow> partner_match \<Rightarrow> invoice_product_match \<Rightarrow> tax_mapping_result \<Rightarrow> bill_inputs" where
  "direct_bill_inputs command partner product tax =
     \<lparr>vi_invoice = ic_invoice command, vi_partner_match = partner, vi_product_match = product, vi_tax_match = tax,
      vi_company_id = ic_company_id command, vi_operating_expense_match = None, vi_account_only_line_numbers = [],
      vi_account_only_expense_match = None, vi_explicit_account_only_accounts = None, vi_validated_resale_accounts = None,
      vi_monetary_precision = None, vi_fixed_asset_accounting = None, vi_validated_internal_use_accounts = None\<rparr>"

definition execute_vendor_bill ::
    "'w bill_writer \<Rightarrow> import_command \<Rightarrow> rule_evaluation \<Rightarrow> ('w, decision_error, decision_result) action" where
  "execute_vendor_bill write_vendor_bill command r =
     (if ev_workflow r \<noteq> WF_VENDOR_BILL
      then act_raise (UnsupportedWorkflowError (''VendorBillStrategy cannot execute workflow: '' @ workflow_value (ev_workflow r) @ ''.''))
      else case matching_outputs r of
        None \<Rightarrow> act_raise (UnsupportedWorkflowError ''Vendor Bill workflow requires matching rule outputs.'')
      | Some (partner, product, tax) \<Rightarrow>
          (case build_vendor_bill (direct_bill_inputs command partner product tax) of
             Inl e \<Rightarrow> act_raise (BillBuilderError e)
           | Inr bill \<Rightarrow> act_bind (write_vendor_bill \<lparr>bc_vendor_bill = bill, bc_idempotency_key = ic_idempotency_key command,
               bc_company_id = ic_company_id command, bc_dry_run = ic_dry_run command, bc_approved_by = ic_approved_by command\<rparr>)
               (\<lambda>w. act_return (decision_from_write command w))))"

definition vendor_bill_strategy :: "'w bill_writer \<Rightarrow> 'w workflow_strategy" where
  "vendor_bill_strategy write_vendor_bill = \<lparr>ws_workflow = WF_VENDOR_BILL, ws_execute = execute_vendor_bill write_vendor_bill\<rparr>"

text \<open>A dict comprehension by workflow: a later strategy replaces an earlier one.\<close>

definition resolve_strategy :: "'w workflow_strategy list \<Rightarrow> workflow_type \<Rightarrow> (decision_error, 'w workflow_strategy) result" where
  "resolve_strategy strategies workflow = (case find (\<lambda>s. ws_workflow s = workflow) (rev strategies) of
     None \<Rightarrow> Inl (UnsupportedWorkflowError (''Unsupported workflow: '' @ workflow_value workflow @ ''.''))
   | Some s \<Rightarrow> Inr s)"

section \<open>The engine\<close>

record 'w decision_engine =
  dn_rule_engine :: rule_engine
  dn_strategies :: "'w workflow_strategy list"
  dn_decision_rules :: "(int \<Rightarrow> (authoring_error, decision_rule list) result) option"

definition with_error :: "('e \<Rightarrow> 'f) \<Rightarrow> ('e, 'a) result \<Rightarrow> ('f, 'a) result" where
  "with_error f r = (case r of Inl e \<Rightarrow> Inl (f e) | Inr x \<Rightarrow> Inr x)"

lemma with_error_Inr [simp]: "with_error f r = Inr x \<longleftrightarrow> r = Inr x"
  by (simp add: with_error_def split: sum.splits)

definition classify_import :: "'w decision_engine \<Rightarrow> import_command \<Rightarrow> rule_evaluation \<Rightarrow> (decision_error, classification_result option) result" where
  "classify_import engine command r =
     (case (dn_decision_rules engine, ic_company_id command) of
        (Some list_rules, Some company) \<Rightarrow>
          if company \<le> 0 then Inr None
          else ebind (with_error ClassificationError
              (build_invoice_classification_context (ic_invoice command) company (ev_partner_match r) (ev_product_match r))) (\<lambda>context.
            ebind (with_error RuleRepositoryError (list_rules company)) (\<lambda>rules.
            ebind (with_error ClassificationError (classify context rules)) (\<lambda>c. Inr (Some c))))
      | _ \<Rightarrow> Inr None)"

definition decide :: "'w decision_engine \<Rightarrow> import_command \<Rightarrow> ('w, decision_error, decision_result) action" where
  "decide engine command =
     act_bind (act_lift (with_error EngineError (evaluate (dn_rule_engine engine) command))) (\<lambda>r.
     act_bind (act_lift (classify_import engine command r)) (\<lambda>classification.
     act_bind (act_lift (resolve_strategy (dn_strategies engine) (ev_workflow r))) (\<lambda>strategy.
     act_bind (ws_execute strategy command r) (\<lambda>result.
     act_return \<lparr>de_success = de_success result, de_invoice_id = de_invoice_id result, de_workflow = de_workflow result,
       de_strategy = de_strategy result, de_status = de_status result, de_vendor_bill_id = de_vendor_bill_id result, de_review_id = None,
       de_review_required = de_review_required result, de_review_reasons = de_review_reasons result,
       de_classification = classification, de_partner_match = ev_partner_match r, de_product_match = ev_product_match r,
       de_tax_match = ev_tax_match r, de_expense_match = ev_expense_match r, de_warnings = ev_warnings r @ de_warnings result,
       de_errors = ev_errors r @ de_errors result, de_fixed_asset_accounting = None\<rparr>))))"

section \<open>The composition\<close>

fun matching_exception :: "matching_error \<Rightarrow> engine_error" where
  "matching_exception (PartnerMatchingError m) = PortException (Some m)"
| "matching_exception (ProductMatchingError m) = PortException (Some m)"

fun tax_exception :: "tax_error \<Rightarrow> engine_error" where
  "tax_exception (TaxMappingError m) = PortException (Some m)"
| "tax_exception (TaxRepositoryError m) = PortException (Some m)"
| "tax_exception TaxInvalidOperation = PortException None"

fun expense_exception :: "expense_error \<Rightarrow> engine_error" where
  "expense_exception (OperatingExpenseMappingError m) = PortApplicationError m"
| "expense_exception (OperatingExpenseMappingContractError m) = PortApplicationError m"
| "expense_exception (OperatingExpenseMappingDataIntegrityError m) = PortApplicationError m"
| "expense_exception (OperatingExpenseMappingConflictError m) = PortApplicationError m"

fun source_tax_exception :: "source_tax_error \<Rightarrow> engine_error" where
  "source_tax_exception (TaxFactsUnavailableError m) = PortApplicationError m"
| "source_tax_exception (DocumentUnreadableError m _) = PortApplicationError m"
| "source_tax_exception (SourceTaxSafetyBlockedError m _) = PortApplicationError m"
| "source_tax_exception (StReviewNotFoundError m) = PortApplicationError m"
| "source_tax_exception (StReviewPersistenceError m) = PortApplicationError m"
| "source_tax_exception (StInvoiceDomainError m) = PortException (Some m)"
| "source_tax_exception (StErpRepositoryError m) = PortException (Some m)"
| "source_tax_exception (StTaxError e) = tax_exception e"

definition deterministic_rule_engine ::
    "'e partner_repository \<Rightarrow> 'f product_repository \<Rightarrow> 'f supplier_product_repository \<Rightarrow> tax_repository \<Rightarrow> mapping_lookup \<Rightarrow>
     exemption_policy \<Rightarrow> rule_engine" where
  "deterministic_rule_engine partners products supplier_products taxes mappings policy =
     \<lparr>en_match_partner = (\<lambda>invoice company. with_error matching_exception (match_partner partners invoice company)),
      en_match_products = (\<lambda>invoice company partner.
        with_error matching_exception (match_products products (Some supplier_products) invoice company partner)),
      en_map_taxes = (\<lambda>invoice company. with_error tax_exception (map_invoice_taxes taxes invoice company)),
      en_match_expense = (\<lambda>invoice company partner. with_error expense_exception (match_expense mappings company (Some partner))),
      en_map_exemptions = (\<lambda>invoice tax assessment company.
        with_error source_tax_exception (map_exemptions policy invoice tax assessment company))\<rparr>"

definition deterministic_decision_engine ::
    "rule_engine \<Rightarrow> rule_adapter \<Rightarrow> currency_repository \<Rightarrow> 'w decision_engine" where
  "deterministic_decision_engine rules adapter currencies =
     \<lparr>dn_rule_engine = rules, dn_strategies = [review_recommendation_strategy, manual_review_strategy],
      dn_decision_rules = Some (list_invoice_decision_rules adapter default_field_mapping currencies)\<rparr>"

section \<open>Every import ends in a review\<close>

lemma act_bind_state: "m w = (r, w') \<Longrightarrow> act_bind m f w = (case r of Inl e \<Rightarrow> (Inl e, w') | Inr x \<Rightarrow> f x w')"
  by (simp add: act_bind_def)

lemma reviewing_resolved:
  "resolve_strategy [review_recommendation_strategy, manual_review_strategy] WF_VENDOR_BILL = Inr review_recommendation_strategy"
  "resolve_strategy [review_recommendation_strategy, manual_review_strategy] WF_MANUAL_REVIEW = Inr manual_review_strategy"
  by (simp_all add: resolve_strategy_def review_recommendation_strategy_def manual_review_strategy_def)

lemma strategies_execute [simp]:
  "ws_execute review_recommendation_strategy = execute_review_recommendation" "ws_execute manual_review_strategy = execute_manual_review"
  by (simp_all add: review_recommendation_strategy_def manual_review_strategy_def)

lemma composed_engine [simp]:
  "dn_rule_engine (deterministic_decision_engine rules adapter currencies) = rules"
  "dn_strategies (deterministic_decision_engine rules adapter currencies) = [review_recommendation_strategy, manual_review_strategy]"
  by (simp_all add: deterministic_decision_engine_def)

lemma evaluated_shape:
  assumes "evaluate engine command = Inr r"
  obtains partner product tax expense where "ev_partner_match r = Some partner" "ev_product_match r = Some product"
    "ev_tax_match r = Some tax" "ev_expense_match r = Some expense"
    "ev_workflow_decision r = decided command partner product tax expense"
  using assms by (auto simp: evaluate_def ebind_Inr_iff Let_def)

lemma evaluated_workflow:
  assumes "evaluate engine command = Inr r"
  shows "ev_workflow r = WF_VENDOR_BILL \<and> matching_outputs r \<noteq> None
    \<or> ev_workflow r = WF_MANUAL_REVIEW \<and> (\<exists>d. structured_review r = Inr d \<and> mr_reasons d \<noteq> [])"
proof -
  from assms obtain partner product tax expense where shape: "ev_partner_match r = Some partner" "ev_product_match r = Some product"
    "ev_tax_match r = Some tax" "ev_workflow_decision r = decided command partner product tax expense"
    by (rule evaluated_shape)
  show ?thesis
  proof (cases "bill_allowed command partner product tax expense")
    case True
    with shape decided_workflow [of command partner product tax expense] show ?thesis by (simp add: ev_workflow_def matching_outputs_def)
  next
    case False
    with decided_workflow [of command partner product tax expense] obtain rs
      where rs: "decided command partner product tax expense = manual_review_decision_of rs" "rs \<noteq> []" by auto
    with shape have "ev_workflow r = WF_MANUAL_REVIEW" by (simp add: ev_workflow_def)
    moreover have "\<exists>d. structured_review r = Inr d \<and> mr_reasons d \<noteq> []"
      using shape rs calculation by (auto simp: structured_review_def manual_review_decision_of_def)
    ultimately show ?thesis by simp
  qed
qed

text \<open>What the two reviewing strategies make of an evaluation.\<close>

definition review_result :: "import_command \<Rightarrow> rule_evaluation \<Rightarrow> decision_result \<Rightarrow> bool" where
  "review_result command r d \<longleftrightarrow> de_review_required d \<and> de_status d = ''review_required'' \<and> de_vendor_bill_id d = None
     \<and> de_workflow d = ev_workflow r \<and> de_success d = (ev_workflow r = WF_VENDOR_BILL)
     \<and> de_review_reasons d = (case wd_manual_review (ev_workflow_decision r) of None \<Rightarrow> [] | Some m \<Rightarrow> mr_reasons m)
     \<and> de_partner_match d = ev_partner_match r \<and> de_product_match d = ev_product_match r \<and> de_tax_match d = ev_tax_match r
     \<and> de_expense_match d = ev_expense_match r \<and> de_fixed_asset_accounting d = None"

lemma bill_decision_without_review:
  assumes "evaluate engine command = Inr r" "ev_workflow r = WF_VENDOR_BILL"
  shows "wd_manual_review (ev_workflow_decision r) = None"
proof -
  from assms(1) obtain partner product tax expense where "ev_workflow_decision r = decided command partner product tax expense"
    by (rule evaluated_shape)
  with assms(2) decided_workflow [of command partner product tax expense] show ?thesis
    by (auto simp: ev_workflow_def decided_def vendor_bill_decision_def manual_review_decision_of_def Let_def split: option.splits if_splits)
qed

lemma decide_reviews:
  assumes "decide (deterministic_decision_engine rules adapter currencies) command w = (Inr d, w')"
  obtains r where "evaluate rules command = Inr r" "review_result command r d" "w' = w"
proof -
  let ?e = "deterministic_decision_engine rules adapter currencies :: 'a decision_engine"
  from assms obtain r where r: "evaluate rules command = Inr r"
    by (auto simp: decide_def act_bind_def with_error_def split: sum.splits)
  from assms r obtain c where c: "classify_import ?e command r = Inr c"
    by (cases "classify_import ?e command r") (auto simp: decide_def act_bind_def with_error_def)
  from evaluated_workflow [OF r] show ?thesis
  proof
    assume b: "ev_workflow r = WF_VENDOR_BILL \<and> matching_outputs r \<noteq> None"
    with assms r c bill_decision_without_review [OF r] have "review_result command r d" "w' = w"
      by (auto simp: decide_def act_bind_def with_error_def reviewing_resolved execute_review_recommendation_def base_result_def
          act_return_def review_result_def)
    with r show ?thesis by (rule that)
  next
    assume "ev_workflow r = WF_MANUAL_REVIEW \<and> (\<exists>d. structured_review r = Inr d \<and> mr_reasons d \<noteq> [])"
    then obtain m where m: "ev_workflow r = WF_MANUAL_REVIEW" "structured_review r = Inr m" by blast
    then have "wd_manual_review (ev_workflow_decision r) = Some m"
      by (auto simp: structured_review_def split: if_splits option.splits)
    with assms r c m have "review_result command r d" "w' = w"
      by (auto simp: decide_def act_bind_def with_error_def reviewing_resolved execute_manual_review_def base_result_def
          act_return_def review_result_def)
    with r show ?thesis by (rule that)
  qed
qed

lemma decide_raises:
  assumes "decide (deterministic_decision_engine rules adapter currencies) command w = (Inl e, w')"
  shows "w' = w \<and> (\<exists>x. e = EngineError x) \<or> w' = w \<and> (\<exists>x. e = ClassificationError x) \<or> w' = w \<and> (\<exists>x. e = RuleRepositoryError x)"
proof (cases "evaluate rules command")
  case (Inl x)
  with assms show ?thesis by (auto simp: decide_def act_bind_def with_error_def)
next
  case (Inr r)
  let ?e = "deterministic_decision_engine rules adapter currencies :: 'a decision_engine"
  show ?thesis
  proof (cases "classify_import ?e command r")
    case (Inl x)
    with assms Inr have "e = x" "w' = w" by (auto simp: decide_def act_bind_def with_error_def)
    with Inl show ?thesis
      by (auto simp: classify_import_def with_error_def ebind_Inl_iff split: option.splits if_splits sum.splits)
  next
    case c: (Inr c)
    have False using evaluated_workflow [OF Inr] assms Inr c
      by (auto simp: decide_def act_bind_def with_error_def reviewing_resolved execute_manual_review_def
          execute_review_recommendation_def act_return_def)
    then show ?thesis ..
  qed
qed

text \<open>
  C3. The composed engine never writes: whatever it decides, the outside world is unchanged, no bill exists
  and a review is required. A vendor bill is recommended exactly when the rule engine allows one, then
  without reasons; otherwise the reasons of the manual review are given. It fails only where a port, the
  context of the classification or the stored rules fail, never for lack of a strategy or of reasons.
\<close>

theorem import_only_recommends:
  assumes "decide (deterministic_decision_engine rules adapter currencies) command w = (res, w')"
  shows "w' = w \<and> (\<forall>m. res \<noteq> Inl (UnsupportedWorkflowError m)) \<and> (\<forall>b. res \<noteq> Inl (BillBuilderError b))
    \<and> (\<forall>d. res = Inr d \<longrightarrow> de_review_required d \<and> de_status d = ''review_required'' \<and> de_vendor_bill_id d = None
        \<and> (\<exists>partner product tax expense. de_partner_match d = Some partner \<and> de_product_match d = Some product \<and> de_tax_match d = Some tax
            \<and> de_expense_match d = Some expense
            \<and> (if bill_allowed command partner product tax expense
               then de_workflow d = WF_VENDOR_BILL \<and> de_success d \<and> de_review_reasons d = []
               else de_workflow d = WF_MANUAL_REVIEW \<and> \<not> de_success d \<and> de_review_reasons d \<noteq> [])))"
proof (cases res)
  case (Inl e)
  with decide_raises [OF assms [unfolded Inl]] show ?thesis by auto
next
  case (Inr d)
  obtain r where r: "evaluate rules command = Inr r" "review_result command r d" "w' = w"
    by (rule decide_reviews [OF assms [unfolded Inr]])
  from r(1) obtain partner product tax expense where shape: "ev_partner_match r = Some partner" "ev_product_match r = Some product"
    "ev_tax_match r = Some tax" "ev_expense_match r = Some expense"
    "ev_workflow_decision r = decided command partner product tax expense" by (rule evaluated_shape)
  have "if bill_allowed command partner product tax expense
      then de_workflow d = WF_VENDOR_BILL \<and> de_success d \<and> de_review_reasons d = []
      else de_workflow d = WF_MANUAL_REVIEW \<and> \<not> de_success d \<and> de_review_reasons d \<noteq> []"
    using decided_workflow [of command partner product tax expense] r(2) shape bill_decision_without_review [OF r(1)]
    by (auto simp: review_result_def ev_workflow_def manual_review_decision_of_def)
  with r Inr shape show ?thesis by (auto simp: review_result_def)
qed

lemma example_decided:
  "map_option (\<lambda>d. (de_workflow d, de_success d, de_expense_match d))
     (case fst (decide (deterministic_decision_engine (example_engine matched_expense) (\<lambda>_ _ _. Inr []) (\<lambda>_. Inr []))
        (example_command True) ''world'') of Inl _ \<Rightarrow> None | Inr d \<Rightarrow> Some d)
   = Some (WF_VENDOR_BILL, True, Some matched_expense)"
  by code_simp

theorem import_only_recommends_witness:
  "\<exists>d. decide (deterministic_decision_engine (example_engine matched_expense) (\<lambda>_ _ _. Inr []) (\<lambda>_. Inr [])) (example_command True) ''world''
     = (Inr d, ''world'') \<and> de_workflow d = WF_VENDOR_BILL \<and> de_review_required d \<and> de_review_reasons d = []"
proof -
  let ?run = "decide (deterministic_decision_engine (example_engine matched_expense) (\<lambda>_ _ _. Inr []) (\<lambda>_. Inr [])) (example_command True) ''world''"
  obtain res w' where run: "?run = (res, w')" by fastforce
  with example_decided obtain d where d: "res = Inr d" "de_workflow d = WF_VENDOR_BILL" by (auto split: sum.splits)
  from import_only_recommends [OF run] d run show ?thesis by (auto split: if_splits)
qed

end
