(* ===== verification/Review_Evidence.thy ===== *)
theory Review_Evidence
  imports Decision_Engine
begin

text \<open>
  The evidence of a review: \<^verbatim>\<open>app/application/workbench/evidence.py\<close> and the builders of
  \<^verbatim>\<open>app/application/use_cases/review_classification_outcome.py\<close>. Execution evidence pins the facts from
  which an accepted decision may later build a vendor bill; without it no bill can be accepted.
\<close>

section \<open>Contracts\<close>

datatype evidence_error = EvidenceContractError string | EvidenceRuleError rule_error | EvidenceMoneyError money_error

record source_invoice_evidence =
  se_review_id :: string
  se_company_id :: int
  se_review_version :: int
  se_source_invoice_id :: string
  se_invoice :: internal_invoice

definition source_invoice_evidence_checks :: "source_invoice_evidence \<Rightarrow> evidence_error check list" where
  "source_invoice_evidence_checks e =
     [(blank (se_review_id e), EvidenceContractError ''review_id is required.''),
      (se_company_id e \<le> 0, EvidenceContractError ''company_id must be positive.''),
      (se_review_version e \<le> 0, EvidenceContractError ''review_version must be positive.''),
      (blank (se_source_invoice_id e), EvidenceContractError ''source_invoice_id is required.''),
      (se_source_invoice_id e \<noteq> invoice_identity (se_invoice e),
       EvidenceContractError ''source_invoice_id must match InternalInvoice identity.'')]"

record execution_evidence =
  xe_review_id :: string
  xe_company_id :: int
  xe_review_version :: int
  xe_source_invoice_id :: string
  xe_invoice :: internal_invoice
  xe_partner_match :: partner_match
  xe_product_match :: invoice_product_match
  xe_tax_match :: tax_mapping_result
  xe_operating_expense_match :: "expense_match option"
  xe_account_only_expense_match :: "expense_match option"
  xe_fixed_asset_accounting :: "fixed_asset_accounting option"

definition first_error :: "string list \<Rightarrow> evidence_error check" where
  "first_error errors = (errors \<noteq> [], EvidenceContractError (case errors of [] \<Rightarrow> [] | e # _ \<Rightarrow> e))"

definition execution_evidence_checks :: "execution_evidence \<Rightarrow> evidence_error check list" where
  "execution_evidence_checks e =
     [(blank (xe_review_id e), EvidenceContractError ''review_id is required.''),
      (xe_company_id e \<le> 0, EvidenceContractError ''company_id must be positive.''),
      (xe_review_version e \<le> 0, EvidenceContractError ''review_version must be positive.''),
      (blank (xe_source_invoice_id e), EvidenceContractError ''source_invoice_id is required.''),
      (xe_source_invoice_id e \<noteq> invoice_identity (xe_invoice e),
       EvidenceContractError ''source_invoice_id must match InternalInvoice identity.''),
      (map lm_line_number (im_line_results (xe_product_match e)) \<noteq> map ln_line_number (iv_lines (xe_invoice e)),
       EvidenceContractError ''Product match evidence must cover every invoice line in order.''),
      (result_tax_keys (xe_tax_match e) \<noteq> canonical_keys (xe_invoice e),
       EvidenceContractError ''Tax mapping evidence must cover every invoice tax in order.''),
      first_error (operating_expense_evidence_errors (xe_operating_expense_match e) (xe_company_id e) (xe_invoice e)
        (xe_partner_match e) (xe_product_match e)),
      first_error (fixed_asset_evidence_errors (xe_fixed_asset_accounting e) (xe_operating_expense_match e) (xe_invoice e)
        (xe_partner_match e) (xe_product_match e))]"

definition REVIEW_CLASSIFICATION_EVIDENCE_SCHEMA_VERSION :: int where
  "REVIEW_CLASSIFICATION_EVIDENCE_SCHEMA_VERSION = 1"

record classification_evidence =
  ce_review_id :: string
  ce_company_id :: int
  ce_review_version :: int
  ce_status :: classification_status
  ce_matched_rule_id :: "string option"
  ce_matched_rule_code :: "string option"
  ce_matched_rule_version :: "int option"
  ce_matched_rule_name :: "string option"
  ce_workflow :: "workflow_type option"
  ce_classification_code :: "string option"
  ce_require_review :: bool
  ce_require_business_context :: bool
  ce_conflicting_rules :: "rule_evidence list"
  ce_schema_version :: int

definition names_a_rule :: "classification_evidence \<Rightarrow> bool" where
  "names_a_rule e \<longleftrightarrow> ce_matched_rule_id e \<noteq> None \<or> ce_matched_rule_code e \<noteq> None \<or> ce_matched_rule_version e \<noteq> None
     \<or> ce_matched_rule_name e \<noteq> None \<or> ce_workflow e \<noteq> None \<or> ce_classification_code e \<noteq> None"

definition classification_shape_checks :: "classification_evidence \<Rightarrow> evidence_error check list" where
  "classification_shape_checks e = (case ce_status e of
     CL_NO_MATCH \<Rightarrow>
       [(names_a_rule e \<or> ce_require_review e \<or> ce_require_business_context e \<or> ce_conflicting_rules e \<noteq> [],
         EvidenceContractError ''NO_MATCH classification evidence must not include rule actions.'')]
   | CL_CONFLICT \<Rightarrow>
       [(names_a_rule e \<or> ce_require_review e \<or> ce_require_business_context e,
         EvidenceContractError ''CONFLICT classification evidence must not select a rule.''),
        (length (ce_conflicting_rules e) < 2, EvidenceContractError ''CONFLICT classification evidence requires conflicting rules.'')]
   | status \<Rightarrow>
       [(is_blank (ce_matched_rule_id e), EvidenceContractError ''matched_rule_id is required.''),
        (is_blank (ce_matched_rule_code e), EvidenceContractError ''matched_rule_code is required.''),
        (\<not> positive_id (ce_matched_rule_version e), EvidenceContractError ''matched_rule_version must be positive.''),
        (is_blank (ce_matched_rule_name e), EvidenceContractError ''matched_rule_name is required.''),
        (ce_conflicting_rules e \<noteq> [], EvidenceContractError ''Matched classification evidence must not include conflicts.''),
        (status = CL_REVIEW_REQUIRED \<and> \<not> ce_require_review e,
         EvidenceContractError ''REVIEW_REQUIRED classification evidence must require review.'')])"

definition classification_rule_sort_key :: "rule_evidence \<Rightarrow> string \<times> int \<times> string" where
  "classification_rule_sort_key r = (re_rule_code r, re_rule_version r, re_rule_id r)"

definition mk_classification_evidence :: "classification_evidence \<Rightarrow> (evidence_error, classification_evidence) result" where
  "mk_classification_evidence e =
     ebind (run_checks
       [(blank (ce_review_id e), EvidenceContractError ''review_id is required.''),
        (ce_company_id e \<le> 0, EvidenceContractError ''company_id must be positive.''),
        (ce_review_version e \<le> 0, EvidenceContractError ''review_version must be positive.''),
        (ce_schema_version e \<le> 0, EvidenceContractError ''schema_version must be positive.''),
        (ce_schema_version e \<noteq> REVIEW_CLASSIFICATION_EVIDENCE_SCHEMA_VERSION,
         EvidenceContractError ''Classification evidence schema version is not supported.'')]) (\<lambda>_.
     mk_checked classification_shape_checks
       (e\<lparr>ce_conflicting_rules := sort_key classification_rule_sort_key (ce_conflicting_rules e)\<rparr>))"

definition selected_rule_evidence :: "classification_result \<Rightarrow> (evidence_error, rule_evidence) result" where
  "selected_rule_evidence r = (case cr_matched_rule_evidence r of
     e # _ \<Rightarrow> Inr e
   | [] \<Rightarrow> (case cr_selected_rule r of
       Some s \<Rightarrow> with_error EvidenceRuleError (evidence_from_rule s)
     | None \<Rightarrow> Inl (EvidenceContractError ''Matched classification evidence requires selected rule evidence.'')))"

definition empty_classification_evidence :: "string \<Rightarrow> int \<Rightarrow> int \<Rightarrow> classification_status \<Rightarrow> classification_evidence" where
  "empty_classification_evidence review_id company_id review_version status =
     \<lparr>ce_review_id = review_id, ce_company_id = company_id, ce_review_version = review_version, ce_status = status,
      ce_matched_rule_id = None, ce_matched_rule_code = None, ce_matched_rule_version = None, ce_matched_rule_name = None,
      ce_workflow = None, ce_classification_code = None, ce_require_review = False, ce_require_business_context = False,
      ce_conflicting_rules = [], ce_schema_version = REVIEW_CLASSIFICATION_EVIDENCE_SCHEMA_VERSION\<rparr>"

definition classification_evidence_from_result ::
    "string \<Rightarrow> int \<Rightarrow> int \<Rightarrow> classification_result \<Rightarrow> (evidence_error, classification_evidence) result" where
  "classification_evidence_from_result review_id company_id review_version r =
     (let empty = empty_classification_evidence review_id company_id review_version (cr_status r) in
      if cr_status r = CL_CONFLICT
      then mk_classification_evidence (empty\<lparr>ce_conflicting_rules := cr_conflict_rule_evidence r\<rparr>)
      else if cr_status r = CL_NO_MATCH then mk_classification_evidence empty
      else ebind (selected_rule_evidence r) (\<lambda>e.
        mk_classification_evidence (empty\<lparr>ce_matched_rule_id := Some (re_rule_id e), ce_matched_rule_code := Some (re_rule_code e),
          ce_matched_rule_version := Some (re_rule_version e), ce_matched_rule_name := Some (re_rule_name e),
          ce_workflow := re_workflow e, ce_classification_code := re_classification_code e,
          ce_require_review := re_require_review e, ce_require_business_context := re_require_business_context e\<rparr>)))"

section \<open>Builders\<close>

definition build_review_classification_evidence ::
    "string \<Rightarrow> int \<Rightarrow> int \<Rightarrow> decision_result \<Rightarrow> (evidence_error, classification_evidence option) result" where
  "build_review_classification_evidence review_id company_id review_version d = (case de_classification d of
     None \<Rightarrow> Inr None
   | Some r \<Rightarrow> ebind (classification_evidence_from_result review_id company_id review_version r) (\<lambda>e. Inr (Some e)))"

definition pinned_inputs ::
    "int \<Rightarrow> internal_invoice \<Rightarrow> partner_match \<Rightarrow> invoice_product_match \<Rightarrow> tax_mapping_result \<Rightarrow> bill_inputs" where
  "pinned_inputs company_id invoice partner product tax =
     \<lparr>vi_invoice = invoice, vi_partner_match = partner, vi_product_match = product, vi_tax_match = tax,
      vi_company_id = Some company_id, vi_operating_expense_match = None, vi_account_only_line_numbers = [],
      vi_account_only_expense_match = None, vi_explicit_account_only_accounts = None, vi_validated_resale_accounts = None,
      vi_monetary_precision = None, vi_fixed_asset_accounting = None, vi_validated_internal_use_accounts = None\<rparr>"

definition blocks_evidence :: "review_reason \<Rightarrow> bool" where
  "blocks_evidence r \<longleftrightarrow> rr_code r \<in> set SOURCE_TAX_SAFETY_REASON_CODES \<or> rr_source r = Some SOURCE_TAX_REASON_SOURCE"

definition bill_inputs_valid :: "bill_inputs \<Rightarrow> (evidence_error, bool) result" where
  "bill_inputs_valid v = ebind (with_error EvidenceMoneyError (validate_vendor_bill_inputs v)) (\<lambda>errors. Inr (is_valid errors))"

definition build_review_execution_evidence ::
    "string \<Rightarrow> int \<Rightarrow> int \<Rightarrow> internal_invoice \<Rightarrow> decision_result \<Rightarrow> (evidence_error, execution_evidence option) result" where
  "build_review_execution_evidence review_id company_id review_version invoice d =
     (if de_workflow d \<notin> {WF_VENDOR_BILL, WF_MANUAL_REVIEW} then Inr None
      else if is_return_invoice invoice then Inr None
      else if list_ex blocks_evidence (de_review_reasons d) then Inr None
      else case (de_partner_match d, de_product_match d, de_tax_match d) of
        (Some partner, Some product, Some tax) \<Rightarrow>
          let inputs = pinned_inputs company_id invoice partner product tax;
              build = (\<lambda>expense account_only fixed_asset. ebind (mk_checked execution_evidence_checks
                \<lparr>xe_review_id = review_id, xe_company_id = company_id, xe_review_version = review_version,
                 xe_source_invoice_id = invoice_identity invoice, xe_invoice = invoice, xe_partner_match = partner,
                 xe_product_match = product, xe_tax_match = tax, xe_operating_expense_match = expense,
                 xe_account_only_expense_match = account_only, xe_fixed_asset_accounting = fixed_asset\<rparr>) (\<lambda>e. Inr (Some e))) in
          (case de_fixed_asset_accounting d of
             Some fixed_asset \<Rightarrow>
               ebind (bill_inputs_valid (inputs\<lparr>vi_fixed_asset_accounting := Some fixed_asset\<rparr>)) (\<lambda>ok.
               if ok then build None None (Some fixed_asset) else Inr None)
           | None \<Rightarrow>
               ebind (bill_inputs_valid inputs) (\<lambda>product_ok.
               if product_ok then build None None None
               else
                 ebind (if de_expense_match d = None then Inr False
                        else bill_inputs_valid (inputs\<lparr>vi_operating_expense_match := de_expense_match d\<rparr>)) (\<lambda>expense_ok.
                 if expense_ok then build (de_expense_match d) None None
                 else if pm_status partner = MATCHED \<and> tax_lines_fully_matched invoice tax \<and> \<not> invoice_is_product_identifier_free invoice
                 then build None (de_expense_match d) None
                 else Inr None)))
      | _ \<Rightarrow> Inr None)"

end
