(* ===== verification/Effective_Decision.thy ===== *)
theory Effective_Decision
  imports Review_Evidence
begin

text \<open>
  The effective decision of a review: \<^verbatim>\<open>app/application/use_cases/effective_decision.py\<close>. The decision is
  computed again from the stored invoice and the verified document; an accepted supplier and an accepted
  accounting resolution are substituted where the raw facts leave a gap, and the reasons they answer are
  removed. The readers are ports.
\<close>

section \<open>Ports\<close>

datatype resolve_error =
    ResolveDecisionError decision_error
  | ReviewPersistenceError string
  | ResolveSourceError string
  | ResolveTaxError source_tax_error
  | ResolveSupplierError supplier_error
  | ResolveFixedAssetError fixed_asset_error
  | ResolveExpenseError expense_error

record accounting_resolution =
  ac_id :: int
  ac_treatment_type :: string
  ac_expense_account_id :: "int option"
  ac_expense_category :: "string option"
  ac_asset_account_id :: "int option"
  ac_depreciation_model_id :: "int option"

record 'w decision_resolver =
  dv_decision_engine :: "'w decision_engine"
  dv_read_source :: "string \<Rightarrow> int \<Rightarrow> (resolve_error, source_invoice_evidence) result"
  dv_assess :: assessment_reader
  dv_lookup_accepted_supplier :: "(string \<Rightarrow> int \<Rightarrow> (supplier_error, accepted_lookup) result) option"
  dv_match_expense :: "(internal_invoice \<Rightarrow> int option \<Rightarrow> partner_match \<Rightarrow> (expense_error, expense_match) result) option"
  dv_find_accounting_resolution :: "(string \<Rightarrow> int \<Rightarrow> (resolve_error, accounting_resolution option) result) option"

record effective_decision =
  ed_source :: source_invoice_evidence
  ed_decision_result :: decision_result
  ed_execution_decision_result :: decision_result
  ed_effective_review_reasons :: "review_reason list"
  ed_effective_workflow :: workflow_type

section \<open>Deciding again\<close>

definition SAFE_EFFECTIVE_DECISION_ERROR :: string where
  "SAFE_EFFECTIVE_DECISION_ERROR = ''Deterministic review classification failed.''"

text \<open>Which errors of a decision are application errors; every other exception is replaced.\<close>

fun is_application_error :: "decision_error \<Rightarrow> bool" where
  "is_application_error (EngineError (PortException _)) = False"
| "is_application_error (EngineError _) = True"
| "is_application_error (ClassificationError _) = True"
| "is_application_error (RuleRepositoryError (RuleContractError _)) = True"
| "is_application_error (RuleRepositoryError (OdooDecisionRuleAuthoringContractError _)) = True"
| "is_application_error (RuleRepositoryError _) = False"
| "is_application_error (UnsupportedWorkflowError _) = True"
| "is_application_error (BillBuilderError _) = False"
| "is_application_error (WriterError _) = False"

definition redecide :: "'w decision_resolver \<Rightarrow> import_command \<Rightarrow> ('w, resolve_error, decision_result) action" where
  "redecide resolver command w = (case decide (dv_decision_engine resolver) command w of
     (Inl e, w') \<Rightarrow> (Inl (if is_application_error e then ResolveDecisionError e else ReviewPersistenceError SAFE_EFFECTIVE_DECISION_ERROR), w')
   | (Inr d, w') \<Rightarrow> (Inr d, w'))"

definition raw_partner_matched :: "decision_result \<Rightarrow> bool" where
  "raw_partner_matched d \<longleftrightarrow> (case de_partner_match d of None \<Rightarrow> False | Some p \<Rightarrow> pm_status p = MATCHED)"

definition raw_expense_matched :: "decision_result \<Rightarrow> bool" where
  "raw_expense_matched d \<longleftrightarrow> (case de_expense_match d of None \<Rightarrow> False | Some m \<Rightarrow> ex_status m = MATCHED)"

definition accepted_supplier_of :: "'w decision_resolver \<Rightarrow> string \<Rightarrow> int \<Rightarrow> (resolve_error, accepted_supplier option) result" where
  "accepted_supplier_of resolver review_id company_id = (case dv_lookup_accepted_supplier resolver of
     None \<Rightarrow> Inr None
   | Some lookup \<Rightarrow> ebind (with_error ResolveSupplierError (lookup review_id company_id)) (\<lambda>l. case l of
       PROVEN_SUPPLIER s \<Rightarrow> Inr (Some s) | _ \<Rightarrow> Inr None))"

section \<open>Accepted accounting\<close>

definition fixed_asset_of :: "accounting_resolution \<Rightarrow> (resolve_error, fixed_asset_accounting) result" where
  "fixed_asset_of r =
     (case (ac_asset_account_id r, ac_depreciation_model_id r) of
        (Some account, Some model) \<Rightarrow> with_error ResolveFixedAssetError (mk_checked fixed_asset_checks
          \<lparr>fa_accounting_resolution_id = ac_id r, fa_asset_account_id = account, fa_depreciation_model_id = model,
           fa_schema_version = FIXED_ASSET_ACCOUNTING_SCHEMA_VERSION\<rparr>)
      | (account, model) \<Rightarrow> Inl (ResolveFixedAssetError (FixedAssetAccountingContractError (''fixed_asset_accounting.''
          @ (if ac_id r \<le> 0 then ''accounting_resolution_id'' else if \<not> positive_id account then ''asset_account_id'' else ''depreciation_model_id'')
          @ '' must be a positive integer.''))))"

definition fixed_asset_resolution ::
    "'w decision_resolver \<Rightarrow> decision_result \<Rightarrow> effective_supplier option \<Rightarrow> string \<Rightarrow> int \<Rightarrow> (resolve_error, fixed_asset_accounting option) result" where
  "fixed_asset_resolution resolver d effect review_id company_id = (case dv_find_accounting_resolution resolver of
     None \<Rightarrow> Inr None
   | Some find_latest \<Rightarrow>
       if raw_expense_matched d then Inr None
       else ebind (find_latest review_id company_id) (\<lambda>found. case found of
         None \<Rightarrow> Inr None
       | Some r \<Rightarrow>
           if ac_treatment_type r \<noteq> ''capitalize_fixed_asset'' then Inr None
           else if \<not> raw_partner_matched d \<and> effect = None then Inr None
           else ebind (fixed_asset_of r) (\<lambda>f. Inr (Some f))))"

definition resolved_expense :: "accounting_resolution \<Rightarrow> int \<Rightarrow> int option \<Rightarrow> (resolve_error, expense_match) result" where
  "resolved_expense r company_id vendor_partner_id = with_error ResolveExpenseError (mk_checked expense_match_checks
     \<lparr>ex_status = MATCHED, ex_reason = ''Resolved via an accepted review-scoped accounting resolution for this review.'',
      ex_candidate_count = 1, ex_mapping_id = Some (ac_id r), ex_company_id = Some company_id, ex_vendor_partner_id = vendor_partner_id,
      ex_expense_account_id = ac_expense_account_id r, ex_expense_category = ac_expense_category r,
      ex_matched_by = Some MATCHED_BY_REVIEW_ACCOUNTING_RESOLUTION, ex_confidence = Some ACCEPTED_SUPPLIER_MATCH_CONFIDENCE\<rparr>)"

definition resolution_expense_match ::
    "'w decision_resolver \<Rightarrow> decision_result \<Rightarrow> effective_supplier option \<Rightarrow> string \<Rightarrow> int \<Rightarrow> (resolve_error, expense_match option) result" where
  "resolution_expense_match resolver d effect review_id company_id = (case dv_find_accounting_resolution resolver of
     None \<Rightarrow> Inr None
   | Some find_latest \<Rightarrow>
       if raw_expense_matched d then Inr None
       else ebind (find_latest review_id company_id) (\<lambda>found. case found of
         None \<Rightarrow> Inr None
       | Some r \<Rightarrow>
           if ac_treatment_type r \<noteq> ''expense_account'' then Inr None
           else if raw_partner_matched d
           then ebind (resolved_expense r company_id (pm_partner_id (the (de_partner_match d)))) (\<lambda>m. Inr (Some m))
           else (case effect of
             Some e \<Rightarrow> ebind (resolved_expense r company_id (Some (ef_partner_id e))) (\<lambda>m. Inr (Some m))
           | None \<Rightarrow> Inr None)))"

definition effective_expense_match ::
    "'w decision_resolver \<Rightarrow> decision_result \<Rightarrow> effective_supplier option \<Rightarrow> internal_invoice \<Rightarrow> int \<Rightarrow> (resolve_error, expense_match option) result" where
  "effective_expense_match resolver d effect invoice company_id = (case (dv_match_expense resolver, effect) of
     (Some match_invoice, Some e) \<Rightarrow>
       if ef_origin e \<noteq> SO_MATCH_EXISTING then Inr None
       else if invoice_is_ambiguous_commercial_purchase invoice then Inr None
       else if raw_partner_matched d then Inr None
       else ebind (with_error ResolveExpenseError (match_invoice invoice (Some company_id) (ef_partner_match e))) (\<lambda>m. Inr (Some m))
   | _ \<Rightarrow> Inr None)"

section \<open>The effective result\<close>

definition execution_decision_result ::
    "decision_result \<Rightarrow> effective_supplier option \<Rightarrow> expense_match option \<Rightarrow> decision_result" where
  "execution_decision_result d effect recomputed =
     (let d = (case effect of Some e \<Rightarrow> if raw_partner_matched d then d else d\<lparr>de_partner_match := Some (ef_partner_match e)\<rparr> | None \<Rightarrow> d) in
      case recomputed of Some m \<Rightarrow> d\<lparr>de_expense_match := Some m\<rparr> | None \<Rightarrow> d)"

definition is_review_scoped_resolution :: "expense_match option \<Rightarrow> bool" where
  "is_review_scoped_resolution m \<longleftrightarrow> (case m of None \<Rightarrow> False
     | Some x \<Rightarrow> ex_status x = MATCHED \<and> ex_matched_by x = Some MATCHED_BY_REVIEW_ACCOUNTING_RESOLUTION)"

definition OPERATING_EXPENSE_REASON_CODES :: "reason_code list" where
  "OPERATING_EXPENSE_REASON_CODES = [OPERATING_EXPENSE_MAPPING_REQUIRED, OPERATING_EXPENSE_MAPPING_AMBIGUOUS]"

definition stripped_codes :: "effective_supplier option \<Rightarrow> expense_match option \<Rightarrow> bool \<Rightarrow> reason_code list" where
  "stripped_codes effect recomputed fixed_asset_resolved =
     (case effect of Some e \<Rightarrow> if ef_origin e = SO_MATCH_EXISTING then [SUPPLIER_AMBIGUOUS] else [] | None \<Rightarrow> [])
     @ (case recomputed of Some m \<Rightarrow> if ex_status m = MATCHED then OPERATING_EXPENSE_REASON_CODES else [] | None \<Rightarrow> [])
     @ (if fixed_asset_resolved then OPERATING_EXPENSE_REASON_CODES else [])
     @ (if fixed_asset_resolved \<or> is_review_scoped_resolution recomputed then [AMBIGUOUS_COMMERCIAL_PURCHASE] else [])"

definition effective_manual_review_reasons ::
    "review_reason list \<Rightarrow> effective_supplier option \<Rightarrow> expense_match option \<Rightarrow> bool \<Rightarrow> review_reason list" where
  "effective_manual_review_reasons raw_reasons effect recomputed fixed_asset_resolved =
     filter (\<lambda>r. rr_code r \<notin> set (stripped_codes effect recomputed fixed_asset_resolved)) raw_reasons"

definition effective_workflow :: "workflow_type \<Rightarrow> review_reason list \<Rightarrow> workflow_type" where
  "effective_workflow raw_workflow effective_reasons =
     (if raw_workflow \<noteq> WF_MANUAL_REVIEW then raw_workflow
      else if effective_reasons \<noteq> [] then raw_workflow else WF_VENDOR_BILL)"

section \<open>Resolving\<close>

definition fold_effects ::
    "'w decision_resolver \<Rightarrow> source_invoice_evidence \<Rightarrow> string \<Rightarrow> int \<Rightarrow> accepted_supplier option \<Rightarrow> decision_result \<Rightarrow>
     (resolve_error, effective_decision) result" where
  "fold_effects resolver source review_id company_id accepted d =
     (let effect = (case resolve_effective_supplier (de_partner_match d) accepted of
            Some e \<Rightarrow> if supplier_accepted e then Some e else None | None \<Rightarrow> None) in
      ebind (fixed_asset_resolution resolver d effect review_id company_id) (\<lambda>fixed_asset.
      ebind (if fixed_asset \<noteq> None then Inr None
             else ebind (resolution_expense_match resolver d effect review_id company_id) (\<lambda>m. case m of
               Some x \<Rightarrow> Inr (Some x)
             | None \<Rightarrow> effective_expense_match resolver d effect (se_invoice source) company_id)) (\<lambda>recomputed.
      let executed = execution_decision_result d effect recomputed;
          executed = (case fixed_asset of
            Some f \<Rightarrow> executed\<lparr>de_expense_match := None, de_fixed_asset_accounting := Some f\<rparr> | None \<Rightarrow> executed);
          reasons = effective_manual_review_reasons (de_review_reasons d) effect recomputed (fixed_asset \<noteq> None) in
      Inr \<lparr>ed_source = source, ed_decision_result = d, ed_execution_decision_result = executed,
           ed_effective_review_reasons = reasons, ed_effective_workflow = effective_workflow (de_workflow d) reasons\<rparr>)))"

definition review_command :: "source_invoice_evidence \<Rightarrow> string \<Rightarrow> int \<Rightarrow> tax_assessment \<Rightarrow> import_command" where
  "review_command source idempotency_key company_id assessment =
     \<lparr>ic_invoice = se_invoice source, ic_idempotency_key = idempotency_key, ic_company_id = Some company_id, ic_dry_run = True,
      ic_approved_by = None, ic_accepted_supplier = None, ic_source_tax_assessment = Some assessment\<rparr>"

definition resolve_decision :: "'w decision_resolver \<Rightarrow> string \<Rightarrow> int \<Rightarrow> string \<Rightarrow> ('w, resolve_error, effective_decision) action" where
  "resolve_decision resolver review_id company_id idempotency_key =
     act_bind (act_lift (dv_read_source resolver review_id company_id)) (\<lambda>source.
     act_bind (act_lift (with_error ResolveTaxError
       (dv_assess resolver review_id company_id (Some (hd_invoice_uuid (iv_header (se_invoice source))))))) (\<lambda>assessment.
     let command = review_command source idempotency_key company_id assessment in
     act_bind (redecide resolver command) (\<lambda>d.
     act_bind (if raw_partner_matched d then act_return (None, d)
               else act_bind (act_lift (accepted_supplier_of resolver review_id company_id)) (\<lambda>accepted. case accepted of
                 None \<Rightarrow> act_return (None, d)
               | Some s \<Rightarrow> act_bind (redecide resolver (command\<lparr>ic_accepted_supplier := Some s\<rparr>)) (\<lambda>d'. act_return (Some s, d')))) (\<lambda>(accepted, d).
     act_lift (fold_effects resolver source review_id company_id accepted d)))))"

section \<open>Hard blocks\<close>

lemma stripped_never_hard:
  "c \<in> set (stripped_codes effect recomputed fixed) \<Longrightarrow>
     c \<in> {SUPPLIER_AMBIGUOUS, OPERATING_EXPENSE_MAPPING_REQUIRED, OPERATING_EXPENSE_MAPPING_AMBIGUOUS, AMBIGUOUS_COMMERCIAL_PURCHASE}"
  by (auto simp: stripped_codes_def OPERATING_EXPENSE_REASON_CODES_def split: option.splits if_splits)

lemma source_reason_blocks:
  "r \<in> set (source_tax_review_reasons a) \<Longrightarrow> blocks_evidence r
     \<and> rr_code r \<in> {WITHHOLDING_TAX_NOT_SUPPORTED, SOURCE_DOCUMENT_UNVERIFIED, UNSUPPORTED_INVOICE_CONTENT}"
  by (cases a) (auto simp: blocks_evidence_def unverified_reason_def withholding_reason_def unsupported_tax_reason_def split: if_splits)

text \<open>An evaluation reports every reason of the document, unless the invoice is a return.\<close>

lemma source_reasons_reported:
  assumes "evaluate rules command = Inr r" "source_tax_reasons command \<noteq> []"
  shows "ev_workflow r = WF_MANUAL_REVIEW \<and> (\<exists>m. wd_manual_review (ev_workflow_decision r) = Some m
    \<and> (if is_return_invoice (ic_invoice command) then map rr_code (mr_reasons m) = [RETURN_INVOICE_NOT_SUPPORTED]
       else set (source_tax_reasons command) \<subseteq> set (mr_reasons m)))"
proof -
  from assms(1) obtain partner product tax expense where shape: "ev_workflow_decision r = decided command partner product tax expense"
    by (rule evaluated_shape)
  have "\<not> source_settled command" using assms(2) by simp
  then have "\<not> bill_allowed command partner product tax expense" by (simp add: bill_allowed_def)
  with decided_workflow [of command partner product tax expense] shape have workflow: "ev_workflow r = WF_MANUAL_REVIEW"
    by (auto simp: ev_workflow_def)
  show ?thesis
  proof (cases "return_invoice_type_code (ic_invoice command)")
    case (Some code)
    with workflow shape show ?thesis
      by (simp add: decided_def Let_def is_return_invoice_def manual_review_decision_of_def return_invoice_reason_def reason_def)
  next
    case None
    with workflow shape assms(2) show ?thesis
      by (auto simp: decided_def Let_def is_return_invoice_def manual_review_decision_of_def)
  qed
qed

lemma redecide_Inr: "redecide resolver command w = (Inr d, w') \<Longrightarrow> decide (dv_decision_engine resolver) command w = (Inr d, w')"
  by (auto simp: redecide_def split: prod.splits sum.splits)

lemma act_lift_Inr: "act_bind (act_lift m) f w = (Inr y, w') \<longleftrightarrow> (\<exists>x. m = Inr x \<and> f x w = (Inr y, w'))"
  by (cases m) (auto simp: act_bind_def)

text \<open>A resolution is one decision on the stored invoice with the assessed document, into which the effects are folded.\<close>

lemma resolve_decision_shape:
  assumes "resolve_decision resolver review_id company_id key w = (Inr eff, w')"
    and engine: "dv_decision_engine resolver = deterministic_decision_engine rules adapter currencies"
  obtains source assessment command accepted d where "dv_read_source resolver review_id company_id = Inr source"
    "dv_assess resolver review_id company_id (Some (hd_invoice_uuid (iv_header (se_invoice source)))) = Inr assessment"
    "ic_invoice command = se_invoice source" "ic_source_tax_assessment command = Some assessment"
    "decide (dv_decision_engine resolver) command w = (Inr d, w)" "w' = w"
    "fold_effects resolver source review_id company_id accepted d = Inr eff"
proof -
  from assms(1) obtain source assessment where source: "dv_read_source resolver review_id company_id = Inr source"
    and assessment: "dv_assess resolver review_id company_id (Some (hd_invoice_uuid (iv_header (se_invoice source)))) = Inr assessment"
    by (auto simp: resolve_decision_def act_lift_Inr)
  let ?c = "review_command source key company_id assessment"
  have fields: "ic_invoice ?c = se_invoice source" "ic_source_tax_assessment ?c = Some assessment" by (simp_all add: review_command_def)
  have quiet: "w2 = w1" if "decide (dv_decision_engine resolver) command w1 = (Inr d, w2)" for command w1 w2 and d :: decision_result
    using that unfolding engine by (rule decide_reviews) simp
  from assms(1) source assessment obtain d1 w1 where d1: "redecide resolver ?c w = (Inr d1, w1)"
    by (auto simp: resolve_decision_def act_lift_Inr Let_def elim!: act_bind_success)
  have first: "decide (dv_decision_engine resolver) ?c w = (Inr d1, w)" "w1 = w" using redecide_Inr [OF d1] quiet by auto
  show ?thesis
  proof (cases "\<exists>s. \<not> raw_partner_matched d1 \<and> accepted_supplier_of resolver review_id company_id = Inr (Some s)")
    case False
    with assms(1) source assessment d1 first have "w' = w" "fold_effects resolver source review_id company_id None d1 = Inr eff"
      by (auto simp: resolve_decision_def act_lift_Inr with_error_def Let_def act_bind_def act_return_def act_lift_def
          split: sum.splits option.splits if_splits)
    then show ?thesis by (rule that [OF source assessment fields first(1)])
  next
    case True
    then obtain s where s: "\<not> raw_partner_matched d1" "accepted_supplier_of resolver review_id company_id = Inr (Some s)" by blast
    with assms(1) source assessment d1 first obtain d2 w2 where d2: "redecide resolver (?c\<lparr>ic_accepted_supplier := Some s\<rparr>) w = (Inr d2, w2)"
      and folded: "fold_effects resolver source review_id company_id (Some s) d2 = Inr eff" and w': "w' = w2"
      by (auto simp: resolve_decision_def with_error_def Let_def act_bind_def act_return_def act_lift_def split: sum.splits prod.splits)
    have "decide (dv_decision_engine resolver) (?c\<lparr>ic_accepted_supplier := Some s\<rparr>) w = (Inr d2, w)" "w' = w"
      using redecide_Inr [OF d2] quiet w' by auto
    with source assessment fields folded show ?thesis using that [of source assessment "?c\<lparr>ic_accepted_supplier := Some s\<rparr>" d2 "Some s"] by simp
  qed
qed

lemma folded_fields:
  assumes "fold_effects resolver source review_id company_id accepted d = Inr eff"
  shows "ed_source eff = source \<and> de_review_reasons (ed_execution_decision_result eff) = de_review_reasons d
    \<and> de_workflow (ed_execution_decision_result eff) = de_workflow d
    \<and> (\<exists>effect recomputed fixed. ed_effective_review_reasons eff = effective_manual_review_reasons (de_review_reasons d) effect recomputed fixed)
    \<and> ed_effective_workflow eff = effective_workflow (de_workflow d) (ed_effective_review_reasons eff)"
proof -
  define effect where "effect = (case resolve_effective_supplier (de_partner_match d) accepted of
    Some e \<Rightarrow> if supplier_accepted e then Some e else None | None \<Rightarrow> None)"
  from assms obtain fixed recomputed where "eff =
      \<lparr>ed_source = source, ed_decision_result = d,
       ed_execution_decision_result = (case fixed of
         Some f \<Rightarrow> (execution_decision_result d effect recomputed)\<lparr>de_expense_match := None, de_fixed_asset_accounting := Some f\<rparr>
       | None \<Rightarrow> execution_decision_result d effect recomputed),
       ed_effective_review_reasons = effective_manual_review_reasons (de_review_reasons d) effect recomputed (fixed \<noteq> None),
       ed_effective_workflow = effective_workflow (de_workflow d)
         (effective_manual_review_reasons (de_review_reasons d) effect recomputed (fixed \<noteq> None))\<rparr>"
    unfolding fold_effects_def Let_def effect_def [symmetric] ebind_Inr_iff by blast
  moreover have "de_review_reasons (execution_decision_result d effect recomputed) = de_review_reasons d"
    "de_workflow (execution_decision_result d effect recomputed) = de_workflow d" for effect recomputed
    by (cases effect; cases recomputed; simp add: execution_decision_result_def Let_def)+
  ultimately show ?thesis by (auto split: option.split)
qed

text \<open>
  C4. Nothing an operator accepts routes around the document: if the assessment of the stored document gives
  any reason (it is not verified, declares withholding or a tax other than VAT), then the effective workflow
  of the review stays a manual review, every such reason is among its effective reasons (a return keeps its
  own), and no execution evidence is built for any version, whatever supplier or accounting was accepted.
\<close>

theorem hard_block_survives:
  assumes "resolve_decision resolver review_id company_id key w = (Inr eff, w')"
    and "dv_decision_engine resolver = deterministic_decision_engine rules adapter currencies"
    and "dv_assess resolver review_id company_id (Some (hd_invoice_uuid (iv_header (se_invoice (ed_source eff))))) = Inr assessment"
    and "source_tax_review_reasons assessment \<noteq> []"
  shows "ed_effective_workflow eff = WF_MANUAL_REVIEW
    \<and> (if is_return_invoice (se_invoice (ed_source eff)) then map rr_code (ed_effective_review_reasons eff) = [RETURN_INVOICE_NOT_SUPPORTED]
       else set (source_tax_review_reasons assessment) \<subseteq> set (ed_effective_review_reasons eff))
    \<and> build_review_execution_evidence review_id company_id version (se_invoice (ed_source eff)) (ed_execution_decision_result eff) = Inr None
    \<and> w' = w"
proof -
  from assms(1,2) obtain source assessment' command accepted d where "dv_read_source resolver review_id company_id = Inr source"
    and assessed: "dv_assess resolver review_id company_id (Some (hd_invoice_uuid (iv_header (se_invoice source)))) = Inr assessment'"
    and command: "ic_invoice command = se_invoice source" "ic_source_tax_assessment command = Some assessment'"
    and run: "decide (dv_decision_engine resolver) command w = (Inr d, w)" and w': "w' = w"
    and folded: "fold_effects resolver source review_id company_id accepted d = Inr eff" by (rule resolve_decision_shape)
  note fields = folded_fields [OF folded]
  have same: "assessment' = assessment" "ed_source eff = source" using assessed assms(3) fields by simp_all
  from run assms(2) obtain r where r: "evaluate rules command = Inr r" "review_result command r d" by (auto elim: decide_reviews)
  have reasons: "source_tax_reasons command = source_tax_review_reasons assessment" using command same by (simp add: source_tax_reasons_def)
  from source_reasons_reported [OF r(1), unfolded reasons command(1)] assms(4) obtain m where m: "ev_workflow r = WF_MANUAL_REVIEW"
    "wd_manual_review (ev_workflow_decision r) = Some m"
    "if is_return_invoice (se_invoice source) then map rr_code (mr_reasons m) = [RETURN_INVOICE_NOT_SUPPORTED]
     else set (source_tax_review_reasons assessment) \<subseteq> set (mr_reasons m)" by blast
  then have d: "de_workflow d = WF_MANUAL_REVIEW" "de_review_reasons d = mr_reasons m" using r(2) by (simp_all add: review_result_def)
  from fields obtain effect recomputed fixed where eff:
    "ed_effective_review_reasons eff = effective_manual_review_reasons (mr_reasons m) effect recomputed fixed" using d by auto
  have keep: "if is_return_invoice (se_invoice source) then map rr_code (ed_effective_review_reasons eff) = [RETURN_INVOICE_NOT_SUPPORTED]
     else set (source_tax_review_reasons assessment) \<subseteq> set (ed_effective_review_reasons eff)"
  proof (cases "is_return_invoice (se_invoice source)")
    case True
    with m(3) obtain x where x: "mr_reasons m = [x]" "rr_code x = RETURN_INVOICE_NOT_SUPPORTED" by (auto simp: map_eq_Cons_conv)
    moreover have "RETURN_INVOICE_NOT_SUPPORTED \<notin> set (stripped_codes effect recomputed fixed)"
      using stripped_never_hard [of RETURN_INVOICE_NOT_SUPPORTED] by auto
    ultimately show ?thesis using True by (simp add: eff effective_manual_review_reasons_def)
  next
    case False
    have "rr_code x \<notin> set (stripped_codes effect recomputed fixed)" if "x \<in> set (source_tax_review_reasons assessment)" for x
      using stripped_never_hard [of "rr_code x"] source_reason_blocks [OF that] by auto
    with False m(3) show ?thesis by (auto simp: eff effective_manual_review_reasons_def)
  qed
  then have "ed_effective_review_reasons eff \<noteq> []" using assms(4) by (auto split: if_splits)
  then have "ed_effective_workflow eff = WF_MANUAL_REVIEW" using fields d by (simp add: effective_workflow_def)
  moreover have "build_review_execution_evidence review_id company_id version (se_invoice source) (ed_execution_decision_result eff) = Inr None"
  proof (cases "is_return_invoice (se_invoice source)")
    case False
    from assms(4) obtain x where "x \<in> set (source_tax_review_reasons assessment)" by (cases "source_tax_review_reasons assessment") auto
    with False m(3) source_reason_blocks have "list_ex blocks_evidence (mr_reasons m)" by (auto simp: list_ex_iff)
    with fields d show ?thesis by (simp add: build_review_execution_evidence_def)
  qed (simp add: build_review_execution_evidence_def)
  ultimately show ?thesis using keep same w' by simp
qed

section \<open>An example\<close>

text \<open>An operator has capitalized the invoice, but its stored document is missing.\<close>

definition example_source :: source_invoice_evidence where
  "example_source = \<lparr>se_review_id = ''r'', se_company_id = 1, se_review_version = 1, se_source_invoice_id = ''U1'', se_invoice = exempt_invoice\<rparr>"

definition example_resolver :: "tax_assessment \<Rightarrow> string decision_resolver" where
  "example_resolver assessment =
     \<lparr>dv_decision_engine = deterministic_decision_engine (example_engine PRODUCT_SOURCE_SUPPLIER_EXPENSE_MATCH) (\<lambda>_ _ _. Inr []) (\<lambda>_. Inr []),
      dv_read_source = (\<lambda>_ _. Inr example_source), dv_assess = (\<lambda>_ _ _. Inr assessment), dv_lookup_accepted_supplier = None,
      dv_match_expense = None, dv_find_accounting_resolution = Some (\<lambda>_ _. Inr (Some
        \<lparr>ac_id = 5, ac_treatment_type = ''capitalize_fixed_asset'', ac_expense_account_id = None, ac_expense_category = None,
         ac_asset_account_id = Some 9, ac_depreciation_model_id = Some 4\<rparr>))\<rparr>"

lemma example_resolved:
  "map_option (\<lambda>e. (se_invoice (ed_source e), map rr_code (de_review_reasons (ed_decision_result e)), de_fixed_asset_accounting (ed_execution_decision_result e) \<noteq> None))
     (case fst (resolve_decision (example_resolver (Unverified DOCUMENT_MISSING)) ''r'' 1 ''k'' ''world'') of Inl _ \<Rightarrow> None | Inr e \<Rightarrow> Some e)
   = Some (exempt_invoice, [SOURCE_DOCUMENT_UNVERIFIED, OPERATING_EXPENSE_MAPPING_REQUIRED], True)"
  by code_simp

theorem hard_block_survives_witness:
  "\<exists>eff. resolve_decision (example_resolver (Unverified DOCUMENT_MISSING)) ''r'' 1 ''k'' ''world'' = (Inr eff, ''world'')
     \<and> de_fixed_asset_accounting (ed_execution_decision_result eff) \<noteq> None \<and> ed_effective_workflow eff = WF_MANUAL_REVIEW
     \<and> build_review_execution_evidence ''r'' 1 1 exempt_invoice (ed_execution_decision_result eff) = Inr None"
proof -
  let ?resolver = "example_resolver (Unverified DOCUMENT_MISSING)"
  obtain res w' where run: "resolve_decision ?resolver ''r'' 1 ''k'' ''world'' = (res, w')" by fastforce
  with example_resolved obtain eff where eff: "res = Inr eff" "se_invoice (ed_source eff) = exempt_invoice"
    "de_fixed_asset_accounting (ed_execution_decision_result eff) \<noteq> None" by (auto split: sum.splits)
  have "dv_assess ?resolver ''r'' 1 (Some (hd_invoice_uuid (iv_header (se_invoice (ed_source eff))))) = Inr (Unverified DOCUMENT_MISSING)"
    "dv_decision_engine ?resolver = deterministic_decision_engine (example_engine PRODUCT_SOURCE_SUPPLIER_EXPENSE_MATCH) (\<lambda>_ _ _. Inr []) (\<lambda>_. Inr [])"
    by (simp_all add: example_resolver_def)
  from hard_block_survives [OF run [unfolded eff(1)] this(2,1), of 1] eff run show ?thesis by simp
qed

end
