(* ===== verification/Spec2Isabelle.thy ===== *)
theory Spec2Isabelle
  imports Allocations Write_Authorization Exec_Planner Exec_Service Exec_Commands Tax_Exemption Bill_Money Expense_Store
    Fx_Verify Effective_Decision
begin

text \<open>
  A verification of the core of the ICT integration hub: a service that reads supplier invoices,
  matches them with an ERP, has a reviewer accept a decision and executes that decision as writes
  into the ERP. The parts that decide what is written, how often and on whose authority are modelled
  statement by statement from \<^verbatim>\<open>src/app\<close>; each exception is a value of a sum type, each frozen
  dataclass a record whose \<^verbatim>\<open>__post_init__\<close> is a chain of checks, each mutable object an explicit
  state.

  \<^bold>\<open>The parts and how they interact.\<close> An invoice is parsed into the records of \<^verbatim>\<open>Invoice_Data\<close>. The
  decision engine (\<^verbatim>\<open>Decision_Engine\<close>) asks the deterministic rules (\<^verbatim>\<open>Rule_Engine\<close>), which call the
  matching of supplier and products (\<^verbatim>\<open>Matching\<close>), the tax mapping (\<^verbatim>\<open>Tax_Mapping\<close>, \<^verbatim>\<open>Tax_Exemption\<close>), the
  expense mapping (\<^verbatim>\<open>Expense_Mapping\<close>) and the assessment of the stored document (\<^verbatim>\<open>Source_Tax\<close>); it
  classifies the invoice by rules that operators wrote in the ERP (\<^verbatim>\<open>Rule_Authoring\<close>,
  \<^verbatim>\<open>Classification\<close>) and always ends in a review. What the reviewer works on is the effective decision
  (\<^verbatim>\<open>Effective_Decision\<close>): the same engine again, with the supplier (\<^verbatim>\<open>Effective_Supplier\<close>) and the
  accounting that operators accepted folded in, and the evidence pinned for it (\<^verbatim>\<open>Review_Evidence\<close>).
  A reviewer accepts a decision, which may split the invoice total over business contexts
  (\<^verbatim>\<open>Allocations\<close>). A command to execute the decision (\<^verbatim>\<open>Exec_UseCase\<close>) turns it into a plan
  (\<^verbatim>\<open>Exec_Planner\<close>), claims a one-time write authorization (\<^verbatim>\<open>Write_Authorization\<close>), passes the
  preflight policy (\<^verbatim>\<open>Exec_Strategy\<close>), stores the plan as a durable execution (\<^verbatim>\<open>Exec_Repository\<close>) and
  lets the runtime coordinator (\<^verbatim>\<open>Exec_Coordinator\<close>) call one strategy per step, recording every
  change of state as an event under optimistic locking. Everything happens in one database session
  that commits at the end or rolls back. A bill is built and checked by \<^verbatim>\<open>Vendor_Bill\<close>, in the
  arithmetic of \<^verbatim>\<open>Money\<close>; a foreign currency passes the guard of \<^verbatim>\<open>Fx_Guard\<close> before and the
  verification of \<^verbatim>\<open>Fx_Verify\<close> after the bill exists, and the tax backstop of \<^verbatim>\<open>Source_Tax\<close> runs last.

  \<^bold>\<open>Theories.\<close>
  \<^item> \<^verbatim>\<open>Prelude\<close>: exceptions as sums, state with exceptions, guard chains, the \<^verbatim>\<open>named_theorems\<close>
    collections, lemmas on lists, options and maps. \<^verbatim>\<open>Py_Decimal\<close>: Python's \<^verbatim>\<open>Decimal\<close> with the
    28-digit context. \<^verbatim>\<open>Hub_Errors\<close>: the exception classes. \<^verbatim>\<open>Json_Data\<close>, \<^verbatim>\<open>Json_Text\<close>: JSON values
    and \<^verbatim>\<open>json.dumps\<close>. \<^verbatim>\<open>Sha256\<close>, \<^verbatim>\<open>Uuid5\<close>: the hash functions behind the idempotency key and the
    execution id.
  \<^item> \<^verbatim>\<open>Allocations\<close> (\<^verbatim>\<open>application/workbench/allocations.py\<close>): every validator of both dataclasses;
    an accepted set reconciles exactly with the invoice total.
  \<^item> \<^verbatim>\<open>Write_Authorization\<close> (\<^verbatim>\<open>application/workbench/write_authorization.py\<close>, its repository and
    table): issuing, revoking and claiming under row locks; an authorization admits one execution in
    every interleaving of sessions.
  \<^item> \<^verbatim>\<open>Exec_Contracts\<close>, \<^verbatim>\<open>Exec_Runtime\<close> (\<^verbatim>\<open>application/execution/contracts.py\<close>, \<^verbatim>\<open>runtime.py\<close>): the
    dataclasses with their checks, the transition table, retry policies.
  \<^item> \<^verbatim>\<open>Exec_Planner\<close> (\<^verbatim>\<open>planner.py\<close>): plans are valid, ordered, and cover each allocation once;
    billing instructions are planned exactly; the idempotency key identifies a plan.
  \<^item> \<^verbatim>\<open>Exec_Json\<close>, \<^verbatim>\<open>Exec_Repository\<close>, \<^verbatim>\<open>Exec_Store\<close>
    (\<^verbatim>\<open>persistence/execution_runtime_repository.py\<close>, \<^verbatim>\<open>models/workflow_execution.py\<close>): the tables, the
    conversions and every method; versions have one winner, histories are append-only, creation is
    idempotent. \<^verbatim>\<open>stored db sn evs\<close> is the abstraction from tables to a snapshot and its events.
  \<^item> \<^verbatim>\<open>Exec_Strategy\<close> (\<^verbatim>\<open>strategy.py\<close>, \<^verbatim>\<open>coordinator.py\<close>, \<^verbatim>\<open>preflight.py\<close>, \<^verbatim>\<open>state.py\<close>): resolver,
    sequential coordinator, preflight policy, in-memory repository.
  \<^item> \<^verbatim>\<open>Exec_Machine\<close> is the abstract specification of an execution: which event logs are legal and what
    state a log amounts to. \<^verbatim>\<open>Exec_Coordinator\<close> (\<^verbatim>\<open>runtime_service.py\<close>) is the code.
    \<^verbatim>\<open>Exec_Refinement\<close> states the contract of the store as the locale \<^verbatim>\<open>snapshot_store\<close>,
    \<^verbatim>\<open>Exec_Runs\<close> proves what the coordinator does on any such store, and \<^verbatim>\<open>Exec_Service\<close> interprets
    the locale on the repository: the stored snapshot is always the state that the machine computes
    from the stored history, steps complete once and in order, failures are bounded, resuming ends.
  \<^item> \<^verbatim>\<open>Exec_UseCase\<close>, \<^verbatim>\<open>Exec_Commands\<close> (\<^verbatim>\<open>accepted_decision_use_cases.py\<close>,
    \<^verbatim>\<open>write_authorization_use_cases.py\<close>): commands as transactions over tables, authorizations and the
    outside world; all or nothing, no write without permission.
  \<^item> \<^verbatim>\<open>Invoice_Data\<close>, \<^verbatim>\<open>Matching\<close> (\<^verbatim>\<open>domain/invoice/dto.py\<close>, \<^verbatim>\<open>source_profiles.py\<close>,
    \<^verbatim>\<open>erp/models.py\<close>, \<^verbatim>\<open>matching\<close>): both matching engines; a match is found exactly when all
    evidence agrees.
  \<^item> \<^verbatim>\<open>Py_Decimal_Ops\<close>, \<^verbatim>\<open>Money\<close> (\<^verbatim>\<open>billing/money.py\<close>, \<^verbatim>\<open>reconciliation.py\<close>): the remaining operations
    of \<^verbatim>\<open>Decimal\<close>; rounding to a currency is exact.
  \<^item> \<^verbatim>\<open>Tax_Mapping\<close>, \<^verbatim>\<open>Tax_Facts\<close>, \<^verbatim>\<open>Tax_Exemption\<close> (\<^verbatim>\<open>tax_mapping\<close>, \<^verbatim>\<open>domain/invoice/tax_facts.py\<close>): a tax
    is mapped exactly when one valid tax exists, the cache changes nothing, and an exemption is
    granted only if the document proves it.
  \<^item> \<^verbatim>\<open>Fx_Rate\<close>, \<^verbatim>\<open>Fx_Guard\<close>, \<^verbatim>\<open>Fx_Verify\<close> (\<^verbatim>\<open>domain/invoice/fx_facts.py\<close>, \<^verbatim>\<open>billing/fx_rate.py\<close>,
    \<^verbatim>\<open>vendor_bill_fx_guard.py\<close>): the rate of a foreign bill is the document's, and a verified bill
    follows it.
  \<^item> \<^verbatim>\<open>Expense_Mapping\<close>, \<^verbatim>\<open>Expense_Store\<close> (\<^verbatim>\<open>application/expense_mapping\<close>, \<^verbatim>\<open>fixed_asset_accounting.py\<close>, the
    mapping table): matching by predicates; onboarding keeps the table sound.
  \<^item> \<^verbatim>\<open>Vendor_Bill\<close>, \<^verbatim>\<open>Bill_Proofs\<close>, \<^verbatim>\<open>Bill_Money\<close> (\<^verbatim>\<open>billing/dto.py\<close>, \<^verbatim>\<open>builder.py\<close>): a built bill and its
    payload say what the invoice and the matches say, and the gate keeps every amount.
  \<^item> \<^verbatim>\<open>Classification\<close>, \<^verbatim>\<open>Rule_Authoring\<close> (\<^verbatim>\<open>application/rules\<close>, \<^verbatim>\<open>erp/odoo/decision_rule_mapper.py\<close>,
    \<^verbatim>\<open>decision_rule_repository.py\<close>): classification is total on constructed rules and decided by the
    best of them; the rules of a read do not depend on the order of its rows.
  \<^item> \<^verbatim>\<open>Source_Tax\<close>, \<^verbatim>\<open>Effective_Supplier\<close>, \<^verbatim>\<open>Rule_Engine\<close>, \<^verbatim>\<open>Decision_Engine\<close>, \<^verbatim>\<open>Review_Evidence\<close>,
    \<^verbatim>\<open>Effective_Decision\<close> (\<^verbatim>\<open>application/source_tax\<close>, \<^verbatim>\<open>effective_supplier.py\<close>, \<^verbatim>\<open>rules/deterministic.py\<close>,
    \<^verbatim>\<open>decision\<close>, \<^verbatim>\<open>use_cases\<close>): when a bill is selected, that importing never writes, and that nothing an
    operator accepts routes around a hard block of the document.

  \<^bold>\<open>Parameters.\<close> Code outside the modelled files is an argument: strategies and write gates are
  functions on an abstract outside world; the readers of reviews and decisions, the ERP lookups, the
  storage of documents with its XML parser and the uuid4 supply are functions. The hypotheses on them are named in the statements: the uuid4
  supply never repeats, and the ports keep their documented contract.

  \<^bold>\<open>Bounds.\<close> No model uses fuel: loops are structural recursion over steps, allocations and rows, and
  the one loop of the outside, resuming again and again, is bounded by a theorem in terms of the
  number of steps and the retry policy. Decimals are exact integers with an exponent, rounded to the 28
  digits of the context where the code computes; theorems on bill amounts state the sizes up to which
  no rounding happens.

  \<^bold>\<open>Not modelled.\<close> Lost database connections; the concrete ERP strategies and adapters, which are calls
  to remote services; XML parsing, HTTP routes, schemas, command lines, polling workers and the
  wiring of objects other than that of the decision engine; the review repositories and the use cases
  of the workbench around them, which the modelled parts read through ports.
\<close>

end
